(* ===== verification/Prelude.thy ===== *)
theory Prelude
  imports Main "HOL-Library.List_Lexorder" "HOL-Library.AList"
begin

text \<open>
  The shared ground of the development: Python exceptions as values, the result type every
  fallible operation returns, Python strings as lists of code points, and the generic lemmas
  on results, strings and association lists that the component theories rely on.
\<close>

section \<open>Exceptions and results\<close>

text \<open>
  Every \<open>raise\<close> of the modelled code is a value of \<open>exn\<close>.  \<open>JobError\<close> carries the code and
  the message of \<open>contract.JobError\<close>, \<open>DeployError\<close> those of \<open>model.DeployError\<close>,
  \<open>LocalHandError\<close> the code of \<open>protocol.LocalHandError\<close> (its messages quote the value);
  \<open>BudgetExhausted\<close> and \<open>LedgerBusy\<close> are the two subclasses of \<open>JobError\<close> that callers tell
  apart (the first has the fixed code \<open>LIMIT_EXCEEDED\<close>), \<open>QuotaError\<close> carries the code of
  \<open>quota_contract.QuotaError\<close>, \<open>SqliteError\<close> the extended result code of an \<open>sqlite3.Error\<close>, and
  \<open>PyError\<close> is any other exception of Python itself, by the name of its class.
\<close>

datatype exn =
    JobError string string
  | DeployError string string
  | LocalHandError string
  | BudgetExhausted string
  | LedgerBusy string string
  | QuotaError string
  | SqliteError int
  | PyError string

type_synonym 'a res = "exn + 'a"

definition bindE :: "'a res \<Rightarrow> ('a \<Rightarrow> 'b res) \<Rightarrow> 'b res" where
  "bindE m f = (case m of Inl e \<Rightarrow> Inl e | Inr x \<Rightarrow> f x)"

text \<open>A statement that may raise, followed by the rest of the function.\<close>

definition thenE :: "unit res \<Rightarrow> 'b res \<Rightarrow> 'b res" where
  "thenE m r = (case m of Inl e \<Rightarrow> Inl e | Inr _ \<Rightarrow> r)"

text \<open>\<open>if c: raise e\<close>\<close>

definition raise_if :: "bool \<Rightarrow> exn \<Rightarrow> unit res" where
  "raise_if c e = (if c then Inl e else Inr ())"

text \<open>\<open>for x in xs: f(x)\<close>, where the first exception ends the loop.\<close>

fun forE :: "'a list \<Rightarrow> ('a \<Rightarrow> unit res) \<Rightarrow> unit res" where
  "forE [] f = Inr ()"
| "forE (x # xs) f = (case f x of Inl e \<Rightarrow> Inl e | Inr _ \<Rightarrow> forE xs f)"

text \<open>A loop that threads a state.\<close>

fun foldE :: "('s \<Rightarrow> 'a \<Rightarrow> 's res) \<Rightarrow> 's \<Rightarrow> 'a list \<Rightarrow> 's res" where
  "foldE f s [] = Inr s"
| "foldE f s (x # xs) = (case f s x of Inl e \<Rightarrow> Inl e | Inr s' \<Rightarrow> foldE f s' xs)"

text \<open>A comprehension \<open>[f(x) for x in xs]\<close> whose element may raise.\<close>

fun mapE :: "('a \<Rightarrow> 'b res) \<Rightarrow> 'a list \<Rightarrow> 'b list res" where
  "mapE f [] = Inr []"
| "mapE f (x # xs) = (case f x of Inl e \<Rightarrow> Inl e | Inr y \<Rightarrow>
     (case mapE f xs of Inl e \<Rightarrow> Inl e | Inr ys \<Rightarrow> Inr (y # ys)))"

text \<open>\<open>d[k]\<close> on an optional lookup: a missing key raises \<open>KeyError\<close>.\<close>

definition key_or_raise :: "'a option \<Rightarrow> 'a res" where
  "key_or_raise x = (case x of None \<Rightarrow> Inl (PyError ''KeyError'') | Some v \<Rightarrow> Inr v)"

named_theorems res_simps \<open>the equations that take a successful result apart\<close>

lemma bindE_Inr_iff [res_simps]:
  "bindE m f = Inr y \<longleftrightarrow> (\<exists>x. m = Inr x \<and> f x = Inr y)"
  by (cases m) (auto simp: bindE_def)

lemma bindE_Inl_iff: "bindE m f = Inl e \<longleftrightarrow> m = Inl e \<or> (\<exists>x. m = Inr x \<and> f x = Inl e)"
  by (cases m) (auto simp: bindE_def)

lemma thenE_Inr_iff [res_simps]: "thenE m r = Inr y \<longleftrightarrow> m = Inr () \<and> r = Inr y"
  by (cases m) (auto simp: thenE_def)

lemma raise_if_Inr_iff [res_simps]: "raise_if c e = Inr u \<longleftrightarrow> \<not> c"
  by (simp add: raise_if_def)

lemma raise_if_Inl_iff [simp]: "raise_if c e = Inl e' \<longleftrightarrow> c \<and> e' = e"
  by (auto simp: raise_if_def)

lemma key_or_raise_Inr_iff [res_simps]: "key_or_raise x = Inr v \<longleftrightarrow> x = Some v"
  by (cases x) (auto simp: key_or_raise_def)

lemma forE_Inr_iff [res_simps]: "forE xs f = Inr u \<longleftrightarrow> (\<forall>x \<in> set xs. f x = Inr ())"
  by (induction xs) (auto split: sum.splits)

lemma mapE_Inr_iff [res_simps]:
  "mapE f xs = Inr ys \<longleftrightarrow> length ys = length xs \<and> (\<forall>i < length xs. f (xs ! i) = Inr (ys ! i))"
proof (induction xs arbitrary: ys)
  case Nil
  then show ?case by auto
next
  case (Cons x xs)
  show ?case
  proof (cases ys)
    case Nil
    then show ?thesis by (auto split: sum.splits)
  next
    case (Cons y zs)
    then show ?thesis
      using Cons.IH [of zs] by (auto simp: nth_Cons' less_Suc_eq_0_disj split: sum.splits)
  qed
qed

lemma bindE_simps [simp]: "bindE (Inl e) f = Inl e" "bindE (Inr x) f = f x"
  by (simp_all add: bindE_def)

lemma thenE_simps [simp]: "thenE (Inl e) r = Inl e" "thenE (Inr u) r = r"
  by (simp_all add: thenE_def)

lemma raise_if_simps [simp]: "raise_if True e = Inl e" "raise_if False e = Inr ()"
  by (simp_all add: raise_if_def)

lemma key_or_raise_simps [simp]:
  "key_or_raise None = Inl (PyError ''KeyError'')" "key_or_raise (Some v) = Inr v"
  by (simp_all add: key_or_raise_def)

text \<open>A loop keeps what each of its rounds keeps.\<close>

lemma foldE_invariant:
  assumes "\<And>s x s'. x \<in> set xs \<Longrightarrow> P s \<Longrightarrow> f s x = Inr s' \<Longrightarrow> P s'"
    and "P s" and "foldE f s xs = Inr s'"
  shows "P s'"
  using assms
proof (induction xs arbitrary: s)
  case Nil
  then show ?case by simp
next
  case (Cons x xs)
  from Cons.prems(3) obtain t where t: "f s x = Inr t" and rest: "foldE f t xs = Inr s'"
    by (auto split: sum.splits)
  from Cons.prems(1) [of x s t] Cons.prems(2) t have "P t" by simp
  show ?case
  proof (rule Cons.IH [OF _ \<open>P t\<close> rest])
    fix y r r'
    assume "y \<in> set xs" "P r" "f r y = Inr r'"
    then show "P r'" using Cons.prems(1) [of y r r'] by simp
  qed
qed

text \<open>A loop whose invariant relates its state to the elements it has consumed.\<close>

lemma foldE_history:
  assumes "\<And>ys s x s'. I ys s \<Longrightarrow> x \<in> set xs \<Longrightarrow> f s x = Inr s' \<Longrightarrow> I (ys @ [x]) s'"
    and "I ys s" and "foldE f s xs = Inr s'"
  shows "I (ys @ xs) s'"
  using assms
proof (induction xs arbitrary: ys s)
  case Nil
  then show ?case by simp
next
  case (Cons x xs)
  from Cons.prems(3) obtain t where t: "f s x = Inr t" and rest: "foldE f t xs = Inr s'"
    by (auto split: sum.splits)
  have "I (ys @ [x]) t" by (rule Cons.prems(1) [OF Cons.prems(2) _ t]) simp
  from Cons.IH [OF _ this rest] Cons.prems(1) show ?case by simp
qed

section \<open>Python strings\<close>

text \<open>
  A Python \<open>str\<close> is a list of code points, a \<open>bytes\<close> object a list of numbers below 256.
  The literals of the source are ASCII; \<open>lit\<close> embeds them.
\<close>

type_synonym pystr = "nat list"
type_synonym bytes = "nat list"

definition lit :: "string \<Rightarrow> pystr" where
  "lit s = map of_char s"

lemma lit_inject [simp]: "lit s = lit t \<longleftrightarrow> s = t"
proof -
  have "inj (map (of_char :: char \<Rightarrow> nat))"
    by (intro inj_mapI injI) (metis of_char_eq_iff)
  then show ?thesis by (auto simp: lit_def dest: injD)
qed

lemma length_lit [simp]: "length (lit s) = length s"
  by (simp add: lit_def)

lemma lit_append: "lit (s @ t) = lit s @ lit t"
  by (simp add: lit_def)

lemma lit_eq_Nil [simp]: "lit s = [] \<longleftrightarrow> s = []" "[] = lit s \<longleftrightarrow> s = []"
  by (auto simp: lit_def)

lemma lit_below_256: "c \<in> set (lit s) \<Longrightarrow> c < 256"
  by (auto simp: lit_def of_char_of)

section \<open>Association lists\<close>

text \<open>
  A Python dictionary keeps its insertion order and has distinct keys: \<open>AList.update\<close> replaces
  the value of a present key in place and appends a new key at the end, \<open>AList.delete\<close> removes.
\<close>

lemma map_of_update [simp]: "map_of (AList.update k v xs) = (map_of xs)(k \<mapsto> v)"
  by (simp add: update_conv')

lemma map_of_delete [simp]: "map_of (AList.delete k xs) = (map_of xs)(k := None)"
  by (simp add: delete_conv')

end
