(* ===== verification/Json.thy ===== *)
theory Json
  imports Prelude
begin

text \<open>
  JSON values as the code has them (Python objects of the json module), the dictionary
  operations the code applies to them, Python's equality on them, and the canonical text
  \<open>json.dumps(value, sort_keys=True, separators=(",", ":"), ensure_ascii=True)\<close> that
  \<open>contract.canonical_bytes\<close>, \<open>state.encoded\<close> and \<open>model.canonical\<close> share.
\<close>

section \<open>Values\<close>

text \<open>
  A dictionary is an association list in insertion order.  A float is carried by the text of
  its \<open>repr\<close>: the modelled code never computes with one.
\<close>

datatype json =
    JNull
  | JBool bool
  | JInt int
  | JFloat string
  | JStr pystr
  | JList "json list"
  | JObj "(pystr \<times> json) list"

type_synonym dict = "(pystr \<times> json) list"

abbreviation jlit :: "string \<Rightarrow> json" where
  "jlit s \<equiv> JStr (lit s)"

subsection \<open>Python type tests\<close>

fun is_dict :: "json \<Rightarrow> bool" where
  "is_dict (JObj _) = True"
| "is_dict _ = False"

fun is_list :: "json \<Rightarrow> bool" where
  "is_list (JList _) = True"
| "is_list _ = False"

fun is_str :: "json \<Rightarrow> bool" where
  "is_str (JStr _) = True"
| "is_str _ = False"

text \<open>\<open>type(value) is int\<close>: a bool is not an int under this test.\<close>

fun is_int :: "json \<Rightarrow> bool" where
  "is_int (JInt _) = True"
| "is_int _ = False"

text \<open>Python's truth value of an object.\<close>

fun truthy :: "json \<Rightarrow> bool" where
  "truthy JNull = False"
| "truthy (JBool b) = b"
| "truthy (JInt n) = (n \<noteq> 0)"
| "truthy (JFloat s) = (s \<notin> {''0.0'', ''-0.0''})"
| "truthy (JStr s) = (s \<noteq> [])"
| "truthy (JList xs) = (xs \<noteq> [])"
| "truthy (JObj kvs) = (kvs \<noteq> [])"

lemma is_dict_iff: "is_dict v \<longleftrightarrow> (\<exists>kvs. v = JObj kvs)"
  by (cases v) auto

lemma is_list_iff: "is_list v \<longleftrightarrow> (\<exists>xs. v = JList xs)"
  by (cases v) auto

lemma is_str_iff: "is_str v \<longleftrightarrow> (\<exists>s. v = JStr s)"
  by (cases v) auto

lemma is_int_iff: "is_int v \<longleftrightarrow> (\<exists>n. v = JInt n)"
  by (cases v) auto

lemmas is_type_iffs = is_dict_iff is_list_iff is_str_iff is_int_iff

subsection \<open>Dictionaries\<close>

text \<open>\<open>v.get(k)\<close> as an option; anything that is not a dictionary has no keys.\<close>

definition dget :: "json \<Rightarrow> pystr \<Rightarrow> json option" where
  "dget v k = (case v of JObj kvs \<Rightarrow> map_of kvs k | _ \<Rightarrow> None)"

abbreviation fld :: "json \<Rightarrow> string \<Rightarrow> json option" where
  "fld v k \<equiv> dget v (lit k)"

text \<open>\<open>v[k]\<close>: a missing key raises \<open>KeyError\<close>, a value that is no dictionary \<open>TypeError\<close>.\<close>

definition sub :: "json \<Rightarrow> string \<Rightarrow> json res" where
  "sub v k = (case v of JObj kvs \<Rightarrow> key_or_raise (map_of kvs (lit k))
                      | _ \<Rightarrow> Inl (PyError ''TypeError''))"

text \<open>\<open>v.get(k)\<close>, \<open>v.get(k, d)\<close>\<close>

definition get_or :: "json \<Rightarrow> string \<Rightarrow> json \<Rightarrow> json" where
  "get_or v k d = (case fld v k of None \<Rightarrow> d | Some x \<Rightarrow> x)"

definition jkeys :: "json \<Rightarrow> pystr list" where
  "jkeys v = (case v of JObj kvs \<Rightarrow> map fst kvs | _ \<Rightarrow> [])"

text \<open>\<open>v[k] = x\<close> and \<open>v.pop(k, None)\<close>\<close>

definition dset :: "json \<Rightarrow> pystr \<Rightarrow> json \<Rightarrow> json" where
  "dset v k x = (case v of JObj kvs \<Rightarrow> JObj (AList.update k x kvs) | _ \<Rightarrow> v)"

definition dpop :: "json \<Rightarrow> pystr \<Rightarrow> json" where
  "dpop v k = (case v of JObj kvs \<Rightarrow> JObj (AList.delete k kvs) | _ \<Rightarrow> v)"

text \<open>\<open>v.update(changes)\<close>, also \<open>dict(v, **changes)\<close> and \<open>{**v, **changes}\<close>\<close>

definition dupdate :: "json \<Rightarrow> dict \<Rightarrow> json" where
  "dupdate v changes = fold (\<lambda>(k, x) d. dset d k x) changes v"

text \<open>A dictionary whose keys are literals of the source.\<close>

definition obj :: "(string \<times> json) list \<Rightarrow> json" where
  "obj kvs = JObj (map (\<lambda>(k, v). (lit k, v)) kvs)"

definition has_keys :: "json \<Rightarrow> string list \<Rightarrow> bool" where
  \<comment> \<open>\<open>set(v) == {names}\<close>\<close>
  "has_keys v names = (set (jkeys v) = set (map lit names))"

lemma dget_JObj [simp]: "dget (JObj kvs) k = map_of kvs k"
  by (simp add: dget_def)

lemma dget_not_dict: "\<not> is_dict v \<Longrightarrow> dget v k = None"
  by (cases v) (auto simp: dget_def)

lemma dget_dset [simp]: "is_dict v \<Longrightarrow> dget (dset v k x) k' = (if k' = k then Some x else dget v k')"
  by (cases v) (auto simp: dset_def)

lemma dget_dpop [simp]: "dget (dpop v k) k' = (if k' = k then None else dget v k')"
  by (cases v) (auto simp: dpop_def dget_def)

lemma is_dict_dset [simp]: "is_dict (dset v k x) = is_dict v"
  by (cases v) (auto simp: dset_def)

lemma is_dict_dpop [simp]: "is_dict (dpop v k) = is_dict v"
  by (cases v) (auto simp: dpop_def)

lemma dupdate_Nil [simp]: "dupdate v [] = v"
  by (simp add: dupdate_def)

lemma dupdate_Cons [simp]: "dupdate v ((k, x) # changes) = dupdate (dset v k x) changes"
  by (simp add: dupdate_def)

lemma is_dict_dupdate [simp]: "is_dict (dupdate v changes) = is_dict v"
proof (induction changes arbitrary: v)
  case Nil
  show ?case by simp
next
  case (Cons c changes)
  then show ?case by (cases c) (simp only: dupdate_Cons is_dict_dset)
qed

text \<open>After an update the last write of a key counts, and other keys keep their value.\<close>

lemma dget_dupdate:
  "is_dict v \<Longrightarrow> dget (dupdate v changes) k =
     (case map_of (rev changes) k of None \<Rightarrow> dget v k | Some x \<Rightarrow> Some x)"
proof (induction changes arbitrary: v)
  case Nil
  then show ?case by simp
next
  case (Cons c changes)
  obtain k' x where "c = (k', x)" by (cases c)
  with Cons show ?case by (auto simp: map_add_def split: option.splits)
qed

lemma dget_dupdate_other:
  "is_dict v \<Longrightarrow> k \<notin> fst ` set changes \<Longrightarrow> dget (dupdate v changes) k = dget v k"
  by (simp add: dget_dupdate map_of_eq_None_iff split: option.splits)
    (metis (no_types, lifting) image_iff map_of_SomeD option.distinct(1) set_rev fst_conv)

lemma map_of_lit [simp]:
  "map_of (map (\<lambda>(k, v). (lit k, v)) kvs) (lit s) = map_of kvs s"
  by (induction kvs) auto

lemma dget_obj [simp]: "fld (obj kvs) s = map_of kvs s"
  by (simp add: obj_def)

lemma is_dict_obj [simp]: "is_dict (obj kvs)"
  by (simp add: obj_def)

lemma jkeys_obj [simp]: "jkeys (obj kvs) = map (lit \<circ> fst) kvs"
  by (auto simp: jkeys_def obj_def)

lemma sub_Inr_iff [res_simps]: "sub v k = Inr x \<longleftrightarrow> fld v k = Some x"
  by (cases v) (auto simp: sub_def dget_def res_simps)

lemma sub_obj [simp]: "sub (obj kvs) s = key_or_raise (map_of kvs s)"
  by (simp add: sub_def obj_def)

lemma in_jkeys_iff: "k \<in> set (jkeys v) \<longleftrightarrow> (\<exists>x. dget v k = Some x)"
  by (cases v) (auto simp: jkeys_def dget_def simp flip: dom_map_of_conv_image_fst)

lemma has_keys_obj [simp]: "has_keys (obj kvs) names \<longleftrightarrow> fst ` set kvs = set names"
proof -
  have "inj lit" by (simp add: inj_def)
  then show ?thesis
    by (simp add: has_keys_def image_image [symmetric] image_comp [symmetric] inj_image_eq_iff)
qed

lemma has_keys_get: "has_keys v names \<Longrightarrow> k \<in> set names \<Longrightarrow> \<exists>x. fld v k = Some x"
  by (auto simp: has_keys_def in_jkeys_iff [symmetric])

section \<open>Python equality\<close>

text \<open>
  \<open>==\<close> on these values ignores the order of a dictionary and identifies \<open>True\<close> with \<open>1\<close> and
  \<open>False\<close> with \<open>0\<close>: two values are equal when their normal forms are.
\<close>

function norm :: "json \<Rightarrow> json" where
  "norm JNull = JNull"
| "norm (JBool b) = JInt (if b then 1 else 0)"
| "norm (JInt n) = JInt n"
| "norm (JFloat s) = JFloat s"
| "norm (JStr s) = JStr s"
| "norm (JList xs) = JList (map norm xs)"
| "norm (JObj kvs) = JObj (sort_key fst (map (\<lambda>(k, v). (k, norm v)) kvs))"
  by pat_completeness auto
termination
  by (relation "measure size") (auto simp: less_Suc_eq_le size_list_estimation' elim!: size_list_estimation)

definition jeq :: "json \<Rightarrow> json \<Rightarrow> bool" where
  "jeq a b = (norm a = norm b)"

lemma jeq_refl [simp]: "jeq a a"
  by (simp add: jeq_def)

lemma jeq_sym: "jeq a b \<Longrightarrow> jeq b a"
  by (simp add: jeq_def)

lemma jeq_trans: "jeq a b \<Longrightarrow> jeq b c \<Longrightarrow> jeq a c"
  by (simp add: jeq_def)

lemma jeq_str [simp]: "jeq (JStr a) (JStr b) \<longleftrightarrow> a = b"
  by (simp add: jeq_def)

lemma jeq_int [simp]: "jeq (JInt a) (JInt b) \<longleftrightarrow> a = b"
  by (simp add: jeq_def)

lemma jeq_JStr_right: "jeq v (JStr s) \<longleftrightarrow> v = JStr s"
  by (cases v) (auto simp: jeq_def)

section \<open>What a Python object guarantees\<close>

text \<open>Strings hold code points, and the keys of a dictionary are distinct.\<close>

definition code_points :: "pystr \<Rightarrow> bool" where
  "code_points s = (\<forall>c \<in> set s. c < 1114112)"

fun wf_json :: "json \<Rightarrow> bool" where
  "wf_json (JStr s) = code_points s"
| "wf_json (JList xs) = (\<forall>x \<in> set xs. wf_json x)"
| "wf_json (JObj kvs) = (distinct (map fst kvs) \<and> (\<forall>(k, v) \<in> set kvs. code_points k \<and> wf_json v))"
| "wf_json _ = True"

lemma code_points_lit [simp]: "code_points (lit s)"
  by (auto simp: code_points_def dest!: lit_below_256)

lemma wf_json_obj: "wf_json (obj kvs) \<longleftrightarrow> distinct (map fst kvs) \<and> (\<forall>(k, v) \<in> set kvs. wf_json v)"
proof -
  have "inj_on lit A" for A by (simp add: inj_on_def)
  then show ?thesis
    by (auto simp: obj_def comp_def split_beta distinct_map inj_on_def)
qed

lemma wf_json_dget: "wf_json v \<Longrightarrow> dget v k = Some x \<Longrightarrow> wf_json x"
  by (cases v) (auto simp: dget_def dest!: map_of_SomeD)

lemma wf_json_dpop: "wf_json v \<Longrightarrow> wf_json (dpop v k)"
  by (cases v) (auto simp: dpop_def AList.delete_eq distinct_map_filter)

lemma update_new: "k \<notin> fst ` set xs \<Longrightarrow> AList.update k v xs = xs @ [(k, v)]"
  by (induction xs) auto

end
