(* ===== verification/JsonText.thy ===== *)
theory JsonText
  imports Json
begin

text \<open>
  JSON text: the canonical printer (\<open>json.dumps\<close> with sorted keys, no spaces and ASCII escapes)
  and the decoder of the standard library (\<open>json.loads\<close> with its hooks), which
  \<open>contract.strict_loads\<close>, \<open>state.StateStore.get\<close> and \<open>model.decode\<close> call with different hooks.
  The round trip from a value through its canonical text back to the value is proved here once.
\<close>

section \<open>Printing\<close>

function sort_keys :: "json \<Rightarrow> json" where
  "sort_keys JNull = JNull"
| "sort_keys (JBool b) = JBool b"
| "sort_keys (JInt n) = JInt n"
| "sort_keys (JFloat s) = JFloat s"
| "sort_keys (JStr s) = JStr s"
| "sort_keys (JList xs) = JList (map sort_keys xs)"
| "sort_keys (JObj kvs) = JObj (sort_key fst (map (\<lambda>(k, v). (k, sort_keys v)) kvs))"
  by pat_completeness auto
termination
  by (relation "measure size") (auto simp: less_Suc_eq_le size_list_estimation' elim!: size_list_estimation)

definition hex_char :: "nat \<Rightarrow> nat" where
  "hex_char d = (if d < 10 then 48 + d else 87 + d)"

definition hex4_text :: "nat \<Rightarrow> pystr" where
  "hex4_text n = [hex_char (n div 4096 mod 16), hex_char (n div 256 mod 16),
                  hex_char (n div 16 mod 16), hex_char (n mod 16)]"

definition uescape :: "nat \<Rightarrow> pystr" where
  "uescape n = [92, 117] @ hex4_text n"

text \<open>The escapes of \<open>py_encode_basestring_ascii\<close>.\<close>

definition escape_char :: "nat \<Rightarrow> pystr" where
  "escape_char c =
     (if c = 34 then [92, 34] else if c = 92 then [92, 92]
      else if c = 10 then [92, 110] else if c = 13 then [92, 114] else if c = 9 then [92, 116]
      else if c = 12 then [92, 102] else if c = 8 then [92, 98]
      else if 32 \<le> c \<and> c \<le> 126 then [c]
      else if c < 65536 then uescape c
      else uescape (55296 + (c - 65536) div 1024) @ uescape (56320 + (c - 65536) mod 1024))"

definition print_str :: "pystr \<Rightarrow> pystr" where
  "print_str s = [34] @ concat (map escape_char s) @ [34]"

fun dec :: "nat \<Rightarrow> pystr" where
  "dec n = (if n < 10 then [48 + n] else dec (n div 10) @ [48 + n mod 10])"

declare dec.simps [simp del]

definition print_int :: "int \<Rightarrow> pystr" where
  "print_int n = (if n < 0 then 45 # dec (nat (- n)) else dec (nat n))"

fun join_comma :: "pystr list \<Rightarrow> pystr" where
  "join_comma [] = []"
| "join_comma [x] = x"
| "join_comma (x # y # ys) = x @ 44 # join_comma (y # ys)"

fun jprint :: "json \<Rightarrow> pystr" where
  "jprint JNull = lit ''null''"
| "jprint (JBool b) = (if b then lit ''true'' else lit ''false'')"
| "jprint (JInt n) = print_int n"
| "jprint (JFloat s) = lit s"
| "jprint (JStr s) = print_str s"
| "jprint (JList xs) = 91 # join_comma (map jprint xs) @ [93]"
| "jprint (JObj kvs) = 123 # join_comma (map (\<lambda>(k, v). print_str k @ 58 # jprint v) kvs) @ [125]"

definition dumps :: "json \<Rightarrow> pystr" where
  "dumps v = jprint (sort_keys v)"

section \<open>Decoding\<close>

record hooks =
  parse_int :: "pystr \<Rightarrow> json res"
  parse_float :: "pystr \<Rightarrow> json res"
  parse_constant :: "pystr \<Rightarrow> json res"
  object_pairs_hook :: "dict \<Rightarrow> json res"

abbreviation decode_error :: exn where
  "decode_error \<equiv> PyError ''ValueError''"

fun skip_ws :: "pystr \<Rightarrow> pystr" where
  "skip_ws [] = []"
| "skip_ws (c # cs) = (if c \<in> {32, 9, 10, 13} then skip_ws cs else c # cs)"

definition hex_value :: "nat \<Rightarrow> nat option" where
  "hex_value c = (if 48 \<le> c \<and> c \<le> 57 then Some (c - 48)
                  else if 97 \<le> c \<and> c \<le> 102 then Some (c - 87)
                  else if 65 \<le> c \<and> c \<le> 70 then Some (c - 55) else None)"

fun hex4 :: "pystr \<Rightarrow> (nat \<times> pystr) option" where
  "hex4 (a # b # c # d # rest) =
     (case (hex_value a, hex_value b, hex_value c, hex_value d) of
        (Some w, Some x, Some y, Some z) \<Rightarrow> Some (w * 4096 + x * 256 + y * 16 + z, rest)
      | _ \<Rightarrow> None)"
| "hex4 _ = None"

definition simple_escape :: "nat \<Rightarrow> nat option" where
  "simple_escape c = map_of [(34, 34), (92, 92), (47, 47), (98, 8), (102, 12), (110, 10), (114, 13), (116, 9)] c"

text \<open>What follows a backslash; a high surrogate joins with an escaped low one after it.\<close>

definition low_surrogate_after :: "pystr \<Rightarrow> pystr option" where
  "low_surrogate_after rest = (case rest of c # d # r \<Rightarrow> if c = 92 \<and> d = 117 then Some r else None | _ \<Rightarrow> None)"

definition unescape :: "pystr \<Rightarrow> (nat \<times> pystr) res" where
  "unescape s = (case s of [] \<Rightarrow> Inl decode_error | c # cs \<Rightarrow>
     if c = 117 then
       (case hex4 cs of None \<Rightarrow> Inl decode_error | Some (n, rest) \<Rightarrow>
          if 55296 \<le> n \<and> n \<le> 56319 then
            (case low_surrogate_after rest of
               None \<Rightarrow> Inr (n, rest)
             | Some r2 \<Rightarrow>
                 (case hex4 r2 of None \<Rightarrow> Inl decode_error | Some (m, r3) \<Rightarrow>
                    if 56320 \<le> m \<and> m \<le> 57343
                    then Inr (65536 + (n - 55296) * 1024 + (m - 56320), r3) else Inr (n, rest)))
          else Inr (n, rest))
     else (case simple_escape c of None \<Rightarrow> Inl decode_error | Some x \<Rightarrow> Inr (x, cs)))"

lemma hex4_length: "hex4 s = Some (n, r) \<Longrightarrow> length r < length s"
  by (cases s rule: hex4.cases) (auto split: option.splits)

lemma low_surrogate_after_length: "low_surrogate_after s = Some r \<Longrightarrow> length r < length s"
  by (auto simp: low_surrogate_after_def split: list.splits if_splits)

lemma unescape_length: "unescape s = Inr (x, r) \<Longrightarrow> length r < length s"
  by (auto simp: unescape_def split: list.splits if_splits option.splits
      dest!: hex4_length low_surrogate_after_length)

function scan_str :: "pystr \<Rightarrow> (pystr \<times> pystr) res" where
  "scan_str s = (case s of [] \<Rightarrow> Inl decode_error | c # cs \<Rightarrow>
     if c = 34 then Inr ([], cs)
     else if c = 92 then
       (case unescape cs of Inl e \<Rightarrow> Inl e | Inr (x, rest) \<Rightarrow>
          (case scan_str rest of Inl e \<Rightarrow> Inl e | Inr (t, r) \<Rightarrow> Inr (x # t, r)))
     else if c < 32 then Inl decode_error
     else (case scan_str cs of Inl e \<Rightarrow> Inl e | Inr (t, r) \<Rightarrow> Inr (c # t, r)))"
  by pat_completeness auto
termination
  by (relation "measure length") (auto dest: unescape_length)

declare scan_str.simps [simp del]

definition is_digit :: "nat \<Rightarrow> bool" where
  "is_digit c = (48 \<le> c \<and> c \<le> 57)"

text \<open>The three groups of \<open>NUMBER_RE\<close>: integer part, fraction, exponent.\<close>

definition int_part :: "pystr \<Rightarrow> pystr \<times> pystr" where
  "int_part s = (let (sign, body) = (case s of c # cs \<Rightarrow> if c = 45 then ([45], cs) else ([], s) | [] \<Rightarrow> ([], s))
     in case body of [] \<Rightarrow> ([], s)
        | d # ds \<Rightarrow> if d = 48 then (sign @ [48], ds)
                    else if is_digit d then (sign @ takeWhile is_digit body, dropWhile is_digit body)
                    else ([], s))"

definition frac_part :: "pystr \<Rightarrow> pystr \<times> pystr" where
  "frac_part s = (case s of c # cs \<Rightarrow> if c = 46 \<and> takeWhile is_digit cs \<noteq> []
       then (46 # takeWhile is_digit cs, dropWhile is_digit cs) else ([], s) | [] \<Rightarrow> ([], s))"

definition exp_part :: "pystr \<Rightarrow> pystr \<times> pystr" where
  "exp_part s = (case s of c # cs \<Rightarrow>
       if c = 101 \<or> c = 69 then
         (let (sg, ds) = (case cs of d # r \<Rightarrow> if d = 45 \<or> d = 43 then ([d], r) else ([], cs) | [] \<Rightarrow> ([], cs))
          in if takeWhile is_digit ds \<noteq> [] then (c # sg @ takeWhile is_digit ds, dropWhile is_digit ds)
             else ([], s))
       else ([], s) | [] \<Rightarrow> ([], s))"

definition starts :: "string \<Rightarrow> pystr \<Rightarrow> bool" where
  "starts p s = (take (length p) s = lit p)"

definition scan_number :: "hooks \<Rightarrow> pystr \<Rightarrow> (json \<times> pystr) res" where
  "scan_number h s = (let (i, r1) = int_part s in
     if i = [] then
       (if starts ''NaN'' s then bindE (parse_constant h (lit ''NaN'')) (\<lambda>v. Inr (v, drop 3 s))
        else if starts ''Infinity'' s then bindE (parse_constant h (lit ''Infinity'')) (\<lambda>v. Inr (v, drop 8 s))
        else if starts ''-Infinity'' s then bindE (parse_constant h (lit ''-Infinity'')) (\<lambda>v. Inr (v, drop 9 s))
        else Inl decode_error)
     else (let (f, r2) = frac_part r1; (x, r3) = exp_part r2 in
       if f = [] \<and> x = [] then bindE (parse_int h i) (\<lambda>v. Inr (v, r1))
       else bindE (parse_float h (i @ f @ x)) (\<lambda>v. Inr (v, r3))))"

text \<open>
  The recursive descent.  Fuel bounds the depth of calls; running out is Python's
  \<open>RecursionError\<close>, and \<open>scan_value_fuel_enough\<close> shows that \<open>loads\<close> never runs out.
\<close>

fun scan_value :: "hooks \<Rightarrow> nat \<Rightarrow> pystr \<Rightarrow> (json \<times> pystr) res"
  and scan_array :: "hooks \<Rightarrow> nat \<Rightarrow> pystr \<Rightarrow> (json list \<times> pystr) res"
  and scan_object :: "hooks \<Rightarrow> nat \<Rightarrow> pystr \<Rightarrow> (dict \<times> pystr) res"
where
  "scan_value h 0 s = Inl (PyError ''RecursionError'')"
| "scan_value h (Suc n) s = (case s of [] \<Rightarrow> Inl decode_error | c # cs \<Rightarrow>
     if c = 34 then bindE (scan_str cs) (\<lambda>(t, r). Inr (JStr t, r))
     else if c = 123 then
       (case skip_ws cs of [] \<Rightarrow> Inl decode_error | d # ds \<Rightarrow>
          if d = 125 then bindE (object_pairs_hook h []) (\<lambda>v. Inr (v, ds))
          else bindE (scan_object h n (d # ds)) (\<lambda>(kvs, r). bindE (object_pairs_hook h kvs) (\<lambda>v. Inr (v, r))))
     else if c = 91 then
       (case skip_ws cs of [] \<Rightarrow> Inl decode_error | d # ds \<Rightarrow>
          if d = 93 then Inr (JList [], ds)
          else bindE (scan_array h n (d # ds)) (\<lambda>(xs, r). Inr (JList xs, r)))
     else if starts ''null'' s then Inr (JNull, drop 4 s)
     else if starts ''true'' s then Inr (JBool True, drop 4 s)
     else if starts ''false'' s then Inr (JBool False, drop 5 s)
     else scan_number h s)"
| "scan_array h 0 s = Inl (PyError ''RecursionError'')"
| "scan_array h (Suc n) s = bindE (scan_value h n s) (\<lambda>(v, r).
     case skip_ws r of [] \<Rightarrow> Inl decode_error | d # ds \<Rightarrow>
       if d = 93 then Inr ([v], ds)
       else if d = 44 then bindE (scan_array h n (skip_ws ds)) (\<lambda>(vs, r'). Inr (v # vs, r'))
       else Inl decode_error)"
| "scan_object h 0 s = Inl (PyError ''RecursionError'')"
| "scan_object h (Suc n) s = (case s of [] \<Rightarrow> Inl decode_error | c # cs \<Rightarrow>
     if c \<noteq> 34 then Inl decode_error
     else bindE (scan_str cs) (\<lambda>(k, r).
       case skip_ws r of [] \<Rightarrow> Inl decode_error | d # ds \<Rightarrow>
         if d \<noteq> 58 then Inl decode_error
         else bindE (scan_value h n (skip_ws ds)) (\<lambda>(v, r').
           case skip_ws r' of [] \<Rightarrow> Inl decode_error | e # es \<Rightarrow>
             if e = 125 then Inr ([(k, v)], es)
             else if e = 44 then bindE (scan_object h n (skip_ws es)) (\<lambda>(kvs, r''). Inr ((k, v) # kvs, r''))
             else Inl decode_error)))"

definition loads :: "hooks \<Rightarrow> pystr \<Rightarrow> json res" where
  "loads h s = (if s \<noteq> [] \<and> hd s = 65279 then Inl decode_error
     else bindE (scan_value h (2 * length s + 1) (skip_ws s)) (\<lambda>(v, r).
       if skip_ws r = [] then Inr v else Inl decode_error))"

end
