(* ===== verification/JsonRoundtrip.thy ===== *)
theory JsonRoundtrip
  imports JsonText
begin

text \<open>
  The canonical text of a value decodes to that value with its keys sorted, whatever hooks the
  decoder runs, as long as they keep integers and dictionaries; and decoding never runs out of
  fuel.
\<close>

section \<open>Numbers\<close>

text \<open>\<open>int(text)\<close> on the text of an integer part.\<close>

definition digits_value :: "pystr \<Rightarrow> nat" where
  "digits_value ds = foldl (\<lambda>a c. 10 * a + (c - 48)) 0 ds"

definition int_of_text :: "pystr \<Rightarrow> int" where
  "int_of_text t = (case t of [] \<Rightarrow> 0 | c # cs \<Rightarrow> if c = 45 then - int (digits_value cs) else int (digits_value t))"

lemma dec_digits: "\<forall>c \<in> set (dec n). is_digit c"
proof (induction n rule: dec.induct)
  case (1 n)
  then show ?case by (subst dec.simps) (auto simp: is_digit_def)
qed

lemma dec_nonempty [simp]: "dec n \<noteq> []"
  by (subst dec.simps) simp

lemma digits_value_dec [simp]: "digits_value (dec n) = n"
proof (induction n rule: dec.induct)
  case (1 n)
  then show ?case by (subst dec.simps) (auto simp: digits_value_def)
qed

lemma hd_dec_zero: "hd (dec n) = 48 \<longleftrightarrow> n = 0"
proof (induction n rule: dec.induct)
  case (1 n)
  then show ?case
    by (cases "n < 10") (auto simp: dec.simps [of n] hd_append)
qed

lemma dec_zero [simp]: "dec 0 = [48]"
  by (simp add: dec.simps [of 0])

lemma hd_dec_digit: "is_digit (hd (dec n))"
  using dec_digits [of n] by (cases "dec n") auto

lemma int_of_text_dec: "int_of_text (dec n) = int n"
proof -
  have "hd (dec n) \<noteq> 45"
    using hd_dec_digit [of n] by (auto simp: is_digit_def)
  then have "int_of_text (dec n) = int (digits_value (dec n))"
    unfolding int_of_text_def by (cases "dec n") (auto simp del: digits_value_dec)
  then show ?thesis by simp
qed

lemma int_of_text_print_int [simp]: "int_of_text (print_int n) = n"
  by (simp add: print_int_def int_of_text_dec) (simp add: int_of_text_def)

text \<open>What may follow a value inside a text: nothing, or a comma or a closing bracket.\<close>

definition delim :: "pystr \<Rightarrow> bool" where
  "delim r = (r = [] \<or> hd r \<in> {44, 93, 125})"

definition no_digit :: "pystr \<Rightarrow> bool" where
  "no_digit r = (r = [] \<or> \<not> is_digit (hd r))"

lemma no_digit_delim: "delim r \<Longrightarrow> no_digit r"
  by (auto simp: delim_def no_digit_def is_digit_def)

lemma takeWhile_digits:
  assumes "no_digit r" and "\<forall>d \<in> set ds. is_digit d"
  shows "takeWhile is_digit (ds @ r) = ds" "dropWhile is_digit (ds @ r) = r"
  using assms by (cases r; auto simp: no_digit_def takeWhile_append dropWhile_append)+

lemma takeWhile_digits_dec:
  assumes "no_digit r"
  shows "takeWhile is_digit (dec n @ r) = dec n" "dropWhile is_digit (dec n @ r) = r"
  using assms dec_digits [of n] takeWhile_digits by simp_all

lemma int_part_print_int:
  assumes "no_digit r"
  shows "int_part (print_int n @ r) = (print_int n, r)"
proof -
  have dec_part: "(case dec m @ r of [] \<Rightarrow> ([], s) | d # ds \<Rightarrow> if d = 48 then (sg @ [48], ds)
      else if is_digit d then (sg @ takeWhile is_digit (dec m @ r), dropWhile is_digit (dec m @ r))
      else ([], s)) = (sg @ dec m, r)" for m sg s
  proof (cases "m = 0")
    case False
    then have "hd (dec m) \<noteq> 48" by (simp add: hd_dec_zero)
    then show ?thesis
      using hd_dec_digit [of m] takeWhile_digits_dec [OF assms, of m]
      by (cases "dec m") auto
  qed simp
  show ?thesis
  proof (cases "n < 0")
    case True
    then show ?thesis
      using dec_part [where m = "nat (- n)" and s = "45 # dec (nat (- n)) @ r" and sg = "[45]"]
      by (simp add: int_part_def print_int_def)
  next
    case False
    have "hd (dec (nat n)) \<noteq> 45"
      using hd_dec_digit [of "nat n"] by (auto simp: is_digit_def)
    then show ?thesis
      using False hd_dec_digit [of "nat n"] dec_part [where m = "nat n" and s = "print_int n @ r" and sg = "[]"]
      by (cases "dec (nat n)") (auto simp: int_part_def print_int_def)
  qed
qed

lemma frac_part_delim [simp]: "delim r \<Longrightarrow> frac_part r = ([], r)"
  by (auto simp: frac_part_def delim_def split: list.splits)

lemma exp_part_delim [simp]: "delim r \<Longrightarrow> exp_part r = ([], r)"
  by (auto simp: exp_part_def delim_def split: list.splits)

lemma print_int_nonempty [simp]: "print_int n \<noteq> []"
  by (simp add: print_int_def)

lemma scan_number_print_int:
  "delim r \<Longrightarrow> scan_number h (print_int n @ r) = bindE (parse_int h (print_int n)) (\<lambda>v. Inr (v, r))"
  by (simp add: scan_number_def int_part_print_int no_digit_delim)

text \<open>The text of a float as \<open>repr\<close> writes it when no exponent is needed.\<close>

definition float_text :: "pystr \<Rightarrow> bool" where
  "float_text t = (\<exists>n ds. t = print_int n @ 46 # ds \<and> ds \<noteq> [] \<and> (\<forall>d \<in> set ds. is_digit d))"

lemma scan_number_float_text:
  assumes "float_text t" and "delim r"
  shows "scan_number h (t @ r) = bindE (parse_float h t) (\<lambda>v. Inr (v, r))"
proof -
  obtain n ds where t: "t = print_int n @ 46 # ds" and ds: "ds \<noteq> []" "\<forall>d \<in> set ds. is_digit d"
    using assms(1) by (auto simp: float_text_def)
  have "int_part (t @ r) = (print_int n, 46 # ds @ r)"
    using int_part_print_int [of "46 # ds @ r" n] by (simp add: t no_digit_def is_digit_def)
  moreover have "frac_part (46 # ds @ r) = (46 # ds, r)"
    using takeWhile_digits [OF no_digit_delim [OF assms(2)] ds(2)] ds(1) by (simp add: frac_part_def)
  ultimately show ?thesis
    using assms(2) by (simp add: scan_number_def t)
qed

lemma hd_print_int: "hd (print_int n) = 45 \<or> is_digit (hd (print_int n))"
  using hd_dec_digit by (simp add: print_int_def)

lemma hd_float_text: "float_text t \<Longrightarrow> t \<noteq> [] \<and> (hd t = 45 \<or> is_digit (hd t))"
  using hd_print_int by (fastforce simp: float_text_def)

section \<open>Strings\<close>

definition scalar :: "nat \<Rightarrow> bool" where
  "scalar c = (c < 1114112 \<and> \<not> (55296 \<le> c \<and> c \<le> 57343))"

definition scalars :: "pystr \<Rightarrow> bool" where
  "scalars s = (\<forall>c \<in> set s. scalar c)"

lemma hex_value_hex_char: "d < 16 \<Longrightarrow> hex_value (hex_char d) = Some d"
  by (auto simp: hex_value_def hex_char_def)

lemma hex_digits_sum:
  assumes "(n :: nat) < 65536"
  shows "n div 4096 mod 16 * 4096 + n div 256 mod 16 * 256 + n div 16 mod 16 * 16 + n mod 16 = n"
proof -
  define q1 q2 q3 where "q1 = n div 16" and "q2 = q1 div 16" and "q3 = q2 div 16"
  note q = this
  have eqs: "n div 256 = q2" "n div 4096 = q3"
    by (simp_all add: q div_mult2_eq [symmetric])
  have "q3 < 16" using assms by (simp add: eqs [symmetric])
  moreover have "n = 16 * q1 + n mod 16" "q1 = 16 * q2 + q1 mod 16" "q2 = 16 * q3 + q2 mod 16"
    by (simp_all add: q)
  ultimately show ?thesis by (simp add: eqs q(1) [symmetric])
qed

lemma hex4_hex4_text: "n < 65536 \<Longrightarrow> hex4 (hex4_text n @ r) = Some (n, r)"
  using hex_digits_sum [of n] by (simp add: hex4_text_def hex_value_hex_char)

lemma unescape_uescape:
  "n < 65536 \<Longrightarrow> \<not> (55296 \<le> n \<and> n \<le> 56319) \<Longrightarrow> unescape (117 # hex4_text n @ r) = Inr (n, r)"
  by (auto simp: unescape_def hex4_hex4_text)

lemma unescape_pair:
  assumes "65536 \<le> c" and "c < 1114112"
  shows "unescape (117 # hex4_text (55296 + (c - 65536) div 1024) @
           uescape (56320 + (c - 65536) mod 1024) @ r) = Inr (c, r)"
proof -
  have hi: "(c - 65536) div 1024 < 1024" using assms by auto
  have pos_mod: "(c - 65536) mod 1024 \<le> 1023" by (simp add: less_Suc_eq_le [symmetric])
  have join: "65536 + (c - 65536) div 1024 * 1024 + (c - 65536) mod 1024 = c"
    using assms by simp
  show ?thesis
    using hi join pos_mod by (simp add: unescape_def hex4_hex4_text uescape_def low_surrogate_after_def)
qed

lemma scan_str_cons_escape:
  assumes "unescape s = Inr (c, r)"
  shows "scan_str (92 # s) = bindE (scan_str r) (\<lambda>(t, r'). Inr (c # t, r'))"
  by (subst scan_str.simps) (simp add: assms bindE_def split: sum.splits prod.splits)

lemma scan_str_plain:
  "32 \<le> c \<Longrightarrow> c \<noteq> 34 \<Longrightarrow> c \<noteq> 92 \<Longrightarrow>
     scan_str (c # r) = bindE (scan_str r) (\<lambda>(t, r'). Inr (c # t, r'))"
  by (subst scan_str.simps) (simp add: bindE_def split: sum.splits prod.splits)

lemma scan_str_escape_char:
  assumes "scalar c"
  shows "scan_str (escape_char c @ r) = bindE (scan_str r) (\<lambda>(t, r'). Inr (c # t, r'))"
proof -
  consider (simple) "c \<in> {34, 92, 10, 13, 9, 12, 8}"
    | (plain) "32 \<le> c" "c \<le> 126" "c \<noteq> 34" "c \<noteq> 92"
    | (bmp) "c \<notin> {34, 92, 10, 13, 9, 12, 8}" "\<not> (32 \<le> c \<and> c \<le> 126)" "c < 65536"
    | (pair) "65536 \<le> c" by fastforce
  then show ?thesis
  proof cases
    case simple
    then show ?thesis
      by (auto simp: escape_char_def intro!: scan_str_cons_escape simp: unescape_def simple_escape_def)
  next
    case plain
    then show ?thesis by (simp add: escape_char_def scan_str_plain)
  next
    case bmp
    then have "escape_char c = 92 # 117 # hex4_text c"
      by (simp add: escape_char_def uescape_def)
    moreover have "unescape (117 # hex4_text c @ r) = Inr (c, r)"
      using bmp assms by (intro unescape_uescape) (auto simp: scalar_def)
    ultimately show ?thesis by (simp add: scan_str_cons_escape)
  next
    case pair
    let ?s = "117 # hex4_text (55296 + (c - 65536) div 1024) @ uescape (56320 + (c - 65536) mod 1024) @ r"
    have "escape_char c @ r = 92 # ?s"
      using pair by (simp add: escape_char_def uescape_def)
    moreover have "unescape ?s = Inr (c, r)"
      using pair assms by (intro unescape_pair) (auto simp: scalar_def)
    ultimately show ?thesis using scan_str_cons_escape [of ?s c r] by metis
  qed
qed

lemma scan_str_print_str:
  "scalars s \<Longrightarrow> scan_str (concat (map escape_char s) @ 34 # r) = Inr (s, r)"
proof (induction s)
  case Nil
  show ?case by (subst scan_str.simps) simp
next
  case (Cons c s)
  then show ?case by (simp add: scan_str_escape_char scalars_def)
qed

section \<open>Values\<close>

text \<open>
  A value that the hooks keep: every string of scalar code points, every number and
  every dictionary returned by its hook as it is.
\<close>

fun accepts :: "hooks \<Rightarrow> json \<Rightarrow> bool" where
  "accepts h JNull = True"
| "accepts h (JBool b) = True"
| "accepts h (JInt n) = (parse_int h (print_int n) = Inr (JInt n))"
| "accepts h (JFloat s) = (float_text (lit s) \<and> parse_float h (lit s) = Inr (JFloat s))"
| "accepts h (JStr s) = scalars s"
| "accepts h (JList xs) = (\<forall>x \<in> set xs. accepts h x)"
| "accepts h (JObj kvs) = (object_pairs_hook h kvs = Inr (JObj kvs) \<and>
     (\<forall>(k, v) \<in> set kvs. scalars k \<and> accepts h v))"

definition value_head :: "pystr \<Rightarrow> bool" where
  "value_head s = (s \<noteq> [] \<and> hd s \<notin> {32, 9, 10, 13, 93, 125, 65279})"

lemma skip_ws_value [simp]: "value_head s \<Longrightarrow> skip_ws (s @ r) = s @ r"
  by (cases s) (auto simp: value_head_def)

lemma skip_ws_delim [simp]: "delim r \<Longrightarrow> skip_ws r = r"
  by (cases r) (auto simp: delim_def)

lemma value_head_jprint: "accepts h v \<Longrightarrow> value_head (jprint v)"
proof (cases v)
  case (JInt n)
  have "48 \<le> hd (dec (nat n))" "hd (dec (nat n)) \<le> 57"
    using hd_dec_digit [of "nat n"] by (simp_all add: is_digit_def)
  then show ?thesis using JInt by (auto simp: value_head_def print_int_def)
next
  case (JFloat s)
  assume "accepts h v"
  with JFloat hd_float_text [of "lit s"] show ?thesis
    by (auto simp: value_head_def is_digit_def)
qed (auto simp: value_head_def lit_def print_str_def)

lemma value_head_join: "xs \<noteq> [] \<Longrightarrow> value_head (hd xs) \<Longrightarrow> value_head (join_comma xs)"
  by (cases xs rule: join_comma.cases) (auto simp: value_head_def)

lemma value_head_member: "value_head (print_str k @ r)"
  by (simp add: value_head_def print_str_def)

lemma delim_simps [simp]: "delim (93 # r)" "delim (125 # r)" "delim (44 # r)" "delim []"
  by (simp_all add: delim_def)

lemma starts_lit:
  "starts p (lit p @ r)" "p \<noteq> [] \<Longrightarrow> q \<noteq> [] \<Longrightarrow> hd p \<noteq> hd q \<Longrightarrow> \<not> starts p (lit q @ r)"
  by (simp add: starts_def) (cases p; cases q; auto simp: starts_def lit_def)

text \<open>A literal that starts with neither a quote nor a bracket nor a letter is a number.\<close>

lemma scan_value_number:
  assumes "s \<noteq> []" and "hd s = 45 \<or> is_digit (hd s)"
  shows "scan_value h (Suc n) s = scan_number h s"
  using assms by (cases s) (auto simp: starts_def lit_def is_digit_def)

lemma scan_array_join:
  assumes "\<And>x n r. x \<in> set xs \<Longrightarrow> delim r \<Longrightarrow> length (jprint x) \<le> n \<Longrightarrow>
      scan_value h n (jprint x @ r) = Inr (x, r)"
    and "\<And>x. x \<in> set xs \<Longrightarrow> value_head (jprint x)"
    and "xs \<noteq> []" and "length (join_comma (map jprint xs)) < n"
  shows "scan_array h n (join_comma (map jprint xs) @ 93 # r) = Inr (xs, r)"
  using assms
proof (induction xs arbitrary: n rule: induct_list012)
  case (2 x)
  then obtain m where "n = Suc m" by (cases n) auto
  with 2 show ?case by simp
next
  case (3 x y zs)
  then obtain m where m: "n = Suc m" by (cases n) auto
  have head: "value_head (jprint y)" using "3.prems" by simp
  have rest: "scan_array h m (join_comma (map jprint (y # zs)) @ 93 # r) = Inr (y # zs, r)"
    using "3.prems" m by (intro "3.IH"(2)) auto
  have "value_head (join_comma (map jprint (y # zs)))"
    using head by (intro value_head_join) simp_all
  then have "skip_ws (join_comma (map jprint (y # zs)) @ 93 # r) = join_comma (map jprint (y # zs)) @ 93 # r"
    by (rule skip_ws_value)
  moreover have "scan_value h m (jprint x @ 44 # join_comma (map jprint (y # zs)) @ 93 # r) =
      Inr (x, 44 # join_comma (map jprint (y # zs)) @ 93 # r)"
    using "3.prems" m by simp
  ultimately show ?case using rest m by simp
qed simp

abbreviation print_member :: "pystr \<times> json \<Rightarrow> pystr" where
  "print_member \<equiv> \<lambda>(k, v). print_str k @ 58 # jprint v"

lemma scan_object_join:
  assumes "\<And>p n r. p \<in> set kvs \<Longrightarrow> delim r \<Longrightarrow> length (jprint (snd p)) \<le> n \<Longrightarrow>
      scan_value h n (jprint (snd p) @ r) = Inr (snd p, r)"
    and "\<And>p. p \<in> set kvs \<Longrightarrow> value_head (jprint (snd p))"
    and "\<And>p. p \<in> set kvs \<Longrightarrow> scalars (fst p)"
    and "kvs \<noteq> []" and "length (join_comma (map print_member kvs)) < n"
  shows "scan_object h n (join_comma (map print_member kvs) @ 125 # r) = Inr (kvs, r)"
  using assms
proof (induction kvs arbitrary: n rule: induct_list012)
  case (2 p)
  obtain k v where p: "p = (k, v)" by (cases p)
  from 2 obtain m where "n = Suc m" by (cases n) auto
  moreover have "scalars k" using "2.prems"(3) [of p] p by simp
  ultimately show ?case using "2.prems"(1) [of p] "2.prems"(2) [of p] "2.prems"(5) p
    by (simp add: print_str_def scan_str_print_str)
next
  case (3 p q zs)
  obtain k v where p: "p = (k, v)" by (cases p)
  from "3.prems" obtain m where m: "n = Suc m" by (cases n) auto
  let ?rest = "join_comma (map print_member (q # zs)) @ 125 # r"
  have rest: "scan_object h m ?rest = Inr (q # zs, r)"
    using "3.prems" m by (intro "3.IH"(2)) auto
  have "value_head (join_comma (map print_member (q # zs)))"
    by (intro value_head_join) (simp_all add: value_head_member split: prod.splits)
  then have ws: "skip_ws ?rest = ?rest" by (rule skip_ws_value)
  have "scan_value h m (jprint v @ 44 # ?rest) = Inr (v, 44 # ?rest)"
    using "3.prems"(1) [of p] "3.prems"(5) m p by simp
  moreover have "value_head (jprint v)" using "3.prems"(2) [of p] p by simp
  moreover have "scalars k" using "3.prems"(3) [of p] p by simp
  ultimately show ?case using rest m ws p
    by (simp add: print_str_def scan_str_print_str)
qed simp

theorem scan_value_jprint:
  "accepts h v \<Longrightarrow> delim r \<Longrightarrow> length (jprint v) \<le> n \<Longrightarrow> scan_value h n (jprint v @ r) = Inr (v, r)"
proof (induction v arbitrary: n r rule: jprint.induct)
  case 1
  then obtain m where "n = Suc m" by (cases n) auto
  then show ?case by (simp add: starts_def lit_def)
next
  case (2 b)
  then obtain m where "n = Suc m" by (cases n) (auto split: if_splits)
  then show ?case by (cases b) (simp_all add: starts_def lit_def)
next
  case (3 i)
  then obtain m where "n = Suc m" by (cases n) auto
  moreover have "hd (print_int i) = 45 \<or> is_digit (hd (print_int i))"
    using hd_dec_digit by (simp add: print_int_def)
  ultimately show ?case
    using 3 by (simp add: scan_value_number scan_number_print_int hd_append del: scan_value.simps)
next
  case (4 s)
  have head: "lit s \<noteq> [] \<and> (hd (lit s) = 45 \<or> is_digit (hd (lit s)))"
    using 4 hd_float_text [of "lit s"] by simp
  then obtain m where "n = Suc m" using 4 by (cases n) auto
  with 4 head show ?case
    by (simp add: scan_value_number scan_number_float_text hd_append del: scan_value.simps)
next
  case (5 s)
  then obtain m where "n = Suc m" by (cases n) (auto simp: print_str_def)
  with 5 show ?case by (simp add: print_str_def scan_str_print_str)
next
  case (6 xs)
  then obtain m where m: "n = Suc m" by (cases n) auto
  show ?case
  proof (cases "xs = []")
    case False
    have arr: "scan_array h m (join_comma (map jprint xs) @ 93 # r) = Inr (xs, r)"
      using 6 m False value_head_jprint by (intro scan_array_join) auto
    have "value_head (join_comma (map jprint xs))"
      using False value_head_jprint [of h "hd xs"] 6 by (intro value_head_join) (auto simp: hd_map)
    then have "skip_ws (join_comma (map jprint xs) @ 93 # r) = join_comma (map jprint xs) @ 93 # r"
      and "\<exists>d ds. join_comma (map jprint xs) @ 93 # r = d # ds \<and> d \<noteq> 93"
      by (auto simp: value_head_def neq_Nil_conv)
    with arr m show ?thesis by auto
  qed (simp add: m)
next
  case (7 kvs)
  then obtain m where m: "n = Suc m" by (cases n) auto
  show ?case
  proof (cases "kvs = []")
    case True
    with 7 m show ?thesis by simp
  next
    case False
    have ob: "scan_object h m (join_comma (map print_member kvs) @ 125 # r) = Inr (kvs, r)"
      using 7 m False value_head_jprint by (intro scan_object_join) (fastforce+)
    have "value_head (join_comma (map print_member kvs))"
      using False by (intro value_head_join) (auto simp: hd_map value_head_member split: prod.splits)
    then have "skip_ws (join_comma (map print_member kvs) @ 125 # r) = join_comma (map print_member kvs) @ 125 # r"
      and "\<exists>d ds. join_comma (map print_member kvs) @ 125 # r = d # ds \<and> d \<noteq> 125"
      by (auto simp: value_head_def neq_Nil_conv)
    with ob m 7 show ?thesis by auto
  qed
qed

lemma loads_jprint: "accepts h v \<Longrightarrow> loads h (jprint v) = Inr v"
proof -
  assume acc: "accepts h v"
  have head: "value_head (jprint v)" using acc by (rule value_head_jprint)
  have "skip_ws (jprint v) = jprint v" using skip_ws_value [OF head, of "[]"] by simp
  moreover have "scan_value h (2 * length (jprint v) + 1) (jprint v) = Inr (v, [])"
    using scan_value_jprint [OF acc, of "[]" "2 * length (jprint v) + 1"] by simp
  moreover have "hd (jprint v) \<noteq> 65279" using head by (simp add: value_head_def)
  ultimately show ?thesis by (simp add: loads_def)
qed

lemma loads_dumps: "accepts h (sort_keys v) \<Longrightarrow> loads h (dumps v) = Inr (sort_keys v)"
  by (simp add: dumps_def loads_jprint)

section \<open>Sorting the keys changes no value\<close>

lemma insort_key_map_snd:
  "insort_key fst (k, f v) (map (\<lambda>(k, v). (k, f v)) xs) = map (\<lambda>(k, v). (k, f v)) (insort_key fst (k, v) xs)"
  by (induction xs) auto

lemma sort_key_map_snd:
  "sort_key fst (map (\<lambda>(k, v). (k, f v)) xs) = map (\<lambda>(k, v). (k, f v)) (sort_key fst xs)"
  by (induction xs) (auto simp: insort_key_map_snd)

lemma sort_key_sort_key: "sort_key f (sort_key f xs) = sort_key f xs"
  by (simp add: sort_key_id_if_sorted)

lemma map_fst_sort_key: "map fst (sort_key fst xs) = sort (map fst xs)"
proof -
  have "map fst (insort_key fst x ys) = insort (fst x) (map fst ys)" for x :: "'a \<times> 'b" and ys
    by (induction ys) auto
  then show ?thesis by (induction xs) auto
qed

lemma norm_sort_keys [simp]: "norm (sort_keys v) = norm v"
proof (induction v rule: sort_keys.induct)
  case (7 kvs)
  let ?N = "map (\<lambda>(k, v). (k, norm v))" and ?A = "map (\<lambda>(k, v). (k, sort_keys v)) kvs"
  have "?N ?A = ?N kvs" using 7 by (auto simp: map_eq_conv)
  moreover have "?N (sort_key fst ?A) = sort_key fst (?N ?A)" by (rule sort_key_map_snd [symmetric])
  ultimately show ?case by (simp only: sort_keys.simps norm.simps sort_key_sort_key)
qed auto

lemma jeq_sort_keys [simp]: "jeq (sort_keys v) v" "jeq v (sort_keys v)"
  by (simp_all add: jeq_def)

lemma set_sort_keys_members:
  "set (sort_key fst (map (\<lambda>(k, v). (k, sort_keys v)) kvs)) = (\<lambda>(k, v). (k, sort_keys v)) ` set kvs"
  by simp

lemma wf_json_sort_keys: "wf_json (sort_keys v) \<longleftrightarrow> wf_json v"
proof (induction v rule: sort_keys.induct)
  case (7 kvs)
  have "map fst (map (\<lambda>(k, v). (k, sort_keys v)) kvs) = map fst kvs" by auto
  then have "distinct (map fst (sort_key fst (map (\<lambda>(k, v). (k, sort_keys v)) kvs))) \<longleftrightarrow> distinct (map fst kvs)"
    by (simp only: map_fst_sort_key distinct_sort)
  with 7 show ?case by (fastforce simp del: map_map)
qed auto

lemma sort_keys_sort_keys [simp]: "sort_keys (sort_keys v) = sort_keys v"
proof (induction v rule: sort_keys.induct)
  case (7 kvs)
  let ?S = "map (\<lambda>(k, v). (k, sort_keys v))"
  have "?S (?S kvs) = ?S kvs" using 7 by (auto simp: map_eq_conv)
  moreover have "?S (sort_key fst (?S kvs)) = sort_key fst (?S (?S kvs))"
    by (rule sort_key_map_snd [symmetric])
  ultimately show ?case by (simp only: sort_keys.simps sort_key_sort_key)
qed auto

lemma map_of_insort_key:
  "k \<notin> fst ` set xs \<Longrightarrow> map_of (insort_key fst (k, v) xs) = (map_of xs)(k \<mapsto> v)"
  by (induction xs) (auto simp: fun_eq_iff)

lemma map_of_sort_key: "distinct (map fst xs) \<Longrightarrow> map_of (sort_key fst xs) = map_of xs"
  by (induction xs) (auto simp: map_of_insort_key)

lemma map_of_map_snd: "map_of (map (\<lambda>(k, v). (k, f v)) xs) k = map_option f (map_of xs k)"
  by (induction xs) auto

lemma distinct_map_snd: "distinct (map fst (map (\<lambda>(k, v). (k, f v)) xs)) = distinct (map fst xs)"
  by (simp add: comp_def split_beta)

lemma dget_sort_keys: "wf_json v \<Longrightarrow> dget (sort_keys v) k = map_option sort_keys (dget v k)"
  by (cases v) (auto simp: dget_def map_of_sort_key map_of_map_snd distinct_map_snd simp del: map_map)

lemma is_dict_sort_keys [simp]: "is_dict (sort_keys v) = is_dict v"
  by (cases v) auto

lemma sort_keys_eq_JStr [simp]: "sort_keys v = JStr s \<longleftrightarrow> v = JStr s"
  by (cases v) auto

lemma sort_keys_eq_JBool [simp]: "sort_keys v = JBool b \<longleftrightarrow> v = JBool b"
  by (cases v) auto

lemma sort_keys_dpop: "sort_keys (dpop (sort_keys v) k) = sort_keys (dpop v k)"
proof (cases v)
  case (JObj kvs)
  let ?S = "map (\<lambda>(k, v). (k, sort_keys v))"
  have del: "AList.delete k (?S xs) = ?S (AList.delete k xs)" for xs
    by (induction xs) (auto simp: AList.delete_eq)
  have "AList.delete k (sort_key fst xs) = sort_key fst (AList.delete k xs)" for xs :: dict
    by (simp add: AList.delete_eq filter_sort)
  moreover have "?S (sort_key fst (?S xs)) = sort_key fst (?S xs)" for xs :: dict
    using sort_keys_sort_keys [of "JObj xs"]
    by (simp only: sort_keys.simps json.inject sort_key_map_snd [symmetric] sort_key_sort_key)
  ultimately show ?thesis
    using JObj by (simp only: sort_keys.simps dpop_def json.case del sort_key_sort_key)
qed (auto simp: dpop_def)

lemma dumps_sort_keys [simp]: "dumps (sort_keys v) = dumps v"
  by (simp add: dumps_def)

text \<open>Every constant of the contract's schemas is a string or a boolean.\<close>

section \<open>Decoding never runs out of fuel\<close>

lemma skip_ws_length: "length (skip_ws s) \<le> length s"
  by (induction s) auto

lemma scan_str_length: "scan_str s = Inr (t, r) \<Longrightarrow> length r < length s"
proof (induction s arbitrary: t rule: scan_str.induct)
  case (1 s)
  show ?case
  proof (cases s)
    case Nil
    with "1.prems" show ?thesis by (simp add: scan_str.simps)
  next
    case (Cons c cs)
    then show ?thesis
      using "1.prems" "1.IH"
      by (auto simp: scan_str.simps [of "c # cs"] split: if_splits sum.splits prod.splits dest!: unescape_length)
        fastforce+
  qed
qed

lemma int_part_length: "int_part s = (i, r) \<Longrightarrow> i \<noteq> [] \<Longrightarrow> length r < length s"
  by (auto simp: int_part_def is_digit_def length_dropWhile_le le_imp_less_Suc
      split: list.splits if_splits intro: le_less_trans [OF length_dropWhile_le])

lemma frac_part_length: "frac_part s = (f, r) \<Longrightarrow> length r \<le> length s"
  by (auto simp: frac_part_def split: list.splits if_splits intro: le_SucI length_dropWhile_le)

lemma exp_part_length: "exp_part s = (f, r) \<Longrightarrow> length r \<le> length s"
  by (auto simp: exp_part_def split: list.splits if_splits intro: le_SucI length_dropWhile_le)

lemma starts_length: "starts p s \<Longrightarrow> length p \<le> length s"
  by (metis length_lit length_take min.cobounded1 min_def nat_le_linear starts_def)

lemma scan_number_length: "scan_number h s = Inr (v, r) \<Longrightarrow> length r < length s"
  unfolding scan_number_def
  by (auto simp: Let_def res_simps split: prod.splits if_splits
      dest!: int_part_length frac_part_length exp_part_length starts_length)

lemma skip_ws_Cons: "skip_ws s = d # ds \<Longrightarrow> length ds < length s"
  using skip_ws_length [of s] by simp

lemma less_skip_wsD: "n < length (skip_ws s) \<Longrightarrow> n < length s"
  using skip_ws_length [of s] by simp

lemmas scan_lengths = scan_number_length scan_str_length skip_ws_Cons starts_length

text \<open>Every successful scan consumes at least one character.\<close>

lemma scan_length:
  "(\<forall>s v r. scan_value h n s = Inr (v, r) \<longrightarrow> length r < length s) \<and>
   (\<forall>s xs r. scan_array h n s = Inr (xs, r) \<longrightarrow> length r < length s) \<and>
   (\<forall>s kvs r. scan_object h n s = Inr (kvs, r) \<longrightarrow> length r < length s)"
proof (induction n)
  case 0
  show ?case by simp
next
  case (Suc n)
  then have val: "length r < length s" if "scan_value h n s = Inr (v, r)" for s v r
    using that by blast
  from Suc have arr: "length r < length s" if "scan_array h n s = Inr (xs, r)" for s xs r
    using that by blast
  from Suc have ob: "length r < length s" if "scan_object h n s = Inr (kvs, r)" for s kvs r
    using that by blast
  have "length r < length s" if "scan_value h (Suc n) s = Inr (v, r)" for s v r
    using that
    by (auto simp: res_simps split: list.splits if_splits dest!: arr ob scan_lengths)
  moreover have "length r < length s" if asm: "scan_array h (Suc n) s = Inr (xs, r)" for s xs r
  proof -
    obtain v r1 where v: "scan_value h n s = Inr (v, r1)"
      using asm by (cases "scan_value h n s") auto
    from asm v val [OF v] show ?thesis
      by (auto simp: res_simps split: list.splits if_splits dest!: arr skip_ws_Cons less_skip_wsD)
  qed
  moreover have "length r < length s" if asm: "scan_object h (Suc n) s = Inr (kvs, r)" for s kvs r
  proof -
    obtain cs k r1 where k: "s = 34 # cs" "scan_str cs = Inr (k, r1)"
      using asm by (cases s; cases "scan_str (tl s)") (auto split: if_splits)
    with asm obtain ds where ds: "skip_ws r1 = 58 # ds"
      by (auto split: list.splits if_splits)
    with asm k obtain v r2 where v: "scan_value h n (skip_ws ds) = Inr (v, r2)"
      by (cases "scan_value h n (skip_ws ds)") auto
    from asm k ds v scan_str_length [OF k(2)] skip_ws_Cons [OF ds] less_skip_wsD [OF val [OF v]]
    show ?thesis
      by (auto simp: res_simps split: list.splits if_splits dest!: ob skip_ws_Cons less_skip_wsD)
  qed
  ultimately show ?case by blast
qed

lemma unescape_error: "unescape s = Inl e \<Longrightarrow> e = decode_error"
  by (auto simp: unescape_def split: list.splits if_splits option.splits)

lemma scan_str_error: "scan_str s = Inl e \<Longrightarrow> e = decode_error"
proof (induction s rule: scan_str.induct)
  case (1 s)
  show ?case
  proof (cases s)
    case Nil
    with "1.prems" show ?thesis by (simp add: scan_str.simps)
  next
    case (Cons c cs)
    then show ?thesis
      using "1.prems" "1.IH"
      by (auto simp: scan_str.simps [of "c # cs"] split: if_splits sum.splits prod.splits dest!: unescape_error)
  qed
qed

text \<open>The hooks themselves do not raise \<open>RecursionError\<close>.\<close>

abbreviation recursion_error :: exn where
  "recursion_error \<equiv> PyError ''RecursionError''"

definition hooks_safe :: "hooks \<Rightarrow> bool" where
  "hooks_safe h = (\<forall>t d. parse_int h t \<noteq> Inl recursion_error \<and> parse_float h t \<noteq> Inl recursion_error \<and>
     parse_constant h t \<noteq> Inl recursion_error \<and> object_pairs_hook h d \<noteq> Inl recursion_error)"

lemma scan_number_error: "hooks_safe h \<Longrightarrow> scan_number h s \<noteq> Inl recursion_error"
  by (auto simp: scan_number_def hooks_safe_def Let_def bindE_Inl_iff split: prod.splits)

lemma scan_value_length: "scan_value h n s = Inr (v, r) \<Longrightarrow> length r < length s"
  using scan_length by blast

lemma scan_fuel_enough:
  assumes safe: "hooks_safe h"
  shows "(\<forall>s. 2 * length s + 1 \<le> n \<longrightarrow> scan_value h n s \<noteq> Inl recursion_error) \<and>
     (\<forall>s. 2 * length s + 2 \<le> n \<longrightarrow> scan_array h n s \<noteq> Inl recursion_error) \<and>
     (\<forall>s. 2 * length s + 2 \<le> n \<longrightarrow> scan_object h n s \<noteq> Inl recursion_error)"
proof (induction n)
  case 0
  show ?case by simp
next
  case (Suc n)
  have val: "scan_value h n (skip_ws ds) \<noteq> Inl recursion_error" if "2 * length ds + 1 \<le> n" for ds
    using that Suc.IH skip_ws_length [of ds] by auto
  have arr: "scan_array h n (skip_ws ds) \<noteq> Inl recursion_error"
    and ob: "scan_object h n (skip_ws ds) \<noteq> Inl recursion_error" if "2 * length ds + 2 \<le> n" for ds
    using that Suc.IH skip_ws_length [of ds] by auto
  have "scan_value h (Suc n) s \<noteq> Inl recursion_error" if "2 * length s + 1 \<le> Suc n" for s
    using that Suc.IH safe
    by (auto simp: bindE_Inl_iff hooks_safe_def scan_number_error [OF safe]
        split: list.splits if_splits dest!: scan_str_error skip_ws_Cons)
  moreover have "scan_array h (Suc n) s \<noteq> Inl recursion_error" if "2 * length s + 2 \<le> Suc n" for s
    using that Suc.IH
    by (auto simp: bindE_Inl_iff arr split: list.splits if_splits dest!: scan_value_length skip_ws_Cons)
  moreover have "scan_object h (Suc n) s \<noteq> Inl recursion_error" if "2 * length s + 2 \<le> Suc n" for s
    using that Suc.IH
    by (auto simp: bindE_Inl_iff val ob split: list.splits if_splits
        dest!: scan_str_error scan_str_length scan_value_length skip_ws_Cons less_skip_wsD)
  ultimately show ?case by blast
qed

theorem loads_fuel_enough: "hooks_safe h \<Longrightarrow> loads h s \<noteq> Inl recursion_error"
proof -
  assume safe: "hooks_safe h"
  have "2 * length (skip_ws s) + 1 \<le> 2 * length s + 1"
    using skip_ws_length [of s] by simp
  then have "scan_value h (2 * length s + 1) (skip_ws s) \<noteq> Inl recursion_error"
    using scan_fuel_enough [OF safe] by blast
  then show ?thesis by (auto simp: loads_def bindE_Inl_iff)
qed

end
