(* ===== verification/Paths.thy ===== *)
theory Paths
  imports Prelude
begin

text \<open>
  Canonical relative paths: \<open>local_hand/paths.py\<close>, \<open>_canonical_relative_posix\<close>.  The Unicode
  tables behind \<open>unicodedata.normalize\<close>, \<open>str.casefold\<close> and \<open>str.upper\<close> are parameters of the
  model, the record \<open>udb\<close>.
\<close>

record udb =
  nfc :: "pystr \<Rightarrow> pystr"
  casefold :: "pystr \<Rightarrow> pystr"
  upper :: "pystr \<Rightarrow> pystr"

section \<open>\<open>PurePosixPath\<close>\<close>

text \<open>\<open>value.split("/")\<close>\<close>

fun split_slash :: "pystr \<Rightarrow> pystr list" where
  "split_slash [] = [[]]"
| "split_slash (c # cs) = (if c = 47 then [] # split_slash cs
     else (case split_slash cs of [] \<Rightarrow> [[c]] | p # ps \<Rightarrow> (c # p) # ps))"

text \<open>The parts of a relative path: empty components and \<open>.\<close> are dropped.\<close>

definition posix_parts :: "pystr \<Rightarrow> pystr list" where
  "posix_parts s = filter (\<lambda>p. p \<noteq> [] \<and> p \<noteq> lit ''.'') (split_slash s)"

definition is_absolute :: "pystr \<Rightarrow> bool" where
  "is_absolute s = (s \<noteq> [] \<and> hd s = 47)"

fun join_slash :: "pystr list \<Rightarrow> pystr" where
  "join_slash [] = []"
| "join_slash [p] = p"
| "join_slash (p # q # ps) = p @ 47 # join_slash (q # ps)"

text \<open>\<open>str(p)\<close> of a relative path.\<close>

definition posix_str :: "pystr list \<Rightarrow> pystr" where
  "posix_str ps = (if ps = [] then lit ''.'' else join_slash ps)"

section \<open>The path contract\<close>

definition rstrip :: "nat list \<Rightarrow> pystr \<Rightarrow> pystr" where
  "rstrip cs s = rev (dropWhile (\<lambda>c. c \<in> set cs) (rev s))"

definition WINDOWS_RESERVED :: "pystr list" where
  "WINDOWS_RESERVED =
     map lit [''CON'', ''PRN'', ''AUX'', ''NUL'', ''CONIN$'', ''CONOUT$'',
       ''COM1'', ''COM2'', ''COM3'', ''COM4'', ''COM5'', ''COM6'', ''COM7'', ''COM8'', ''COM9'',
       ''LPT1'', ''LPT2'', ''LPT3'', ''LPT4'', ''LPT5'', ''LPT6'', ''LPT7'', ''LPT8'', ''LPT9''] @
     map (\<lambda>i. lit ''COM'' @ [i]) [185, 178, 179] @ map (\<lambda>i. lit ''LPT'' @ [i]) [185, 178, 179]"

definition WINDOWS_FORBIDDEN :: "nat list" where
  "WINDOWS_FORBIDDEN = [60, 62, 58, 34, 124, 63, 42]"

text \<open>The body of the loop over the parts.\<close>

definition check_part :: "udb \<Rightarrow> pystr \<Rightarrow> unit res" where
  "check_part U part =
     thenE (raise_if (\<exists>c \<in> set part. c \<in> set WINDOWS_FORBIDDEN) (LocalHandError ''windows_path_alias_rejected''))
     (thenE (raise_if (part \<noteq> [] \<and> last part \<in> {32, 46}) (LocalHandError ''windows_path_alias_rejected''))
     (let normalized = rstrip [32, 46] part in
      thenE (raise_if (casefold U normalized = lit ''.git'') (LocalHandError ''git_metadata_rejected''))
      (let device_base = upper U (rstrip [32] (takeWhile (\<lambda>c. c \<noteq> 46) normalized)) in
       raise_if (device_base \<in> set WINDOWS_RESERVED) (LocalHandError ''windows_path_alias_rejected''))))"

definition canonical_relative_posix :: "udb \<Rightarrow> bool \<Rightarrow> pystr \<Rightarrow> pystr list res" where
  "canonical_relative_posix U allow_root val =
     (if \<exists>c \<in> set val. c < 32 \<or> c = 127 then Inl (LocalHandError ''path_syntax_rejected'')
      else if nfc U val \<noteq> val then Inl (LocalHandError ''path_unicode_normalization_rejected'')
      else if 92 \<in> set val then Inl (LocalHandError ''path_separator_rejected'')
      else if is_absolute val \<or> lit ''..'' \<in> set (posix_parts val) then Inl (LocalHandError ''path_escape'')
      else if posix_parts val = [] then
        (if allow_root \<and> val = lit ''.'' then Inr []
         else if allow_root then Inl (LocalHandError ''path_not_canonical'')
         else Inl (LocalHandError ''invalid_path''))
      else if posix_str (posix_parts val) \<noteq> val then Inl (LocalHandError ''path_not_canonical'')
      else thenE (forE (posix_parts val) (check_part U)) (Inr (posix_parts val)))"

text \<open>\<open>_relative_posix\<close>: the profile loader's variant, with one code for every refusal.\<close>

definition relative_posix :: "udb \<Rightarrow> pystr \<Rightarrow> pystr list res" where
  "relative_posix U val =
     (case canonical_relative_posix U False val of
        Inr ps \<Rightarrow> Inr ps | Inl e \<Rightarrow> Inl (LocalHandError ''invalid_profile''))"

section \<open>What an admitted path is\<close>

lemma split_slash_no_slash: "p \<in> set (split_slash s) \<Longrightarrow> 47 \<notin> set p"
  by (induction s arbitrary: p) (auto split: if_splits list.splits)

text \<open>
  A path the contract admits is the slash-joined list of its parts; each part is a plain
  component, so no reading of the string leaves the directory it is resolved in.
\<close>

lemma canonical_relative_posix_join:
  assumes "canonical_relative_posix U False val = Inr ps"
  shows "val = join_slash ps \<and> ps \<noteq> [] \<and>
     (\<forall>p \<in> set ps. p \<noteq> [] \<and> p \<noteq> lit ''.'' \<and> p \<noteq> lit ''..'' \<and> 47 \<notin> set p)"
proof -
  from assms have ps: "ps = posix_parts val" "posix_str ps = val" "lit ''..'' \<notin> set ps" "ps \<noteq> []"
    by (auto simp: canonical_relative_posix_def res_simps split: if_splits)
  have "p \<noteq> [] \<and> p \<noteq> lit ''.'' \<and> 47 \<notin> set p" if "p \<in> set ps" for p
    using that split_slash_no_slash [of p val] by (simp add: ps(1) posix_parts_def)
  with ps(2-4) show ?thesis by (auto simp: posix_str_def)
qed

lemma canonical_relative_posix_part:
  assumes "canonical_relative_posix U False val = Inr ps" and "p \<in> set ps"
  shows "check_part U p = Inr ()"
  using assms by (auto simp: canonical_relative_posix_def res_simps split: if_splits)

lemma rstrip_id: "s \<noteq> [] \<Longrightarrow> last s \<notin> set cs \<Longrightarrow> rstrip cs s = s"
  by (cases s rule: rev_cases) (auto simp: rstrip_def)

lemma check_part_facts:
  assumes "check_part U p = Inr ()" and "p \<noteq> []"
  shows "last p \<notin> {32, 46}" "casefold U p \<noteq> lit ''.git''"
    "upper U (rstrip [32] (takeWhile (\<lambda>c. c \<noteq> 46) p)) \<notin> set WINDOWS_RESERVED"
    "\<forall>c \<in> set p. c \<notin> set WINDOWS_FORBIDDEN"
proof -
  from assms show last: "last p \<notin> {32, 46}"
    by (simp add: check_part_def res_simps)
  with assms(2) have "rstrip [32, 46] p = p" by (intro rstrip_id) auto
  with assms(1) show "casefold U p \<noteq> lit ''.git''"
    "upper U (rstrip [32] (takeWhile (\<lambda>c. c \<noteq> 46) p)) \<notin> set WINDOWS_RESERVED"
    "\<forall>c \<in> set p. c \<notin> set WINDOWS_FORBIDDEN"
    by (auto simp: check_part_def res_simps)
qed

section \<open>Confinement\<close>

text \<open>C38. A path the contract admits is exactly the slash-joined list of the parts it returns: none of them is
  empty, \<open>.\<close> or \<open>..\<close>, none holds a slash, a backslash, a control character or a character Windows forbids, none ends in a
  space or a dot, none folds to \<open>.git\<close>, and none has a reserved device name as its base.\<close>

theorem canonical_path_confined:
  assumes "canonical_relative_posix U False val = Inr ps"
  shows "val = join_slash ps \<and> ps \<noteq> [] \<and>
     (\<forall>p \<in> set ps. p \<noteq> [] \<and> p \<noteq> lit ''.'' \<and> p \<noteq> lit ''..'' \<and> 47 \<notin> set p \<and>
        last p \<notin> {32, 46} \<and> casefold U p \<noteq> lit ''.git'' \<and>
        upper U (rstrip [32] (takeWhile (\<lambda>c. c \<noteq> 46) p)) \<notin> set WINDOWS_RESERVED \<and>
        (\<forall>c \<in> set p. c \<notin> set WINDOWS_FORBIDDEN)) \<and>
     92 \<notin> set val \<and> (\<forall>c \<in> set val. 32 \<le> c \<and> c \<noteq> 127) \<and> nfc U val = val"
proof -
  have "92 \<notin> set val \<and> (\<forall>c \<in> set val. 32 \<le> c \<and> c \<noteq> 127) \<and> nfc U val = val"
    using assms by (auto simp: canonical_relative_posix_def split: if_splits)
  moreover have "last p \<notin> {32, 46} \<and> casefold U p \<noteq> lit ''.git'' \<and>
      upper U (rstrip [32] (takeWhile (\<lambda>c. c \<noteq> 46) p)) \<notin> set WINDOWS_RESERVED \<and>
      (\<forall>c \<in> set p. c \<notin> set WINDOWS_FORBIDDEN)" if "p \<in> set ps" for p
    using that canonical_relative_posix_join [OF assms]
      check_part_facts [OF canonical_relative_posix_part [OF assms that]] by simp
  ultimately show ?thesis
    using canonical_relative_posix_join [OF assms] by simp
qed

definition ascii_udb :: udb where
  \<comment> \<open>the Unicode functions on ASCII text\<close>
  "ascii_udb = \<lparr>nfc = \<lambda>s. s,
     casefold = map (\<lambda>c. if 65 \<le> c \<and> c \<le> 90 then c + 32 else c),
     upper = map (\<lambda>c. if 97 \<le> c \<and> c \<le> 122 then c - 32 else c)\<rparr>"

theorem canonical_path_confined_witness:
  "lit ''docs/a.md'' = join_slash [lit ''docs'', lit ''a.md'']"
proof -
  have "canonical_relative_posix ascii_udb False (lit ''docs/a.md'') = Inr [lit ''docs'', lit ''a.md'']"
    by code_simp
  from canonical_path_confined [OF this] show ?thesis by blast
qed

end
