(* ===== verification/Contract.thy ===== *)
theory Contract
  imports JsonRoundtrip Sha256 Paths
begin

text \<open>
  The request contract \<open>lh-job-v1\<close>: \<open>tools/local_hand_jobs/contract.py\<close>.  Structured errors,
  authenticated principals, the strict decoder, the fixed schemas and their matcher, and the
  validation of submissions and tool arguments.
\<close>

section \<open>Constants\<close>

definition MAX_SAFE_INTEGER :: int where "MAX_SAFE_INTEGER = 9007199254740991"
definition MAX_REQUEST_BYTES :: nat where "MAX_REQUEST_BYTES = 524288"
definition MAX_CANONICAL_BYTES :: nat where "MAX_CANONICAL_BYTES = 131072"
definition MAX_INPUT_BYTES :: nat where "MAX_INPUT_BYTES = 122880"
definition MAX_WORKSPACE_TEXT_BYTES :: nat where "MAX_WORKSPACE_TEXT_BYTES = MAX_INPUT_BYTES"
definition MAX_DEPTH :: nat where "MAX_DEPTH = 8"

definition SCHEMA_VERSION :: string where "SCHEMA_VERSION = ''lh-job-v1''"

definition KINDS :: "string list" where
  "KINDS = [''host.inspect'', ''ledger.prepare'', ''ledger.test.source'', ''ledger.test.resources'',
     ''ledger.test.installed_local'', ''ledger.nas.roundtrip'', ''workspace.edit'', ''ledger.test.local_a2'']"

definition DISABLED_JOB_KINDS :: "string list" where
  "DISABLED_JOB_KINDS = [''ledger.nas.roundtrip'', ''ledger.test.local_a2'']"

definition SUITES :: "string list" where
  "SUITES = [''a1_resources'', ''a1_response_boundaries'', ''a2_snapshot_resources'', ''a2_semantic_resources'']"

section \<open>Principals\<close>

text \<open>
  The clock is read as whole seconds: \<open>time.time() >= n\<close> for an integer \<open>n\<close> holds exactly when
  the integer part of the reading is at least \<open>n\<close>.
\<close>

record principal =
  principal_id :: pystr
  scopes :: "pystr list"
  p_expires_at :: "int option"

text \<open>\<open>__post_init__\<close>; the scopes are a frozen set of strings, kept as a list.\<close>

definition mk_principal :: "pystr \<Rightarrow> pystr list \<Rightarrow> int option \<Rightarrow> principal res" where
  "mk_principal pid sc ex =
     (if pid = [] \<or> length pid > 256 then Inl (JobError ''UNAUTHORIZED'' ''Invalid authenticated principal'')
      else if (\<exists>n. ex = Some n \<and> n \<le> 0)
        then Inl (JobError ''UNAUTHORIZED'' ''Invalid authenticated acceptance deadline'')
      else Inr \<lparr>principal_id = pid, scopes = sc, p_expires_at = ex\<rparr>)"

definition require_current :: "int \<Rightarrow> principal \<Rightarrow> unit res" where
  "require_current now p =
     raise_if (case p_expires_at p of None \<Rightarrow> False | Some e \<Rightarrow> now \<ge> e)
       (JobError ''UNAUTHORIZED'' ''Authenticated acceptance deadline has expired'')"

section \<open>The strict decoder\<close>

abbreviation invalid :: "string \<Rightarrow> exn" where
  "invalid m \<equiv> JobError ''INVALID_REQUEST'' m"

abbreviation invalid_contract :: exn where
  "invalid_contract \<equiv> invalid ''Request does not match the fixed contract''"

definition lstrip_minus :: "pystr \<Rightarrow> pystr" where
  "lstrip_minus s = dropWhile (\<lambda>c. c = 45) s"

definition integer_hook :: "pystr \<Rightarrow> json res" where
  "integer_hook text =
     (if length (lstrip_minus text) > 16 then Inl (invalid ''JSON integer exceeds the interoperable range'')
      else let v = int_of_text text in
        if \<bar>v\<bar> > MAX_SAFE_INTEGER then Inl (invalid ''JSON integer exceeds the interoperable range'')
        else Inr (JInt v))"

fun pairs_onto :: "dict \<Rightarrow> dict \<Rightarrow> dict res" where
  "pairs_onto result [] = Inr result"
| "pairs_onto result ((key, item) # items) =
     (if key \<in> fst ` set result then Inl (invalid ''Duplicate JSON object key'')
      else pairs_onto (AList.update key item result) items)"

definition pairs_hook :: "dict \<Rightarrow> json res" where
  "pairs_hook items = bindE (pairs_onto [] items) (\<lambda>d. Inr (JObj d))"

definition surrogate :: "nat \<Rightarrow> bool" where
  "surrogate c = (55296 \<le> c \<and> c \<le> 57343)"

lemma forE_cong [fundef_cong]:
  "xs = ys \<Longrightarrow> (\<And>x. x \<in> set ys \<Longrightarrow> f x = g x) \<Longrightarrow> forE xs f = forE ys g"
  by (induction xs arbitrary: ys) (auto split: sum.splits)

function tree :: "nat \<Rightarrow> json \<Rightarrow> unit res" where
  "tree depth (JStr s) = raise_if (\<exists>c \<in> set s. surrogate c) (invalid ''JSON contains an unpaired surrogate'')"
| "tree depth (JInt n) =
     raise_if (\<bar>n\<bar> > MAX_SAFE_INTEGER) (invalid ''JSON integer exceeds the interoperable range'')"
| "tree depth (JObj kvs) =
     thenE (raise_if (depth \<ge> MAX_DEPTH) (invalid ''JSON nesting exceeds the request limit''))
       (forE kvs (\<lambda>(key, item). thenE (tree (Suc depth) (JStr key)) (tree (Suc depth) item)))"
| "tree depth (JList xs) =
     thenE (raise_if (depth \<ge> MAX_DEPTH) (invalid ''JSON nesting exceeds the request limit''))
       (forE xs (tree (Suc depth)))"
| "tree depth JNull = Inr ()"
| "tree depth (JBool b) = Inr ()"
| "tree depth (JFloat s) = Inl (invalid ''Floating point and unsupported JSON values are forbidden'')"
  by pat_completeness auto
termination
  by (relation "measure (\<lambda>(d, v). size v + (case v of JStr _ \<Rightarrow> 0 | _ \<Rightarrow> 1))")
    (auto simp: less_Suc_eq_le size_list_estimation' split: json.splits elim!: size_list_estimation)

subsection \<open>UTF-8\<close>

text \<open>\<open>raw.encode("utf-8", errors="strict")\<close>: a surrogate raises \<open>UnicodeError\<close>.\<close>

definition utf8_char :: "nat \<Rightarrow> bytes" where
  "utf8_char c =
     (if c < 128 then [c]
      else if c < 2048 then [192 + c div 64, 128 + c mod 64]
      else if c < 65536 then [224 + c div 4096, 128 + c div 64 mod 64, 128 + c mod 64]
      else [240 + c div 262144, 128 + c div 4096 mod 64, 128 + c div 64 mod 64, 128 + c mod 64])"

definition utf8_encode :: "pystr \<Rightarrow> bytes option" where
  "utf8_encode s = (if \<exists>c \<in> set s. surrogate c then None else Some (concat (map utf8_char s)))"

definition cont :: "nat \<Rightarrow> bool" where
  "cont b = (128 \<le> b \<and> b < 192)"

text \<open>One well-formed sequence at the head of the bytes: no overlong form, no surrogate.\<close>

definition utf8_head :: "bytes \<Rightarrow> (nat \<times> bytes) option" where
  "utf8_head bs = (case bs of [] \<Rightarrow> None | b # r \<Rightarrow>
     if b < 128 then Some (b, r)
     else if 194 \<le> b \<and> b \<le> 223 then
       (case r of c1 # r' \<Rightarrow> if cont c1 then Some ((b - 192) * 64 + (c1 - 128), r') else None | _ \<Rightarrow> None)
     else if 224 \<le> b \<and> b \<le> 239 then
       (case r of c1 # c2 # r' \<Rightarrow>
          let v = (b - 224) * 4096 + (c1 - 128) * 64 + (c2 - 128) in
          if cont c1 \<and> cont c2 \<and> v \<ge> 2048 \<and> \<not> surrogate v then Some (v, r') else None | _ \<Rightarrow> None)
     else if 240 \<le> b \<and> b \<le> 244 then
       (case r of c1 # c2 # c3 # r' \<Rightarrow>
          let v = (b - 240) * 262144 + (c1 - 128) * 4096 + (c2 - 128) * 64 + (c3 - 128) in
          if cont c1 \<and> cont c2 \<and> cont c3 \<and> v \<ge> 65536 \<and> v < 1114112 then Some (v, r') else None | _ \<Rightarrow> None)
     else None)"

lemma utf8_head_length: "utf8_head bs = Some (c, r) \<Longrightarrow> length r < length bs"
  by (auto simp: utf8_head_def Let_def split: list.splits if_splits)

function utf8_decode :: "bytes \<Rightarrow> pystr option" where
  "utf8_decode bs = (if bs = [] then Some []
     else case utf8_head bs of None \<Rightarrow> None
       | Some (c, r) \<Rightarrow> (case utf8_decode r of None \<Rightarrow> None | Some cs \<Rightarrow> Some (c # cs)))"
  by pat_completeness auto
termination
  by (relation "measure length") (auto dest: utf8_head_length)

declare utf8_decode.simps [simp del]

subsection \<open>\<open>strict_loads\<close>\<close>

text \<open>A raw request body: bytes, text, or anything else.\<close>

datatype raw = RawBytes bytes | RawStr pystr | RawOther

text \<open>The nesting scan ahead of the parser: \<open>False\<close> when an opening bracket goes past the limit.\<close>

fun depth_scan :: "int \<Rightarrow> bool \<Rightarrow> bool \<Rightarrow> pystr \<Rightarrow> bool" where
  "depth_scan depth quoted escaped [] = True"
| "depth_scan depth quoted escaped (char # cs) =
     (if quoted then
        (if escaped then depth_scan depth True False cs
         else if char = 92 then depth_scan depth True True cs
         else if char = 34 then depth_scan depth False False cs
         else depth_scan depth True False cs)
      else if char = 34 then depth_scan depth True escaped cs
      else if char = 91 \<or> char = 123 then
        (if depth + 1 > int MAX_DEPTH then False else depth_scan (depth + 1) quoted escaped cs)
      else if char = 93 \<or> char = 125 then depth_scan (depth - 1) quoted escaped cs
      else depth_scan depth quoted escaped cs)"

definition reject_number :: "pystr \<Rightarrow> json res" where
  "reject_number t = Inl (invalid ''Floating point and non-finite JSON values are forbidden'')"

definition strict_hooks :: hooks where
  "strict_hooks = \<lparr>parse_int = integer_hook, parse_float = reject_number,
     parse_constant = reject_number, object_pairs_hook = pairs_hook\<rparr>"

definition raw_text :: "nat \<Rightarrow> raw \<Rightarrow> pystr res" where
  "raw_text maximum_bytes raw = (case raw of
     RawBytes bs \<Rightarrow>
       (if length bs > maximum_bytes then Inl (JobError ''LIMIT_EXCEEDED'' ''JSON body exceeds its byte limit'')
        else case utf8_decode bs of None \<Rightarrow> Inl (invalid ''Request body is not valid UTF-8'') | Some t \<Rightarrow> Inr t)
   | RawStr t \<Rightarrow>
       (case utf8_encode t of None \<Rightarrow> Inl (invalid ''Request body is not valid UTF-8'')
        | Some bs \<Rightarrow> if length bs > maximum_bytes
            then Inl (JobError ''LIMIT_EXCEEDED'' ''JSON body exceeds its byte limit'') else Inr t)
   | RawOther \<Rightarrow> Inl (invalid ''Raw JSON must be bytes or text''))"

text \<open>\<open>except (ValueError, RecursionError)\<close> around the parser.\<close>

definition malformed :: "json res \<Rightarrow> json res" where
  "malformed r = (case r of
     Inl (PyError c) \<Rightarrow> if c = ''ValueError'' \<or> c = ''RecursionError'' then Inl (invalid ''Malformed JSON request'')
                       else r
   | _ \<Rightarrow> r)"

definition strict_loads :: "nat \<Rightarrow> raw \<Rightarrow> json res" where
  "strict_loads maximum_bytes raw =
     bindE (raw_text maximum_bytes raw) (\<lambda>text.
       if \<not> depth_scan 0 False False text then Inl (invalid ''JSON nesting exceeds the request limit'')
       else bindE (malformed (loads strict_hooks text)) (\<lambda>result.
         thenE (tree 0 result) (Inr result)))"

section \<open>Schemas\<close>

text \<open>The five fixed patterns, as predicates on the whole string (\<open>re.fullmatch\<close>).\<close>

definition lower_alnum :: "nat \<Rightarrow> bool" where
  "lower_alnum c = (97 \<le> c \<and> c \<le> 122 \<or> 48 \<le> c \<and> c \<le> 57)"

definition REF_PATTERN :: "pystr \<Rightarrow> bool" where
  \<comment> \<open>\<open>[a-z0-9][a-z0-9._-]{0,127}\<close>\<close>
  "REF_PATTERN s = (s \<noteq> [] \<and> lower_alnum (hd s) \<and> length (tl s) \<le> 127 \<and>
     (\<forall>c \<in> set (tl s). lower_alnum c \<or> c \<in> {46, 95, 45}))"

text \<open>A sequence of hexadecimal groups separated by dashes, with two fixed classes for version 4.\<close>

fun class_match :: "(nat \<Rightarrow> bool) list \<Rightarrow> pystr \<Rightarrow> bool" where
  "class_match [] s = (s = [])"
| "class_match (p # ps) s = (case s of [] \<Rightarrow> False | c # cs \<Rightarrow> p c \<and> class_match ps cs)"

definition UUID_PATTERN :: "pystr \<Rightarrow> bool" where
  "UUID_PATTERN = class_match (replicate 8 is_hex_digit @ [\<lambda>c. c = 45] @ replicate 4 is_hex_digit @
     [\<lambda>c. c = 45] @ replicate 4 is_hex_digit @ [\<lambda>c. c = 45] @ replicate 4 is_hex_digit @
     [\<lambda>c. c = 45] @ replicate 12 is_hex_digit)"

definition UUID4_PATTERN :: "pystr \<Rightarrow> bool" where
  "UUID4_PATTERN = class_match (replicate 8 is_hex_digit @ [\<lambda>c. c = 45] @ replicate 4 is_hex_digit @
     [\<lambda>c. c = 45, \<lambda>c. c = 52] @ replicate 3 is_hex_digit @
     [\<lambda>c. c = 45, \<lambda>c. c \<in> {56, 57, 97, 98}] @ replicate 3 is_hex_digit @
     [\<lambda>c. c = 45] @ replicate 12 is_hex_digit)"

definition DIGEST_PATTERN :: "pystr \<Rightarrow> bool" where
  "DIGEST_PATTERN s = (length s = 64 \<and> (\<forall>c \<in> set s. is_hex_digit c))"

definition CURSOR_PATTERN :: "pystr \<Rightarrow> bool" where
  \<comment> \<open>\<open>[A-Za-z0-9_-]{1,2048}\<close>\<close>
  "CURSOR_PATTERN s = (1 \<le> length s \<and> length s \<le> 2048 \<and>
     (\<forall>c \<in> set s. lower_alnum c \<or> 65 \<le> c \<and> c \<le> 90 \<or> c \<in> {95, 45}))"

text \<open>
  A schema of the contract: the JSON-schema dictionaries the module builds have these five
  shapes.  A string schema carries \<open>maxLength\<close>, \<open>enum\<close> and \<open>pattern\<close> where they are present.
\<close>

datatype schema =
    OneOf "schema list"
  | Const json
  | ObjectS "(pystr \<times> schema) list" "pystr list"
  | StringS nat "string list option" "(pystr \<Rightarrow> bool) option"
  | IntegerS int int

text \<open>\<open>_object(properties, required)\<close>: all properties are required unless a list is given.\<close>

definition object_all :: "(string \<times> schema) list \<Rightarrow> schema" where
  "object_all props = ObjectS (map (\<lambda>(k, s). (lit k, s)) props) (map (lit \<circ> fst) props)"

definition object_req :: "(string \<times> schema) list \<Rightarrow> string list \<Rightarrow> schema" where
  "object_req props req = ObjectS (map (\<lambda>(k, s). (lit k, s)) props) (map lit req)"

definition string_pat :: "(pystr \<Rightarrow> bool) \<Rightarrow> schema" where
  "string_pat p = StringS MAX_REQUEST_BYTES None (Some p)"

definition string_max :: "nat \<Rightarrow> schema" where
  "string_max n = StringS n None None"

definition string_enum :: "string list \<Rightarrow> schema" where
  "string_enum xs = StringS MAX_REQUEST_BYTES (Some xs) None"

definition REF :: schema where "REF = string_pat REF_PATTERN"
definition UUID :: schema where "UUID = string_pat UUID_PATTERN"
definition UUID4 :: schema where "UUID4 = string_pat UUID4_PATTERN"
definition DIGEST :: schema where "DIGEST = string_pat DIGEST_PATTERN"
definition NATURAL :: schema where "NATURAL = IntegerS 0 MAX_SAFE_INTEGER"
definition POSITIVE :: schema where "POSITIVE = IntegerS 1 MAX_SAFE_INTEGER"
definition CURSOR :: schema where "CURSOR = string_pat CURSOR_PATTERN"
definition PAGE :: schema where "PAGE = IntegerS 1 100"

definition EXPECTED_SCHEMA :: schema where
  "EXPECTED_SCHEMA = object_all [(''node_id'', REF), (''install_uuid'', UUID), (''deployment_epoch'', POSITIVE),
     (''profile_digest'', DIGEST), (''policy_digest'', DIGEST), (''registry_digest'', DIGEST)]"

definition INPUT_SCHEMAS :: "string \<Rightarrow> schema" where
  "INPUT_SCHEMAS kind =
     (if kind = ''ledger.test.local_a2'' then object_all [(''runtime_ref'', REF)]
      else if kind = ''workspace.edit'' then
        object_all [(''source_ref'', REF), (''relative_path'', string_max 256), (''expected_sha256'', DIGEST),
          (''content'', string_max MAX_WORKSPACE_TEXT_BYTES), (''validation_ref'', REF)]
      else if kind = ''ledger.prepare'' then object_all [(''source_ref'', REF), (''build_cache_ref'', REF)]
      else if kind = ''ledger.test.source'' then object_all [(''prepared_ref'', REF)]
      else if kind = ''ledger.test.resources'' then
        object_all [(''prepared_ref'', REF), (''suite'', string_enum SUITES)]
      else if kind = ''ledger.test.installed_local'' then object_all [(''prepared_ref'', REF)]
      else if kind = ''ledger.nas.roundtrip'' then object_all [(''prepared_ref'', REF), (''storage_ref'', REF)]
      else object_all [])"

definition submit_alternative :: "string \<Rightarrow> schema" where
  "submit_alternative kind =
     object_all [(''schema_version'', Const (jlit SCHEMA_VERSION)), (''operation_id'', UUID4),
       (''kind'', Const (jlit kind)), (''profile_ref'', REF), (''expected'', EXPECTED_SCHEMA),
       (''inputs'', INPUT_SCHEMAS kind), (''expires_at'', NATURAL), (''request_digest'', DIGEST)]"

definition SUBMIT_SCHEMA :: schema where
  "SUBMIT_SCHEMA = OneOf (map submit_alternative KINDS)"

definition CANCEL_TARGET_SCHEMA :: schema where
  "CANCEL_TARGET_SCHEMA = OneOf [object_all [(''kind'', Const (jlit ''job''))],
     object_all [(''kind'', Const (jlit ''reconcile'')), (''reconcile_id'', UUID4)]]"

definition prepare_alternative :: "string \<Rightarrow> schema" where
  "prepare_alternative kind =
     (if kind = ''host.inspect'' then
        object_req [(''operation_id'', UUID4), (''kind'', Const (jlit kind)), (''profile_ref'', REF),
          (''retry_failed'', Const (JBool True))] [''operation_id'', ''kind'', ''profile_ref'']
      else
        object_req [(''operation_id'', UUID4), (''kind'', Const (jlit kind)), (''profile_ref'', REF),
          (''inputs'', INPUT_SCHEMAS kind), (''retry_failed'', Const (JBool True))]
          [''operation_id'', ''kind'', ''profile_ref'', ''inputs''])"

definition PREPARE_SCHEMA :: schema where
  "PREPARE_SCHEMA = OneOf (map prepare_alternative [''host.inspect'', ''workspace.edit'', ''ledger.test.local_a2''])"

definition TOOL_SCHEMAS :: "(string \<times> schema) list" where
  "TOOL_SCHEMAS = [
     (''lh_capabilities'', object_req [(''cursor'', CURSOR), (''page_size'', PAGE)] []),
     (''lh_workspace_read'', object_all [(''profile_ref'', REF), (''source_ref'', REF), (''relative_path'', string_max 256)]),
     (''lh_job_prepare'', OneOf (map prepare_alternative (filter (\<lambda>k. k \<notin> set DISABLED_JOB_KINDS)
        [''host.inspect'', ''workspace.edit'', ''ledger.test.local_a2'']))),
     (''lh_job_submit'', OneOf (map submit_alternative (filter (\<lambda>k. k \<notin> set DISABLED_JOB_KINDS) KINDS))),
     (''lh_job_status'', object_req [(''operation_id'', UUID4), (''reconcile_id'', UUID4)] [''operation_id'']),
     (''lh_job_cancel'', object_all [(''operation_id'', UUID4), (''expected_request_digest'', DIGEST),
        (''target'', CANCEL_TARGET_SCHEMA)]),
     (''lh_job_reconcile'', object_all [(''operation_id'', UUID4), (''expected_request_digest'', DIGEST),
        (''reconcile_id'', UUID4)]),
     (''lh_evidence_manifest'', object_req [(''operation_id'', UUID4), (''cursor'', CURSOR), (''page_size'', PAGE)]
        [''operation_id'']),
     (''lh_evidence_read_chunk'', object_req [(''artifact_id'', REF), (''offset'', NATURAL),
        (''length'', IntegerS 1 262144), (''expected_sha256'', DIGEST)] [''artifact_id'', ''offset'', ''expected_sha256''])]"

definition TOOL_SCOPES :: "(string \<times> string) list" where
  "TOOL_SCOPES = [(''lh_workspace_read'', ''lh:read''), (''lh_capabilities'', ''lh:inspect''),
     (''lh_job_prepare'', ''lh:submit''), (''lh_job_submit'', ''lh:submit''), (''lh_job_status'', ''lh:read''),
     (''lh_job_cancel'', ''lh:cancel''), (''lh_job_reconcile'', ''lh:reconcile''),
     (''lh_evidence_manifest'', ''lh:evidence''), (''lh_evidence_read_chunk'', ''lh:evidence'')]"

subsection \<open>The matcher\<close>

lemma map_of_schema_size [termination_simp]:
  "map_of props k = Some s \<Longrightarrow> size s < Suc (size_list (size_prod (\<lambda>x. 0) size) props)"
  by (induction props) (auto split: if_splits)

text \<open>\<open>_matches\<close>.  A constant of the schemas is a string or \<open>True\<close>.\<close>

function matches :: "schema \<Rightarrow> json \<Rightarrow> bool" where
  "matches (OneOf candidates) v = (length (filter (\<lambda>c. matches c v) candidates) = 1)"
| "matches (Const c) v = (v = c)"
| "matches (ObjectS props required) v = (case v of
     JObj kvs \<Rightarrow> set required \<subseteq> fst ` set kvs \<and>
       (\<forall>(key, item) \<in> set kvs. case map_of props key of None \<Rightarrow> False | Some s \<Rightarrow> matches s item)
   | _ \<Rightarrow> False)"
| "matches (StringS maxlen enum pattern) v = (case v of
     JStr s \<Rightarrow> length s \<le> maxlen \<and>
       (case enum of None \<Rightarrow> True | Some xs \<Rightarrow> s \<in> set (map lit xs)) \<and>
       (case pattern of None \<Rightarrow> True | Some p \<Rightarrow> p s)
   | _ \<Rightarrow> False)"
| "matches (IntegerS lo hi) v = (case v of JInt n \<Rightarrow> lo \<le> n \<and> n \<le> hi | _ \<Rightarrow> False)"
  by pat_completeness auto
termination
  by (relation "measure (\<lambda>(s, v). size s)")
    (auto simp: less_Suc_eq_le size_list_estimation' dest: map_of_schema_size)

section \<open>Validation\<close>

definition canonical_bytes :: "json \<Rightarrow> bytes" where
  "canonical_bytes v = dumps v"

text \<open>
  \<open>json.loads\<close> without hooks, which the validators apply to the canonical bytes of a value to
  detach it.  A validated value holds no float, so that hook is never reached.
\<close>

definition plain_hooks :: hooks where
  "plain_hooks = \<lparr>parse_int = \<lambda>t. Inr (JInt (int_of_text t)),
     parse_float = \<lambda>t. Inr (JFloat (map char_of t)), parse_constant = \<lambda>t. Inr (JFloat (map char_of t)),
     object_pairs_hook = \<lambda>items. Inr (JObj (fold (\<lambda>(k, x). AList.update k x) items []))\<rparr>"

definition detached :: "json \<Rightarrow> json res" where
  "detached v = loads plain_hooks (canonical_bytes v)"

definition workspace_path :: "udb \<Rightarrow> json option \<Rightarrow> unit res" where
  "workspace_path U relative_path = (case relative_path of
     Some (JStr p) \<Rightarrow>
       (case canonical_relative_posix U False p of
          Inr _ \<Rightarrow> Inr ()
        | Inl _ \<Rightarrow> Inl (invalid ''Workspace file must be a canonical relative path outside Git metadata''))
   | Some _ \<Rightarrow> Inl (PyError ''TypeError'')
   | None \<Rightarrow> Inl (PyError ''KeyError''))"

definition workspace_inputs :: "udb \<Rightarrow> json \<Rightarrow> unit res" where
  "workspace_inputs U inputs =
     thenE (workspace_path U (fld inputs ''relative_path''))
       (raise_if (length (canonical_bytes inputs) > MAX_INPUT_BYTES)
         (JobError ''LIMIT_EXCEEDED'' ''Canonical workspace inputs exceed 120 KiB (including JSON escapes)''))"

definition zero_digest :: json where
  "zero_digest = JStr (replicate 64 48)"

text \<open>\<open>candidate.setdefault("request_digest", "0" * 64)\<close>\<close>

definition with_digest :: "json \<Rightarrow> json" where
  "with_digest request = (case fld request ''request_digest'' of
     None \<Rightarrow> dset request (lit ''request_digest'') zero_digest | Some _ \<Rightarrow> request)"

definition submit_without_digest :: "udb \<Rightarrow> json \<Rightarrow> json res" where
  "submit_without_digest U request =
     (if \<not> is_dict request then Inl invalid_contract
      else let candidate = with_digest request in
        thenE (tree 0 candidate)
        (thenE (raise_if (\<not> matches SUBMIT_SCHEMA candidate) invalid_contract)
        (thenE (if fld candidate ''kind'' = Some (jlit ''workspace.edit'')
                then bindE (sub candidate ''inputs'') (workspace_inputs U) else Inr ())
        (let body = dpop candidate (lit ''request_digest'') in
         thenE (raise_if (length (canonical_bytes body) > MAX_CANONICAL_BYTES)
                 (JobError ''LIMIT_EXCEEDED'' ''Canonical submission exceeds 128 KiB''))
           (Inr body)))))"

definition request_digest :: "udb \<Rightarrow> json \<Rightarrow> pystr res" where
  "request_digest U request =
     bindE (submit_without_digest U request) (\<lambda>body. Inr (sha256_hex (canonical_bytes body)))"

text \<open>A caller passes raw text or bytes, or an object already decoded.\<close>

datatype tool_input = RawIn raw | ObjIn json

definition decode_input :: "tool_input \<Rightarrow> json res" where
  "decode_input inp = (case inp of
     RawIn r \<Rightarrow> strict_loads MAX_REQUEST_BYTES r
   | ObjIn (JStr s) \<Rightarrow> strict_loads MAX_REQUEST_BYTES (RawStr s)
   | ObjIn v \<Rightarrow> Inr v)"

definition validate_submit :: "udb \<Rightarrow> tool_input \<Rightarrow> json res" where
  "validate_submit U inp =
     bindE (decode_input inp) (\<lambda>request.
       if \<not> is_dict request \<or> fld request ''request_digest'' = None then Inl invalid_contract
       else bindE (request_digest U request) (\<lambda>expected.
         if fld request ''request_digest'' \<noteq> Some (JStr expected)
         then Inl (JobError ''CONFLICT'' ''Request digest does not match canonical request'')
         else detached request))"

definition validate_tool_args :: "udb \<Rightarrow> string \<Rightarrow> tool_input \<Rightarrow> json res" where
  "validate_tool_args U tool_name inp =
     (case map_of TOOL_SCHEMAS tool_name of
        None \<Rightarrow> Inl (JobError ''UNSUPPORTED'' ''Unknown restricted job tool'')
      | Some tool_schema \<Rightarrow>
          bindE (decode_input inp) (\<lambda>arguments.
            if tool_name = ''lh_job_submit'' then validate_submit U (ObjIn arguments)
            else thenE (tree 0 arguments)
              (thenE (raise_if (\<not> matches (if tool_name = ''lh_job_prepare'' then PREPARE_SCHEMA else tool_schema) arguments)
                       invalid_contract)
              (thenE (if tool_name = ''lh_job_prepare'' \<and> fld arguments ''kind'' = Some (jlit ''workspace.edit'')
                      then bindE (sub arguments ''inputs'') (workspace_inputs U) else Inr ())
              (thenE (if tool_name = ''lh_workspace_read''
                      then workspace_path U (fld arguments ''relative_path'') else Inr ())
                (detached arguments))))))"

end
