(* ===== verification/ContractProps.thy ===== *)
theory ContractProps
  imports Contract
begin

text \<open>
  Properties of the request contract: canonical bytes decode to the request they encode, the
  digest of a validated submission binds its whole content, and validation is idempotent.
\<close>

section \<open>What \<open>_tree\<close> admits, the decoders keep\<close>

lemma dec_length: "n < 10 ^ k \<Longrightarrow> 0 < k \<Longrightarrow> length (dec n) \<le> k"
proof (induction n arbitrary: k rule: dec.induct)
  case (1 n)
  show ?case
  proof (cases "n < 10")
    case True
    with "1.prems" show ?thesis by (subst dec.simps) simp
  next
    case False
    then obtain j where k: "k = Suc j" "0 < j"
      using "1.prems" by (cases k; cases "k - 1") auto
    then have "n div 10 < 10 ^ j" using "1.prems" by (simp add: less_mult_imp_div_less mult.commute)
    with "1.IH" False k have "length (dec (n div 10)) \<le> j" by blast
    with False k show ?thesis by (subst dec.simps) simp
  qed
qed

lemma lstrip_minus_dec: "lstrip_minus (dec n) = dec n"
  using hd_dec_digit [of n] by (cases "dec n") (auto simp: lstrip_minus_def is_digit_def)

lemma integer_hook_print_int:
  assumes "\<bar>n\<bar> \<le> MAX_SAFE_INTEGER"
  shows "integer_hook (print_int n) = Inr (JInt n)"
proof -
  have "length (dec (nat \<bar>n\<bar>)) \<le> 16"
    using assms by (intro dec_length) (auto simp: MAX_SAFE_INTEGER_def)
  moreover have "lstrip_minus (print_int n) = dec (nat \<bar>n\<bar>)"
    using lstrip_minus_dec by (auto simp: print_int_def lstrip_minus_def)
  ultimately show ?thesis using assms by (simp add: integer_hook_def)
qed

lemma pairs_onto_distinct:
  "distinct (map fst (acc @ items)) \<Longrightarrow> pairs_onto acc items = Inr (acc @ items)"
proof (induction items arbitrary: acc)
  case Nil
  then show ?case by simp
next
  case (Cons p items)
  obtain k v where p: "p = (k, v)" by (cases p)
  with Cons.prems have "k \<notin> fst ` set acc" by auto
  moreover have "pairs_onto (acc @ [(k, v)]) items = Inr ((acc @ [(k, v)]) @ items)"
    using Cons.prems p by (intro Cons.IH) simp
  ultimately show ?case using p by (simp add: update_new)
qed

lemma fold_update_distinct:
  "distinct (map fst (acc @ items)) \<Longrightarrow> fold (\<lambda>(k, x). AList.update k x) items acc = acc @ items"
proof (induction items arbitrary: acc)
  case Nil
  then show ?case by simp
next
  case (Cons p items)
  obtain k v where p: "p = (k, v)" by (cases p)
  with Cons.prems have "k \<notin> fst ` set acc" by auto
  moreover have "fold (\<lambda>(k, x). AList.update k x) items (acc @ [(k, v)]) = (acc @ [(k, v)]) @ items"
    using Cons.prems p by (intro Cons.IH) simp
  ultimately show ?case using p by (simp add: update_new)
qed

lemma tree_scalars: "tree d (JStr s) = Inr () \<Longrightarrow> code_points s \<Longrightarrow> scalars s"
  by (auto simp: res_simps scalars_def scalar_def surrogate_def code_points_def)

text \<open>The two sets of hooks that meet a canonical text keep every value that passed \<open>_tree\<close>.\<close>

definition keeps :: "hooks \<Rightarrow> bool" where
  "keeps h = ((\<forall>n. \<bar>n\<bar> \<le> MAX_SAFE_INTEGER \<longrightarrow> parse_int h (print_int n) = Inr (JInt n)) \<and>
     (\<forall>kvs. distinct (map fst kvs) \<longrightarrow> object_pairs_hook h kvs = Inr (JObj kvs)))"

lemma keeps_strict: "keeps strict_hooks"
  by (simp add: keeps_def strict_hooks_def integer_hook_print_int pairs_hook_def pairs_onto_distinct)

lemma keeps_plain: "keeps plain_hooks"
  unfolding keeps_def plain_hooks_def using fold_update_distinct [where acc = "[]"]
  by (auto simp: case_prod_unfold)

lemma tree_accepts: "keeps h \<Longrightarrow> tree d v = Inr () \<Longrightarrow> wf_json v \<Longrightarrow> accepts h v"
proof (induction d v rule: tree.induct)
  case (1 d s)
  then show ?case using tree_scalars by simp
next
  case (3 d kvs)
  then show ?case
    using tree_scalars by (fastforce simp: res_simps keeps_def)
next
  case (4 d xs)
  then show ?case by (auto simp: res_simps)
qed (auto simp: res_simps keeps_def)

lemma tree_sort_keys: "tree d (sort_keys v) = Inr () \<longleftrightarrow> tree d v = Inr ()"
proof (induction d v rule: tree.induct)
  case (3 d kvs)
  then show ?case by (fastforce simp: res_simps)
next
  case (4 d xs)
  then show ?case by (auto simp: res_simps)
qed auto

lemma tree_accepts_sorted:
  "keeps h \<Longrightarrow> tree d v = Inr () \<Longrightarrow> wf_json v \<Longrightarrow> accepts h (sort_keys v)"
  by (rule tree_accepts) (simp_all add: tree_sort_keys wf_json_sort_keys)

lemma detached_eq: "tree 0 v = Inr () \<Longrightarrow> wf_json v \<Longrightarrow> detached v = Inr (sort_keys v)"
  by (simp add: detached_def canonical_bytes_def loads_dumps tree_accepts_sorted keeps_plain)

section \<open>Canonical text is ASCII and nests as deep as its value\<close>

lemma join_comma_set: "set (join_comma xs) \<subseteq> insert 44 (\<Union>x \<in> set xs. set x)"
  by (induction xs rule: join_comma.induct) auto

lemma join_comma_ascii:
  "(\<And>x. x \<in> set xs \<Longrightarrow> set x \<subseteq> {c. c < 128}) \<Longrightarrow> set (join_comma xs) \<subseteq> {c. c < 128}"
  using join_comma_set [of xs] by fastforce

lemma hex_char_range:
  "48 \<le> hex_char (d mod 16) \<and> hex_char (d mod 16) \<le> 57 \<or>
   97 \<le> hex_char (d mod 16) \<and> hex_char (d mod 16) \<le> 102"
  using mod_less_divisor [of 16 d] by (auto simp: hex_char_def simp del: mod_less_divisor)

lemma hex4_text_chars: "c \<in> set (hex4_text n) \<Longrightarrow> 48 \<le> c \<and> c \<le> 57 \<or> 97 \<le> c \<and> c \<le> 102"
  by (simp only: hex4_text_def set_simps insert_iff empty_iff) (elim disjE; simp only: hex_char_range)

lemma escape_char_ascii: "c \<in> set (escape_char d) \<Longrightarrow> c < 128"
  by (auto simp: escape_char_def uescape_def split: if_splits dest!: hex4_text_chars)

lemma print_str_ascii: "c \<in> set (print_str s) \<Longrightarrow> c < 128"
  by (auto simp: print_str_def dest: escape_char_ascii)

lemma print_int_ascii: "c \<in> set (print_int n) \<Longrightarrow> c = 45 \<or> is_digit c"
  using dec_digits by (auto simp: print_int_def split: if_splits)

lemma jprint_ascii: "accepts h v \<Longrightarrow> c \<in> set (jprint v) \<Longrightarrow> c < 128"
proof (induction v arbitrary: c rule: jprint.induct)
  case (3 n)
  then show ?case using print_int_ascii [of c n] by (auto simp: is_digit_def)
next
  case (4 s)
  then obtain n ds where "lit s = print_int n @ 46 # ds" "\<forall>d \<in> set ds. is_digit d"
    by (auto simp: float_text_def)
  with 4 print_int_ascii [of c n] show ?case by (auto simp: is_digit_def)
next
  case (5 s)
  then show ?case using print_str_ascii by simp
next
  case (6 xs)
  then show ?case using join_comma_set [of "map jprint xs"] by auto
next
  case (7 kvs)
  have member: "set (print_member p) \<subseteq> {c. c < 128}" if "p \<in> set kvs" for p
  proof -
    obtain k v where p: "p = (k, v)" by (cases p)
    have "accepts h v" using "7.prems"(1) that p by auto
    with "7.IH" [OF that p [symmetric]] have "set (jprint v) \<subseteq> {c. c < 128}" by blast
    moreover have "set (print_str k) \<subseteq> {c. c < 128}" using print_str_ascii by blast
    ultimately show ?thesis by (simp add: p)
  qed
  then have "set x \<subseteq> {c. c < 128}" if "x \<in> set (map print_member kvs)" for x
    using that by (simp only: set_map image_iff) blast
  then have "set (join_comma (map print_member kvs)) \<subseteq> {c. c < 128}"
    by (rule join_comma_ascii)
  with "7.prems"(2) show ?case by auto
qed (auto simp: lit_def split: if_splits)

lemma utf8_decode_ascii: "\<forall>c \<in> set s. c < 128 \<Longrightarrow> utf8_decode s = Some s"
proof (induction s)
  case Nil
  show ?case by (simp add: utf8_decode.simps)
next
  case (Cons c s)
  then show ?case by (subst utf8_decode.simps) (simp add: utf8_head_def)
qed

lemma depth_scan_plain:
  "\<forall>c \<in> set s. c \<notin> {34, 91, 123, 93, 125} \<Longrightarrow> depth_scan d False False (s @ r) = depth_scan d False False r"
  by (induction s) auto

lemma depth_scan_quoted:
  "\<forall>c \<in> set s. c \<notin> {34, 92} \<Longrightarrow> depth_scan d True False (s @ r) = depth_scan d True False r"
  by (induction s) auto

lemma depth_scan_uescape: "depth_scan d True False (uescape n @ r) = depth_scan d True False r"
proof -
  have "\<forall>c \<in> set (hex4_text n). c \<notin> {34, 92}"
    using hex4_text_chars by fastforce
  then show ?thesis by (simp add: uescape_def depth_scan_quoted)
qed

lemma depth_scan_escape_char: "depth_scan d True False (escape_char c @ r) = depth_scan d True False r"
  by (simp add: escape_char_def depth_scan_uescape)

lemma depth_scan_str: "depth_scan d False False (print_str s @ r) = depth_scan d False False r"
proof -
  have "depth_scan d True False (concat (map escape_char s) @ 34 # r) = depth_scan d False False r"
    by (induction s) (simp_all add: depth_scan_escape_char)
  then show ?thesis by (simp add: print_str_def)
qed

lemma depth_scan_join:
  assumes "\<And>x r. x \<in> set xs \<Longrightarrow> depth_scan d False False (x @ r) = depth_scan d False False r"
  shows "depth_scan d False False (join_comma xs @ r) = depth_scan d False False r"
  using assms by (induction xs rule: join_comma.induct) auto

text \<open>Scanning the text of a value that \<open>_tree\<close> admits at some depth leaves the depth as it was.\<close>

lemma depth_scan_jprint:
  "tree d v = Inr () \<Longrightarrow> depth_scan (int d) False False (jprint v @ r) = depth_scan (int d) False False r"
proof (induction d v arbitrary: r rule: tree.induct)
  case (1 d s)
  then show ?case by (simp add: depth_scan_str)
next
  case (2 d n)
  have "\<forall>c \<in> set (print_int n). c \<notin> {34, 91, 123, 93, 125}"
    using print_int_ascii [of _ n] by (fastforce simp: is_digit_def)
  then show ?case by (simp add: depth_scan_plain)
next
  case (3 d kvs)
  then have d: "int d + 1 \<le> int MAX_DEPTH" by (simp add: res_simps)
  have items: "depth_scan (int (Suc d)) False False (jprint v @ r) = depth_scan (int (Suc d)) False False r"
    if "(k, v) \<in> set kvs" for k v r
    using 3 that by (fastforce simp: res_simps)
  have "depth_scan (int (Suc d)) False False (x @ r) = depth_scan (int (Suc d)) False False r"
    if "x \<in> set (map (\<lambda>(k, v). print_str k @ 58 # jprint v) kvs)" for x r
    using that items by (auto simp: depth_scan_str)
  then have "depth_scan (int (Suc d)) False False (join_comma (map print_member kvs) @ 125 # r) =
      depth_scan (int (Suc d)) False False (125 # r)" by (rule depth_scan_join)
  with d show ?case by (simp add: add.commute)
next
  case (4 d xs)
  then have d: "int d + 1 \<le> int MAX_DEPTH" by (simp add: res_simps)
  have "depth_scan (int (Suc d)) False False (x @ r) = depth_scan (int (Suc d)) False False r"
    if "x \<in> set (map jprint xs)" for x r
    using that 4 by (auto simp: res_simps)
  then have "depth_scan (int (Suc d)) False False (join_comma (map jprint xs) @ 93 # r) =
      depth_scan (int (Suc d)) False False (93 # r)" by (rule depth_scan_join)
  with d show ?case by (simp add: add.commute)
qed (auto simp: lit_def)

lemma strict_loads_sorted:
  assumes tree: "tree 0 v = Inr ()" and wf: "wf_json v" and size: "length (canonical_bytes v) \<le> n"
  shows "strict_loads n (RawBytes (canonical_bytes v)) = Inr (sort_keys v)"
proof -
  have acc: "accepts strict_hooks (sort_keys v)"
    using tree wf by (intro tree_accepts_sorted keeps_strict)
  have "utf8_decode (canonical_bytes v) = Some (canonical_bytes v)"
    using jprint_ascii [OF acc] by (simp add: utf8_decode_ascii canonical_bytes_def dumps_def)
  moreover have "depth_scan 0 False False (canonical_bytes v)"
    using depth_scan_jprint [of 0 "sort_keys v" "[]"] tree
    by (simp add: canonical_bytes_def dumps_def tree_sort_keys)
  moreover have "loads strict_hooks (canonical_bytes v) = Inr (sort_keys v)"
    using acc by (simp add: canonical_bytes_def loads_dumps)
  ultimately show ?thesis
    using size tree_sort_keys [THEN iffD2, OF tree]
    by (simp add: strict_loads_def raw_text_def malformed_def)
qed

section \<open>Sorted requests\<close>

fun simple_schema :: "schema \<Rightarrow> bool" where
  "simple_schema (OneOf cs) = (\<forall>c \<in> set cs. simple_schema c)"
| "simple_schema (Const c) = (case c of JStr _ \<Rightarrow> True | JBool _ \<Rightarrow> True | _ \<Rightarrow> False)"
| "simple_schema (ObjectS props req) = (\<forall>(k, s) \<in> set props. simple_schema s)"
| "simple_schema _ = True"

lemma matches_sort_keys: "simple_schema s \<Longrightarrow> matches s (sort_keys v) = matches s v"
proof (induction s v rule: matches.induct)
  case (1 cs v)
  then have "filter (\<lambda>c. matches c (sort_keys v)) cs = filter (\<lambda>c. matches c v) cs"
    by (intro filter_cong) auto
  then show ?case by simp
next
  case (2 c v)
  then show ?case by (cases c) auto
next
  case (3 props req v)
  have item: "matches s (sort_keys x) = matches s x"
    if "v = JObj kvs" "(k, x) \<in> set kvs" "map_of props k = Some s" for kvs k x s
    using 3 that by (fastforce dest: map_of_SomeD)
  show ?case
  proof (cases v)
    case (JObj kvs)
    let ?P = "\<lambda>f (k, x). case map_of props k of None \<Rightarrow> False | Some s \<Rightarrow> matches s (f x)"
    have "(\<forall>p \<in> set kvs. ?P sort_keys p) = (\<forall>p \<in> set kvs. ?P (\<lambda>x. x) p)"
      using item [OF JObj] by (intro ball_cong refl) (auto split: option.splits)
    moreover have "(\<lambda>(key, item). case map_of props key of None \<Rightarrow> False | Some s \<Rightarrow> matches s item) (k, sort_keys x)
        = ?P sort_keys (k, x)" for k x by simp
    moreover have "fst ` (\<lambda>(k, v). (k, sort_keys v)) ` set kvs = fst ` set kvs" by force
    ultimately show ?thesis using JObj by (simp add: split_beta cong: option.case_cong)
  qed auto
next
  case (4 m e p v)
  then show ?case by (cases v) auto
next
  case (5 lo hi v)
  then show ?case by (cases v) auto
qed

lemma simple_INPUT_SCHEMAS: "simple_schema (INPUT_SCHEMAS kind)"
  by (simp add: INPUT_SCHEMAS_def object_all_def REF_def DIGEST_def string_pat_def string_max_def string_enum_def)

lemma simple_SUBMIT_SCHEMA: "simple_schema SUBMIT_SCHEMA"
  by (simp add: SUBMIT_SCHEMA_def submit_alternative_def object_all_def simple_INPUT_SCHEMAS EXPECTED_SCHEMA_def
      REF_def UUID_def UUID4_def DIGEST_def NATURAL_def POSITIVE_def string_pat_def)

section \<open>Validated submissions\<close>

lemma decode_input_ObjIn: "is_dict r \<Longrightarrow> decode_input (ObjIn r) = Inr r"
  by (cases r) (auto simp: decode_input_def)

text \<open>The checks that a decoded request passes, as one predicate.\<close>

definition submission_ok :: "udb \<Rightarrow> json \<Rightarrow> bool" where
  "submission_ok U r =
     (is_dict r \<and> tree 0 r = Inr () \<and> matches SUBMIT_SCHEMA r \<and>
      (fld r ''kind'' = Some (jlit ''workspace.edit'') \<longrightarrow>
         (\<exists>inputs. fld r ''inputs'' = Some inputs \<and> workspace_inputs U inputs = Inr ())) \<and>
      length (canonical_bytes (dpop r (lit ''request_digest''))) \<le> MAX_CANONICAL_BYTES \<and>
      fld r ''request_digest'' = Some (JStr (sha256_hex (canonical_bytes (dpop r (lit ''request_digest''))))))"

lemma with_digest_id: "fld r ''request_digest'' = Some x \<Longrightarrow> with_digest r = r"
  by (simp add: with_digest_def)

lemma validate_submit_iff:
  assumes "is_dict r" and wf: "wf_json r"
  shows "validate_submit U (ObjIn r) = Inr r' \<longleftrightarrow> submission_ok U r \<and> r' = sort_keys r"
proof (cases "fld r ''request_digest''")
  case None
  then show ?thesis
    using assms by (simp add: validate_submit_def decode_input_ObjIn submission_ok_def)
next
  case (Some x)
  show ?thesis
    using assms Some detached_eq [OF _ wf]
    by (auto simp: validate_submit_def decode_input_ObjIn request_digest_def submit_without_digest_def
        with_digest_id Let_def submission_ok_def res_simps not_less split: if_splits)
qed

lemma workspace_inputs_sort_keys:
  assumes "wf_json inputs"
  shows "workspace_inputs U (sort_keys inputs) = workspace_inputs U inputs"
proof -
  have "workspace_path U (map_option sort_keys x) = workspace_path U x" for x
    by (cases x; cases "the x") (auto simp: workspace_path_def)
  then show ?thesis
    using assms by (simp add: workspace_inputs_def canonical_bytes_def dget_sort_keys)
qed

lemma submission_ok_sort_keys:
  assumes wf: "wf_json r"
  shows "submission_ok U (sort_keys r) = submission_ok U r"
proof -
  have body: "canonical_bytes (dpop (sort_keys r) k) = canonical_bytes (dpop r k)" for k
    by (simp add: canonical_bytes_def dumps_def sort_keys_dpop)
  have "workspace_inputs U (sort_keys i) = workspace_inputs U i" if "fld r ''inputs'' = Some i" for i
    using that wf_json_dget [OF wf] by (intro workspace_inputs_sort_keys)
  then show ?thesis
    by (auto simp: submission_ok_def body tree_sort_keys dget_sort_keys [OF wf]
        matches_sort_keys [OF simple_SUBMIT_SCHEMA])
qed

subsection \<open>The size of a submission with its digest\<close>

lemma length_join_comma:
  "length (join_comma xs) \<le> sum_list (map (\<lambda>x. Suc (length x)) xs)"
  "sum_list (map (\<lambda>x. Suc (length x)) xs) \<le> Suc (length (join_comma xs))"
  by (induction xs rule: join_comma.induct) auto

lemma sum_list_delete:
  assumes "distinct (map fst xs)" and "map_of xs k = Some x"
  shows "sum_list (map f xs) = f (k, x) + sum_list (map (f :: _ \<Rightarrow> nat) (AList.delete k xs))"
  using assms
proof (induction xs)
  case (Cons p xs)
  then show ?case
    by (cases p) (auto simp: AList.delete_id split: if_splits)
qed simp

lemma length_dumps_dpop:
  assumes wf: "wf_json v" and dict: "is_dict v" and k: "dget v k = Some (JStr t)"
  shows "length (dumps v) \<le> length (dumps (dpop v k)) + length (print_str k) + length (print_str t) + 3"
proof -
  obtain kvs where v: "v = JObj kvs" using dict by (auto simp: is_dict_iff)
  let ?S = "map (\<lambda>(k, v). (k, sort_keys v))"
  define ys where "ys = sort_key fst (?S kvs)"
  have del: "AList.delete k (?S xs) = ?S (AList.delete k xs)" for xs
    by (induction xs) (auto simp: AList.delete_eq)
  have "sort_key fst (?S (AList.delete k kvs)) = AList.delete k ys"
    unfolding ys_def del [symmetric] by (simp add: AList.delete_eq filter_sort)
  moreover have "distinct (map fst ys)" "map_of ys k = Some (JStr t)"
    using wf k v by (simp_all add: ys_def map_fst_sort_key map_of_sort_key map_of_map_snd distinct_map_snd del: map_map)
  then have "sum_list (map (\<lambda>p. Suc (length (print_member p))) ys) =
      Suc (length (print_str k) + 1 + length (print_str t)) +
      sum_list (map (\<lambda>p. Suc (length (print_member p))) (AList.delete k ys))"
    by (simp add: sum_list_delete)
  moreover note length_join_comma(1) [of "map print_member ys"]
    length_join_comma(2) [of "map print_member (AList.delete k ys)"]
  ultimately show ?thesis
    by (simp add: dumps_def v dpop_def ys_def [symmetric] comp_def)
qed

lemma length_print_digest: "\<forall>c \<in> set t. is_hex_digit c \<Longrightarrow> length (print_str t) = length t + 2"
proof (induction t)
  case (Cons c t)
  then have "length (escape_char c) = 1"
    by (auto simp: escape_char_def is_hex_digit_def)
  with Cons show ?case by (simp add: print_str_def)
qed (simp add: print_str_def)

lemma submission_ok_size:
  assumes ok: "submission_ok U r" and wf: "wf_json r"
  shows "length (canonical_bytes r) \<le> MAX_REQUEST_BYTES"
proof -
  define t where "t = sha256_hex (canonical_bytes (dpop r (lit ''request_digest'')))"
  have t: "length (print_str t) = 66"
    using length_print_digest [of t] by (simp add: t_def sha256_hex_digits)
  have "length (print_str (lit ''request_digest'')) = 16"
    by (simp add: print_str_def lit_def escape_char_def)
  moreover have "length (dumps r) \<le> length (dumps (dpop r (lit ''request_digest''))) +
      length (print_str (lit ''request_digest'')) + length (print_str t) + 3"
    using ok by (intro length_dumps_dpop [OF wf]) (simp_all add: submission_ok_def t_def)
  ultimately show ?thesis
    using ok t by (simp add: submission_ok_def canonical_bytes_def MAX_CANONICAL_BYTES_def MAX_REQUEST_BYTES_def)
qed

section \<open>Unique keys\<close>

text \<open>No dictionary of the value repeats a key.\<close>

fun unique_keys :: "json \<Rightarrow> bool" where
  "unique_keys (JList xs) = (\<forall>x \<in> set xs. unique_keys x)"
| "unique_keys (JObj kvs) = (distinct (map fst kvs) \<and> (\<forall>(k, v) \<in> set kvs. unique_keys v))"
| "unique_keys _ = True"

lemma pairs_onto_keys:
  "pairs_onto acc items = Inr d \<Longrightarrow> distinct (map fst acc) \<Longrightarrow> d = acc @ items \<and> distinct (map fst d)"
proof (induction acc items arbitrary: d rule: pairs_onto.induct)
  case (2 acc k v items)
  then have k: "k \<notin> fst ` set acc" and rest: "pairs_onto (acc @ [(k, v)]) items = Inr d"
    by (auto simp: update_new split: if_splits)
  moreover have "distinct (map fst (acc @ [(k, v)]))" using k "2.prems"(2) by simp
  ultimately have "d = (acc @ [(k, v)]) @ items \<and> distinct (map fst d)"
    using "2.IH" [of d] by (simp only: update_new [OF k]) blast
  then show ?case by (metis append_assoc append_Cons append_Nil)
qed simp

lemma pairs_hook_keys: "pairs_hook items = Inr v \<Longrightarrow> v = JObj items \<and> distinct (map fst items)"
  using pairs_onto_keys [of "[]" items] by (auto simp: pairs_hook_def res_simps)

lemma scan_number_unique: "scan_number strict_hooks s = Inr (v, r) \<Longrightarrow> unique_keys v"
  by (auto simp: scan_number_def strict_hooks_def reject_number_def integer_hook_def Let_def res_simps
      split: prod.splits if_splits)

lemma scan_unique:
  "(\<forall>s v r. scan_value strict_hooks n s = Inr (v, r) \<longrightarrow> unique_keys v) \<and>
   (\<forall>s xs r. scan_array strict_hooks n s = Inr (xs, r) \<longrightarrow> (\<forall>x \<in> set xs. unique_keys x)) \<and>
   (\<forall>s kvs r. scan_object strict_hooks n s = Inr (kvs, r) \<longrightarrow> (\<forall>(k, x) \<in> set kvs. unique_keys x))"
proof (induction n)
  case 0
  show ?case by simp
next
  case (Suc n)
  have hook: "object_pairs_hook strict_hooks = pairs_hook" by (simp add: strict_hooks_def)
  have val: "unique_keys v" if "scan_value strict_hooks n s = Inr (v, r)" for s v r
    using that Suc.IH by blast
  have arr: "unique_keys (JList xs)" if "scan_array strict_hooks n s = Inr (xs, r)" for s xs r
    using that Suc.IH by simp blast
  have ob: "\<forall>(k, x) \<in> set kvs. unique_keys x" if "scan_object strict_hooks n s = Inr (kvs, r)" for s kvs r
    using that Suc.IH by blast
  have "unique_keys v" if "scan_value strict_hooks (Suc n) s = Inr (v, r)" for s v r
    using that
    by (auto simp: res_simps hook split: list.splits if_splits
        dest!: pairs_hook_keys scan_number_unique dest: arr ob)
  moreover have "\<forall>x \<in> set xs. unique_keys x" if asm: "scan_array strict_hooks (Suc n) s = Inr (xs, r)" for s xs r
  proof -
    obtain v r1 where v: "scan_value strict_hooks n s = Inr (v, r1)"
      using asm by (cases "scan_value strict_hooks n s") auto
    with asm val [OF v] show ?thesis
      by (auto simp: res_simps split: list.splits if_splits dest!: arr)
  qed
  moreover have "\<forall>(k, x) \<in> set kvs. unique_keys x" if asm: "scan_object strict_hooks (Suc n) s = Inr (kvs, r)" for s kvs r
  proof -
    obtain cs k r1 where k: "s = 34 # cs" "scan_str cs = Inr (k, r1)"
      using asm by (cases s; cases "scan_str (tl s)") (auto split: if_splits)
    with asm obtain ds where ds: "skip_ws r1 = 58 # ds"
      by (auto split: list.splits if_splits)
    with asm k obtain v r2 where v: "scan_value strict_hooks n (skip_ws ds) = Inr (v, r2)"
      by (cases "scan_value strict_hooks n (skip_ws ds)") auto
    with asm k ds val [OF v] show ?thesis
      by (auto simp: res_simps split: list.splits if_splits dest!: ob)
  qed
  ultimately show ?case by blast
qed

lemma scan_value_unique: "scan_value strict_hooks n s = Inr (v, r) \<Longrightarrow> unique_keys v"
  using scan_unique by blast

lemma loads_unique: "loads strict_hooks s = Inr v \<Longrightarrow> unique_keys v"
  by (auto simp: loads_def res_simps simp del: scan_value.simps split: if_splits dest: scan_value_unique)

lemma malformed_Inr [res_simps]: "malformed r = Inr v \<longleftrightarrow> r = Inr v"
  by (cases r) (auto simp: malformed_def split: exn.splits)

section \<open>Alternatives of a submission\<close>

lemma matches_objectD:
  "matches (ObjectS props req) v \<Longrightarrow> dget v k = Some x \<Longrightarrow> \<exists>s. map_of props k = Some s \<and> matches s x"
proof -
  assume m: "matches (ObjectS props req) v" and x: "dget v k = Some x"
  then obtain kvs where v: "v = JObj kvs" by (cases v) (auto simp: dget_def)
  with x have "(k, x) \<in> set kvs" by (simp add: map_of_SomeD)
  with m v show ?thesis by (auto split: option.splits)
qed

lemma matches_object_required:
  "matches (ObjectS props req) v \<Longrightarrow> k \<in> set req \<Longrightarrow> \<exists>x. dget v k = Some x"
  by (cases v) (auto simp: dget_def simp flip: dom_map_of_conv_image_fst)

lemma matches_object_all:
  assumes "matches (object_all props) v" and "map_of props k = Some s"
  shows "\<exists>x. fld v k = Some x \<and> matches s x"
proof -
  have "k \<in> fst ` set props" using assms(2) by (force dest: map_of_SomeD)
  then obtain x where x: "fld v k = Some x"
    using matches_object_required [OF assms(1) [unfolded object_all_def], of "lit k"] by auto
  with matches_objectD [OF assms(1) [unfolded object_all_def] x] assms(2) show ?thesis by simp
qed

lemma matches_object_all_obj:
  "matches (object_all props) (obj kvs) \<longleftrightarrow> fst ` set props \<subseteq> fst ` set kvs \<and>
     (\<forall>(k, x) \<in> set kvs. case map_of props k of None \<Rightarrow> False | Some s \<Rightarrow> matches s x)"
proof -
  have "lit ` A \<subseteq> lit ` B \<longleftrightarrow> A \<subseteq> B" for A B by (rule inj_image_subset_iff) (simp add: inj_def)
  moreover have "fst ` (\<lambda>(k, v). (lit k, v)) ` set kvs = lit ` fst ` set kvs" by force
  moreover have "(lit \<circ> fst) ` set props = lit ` fst ` set props" by force
  ultimately show ?thesis
    by (simp add: object_all_def obj_def split_beta cong: option.case_cong)
qed

lemma submit_alternative_kind:
  "matches (submit_alternative kind) v \<Longrightarrow> fld v ''kind'' = Some (jlit kind)"
  using matches_object_all [of _ v "''kind''" "Const (jlit kind)"] by (fastforce simp: submit_alternative_def)

lemma filter_unique:
  "(\<And>x. x \<in> set xs \<Longrightarrow> P x \<Longrightarrow> x = a) \<Longrightarrow> distinct xs \<Longrightarrow> a \<in> set xs \<Longrightarrow> P a \<Longrightarrow> filter P xs = [a]"
proof (induction xs)
  case (Cons x xs)
  show ?case
  proof (cases "x = a")
    case True
    then have "filter P xs = []" using Cons.prems by (auto simp: filter_empty_conv)
    with True Cons.prems(4) show ?thesis by simp
  next
    case False
    then have "\<not> P x" using Cons.prems(1) [of x] by auto
    with False Cons show ?thesis by simp
  qed
qed simp

lemma matches_SUBMIT_SCHEMA:
  "matches SUBMIT_SCHEMA v \<longleftrightarrow> (\<exists>kind \<in> set KINDS. matches (submit_alternative kind) v)"
proof
  assume "matches SUBMIT_SCHEMA v"
  then have "filter (\<lambda>c. matches c v) (map submit_alternative KINDS) \<noteq> []"
    by (simp only: SUBMIT_SCHEMA_def matches.simps) (metis length_0_conv zero_neq_one)
  then show "\<exists>kind \<in> set KINDS. matches (submit_alternative kind) v"
    by (auto simp: filter_empty_conv)
next
  assume "\<exists>kind \<in> set KINDS. matches (submit_alternative kind) v"
  then obtain kind where kind: "kind \<in> set KINDS" "matches (submit_alternative kind) v" by blast
  have "filter (\<lambda>k. matches (submit_alternative k) v) KINDS = [kind]"
  proof (rule filter_unique)
    fix k
    assume "matches (submit_alternative k) v"
    with submit_alternative_kind [OF this] submit_alternative_kind [OF kind(2)] show "k = kind" by simp
  qed (use kind in \<open>simp_all add: KINDS_def\<close>)
  then show "matches SUBMIT_SCHEMA v"
    by (simp add: SUBMIT_SCHEMA_def filter_map comp_def del: filter.simps list.map)
qed

section \<open>A concrete submission\<close>

definition example_body :: "(string \<times> json) list" where
  "example_body =
     [(''schema_version'', jlit ''lh-job-v1''),
      (''operation_id'', jlit ''0a1b2c3d-0000-4000-8000-00000000000f''),
      (''kind'', jlit ''host.inspect''), (''profile_ref'', jlit ''local''),
      (''expected'', obj [(''node_id'', jlit ''node-1''), (''install_uuid'', jlit ''00000000-0000-0000-0000-000000000001''),
         (''deployment_epoch'', JInt 1), (''profile_digest'', zero_digest), (''policy_digest'', zero_digest),
         (''registry_digest'', zero_digest)]),
      (''inputs'', obj []), (''expires_at'', JInt 2000)]"

definition example_submission :: json where
  "example_submission = obj (example_body @
     [(''request_digest'', JStr (sha256_hex (canonical_bytes (obj example_body))))])"

lemma DIGEST_sha256: "DIGEST_PATTERN (sha256_hex m)"
  by (simp add: DIGEST_PATTERN_def sha256_hex_digits)

lemma example_matches: "matches SUBMIT_SCHEMA example_submission"
proof -
  have zero: "matches DIGEST zero_digest"
    by (simp add: DIGEST_def string_pat_def DIGEST_PATTERN_def zero_digest_def is_hex_digit_def MAX_REQUEST_BYTES_def)
  have uuid: "matches UUID (jlit ''00000000-0000-0000-0000-000000000001'')"
    by (simp add: UUID_def string_pat_def MAX_REQUEST_BYTES_def) code_simp
  have uuid4: "matches UUID4 (jlit ''0a1b2c3d-0000-4000-8000-00000000000f'')"
    by (simp add: UUID4_def string_pat_def MAX_REQUEST_BYTES_def) code_simp
  have refs: "matches REF (jlit ''node-1'')" "matches REF (jlit ''local'')"
    by (simp_all add: REF_def string_pat_def REF_PATTERN_def lit_def lower_alnum_def MAX_REQUEST_BYTES_def)
  have "matches EXPECTED_SCHEMA (obj [(''node_id'', jlit ''node-1''), (''install_uuid'', jlit ''00000000-0000-0000-0000-000000000001''),
         (''deployment_epoch'', JInt 1), (''profile_digest'', zero_digest), (''policy_digest'', zero_digest),
         (''registry_digest'', zero_digest)])"
    unfolding EXPECTED_SCHEMA_def matches_object_all_obj
    by (simp add: zero uuid refs POSITIVE_def MAX_SAFE_INTEGER_def)
  moreover have "matches (INPUT_SCHEMAS ''host.inspect'') (obj [])"
    by (simp add: INPUT_SCHEMAS_def matches_object_all_obj)
  moreover have "matches DIGEST (JStr (sha256_hex m))" for m
    by (simp add: DIGEST_def string_pat_def DIGEST_sha256 MAX_REQUEST_BYTES_def)
  ultimately have "matches (submit_alternative ''host.inspect'') example_submission"
    unfolding submit_alternative_def example_submission_def example_body_def matches_object_all_obj
    by (simp add: uuid4 refs NATURAL_def MAX_SAFE_INTEGER_def SCHEMA_VERSION_def)
  then show ?thesis unfolding matches_SUBMIT_SCHEMA by (intro bexI [of _ "''host.inspect''"]) (simp_all add: KINDS_def)
qed

lemma tree_sha256: "tree d (JStr (sha256_hex m)) = Inr ()"
proof -
  have "\<not> surrogate c" if "c \<in> set (sha256_hex m)" for c
    using sha256_hex_digits [OF that] by (auto simp: is_hex_digit_def surrogate_def)
  then show ?thesis by (auto simp: res_simps)
qed

lemma tree_jlit: "tree d (jlit s) = Inr ()"
  by (auto simp: res_simps surrogate_def dest!: lit_below_256)

lemma tree_obj:
  "tree d (obj kvs) = Inr () \<longleftrightarrow> d < MAX_DEPTH \<and> (\<forall>(k, v) \<in> set kvs. tree (Suc d) v = Inr ())"
  using tree_jlit by (auto simp: obj_def res_simps not_le simp del: tree.simps(1))

lemma example_tree: "tree 0 example_submission = Inr ()"
  by (simp add: example_submission_def example_body_def tree_obj tree_jlit tree_sha256 MAX_DEPTH_def
      MAX_SAFE_INTEGER_def zero_digest_def surrogate_def del: tree.simps(1,3)) (simp add: surrogate_def)

lemma example_wf: "wf_json example_submission"
proof -
  have "code_points (sha256_hex m)" for m
    using sha256_hex_digits [of _ m] by (fastforce simp: code_points_def is_hex_digit_def)
  then show ?thesis
    by (simp add: example_submission_def example_body_def wf_json_obj zero_digest_def code_points_def [of "replicate _ _"])
qed

lemma example_dpop: "dpop example_submission (lit ''request_digest'') = obj example_body"
  by (simp add: example_submission_def example_body_def obj_def dpop_def)

text \<open>A bound on the canonical text that needs no sorting.\<close>

fun size_bound :: "json \<Rightarrow> nat" where
  "size_bound (JInt n) = (if \<bar>n\<bar> < 10 ^ 19 then 20 else nat \<bar>n\<bar> + 2)"
| "size_bound (JFloat s) = length s"
| "size_bound (JStr s) = 12 * length s + 2"
| "size_bound (JList xs) = 2 + sum_list (map (\<lambda>x. Suc (size_bound x)) xs)"
| "size_bound (JObj kvs) = 2 + sum_list (map (\<lambda>(k, v). 12 * length k + 4 + size_bound v) kvs)"
| "size_bound _ = 5"

lemma length_print_str: "length (print_str s) \<le> 12 * length s + 2"
proof -
  have "length (escape_char c) \<le> 12" for c
    by (simp add: escape_char_def uescape_def hex4_text_def)
  then have "length (concat (map escape_char s)) \<le> 12 * length s"
    by (induction s) (auto intro: add_mono)
  then show ?thesis unfolding print_str_def by (simp del: length_concat)
qed

lemma length_dec: "length (dec n) \<le> Suc n"
proof (induction n rule: dec.induct)
  case (1 n)
  then show ?case
    by (cases "n < 10") (auto simp: dec.simps [of n])
qed

lemma length_dec_digits: "n < 10 ^ k \<Longrightarrow> 0 < k \<Longrightarrow> length (dec n) \<le> k"
proof (induction n arbitrary: k rule: dec.induct)
  case (1 n)
  show ?case
  proof (cases "n < 10")
    case True
    with 1(3) show ?thesis by (simp add: dec.simps [of n])
  next
    case False
    with 1(2,3) obtain m where k: "k = Suc (Suc m)" by (cases k rule: nat.exhaust [case_product nat.exhaust]; cases "k - 1") auto
    then have "n div 10 < 10 ^ Suc m" using 1(2) by auto
    from 1(1) [OF False this] False k show ?thesis by (simp add: dec.simps [of n])
  qed
qed

lemma sum_list_sort_key: "sum_list (map f (sort_key g xs)) = sum_list (map (f :: _ \<Rightarrow> nat) xs)"
proof -
  have "sum_list (map f (insort_key g x ys)) = f x + sum_list (map f ys)" for x ys
    by (induction ys) auto
  then show ?thesis by (induction xs) auto
qed

lemma length_jprint: "length (jprint v) \<le> size_bound v"
proof (induction v rule: jprint.induct)
  case (3 n)
  then show ?case
    using length_dec [of "nat n"] length_dec [of "nat (- n)"] length_dec_digits [of "nat n" 19] length_dec_digits [of "nat (- n)" 19]
    by (auto simp: print_int_def nat_less_iff)
next
  case (5 s)
  show ?case using length_print_str [of s] by simp
next
  case (6 xs)
  have "sum_list (map (\<lambda>x. Suc (length (jprint x))) xs) \<le> sum_list (map (\<lambda>x. Suc (size_bound x)) xs)"
    using 6 by (intro sum_list_mono) simp
  then show ?case
    using length_join_comma(1) [of "map jprint xs"] by (simp add: comp_def)
next
  case (7 kvs)
  have "sum_list (map (\<lambda>p. Suc (length (print_member p))) kvs) \<le>
      sum_list (map (\<lambda>(k, v). 12 * length k + 4 + size_bound v) kvs)"
  proof (rule sum_list_mono)
    fix p
    assume p: "p \<in> set kvs"
    obtain k v where kv: "p = (k, v)" by (cases p)
    with 7 p have "length (jprint v) \<le> size_bound v" by blast
    with length_print_str [of k] kv
    show "Suc (length (print_member p)) \<le> (case p of (k, v) \<Rightarrow> 12 * length k + 4 + size_bound v)" by simp
  qed
  then show ?case
    using length_join_comma(1) [of "map print_member kvs"] by (simp add: comp_def)
qed simp_all

lemma size_bound_sort_keys: "size_bound (sort_keys v) = size_bound v"
proof (induction v rule: sort_keys.induct)
  case (6 xs)
  then have "map (\<lambda>x. Suc (size_bound (sort_keys x))) xs = map (\<lambda>x. Suc (size_bound x)) xs" by simp
  then show ?case by (simp add: comp_def del: map_eq_conv)
next
  case (7 kvs)
  let ?f = "\<lambda>(k, v). 12 * length k + 4 + size_bound v"
  have "map ?f (map (\<lambda>(k, v). (k, sort_keys v)) kvs) = map ?f kvs"
    using 7 by (auto simp: map_eq_conv)
  then show ?case by (simp only: sort_keys.simps size_bound.simps sum_list_sort_key)
qed simp_all

lemma length_canonical_bytes: "length (canonical_bytes v) \<le> size_bound v"
  using length_jprint [of "sort_keys v"] by (simp add: canonical_bytes_def dumps_def size_bound_sort_keys)

lemma example_size: "length (canonical_bytes (obj example_body)) \<le> MAX_CANONICAL_BYTES"
proof -
  have "size_bound (obj example_body) \<le> MAX_CANONICAL_BYTES"
    by (simp add: example_body_def obj_def zero_digest_def MAX_CANONICAL_BYTES_def)
  with length_canonical_bytes [of "obj example_body"] show ?thesis by linarith
qed

lemma example_ok: "submission_ok ascii_udb example_submission"
proof -
  have "fld example_submission ''request_digest'' = Some (JStr (sha256_hex (canonical_bytes (obj example_body))))"
    and "fld example_submission ''kind'' = Some (jlit ''host.inspect'')" and "is_dict example_submission"
    by (simp_all add: example_submission_def) (simp_all add: example_body_def)
  then show ?thesis
    using example_matches example_tree example_size by (simp add: submission_ok_def example_dpop)
qed

lemma example_validates: "validate_submit ascii_udb (ObjIn example_submission) = Inr (sort_keys example_submission)"
  using example_ok example_wf by (subst validate_submit_iff) (simp_all add: example_submission_def)

lemma pairs_onto_error: "pairs_onto d items = Inl e \<Longrightarrow> e = invalid ''Duplicate JSON object key''"
  by (induction d items rule: pairs_onto.induct) (auto split: if_splits)

lemma strict_hook_errors:
  "integer_hook t \<noteq> Inl recursion_error" "reject_number t \<noteq> Inl recursion_error"
  "pairs_hook d \<noteq> Inl recursion_error"
  using pairs_onto_error [of "[]" d]
  by (auto simp: integer_hook_def reject_number_def pairs_hook_def bindE_Inl_iff Let_def)

section \<open>The theorems of the contract\<close>

text \<open>C33. A value that passes the tree checks survives its own wire form: the strict decoder reads the
  canonical bytes back, the result is equal to the value in the sense of Python's \<open>==\<close>, and it has the
  same canonical bytes, hence the same digest.\<close>

theorem canonical_roundtrip:
  assumes "tree 0 v = Inr ()" and "wf_json v" and "length (canonical_bytes v) \<le> n"
  shows "\<exists>w. strict_loads n (RawBytes (canonical_bytes v)) = Inr w \<and> jeq w v \<and> canonical_bytes w = canonical_bytes v"
  using strict_loads_sorted [OF assms] assms(2)
  by (intro exI [of _ "sort_keys v"]) (simp add: canonical_bytes_def jeq_sort_keys)

theorem canonical_roundtrip_witness:
  "\<exists>w. strict_loads 1000000 (RawBytes (canonical_bytes example_submission)) = Inr w \<and>
     jeq w example_submission \<and> canonical_bytes w = canonical_bytes example_submission"
  using submission_ok_size [OF example_ok example_wf]
  by (intro canonical_roundtrip example_tree example_wf) (simp add: MAX_REQUEST_BYTES_def)

text \<open>C3. \<open>validate_submit\<close> on a decoded request returns the request itself (up to the order of its keys) and
  exactly when the request is a dictionary within the tree bounds, matches the submission schema, carries
  admissible workspace inputs, fits the canonical size bound, and its \<open>request_digest\<close> is the SHA-256 of the
  canonical bytes of everything else in it.\<close>

theorem validate_submit_binds_content:
  assumes "wf_json r" and "is_dict r"
  shows "validate_submit U (ObjIn r) = Inr r' \<longleftrightarrow>
     r' = sort_keys r \<and> tree 0 r = Inr () \<and> matches SUBMIT_SCHEMA r \<and>
     (fld r ''kind'' = Some (jlit ''workspace.edit'') \<longrightarrow>
        (\<exists>inputs. fld r ''inputs'' = Some inputs \<and> workspace_inputs U inputs = Inr ())) \<and>
     length (canonical_bytes (dpop r (lit ''request_digest''))) \<le> MAX_CANONICAL_BYTES \<and>
     fld r ''request_digest'' = Some (JStr (sha256_hex (canonical_bytes (dpop r (lit ''request_digest'')))))"
  using validate_submit_iff [OF assms(2,1), of U r'] assms(2) by (auto simp: submission_ok_def)

theorem validate_submit_binds_content_witness:
  "matches SUBMIT_SCHEMA example_submission \<and>
   fld example_submission ''request_digest'' =
     Some (JStr (sha256_hex (canonical_bytes (dpop example_submission (lit ''request_digest'')))))"
  using validate_submit_binds_content [OF example_wf, of ascii_udb "sort_keys example_submission"] example_validates
  by (simp add: example_submission_def)

text \<open>Validation is idempotent across the wire: what \<open>validate_submit\<close> returned, sent again as canonical bytes or
  passed again as an object, validates to the same value.\<close>

theorem validate_submit_idempotent:
  assumes wf: "wf_json r" and dict: "is_dict r" and valid: "validate_submit U (ObjIn r) = Inr r'"
  shows "validate_submit U (ObjIn r') = Inr r' \<and> validate_submit U (RawIn (RawBytes (canonical_bytes r'))) = Inr r'"
proof -
  from assms have ok: "submission_ok U r" and r': "r' = sort_keys r"
    using validate_submit_iff [of r U r'] by auto
  with wf dict have again: "validate_submit U (ObjIn r') = Inr r'"
    by (simp add: validate_submit_iff submission_ok_sort_keys wf_json_sort_keys)
  have "strict_loads MAX_REQUEST_BYTES (RawBytes (canonical_bytes r')) = Inr r'"
    using strict_loads_sorted [of r "MAX_REQUEST_BYTES"] submission_ok_size [OF ok wf] ok wf
    by (simp add: r' canonical_bytes_def submission_ok_def)
  moreover have "decode_input (ObjIn r') = Inr r'"
    using dict by (simp add: decode_input_ObjIn r')
  ultimately show ?thesis
    using again by (simp add: validate_submit_def decode_input_def)
qed

theorem validate_submit_idempotent_witness:
  "validate_submit ascii_udb (RawIn (RawBytes (canonical_bytes (sort_keys example_submission)))) =
     Inr (sort_keys example_submission)"
  using validate_submit_idempotent [OF example_wf _ example_validates]
  by (simp add: example_submission_def)



text \<open>The alternatives of the submission schema exclude one another: a submission matches the schema exactly when its
  \<open>kind\<close> is one of the published kinds and it matches that kind's alternative, and then its inputs match
  the input schema of its own kind.\<close>

theorem submission_kind_selects_inputs:
  "matches SUBMIT_SCHEMA v \<longleftrightarrow>
     (\<exists>kind \<in> set KINDS. fld v ''kind'' = Some (jlit kind) \<and> matches (submit_alternative kind) v \<and>
        (\<exists>inputs. fld v ''inputs'' = Some inputs \<and> matches (INPUT_SCHEMAS kind) inputs))"
proof -
  have "\<exists>inputs. fld v ''inputs'' = Some inputs \<and> matches (INPUT_SCHEMAS kind) inputs"
    if "matches (submit_alternative kind) v" for kind
    using that unfolding submit_alternative_def by (rule matches_object_all) simp
  then show ?thesis
    using submit_alternative_kind [of _ v] by (auto simp: matches_SUBMIT_SCHEMA)
qed

theorem submission_kind_selects_inputs_witness:
  "\<exists>kind \<in> set KINDS. fld example_submission ''kind'' = Some (jlit kind) \<and>
     matches (submit_alternative kind) example_submission"
  using submission_kind_selects_inputs [of example_submission] example_matches by blast


end
