(* ===== verification/Ledger.thy ===== *)
theory Ledger
  imports JsonRoundtrip
begin

text \<open>
  The durable ledger of \<open>tools/local_hand_jobs/state.py\<close>: the tables of the SQLite database, the
  operations of \<open>StateStore\<close> over them, and the transaction that every caller runs in, with the
  failures of SQLite as an explicit input.  Rows hold JSON as the text \<open>encoded\<close> writes; reading a
  row decodes it with the strict hooks of the ledger.
\<close>

section \<open>The text of a row\<close>

text \<open>\<open>json.dumps(..., allow_nan=False)\<close> refuses a float that is not finite.\<close>

fun nonfinite :: "json \<Rightarrow> bool" where
  "nonfinite (JFloat s) = (s \<in> {''nan'', ''inf'', ''-inf''})"
| "nonfinite (JList xs) = (\<exists>x \<in> set xs. nonfinite x)"
| "nonfinite (JObj kvs) = (\<exists>(k, v) \<in> set kvs. nonfinite v)"
| "nonfinite _ = False"

definition encoded :: "json \<Rightarrow> pystr res" where
  "encoded v = (if nonfinite v then Inl (PyError ''ValueError'') else Inr (dumps v))"

fun unique_onto :: "dict \<Rightarrow> dict \<Rightarrow> dict res" where
  "unique_onto result [] = Inr result"
| "unique_onto result ((key, item) # items) =
     (if key \<in> fst ` set result then Inl (PyError ''ValueError'')
      else unique_onto (AList.update key item result) items)"

definition unique_pairs :: "dict \<Rightarrow> json res" where
  "unique_pairs items = bindE (unique_onto [] items) (\<lambda>d. Inr (JObj d))"

text \<open>
  \<open>float(text)\<close> of a JSON number is infinite exactly when its decimal value reaches
  \<open>2^1024 - 2^970\<close>, the midpoint above the largest double.  \<open>digits * 10 ^ scale\<close> is that value.
\<close>

definition float_overflows :: "pystr \<Rightarrow> bool" where
  "float_overflows t =
     (let body = dropWhile (\<lambda>c. c = 45) t;
          mantissa = takeWhile (\<lambda>c. c \<noteq> 101 \<and> c \<noteq> 69) body;
          exponent = dropWhile (\<lambda>c. c = 43) (drop (Suc (length mantissa)) body);
          fraction = drop 1 (dropWhile (\<lambda>c. c \<noteq> 46) mantissa);
          digits = int_of_text (filter is_digit mantissa);
          scale = int_of_text exponent - int (length fraction);
          limit = 2 ^ 1024 - 2 ^ 970
      in if 0 \<le> scale then limit \<le> digits * 10 ^ nat scale else limit * 10 ^ nat (- scale) \<le> digits)"

definition finite_number :: "pystr \<Rightarrow> json res" where
  "finite_number text =
     (if text \<in> {lit ''NaN'', lit ''Infinity'', lit ''-Infinity''} \<or> float_overflows text
      then Inl (PyError ''ValueError'') else Inr (JFloat (map char_of text)))"

definition ledger_hooks :: hooks where
  "ledger_hooks = \<lparr>parse_int = \<lambda>t. Inr (JInt (int_of_text t)), parse_float = finite_number,
     parse_constant = finite_number, object_pairs_hook = unique_pairs\<rparr>"

section \<open>Tables\<close>

record op_row =
  o_namespace :: pystr
  o_id :: pystr
  o_parent :: pystr
  o_principal :: pystr
  o_digest :: pystr
  o_request_json :: pystr
  o_plan_json :: pystr
  o_reserved_bytes :: int
  o_record_json :: pystr

record event_row =
  e_seq :: nat
  e_namespace :: pystr
  e_id :: pystr
  e_kind :: pystr
  e_observed_at :: json
  e_data_json :: pystr

record db =
  metadata :: "(pystr \<times> pystr) list"
  operations :: "op_row list"
  events :: "event_row list"
  leases :: "(pystr \<times> pystr \<times> int) list"
  revocations :: "(pystr \<times> int) list"
  counters :: "(pystr \<times> int) list"

record store =
  sdb :: db
  healthy :: bool
  read_only :: bool

text \<open>\<open>_create\<close>: the empty tables, the first generation, and the identity of the ledger.\<close>

definition create :: "pystr \<Rightarrow> pystr \<Rightarrow> db" where
  "create authority_id ledger_id =
     \<lparr>metadata = [(lit ''schema'', lit ''1''), (lit ''authority_id'', authority_id), (lit ''ledger_id'', ledger_id)],
      operations = [], events = [], leases = [], revocations = [], counters = [(lit ''generation'', 1)]\<rparr>"

text \<open>
  The identity check of \<open>__init__\<close>: \<open>quick_check\<close> is what the pragma reported, and the metadata
  table must equal the dictionary of the expected identity.
\<close>

definition open_identity :: "pystr \<Rightarrow> pystr \<Rightarrow> pystr \<Rightarrow> bool \<Rightarrow> db \<Rightarrow> store res" where
  "open_identity quick_check authority_id ledger_id ro d =
     (if quick_check \<noteq> lit ''ok'' \<or> map_of (metadata d) \<noteq> map_of (metadata (create authority_id ledger_id))
      then Inl (JobError ''IO_UNCERTAIN'' ''Ledger identity or integrity is unproven'')
      else Inr \<lparr>sdb = d, healthy = True, read_only = ro\<rparr>)"

section \<open>Actions on the store\<close>

text \<open>Code that runs inside a transaction: it may raise, and it leaves a store either way.\<close>

type_synonym 'a act = "store \<Rightarrow> 'a res \<times> store"

definition returnA :: "'a \<Rightarrow> 'a act" where
  "returnA x s = (Inr x, s)"

definition raiseA :: "exn \<Rightarrow> 'a act" where
  "raiseA e s = (Inl e, s)"

definition liftA :: "'a res \<Rightarrow> 'a act" where
  "liftA r s = (r, s)"

definition bindA :: "'a act \<Rightarrow> ('a \<Rightarrow> 'b act) \<Rightarrow> 'b act" where
  "bindA m f s = (case m s of (Inl e, s') \<Rightarrow> (Inl e, s') | (Inr x, s') \<Rightarrow> f x s')"

definition thenA :: "unit act \<Rightarrow> 'b act \<Rightarrow> 'b act" where
  "thenA m r = bindA m (\<lambda>_. r)"

fun mapA :: "('a \<Rightarrow> 'b act) \<Rightarrow> 'a list \<Rightarrow> 'b list act" where
  "mapA f [] = returnA []"
| "mapA f (x # xs) = bindA (f x) (\<lambda>y. bindA (mapA f xs) (\<lambda>ys. returnA (y # ys)))"

fun forA :: "'a list \<Rightarrow> ('a \<Rightarrow> unit act) \<Rightarrow> unit act" where
  "forA [] f = returnA ()"
| "forA (x # xs) f = thenA (f x) (forA xs f)"

named_theorems act_simps \<open>the equations that take a completed action apart\<close>

lemma returnA_iff [act_simps]: "returnA x s = (r, s') \<longleftrightarrow> r = Inr x \<and> s' = s"
  by (auto simp: returnA_def)

lemma raiseA_iff [act_simps]: "raiseA e s = (r, s') \<longleftrightarrow> r = Inl e \<and> s' = s"
  by (auto simp: raiseA_def)

lemma liftA_iff [act_simps]: "liftA x s = (r, s') \<longleftrightarrow> r = x \<and> s' = s"
  by (auto simp: liftA_def)

lemma bindA_Inr_iff [act_simps]:
  "bindA m f s = (Inr y, s') \<longleftrightarrow> (\<exists>x t. m s = (Inr x, t) \<and> f x t = (Inr y, s'))"
  by (auto simp: bindA_def split: prod.splits sum.splits)

lemma thenA_Inr_iff [act_simps]:
  "thenA m r s = (Inr y, s') \<longleftrightarrow> (\<exists>t. m s = (Inr (), t) \<and> r t = (Inr y, s'))"
  by (simp add: thenA_def bindA_Inr_iff)

subsection \<open>What actions keep\<close>

text \<open>
  A property of stores that an action keeps, whether the action returns or raises.  The
  combinators keep what their parts keep.
\<close>

definition keepsA :: "(store \<Rightarrow> bool) \<Rightarrow> 'a act \<Rightarrow> bool" where
  "keepsA P m = (\<forall>s r s'. P s \<longrightarrow> m s = (r, s') \<longrightarrow> P s')"

lemma keepsA_I: "(\<And>s r s'. P s \<Longrightarrow> m s = (r, s') \<Longrightarrow> P s') \<Longrightarrow> keepsA P m"
  by (auto simp: keepsA_def)

lemma keepsA_D: "keepsA P m \<Longrightarrow> P s \<Longrightarrow> m s = (r, s') \<Longrightarrow> P s'"
  by (auto simp: keepsA_def)

lemma keepsA_pure [intro, simp]: "keepsA P (returnA x)" "keepsA P (raiseA e)" "keepsA P (liftA r)"
  by (auto simp: keepsA_def act_simps)

lemma keepsA_bindA [intro]: "keepsA P m \<Longrightarrow> (\<And>x. keepsA P (f x)) \<Longrightarrow> keepsA P (bindA m f)"
proof -
  assume m: "keepsA P m" and f: "\<And>x. keepsA P (f x)"
  show ?thesis
    unfolding keepsA_def
  proof (intro allI impI)
    fix s r s'
    assume P: "P s" and run: "bindA m f s = (r, s')"
    obtain x t where t: "m s = (x, t)" by fastforce
    have "P t" using m P t by (rule keepsA_D)
    with run t f show "P s'" by (cases x) (auto simp: bindA_def intro: keepsA_D)
  qed
qed

lemma keepsA_thenA [intro]: "keepsA P m \<Longrightarrow> keepsA P r \<Longrightarrow> keepsA P (thenA m r)"
  by (auto simp: thenA_def)

lemma keepsA_if [intro]: "keepsA P m \<Longrightarrow> keepsA P n \<Longrightarrow> keepsA P (if c then m else n)"
  by simp

lemma keepsA_option [intro]:
  "keepsA P m \<Longrightarrow> (\<And>x. keepsA P (f x)) \<Longrightarrow> keepsA P (case x of None \<Rightarrow> m | Some x \<Rightarrow> f x)"
  by (cases x) auto

lemma keepsA_mapA [intro]: "(\<And>x. keepsA P (f x)) \<Longrightarrow> keepsA P (mapA f xs)"
  by (induction xs) auto

lemma keepsA_forA [intro]: "(\<And>x. keepsA P (f x)) \<Longrightarrow> keepsA P (forA xs f)"
  by (induction xs) auto

section \<open>Rows\<close>

text \<open>What \<open>get\<close> returns: the identity columns and the three decoded documents.\<close>

record row =
  namespace :: pystr
  identity :: pystr
  parent :: pystr
  principal_of :: pystr
  digest :: pystr
  reserved_bytes :: int
  request :: json
  plan :: json
  rec :: json

definition find_row :: "db \<Rightarrow> pystr \<Rightarrow> pystr \<Rightarrow> op_row option" where
  "find_row d ns i = find (\<lambda>r. o_namespace r = ns \<and> o_id r = i) (operations d)"

definition decode_doc :: "pystr \<Rightarrow> json res" where
  "decode_doc t = bindE (loads ledger_hooks t)
     (\<lambda>v. if is_dict v then Inr v else Inl (PyError ''ValueError''))"

definition decode_row :: "op_row \<Rightarrow> row res" where
  "decode_row r =
     bindE (decode_doc (o_request_json r)) (\<lambda>req.
     bindE (decode_doc (o_plan_json r)) (\<lambda>pl.
     bindE (decode_doc (o_record_json r)) (\<lambda>rc.
       Inr \<lparr>namespace = o_namespace r, identity = o_id r, parent = o_parent r, principal_of = o_principal r,
            digest = o_digest r, reserved_bytes = o_reserved_bytes r, request = req, plan = pl, rec = rc\<rparr>)))"

text \<open>
  A row that does not decode (\<open>ValueError\<close>, \<open>TypeError\<close> or \<open>RecursionError\<close>, the only exceptions of
  the decoder) marks the store unhealthy.
\<close>

definition get :: "pystr \<Rightarrow> pystr \<Rightarrow> row option act" where
  "get ns i s = (case find_row (sdb s) ns i of
     None \<Rightarrow> (Inr None, s)
   | Some r \<Rightarrow> (case decode_row r of
        Inr v \<Rightarrow> (Inr (Some v), s)
      | Inl _ \<Rightarrow> (Inl (JobError ''IO_UNCERTAIN'' ''Ledger record integrity is unresolved''), s\<lparr>healthy := False\<rparr>)))"

definition all_rows :: "row option list act" where
  "all_rows s = mapA (\<lambda>r. get (o_namespace r) (o_id r)) (operations (sdb s)) s"

section \<open>Writing\<close>

text \<open>\<open>AUTOINCREMENT\<close>: one more than the largest number ever used; the events are never deleted.\<close>

definition next_seq :: "db \<Rightarrow> nat" where
  "next_seq d = Suc (foldr max (map e_seq (events d)) 0)"

definition put_record :: "pystr \<Rightarrow> pystr \<Rightarrow> pystr \<Rightarrow> db \<Rightarrow> db" where
  "put_record ns i text d = d\<lparr>operations :=
     map (\<lambda>r. if o_namespace r = ns \<and> o_id r = i then r\<lparr>o_record_json := text\<rparr> else r) (operations d)\<rparr>"

definition add_event :: "event_row \<Rightarrow> db \<Rightarrow> db" where
  "add_event e d = d\<lparr>events := events d @ [e]\<rparr>"

definition modify_db :: "(db \<Rightarrow> db) \<Rightarrow> unit act" where
  "modify_db f s = (Inr (), s\<lparr>sdb := f (sdb s)\<rparr>)"

text \<open>\<open>update\<close>: one event and one new record, both from the same decoded row.  \<open>now\<close> is \<open>time.time()\<close>.\<close>

definition update :: "json \<Rightarrow> pystr \<Rightarrow> pystr \<Rightarrow> pystr \<Rightarrow> dict \<Rightarrow> json act" where
  "update now ns i event changes =
     bindA (get ns i) (\<lambda>found. case found of
       None \<Rightarrow> raiseA (JobError ''NOT_FOUND'' ''No record in the healthy ledger'')
     | Some r \<Rightarrow>
         bindA (liftA (encoded (JObj changes))) (\<lambda>data s.
           let seq = next_seq (sdb s);
               record1 = dupdate (rec r) changes;
               record2 = dupdate record1 [(lit ''event_seq'', JInt (int seq)), (lit ''observed_at'', now)]
           in thenA (modify_db (add_event \<lparr>e_seq = seq, e_namespace = ns, e_id = i, e_kind = event,
                       e_observed_at = now, e_data_json = data\<rparr>))
              (bindA (liftA (encoded record2)) (\<lambda>text.
               thenA (modify_db (put_record ns i text)) (returnA record2))) s))"

definition initial_record :: "json \<Rightarrow> json" where
  "initial_record now = obj [(''lifecycle'', jlit ''ACCEPTED''), (''outcome'', jlit ''PENDING''),
     (''evidence'', jlit ''STAGING''), (''phase'', jlit ''QUEUED''), (''cancel_requested'', JBool False),
     (''business_started'', JBool False), (''helper_started'', JBool False), (''side_effects'', jlit ''UNOBSERVED''),
     (''exit_proof'', JNull), (''gaps'', JList []), (''outputs'', JObj []), (''observed_at'', now),
     (''event_seq'', JInt 0)]"

text \<open>
  \<open>insert\<close>: SQLite refuses a repeated primary key and a reservation that is not positive; the two
  constraints have the extended codes 1555 and 275.  \<open>now1\<close> and \<open>now2\<close> are the two readings of the clock.
\<close>

definition insert_row :: "json \<Rightarrow> json \<Rightarrow> pystr \<Rightarrow> pystr \<Rightarrow> pystr \<Rightarrow> pystr \<Rightarrow> pystr \<Rightarrow> json \<Rightarrow> json \<Rightarrow> int \<Rightarrow> row option act" where
  "insert_row now1 now2 ns i par prin dig req pl bytes =
     bindA (liftA (encoded req)) (\<lambda>req_text.
     bindA (liftA (encoded pl)) (\<lambda>plan_text.
     bindA (liftA (encoded (initial_record now1))) (\<lambda>record_text s.
       if \<not> bytes > 0 then raiseA (SqliteError 275) s
       else if find_row (sdb s) ns i \<noteq> None then raiseA (SqliteError 1555) s
       else thenA (modify_db (\<lambda>d. d\<lparr>operations := operations d @
                [\<lparr>o_namespace = ns, o_id = i, o_parent = par, o_principal = prin, o_digest = dig,
                  o_request_json = req_text, o_plan_json = plan_text, o_reserved_bytes = bytes,
                  o_record_json = record_text\<rparr>]\<rparr>))
            (bindA (update now2 ns i (lit ''ACCEPTED'') []) (\<lambda>_. get ns i)) s)))"

definition events_of :: "pystr \<Rightarrow> pystr \<Rightarrow> event_row list act" where
  "events_of ns i s = (Inr (filter (\<lambda>e. e_namespace e = ns \<and> e_id e = i) (events (sdb s))), s)"

section \<open>The transaction\<close>

text \<open>
  What SQLite does in one transaction: the error codes of \<open>BEGIN\<close> and \<open>COMMIT\<close>, if they fail;
  whether the connection reports an open transaction when the handler runs and after its
  \<open>ROLLBACK\<close>; whether that rollback fails; and whether a failed commit reached the disk anyway.
\<close>

record faults =
  begin_error :: "int option"
  commit_error :: "int option"
  open_at_error :: bool
  rollback_error :: bool
  open_after_rollback :: bool
  commit_landed :: bool

definition no_faults :: faults where
  "no_faults = \<lparr>begin_error = None, commit_error = None, open_at_error = True, rollback_error = False,
     open_after_rollback = False, commit_landed = False\<rparr>"

text \<open>
  The handler of \<open>sqlite3.Error\<close>; \<open>committing\<close> says that it was \<open>COMMIT\<close> that failed.  \<open>s\<close> is the store before the transaction and \<open>t\<close> the store the
  body left.  Only a refused \<open>BEGIN\<close>, or any error of a connection that cannot write, is contention
  that left nothing behind.
\<close>

definition contention :: "int \<Rightarrow> bool" where
  \<comment> \<open>\<open>(code & 0xff) in (SQLITE_BUSY, SQLITE_LOCKED)\<close>\<close>
  "contention code = (code mod 256 \<in> {5, 6})"

definition sqlite_failed :: "faults \<Rightarrow> bool \<Rightarrow> bool \<Rightarrow> int \<Rightarrow> store \<Rightarrow> store \<Rightarrow> 'a res \<times> store" where
  "sqlite_failed f began committing code s t =
     (let retryable_contention = ((read_only s \<or> \<not> began) \<and> healthy t \<and> contention code);
          rollback_failed = (open_at_error f \<and> rollback_error f);
          still_healthy = (\<not> rollback_failed \<and> retryable_contention \<and> \<not> (open_at_error f \<and> open_after_rollback f));
          final = (if committing \<and> \<not> read_only s \<and> commit_landed f then sdb t else sdb s)
      in if still_healthy
         then (Inl (LedgerBusy ''IO_UNCERTAIN'' ''Ledger is busy; this transaction committed no writes''),
               s\<lparr>sdb := final, healthy := True\<rparr>)
         else (Inl (JobError ''IO_UNCERTAIN'' ''Ledger transaction outcome is unresolved''),
               s\<lparr>sdb := final, healthy := False\<rparr>))"

definition sqlite_code :: "exn \<Rightarrow> int option" where
  \<comment> \<open>\<open>except sqlite3.Error\<close>\<close>
  "sqlite_code e = (case e of SqliteError code \<Rightarrow> Some code | _ \<Rightarrow> None)"

definition transaction :: "faults \<Rightarrow> 'a act \<Rightarrow> 'a act" where
  "transaction f body s =
     (if \<not> healthy s then (Inl (JobError ''IO_UNCERTAIN'' ''Ledger durability is unresolved''), s)
      else case begin_error f of
        Some code \<Rightarrow> sqlite_failed f False False code s s
      | None \<Rightarrow> (case body s of
          (Inr x, t) \<Rightarrow> (case commit_error f of None \<Rightarrow> (Inr x, t) | Some code \<Rightarrow> sqlite_failed f True True code s t)
        | (Inl e, t) \<Rightarrow> (case sqlite_code e of
            Some code \<Rightarrow> sqlite_failed f True False code s t
          | None \<Rightarrow>
            (if open_at_error f \<and> rollback_error f
             then (Inl (JobError ''IO_UNCERTAIN'' ''Ledger rollback durability is unresolved''),
                   t\<lparr>sdb := sdb s, healthy := False\<rparr>)
             else (Inl e, t\<lparr>sdb := sdb s\<rparr>)))))"

text \<open>A fresh ledger, for the concrete instances of the theorems.\<close>

definition example_store :: store where
  "example_store = \<lparr>sdb = create (lit ''authority'') (lit ''ledger''), healthy = True, read_only = False\<rparr>"

end
