(* ===== verification/LedgerProps.thy ===== *)
theory LedgerProps
  imports Ledger "HOL-Library.Sublist"
begin

text \<open>
  What the ledger promises: rows read back as they were written, histories only grow, and a
  transaction either commits, leaves nothing, or closes the store.
\<close>

section \<open>Documents that survive storage\<close>

definition storable :: "json \<Rightarrow> bool" where
  "storable v = accepts ledger_hooks (sort_keys v)"

lemma unique_onto_distinct:
  "distinct (map fst (d @ items)) \<Longrightarrow> unique_onto d items = Inr (d @ items)"
  by (induction items arbitrary: d) (auto simp: update_new)

lemma unique_onto_keys:
  "distinct (map fst d) \<Longrightarrow> unique_onto d items = Inr r \<Longrightarrow> r = d @ items \<and> distinct (map fst r)"
proof (induction d items rule: unique_onto.induct)
  case (2 d key item items)
  from "2.prems"(2) have new: "key \<notin> fst ` set d"
    and rest: "unique_onto (AList.update key item d) items = Inr r" by (simp_all split: if_splits)
  have "distinct (map fst (AList.update key item d))" using "2.prems"(1) by (rule distinct_update)
  from "2.IH" [OF new this rest] show ?case
    unfolding update_new [OF new] append_assoc append_Cons append_Nil .
qed simp

lemma unique_pairs_iff: "unique_pairs kvs = Inr (JObj kvs) \<longleftrightarrow> distinct (map fst kvs)"
  using unique_onto_distinct [of "[]" kvs] unique_onto_keys [of "[]" kvs]
  by (auto simp: unique_pairs_def res_simps)

lemma sort_keys_map_fst: "map fst (map (\<lambda>(k, v). (k, f v)) kvs) = map fst kvs"
  by (induction kvs) auto

lemma distinct_sort_key: "distinct (map fst (sort_key fst xs)) = distinct (map fst xs)"
  by (simp add: map_fst_sort_key)

lemma storable_JObj:
  "storable (JObj kvs) \<longleftrightarrow> distinct (map fst kvs) \<and> (\<forall>(k, v) \<in> set kvs. scalars k \<and> storable v)"
proof -
  let ?m = "map (\<lambda>(k, v). (k, sort_keys v)) kvs"
  have "distinct (map fst (sort_key fst ?m)) \<longleftrightarrow> distinct (map fst kvs)"
    by (simp only: distinct_sort_key sort_keys_map_fst)
  then show ?thesis
    by (auto simp: storable_def ledger_hooks_def unique_pairs_iff)
qed

lemma storable_simps [simp]:
  "storable JNull" "storable (JBool b)" "storable (JStr s) \<longleftrightarrow> scalars s" "storable (JList []) "
  by (simp_all add: storable_def)

lemma storable_JInt [simp]: "storable (JInt n)"
  by (simp add: storable_def ledger_hooks_def int_of_text_print_int)

lemma scalars_lit [simp]: "scalars (lit s)"
  by (auto simp: scalars_def scalar_def dest!: lit_below_256)

lemma float_text_dot: "float_text t \<Longrightarrow> 46 \<in> set t"
  by (auto simp: float_text_def)

lemma accepts_finite: "accepts h v \<Longrightarrow> \<not> nonfinite v"
proof (induction v rule: nonfinite.induct)
  case (1 s)
  then have "46 \<in> set (lit s)" by (simp add: float_text_dot)
  then show ?case by (auto simp: lit_def)
qed auto

lemma nonfinite_sort_keys: "nonfinite (sort_keys v) = nonfinite v"
proof (induction v rule: sort_keys.induct)
  case (7 kvs)
  then have "(\<exists>p \<in> set kvs. nonfinite (sort_keys (snd p))) = (\<exists>p \<in> set kvs. nonfinite (snd p))"
    by (intro bex_cong refl) (metis prod.collapse)
  then show ?case by (simp add: split_beta)
qed simp_all

lemma encoded_storable: "storable v \<Longrightarrow> encoded v = Inr (dumps v)"
  using accepts_finite [of ledger_hooks "sort_keys v"]
  by (simp add: encoded_def storable_def nonfinite_sort_keys)

lemma decode_doc_dumps: "storable v \<Longrightarrow> is_dict v \<Longrightarrow> decode_doc (dumps v) = Inr (sort_keys v)"
  by (simp add: decode_doc_def storable_def loads_dumps)

lemma storable_sort_keys [simp]: "storable (sort_keys v) = storable v"
  by (simp add: storable_def)

lemma storable_dset:
  "storable v \<Longrightarrow> scalars k \<Longrightarrow> storable x \<Longrightarrow> storable (dset v k x)"
proof (cases v)
  case (JObj kvs)
  assume "storable v" "scalars k" "storable x"
  moreover from this JObj have "distinct (map fst (AList.update k x kvs))"
    by (simp add: storable_JObj distinct_update)
  moreover have "set (AList.update k x kvs) \<subseteq> insert (k, x) (set kvs)"
    by (induction kvs) auto
  ultimately show ?thesis using JObj by (auto simp: dset_def storable_JObj)
qed (simp_all add: dset_def)

lemma storable_dupdate:
  "storable v \<Longrightarrow> \<forall>(k, x) \<in> set changes. scalars k \<and> storable x \<Longrightarrow> storable (dupdate v changes)"
  by (induction changes arbitrary: v) (auto simp: storable_dset)

section \<open>Rows of a sound ledger\<close>

definition doc_ok :: "pystr \<Rightarrow> bool" where
  "doc_ok t = (\<exists>v. is_dict v \<and> storable v \<and> t = dumps v)"

definition row_ok :: "op_row \<Rightarrow> bool" where
  "row_ok r = (doc_ok (o_request_json r) \<and> doc_ok (o_plan_json r) \<and> doc_ok (o_record_json r) \<and>
     0 < o_reserved_bytes r)"

definition db_ok :: "db \<Rightarrow> bool" where
  "db_ok d = (distinct (map (\<lambda>r. (o_namespace r, o_id r)) (operations d)) \<and>
     (\<forall>r \<in> set (operations d). row_ok r) \<and> map e_seq (events d) = [1..<Suc (length (events d))])"

lemma doc_ok_decode: "doc_ok t \<Longrightarrow> \<exists>v. decode_doc t = Inr v \<and> is_dict v \<and> storable v"
  using decode_doc_dumps by (force simp: doc_ok_def)

lemma row_ok_decode: "row_ok r \<Longrightarrow> \<exists>v. decode_row r = Inr v \<and> is_dict (rec v) \<and> storable (rec v)"
  using doc_ok_decode [of "o_request_json r"] doc_ok_decode [of "o_plan_json r"] doc_ok_decode [of "o_record_json r"]
  by (auto simp: row_ok_def decode_row_def)

lemma find_row_Some: "find_row d ns i = Some r \<Longrightarrow> r \<in> set (operations d) \<and> o_namespace r = ns \<and> o_id r = i"
  by (auto simp: find_row_def find_Some_iff)

lemma decode_row_ids:
  "decode_row r = Inr v \<Longrightarrow> namespace v = o_namespace r \<and> identity v = o_id r \<and> parent v = o_parent r \<and>
     principal_of v = o_principal r \<and> digest v = o_digest r \<and> reserved_bytes v = o_reserved_bytes r"
  by (auto simp: decode_row_def res_simps)

text \<open>In a sound ledger every lookup answers.\<close>

lemma get_ok:
  assumes "db_ok (sdb s)"
  shows "get ns i s = (Inr (map_option (\<lambda>r. projr (decode_row r)) (find_row (sdb s) ns i)), s)"
proof (cases "find_row (sdb s) ns i")
  case (Some r)
  with assms have "row_ok r" by (auto simp: db_ok_def dest!: find_row_Some)
  with Some show ?thesis by (auto simp: get_def dest!: row_ok_decode)
qed (simp add: get_def)

lemma foldr_max_upt: "foldr max [1..<Suc n] 0 = n"
proof (induction n)
  case (Suc n)
  have max: "foldr max xs (m :: nat) = max m (foldr max xs 0)" for xs m
    by (induction xs) (auto simp: max.left_commute)
  have "foldr max [1..<Suc (Suc n)] 0 = foldr max [1..<Suc n] (Suc n)" by simp
  also have "\<dots> = max (Suc n) (foldr max [1..<Suc n] 0)" by (rule max)
  also have "\<dots> = Suc n" unfolding Suc by simp
  finally show ?case .
qed simp

lemma next_seq_ok: "db_ok d \<Longrightarrow> next_seq d = Suc (length (events d))"
  using foldr_max_upt [of "length (events d)"] by (simp only: next_seq_def db_ok_def)

lemma find_map: "find P (map f xs) = map_option f (find (P \<circ> f) xs)"
  by (induction xs) auto

lemma find_row_put_record:
  "find_row (put_record ns i t d) ns' i' =
     (if ns' = ns \<and> i' = i then map_option (\<lambda>r. r\<lparr>o_record_json := t\<rparr>) (find_row d ns i) else find_row d ns' i')"
proof -
  let ?f = "\<lambda>r. if o_namespace r = ns \<and> o_id r = i then r\<lparr>o_record_json := t\<rparr> else r"
  have "find_row (put_record ns i t d) ns' i' =
      map_option ?f (find ((\<lambda>r. o_namespace r = ns' \<and> o_id r = i') \<circ> ?f) (operations d))"
    by (simp add: find_row_def put_record_def find_map)
  also have "(\<lambda>r. o_namespace r = ns' \<and> o_id r = i') \<circ> ?f = (\<lambda>r. o_namespace r = ns' \<and> o_id r = i')"
    by (auto simp: fun_eq_iff)
  finally have "find_row (put_record ns i t d) ns' i' = map_option ?f (find_row d ns' i')"
    by (simp add: find_row_def)
  then show ?thesis
    by (cases "find_row d ns' i'") (auto dest: find_row_Some)
qed

lemma find_row_add_event [simp]: "find_row (add_event e d) = find_row d"
  by (simp add: find_row_def add_event_def fun_eq_iff)

lemma put_record_ok: "db_ok d \<Longrightarrow> doc_ok t \<Longrightarrow> db_ok (put_record ns i t d)"
proof -
  assume ok: "db_ok d" and t: "doc_ok t"
  have "map (\<lambda>r. (o_namespace r, o_id r)) (operations (put_record ns i t d)) =
      map (\<lambda>r. (o_namespace r, o_id r)) (operations d)"
    by (simp add: put_record_def)
  moreover have "row_ok r" if "r \<in> set (operations (put_record ns i t d))" for r
    using that ok t by (auto simp: db_ok_def put_record_def row_ok_def)
  moreover have "events (put_record ns i t d) = events d" by (simp add: put_record_def)
  ultimately show ?thesis using ok unfolding db_ok_def by metis
qed

lemma add_event_ok: "db_ok d \<Longrightarrow> e_seq e = Suc (length (events d)) \<Longrightarrow> db_ok (add_event e d)"
  by (simp add: db_ok_def add_event_def)

section \<open>What the writers do\<close>

definition updated_record :: "json \<Rightarrow> nat \<Rightarrow> json \<Rightarrow> dict \<Rightarrow> json" where
  "updated_record now seq old changes =
     dupdate (dupdate old changes) [(lit ''event_seq'', JInt (int seq)), (lit ''observed_at'', now)]"

lemma update_ok:
  fixes event :: pystr
  assumes ok: "db_ok (sdb s)" and r: "find_row (sdb s) ns i = Some r" and v: "decode_row r = Inr v"
    and changes: "storable (JObj changes)" and now: "storable now"
  defines "record2 \<equiv> updated_record now (Suc (length (events (sdb s)))) (rec v) changes"
  defines "e \<equiv> \<lparr>e_seq = Suc (length (events (sdb s))), e_namespace = ns, e_id = i, e_kind = event,
     e_observed_at = now, e_data_json = dumps (JObj changes)\<rparr>"
  shows "update now ns i event changes s =
      (Inr record2, s\<lparr>sdb := put_record ns i (dumps record2) (add_event e (sdb s))\<rparr>)"
    and "db_ok (put_record ns i (dumps record2) (add_event e (sdb s)))"
    and "storable record2 \<and> is_dict record2"
proof -
  have "row_ok r" using ok r by (auto simp: db_ok_def dest!: find_row_Some)
  with v have "is_dict (rec v)" "storable (rec v)" by (auto dest!: row_ok_decode)
  with changes now show rec2: "storable record2 \<and> is_dict record2"
    by (auto simp: record2_def updated_record_def storable_JObj intro!: storable_dset storable_dupdate)
  have "db_ok (add_event e (sdb s))" using ok by (rule add_event_ok) (simp add: e_def)
  moreover have "doc_ok (dumps record2)" using rec2 by (auto simp: doc_ok_def)
  ultimately show "db_ok (put_record ns i (dumps record2) (add_event e (sdb s)))" by (rule put_record_ok)
  have get: "get ns i s = (Inr (Some v), s)" using ok r v by (simp add: get_ok)
  show "update now ns i event changes s =
      (Inr record2, s\<lparr>sdb := put_record ns i (dumps record2) (add_event e (sdb s))\<rparr>)"
    using rec2 changes unfolding record2_def updated_record_def
    by (simp add: update_def bindA_def get liftA_def encoded_storable Let_def next_seq_ok [OF ok] thenA_def
        modify_db_def returnA_def e_def)
qed

lemma doc_ok_dumps: "storable v \<Longrightarrow> is_dict v \<Longrightarrow> doc_ok (dumps v)"
  by (auto simp: doc_ok_def)

text \<open>The row after an update, and everything the update leaves alone.\<close>

lemma update_get:
  assumes ok: "db_ok (sdb s)" and r: "find_row (sdb s) ns i = Some r" and v: "decode_row r = Inr v"
    and changes: "storable (JObj changes)" and now: "storable now"
  defines "rec2 \<equiv> updated_record now (Suc (length (events (sdb s)))) (rec v) changes"
  shows "\<exists>s'. update now ns i event changes s = (Inr rec2, s') \<and>
     get ns i s' = (Inr (Some (v\<lparr>rec := sort_keys rec2\<rparr>)), s') \<and>
     events (sdb s') = events (sdb s) @ [\<lparr>e_seq = Suc (length (events (sdb s))), e_namespace = ns, e_id = i,
       e_kind = event, e_observed_at = now, e_data_json = dumps (JObj changes)\<rparr>] \<and>
     (\<forall>ns' i'. (ns', i') \<noteq> (ns, i) \<longrightarrow> fst (get ns' i' s') = fst (get ns' i' s)) \<and>
     db_ok (sdb s') \<and> healthy s' = healthy s \<and> storable rec2"
proof -
  note u = update_ok(1,2) [OF ok r v changes now, of event] update_ok(3) [OF ok r v changes now]
  let ?e = "\<lparr>e_seq = Suc (length (events (sdb s))), e_namespace = ns, e_id = i, e_kind = event,
     e_observed_at = now, e_data_json = dumps (JObj changes)\<rparr>"
  let ?s' = "s\<lparr>sdb := put_record ns i (dumps rec2) (add_event ?e (sdb s))\<rparr>"
  from u(3) have "decode_doc (dumps rec2) = Inr (sort_keys rec2)" by (simp add: decode_doc_dumps rec2_def)
  with v have "decode_row (r\<lparr>o_record_json := dumps rec2\<rparr>) = Inr (v\<lparr>rec := sort_keys rec2\<rparr>)"
    by (auto simp: decode_row_def res_simps)
  then have "get ns i ?s' = (Inr (Some (v\<lparr>rec := sort_keys rec2\<rparr>)), ?s')"
    by (simp add: get_def find_row_put_record r)
  moreover have "fst (get ns' i' ?s') = fst (get ns' i' s)" if "(ns', i') \<noteq> (ns, i)" for ns' i'
    using that by (auto simp: get_def find_row_put_record split: option.splits sum.splits)
  moreover have "events (sdb ?s') = events (sdb s) @ [?e]"
    by (simp add: put_record_def add_event_def)
  ultimately show ?thesis
    using u by (intro exI [of _ ?s']) (simp add: rec2_def)
qed


lemma accepts_wf: "accepts ledger_hooks v \<Longrightarrow> wf_json v"
proof (induction v rule: wf_json.induct)
  case (1 s)
  then show ?case by (auto simp: scalars_def scalar_def code_points_def)
next
  case (3 kvs)
  then show ?case
    by (auto simp: ledger_hooks_def unique_pairs_iff scalars_def scalar_def code_points_def)
qed auto

lemma storable_wf: "storable v \<Longrightarrow> wf_json v"
  using accepts_wf [of "sort_keys v"] by (simp add: storable_def wf_json_sort_keys)

lemma storable_initial_record: "storable now \<Longrightarrow> storable (initial_record now)"
  by (simp add: initial_record_def obj_def storable_JObj)

lemma is_dict_initial_record [simp]: "is_dict (initial_record now)"
  by (simp add: initial_record_def)

lemma find_row_append:
  "find_row (d\<lparr>operations := operations d @ [r]\<rparr>) ns i =
     (case find_row d ns i of Some x \<Rightarrow> Some x | None \<Rightarrow> if o_namespace r = ns \<and> o_id r = i then Some r else None)"
proof -
  have "find P (xs @ [y]) = (case find P xs of Some x \<Rightarrow> Some x | None \<Rightarrow> if P y then Some y else None)" for P xs and y :: op_row
    by (induction xs) auto
  then show ?thesis by (simp add: find_row_def)
qed

lemma append_row_ok:
  assumes "db_ok d" and "find_row d (o_namespace r) (o_id r) = None" and "row_ok r"
  shows "db_ok (d\<lparr>operations := operations d @ [r]\<rparr>)"
  using assms by (auto simp: db_ok_def find_row_def find_None_iff)

text \<open>Inserting a new operation into a sound ledger succeeds and reading it back, at once or later, returns the
  same row: the identity columns as given, the request and the plan equal to the documents given, an
  accepted and queued record that carries the number of the one event appended; and the ledger stays sound.\<close>

theorem insert_then_get:
  assumes ok: "db_ok (sdb s)" and new: "get ns i s = (Inr None, s)" and bytes: "0 < bytes"
    and req: "storable req" "is_dict req" and pl: "storable pl" "is_dict pl"
    and now: "storable now1" "storable now2"
  shows "\<exists>v s'. insert_row now1 now2 ns i par prin dig req pl bytes s = (Inr (Some v), s') \<and>
     get ns i s' = (Inr (Some v), s') \<and> namespace v = ns \<and> identity v = i \<and> parent v = par \<and>
     principal_of v = prin \<and> digest v = dig \<and> reserved_bytes v = bytes \<and> jeq (request v) req \<and> jeq (plan v) pl \<and>
     fld (rec v) ''lifecycle'' = Some (jlit ''ACCEPTED'') \<and> fld (rec v) ''phase'' = Some (jlit ''QUEUED'') \<and>
     fld (rec v) ''event_seq'' = Some (JInt (int (Suc (length (events (sdb s)))))) \<and>
     length (events (sdb s')) = Suc (length (events (sdb s))) \<and> db_ok (sdb s')"
proof -
  define r where "r = \<lparr>o_namespace = ns, o_id = i, o_parent = par, o_principal = prin, o_digest = dig,
      o_request_json = dumps req, o_plan_json = dumps pl, o_reserved_bytes = bytes,
      o_record_json = dumps (initial_record now1)\<rparr>"
  define s1 where "s1 = s\<lparr>sdb := (sdb s)\<lparr>operations := operations (sdb s) @ [r]\<rparr>\<rparr>"
  have none: "find_row (sdb s) ns i = None"
    using new by (auto simp: get_def split: option.splits sum.splits)
  have "row_ok r"
    using req pl bytes storable_initial_record [OF now(1)] by (simp add: row_ok_def doc_ok_dumps r_def)
  then have ok1: "db_ok (sdb s1)"
    unfolding s1_def using append_row_ok [OF ok, of r] none by (simp add: r_def)
  have r1: "find_row (sdb s1) ns i = Some r"
    unfolding s1_def using none by (simp add: find_row_append) (simp add: r_def)
  define v where "v = \<lparr>namespace = ns, identity = i, parent = par, principal_of = prin, digest = dig,
      reserved_bytes = bytes, request = sort_keys req, plan = sort_keys pl, rec = sort_keys (initial_record now1)\<rparr>"
  have dec: "decode_row r = Inr v"
    using req pl storable_initial_record [OF now(1)]
    by (simp add: decode_row_def r_def v_def decode_doc_dumps)
  define rec2 where "rec2 = updated_record now2 (Suc (length (events (sdb s)))) (rec v) []"
  have "storable (JObj [])" by (simp add: storable_JObj)
  from update_get [OF ok1 r1 dec this now(2), of "lit ''ACCEPTED''"] obtain s' where
    u: "update now2 ns i (lit ''ACCEPTED'') [] s1 = (Inr rec2, s')"
      "get ns i s' = (Inr (Some (v\<lparr>rec := sort_keys rec2\<rparr>)), s')"
      "length (events (sdb s')) = Suc (length (events (sdb s)))" "db_ok (sdb s')"
    and rc: "storable rec2"
    by (auto simp: rec2_def s1_def)
  have "insert_row now1 now2 ns i par prin dig req pl bytes s = (Inr (Some (v\<lparr>rec := sort_keys rec2\<rparr>)), s')"
    using bytes none u(1,2) req pl storable_initial_record [OF now(1)]
    by (simp add: insert_row_def bindA_def liftA_def encoded_storable thenA_def modify_db_def r_def s1_def)
  moreover have "fld (sort_keys rec2) k = map_option sort_keys (fld rec2 k)" for k
    by (rule dget_sort_keys) (rule storable_wf [OF rc])
  moreover have "fld (rec v) k = map_option sort_keys (fld (initial_record now1) k)" for k
    unfolding v_def by (simp add: dget_sort_keys storable_wf storable_initial_record now(1))
  ultimately show ?thesis
    using u by (intro exI [of _ "v\<lparr>rec := sort_keys rec2\<rparr>"] exI [of _ s'])
      (simp add: v_def rec2_def updated_record_def initial_record_def)
qed

section \<open>A concrete row\<close>

abbreviation example_now :: json where
  "example_now \<equiv> JFloat ''1.5''"

lemma storable_example_now: "storable example_now"
proof -
  have "float_text (lit ''1.5'')"
    unfolding float_text_def
    by (rule exI [of _ 1], rule exI [of _ "[53]"]) (simp add: lit_def print_int_def dec.simps is_digit_def)
  moreover have "finite_number (lit ''1.5'') = Inr example_now" by code_simp
  ultimately show ?thesis by (simp add: storable_def ledger_hooks_def)
qed

lemma example_store_ok: "db_ok (sdb example_store)" "get ns i example_store = (Inr None, example_store)"
  by (simp_all add: example_store_def create_def db_ok_def get_def find_row_def)

lemma storable_empty: "storable (JObj [])"
  by (simp add: storable_JObj)

theorem insert_then_get_witness:
  "\<exists>v s'. insert_row example_now example_now (lit ''job'') (lit ''1'') (lit ''1'') (lit ''p'') (lit ''d'') (JObj []) (JObj []) 1 example_store =
     (Inr (Some v), s') \<and> get (lit ''job'') (lit ''1'') s' = (Inr (Some v), s') \<and> parent v = lit ''1''"
  using insert_then_get [OF example_store_ok, of 1 "JObj []" "JObj []" example_now example_now "lit ''job''" "lit ''1''" "lit ''1''" "lit ''p''" "lit ''d''"]
    storable_empty storable_example_now by auto

lemma example_row_exists:
  "\<exists>s v. db_ok (sdb s) \<and> get (lit ''job'') (lit ''1'') s = (Inr (Some v), s)"
proof -
  define r where "r = \<lparr>o_namespace = lit ''job'', o_id = lit ''1'', o_parent = lit ''1'', o_principal = lit ''p'', o_digest = lit ''d'',
      o_request_json = dumps (JObj []), o_plan_json = dumps (JObj []), o_reserved_bytes = 1, o_record_json = dumps (JObj [])\<rparr>"
  define s where "s = example_store\<lparr>sdb := (sdb example_store)\<lparr>operations := operations (sdb example_store) @ [r]\<rparr>\<rparr>"
  have "row_ok r" using storable_empty by (simp add: row_ok_def r_def doc_ok_dumps)
  moreover have none: "find_row (sdb example_store) ns i = None" for ns i
    by (simp add: example_store_def create_def find_row_def)
  ultimately have "db_ok (sdb s)"
    using append_row_ok [OF example_store_ok(1)] by (simp add: s_def)
  moreover have "find_row (sdb s) (lit ''job'') (lit ''1'') = Some r"
    using none by (simp add: s_def find_row_append) (simp add: r_def)
  ultimately show ?thesis using get_ok [of s "lit ''job''" "lit ''1''"] by auto
qed


end
