(* ===== verification/Resources.thy ===== *)
theory Resources
  imports Ledger
begin

text \<open>
  The resource barrier of \<open>tools/local_hand_jobs/resources.py\<close>: the resolution of aliases to one
  admitted identity, and the leases that an execution holds in the ledger.
\<close>

section \<open>Aliases\<close>

type_synonym aliases = "(pystr \<times> json) list"

lemma seen_decreases:
  assumes "map_of al k = Some target" and "k \<notin> set seen"
  shows "card (fst ` set al - set (k # seen)) < card (fst ` set al - set seen)"
proof (rule psubset_card_mono)
  have "k \<in> fst ` set al" using assms(1) by (force dest: map_of_SomeD)
  with assms(2) show "fst ` set al - set (k # seen) \<subset> fst ` set al - set seen" by auto
qed simp

text \<open>
  \<open>canonical\<close>: the loop follows the aliases until it reaches an identity without one; \<open>seen\<close> are the
  names already followed.  A value that cannot be a key of a dictionary raises \<open>TypeError\<close>.
\<close>

function canonical_from :: "aliases \<Rightarrow> pystr list \<Rightarrow> json \<Rightarrow> pystr res" where
  "canonical_from al seen resource = (case resource of
     JStr k \<Rightarrow> (case map_of al k of
        None \<Rightarrow> if k = [] then Inl (JobError ''UNSUPPORTED'' ''Resource lacks an admitted identity'') else Inr k
      | Some target \<Rightarrow>
          if k \<in> set seen then Inl (JobError ''CONFLICT'' ''Resource aliases form a cycle'')
          else canonical_from al (k # seen) target)
   | JList _ \<Rightarrow> Inl (PyError ''TypeError'')
   | JObj _ \<Rightarrow> Inl (PyError ''TypeError'')
   | _ \<Rightarrow> Inl (JobError ''UNSUPPORTED'' ''Resource lacks an admitted identity''))"
  by pat_completeness auto

termination
  by (relation "measure (\<lambda>(al, seen, resource). card (fst ` set al - set seen))")
    (use seen_decreases in auto)

declare canonical_from.simps [simp del]

definition canonical :: "aliases \<Rightarrow> json \<Rightarrow> pystr res" where
  "canonical al resource = canonical_from al [] resource"

section \<open>Leases\<close>

text \<open>\<open>INSERT OR IGNORE INTO leases\<close>\<close>

definition claim_lease :: "pystr \<Rightarrow> pystr \<times> int \<Rightarrow> db \<Rightarrow> db" where
  "claim_lease resource holder d =
     (if map_of (leases d) resource = None then d\<lparr>leases := leases d @ [(resource, holder)]\<rparr> else d)"

text \<open>\<open>DELETE FROM leases WHERE owner=?\<close>\<close>

definition drop_leases :: "pystr \<Rightarrow> db \<Rightarrow> db" where
  "drop_leases owner d = d\<lparr>leases := filter (\<lambda>(resource, own, ep). own \<noteq> owner) (leases d)\<rparr>"

abbreviation resource_busy :: exn where
  "resource_busy \<equiv> JobError ''RESOURCE_BUSY'' ''A prior operation retains the resource barrier''"

definition check_lease :: "pystr \<Rightarrow> int \<Rightarrow> pystr \<Rightarrow> unit act" where
  "check_lease owner epoch resource s =
     (case map_of (leases (sdb s)) resource of
        None \<Rightarrow> returnA ()
      | Some old \<Rightarrow> if old \<noteq> (owner, epoch) then raiseA resource_busy else returnA ()) s"

definition acquire :: "aliases \<Rightarrow> pystr \<Rightarrow> int \<Rightarrow> json list \<Rightarrow> unit act" where
  "acquire al owner epoch resources =
     bindA (liftA (mapE (canonical al) resources)) (\<lambda>names.
       let identities = sort (remdups names) in
       if identities = [] then raiseA (JobError ''UNSUPPORTED'' ''Execution must bind at least one resource'')
       else thenA
         (forA identities (check_lease owner epoch))
         (forA identities (\<lambda>identity. modify_db (claim_lease identity (owner, epoch)))))"

definition assert_owned :: "aliases \<Rightarrow> pystr \<Rightarrow> int \<Rightarrow> json list \<Rightarrow> unit act" where
  "assert_owned al owner epoch resources =
     bindA (liftA (mapE (canonical al) resources)) (\<lambda>names.
       forA (remdups names) (\<lambda>identity s.
         (if map_of (leases (sdb s)) identity \<noteq> Some (owner, epoch)
          then raiseA (JobError ''IO_UNCERTAIN'' ''Execution no longer owns its resource barrier'')
          else returnA ()) s))"

definition release :: "pystr \<Rightarrow> json \<Rightarrow> json \<Rightarrow> json \<Rightarrow> unit act" where
  "release owner future_start_blocked tree_exited effects_checked =
     (if future_start_blocked \<noteq> JBool True \<or> tree_exited \<noteq> JBool True \<or> effects_checked \<noteq> JBool True
      then raiseA (JobError ''IO_UNCERTAIN'' ''Incomplete exit or side-effect proof retains resources'')
      else modify_db (drop_leases owner))"

section \<open>The contract of a lease table\<close>

text \<open>A table in which a claim succeeds once and never displaces a holder.\<close>

locale lease_table =
  fixes table_ok :: "'t \<Rightarrow> bool"
    and holder :: "'t \<Rightarrow> 'r \<Rightarrow> 'h option"
    and claim :: "'r \<Rightarrow> 'h \<Rightarrow> 't \<Rightarrow> 't"
    and drop_all :: "'o \<Rightarrow> 't \<Rightarrow> 't"
    and owner_of :: "'h \<Rightarrow> 'o"
  assumes claim_ok: "table_ok t \<Longrightarrow> table_ok (claim r h t)"
    and drop_ok: "table_ok t \<Longrightarrow> table_ok (drop_all own t)"
    and holder_claim: "holder (claim r h t) r' = (if r' = r \<and> holder t r = None then Some h else holder t r')"
    and holder_drop: "table_ok t \<Longrightarrow> holder (drop_all own t) r =
      (case holder t r of None \<Rightarrow> None | Some h \<Rightarrow> if owner_of h = own then None else Some h)"
begin

lemma claims_ok: "table_ok t \<Longrightarrow> table_ok (fold (\<lambda>r. claim r h) rs t)"
  by (induction rs arbitrary: t) (auto simp: claim_ok)

lemma holder_claims:
  "holder (fold (\<lambda>r. claim r h) rs t) r' = (if r' \<in> set rs \<and> holder t r' = None then Some h else holder t r')"
  by (induction rs arbitrary: t) (auto simp: holder_claim)

lemma claims_held:
  "\<forall>r \<in> set rs. holder t r = None \<or> holder t r = Some h \<Longrightarrow> r \<in> set rs \<Longrightarrow>
     holder (fold (\<lambda>r. claim r h) rs t) r = Some h"
  by (auto simp: holder_claims)

lemma claims_keep_others:
  "holder t r = Some g \<Longrightarrow> holder (fold (\<lambda>r. claim r h) rs t) r = Some g"
  by (simp add: holder_claims)

lemma drop_after_claims:
  assumes "table_ok t" and "\<And>r g. holder t r = Some g \<Longrightarrow> owner_of g \<noteq> owner_of h"
  shows "holder (drop_all (owner_of h) (fold (\<lambda>r. claim r h) rs t)) r = holder t r"
  using assms by (auto simp: holder_drop claims_ok holder_claims split: option.splits)

end

text \<open>The table of the ledger: a list in which a resource occurs once.\<close>

definition leases_ok :: "db \<Rightarrow> bool" where
  "leases_ok d = distinct (map fst (leases d))"

definition lease_holder :: "db \<Rightarrow> pystr \<Rightarrow> (pystr \<times> int) option" where
  "lease_holder d resource = map_of (leases d) resource"

lemma lookup_filter:
  assumes "distinct (map fst table)"
  shows "map_of (filter P table) r = Some h \<longleftrightarrow> map_of table r = Some h \<and> P (r, h)"
  using assms by (auto simp: map_of_eq_Some_iff distinct_map_filter)

interpretation leases: lease_table leases_ok lease_holder claim_lease drop_leases fst
proof
  show "leases_ok t \<Longrightarrow> leases_ok (claim_lease r h t)" for t r h
    by (auto simp: leases_ok_def claim_lease_def map_of_eq_None_iff)
  show "leases_ok t \<Longrightarrow> leases_ok (drop_leases own t)" for t own
    by (auto simp: leases_ok_def drop_leases_def distinct_map_filter)
  show "lease_holder (claim_lease r h t) r' =
      (if r' = r \<and> lease_holder t r = None then Some h else lease_holder t r')" for r h t r'
    by (auto simp: lease_holder_def claim_lease_def map_add_def split: option.splits)
  show "leases_ok t \<Longrightarrow> lease_holder (drop_leases own t) r =
      (case lease_holder t r of None \<Rightarrow> None | Some h \<Rightarrow> if fst h = own then None else Some h)" for t own r
    using lookup_filter [of "leases t" "\<lambda>(resource, own', ep). own' \<noteq> own" r]
    by (cases "map_of (leases t) r"; cases "lease_holder (drop_leases own t) r")
      (auto simp: leases_ok_def lease_holder_def drop_leases_def)
qed

section \<open>Resolution of aliases\<close>

lemma canonical_from_Inr:
  "canonical_from al seen resource = Inr k \<Longrightarrow> k \<noteq> [] \<and> map_of al k = None"
proof (induction al seen resource rule: canonical_from.induct)
  case (1 al seen resource)
  from "1.prems" show ?case
    by (subst (asm) canonical_from.simps) (auto split: json.splits option.splits if_splits dest: "1.IH")
qed

text \<open>The identity that \<open>canonical\<close> returns is a non-empty name that is no alias, and it is its own
  canonical identity: two names of one resource never get two leases.\<close>

theorem canonical_identity:
  assumes "canonical al resource = Inr k"
  shows "k \<noteq> [] \<and> map_of al k = None \<and> canonical al (JStr k) = Inr k"
  using canonical_from_Inr [OF assms [unfolded canonical_def]]
  by (simp add: canonical_def canonical_from.simps)

theorem canonical_identity_witness:
  "canonical [(lit ''gpu'', jlit ''gpu0''), (lit ''gpu0'', jlit ''pci-1'')] (JStr (lit ''pci-1'')) = Inr (lit ''pci-1'')"
proof -
  have "canonical [(lit ''gpu'', jlit ''gpu0''), (lit ''gpu0'', jlit ''pci-1'')] (jlit ''gpu'') = Inr (lit ''pci-1'')"
    by (simp add: canonical_def canonical_from.simps)
  from canonical_identity [OF this] show ?thesis by simp
qed

section \<open>Exclusion\<close>

lemma forA_check:
  assumes "\<And>x. f x s = (if P x then (Inr (), s) else (Inl e, s))"
  shows "forA xs f s = (if \<forall>x \<in> set xs. P x then (Inr (), s) else (Inl e, s))"
  using assms by (induction xs) (auto simp: returnA_def thenA_def bindA_def)

lemma forA_modify: "forA xs (\<lambda>x. modify_db (f x)) s = (Inr (), s\<lparr>sdb := fold f xs (sdb s)\<rparr>)"
  by (induction xs arbitrary: s) (auto simp: returnA_def thenA_def bindA_def modify_db_def)

definition lease_open :: "db \<Rightarrow> pystr \<times> int \<Rightarrow> pystr \<Rightarrow> bool" where
  "lease_open d h r = (lease_holder d r = None \<or> lease_holder d r = Some h)"

text \<open>\<open>acquire\<close> in one equation: all identities free or already held, or no change.\<close>

lemma acquire_eq:
  assumes "mapE (canonical al) resources = Inr names" and "names \<noteq> []"
  shows "acquire al owner epoch resources s =
     (if \<forall>r \<in> set names. lease_open (sdb s) (owner, epoch) r
      then (Inr (), s\<lparr>sdb := fold (\<lambda>r. claim_lease r (owner, epoch)) (sort (remdups names)) (sdb s)\<rparr>)
      else (Inl resource_busy, s))"
proof -
  have "forA xs (check_lease owner epoch) s =
      (if \<forall>r \<in> set xs. lease_open (sdb s) (owner, epoch) r then (Inr (), s) else (Inl resource_busy, s))" for xs
    by (rule forA_check)
      (auto simp: check_lease_def lease_open_def lease_holder_def returnA_def raiseA_def split: option.splits)
  then have check: "forA (sort (remdups names)) (check_lease owner epoch) s =
      (if \<forall>r \<in> set names. lease_open (sdb s) (owner, epoch) r
       then (Inr (), s) else (Inl resource_busy, s))" by simp
  have "sort (remdups names) \<noteq> []" using assms(2) by (metis set_empty set_remdups set_sort)
  with assms(1) check show ?thesis
    by (simp add: acquire_def bindA_def liftA_def Let_def thenA_def forA_modify)
qed

text \<open>C4. Mutual exclusion.  While one execution holds its leases, an execution with another owner or epoch that
  names any of the same resources, under whatever alias, is refused as busy and changes nothing;
  after the first releases with a complete exit proof, every resource is as it was before it came.\<close>

theorem leases_exclude:
  assumes fresh: "leases_ok (sdb s)" "\<forall>r h. lease_holder (sdb s) r = Some h \<longrightarrow> fst h \<noteq> owner"
    and first: "acquire al owner epoch resources s = (Inr (), s')"
    and names: "mapE (canonical al) resources = Inr names" "names \<noteq> []"
    and other: "mapE (canonical al) resources' = Inr names'" "set names \<inter> set names' \<noteq> {}" "(owner', epoch') \<noteq> (owner, epoch)"
  shows "acquire al owner' epoch' resources' s' =
       (Inl resource_busy, s') \<and>
     (\<exists>t. release owner (JBool True) (JBool True) (JBool True) s' = (Inr (), t) \<and>
        (\<forall>r. lease_holder (sdb t) r = lease_holder (sdb s) r))"
proof -
  from first have free: "\<forall>r \<in> set names. lease_open (sdb s) (owner, epoch) r"
    and s': "s' = s\<lparr>sdb := fold (\<lambda>r. claim_lease r (owner, epoch)) (sort (remdups names)) (sdb s)\<rparr>"
    by (simp_all add: acquire_eq [OF names] split: if_splits)
  have "lease_holder (sdb s') r = Some (owner, epoch)" if "r \<in> set names" for r
    using leases.claims_held [of "sort (remdups names)"] free that by (simp add: s' lease_open_def)
  then have "\<not> (\<forall>r \<in> set names'. lease_open (sdb s') (owner', epoch') r)"
    using other(2,3) by (metis Int_emptyI lease_open_def option.distinct(1) option.inject)
  moreover from other(2) have "names' \<noteq> []" by auto
  ultimately have "acquire al owner' epoch' resources' s' =
      (Inl resource_busy, s')"
    by (simp add: acquire_eq [OF other(1)])
  moreover have "lease_holder (drop_leases owner (sdb s')) r = lease_holder (sdb s) r" for r
    using leases.drop_after_claims [OF fresh(1), of "(owner, epoch)"] fresh(2) by (simp add: s')
  ultimately show ?thesis by (simp add: release_def modify_db_def)
qed

definition example_aliases :: aliases where
  "example_aliases = [(lit ''gpu'', jlit ''pci-1'')]"

lemma example_names:
  "mapE (canonical example_aliases) [jlit ''gpu''] = Inr [lit ''pci-1'']"
  "mapE (canonical example_aliases) [jlit ''disk'', jlit ''pci-1''] = Inr [lit ''disk'', lit ''pci-1'']"
  by (simp_all add: canonical_def canonical_from.simps example_aliases_def)

theorem leases_exclude_witness:
  "\<exists>s'. acquire example_aliases (lit ''job-1'') 7 [jlit ''gpu''] example_store = (Inr (), s') \<and>
     acquire example_aliases (lit ''job-2'') 7 [jlit ''disk'', jlit ''pci-1''] s' = (Inl resource_busy, s')"
proof -
  have "leases_ok (sdb example_store)" "\<forall>r h. lease_holder (sdb example_store) r = Some h \<longrightarrow> fst h \<noteq> lit ''job-1''"
    by (simp_all add: example_store_def create_def leases_ok_def lease_holder_def)
  moreover obtain s' where s': "acquire example_aliases (lit ''job-1'') 7 [jlit ''gpu''] example_store = (Inr (), s')"
    by (simp add: acquire_eq [OF example_names(1)] lease_open_def lease_holder_def example_store_def create_def)
  ultimately have "acquire example_aliases (lit ''job-2'') 7 [jlit ''disk'', jlit ''pci-1''] s' = (Inl resource_busy, s')"
    using leases_exclude [of example_store "lit ''job-1''" example_aliases 7 "[jlit ''gpu'']" s', OF _ _ _ example_names(1) _ example_names(2)]
    by simp
  with s' show ?thesis by blast
qed

end
