(* ===== verification/LedgerHistory.thy ===== *)
theory LedgerHistory
  imports LedgerProps Resources
begin

text \<open>
  The ledger over time: what a transaction leaves behind on each of its exits, and that the
  history of operations and events only grows along every sequence of transactions.
\<close>

section \<open>Transactions\<close>

lemma sqlite_failed_cases:
  assumes "sqlite_failed f began committing code s t = (r, s')" and "committing \<longrightarrow> began"
  shows "(\<exists>e. r = Inl e) \<and> (healthy s' \<longrightarrow> sdb s' = sdb s) \<and> (sdb s' = sdb s \<or> sdb s' = sdb t) \<and> read_only s' = read_only s"
proof -
  define busy where "busy = (\<not> (open_at_error f \<and> rollback_error f) \<and>
    ((read_only s \<or> \<not> began) \<and> healthy t \<and> contention code) \<and> \<not> (open_at_error f \<and> open_after_rollback f))"
  define final where "final = (if committing \<and> \<not> read_only s \<and> commit_landed f then sdb t else sdb s)"
  have s': "s' = s\<lparr>sdb := final, healthy := busy\<rparr>" and r: "\<exists>e. r = Inl e"
    using assms(1) unfolding sqlite_failed_def Let_def busy_def [symmetric] final_def [symmetric]
    by (simp_all only: prod.inject split: if_splits) (blast+)?
  have "final = sdb s" if busy
    using that assms(2) unfolding busy_def final_def by metis
  then show ?thesis using r by (simp add: s') (simp add: final_def)
qed

lemma transaction_cases:
  assumes "transaction f body s = (r, s')"
  obtains (refused) "\<not> healthy s" "s' = s" "\<exists>e. r = Inl e"
    | (committed) x where "body s = (Inr x, s')" "r = Inr x"
    | (failed) e where "r = Inl e" "healthy s' \<longrightarrow> sdb s' = sdb s" "sdb s' = sdb s \<or> sdb s' = sdb (snd (body s))"
proof -
  consider "\<not> healthy s" | (b) code where "healthy s" "begin_error f = Some code"
    | (ok) x t where "healthy s" "begin_error f = None" "body s = (Inr x, t)"
    | (sq) e code t where "healthy s" "begin_error f = None" "body s = (Inl e, t)" "sqlite_code e = Some code"
    | (ex) e t where "healthy s" "begin_error f = None" "body s = (Inl e, t)" "sqlite_code e = None"
    by (metis not_None_eq prod.exhaust sum.exhaust)
  then show thesis
  proof cases
    case 1
    with assms show ?thesis by (intro refused) (auto simp: transaction_def)
  next
    case b
    with assms have "sqlite_failed f False False code s s = (r, s')" by (simp add: transaction_def)
    from sqlite_failed_cases [OF this] show ?thesis by (auto intro: failed)
  next
    case ok
    show ?thesis
    proof (cases "commit_error f")
      case None
      with ok assms show ?thesis by (intro committed) (auto simp: transaction_def)
    next
      case (Some code)
      with ok assms have "sqlite_failed f True True code s t = (r, s')" by (simp add: transaction_def)
      from sqlite_failed_cases [OF this] ok show ?thesis by (auto intro: failed)
    qed
  next
    case sq
    with assms have "sqlite_failed f True False code s t = (r, s')" by (simp add: transaction_def)
    from sqlite_failed_cases [OF this] sq show ?thesis by (auto intro: failed)
  next
    case ex
    with assms have "(\<exists>e'. r = Inl e') \<and> sdb s' = sdb s"
      by (auto simp: transaction_def split: if_splits)
    then show ?thesis by (auto intro: failed)
  qed
qed

lemma transaction_unhealthy:
  "\<not> healthy s \<Longrightarrow> transaction f body s = (Inl (JobError ''IO_UNCERTAIN'' ''Ledger durability is unresolved''), s)"
  by (simp add: transaction_def)

text \<open>C2. Every transaction is atomic or closes the store.  When it returns, the database is exactly what its body
  left; when it raises, either the database is what it was before, or the store is unhealthy, and an unhealthy
  store refuses every later transaction, whatever its body, without running it.\<close>

theorem transaction_atomic:
  "\<exists>r s'. transaction f body s = (r, s') \<and>
     (case r of
        Inr x \<Rightarrow> body s = (Inr x, s')
      | Inl e \<Rightarrow> sdb s' = sdb s \<or> (\<not> healthy s' \<and>
          (\<forall>g next_body. transaction g (next_body :: 'b act) s' =
             (Inl (JobError ''IO_UNCERTAIN'' ''Ledger durability is unresolved''), s'))))"
proof -
  obtain r s' where run: "transaction f body s = (r, s')" by fastforce
  show ?thesis
    by (rule exI [of _ r], rule exI [of _ s'], rule conjI [OF run], use run in \<open>cases rule: transaction_cases\<close>)
      (auto simp: transaction_unhealthy)
qed

section \<open>Histories only grow\<close>

definition ident :: "op_row \<Rightarrow> op_row" where
  \<comment> \<open>the columns that no statement may change\<close>
  "ident r = r\<lparr>o_record_json := []\<rparr>"

definition extends :: "db \<Rightarrow> db \<Rightarrow> bool" where
  "extends d d' = (prefix (events d) (events d') \<and>
     prefix (map ident (operations d)) (map ident (operations d')))"

text \<open>
  The contract of a property of the ledger that the writers of records and events keep.  Then every
  such operation of the store keeps it, whether it returns or raises, inside a transaction and out of it;
  and so does the insertion of a row, if the new row keeps it.
\<close>

locale ledger_docs =
  fixes Q :: "db \<Rightarrow> bool"
  assumes Q_event: "Q d \<Longrightarrow> e_seq e = next_seq d \<Longrightarrow> Q (add_event e d)"
    and Q_record: "Q d \<Longrightarrow> Q (put_record ns i t d)"
begin

lemma keeps_get: "keepsA (\<lambda>s. Q (sdb s)) (get ns i)"
  by (auto simp: keepsA_def get_def split: option.splits sum.splits)

lemma keeps_modify: "(\<And>d. Q d \<Longrightarrow> Q (f d)) \<Longrightarrow> keepsA (\<lambda>s. Q (sdb s)) (modify_db f)"
  by (auto simp: keepsA_def modify_db_def)

lemma keeps_update: "keepsA (\<lambda>s. Q (sdb s)) (update now ns i event changes)"
  unfolding update_def
proof (intro keepsA_bindA keeps_get keepsA_option keepsA_pure)
  fix r data
  show "keepsA (\<lambda>s. Q (sdb s)) (\<lambda>s. let seq = next_seq (sdb s); record1 = dupdate (rec r) changes;
           record2 = dupdate record1 [(lit ''event_seq'', JInt (int seq)), (lit ''observed_at'', now)]
       in thenA (modify_db (add_event \<lparr>e_seq = seq, e_namespace = ns, e_id = i, e_kind = event,
                   e_observed_at = now, e_data_json = data\<rparr>))
          (bindA (liftA (encoded record2)) (\<lambda>text. thenA (modify_db (put_record ns i text)) (returnA record2))) s)"
    by (auto simp: keepsA_def Let_def thenA_def bindA_def modify_db_def liftA_def returnA_def Q_event Q_record
        split: sum.splits)
qed

lemma keeps_transaction:
  assumes "keepsA (\<lambda>s. Q (sdb s)) body"
  shows "keepsA (\<lambda>s. Q (sdb s)) (transaction f body)"
  unfolding keepsA_def
proof (intro allI impI)
  fix s r s'
  assume Q: "Q (sdb s)" and run: "transaction f body s = (r, s')"
  have "Q (sdb (snd (body s)))" using keepsA_D [OF assms Q] by (metis prod.collapse)
  with run Q show "Q (sdb s')" by (cases rule: transaction_cases) auto
qed

lemma keeps_insert_at:
  assumes new: "\<And>d r. Q d \<Longrightarrow> find_row d ns i = None \<Longrightarrow> o_namespace r = ns \<Longrightarrow> o_id r = i \<Longrightarrow> o_principal r = prin \<Longrightarrow>
      o_digest r = dig \<Longrightarrow> o_reserved_bytes r = bytes \<Longrightarrow> Q (d\<lparr>operations := operations d @ [r]\<rparr>)"
  shows "keepsA (\<lambda>s. Q (sdb s)) (insert_row now1 now2 ns i par prin dig req pl bytes)"
proof -
  have rest: "keepsA (\<lambda>s. Q (sdb s)) (bindA (update now2 ns i (lit ''ACCEPTED'') []) (\<lambda>_. get ns i))"
    by (intro keepsA_bindA keeps_update keeps_get)
  have add: "keepsA (\<lambda>s. Q (sdb s)) (\<lambda>s.
      if \<not> bytes > 0 then raiseA (SqliteError 275) s
      else if find_row (sdb s) ns i \<noteq> None then raiseA (SqliteError 1555) s
      else thenA (modify_db (\<lambda>d. d\<lparr>operations := operations d @ [row]\<rparr>))
        (bindA (update now2 ns i (lit ''ACCEPTED'') []) (\<lambda>_. get ns i)) s)"
    if row: "o_namespace row = ns" "o_id row = i" "o_principal row = prin" "o_digest row = dig" "o_reserved_bytes row = bytes" for row
  proof (rule keepsA_I)
    fix s r s'
    assume Q: "Q (sdb s)" and run: "(if \<not> bytes > 0 then raiseA (SqliteError 275) s
      else if find_row (sdb s) ns i \<noteq> None then raiseA (SqliteError 1555) s
      else thenA (modify_db (\<lambda>d. d\<lparr>operations := operations d @ [row]\<rparr>))
        (bindA (update now2 ns i (lit ''ACCEPTED'') []) (\<lambda>_. get ns i)) s) = (r, s')"
    show "Q (sdb s')"
    proof (cases "bytes > 0 \<and> find_row (sdb s) ns i = None")
      case True
      with Q row have "Q (sdb (s\<lparr>sdb := (sdb s)\<lparr>operations := operations (sdb s) @ [row]\<rparr>\<rparr>))"
        using new [of "sdb s" row] by simp
      moreover from True run have "bindA (update now2 ns i (lit ''ACCEPTED'') []) (\<lambda>_. get ns i)
          (s\<lparr>sdb := (sdb s)\<lparr>operations := operations (sdb s) @ [row]\<rparr>\<rparr>) = (r, s')"
        by (simp add: thenA_def bindA_def [of "modify_db _"] modify_db_def)
      ultimately show ?thesis by (rule keepsA_D [OF rest])
    qed (use Q run in \<open>auto simp: raiseA_def split: if_splits\<close>)
  qed
  show ?thesis
    unfolding insert_row_def by (intro keepsA_bindA keepsA_pure add) simp_all
qed

end

locale ledger_rows = ledger_docs +
  assumes Q_insert: "Q d \<Longrightarrow> find_row d (o_namespace r) (o_id r) = None \<Longrightarrow> Q (d\<lparr>operations := operations d @ [r]\<rparr>)"
begin

lemma keeps_insert: "keepsA (\<lambda>s. Q (sdb s)) (insert_row now1 now2 ns i par prin dig req pl bytes)"
  by (rule keeps_insert_at) (simp add: Q_insert)

end

text \<open>A property that also does not depend on the other tables.\<close>

locale ledger_invariant = ledger_rows +
  assumes Q_leases: "Q d \<Longrightarrow> Q (d\<lparr>leases := ls\<rparr>)"
    and Q_revocations: "Q d \<Longrightarrow> Q (d\<lparr>revocations := rs\<rparr>)"
    and Q_counters: "Q d \<Longrightarrow> Q (d\<lparr>counters := cs\<rparr>)"
begin

lemma keeps_acquire: "keepsA (\<lambda>s. Q (sdb s)) (acquire al owner epoch resources)"
  unfolding acquire_def Let_def
  by (intro keepsA_bindA keepsA_pure keepsA_if keepsA_thenA keepsA_forA keeps_modify)
    (auto simp: keepsA_def check_lease_def raiseA_def returnA_def claim_lease_def Q_leases split: option.splits if_splits)

lemma keeps_release: "keepsA (\<lambda>s. Q (sdb s)) (release owner a b c)"
  unfolding release_def by (intro keepsA_if keepsA_pure keeps_modify) (simp add: drop_leases_def Q_leases)

end

lemma put_record_events: "events (put_record ns i t d) = events d"
  by (simp add: put_record_def)

lemma put_record_ident: "map ident (operations (put_record ns i t d)) = map ident (operations d)"
  by (simp add: put_record_def ident_def)

lemma put_record_keys:
  "map (\<lambda>r. (o_namespace r, o_id r)) (operations (put_record ns i t d)) =
     map (\<lambda>r. (o_namespace r, o_id r)) (operations d)"
  by (simp add: put_record_def)

interpretation history: ledger_invariant "extends d0" for d0
proof
  show "extends d0 d \<Longrightarrow> extends d0 (add_event e d)" for d e
    by (auto simp: extends_def add_event_def)
  show "extends d0 d \<Longrightarrow> extends d0 (put_record ns i t d)" for d ns i t
    by (simp only: extends_def put_record_events put_record_ident)
qed (auto simp: extends_def)

text \<open>The event numbers are \<open>1, 2, \<dots>\<close> and no two operations share a key.\<close>

definition numbered :: "db \<Rightarrow> bool" where
  "numbered d = (map e_seq (events d) = [1..<Suc (length (events d))] \<and>
     distinct (map (\<lambda>r. (o_namespace r, o_id r)) (operations d)))"

interpretation numbering: ledger_invariant numbered
proof
  show "numbered d \<Longrightarrow> e_seq e = next_seq d \<Longrightarrow> numbered (add_event e d)" for d e
    using foldr_max_upt [of "length (events d)"] by (simp only: numbered_def next_seq_def) (simp add: add_event_def)
  show "numbered d \<Longrightarrow> numbered (put_record ns i t d)" for d ns i t
    by (simp only: numbered_def put_record_events put_record_keys)
  show "numbered d \<Longrightarrow> find_row d (o_namespace r) (o_id r) = None \<Longrightarrow> numbered (d\<lparr>operations := operations d @ [r]\<rparr>)" for d r
    by (auto simp: numbered_def find_row_def find_None_iff)
qed (auto simp: numbered_def)

text \<open>One transaction of the store, with whatever faults.\<close>

inductive ledger_step :: "store \<Rightarrow> store \<Rightarrow> bool" where
  step_insert: "transaction f (insert_row now1 now2 ns i par prin dig req pl bytes) s = (r, s') \<Longrightarrow> ledger_step s s'"
| step_update: "transaction f (update now ns i event changes) s = (r', s') \<Longrightarrow> ledger_step s s'"
| step_acquire: "transaction f (acquire al owner epoch resources) s = (u, s') \<Longrightarrow> ledger_step s s'"
| step_release: "transaction f (release owner a b c) s = (u, s') \<Longrightarrow> ledger_step s s'"

lemma ledger_step_keeps:
  assumes "ledger_step s s'" and inv: "ledger_invariant Q" and Q: "Q (sdb s)"
  shows "Q (sdb s')"
proof -
  have rows: "ledger_rows Q" using inv by (rule ledger_invariant.axioms)
  then have docs: "ledger_docs Q" by (rule ledger_rows.axioms)
  note keeps = keepsA_D [OF ledger_docs.keeps_transaction [OF docs] Q]
  from assms(1) show ?thesis
  proof cases
    case step_insert
    then show ?thesis by (rule keeps [OF ledger_rows.keeps_insert [OF rows]])
  next
    case step_update
    then show ?thesis by (rule keeps [OF ledger_docs.keeps_update [OF docs]])
  next
    case step_acquire
    then show ?thesis by (rule keeps [OF ledger_invariant.keeps_acquire [OF inv]])
  next
    case step_release
    then show ?thesis by (rule keeps [OF ledger_invariant.keeps_release [OF inv]])
  qed
qed

lemma ledger_steps_keep:
  "ledger_step\<^sup>*\<^sup>* s s' \<Longrightarrow> ledger_invariant Q \<Longrightarrow> Q (sdb s) \<Longrightarrow> Q (sdb s')"
  by (induction rule: rtranclp_induct) (auto intro: ledger_step_keeps)

text \<open>C16. The ledger is append-only.  Along any sequence of transactions, whatever fails in them, the events and the
  identity columns of the operations recorded so far stay a prefix of those recorded later.\<close>

theorem ledger_append_only: "ledger_step\<^sup>*\<^sup>* s s' \<Longrightarrow> extends (sdb s) (sdb s')"
  using ledger_steps_keep [OF _ history.ledger_invariant_axioms, of s s' "sdb s"] by (simp add: extends_def)

theorem ledger_append_only_witness:
  "extends (sdb example_store) (sdb (snd (transaction no_faults (acquire example_aliases (lit ''job-1'') 7 [jlit ''gpu'']) example_store)))"
  by (rule ledger_append_only, rule r_into_rtranclp, rule step_acquire) (rule prod.collapse [symmetric])

text \<open>From a fresh ledger on, the events are numbered without gaps in the order they were
  written, and no two operations share a namespace and an identity.\<close>

theorem events_numbered:
  "ledger_step\<^sup>*\<^sup>* \<lparr>sdb = create authority ledger, healthy = True, read_only = False\<rparr> s \<Longrightarrow>
     map e_seq (events (sdb s)) = [1..<Suc (length (events (sdb s)))] \<and>
     distinct (map (\<lambda>r. (o_namespace r, o_id r)) (operations (sdb s)))"
  using ledger_steps_keep [OF _ numbering.ledger_invariant_axioms] by (fastforce simp: numbered_def create_def)

theorem events_numbered_witness:
  "map e_seq (events (sdb (snd (transaction no_faults (update (JFloat ''1.5'') (lit ''job'') (lit ''1'') (lit ''NOTED'') []) example_store)))) =
     [1..<Suc (length (events (sdb (snd (transaction no_faults (update (JFloat ''1.5'') (lit ''job'') (lit ''1'') (lit ''NOTED'') []) example_store)))))]"
proof -
  let ?t = "transaction no_faults (update (JFloat ''1.5'') (lit ''job'') (lit ''1'') (lit ''NOTED'') []) example_store"
  have "ledger_step\<^sup>*\<^sup>* \<lparr>sdb = create (lit ''authority'') (lit ''ledger''), healthy = True, read_only = False\<rparr> (snd ?t)"
    unfolding example_store_def [symmetric] by (rule r_into_rtranclp, rule step_update) (rule prod.collapse [symmetric])
  from events_numbered [OF this] show ?thesis by (rule conjunct1)
qed

end
