(* ===== verification/Bounds.thy ===== *)
theory Bounds
  imports Contract
begin

text \<open>
  Forwarded authority, \<open>tools/local_hand_jobs/forwarded_bounds.py\<close>: a gateway attaches the
  bounds of its authenticated principal to a request, and the receiver, which has authenticated
  the peer itself, narrows the peer by them.
\<close>

section \<open>Attaching and restricting\<close>

abbreviation bounds_key :: pystr where
  "bounds_key \<equiv> lit ''authorization_bounds''"

definition bounds_of :: "json \<Rightarrow> principal \<Rightarrow> int \<Rightarrow> json" where
  "bounds_of request p deadline = obj [(''schema'', jlit ''lh-forwarded-bounds-v1''), (''principal_id'', JStr (principal_id p)),
     (''scopes'', JList (map JStr (sort (remdups (scopes p))))), (''expires_at'', JInt deadline),
     (''request_digest'', JStr (sha256_hex (canonical_bytes request)))]"

definition attach :: "int \<Rightarrow> json \<Rightarrow> principal \<Rightarrow> json res" where
  "attach now request p =
     thenE (require_current now p)
       (case p_expires_at p of
          None \<Rightarrow> Inr request
        | Some deadline \<Rightarrow>
            if dget request bounds_key \<noteq> None
            then Inl (JobError ''UNAUTHORIZED'' ''Authorization bounds cannot be replaced'')
            else Inr (dset request bounds_key (bounds_of request p deadline)))"

text \<open>The chain of conditions of \<open>restrict\<close>, in its order; \<open>body\<close> is the request without the bounds.\<close>

definition bounds_match :: "json \<Rightarrow> json \<Rightarrow> principal \<Rightarrow> bool" where
  "bounds_match bounds body peer =
     (is_dict bounds \<and> has_keys bounds [''schema'', ''principal_id'', ''scopes'', ''expires_at'', ''request_digest''] \<and>
      fld bounds ''schema'' = Some (jlit ''lh-forwarded-bounds-v1'') \<and>
      fld bounds ''principal_id'' = Some (JStr (principal_id peer)) \<and>
      fld bounds ''request_digest'' = Some (JStr (sha256_hex (canonical_bytes body))) \<and>
      (case fld bounds ''scopes'' of
         Some (JList xs) \<Rightarrow> xs \<noteq> [] \<and> (\<forall>x \<in> set xs. is_str x \<and> x \<in> (JStr \<circ> lit) ` snd ` set TOOL_SCOPES) \<and> distinct xs
       | _ \<Rightarrow> False) \<and>
      (case fld bounds ''expires_at'' of Some (JInt n) \<Rightarrow> 0 < n | _ \<Rightarrow> False))"

definition bound_scopes :: "json \<Rightarrow> json list" where
  "bound_scopes bounds = (case fld bounds ''scopes'' of Some (JList xs) \<Rightarrow> xs | _ \<Rightarrow> [])"

definition bound_deadline :: "json \<Rightarrow> int" where
  "bound_deadline bounds = (case fld bounds ''expires_at'' of Some (JInt n) \<Rightarrow> n | _ \<Rightarrow> 0)"

text \<open>\<open>now1\<close> and \<open>now2\<close> are the clock readings of the two \<open>require_current\<close> calls.\<close>

definition restrict :: "int \<Rightarrow> int \<Rightarrow> json \<Rightarrow> principal \<Rightarrow> (json \<times> principal) res" where
  "restrict now1 now2 request peer =
     thenE (require_current now1 peer)
       (case dget request bounds_key of
          None \<Rightarrow> Inr (request, peer)
        | Some bounds \<Rightarrow>
            let body = dpop request bounds_key in
            if \<not> bounds_match bounds body peer
            then Inl (JobError ''UNAUTHORIZED'' ''Forwarded authorization bounds do not match'')
            else let deadline = (case p_expires_at peer of
                       None \<Rightarrow> bound_deadline bounds | Some e \<Rightarrow> min (bound_deadline bounds) e)
              in bindE (mk_principal (principal_id peer)
                         (filter (\<lambda>s. JStr s \<in> set (bound_scopes bounds)) (scopes peer)) (Some deadline))
                 (\<lambda>narrowed. thenE (require_current now2 narrowed) (Inr (body, narrowed))))"

section \<open>Authority only narrows\<close>

text \<open>The order of authority: the same identity, no more scopes, no later deadline.\<close>

definition within :: "principal \<Rightarrow> principal \<Rightarrow> bool" where
  "within p q = (principal_id p = principal_id q \<and> set (scopes p) \<subseteq> set (scopes q) \<and>
     (case p_expires_at q of None \<Rightarrow> True | Some e \<Rightarrow> (\<exists>d. p_expires_at p = Some d \<and> d \<le> e)))"

lemma mk_principal_Inr [res_simps]:
  "mk_principal i sc ex = Inr p \<longleftrightarrow> p = \<lparr>principal_id = i, scopes = sc, p_expires_at = ex\<rparr> \<and> i \<noteq> [] \<and> length i \<le> 256 \<and>
     (\<forall>n. ex = Some n \<longrightarrow> 0 < n)"
  by (auto simp: mk_principal_def)

lemma restrict_bounds:
  assumes "restrict now1 now2 request peer = Inr (body, p)" and "dget request bounds_key = Some bounds"
  shows "body = dpop request bounds_key \<and> bounds_match bounds body peer \<and> require_current now2 p = Inr () \<and>
     scopes p = filter (\<lambda>s. JStr s \<in> set (bound_scopes bounds)) (scopes peer) \<and> principal_id p = principal_id peer \<and>
     p_expires_at p = Some (case p_expires_at peer of None \<Rightarrow> bound_deadline bounds | Some e \<Rightarrow> min (bound_deadline bounds) e)"
  using assms by (auto simp: restrict_def Let_def res_simps split: if_splits)

text \<open>C36. Whatever request arrives, the principal that \<open>restrict\<close> returns has the peer's identity, no scope the peer
  lacks and no later deadline than the peer, and is current; when the request carried bounds, the body
  returned is the request without them, its digest is the one the bounds name, the scopes are among those
  the bounds name and the deadline is not after theirs.\<close>

theorem restrict_narrows:
  assumes "restrict now1 now2 request peer = Inr (body, p)"
  shows "within p peer \<and>
     (case dget request bounds_key of
        None \<Rightarrow> body = request \<and> p = peer \<and> require_current now1 p = Inr ()
      | Some bounds \<Rightarrow> body = dpop request bounds_key \<and>
          fld bounds ''request_digest'' = Some (JStr (sha256_hex (canonical_bytes body))) \<and>
          (\<forall>s \<in> set (scopes p). JStr s \<in> set (bound_scopes bounds)) \<and>
          (\<exists>d. p_expires_at p = Some d \<and> now2 < d \<and> d \<le> bound_deadline bounds))"
proof (cases "dget request bounds_key")
  case None
  with assms show ?thesis
    by (auto simp: restrict_def res_simps within_def split: option.splits)
next
  case (Some bounds)
  from restrict_bounds [OF assms Some] Some show ?thesis
    by (auto simp: within_def bounds_match_def require_current_def res_simps split: option.splits)
qed

lemma wire_body:
  assumes "is_dict request" and "dget request k = None"
  shows "dpop (dset request k b) k = request"
proof (cases request)
  case (JObj kvs)
  with assms(2) have "k \<notin> fst ` set kvs" by (simp add: map_of_eq_None_iff)
  then show ?thesis by (simp add: JObj dset_def dpop_def update_new AList.delete_eq filter_id_conv) force
qed (use assms in simp_all)

lemma bounds_of_match:
  assumes "0 < d" "scopes p \<noteq> []" "set (scopes p) \<subseteq> lit ` snd ` set TOOL_SCOPES" "principal_id peer = principal_id p"
  shows "bounds_match (bounds_of request p d) request peer"
proof -
  have "distinct (map JStr (sort (remdups (scopes p))))" by (simp add: distinct_map inj_on_def)
  moreover have "sort (remdups (scopes p)) \<noteq> []" using assms(2) by (metis set_empty set_remdups set_sort)
  ultimately show ?thesis
    using assms unfolding bounds_match_def bounds_of_def
    by (simp add: image_image image_subset_iff subset_iff image_iff)
qed

lemma bounds_of_fields:
  "bound_scopes (bounds_of request p d) = map JStr (sort (remdups (scopes p)))" "bound_deadline (bounds_of request p d) = d"
  by (simp_all add: bound_scopes_def bound_deadline_def bounds_of_def)

text \<open>Forwarding works: what \<open>attach\<close> produced for a principal with known scopes is accepted by a receiver that has
  authenticated the same identity, as long as both deadlines lie ahead; the receiver gets the original request
  back and exactly the common scopes, until the earlier deadline.\<close>

theorem attach_restrict:
  assumes p: "p_expires_at p = Some d" "0 < d" "now < d" "scopes p \<noteq> []" "set (scopes p) \<subseteq> lit ` snd ` set TOOL_SCOPES"
    and request: "is_dict request" "dget request bounds_key = None"
    and peer: "principal_id peer = principal_id p" "principal_id peer \<noteq> []" "length (principal_id peer) \<le> 256"
      "\<forall>e. p_expires_at peer = Some e \<longrightarrow> 0 < e \<and> now1 < e \<and> now2 < e"
    and clock: "now2 < d"
  shows "\<exists>wire. attach now request p = Inr wire \<and>
     (\<exists>n. restrict now1 now2 wire peer = Inr (request, n) \<and> principal_id n = principal_id p \<and>
        set (scopes n) = set (scopes peer) \<inter> set (scopes p) \<and>
        p_expires_at n = Some (case p_expires_at peer of None \<Rightarrow> d | Some e \<Rightarrow> min d e))"
proof -
  let ?wire = "dset request bounds_key (bounds_of request p d)"
  have "attach now request p = Inr ?wire"
    using p request by (simp add: attach_def require_current_def)
  moreover have "JStr s \<in> JStr ` A \<longleftrightarrow> s \<in> A" for s A by auto
  then have "\<exists>n. restrict now1 now2 ?wire peer = Inr (request, n) \<and> principal_id n = principal_id p \<and>
      set (scopes n) = set (scopes peer) \<inter> set (scopes p) \<and>
      p_expires_at n = Some (case p_expires_at peer of None \<Rightarrow> d | Some e \<Rightarrow> min d e)"
    using peer clock p(2) bounds_of_match [OF p(2,4,5) peer(1), of request] request
    by (auto simp: restrict_def wire_body [OF request] Let_def bounds_of_fields require_current_def mk_principal_def min_le_iff_disj
        split: option.splits)
  ultimately show ?thesis by blast
qed

subsection \<open>A concrete peer\<close>

definition example_peer :: principal where
  "example_peer = \<lparr>principal_id = lit ''gateway'', scopes = [lit ''lh:read'', lit ''lh:submit''], p_expires_at = None\<rparr>"

definition example_client :: principal where
  "example_client = \<lparr>principal_id = lit ''gateway'', scopes = [lit ''lh:read''], p_expires_at = Some 100\<rparr>"

theorem attach_restrict_witness:
  "\<exists>wire n. attach 5 (obj []) example_client = Inr wire \<and> restrict 6 7 wire example_peer = Inr (obj [], n) \<and>
     set (scopes n) = {lit ''lh:read''} \<and> p_expires_at n = Some 100"
  using attach_restrict [of example_client 100 5 "obj []" example_peer 6 7]
  by (auto simp: example_client_def example_peer_def TOOL_SCOPES_def)

theorem restrict_narrows_witness:
  "\<exists>n. restrict 6 7 (dset (obj []) bounds_key (bounds_of (obj []) example_client 100)) example_peer = Inr (obj [], n) \<and>
     within n example_peer"
proof -
  let ?r = "dset (obj []) bounds_key (bounds_of (obj []) example_client 100)"
  have "bounds_match (bounds_of (obj []) example_client 100) (obj []) example_peer"
    by (rule bounds_of_match) (simp_all add: example_client_def example_peer_def TOOL_SCOPES_def)
  then obtain n where n: "restrict 6 7 ?r example_peer = Inr (obj [], n)"
    by (simp add: restrict_def wire_body require_current_def example_peer_def mk_principal_def bounds_of_fields)
  from restrict_narrows [OF this] have "within n example_peer" by simp
  with n show ?thesis by blast
qed

end
