(* ===== verification/Budget.thy ===== *)
theory Budget
  imports Contract Ledger
begin

text \<open>
  The execution envelopes of \<open>tools/local_hand_jobs/budget.py\<close>: the share of an operation's budget
  that each helper gets, the grant that records it, the validation of a grant and of the durable
  state of all grants of an operation, and the reservation of the next one.  Clock readings and
  durable values are JSON objects, as in the code; \<open>now\<close> is the reading the caller passes.
\<close>

section \<open>Constants\<close>

definition NANOSECONDS :: int where
  "NANOSECONDS = 1000000000"

definition BUDGET_FIELDS :: "string list" where
  "BUDGET_FIELDS = [''wall_seconds'', ''terminate_grace_seconds'', ''cpu_seconds'', ''memory_bytes'', ''processes'',
     ''temporary_bytes'', ''nas_bytes'', ''log_bytes'', ''reservation_bytes'']"

definition SHARED :: "string list" where
  "SHARED = [''wall_seconds'', ''cpu_seconds'', ''log_bytes'']"

definition PHASES :: "pystr \<Rightarrow> pystr list option" where
  "PHASES ns = (if ns = lit ''job'' then Some [lit ''preflight'', lit ''business'', lit ''evidence'']
     else if ns = lit ''reconcile'' then Some [lit ''reconcile'', lit ''evidence''] else None)"

definition GRANT_KEYS :: "string list" where
  "GRANT_KEYS = [''version'', ''namespace'', ''record_id'', ''operation_id'', ''execution_id'', ''phase'', ''budget_digest'',
     ''boot_id'', ''started_boottime_ns'', ''reserved_boottime_ns'', ''deadline_boottime_ns'', ''limits'']"

definition STATE_KEYS :: "string list" where
  "STATE_KEYS = [''version'', ''namespace'', ''record_id'', ''operation_id'', ''budget_digest'', ''boot_id'',
     ''started_boottime_ns'', ''last_boottime_ns'', ''deadline_boottime_ns'', ''grants'']"

abbreviation uncertain :: "string \<Rightarrow> exn" where
  "uncertain m \<equiv> JobError ''IO_UNCERTAIN'' m"

abbreviation unresolved :: exn where
  "unresolved \<equiv> uncertain ''Execution budget identity is unresolved''"

section \<open>Reading validated values\<close>

text \<open>The integer, the string and the items of a value whose type has been checked.\<close>

definition int_of :: "json option \<Rightarrow> int" where
  "int_of v = (case v of Some (JInt n) \<Rightarrow> n | _ \<Rightarrow> 0)"

definition str_of :: "json option \<Rightarrow> pystr" where
  "str_of v = (case v of Some (JStr s) \<Rightarrow> s | _ \<Rightarrow> [])"

lemma int_of_JInt [simp]: "int_of (Some (JInt n)) = n"
  by (simp add: int_of_def)

lemma str_of_JStr [simp]: "str_of (Some (JStr s)) = s"
  by (simp add: str_of_def)

definition items :: "json \<Rightarrow> dict" where
  "items v = (case v of JObj kvs \<Rightarrow> kvs | _ \<Rightarrow> [])"

definition is_str_field :: "json \<Rightarrow> string \<Rightarrow> (pystr \<Rightarrow> bool) \<Rightarrow> bool" where
  "is_str_field v k P = (case fld v k of Some (JStr s) \<Rightarrow> P s | _ \<Rightarrow> False)"

definition is_int_field :: "json \<Rightarrow> string \<Rightarrow> (int \<Rightarrow> bool) \<Rightarrow> bool" where
  "is_int_field v k P = (case fld v k of Some (JInt n) \<Rightarrow> P n | _ \<Rightarrow> False)"

text \<open>\<open>a == b\<close> where an absent key reads as \<open>None\<close>.\<close>

definition opt_eq :: "json option \<Rightarrow> json option \<Rightarrow> bool" where
  "opt_eq a b = jeq (case a of None \<Rightarrow> JNull | Some x \<Rightarrow> x) (case b of None \<Rightarrow> JNull | Some y \<Rightarrow> y)"

section \<open>Clock and limits\<close>

definition validate_clock :: "json \<Rightarrow> unit res" where
  "validate_clock v = raise_if
     (\<not> (is_dict v \<and> has_keys v [''boot_id'', ''boottime_ns''] \<and> is_str_field v ''boot_id'' UUID_PATTERN \<and>
         is_int_field v ''boottime_ns'' (\<lambda>n. 0 \<le> n)))
     (uncertain ''Trusted operation clock is malformed'')"

definition limit_ok :: "pystr \<Rightarrow> json \<Rightarrow> bool" where
  "limit_ok key v = (case v of
     JInt n \<Rightarrow> (if key = lit ''nas_bytes'' then 0 else 1) \<le> n \<and> n \<le> MAX_SAFE_INTEGER | _ \<Rightarrow> False)"

definition validate_limits :: "json \<Rightarrow> unit res" where
  "validate_limits limits =
     (if \<not> is_dict limits \<or> \<not> has_keys limits BUDGET_FIELDS then Inl (uncertain ''Execution budget fields are incomplete'')
      else forE (items limits) (\<lambda>(key, v). raise_if (\<not> limit_ok key v) (uncertain ''Execution budget limits are malformed'')))"

definition share_limits :: "json \<Rightarrow> nat \<Rightarrow> json" where
  "share_limits original n =
     fold (\<lambda>key d. dset d (lit key) (JInt (int_of (fld d key) div int n))) SHARED original"

definition allocated_limits :: "json \<Rightarrow> pystr \<Rightarrow> json res" where
  "allocated_limits original ns =
     thenE (validate_limits original)
       (case PHASES ns of
          None \<Rightarrow> Inl unresolved
        | Some ps \<Rightarrow>
            let shares = share_limits original (length ps) in
            if (\<exists>key \<in> set SHARED. int_of (fld shares key) < 1) \<or>
               int_of (fld shares ''wall_seconds'') \<le> int_of (fld shares ''terminate_grace_seconds'')
            then Inl (BudgetExhausted ''Operation budget cannot fund a bounded helper and its stop grace'')
            else Inr shares)"

section \<open>Grants\<close>

text \<open>The optional keyword arguments of \<open>validate_grant\<close>.\<close>

record expect =
  x_execution_id :: "pystr option"
  x_phase :: "pystr option"
  x_budgets :: "json option"
  x_namespace :: "pystr option"
  x_record_id :: "pystr option"
  x_operation_id :: "pystr option"
  x_original :: "json option"

definition no_expect :: expect where
  "no_expect = \<lparr>x_execution_id = None, x_phase = None, x_budgets = None, x_namespace = None,
     x_record_id = None, x_operation_id = None, x_original = None\<rparr>"

definition execution_name :: "pystr \<Rightarrow> pystr \<Rightarrow> pystr \<Rightarrow> pystr" where
  "execution_name ns record_id phase = ns @ [45] @ record_id @ [45] @ phase"

definition budget_digest :: "json \<Rightarrow> pystr" where
  "budget_digest original = sha256_hex (canonical_bytes original)"

definition expected_field :: "json \<Rightarrow> string \<Rightarrow> pystr option \<Rightarrow> bool" where
  "expected_field grant k x = (case x of None \<Rightarrow> True | Some s \<Rightarrow> fld grant k = Some (JStr s))"

text \<open>The checks of a grant by itself, up to the expectations of the caller.\<close>

definition grant_shape :: "json \<Rightarrow> bool" where
  "grant_shape grant =
     (is_dict grant \<and> has_keys grant GRANT_KEYS \<and> fld grant ''version'' = Some (JInt 1) \<and>
      is_str_field grant ''namespace'' (\<lambda>kind. case PHASES kind of None \<Rightarrow> False
        | Some ps \<Rightarrow> is_str_field grant ''phase'' (\<lambda>p. p \<in> set ps)) \<and>
      (\<forall>key \<in> {''record_id'', ''operation_id'', ''execution_id''}. is_str_field grant key (\<lambda>s. 1 \<le> length s \<and> length s \<le> 256)) \<and>
      fld grant ''execution_id'' = Some (JStr (execution_name (str_of (fld grant ''namespace''))
        (str_of (fld grant ''record_id'')) (str_of (fld grant ''phase'')))) \<and>
      (fld grant ''namespace'' = Some (jlit ''job'') \<longrightarrow> fld grant ''record_id'' = fld grant ''operation_id'') \<and>
      is_str_field grant ''boot_id'' UUID_PATTERN \<and> is_str_field grant ''budget_digest'' DIGEST_PATTERN \<and>
      (\<forall>key \<in> {''started_boottime_ns'', ''reserved_boottime_ns'', ''deadline_boottime_ns''}. is_int_field grant key (\<lambda>n. 0 \<le> n)) \<and>
      int_of (fld grant ''started_boottime_ns'') \<le> int_of (fld grant ''reserved_boottime_ns'') \<and>
      int_of (fld grant ''reserved_boottime_ns'') < int_of (fld grant ''deadline_boottime_ns''))"

definition validate_grant :: "expect \<Rightarrow> json \<Rightarrow> unit res" where
  "validate_grant x grant =
     thenE (raise_if (\<not> grant_shape grant) unresolved)
     (bindE (sub grant ''limits'') (\<lambda>limits.
      thenE (validate_limits limits)
     (thenE (raise_if (int_of (fld limits ''wall_seconds'') \<le> int_of (fld limits ''terminate_grace_seconds''))
        (uncertain ''Helper wall envelope does not include its stop grace''))
     (thenE (raise_if (\<not> (expected_field grant ''execution_id'' (x_execution_id x) \<and> expected_field grant ''phase'' (x_phase x) \<and>
          expected_field grant ''namespace'' (x_namespace x) \<and> expected_field grant ''record_id'' (x_record_id x) \<and>
          expected_field grant ''operation_id'' (x_operation_id x))) unresolved)
     (thenE (case x_budgets x of None \<Rightarrow> Inr () | Some budgets \<Rightarrow>
          thenE (validate_limits budgets)
            (raise_if (\<not> jeq limits budgets) (uncertain ''Helper limits differ from their durable reservation'')))
      (case x_original x of None \<Rightarrow> Inr () | Some original \<Rightarrow>
          thenE (validate_limits original)
          (thenE (raise_if (fld grant ''budget_digest'' \<noteq> Some (JStr (budget_digest original)))
             (uncertain ''Durable helper reservation differs from the admitted operation budget''))
          (bindE (allocated_limits original (str_of (fld grant ''namespace''))) (\<lambda>alloc.
             raise_if (\<not> jeq limits alloc \<or>
                 int_of (fld grant ''deadline_boottime_ns'') \<noteq>
                   int_of (fld grant ''started_boottime_ns'') + int_of (fld original ''wall_seconds'') * NANOSECONDS)
               (uncertain ''Durable helper reservation differs from the admitted operation budget''))))))))))"

section \<open>Deadlines\<close>

definition remaining_ns :: "json \<Rightarrow> json \<Rightarrow> int res" where
  "remaining_ns grant now =
     thenE (validate_grant no_expect grant)
     (thenE (validate_clock now)
     (thenE (raise_if (fld now ''boot_id'' \<noteq> fld grant ''boot_id'' \<or>
          int_of (fld now ''boottime_ns'') < int_of (fld grant ''reserved_boottime_ns''))
        (uncertain ''Operation deadline belongs to another or uncertain clock''))
      (let remaining = int_of (fld grant ''deadline_boottime_ns'') - int_of (fld now ''boottime_ns'') in
       if remaining \<le> 0 then Inl (BudgetExhausted ''Operation wall deadline is exhausted'') else Inr remaining)))"

definition phase_deadline_ns :: "json \<Rightarrow> int res" where
  "phase_deadline_ns grant =
     thenE (validate_grant no_expect grant)
     (bindE (sub grant ''limits'') (\<lambda>limits.
      Inr (min (int_of (fld grant ''deadline_boottime_ns''))
             (int_of (fld grant ''reserved_boottime_ns'') + int_of (fld limits ''wall_seconds'') * NANOSECONDS))))"

definition phase_remaining_ns :: "json \<Rightarrow> json \<Rightarrow> int res" where
  "phase_remaining_ns grant now =
     bindE (remaining_ns grant now) (\<lambda>_.
     bindE (phase_deadline_ns grant) (\<lambda>deadline.
       let remaining = deadline - int_of (fld now ''boottime_ns'') in
       if remaining \<le> 0 then Inl (BudgetExhausted ''Execution phase wall deadline is exhausted'') else Inr remaining))"

definition substages :: "int \<Rightarrow> pystr list" where
  "substages version = (if version = 2 then [lit ''bootstrap'', lit ''helper'']
     else [lit ''bootstrap'', lit ''helper'', lit ''result_reader''])"

definition substage_limits :: "json \<Rightarrow> pystr \<Rightarrow> int \<Rightarrow> json res" where
  "substage_limits grant stage version =
     thenE (validate_grant no_expect grant)
     (thenE (raise_if (version \<notin> {2, 3}) (uncertain ''Unknown fixed supervision budget version''))
     (thenE (raise_if (stage \<notin> set (substages version)) (uncertain ''Unknown fixed execution substage''))
     (bindE (sub grant ''limits'') (\<lambda>limits.
      let n = int (length (substages version));
          cpu = int_of (fld limits ''cpu_seconds'');
          preparation = cpu div n
      in if preparation < 1 then Inl (BudgetExhausted ''Phase CPU budget cannot fund every fixed supervision substage'')
         else Inr (dset limits (lit ''cpu_seconds'')
           (JInt (if stage = lit ''helper'' then cpu - preparation * (n - 1) else preparation)))))))"

section \<open>The durable state of an operation\<close>

definition hex32 :: "pystr \<Rightarrow> bool" where
  "hex32 s = (length s = 32 \<and> (\<forall>c \<in> set s. is_hex_digit c))"

text \<open>One entry of \<open>quota_preparations\<close>: the check, and the handle it stands for when none is stored.\<close>

definition preparation_handle :: "json \<Rightarrow> json \<Rightarrow> pystr \<times> json \<Rightarrow> json res" where
  "preparation_handle grants handles entry = (case entry of (phase, prepared) \<Rightarrow>
     if \<not> (is_dict prepared \<and> fld prepared ''phase'' = Some (JStr phase) \<and>
           opt_eq (fld prepared ''budget'') (dget grants phase) \<and> is_str_field prepared ''session'' hex32)
     then Inl (uncertain ''Original quota preparation budget differs'')
     else if dget handles phase \<noteq> None then Inr handles
     else bindE (sub prepared ''budget'') (\<lambda>budget.
          bindE (sub budget ''execution_id'') (\<lambda>eid.
          Inr (dset handles phase (obj [(''execution_id'', eid)])))))"

definition prepared_handles :: "json \<Rightarrow> json \<Rightarrow> json \<Rightarrow> json res" where
  "prepared_handles record grants handles =
     (let preparations = get_or record ''quota_preparations'' (JObj []) in
      if \<not> truthy preparations then Inr handles
      else if fld record ''quota_binding_version'' \<noteq> Some (JInt 1) \<or> \<not> is_dict preparations
      then Inl (uncertain ''Quota preparation version is unresolved'')
      else foldE (preparation_handle grants) handles (items preparations))"

text \<open>One stored grant against the state it belongs to.\<close>

definition stored_grant_ok :: "row \<Rightarrow> json \<Rightarrow> json \<Rightarrow> json \<Rightarrow> pystr \<times> json \<Rightarrow> unit res" where
  "stored_grant_ok r original state handles entry = (case entry of (phase, old) \<Rightarrow>
     thenE (validate_grant \<lparr>x_execution_id = None, x_phase = Some phase, x_budgets = None, x_namespace = Some (namespace r),
              x_record_id = Some (identity r), x_operation_id = Some (parent r), x_original = Some original\<rparr> old)
       (raise_if (\<not> ((\<forall>key \<in> {''boot_id'', ''started_boottime_ns'', ''deadline_boottime_ns''}. fld old key = fld state key) \<and>
            int_of (fld old ''reserved_boottime_ns'') \<le> int_of (fld state ''last_boottime_ns'') \<and>
            (case dget handles phase of None \<Rightarrow> False
               | Some handle \<Rightarrow> is_dict handle \<and> fld handle ''execution_id'' = fld old ''execution_id'')))
          unresolved))"

definition granted :: "json \<Rightarrow> string \<Rightarrow> int" where
  \<comment> \<open>\<open>sum(item["limits"][key] for item in grants.values())\<close>\<close>
  "granted grants key = (\<Sum>(phase, g)\<leftarrow>items grants. case fld g ''limits'' of None \<Rightarrow> 0 | Some l \<Rightarrow> int_of (fld l key))"

definition over_budget :: "json \<Rightarrow> json \<Rightarrow> bool" where
  "over_budget grants original = (\<exists>key \<in> set SHARED. granted grants key > int_of (fld original key))"

definition state_shape :: "row \<Rightarrow> json \<Rightarrow> json \<Rightarrow> pystr list \<Rightarrow> bool" where
  "state_shape r original state phases =
     (is_dict state \<and> has_keys state STATE_KEYS \<and> fld state ''version'' = Some (JInt 1) \<and>
      fld state ''namespace'' = Some (JStr (namespace r)) \<and> fld state ''record_id'' = Some (JStr (identity r)) \<and>
      fld state ''operation_id'' = Some (JStr (parent r)) \<and> fld state ''budget_digest'' = Some (JStr (budget_digest original)) \<and>
      (case fld state ''grants'' of Some (JObj gs) \<Rightarrow> set (map fst gs) \<subseteq> set phases | _ \<Rightarrow> False) \<and>
      (\<forall>key \<in> {''started_boottime_ns'', ''last_boottime_ns'', ''deadline_boottime_ns''}. is_int_field state key (\<lambda>n. 0 \<le> n)) \<and>
      is_str_field state ''boot_id'' UUID_PATTERN \<and>
      int_of (fld state ''started_boottime_ns'') \<le> int_of (fld state ''last_boottime_ns'') \<and>
      int_of (fld state ''last_boottime_ns'') < int_of (fld state ''deadline_boottime_ns'') \<and>
      int_of (fld state ''deadline_boottime_ns'') =
        int_of (fld state ''started_boottime_ns'') + int_of (fld original ''wall_seconds'') * NANOSECONDS)"

definition validate_state :: "row \<Rightarrow> json \<Rightarrow> unit res" where
  "validate_state r state =
     bindE (sub (plan r) ''budgets'') (\<lambda>original.
     thenE (validate_limits original)
     (bindE (key_or_raise (PHASES (namespace r))) (\<lambda>phases.
      thenE (raise_if (\<not> state_shape r original state phases) unresolved)
     (let handles0 = get_or (rec r) ''handles'' (JObj []) in
      thenE (raise_if (\<not> is_dict handles0) unresolved)
     (bindE (sub state ''grants'') (\<lambda>grants.
      bindE (prepared_handles (rec r) grants handles0) (\<lambda>handles.
      thenE (raise_if (set (jkeys grants) \<noteq> set (jkeys handles))
               (uncertain ''Execution intent and aggregate budget reservations differ''))
     (thenE (forE (items grants) (stored_grant_ok r original state handles))
        (raise_if (over_budget grants original)
           (uncertain ''Helper reservations exceed the admitted operation budget''))))))))))"

definition stored_grant :: "row \<Rightarrow> pystr \<Rightarrow> json res" where
  "stored_grant r phase =
     (let state = get_or (rec r) ''execution_budget'' JNull in
      thenE (validate_state r state)
      (bindE (sub state ''grants'') (\<lambda>grants.
       (case dget grants phase of
          None \<Rightarrow> Inl (uncertain ''Execution has no durable helper budget reservation'')
        | Some grant \<Rightarrow> Inr grant))))"

section \<open>Reservation\<close>

text \<open>An operation that has no budget state yet must be untouched.\<close>

definition untouched :: "json \<Rightarrow> bool" where
  "untouched record =
     (opt_eq (fld record ''handles'') (Some (JObj [])) \<and> fld record ''phase'' = Some (jlit ''QUEUED'') \<and>
      fld record ''lifecycle'' = Some (jlit ''ACCEPTED'') \<and> fld record ''business_started'' = Some (JBool False) \<and>
      fld record ''helper_started'' = Some (JBool False) \<and> get_or record ''exit_proof'' JNull = JNull \<and>
      (\<forall>key \<in> {''facts'', ''runner_result'', ''business_outcome'', ''frozen_snapshot''}. \<not> truthy (get_or record key JNull)))"

definition first_state :: "row \<Rightarrow> json \<Rightarrow> json \<Rightarrow> json" where
  "first_state r original now = obj [(''version'', JInt 1), (''namespace'', JStr (namespace r)), (''record_id'', JStr (identity r)),
     (''operation_id'', JStr (parent r)), (''budget_digest'', JStr (budget_digest original)),
     (''boot_id'', JStr (str_of (fld now ''boot_id''))), (''started_boottime_ns'', JInt (int_of (fld now ''boottime_ns''))),
     (''last_boottime_ns'', JInt (int_of (fld now ''boottime_ns''))),
     (''deadline_boottime_ns'', JInt (int_of (fld now ''boottime_ns'') + int_of (fld original ''wall_seconds'') * NANOSECONDS)),
     (''grants'', JObj [])]"

definition expected_phase :: "pystr \<Rightarrow> json" where
  "expected_phase phase = (if phase = lit ''business'' then jlit ''PREFLIGHT_COMPLETE''
     else if phase = lit ''evidence'' then jlit ''AWAITING_SEAL'' else jlit ''QUEUED'')"

text \<open>\<open>{key: previous[key] for key in (...)}\<close> and the update that completes the grant.\<close>

definition new_grant :: "row \<Rightarrow> json \<Rightarrow> pystr \<Rightarrow> json \<Rightarrow> json \<Rightarrow> json" where
  "new_grant r previous phase limits now = obj (
     map (\<lambda>key. (key, get_or previous key JNull)) [''version'', ''namespace'', ''record_id'', ''operation_id'', ''budget_digest'',
        ''boot_id'', ''started_boottime_ns'', ''deadline_boottime_ns''] @
     [(''execution_id'', JStr (execution_name (namespace r) (identity r) phase)), (''phase'', JStr phase),
      (''reserved_boottime_ns'', JInt (int_of (fld now ''boottime_ns''))), (''limits'', limits)])"

definition previous_state :: "row \<Rightarrow> json \<Rightarrow> pystr \<Rightarrow> pystr list \<Rightarrow> json \<Rightarrow> json res" where
  "previous_state r original phase phases now =
     (let previous = get_or (rec r) ''execution_budget'' JNull in
      if previous \<noteq> JNull then Inr previous
      else if \<not> untouched (rec r) \<or> phase \<noteq> hd phases
      then Inl (uncertain ''Prior execution has no durable aggregate budget; no new helper is authorized'')
      else Inr (first_state r original now))"

definition reserve :: "row \<Rightarrow> pystr \<Rightarrow> json \<Rightarrow> (json \<times> json) res" where
  "reserve r phase now =
     (case PHASES (namespace r) of
        None \<Rightarrow> Inl unresolved
      | Some phases \<Rightarrow>
        if phase \<notin> set phases then Inl unresolved
        else bindE (sub (plan r) ''budgets'') (\<lambda>original.
        bindE (allocated_limits original (namespace r)) (\<lambda>limits.
        thenE (validate_clock now)
       (bindE (previous_state r original phase phases now) (\<lambda>previous.
        thenE (validate_state r previous)
       (thenE (raise_if (fld previous ''boot_id'' \<noteq> fld now ''boot_id'' \<or>
                  int_of (fld now ''boottime_ns'') < int_of (fld previous ''last_boottime_ns''))
                (uncertain ''Operation deadline belongs to another or uncertain clock''))
       (bindE (sub (rec r) ''phase'') (\<lambda>record_phase.
        bindE (sub previous ''grants'') (\<lambda>grants.
        thenE (raise_if (record_phase \<noteq> expected_phase phase \<or>
                  (phase = lit ''business'' \<and> dget grants (lit ''preflight'') = None) \<or>
                  (phase = lit ''evidence'' \<and> items grants = []))
                (uncertain ''Helper phase is not consistent with prior budget reservations''))
       (thenE (raise_if (dget grants phase \<noteq> None)
                (JobError ''CONFLICT'' ''Helper budget reservation cannot be repeated or refunded''))
       (let grant = new_grant r previous phase limits now in
        thenE (raise_if (int_of (fld previous ''deadline_boottime_ns'') - int_of (fld now ''boottime_ns'') \<le>
                  int_of (fld limits ''terminate_grace_seconds'') * NANOSECONDS)
                (BudgetExhausted ''Operation has no runtime left after its required stop grace''))
       (thenE (validate_grant (no_expect\<lparr>x_original := Some original\<rparr>) grant)
       (let grants' = dset grants phase grant in
        thenE (raise_if (over_budget grants' original)
                (uncertain ''Helper reservations exceed the admitted operation budget''))
          (Inr (dupdate previous [(lit ''grants'', grants'),
                 (lit ''last_boottime_ns'', JInt (int_of (fld now ''boottime_ns'')))], grant)))))))))))))))"

end
