(* ===== verification/BudgetProps.thy ===== *)
theory BudgetProps
  imports Budget
begin

text \<open>
  What the budget promises: shares never add up to more than the admitted budget, a phase's end
  is one fixed instant, and a reservation once made is found again and cannot be repeated.
\<close>

section \<open>Shares\<close>

lemma validate_limits_fields:
  assumes "validate_limits l = Inr ()"
  shows "is_dict l" "has_keys l BUDGET_FIELDS" "\<And>k v. (k, v) \<in> set (items l) \<Longrightarrow> limit_ok k v"
  using assms by (auto simp: validate_limits_def res_simps split: if_splits)

lemma dget_items: "dget v k = Some x \<Longrightarrow> (k, x) \<in> set (items v)"
  by (cases v) (auto simp: items_def dget_def dest: map_of_SomeD)

lemma limit_field:
  assumes "validate_limits l = Inr ()" and "k \<in> set BUDGET_FIELDS"
  obtains n where "fld l k = Some (JInt n)" "(if k = ''nas_bytes'' then 0 else 1) \<le> n" "n \<le> MAX_SAFE_INTEGER"
proof -
  obtain x where x: "fld l k = Some x"
    using has_keys_get [OF validate_limits_fields(2) [OF assms(1)] assms(2)] by blast
  from validate_limits_fields(3) [OF assms(1) dget_items [OF x]] have "limit_ok (lit k) x" .
  with x that show thesis by (cases x) (auto simp: limit_ok_def)
qed

lemma fld_share_limits:
  assumes "is_dict l"
  shows "fld (share_limits l n) k = (if k \<in> set SHARED then Some (JInt (int_of (fld l k) div int n)) else fld l k)"
  using assms by (simp add: share_limits_def SHARED_def)

lemma share_times: "0 \<le> m \<Longrightarrow> int n * (m div int n) \<le> m"
proof (cases "n = 0")
  case False
  then have "0 \<le> m mod int n" by simp
  moreover have "int n * (m div int n) + m mod int n = m" by (rule mult_div_mod_eq)
  ultimately show ?thesis by linarith
qed simp

lemma allocated_limits_Inr:
  assumes "allocated_limits original ns = Inr shares"
  obtains ps where "PHASES ns = Some ps" "validate_limits original = Inr ()" "shares = share_limits original (length ps)"
    "\<forall>key \<in> set SHARED. 1 \<le> int_of (fld shares key)"
    "int_of (fld shares ''terminate_grace_seconds'') < int_of (fld shares ''wall_seconds'')"
proof (cases "PHASES ns")
  case None
  with assms show ?thesis by (simp add: allocated_limits_def res_simps)
next
  case (Some ps)
  let ?s = "share_limits original (length ps)"
  from assms Some have valid: "validate_limits original = Inr ()"
    and fits: "\<not> ((\<exists>key \<in> set SHARED. int_of (fld ?s key) < 1) \<or>
       int_of (fld ?s ''wall_seconds'') \<le> int_of (fld ?s ''terminate_grace_seconds''))" and s: "shares = ?s"
    unfolding allocated_limits_def Let_def by (simp_all only: thenE_Inr_iff option.case split: if_splits) simp_all
  then show ?thesis using that [OF Some valid s] by (meson not_less not_le)
qed

lemma SHARED_fields: "set SHARED \<subseteq> set BUDGET_FIELDS"
  by (simp add: SHARED_def BUDGET_FIELDS_def)

text \<open>The shares of an operation's helpers never exceed its budget: each of the shared limits is at least one, the
  share times the number of phases is at most the admitted limit, every other limit is unchanged,
  and the wall share leaves time for the stop grace.\<close>

theorem allocated_limits_bound:
  assumes "allocated_limits original ns = Inr shares" and "PHASES ns = Some ps"
  shows "(\<forall>key \<in> set SHARED. 1 \<le> int_of (fld shares key) \<and>
        int (length ps) * int_of (fld shares key) \<le> int_of (fld original key)) \<and>
     (\<forall>key \<in> set BUDGET_FIELDS - set SHARED. fld shares key = fld original key) \<and>
     int_of (fld shares ''terminate_grace_seconds'') < int_of (fld shares ''wall_seconds'')"
proof -
  from assms(1) obtain ps' where ps': "PHASES ns = Some ps'" and valid: "validate_limits original = Inr ()"
    and shares: "shares = share_limits original (length ps')" and fit: "\<forall>key \<in> set SHARED. 1 \<le> int_of (fld shares key)"
      "int_of (fld shares ''terminate_grace_seconds'') < int_of (fld shares ''wall_seconds'')"
    by (rule allocated_limits_Inr)
  from ps' assms(2) have ps: "ps' = ps" by simp
  have fields: "fld shares k = (if k \<in> set SHARED then Some (JInt (int_of (fld original k) div int (length ps))) else fld original k)" for k
    using validate_limits_fields(1) [OF valid] by (simp add: shares ps fld_share_limits)
  have "int (length ps) * int_of (fld shares key) \<le> int_of (fld original key)" if "key \<in> set SHARED" for key
  proof -
    from that SHARED_fields have "key \<in> set BUDGET_FIELDS" by blast
    then obtain n where "fld original key = Some (JInt n)" "(if key = ''nas_bytes'' then 0 else 1) \<le> n"
      by (rule limit_field [OF valid])
    then show ?thesis using that by (simp add: fields share_times split: if_splits)
  qed
  with fit fields show ?thesis by simp
qed

section \<open>Substages and deadlines\<close>

lemma validate_grant_limits:
  assumes "validate_grant x g = Inr ()"
  shows "grant_shape g" and "\<exists>l. fld g ''limits'' = Some l \<and> validate_limits l = Inr () \<and>
     int_of (fld l ''terminate_grace_seconds'') < int_of (fld l ''wall_seconds'')"
  using assms by (auto simp: validate_grant_def res_simps)

text \<open>Splitting a phase's CPU among its supervision stages conserves it: if one stage of a version gets
  limits, every stage does, each gets at least one second, they add up to exactly the seconds of the phase,
  and no other limit changes.\<close>

theorem substage_cpu_conserved:
  assumes "substage_limits grant stage version = Inr l0"
  shows "\<exists>limits. fld grant ''limits'' = Some limits \<and>
     (\<exists>share. (\<forall>s \<in> set (substages version). \<exists>l. substage_limits grant s version = Inr l \<and>
          fld l ''cpu_seconds'' = Some (JInt (share s)) \<and> 1 \<le> share s \<and>
          (\<forall>k. k \<noteq> ''cpu_seconds'' \<longrightarrow> fld l k = fld limits k)) \<and>
        (\<Sum>s\<leftarrow>substages version. share s) = int_of (fld limits ''cpu_seconds''))"
proof -
  from assms have grant: "validate_grant no_expect grant = Inr ()" and version: "version = 2 \<or> version = 3"
    by (auto simp: substage_limits_def res_simps)
  from validate_grant_limits(2) [OF grant] obtain limits where limits: "fld grant ''limits'' = Some limits"
    and valid: "validate_limits limits = Inr ()" by blast
  let ?n = "int (length (substages version))" and ?cpu = "int_of (fld limits ''cpu_seconds'')"
  let ?share = "\<lambda>s. if s = lit ''helper'' then ?cpu - (?cpu div ?n) * (?n - 1) else ?cpu div ?n"
  have get: "sub grant ''limits'' = Inr limits" using limits by (simp add: sub_Inr_iff)
  from assms limits have prep: "1 \<le> ?cpu div ?n"
    by (auto simp: substage_limits_def res_simps Let_def get not_less split: if_splits)
  have n: "0 < ?n" using version by (auto simp: substages_def)
  have "0 \<le> ?cpu mod ?n" using n by simp
  moreover have "?n * (?cpu div ?n) + ?cpu mod ?n = ?cpu" by (rule mult_div_mod_eq)
  ultimately have "?n * (?cpu div ?n) \<le> ?cpu" by linarith
  then have helper: "1 \<le> ?cpu - (?cpu div ?n) * (?n - 1)" using prep by (simp add: algebra_simps)
  define share where "share = ?share"
  have stage: "substage_limits grant s version = Inr (dset limits (lit ''cpu_seconds'') (JInt (share s)))"
    if "s \<in> set (substages version)" for s
    using that grant version prep get by (auto simp: substage_limits_def Let_def share_def)
  have "1 \<le> share s" for s using prep helper by (simp add: share_def)
  then have "\<forall>s \<in> set (substages version). \<exists>l. substage_limits grant s version = Inr l \<and>
      fld l ''cpu_seconds'' = Some (JInt (share s)) \<and> 1 \<le> share s \<and> (\<forall>k. k \<noteq> ''cpu_seconds'' \<longrightarrow> fld l k = fld limits k)"
    using stage validate_limits_fields(1) [OF valid] by simp
  moreover have "(\<Sum>s\<leftarrow>substages version. share s) = ?cpu"
    using version by (auto simp: substages_def share_def)
  ultimately show ?thesis using limits by blast
qed

text \<open>A phase ends at one fixed instant.  Whenever time remains, it is positive, it does not outlast the phase's
  wall limit or the operation's deadline, and two readings of the clock agree on the instant
  at which it ends: no later reading renews it.\<close>

theorem phase_end_fixed:
  assumes "phase_remaining_ns grant now = Inr rest"
  shows "0 < rest \<and> int_of (fld now ''boottime_ns'') + rest \<le> int_of (fld grant ''deadline_boottime_ns'') \<and>
     (\<exists>limits. fld grant ''limits'' = Some limits \<and> rest \<le> int_of (fld limits ''wall_seconds'') * NANOSECONDS) \<and>
     fld now ''boot_id'' = fld grant ''boot_id'' \<and>
     (\<forall>later rest'. phase_remaining_ns grant later = Inr rest' \<longrightarrow>
        int_of (fld later ''boottime_ns'') + rest' = int_of (fld now ''boottime_ns'') + rest)"
  using assms
  by (auto simp: phase_remaining_ns_def phase_deadline_ns_def remaining_ns_def Let_def res_simps split: if_splits)

section \<open>Reservations\<close>

lemma reserve_Inr:
  assumes "reserve r phase now = Inr (state, grant)"
  obtains phases original limits previous grants where
    "PHASES (namespace r) = Some phases" "phase \<in> set phases" "fld (plan r) ''budgets'' = Some original"
    "allocated_limits original (namespace r) = Inr limits" "validate_clock now = Inr ()"
    "previous_state r original phase phases now = Inr previous" "validate_state r previous = Inr ()"
    "fld previous ''boot_id'' = fld now ''boot_id''"
    "int_of (fld previous ''last_boottime_ns'') \<le> int_of (fld now ''boottime_ns'')"
    "fld previous ''grants'' = Some grants" "dget grants phase = None" "grant = new_grant r previous phase limits now"
    "int_of (fld limits ''terminate_grace_seconds'') * NANOSECONDS <
       int_of (fld previous ''deadline_boottime_ns'') - int_of (fld now ''boottime_ns'')"
    "validate_grant (no_expect\<lparr>x_original := Some original\<rparr>) grant = Inr ()"
    "\<not> over_budget (dset grants phase grant) original"
    "state = dupdate previous [(lit ''grants'', dset grants phase grant),
       (lit ''last_boottime_ns'', JInt (int_of (fld now ''boottime_ns'')))]"
proof (cases "PHASES (namespace r)")
  case None
  with assms show ?thesis by (simp add: reserve_def)
next
  case (Some phases)
  show ?thesis
  proof (cases "phase \<in> set phases")
    case False
    with Some assms show ?thesis by (simp add: reserve_def)
  next
    case True
    show ?thesis
      using assms True unfolding reserve_def Let_def Some option.case
      by (simp only: not_not if_True if_False simp_thms bindE_Inr_iff thenE_Inr_iff raise_if_Inr_iff sub_Inr_iff
          sum.inject prod.inject de_Morgan_disj not_less not_le)
        (elim exE conjE, rule that [OF Some True], assumption+, simp_all only: simp_thms)
  qed
qed

lemma validate_state_Inr:
  assumes "validate_state r state = Inr ()"
  obtains original phases grants handles where
    "fld (plan r) ''budgets'' = Some original" "validate_limits original = Inr ()" "PHASES (namespace r) = Some phases"
    "state_shape r original state phases" "is_dict (get_or (rec r) ''handles'' (JObj []))"
    "fld state ''grants'' = Some grants" "prepared_handles (rec r) grants (get_or (rec r) ''handles'' (JObj [])) = Inr handles"
    "set (jkeys grants) = set (jkeys handles)"
    "\<forall>entry \<in> set (items grants). stored_grant_ok r original state handles entry = Inr ()"
    "\<not> over_budget grants original"
  using assms unfolding validate_state_def Let_def
  by (simp only: not_not simp_thms bindE_Inr_iff thenE_Inr_iff raise_if_Inr_iff sub_Inr_iff key_or_raise_Inr_iff
      forE_Inr_iff) (elim exE conjE, blast)

lemma validate_stateI:
  assumes "fld (plan r) ''budgets'' = Some original" "validate_limits original = Inr ()" "PHASES (namespace r) = Some phases"
    "state_shape r original state phases" "is_dict (get_or (rec r) ''handles'' (JObj []))"
    "fld state ''grants'' = Some grants" "prepared_handles (rec r) grants (get_or (rec r) ''handles'' (JObj [])) = Inr handles"
    "set (jkeys grants) = set (jkeys handles)"
    "\<forall>entry \<in> set (items grants). stored_grant_ok r original state handles entry = Inr ()"
    "\<not> over_budget grants original"
  shows "validate_state r state = Inr ()"
  using assms unfolding validate_state_def Let_def
  by (simp only: not_not simp_thms bindE_Inr_iff thenE_Inr_iff raise_if_Inr_iff sub_Inr_iff key_or_raise_Inr_iff
      forE_Inr_iff) blast

lemma jkeys_dset: "is_dict v \<Longrightarrow> set (jkeys (dset v k x)) = insert k (set (jkeys v))"
  by (auto simp: in_jkeys_iff split: if_splits)

lemma has_keys_dset:
  "is_dict v \<Longrightarrow> has_keys v names \<Longrightarrow> k \<in> set names \<Longrightarrow> has_keys (dset v (lit k) x) names"
  by (auto simp: has_keys_def jkeys_dset)

lemma items_dset_new: "dget v k = None \<Longrightarrow> is_dict v \<Longrightarrow> items (dset v k x) = items v @ [(k, x)]"
  by (cases v) (auto simp: items_def dset_def map_of_eq_None_iff intro!: update_new)

lemma prepared_handles_none:
  "\<not> truthy (get_or record ''quota_preparations'' (JObj [])) \<Longrightarrow> prepared_handles record grants handles = Inr handles"
  by (simp add: prepared_handles_def)

text \<open>A grant valid for the budget is valid for a caller that expects the fields it has.\<close>

lemma validate_grant_expected:
  assumes "validate_grant (no_expect\<lparr>x_original := Some original\<rparr>) g = Inr ()"
    and "fld g ''phase'' = Some (JStr p)" "fld g ''namespace'' = Some (JStr ns)" "fld g ''record_id'' = Some (JStr i)"
      "fld g ''operation_id'' = Some (JStr par)"
  shows "validate_grant \<lparr>x_execution_id = None, x_phase = Some p, x_budgets = None, x_namespace = Some ns,
     x_record_id = Some i, x_operation_id = Some par, x_original = Some original\<rparr> g = Inr ()"
  using assms unfolding validate_grant_def no_expect_def
  by (simp only: expected_field_def expect.simps option.case bindE_Inr_iff thenE_Inr_iff raise_if_Inr_iff not_not simp_thms)

lemma state_shape_rec: "state_shape (r\<lparr>rec := rc\<rparr>) original state phases = state_shape r original state phases"
  by (cases r) (simp only: state_shape_def row.select_convs row.update_convs)

lemma state_shape_advance:
  assumes shape: "state_shape r original previous phases"
    and grants: "set (jkeys grants') \<subseteq> set phases" "is_dict grants'"
    and t: "int_of (fld previous ''last_boottime_ns'') \<le> t" "t < int_of (fld previous ''deadline_boottime_ns'')"
  shows "state_shape r original (dupdate previous [(lit ''grants'', grants'), (lit ''last_boottime_ns'', JInt t)]) phases"
proof -
  have d: "is_dict previous" and keys: "has_keys previous STATE_KEYS" using shape by (simp_all add: state_shape_def)
  have "has_keys (dset (dset previous (lit ''grants'') grants') (lit ''last_boottime_ns'') (JInt t)) STATE_KEYS"
    using d keys by (intro has_keys_dset) (simp_all add: STATE_KEYS_def)
  moreover obtain gs where gs: "grants' = JObj gs" using grants(2) by (auto simp: is_dict_iff)
  then have "set (map fst gs) \<subseteq> set phases" using grants(1) by (simp add: jkeys_def)
  moreover have "0 \<le> t"
    using shape t(1) by (auto simp: state_shape_def is_int_field_def int_of_def split: option.splits json.splits)
  ultimately show ?thesis
    using shape t d by (simp add: state_shape_def is_int_field_def is_str_field_def gs)
qed

lemma new_grant_fields:
  fixes phase :: pystr and limits now :: json
  assumes "state_shape r original previous phases"
  defines "g \<equiv> new_grant r previous phase limits now"
  shows "fld g ''phase'' = Some (JStr phase)" "fld g ''namespace'' = Some (JStr (namespace r))"
    "fld g ''record_id'' = Some (JStr (identity r))" "fld g ''operation_id'' = Some (JStr (parent r))"
    "fld g ''reserved_boottime_ns'' = Some (JInt (int_of (fld now ''boottime_ns'')))"
    "\<forall>key \<in> {''boot_id'', ''started_boottime_ns'', ''deadline_boottime_ns''}. fld g key = fld previous key"
proof -
  have "\<exists>x. fld previous k = Some x" if "k \<in> set STATE_KEYS" for k
    using assms(1) that has_keys_get by (auto simp: state_shape_def)
  then have "get_or previous k JNull = the (fld previous k) \<and> fld previous k \<noteq> None" if "k \<in> set STATE_KEYS" for k
    using that by (fastforce simp: get_or_def)
  then show "\<forall>key \<in> {''boot_id'', ''started_boottime_ns'', ''deadline_boottime_ns''}. fld g key = fld previous key"
    by (auto simp: g_def new_grant_def STATE_KEYS_def)
qed (use assms(1) in \<open>simp_all add: g_def new_grant_def state_shape_def get_or_def\<close>)

lemma stored_grant_ok_iff:
  "stored_grant_ok r original state handles (phase, old) = Inr () \<longleftrightarrow>
     validate_grant \<lparr>x_execution_id = None, x_phase = Some phase, x_budgets = None, x_namespace = Some (namespace r),
       x_record_id = Some (identity r), x_operation_id = Some (parent r), x_original = Some original\<rparr> old = Inr () \<and>
     fld old ''boot_id'' = fld state ''boot_id'' \<and> fld old ''started_boottime_ns'' = fld state ''started_boottime_ns'' \<and>
     fld old ''deadline_boottime_ns'' = fld state ''deadline_boottime_ns'' \<and>
     int_of (fld old ''reserved_boottime_ns'') \<le> int_of (fld state ''last_boottime_ns'') \<and>
     (\<exists>handle. dget handles phase = Some handle \<and> is_dict handle \<and> fld handle ''execution_id'' = fld old ''execution_id'')"
proof (cases "dget handles phase")
  case None
  then show ?thesis by (simp add: stored_grant_ok_def res_simps)
next
  case (Some handle)
  show ?thesis
    by (simp only: stored_grant_ok_def prod.case thenE_Inr_iff raise_if_Inr_iff not_not Some option.case option.inject) blast
qed

text \<open>The state after a reservation is valid for the row that records it together with the new handle.\<close>

lemma reserve_valid:
  assumes res: "reserve r phase now = Inr (state, grant)"
    and handle: "is_dict handle" "fld handle ''execution_id'' = fld grant ''execution_id''"
    and rc: "fld rc ''handles'' = Some (dset (get_or (rec r) ''handles'' (JObj [])) phase handle)"
    and quiet: "\<not> truthy (get_or (rec r) ''quota_preparations'' (JObj []))" "\<not> truthy (get_or rc ''quota_preparations'' (JObj []))"
  shows "validate_state (r\<lparr>rec := rc\<rparr>) state = Inr ()"
proof -
  from res obtain phases original limits previous grants where
    ph: "PHASES (namespace r) = Some phases" "phase \<in> set phases" and original: "fld (plan r) ''budgets'' = Some original"
    and alloc: "allocated_limits original (namespace r) = Inr limits" and valid: "validate_state r previous = Inr ()"
    and last: "int_of (fld previous ''last_boottime_ns'') \<le> int_of (fld now ''boottime_ns'')"
    and g: "fld previous ''grants'' = Some grants" "dget grants phase = None" and grant: "grant = new_grant r previous phase limits now"
    and time: "int_of (fld limits ''terminate_grace_seconds'') * NANOSECONDS <
       int_of (fld previous ''deadline_boottime_ns'') - int_of (fld now ''boottime_ns'')"
    and vg: "validate_grant (no_expect\<lparr>x_original := Some original\<rparr>) grant = Inr ()"
    and fits: "\<not> over_budget (dset grants phase grant) original"
    and state: "state = dupdate previous [(lit ''grants'', dset grants phase grant),
       (lit ''last_boottime_ns'', JInt (int_of (fld now ''boottime_ns'')))]"
    by (rule reserve_Inr)
  let ?r = "r\<lparr>rec := rc\<rparr>" and ?handles = "get_or (rec r) ''handles'' (JObj [])" and ?now = "int_of (fld now ''boottime_ns'')"
  from valid obtain original' phases' grants' handles where "fld (plan r) ''budgets'' = Some original'"
    and vl: "validate_limits original' = Inr ()" and "PHASES (namespace r) = Some phases'"
    and shape: "state_shape r original' previous phases'" and hd: "is_dict ?handles" and "fld previous ''grants'' = Some grants'"
    and "prepared_handles (rec r) grants' ?handles = Inr handles" and keys: "set (jkeys grants') = set (jkeys handles)"
    and old: "\<forall>entry \<in> set (items grants'). stored_grant_ok r original' previous handles entry = Inr ()"
    by (rule validate_state_Inr)
  with ph original g quiet have same: "original' = original" "phases' = phases" "grants' = grants" "handles = ?handles"
    by (simp_all add: prepared_handles_none)
  note shape = shape [unfolded same] and old = old [unfolded same] and keys = keys [unfolded same]
  have grants: "is_dict grants" "set (jkeys grants) \<subseteq> set phases"
    using shape g(1) by (auto simp: state_shape_def jkeys_def split: option.splits json.splits)
  have "0 \<le> int_of (fld limits ''terminate_grace_seconds'')"
  proof -
    from alloc obtain ps :: "pystr list" where "limits = share_limits original (length ps)"
      by (rule allocated_limits_Inr)
    moreover obtain n where "fld original ''terminate_grace_seconds'' = Some (JInt n)" "1 \<le> n"
      using limit_field [OF vl [unfolded same], of "''terminate_grace_seconds''"] by (auto simp: BUDGET_FIELDS_def)
    ultimately show ?thesis
      using validate_limits_fields(1) [OF vl [unfolded same]] by (simp add: fld_share_limits SHARED_def)
  qed
  then have now: "?now < int_of (fld previous ''deadline_boottime_ns'')"
    using time by (smt (verit) NANOSECONDS_def mult_nonneg_nonneg)
  have "state_shape r original state phases"
    unfolding state by (rule state_shape_advance [OF shape _ _ last now]) (use grants ph(2) in \<open>simp_all add: jkeys_dset\<close>)
  then have "state_shape ?r original state phases" by (simp only: state_shape_rec)
  moreover note f = new_grant_fields [OF shape, of phase limits now, folded grant]
  have sf: "fld state k = fld previous k" if "k \<noteq> ''grants''" "k \<noteq> ''last_boottime_ns''" for k
    using that shape by (simp add: state state_shape_def)
  have sl: "fld state ''last_boottime_ns'' = Some (JInt ?now)" "fld state ''grants'' = Some (dset grants phase grant)"
    using shape by (simp_all add: state state_shape_def)
  have "stored_grant_ok ?r original state (dset ?handles phase handle) entry = Inr ()"
    if entry: "entry \<in> set (items (dset grants phase grant))" for entry
  proof (cases "entry = (phase, grant)")
    case True
    then show ?thesis
      using validate_grant_expected [OF vg f(1-4)] f(5,6) sf sl handle hd
      by (simp add: stored_grant_ok_iff)
  next
    case False
    with entry have entry: "entry \<in> set (items grants)" by (simp add: items_dset_new [OF g(2) grants(1)])
    obtain p o' where po: "entry = (p, o')" by (cases entry)
    with entry g(2) grants(1) have "p \<noteq> phase"
      by (cases grants) (auto simp: items_def map_of_eq_None_iff rev_image_eqI)
    moreover from old entry po have "stored_grant_ok r original previous ?handles (p, o') = Inr ()" by blast
    ultimately show ?thesis
      unfolding po stored_grant_ok_iff using sf sl(1) hd last by simp
  qed
  ultimately show ?thesis
    using original vl [unfolded same] ph(1) sl(2) fits rc hd keys quiet(2)
    by (intro validate_stateI [of _ original phases _ "dset grants phase grant" "dset ?handles phase handle"])
      (simp_all add: get_or_def [of rc "''handles''"] prepared_handles_none jkeys_dset grants(1))
qed

text \<open>C12. A reservation is durable and final.  Once the row records the state that \<open>reserve\<close> returned together with a
  handle for the new execution, \<open>stored_grant\<close> finds exactly the grant returned, still finds every
  earlier grant, no later call reserves the phase again, whatever the clock says, and the
  grants together stay within the admitted budget in each shared limit.\<close>

theorem reserve_then_stored:
  assumes res: "reserve r phase now = Inr (state, grant)"
    and handle: "is_dict handle" "fld handle ''execution_id'' = fld grant ''execution_id''"
    and rc: "fld rc ''handles'' = Some (dset (get_or (rec r) ''handles'' (JObj [])) phase handle)"
      "fld rc ''execution_budget'' = Some state"
    and quiet: "\<not> truthy (get_or (rec r) ''quota_preparations'' (JObj []))" "\<not> truthy (get_or rc ''quota_preparations'' (JObj []))"
  shows "stored_grant (r\<lparr>rec := rc\<rparr>) phase = Inr grant \<and>
     (\<forall>p g. stored_grant r p = Inr g \<longrightarrow> stored_grant (r\<lparr>rec := rc\<rparr>) p = Inr g) \<and>
     (\<forall>now' result. reserve (r\<lparr>rec := rc\<rparr>) phase now' \<noteq> Inr result) \<and>
     (\<exists>original grants. fld (plan r) ''budgets'' = Some original \<and> fld state ''grants'' = Some grants \<and>
        (\<forall>key \<in> set SHARED. granted grants key \<le> int_of (fld original key)))"
proof -
  from res obtain phases original previous grants where original: "fld (plan r) ''budgets'' = Some original"
    and prev: "previous_state r original phase phases now = Inr previous" and valid: "validate_state r previous = Inr ()"
    and g: "fld previous ''grants'' = Some grants" "dget grants phase = None"
    and fits: "\<not> over_budget (dset grants phase grant) original"
    and state: "state = dupdate previous [(lit ''grants'', dset grants phase grant),
       (lit ''last_boottime_ns'', JInt (int_of (fld now ''boottime_ns'')))]"
    by (rule reserve_Inr)
  have now_valid: "validate_state (r\<lparr>rec := rc\<rparr>) state = Inr ()" by (rule reserve_valid [OF res handle rc(1) quiet])
  have "is_dict previous" using g(1) by (cases previous) (auto simp: dget_def)
  then have sg: "fld state ''grants'' = Some (dset grants phase grant)" and nn: "is_dict state" by (simp_all add: state)
  have gd: "is_dict grants"
    using valid by (rule validate_state_Inr) (use g(1) in \<open>auto simp: state_shape_def split: json.splits\<close>)
  have stored: "stored_grant (r\<lparr>rec := rc\<rparr>) p = Inr x" if "dget (dset grants phase grant) p = Some x" for p x
    using that now_valid rc(2) sg by (simp add: stored_grant_def get_or_def sub_Inr_iff [THEN iffD2])
  have keep: "stored_grant (r\<lparr>rec := rc\<rparr>) p = Inr x" if "stored_grant r p = Inr x" for p x
  proof -
    let ?eb = "get_or (rec r) ''execution_budget'' JNull"
    from that obtain gs where gs: "fld ?eb ''grants'' = Some gs" "dget gs p = Some x"
      by (auto simp: stored_grant_def Let_def res_simps split: option.splits)
    then have "?eb \<noteq> JNull" by (auto simp: dget_def)
    with prev have "previous = ?eb" by (simp add: previous_state_def Let_def)
    with gs g have "dget grants p = Some x" and "p \<noteq> phase" by auto
    with gd show ?thesis by (intro stored) simp
  qed
  have again: "reserve (r\<lparr>rec := rc\<rparr>) phase now' \<noteq> Inr result" for now' result
  proof
    assume "reserve (r\<lparr>rec := rc\<rparr>) phase now' = Inr result"
    then obtain phases' original' previous' grants' where
      p: "previous_state (r\<lparr>rec := rc\<rparr>) original' phase phases' now' = Inr previous'"
      and g': "fld previous' ''grants'' = Some grants'" "dget grants' phase = None"
      by (cases result) (auto elim: reserve_Inr)
    from nn have "state \<noteq> JNull" by auto
    with p rc(2) have "previous' = state" by (simp add: previous_state_def Let_def get_or_def)
    with g' sg have "dget (dset grants phase grant) phase = None" by simp
    with gd show False by simp
  qed
  show ?thesis
    using stored [of phase grant] gd keep again original sg fits by (simp add: over_budget_def not_less)
qed

section \<open>A concrete operation\<close>

definition example_budgets :: json where
  "example_budgets = obj [(''wall_seconds'', JInt 300), (''terminate_grace_seconds'', JInt 5), (''cpu_seconds'', JInt 90),
     (''memory_bytes'', JInt 1024), (''processes'', JInt 4), (''temporary_bytes'', JInt 1024), (''nas_bytes'', JInt 0),
     (''log_bytes'', JInt 3000), (''reservation_bytes'', JInt 20000)]"

definition example_shares :: json where
  "example_shares = obj [(''wall_seconds'', JInt 100), (''terminate_grace_seconds'', JInt 5), (''cpu_seconds'', JInt 30),
     (''memory_bytes'', JInt 1024), (''processes'', JInt 4), (''temporary_bytes'', JInt 1024), (''nas_bytes'', JInt 0),
     (''log_bytes'', JInt 1000), (''reservation_bytes'', JInt 20000)]"

definition example_boot :: pystr where
  "example_boot = lit ''00000000-0000-0000-0000-000000000001''"

definition example_clock :: "int \<Rightarrow> json" where
  "example_clock t = obj [(''boot_id'', JStr example_boot), (''boottime_ns'', JInt t)]"

definition example_grant :: json where
  "example_grant = obj [(''version'', JInt 1), (''namespace'', jlit ''job''), (''record_id'', jlit ''1''), (''operation_id'', jlit ''1''),
     (''budget_digest'', zero_digest), (''boot_id'', JStr example_boot), (''started_boottime_ns'', JInt 1000),
     (''deadline_boottime_ns'', JInt 300000001000), (''execution_id'', jlit ''job-1-preflight''), (''phase'', jlit ''preflight''),
     (''reserved_boottime_ns'', JInt 1000), (''limits'', example_shares)]"

definition example_row :: row where
  "example_row = \<lparr>namespace = lit ''job'', identity = lit ''1'', parent = lit ''1'', principal_of = lit ''p'', digest = [],
     reserved_bytes = 1, request = JObj [], plan = obj [(''budgets'', example_budgets)],
     rec = obj [(''phase'', jlit ''QUEUED''), (''lifecycle'', jlit ''ACCEPTED''), (''handles'', JObj []),
       (''business_started'', JBool False), (''helper_started'', JBool False)]\<rparr>"

lemma example_limits: "validate_limits example_budgets = Inr ()" "validate_limits example_shares = Inr ()"
  by (simp_all add: validate_limits_def BUDGET_FIELDS_def example_budgets_def example_shares_def items_def obj_def
      has_keys_def jkeys_def limit_ok_def MAX_SAFE_INTEGER_def)

lemma example_allocated: "allocated_limits example_budgets (lit ''job'') = Inr example_shares"
  using example_limits(1)
  by (simp add: allocated_limits_def PHASES_def share_limits_def SHARED_def)
    (simp add: example_budgets_def example_shares_def obj_def dset_def)

lemma example_boot_uuid: "UUID_PATTERN example_boot"
  by code_simp

lemma example_execution_name: "execution_name (lit ''job'') (lit ''1'') (lit ''preflight'') = lit ''job-1-preflight''"
  by code_simp

lemma example_grant_fields:
  "fld example_grant ''limits'' = Some example_shares" "fld example_grant ''boot_id'' = Some (JStr example_boot)"
  "fld example_grant ''reserved_boottime_ns'' = Some (JInt 1000)" "fld example_grant ''deadline_boottime_ns'' = Some (JInt 300000001000)"
  by (simp_all add: example_grant_def)

lemma example_grant_shape: "grant_shape example_grant"
proof -
  have "has_keys example_grant GRANT_KEYS"
    unfolding example_grant_def has_keys_obj GRANT_KEYS_def by (simp add: insert_commute)
  then show ?thesis
    using example_boot_uuid
    by (simp add: grant_shape_def is_str_field_def is_int_field_def)
      (simp add: example_grant_def PHASES_def str_of_def example_execution_name is_str_field_def zero_digest_def DIGEST_PATTERN_def
        is_hex_digit_def)
qed

lemma example_grant_valid: "validate_grant no_expect example_grant = Inr ()"
proof -
  have "sub example_grant ''limits'' = Inr example_shares" by (simp add: sub_Inr_iff example_grant_fields)
  then show ?thesis
    using example_grant_shape example_limits(2)
    by (simp add: validate_grant_def no_expect_def expected_field_def) (simp add: example_shares_def)
qed

lemma example_clock_valid: "validate_clock (example_clock 2000) = Inr ()"
  using example_boot_uuid by (simp add: validate_clock_def example_clock_def is_str_field_def is_int_field_def)

theorem allocated_limits_bound_witness:
  "3 * int_of (fld example_shares ''cpu_seconds'') \<le> int_of (fld example_budgets ''cpu_seconds'')"
  using allocated_limits_bound [OF example_allocated, of "[lit ''preflight'', lit ''business'', lit ''evidence'']"]
  by (simp add: PHASES_def SHARED_def)

theorem phase_end_fixed_witness:
  "\<exists>rest. phase_remaining_ns example_grant (example_clock 2000) = Inr rest \<and> 2000 + rest \<le> 300000001000"
proof -
  have "sub example_grant ''limits'' = Inr example_shares" by (simp add: sub_Inr_iff example_grant_fields)
  then obtain rest where rest: "phase_remaining_ns example_grant (example_clock 2000) = Inr rest"
    using example_grant_valid example_clock_valid
    by (simp add: phase_remaining_ns_def remaining_ns_def phase_deadline_ns_def example_grant_fields)
      (simp add: example_clock_def example_shares_def NANOSECONDS_def)
  from phase_end_fixed [OF rest] have "2000 + rest \<le> 300000001000"
    by (simp add: example_clock_def example_grant_fields)
  with rest show ?thesis by blast
qed

theorem substage_cpu_conserved_witness:
  "\<exists>share. (\<Sum>s\<leftarrow>substages 3. share s) = int_of (fld example_shares ''cpu_seconds'')"
proof -
  have "sub example_grant ''limits'' = Inr example_shares" by (simp add: sub_Inr_iff example_grant_fields)
  then have "\<exists>l. substage_limits example_grant (lit ''helper'') 3 = Inr l"
    using example_grant_valid by (simp add: substage_limits_def substages_def) (simp add: example_shares_def)
  then obtain l where "substage_limits example_grant (lit ''helper'') 3 = Inr l" by blast
  from substage_cpu_conserved [OF this] show ?thesis by (auto simp: example_grant_fields)
qed

lemma example_row_fields:
  "namespace example_row = lit ''job''" "identity example_row = lit ''1''" "parent example_row = lit ''1''"
  "fld (plan example_row) ''budgets'' = Some example_budgets" "get_or (rec example_row) ''handles'' (JObj []) = JObj []"
  "fld (rec example_row) ''phase'' = Some (jlit ''QUEUED'')" "untouched (rec example_row)"
  "get_or (rec example_row) ''execution_budget'' JNull = JNull" "get_or (rec example_row) ''quota_preparations'' (JObj []) = JObj []"
  by (simp_all add: example_row_def untouched_def get_or_def opt_eq_def)

lemma example_reserve: "\<exists>state grant. reserve example_row (lit ''preflight'') (example_clock 2000) = Inr (state, grant)"
proof -
  let ?phases = "[lit ''preflight'', lit ''business'', lit ''evidence'']"
  let ?first = "first_state example_row example_budgets (example_clock 2000)"
  let ?grant = "new_grant example_row ?first (lit ''preflight'') example_shares (example_clock 2000)"
  have phases: "PHASES (lit ''job'') = Some ?phases" by (simp add: PHASES_def)
  have clock: "fld (example_clock 2000) ''boot_id'' = Some (JStr example_boot)" "fld (example_clock 2000) ''boottime_ns'' = Some (JInt 2000)"
    by (simp_all add: example_clock_def)
  have wall: "fld example_budgets ''wall_seconds'' = Some (JInt 300)" "fld example_budgets ''cpu_seconds'' = Some (JInt 90)"
    "fld example_budgets ''log_bytes'' = Some (JInt 3000)" by (simp_all add: example_budgets_def)
  have shape: "state_shape example_row example_budgets ?first ?phases"
    using example_boot_uuid
    by (simp add: state_shape_def first_state_def STATE_KEYS_def is_int_field_def is_str_field_def str_of_def clock wall
        NANOSECONDS_def)
  have first: "validate_state example_row ?first = Inr ()"
  proof (rule validate_stateI [OF _ example_limits(1) _ shape, of "JObj []" "JObj []"])
    show "\<not> over_budget (JObj []) example_budgets"
      by (simp add: over_budget_def granted_def items_def SHARED_def wall)
  qed (simp_all add: example_row_fields phases prepared_handles_none items_def first_state_def)
  note f = new_grant_fields [OF shape, of "lit ''preflight''" example_shares "example_clock 2000"]
  have "has_keys ?grant GRANT_KEYS"
    unfolding new_grant_def has_keys_obj GRANT_KEYS_def by (simp add: insert_commute)
  then have gshape: "grant_shape ?grant"
    using example_boot_uuid
    by (simp add: grant_shape_def is_str_field_def is_int_field_def)
      (simp add: new_grant_def first_state_def get_or_def PHASES_def str_of_def example_execution_name is_str_field_def clock wall
        example_row_fields NANOSECONDS_def budget_digest_def DIGEST_PATTERN_def sha256_hex_digits)
  have limits: "sub ?grant ''limits'' = Inr example_shares" by (simp add: sub_Inr_iff new_grant_def)
  have ns: "fld ?grant ''namespace'' = Some (jlit ''job'')" "fld ?grant ''budget_digest'' = Some (JStr (budget_digest example_budgets))"
    "fld ?grant ''started_boottime_ns'' = Some (JInt 2000)" "fld ?grant ''deadline_boottime_ns'' = Some (JInt 300000002000)"
    by (simp_all add: new_grant_def first_state_def get_or_def example_row_fields clock wall NANOSECONDS_def)
  have valid: "validate_grant (no_expect\<lparr>x_original := Some example_budgets\<rparr>) ?grant = Inr ()"
    using gshape limits example_limits example_allocated
    by (simp add: validate_grant_def no_expect_def expected_field_def ns str_of_def wall NANOSECONDS_def)
      (simp add: example_shares_def)
  have "\<not> over_budget (dset (JObj []) (lit ''preflight'') ?grant) example_budgets"
    by (simp add: over_budget_def granted_def items_def dset_def SHARED_def wall new_grant_def)
      (simp add: example_shares_def)
  moreover have "fld ?first ''boot_id'' = Some (JStr example_boot)" "fld ?first ''last_boottime_ns'' = Some (JInt 2000)"
    "fld ?first ''deadline_boottime_ns'' = Some (JInt 300000002000)" "sub ?first ''grants'' = Inr (JObj [])"
    by (simp_all add: first_state_def clock wall NANOSECONDS_def str_of_def)
  moreover have "fld example_shares ''terminate_grace_seconds'' = Some (JInt 5)" by (simp add: example_shares_def)
  moreover have "sub (plan example_row) ''budgets'' = Inr example_budgets" "sub (rec example_row) ''phase'' = Inr (jlit ''QUEUED'')"
    by (simp_all add: sub_Inr_iff example_row_fields)
  ultimately show ?thesis
    using first example_clock_valid valid example_allocated
    by (simp add: reserve_def phases example_row_fields previous_state_def expected_phase_def items_def clock NANOSECONDS_def Let_def)
qed

theorem reserve_then_stored_witness:
  "\<exists>rc grant. stored_grant (example_row\<lparr>rec := rc\<rparr>) (lit ''preflight'') = Inr grant \<and>
     (\<forall>now' result. reserve (example_row\<lparr>rec := rc\<rparr>) (lit ''preflight'') now' \<noteq> Inr result)"
proof -
  obtain state grant where res: "reserve example_row (lit ''preflight'') (example_clock 2000) = Inr (state, grant)"
    using example_reserve by blast
  define handle where "handle = obj [(''execution_id'', the (fld grant ''execution_id''))]"
  define rc where "rc = obj [(''handles'', dset (JObj []) (lit ''preflight'') handle), (''execution_budget'', state)]"
  have "fld grant ''execution_id'' \<noteq> None"
    using res by (rule reserve_Inr) (simp add: new_grant_def)
  then have "fld handle ''execution_id'' = fld grant ''execution_id''" by (auto simp: handle_def)
  moreover have "is_dict handle" by (simp add: handle_def)
  moreover have "fld rc ''handles'' = Some (dset (get_or (rec example_row) ''handles'' (JObj [])) (lit ''preflight'') handle)"
    "fld rc ''execution_budget'' = Some state" "\<not> truthy (get_or rc ''quota_preparations'' (JObj []))"
    by (simp_all add: rc_def example_row_fields get_or_def [of "obj _"])
  moreover have "\<not> truthy (get_or (rec example_row) ''quota_preparations'' (JObj []))" by (simp add: example_row_fields)
  ultimately show ?thesis
    using reserve_then_stored [OF res, of handle rc] by blast
qed

end
