(* ===== verification/QuotaContract.thy ===== *)
theory QuotaContract
  imports Budget
begin

text \<open>
  The wire facts of a quota observation, \<open>tools/local_hand_jobs/quota_contract.py\<close>: the bounded
  decoder, the request, the declared and the reported roots, the order of the kernel calls, and the
  receipt that binds a report to its request.  Every refusal is a \<open>QuotaError\<close> with a fixed code.
\<close>

section \<open>Constants and checks\<close>

definition REQUEST_LIMIT :: nat where "REQUEST_LIMIT = 8192"
definition RESPONSE_LIMIT :: nat where "RESPONSE_LIMIT = 32768"
definition MAX_INTEGER :: int where "MAX_INTEGER = 2 ^ 63 - 1"

definition ROOT_ROLES :: "pystr list" where
  "ROOT_ROLES = [lit ''work'', lit ''evidence'', lit ''temporary'', lit ''retained_store'']"

definition CALL_OPERATIONS :: "pystr list" where
  "CALL_OPERATIONS = [lit ''STATE_BEFORE'', lit ''GET_QUOTA'', lit ''STATE_AFTER'']"

definition EXIT_FLAGS :: "string list" where
  "EXIT_FLAGS = [''delivery_settled'', ''future_start_blocked'', ''job_empty'', ''unit_terminal'', ''tree_empty'',
     ''collectors_stopped'', ''stdout_eof'', ''stderr_eof'']"

definition REQUEST_KEYS :: "string list" where
  "REQUEST_KEYS = [''schema'', ''operation'', ''request_id'', ''authority_digest'', ''installation_digest'', ''manifest_digest'',
     ''epoch'', ''generation'', ''boot_id'', ''slot_ref'', ''execution_id'', ''phase'', ''allocation_digest'',
     ''observation_grant_digest'', ''deadline_ns'']"

definition ROOT_FLAGS :: "string list" where
  "ROOT_FLAGS = [''accounting'', ''enforcement'', ''identity_unchanged'']"

definition ROOT_KEYS :: "string list" where
  "ROOT_KEYS = [''role'', ''device'', ''inode'', ''uid'', ''gid'', ''mode'', ''filesystem'', ''filesystem_uuid'', ''project_id'',
     ''xflags'', ''hard_bytes''] @ ROOT_FLAGS"

definition RECEIPT_KEYS :: "string list" where
  "RECEIPT_KEYS = [''schema'', ''request_digest'', ''status'', ''reason'', ''deadline_ns'', ''started_ns'', ''finished_ns'',
     ''query'', ''roots'', ''calls'', ''exit'']"

definition QUOTA_PHASES :: "pystr \<Rightarrow> pystr list option" where
  "QUOTA_PHASES ns = (if ns = lit ''job'' then Some [lit ''preflight'', lit ''business'', lit ''evidence'']
     else if ns = lit ''reconcile'' then Some [lit ''reconcile'', lit ''evidence''] else None)"

definition require :: "bool \<Rightarrow> string \<Rightarrow> unit res" where
  "require condition code = raise_if (\<not> condition) (QuotaError code)"

text \<open>\<open>integer(value, low, high)\<close> and \<open>match(value, pattern)\<close>, which return what they checked.\<close>

definition integer :: "json \<Rightarrow> int \<Rightarrow> int \<Rightarrow> int res" where
  "integer v low high = (case v of
     JInt n \<Rightarrow> thenE (require (low \<le> n \<and> n \<le> high) ''INTEGER'') (Inr n)
   | _ \<Rightarrow> Inl (QuotaError ''INTEGER''))"

definition match_str :: "json \<Rightarrow> (pystr \<Rightarrow> bool) \<Rightarrow> pystr res" where
  "match_str v pattern = (case v of
     JStr s \<Rightarrow> thenE (require (pattern s) ''IDENTITY'') (Inr s)
   | _ \<Rightarrow> Inl (QuotaError ''IDENTITY''))"

definition keys_are :: "json \<Rightarrow> string list \<Rightarrow> unit res" where
  "keys_are v keys = require (is_dict v \<and> has_keys v keys) ''FIELDS''"

text \<open>A field of a dictionary whose keys have been checked.\<close>

abbreviation field :: "json \<Rightarrow> string \<Rightarrow> json" where
  "field v k \<equiv> get_or v k JNull"

definition hexes :: "nat \<Rightarrow> pystr \<Rightarrow> bool" where
  "hexes n s = (length s = n \<and> (\<forall>c \<in> set s. is_hex_digit c))"

definition execution_char :: "nat \<Rightarrow> bool" where
  "execution_char c = (48 \<le> c \<and> c \<le> 57 \<or> 65 \<le> c \<and> c \<le> 90 \<or> 97 \<le> c \<and> c \<le> 122 \<or> c \<in> {58, 95, 46, 45})"

definition execution_pattern :: "pystr \<Rightarrow> bool" where
  "execution_pattern s = (1 \<le> length s \<and> length s \<le> 200 \<and> (\<forall>c \<in> set s. execution_char c))"

definition reason_pattern :: "pystr \<Rightarrow> bool" where
  "reason_pattern s = (case s of [] \<Rightarrow> False | c # cs \<Rightarrow> 65 \<le> c \<and> c \<le> 90 \<and> length cs \<le> 63 \<and>
     (\<forall>d \<in> set cs. 65 \<le> d \<and> d \<le> 90 \<or> 48 \<le> d \<and> d \<le> 57 \<or> d = 95))"

section \<open>The bounded decoder\<close>

fun quota_onto :: "dict \<Rightarrow> dict \<Rightarrow> dict res" where
  "quota_onto result [] = Inr result"
| "quota_onto result ((key, v) # rest) =
     thenE (require (key \<notin> fst ` set result) ''DUPLICATE_KEY'') (quota_onto (AList.update key v result) rest)"

definition quota_pairs :: "dict \<Rightarrow> json res" where
  "quota_pairs kvs = bindE (quota_onto [] kvs) (\<lambda>d. Inr (JObj d))"

definition not_integer :: "pystr \<Rightarrow> json res" where
  "not_integer text = Inl (QuotaError ''NON_INTEGER_NUMBER'')"

definition quota_hooks :: hooks where
  "quota_hooks = \<lparr>parse_int = \<lambda>t. Inr (JInt (int_of_text t)), parse_float = not_integer,
     parse_constant = not_integer, object_pairs_hook = quota_pairs\<rparr>"

text \<open>\<open>walk\<close>: depth, surrogates and the width of the integers.\<close>

function walk :: "nat \<Rightarrow> nat \<Rightarrow> json \<Rightarrow> unit res" where
  "walk max_depth depth (JStr s) = thenE (require (depth \<le> max_depth) ''DEPTH'')
     (require (\<not> (\<exists>c \<in> set s. surrogate c)) ''SURROGATE'')"
| "walk max_depth depth (JInt n) = thenE (require (depth \<le> max_depth) ''DEPTH'')
     (bindE (integer (JInt n) (- MAX_INTEGER) MAX_INTEGER) (\<lambda>_. Inr ()))"
| "walk max_depth depth (JObj kvs) = thenE (require (depth \<le> max_depth) ''DEPTH'')
     (forE kvs (\<lambda>(k, child). thenE (walk max_depth (Suc depth) (JStr k)) (walk max_depth (Suc depth) child)))"
| "walk max_depth depth (JList xs) = thenE (require (depth \<le> max_depth) ''DEPTH'')
     (forE xs (walk max_depth (Suc depth)))"
| "walk max_depth depth JNull = require (depth \<le> max_depth) ''DEPTH''"
| "walk max_depth depth (JBool b) = require (depth \<le> max_depth) ''DEPTH''"
| "walk max_depth depth (JFloat f) = require (depth \<le> max_depth) ''DEPTH''"
  by pat_completeness auto
termination
  by (relation "measure (\<lambda>(m, d, v). size v)")
    (auto simp: less_Suc_eq_le size_list_estimation' elim!: size_list_estimation)

definition json_error :: "'a res \<Rightarrow> 'a res" where
  \<comment> \<open>\<open>except (UnicodeError, ValueError, RecursionError)\<close>: a \<open>QuotaError\<close> passes, the others become \<open>JSON\<close>\<close>
  "json_error r = (case r of Inl (PyError e) \<Rightarrow> Inl (QuotaError ''JSON'') | _ \<Rightarrow> r)"

definition quota_load :: "bytes \<Rightarrow> nat \<Rightarrow> nat \<Rightarrow> json res" where
  "quota_load raw limit max_depth =
     thenE (require (0 < length raw \<and> length raw \<le> limit) ''BYTE_LIMIT'')
     (bindE (json_error (case utf8_decode raw of None \<Rightarrow> Inl (PyError ''UnicodeError'') | Some text \<Rightarrow> loads quota_hooks text))
       (\<lambda>v. thenE (walk max_depth 1 v) (Inr v)))"

definition quota_canonical :: "json \<Rightarrow> nat \<Rightarrow> bytes res" where
  "quota_canonical v limit = (let wire = dumps v in thenE (require (length wire \<le> limit) ''BYTE_LIMIT'') (Inr wire))"

section \<open>Paths and requests\<close>

definition path_char :: "nat \<Rightarrow> bool" where
  "path_char c = (48 \<le> c \<and> c \<le> 57 \<or> 65 \<le> c \<and> c \<le> 90 \<or> 97 \<le> c \<and> c \<le> 122 \<or> c \<in> {47, 46, 95, 64, 45})"

definition canonical_path :: "json \<Rightarrow> pystr res" where
  "canonical_path v = (case v of
     JStr s \<Rightarrow> thenE (require (1 < length s \<and> length s \<le> 4096 \<and> hd s = 47 \<and> hd (tl s) \<noteq> 47 \<and>
         47 # join_slash (posix_parts s) = s \<and> lit ''..'' \<notin> set (posix_parts s) \<and> (\<forall>c \<in> set (tl s). path_char c)) ''PATH'') (Inr s)
   | _ \<Rightarrow> Inl (QuotaError ''PATH''))"

text \<open>\<open>str.partition("-")\<close> and \<open>str.rpartition("-")\<close>: the parts before and after the first and the last dash.\<close>

definition partition_dash :: "pystr \<Rightarrow> pystr \<times> pystr" where
  "partition_dash s = (takeWhile (\<lambda>c. c \<noteq> 45) s, drop 1 (dropWhile (\<lambda>c. c \<noteq> 45) s))"

definition rpartition_dash :: "pystr \<Rightarrow> pystr \<times> pystr" where
  "rpartition_dash s = (let after = rev (takeWhile (\<lambda>c. c \<noteq> 45) (rev s))
     in (rev (drop 1 (dropWhile (\<lambda>c. c \<noteq> 45) (rev s))), after))"

definition execution_phase_ok :: "pystr \<Rightarrow> json \<Rightarrow> bool" where
  "execution_phase_ok execution phase =
     (let (ns, record_phase) = partition_dash execution; (record_id, suffix) = rpartition_dash record_phase in
      (case (phase, QUOTA_PHASES ns) of
         (JStr p, Some ps) \<Rightarrow> p \<in> set ps \<and> record_id \<noteq> [] \<and> suffix = p
       | _ \<Rightarrow> False))"

definition decode_request :: "bytes \<Rightarrow> bytes res" where
  "decode_request raw =
     bindE (quota_load raw REQUEST_LIMIT 4) (\<lambda>v.
     thenE (keys_are v REQUEST_KEYS)
     (thenE (require (field v ''schema'' = jlit ''local-hand-quota-observe/v1'' \<and> field v ''operation'' = jlit ''observe'') ''SCHEMA'')
     (thenE (forE [''request_id'', ''epoch'', ''generation''] (\<lambda>k. bindE (match_str (field v k) (hexes 32)) (\<lambda>_. Inr ())))
     (thenE (forE [''authority_digest'', ''installation_digest'', ''manifest_digest'', ''allocation_digest'', ''observation_grant_digest'']
               (\<lambda>k. bindE (match_str (field v k) (hexes 64)) (\<lambda>_. Inr ())))
     (bindE (match_str (field v ''boot_id'') UUID_PATTERN) (\<lambda>_.
      bindE (match_str (field v ''slot_ref'') REF_PATTERN) (\<lambda>_.
      bindE (match_str (field v ''execution_id'') execution_pattern) (\<lambda>execution.
      thenE (require (execution_phase_ok execution (field v ''phase'')) ''EXECUTION_PHASE'')
     (bindE (integer (field v ''deadline_ns'') 1 MAX_INTEGER) (\<lambda>_.
      quota_canonical v REQUEST_LIMIT))))))))))"

text \<open>\<open>Request.as_dict\<close>, \<open>digest\<close> and \<open>query_unit\<close> of a request that was decoded.\<close>

definition as_dict :: "bytes \<Rightarrow> json res" where
  "as_dict wire = loads plain_hooks wire"

definition quota_digest :: "bytes \<Rightarrow> pystr" where
  "quota_digest wire = sha256_hex wire"

definition query_unit :: "bytes \<Rightarrow> pystr" where
  "query_unit wire = lit ''lhqo-'' @ quota_digest wire @ lit ''.service''"

section \<open>Roots\<close>

definition quota_root :: "json \<Rightarrow> unit res" where
  "quota_root v =
     thenE (keys_are v ROOT_KEYS)
     (thenE (require (\<exists>r \<in> set ROOT_ROLES. field v ''role'' = JStr r) ''ROOT_ROLE'')
     (thenE (forE [(''device'', 0, MAX_INTEGER), (''inode'', 1, MAX_INTEGER), (''uid'', 1, 2 ^ 32 - 2), (''gid'', 0, 2 ^ 32 - 2),
                   (''project_id'', 1, 2 ^ 32 - 1), (''xflags'', 0, 2 ^ 32 - 1)]
               (\<lambda>(key, low, high). bindE (integer (field v key) low high) (\<lambda>_. Inr ())))
     (bindE (integer (field v ''mode'') 0 MAX_INTEGER) (\<lambda>mode.
      thenE (require (mode = 16832) ''ROOT_MODE'')
     (thenE (require (field v ''filesystem'' = jlit ''ext4'' \<or> field v ''filesystem'' = jlit ''xfs'') ''FILESYSTEM'')
     (bindE (match_str (field v ''filesystem_uuid'') UUID_PATTERN) (\<lambda>_.
      thenE (require (int_of (fld v ''xflags'') div 512 mod 2 = 1) ''PROJECT_INHERITANCE'')
     (bindE (integer (field v ''hard_bytes'') 1 MAX_INTEGER) (\<lambda>hard.
      thenE (require (hard mod 1024 = 0) ''HARD_LIMIT'')
      (forE ROOT_FLAGS (\<lambda>key. require (\<exists>b. field v key = JBool b) ''ROOT_FLAG'')))))))))))"

text \<open>The five dictionaries that \<open>_roots\<close> builds.\<close>

record roots_acc =
  by_role :: "(pystr \<times> json) list"
  identities :: "(int \<times> int) list"
  fs_devices :: "(pystr \<times> int) list"
  device_fs :: "(int \<times> pystr \<times> pystr) list"
  domains :: "((pystr \<times> int) \<times> int) list"

definition roots_step :: "pystr \<Rightarrow> roots_acc \<Rightarrow> json \<Rightarrow> roots_acc res" where
  "roots_step phase acc v =
     thenE (quota_root v)
     (let role = str_of (fld v ''role''); device = int_of (fld v ''device''); inode = int_of (fld v ''inode'');
          fs = str_of (fld v ''filesystem_uuid''); kind = str_of (fld v ''filesystem'');
          domain = (fs, int_of (fld v ''project_id'')); hard = int_of (fld v ''hard_bytes'')
      in thenE (require (map_of (by_role acc) role = None \<and> (role \<noteq> lit ''retained_store'' \<or> phase = lit ''evidence'')) ''ROOT_ROLE'')
        (thenE (require ((device, inode) \<notin> set (identities acc)) ''ROOT_ALIAS'')
        (thenE (require ((map_of (fs_devices acc) fs = None \<or> map_of (fs_devices acc) fs = Some device) \<and>
                  (map_of (device_fs acc) device = None \<or> map_of (device_fs acc) device = Some (fs, kind))) ''FILESYSTEM_ALIAS'')
        (thenE (require (map_of (domains acc) domain = None \<or> map_of (domains acc) domain = Some hard) ''DOMAIN_LIMIT_CONFLICT'')
          (Inr \<lparr>by_role = AList.update role v (by_role acc), identities = (device, inode) # identities acc,
               fs_devices = AList.update fs device (fs_devices acc), device_fs = AList.update device (fs, kind) (device_fs acc),
               domains = AList.update domain hard (domains acc)\<rparr>)))))"

definition quota_roots :: "json \<Rightarrow> pystr \<Rightarrow> bool \<Rightarrow> ((pystr \<times> json) list \<times> int) res" where
  "quota_roots vs phase complete = (case vs of
     JList xs \<Rightarrow>
       thenE (require (length xs \<le> 4) ''ROOT_COUNT'')
       (bindE (foldE (roots_step phase) \<lparr>by_role = [], identities = [], fs_devices = [], device_fs = [], domains = []\<rparr> xs)
         (\<lambda>acc. thenE (require (complete \<longrightarrow> set (take 3 ROOT_ROLES) \<subseteq> fst ` set (by_role acc)) ''ROOT_COUNT'')
           (bindE (integer (JInt (sum_list (map snd (domains acc)))) 0 MAX_INTEGER) (\<lambda>total. Inr (by_role acc, total)))))
   | _ \<Rightarrow> Inl (QuotaError ''ROOT_COUNT''))"

definition validate_expected_roots :: "json \<Rightarrow> json \<Rightarrow> json res" where
  "validate_expected_roots vs phase = (case phase of
     JStr p \<Rightarrow>
       thenE (require (p \<in> {lit ''preflight'', lit ''business'', lit ''reconcile'', lit ''evidence''}) ''EXECUTION_PHASE'')
       (bindE (quota_roots vs p True) (\<lambda>(roots, _).
        thenE (require (\<forall>(role, root) \<in> set roots. \<forall>key \<in> set ROOT_FLAGS. truthy (field root key)) ''EXPECTED_ENFORCEMENT'')
       (bindE (quota_canonical vs RESPONSE_LIMIT) (\<lambda>wire. quota_load wire RESPONSE_LIMIT 6))))
   | _ \<Rightarrow> Inl (QuotaError ''EXECUTION_PHASE''))"

section \<open>Calls\<close>

record calls_acc =
  positions :: "(pystr \<times> nat) list"
  active :: "pystr option"
  failed :: bool

definition calls_step :: "(pystr \<times> json) list \<Rightarrow> calls_acc \<Rightarrow> json \<Rightarrow> calls_acc res" where
  "calls_step expected acc v =
     thenE (keys_are v [''role'', ''operation'', ''rc'', ''errno''])
     (case field v ''role'' of
        JStr role \<Rightarrow>
          thenE (require (map_of expected role \<noteq> None) ''CALL_ROLE'')
          (thenE (require (\<not> failed acc) ''CALL_AFTER_FAILURE'')
          (thenE (require (active acc = Some role \<or>
                     (map_of (positions acc) role = None \<and>
                      (case active acc of None \<Rightarrow> True | Some a \<Rightarrow> map_of (positions acc) a = Some 3))) ''CALL_ORDER'')
           (let position = (case map_of (positions acc) role of None \<Rightarrow> 0 | Some n \<Rightarrow> n) in
            thenE (require (position < 3 \<and> field v ''operation'' = JStr (CALL_OPERATIONS ! position)) ''CALL_ORDER'')
            (bindE (integer (field v ''rc'') (- 1) 0) (\<lambda>rc.
             bindE (integer (field v ''errno'') 0 4095) (\<lambda>_.
             Inr \<lparr>positions = AList.update role (Suc position) (positions acc), active = Some role, failed = (rc = - 1)\<rparr>))))))
      | _ \<Rightarrow> Inl (QuotaError ''CALL_ROLE''))"

definition quota_calls :: "json \<Rightarrow> (pystr \<times> json) list \<Rightarrow> bool \<Rightarrow> unit res" where
  "quota_calls vs expected observed = (case vs of
     JList xs \<Rightarrow>
       thenE (require (length xs \<le> 12) ''CALL_COUNT'')
       (bindE (foldE (calls_step expected) \<lparr>positions = [], active = None, failed = False\<rparr> xs) (\<lambda>acc.
        require (observed \<longrightarrow> \<not> failed acc \<and> fst ` set (positions acc) = fst ` set expected \<and>
          (\<forall>(role, n) \<in> set (positions acc). n = 3)) ''CALLS_INCOMPLETE''))
   | _ \<Rightarrow> Inl (QuotaError ''CALL_COUNT''))"

section \<open>Receipts\<close>

text \<open>\<open>if x is not None: f(x)\<close>\<close>

definition unless_none :: "json \<Rightarrow> (json \<Rightarrow> unit res) \<Rightarrow> unit res" where
  "unless_none v f = (if v = JNull then Inr () else f v)"

definition receipt_times :: "json \<Rightarrow> bool \<Rightarrow> int \<Rightarrow> int \<Rightarrow> unit res" where
  "receipt_times v observed deadline now_ns =
     (let start = field v ''started_ns''; finish = field v ''finished_ns'' in
      thenE (unless_none start (\<lambda>x. bindE (integer x 0 now_ns) (\<lambda>_. Inr ())))
     (thenE (unless_none finish (\<lambda>x. thenE (require (start \<noteq> JNull) ''TIMING'')
               (bindE (integer x (int_of (Some start)) now_ns) (\<lambda>_. Inr ()))))
      (require (observed \<longrightarrow> start \<noteq> JNull \<and> finish \<noteq> JNull \<and> int_of (Some finish) < deadline) ''TIMING'')))"

definition receipt_query :: "json \<Rightarrow> bytes \<Rightarrow> bool \<Rightarrow> unit res" where
  "receipt_query query req observed =
     thenE (unless_none query (\<lambda>q.
       thenE (keys_are q [''unit'', ''invocation_id'', ''cgroup''])
      (thenE (require (field q ''unit'' = JStr (query_unit req)) ''QUERY_BINDING'')
      (bindE (match_str (field q ''invocation_id'') (hexes 32)) (\<lambda>_.
       bindE (canonical_path (field q ''cgroup'')) (\<lambda>path.
       require (last (posix_parts path) = query_unit req) ''QUERY_BINDING''))))))
     (require (observed \<longrightarrow> query \<noteq> JNull) ''QUERY_MISSING'')"

definition receipt_roots :: "(pystr \<times> json) list \<Rightarrow> (pystr \<times> json) list \<Rightarrow> bool \<Rightarrow> unit res" where
  "receipt_roots roots expected observed =
     thenE (require (fst ` set roots \<subseteq> fst ` set expected \<and> (observed \<longrightarrow> fst ` set roots = fst ` set expected)) ''ROOT_BINDING'')
     (forE roots (\<lambda>(role, root).
        require (\<forall>key \<in> set ROOT_KEYS. observed \<or> key \<notin> set ROOT_FLAGS \<longrightarrow>
          (case map_of expected role of None \<Rightarrow> False | Some e \<Rightarrow> jeq (field root key) (field e key))) ''ROOT_BINDING''))"

definition receipt_exit :: "json \<Rightarrow> bool \<Rightarrow> unit res" where
  "receipt_exit proof_v observed =
     thenE (keys_are proof_v (EXIT_FLAGS @ [''proof_digest'', ''exec_main_code'', ''exec_main_status'', ''client_returncode'']))
     (thenE (forE EXIT_FLAGS (\<lambda>key. require (\<exists>b. field proof_v key = JBool b) ''EXIT_FLAG''))
     (thenE (unless_none (field proof_v ''proof_digest'') (\<lambda>x. bindE (match_str x (hexes 64)) (\<lambda>_. Inr ())))
     (thenE (forE [(''exec_main_code'', 0, 6), (''exec_main_status'', 0, 255), (''client_returncode'', - 255, 255)]
               (\<lambda>(key, low, high). unless_none (field proof_v key) (\<lambda>x. bindE (integer x low high) (\<lambda>_. Inr ()))))
      (require (observed \<longrightarrow> (\<forall>key \<in> set EXIT_FLAGS. truthy (field proof_v key)) \<and> field proof_v ''proof_digest'' \<noteq> JNull \<and>
          field proof_v ''exec_main_code'' = JInt 1 \<and> field proof_v ''exec_main_status'' = JInt 0 \<and>
          field proof_v ''client_returncode'' = JInt 0) ''EXIT_UNPROVEN''))))"

definition decode_receipt :: "bytes \<Rightarrow> bytes \<Rightarrow> json \<Rightarrow> int \<Rightarrow> (bytes \<times> int) res" where
  "decode_receipt raw request_wire expected_roots now_ns =
     bindE (decode_request request_wire) (\<lambda>request.
     bindE (as_dict request) (\<lambda>original.
     bindE (validate_expected_roots expected_roots (field original ''phase'')) (\<lambda>declared.
     bindE (quota_roots declared (str_of (fld original ''phase'')) True) (\<lambda>(expected, _).
     bindE (quota_load raw RESPONSE_LIMIT 6) (\<lambda>v.
     thenE (keys_are v RECEIPT_KEYS)
     (thenE (require (field v ''schema'' = jlit ''local-hand-quota-receipt/v1'') ''SCHEMA'')
     (thenE (require (field v ''request_digest'' = JStr (quota_digest request)) ''REQUEST_BINDING'')
     (thenE (require (field v ''status'' \<in> {jlit ''OBSERVED'', jlit ''UNKNOWN'', jlit ''REJECTED'', jlit ''UNSUPPORTED''}) ''STATUS'')
     (bindE (match_str (field v ''reason'') reason_pattern) (\<lambda>_.
      let observed = (field v ''status'' = jlit ''OBSERVED'') in
      bindE (integer (field v ''deadline_ns'') 1 (int_of (fld original ''deadline_ns''))) (\<lambda>deadline.
      bindE (integer (JInt now_ns) 0 MAX_INTEGER) (\<lambda>now.
      thenE (require (now < deadline) ''DEADLINE'')
     (thenE (receipt_times v observed deadline now_ns)
     (thenE (receipt_query (field v ''query'') request observed)
     (bindE (quota_roots (field v ''roots'') (str_of (fld original ''phase'')) observed) (\<lambda>(roots, total).
      thenE (receipt_roots roots expected observed)
     (thenE (quota_calls (field v ''calls'') expected observed)
     (thenE (receipt_exit (field v ''exit'') observed)
     (bindE (quota_canonical v RESPONSE_LIMIT) (\<lambda>wire. Inr (wire, total)))))))))))))))))))))"

end
