(* ===== verification/QuotaProps.thy ===== *)
theory QuotaProps
  imports QuotaContract
begin

text \<open>
  What a quota report that the decoder accepts says: the order of its kernel calls, and the
  roots and limits it declares.
\<close>

lemma require_Inr [res_simps]: "require c e = Inr u \<longleftrightarrow> c"
  by (simp add: require_def raise_if_def)

lemma integer_Inr [res_simps]: "integer v lo hi = Inr n \<longleftrightarrow> v = JInt n \<and> lo \<le> n \<and> n \<le> hi"
  by (cases v) (auto simp: integer_def res_simps)

lemma match_str_Inr [res_simps]: "match_str v P = Inr s \<longleftrightarrow> v = JStr s \<and> P s"
  by (cases v) (auto simp: match_str_def res_simps)

lemma keys_are_Inr [res_simps]: "keys_are v ks = Inr u \<longleftrightarrow> is_dict v \<and> has_keys v ks"
  by (simp add: keys_are_def res_simps)

lemma get_or_Some: "get_or v k JNull = x \<Longrightarrow> x \<noteq> JNull \<Longrightarrow> fld v k = Some x"
  by (auto simp: get_or_def split: option.splits)

lemma foldE_snoc: "foldE f s (xs @ [x]) = bindE (foldE f s xs) (\<lambda>t. f t x)"
  by (induction xs arbitrary: s) (auto split: sum.splits)

section \<open>The order of the calls\<close>

text \<open>The role and the operation of a reported call, and the calls one role needs.\<close>

definition call_key :: "json \<Rightarrow> pystr \<times> pystr" where
  "call_key v = (str_of (fld v ''role''), str_of (fld v ''operation''))"

definition call_rc :: "json \<Rightarrow> int" where
  "call_rc v = int_of (fld v ''rc'')"

definition block :: "pystr \<Rightarrow> (pystr \<times> pystr) list" where
  "block role = map (\<lambda>op. (role, op)) CALL_OPERATIONS"

lemma length_block [simp]: "length (block r) = 3"
  by (simp add: block_def CALL_OPERATIONS_def)

lemma calls_step_Inr:
  assumes "calls_step expected acc v = Inr acc'"
  obtains role n where "fst (call_key v) = role" "snd (call_key v) = CALL_OPERATIONS ! n" "role \<in> fst ` set expected"
    "\<not> failed acc" "n < 3" "n = (case map_of (positions acc) role of None \<Rightarrow> 0 | Some n \<Rightarrow> n)"
    "active acc = Some role \<or> map_of (positions acc) role = None \<and> (\<forall>a. active acc = Some a \<longrightarrow> map_of (positions acc) a = Some 3)"
    "acc' = \<lparr>positions = AList.update role (Suc n) (positions acc), active = Some role, failed = (call_rc v = - 1)\<rparr>"
    "call_rc v = 0 \<or> call_rc v = - 1"
proof (cases "field v ''role''")
  case (JStr role)
  let ?n = "case map_of (positions acc) role of None \<Rightarrow> 0 | Some n \<Rightarrow> n"
  from JStr have role: "fld v ''role'' = Some (JStr role)" by (rule get_or_Some) simp
  from assms JStr obtain rc where r: "map_of expected role \<noteq> None" "\<not> failed acc"
      "active acc = Some role \<or> map_of (positions acc) role = None \<and>
         (case active acc of None \<Rightarrow> True | Some a \<Rightarrow> map_of (positions acc) a = Some 3)"
      "?n < 3" "field v ''operation'' = JStr (CALL_OPERATIONS ! ?n)" "field v ''rc'' = JInt rc" "- 1 \<le> rc" "rc \<le> 0"
      "acc' = \<lparr>positions = AList.update role (Suc ?n) (positions acc), active = Some role, failed = (rc = - 1)\<rparr>"
    by (auto simp: calls_step_def Let_def res_simps)
  have "fld v ''operation'' = Some (JStr (CALL_OPERATIONS ! ?n))" by (rule get_or_Some [OF r(5)]) simp
  moreover have rc: "fld v ''rc'' = Some (JInt rc)" by (rule get_or_Some [OF r(6)]) simp
  moreover have "role \<in> fst ` set expected" using r(1) by (metis map_of_eq_None_iff)
  moreover have "rc = 0 \<or> rc = - 1" using r(7,8) by linarith
  ultimately show thesis
    using role r(2-4,9) by (intro that [of role ?n])
      (auto simp: call_key_def call_rc_def str_of_def int_of_def split: option.splits)
qed (use assms in \<open>auto simp: calls_step_def res_simps\<close>)

text \<open>After some calls: finished roles in order, then a prefix of the calls of the active one.\<close>

definition calls_inv :: "(pystr \<times> json) list \<Rightarrow> calls_acc \<Rightarrow> json list \<Rightarrow> bool" where
  "calls_inv expected acc vs =
     (if vs = [] then acc = \<lparr>positions = [], active = None, failed = False\<rparr>
      else \<exists>rs a n. active acc = Some a \<and> 1 \<le> n \<and> n \<le> 3 \<and> distinct (rs @ [a]) \<and> set (rs @ [a]) \<subseteq> fst ` set expected \<and>
        distinct (map fst (positions acc)) \<and> map_of (positions acc) = (map_of (map (\<lambda>r. (r, 3)) rs))(a \<mapsto> n) \<and>
        map call_key vs = concat (map block rs) @ take n (block a) \<and>
        (\<forall>v \<in> set (butlast vs). call_rc v = 0) \<and> call_rc (last vs) \<in> {0, - 1} \<and> failed acc = (call_rc (last vs) = - 1))"

lemma map_of_threes: "map_of (map (\<lambda>r. (r, 3 :: nat)) rs) r = (if r \<in> set rs then Some 3 else None)"
  by (induction rs) auto

lemma take_Suc_block: "n < 3 \<Longrightarrow> take (Suc n) (block r) = take n (block r) @ [(r, CALL_OPERATIONS ! n)]"
  using take_Suc_conv_app_nth [of n "block r"] nth_map [of n CALL_OPERATIONS "\<lambda>op. (r, op)"]
  by (simp add: block_def [symmetric]) (simp add: CALL_OPERATIONS_def)

lemma calls_invI:
  assumes "active acc = Some a" "1 \<le> n" "n \<le> 3" "distinct (rs @ [a])" "set (rs @ [a]) \<subseteq> fst ` set expected"
    "distinct (map fst (positions acc))" "map_of (positions acc) = (map_of (map (\<lambda>r. (r, 3)) rs))(a \<mapsto> n)"
    "map call_key (vs @ [v]) = concat (map block rs) @ take n (block a)" "\<forall>v \<in> set vs. call_rc v = 0"
    "call_rc v \<in> {0, - 1}" "failed acc = (call_rc v = - 1)"
  shows "calls_inv expected acc (vs @ [v])"
proof -
  have "\<forall>w \<in> set (butlast (vs @ [v])). call_rc w = 0" "call_rc (last (vs @ [v])) = call_rc v" using assms(9) by simp_all
  with assms show ?thesis unfolding calls_inv_def by (smt (verit, best) append_is_Nil_conv not_Cons_self2)
qed

lemma calls_inv_step:
  assumes inv: "calls_inv expected acc vs" and step: "calls_step expected acc v = Inr acc'"
  shows "calls_inv expected acc' (vs @ [v])"
proof -
  from step obtain role n where key: "call_key v = (role, CALL_OPERATIONS ! n)" and ex: "role \<in> fst ` set expected"
    and ok: "\<not> failed acc" and n: "n < 3" "n = (case map_of (positions acc) role of None \<Rightarrow> 0 | Some n \<Rightarrow> n)"
    and order: "active acc = Some role \<or> map_of (positions acc) role = None \<and> (\<forall>a. active acc = Some a \<longrightarrow> map_of (positions acc) a = Some 3)"
    and acc': "acc' = \<lparr>positions = AList.update role (Suc n) (positions acc), active = Some role, failed = (call_rc v = - 1)\<rparr>"
    and rc: "call_rc v = 0 \<or> call_rc v = - 1"
    by (rule calls_step_Inr) (metis prod.collapse)
  show ?thesis
  proof (cases "vs = []")
    case True
    with inv n have "n = 0" "positions acc = []" by (simp_all add: calls_inv_def)
    with True key ex rc show ?thesis
      by (intro calls_invI [of _ role 1 "[]"]) (auto simp: acc' block_def CALL_OPERATIONS_def)
  next
    case False
    with inv obtain rs a m where act: "active acc = Some a" and m: "1 \<le> m" "m \<le> 3" and d: "distinct (rs @ [a])"
      and sub: "set (rs @ [a]) \<subseteq> fst ` set expected" and dp: "distinct (map fst (positions acc))"
      and pos: "map_of (positions acc) = (map_of (map (\<lambda>r. (r, 3)) rs))(a \<mapsto> m)"
      and keys: "map call_key vs = concat (map block rs) @ take m (block a)"
      and rcs: "\<forall>v \<in> set (butlast vs). call_rc v = 0" "call_rc (last vs) \<in> {0, - 1}" "failed acc = (call_rc (last vs) = - 1)"
      by (auto simp: calls_inv_def)
    have fine: "\<forall>v \<in> set vs. call_rc v = 0"
      using False rcs ok by (metis append_butlast_last_id in_set_conv_decomp insertE rotate1.simps(2) set_ConsD set_rotate1 singletonD)
    show ?thesis
    proof (cases "role = a")
      case True
      with n pos have nm: "n = m" by simp
      have "map call_key (vs @ [v]) = concat (map block rs) @ take (Suc m) (block a)"
        using n(1) by (simp add: keys key True nm take_Suc_block)
      with act d sub dp pos m n nm True fine rc show ?thesis
        by (intro calls_invI [of _ a "Suc m" rs]) (auto simp: acc' distinct_update)
    next
      case other: False
      with order act pos have a3: "m = 3" and new: "role \<notin> set rs" by (auto simp: map_of_threes split: if_splits)
      with n pos other have n0: "n = 0" by (auto simp: map_of_threes)
      have "map call_key (vs @ [v]) = concat (map block (rs @ [a])) @ take 1 (block role)"
        using keys key a3 n0 by (simp add: take_Suc_block [of 0, simplified])
      moreover have "(map_of (positions acc))(role \<mapsto> 1) = (map_of (map (\<lambda>r. (r, 3)) (rs @ [a])))(role \<mapsto> 1)"
        using pos a3 d by (auto simp: fun_eq_iff map_of_threes map_add_def split: option.splits)
      ultimately show ?thesis
        using d sub dp other new ex fine rc n0 act
        by (intro calls_invI [of _ role 1 "rs @ [a]"]) (auto simp: acc' distinct_update)
    qed
  qed
qed

lemma calls_inv_foldE:
  "foldE (calls_step expected) \<lparr>positions = [], active = None, failed = False\<rparr> vs = Inr acc \<Longrightarrow> calls_inv expected acc vs"
proof (induction vs arbitrary: acc rule: rev_induct)
  case Nil
  then show ?case by (simp add: calls_inv_def)
next
  case (snoc v vs)
  then show ?case by (auto simp: foldE_snoc res_simps intro: calls_inv_step)
qed

text \<open>C35. The calls of an accepted observation are exactly a sequence of complete blocks: there is an order of the
  expected roles, each once, in which every role has its state read, its quota read and its state read
  again, uninterrupted, and every call succeeded.\<close>

theorem observed_calls_are_blocks:
  assumes "quota_calls (JList vs) expected True = Inr ()"
  shows "\<exists>roles. distinct roles \<and> set roles = fst ` set expected \<and>
     map call_key vs = concat (map block roles) \<and> (\<forall>v \<in> set vs. call_rc v = 0)"
proof -
  from assms obtain acc where run: "foldE (calls_step expected) \<lparr>positions = [], active = None, failed = False\<rparr> vs = Inr acc"
    and fin: "\<not> failed acc" "fst ` set (positions acc) = fst ` set expected" "\<forall>(role, n) \<in> set (positions acc). n = 3"
    by (auto simp: quota_calls_def res_simps)
  from calls_inv_foldE [OF run] have inv: "calls_inv expected acc vs" .
  show ?thesis
  proof (cases "vs = []")
    case True
    with inv fin(2) show ?thesis by (intro exI [of _ "[]"]) (simp add: calls_inv_def)
  next
    case False
    with inv obtain rs a n where d: "distinct (rs @ [a])" and dp: "distinct (map fst (positions acc))"
      and pos: "map_of (positions acc) = (map_of (map (\<lambda>r. (r, 3)) rs))(a \<mapsto> n)"
      and keys: "map call_key vs = concat (map block rs) @ take n (block a)"
      and rcs: "\<forall>v \<in> set (butlast vs). call_rc v = 0" "call_rc (last vs) \<in> {0, - 1}" "failed acc = (call_rc (last vs) = - 1)"
      by (auto simp: calls_inv_def)
    from pos have "(a, n) \<in> set (positions acc)" by (simp add: map_of_SomeD)
    with fin(3) have n: "n = 3" by auto
    have "fst ` set (positions acc) = dom (map_of (positions acc))" by (simp add: dom_map_of_conv_image_fst)
    also have "\<dots> = set (rs @ [a])" unfolding pos by (auto simp: dom_def map_of_threes)
    finally have "set (rs @ [a]) = fst ` set expected" using fin(2) by simp
    moreover have "\<forall>v \<in> set vs. call_rc v = 0"
      using rcs fin(1) False by (metis append_butlast_last_id insertE insert_iff rotate1.simps(2) set_ConsD set_rotate1 singletonD)
    ultimately show ?thesis
      using d keys n by (intro exI [of _ "rs @ [a]"]) simp
  qed
qed

section \<open>Roots and their limits\<close>

definition root_role :: "json \<Rightarrow> pystr" where
  "root_role v = str_of (fld v ''role'')"

definition root_identity :: "json \<Rightarrow> int \<times> int" where
  "root_identity v = (int_of (fld v ''device''), int_of (fld v ''inode''))"

definition root_domain :: "json \<Rightarrow> pystr \<times> int" where
  "root_domain v = (str_of (fld v ''filesystem_uuid''), int_of (fld v ''project_id''))"

definition root_hard :: "json \<Rightarrow> int" where
  "root_hard v = int_of (fld v ''hard_bytes'')"

lemma roots_step_Inr:
  assumes "roots_step phase acc v = Inr acc'"
  shows "quota_root v = Inr ()" "map_of (by_role acc) (root_role v) = None" "root_identity v \<notin> set (identities acc)"
    "map_of (domains acc) (root_domain v) = None \<or> map_of (domains acc) (root_domain v) = Some (root_hard v)"
    "by_role acc' = AList.update (root_role v) v (by_role acc)" "identities acc' = root_identity v # identities acc"
    "domains acc' = AList.update (root_domain v) (root_hard v) (domains acc)"
  using assms
  by (auto simp: roots_step_def Let_def res_simps root_role_def root_identity_def root_domain_def root_hard_def)

lemma quota_root_hard: "quota_root v = Inr () \<Longrightarrow> 1 \<le> root_hard v \<and> root_hard v mod 1024 = 0"
proof -
  assume "quota_root v = Inr ()"
  then obtain h where h: "field v ''hard_bytes'' = JInt h" "1 \<le> h" "h mod 1024 = 0"
    unfolding quota_root_def
    by (simp only: thenE_Inr_iff bindE_Inr_iff require_Inr integer_Inr) (elim exE conjE, rule that, assumption+)
  moreover have "fld v ''hard_bytes'' = Some (JInt h)" by (rule get_or_Some [OF h(1)]) simp
  ultimately show ?thesis by (simp add: root_hard_def)
qed

definition roots_inv :: "roots_acc \<Rightarrow> json list \<Rightarrow> bool" where
  "roots_inv acc xs =
     (by_role acc = map (\<lambda>v. (root_role v, v)) xs \<and> distinct (map root_role xs) \<and>
      set (identities acc) = root_identity ` set xs \<and> distinct (map root_identity xs) \<and>
      distinct (map fst (domains acc)) \<and> fst ` set (domains acc) = root_domain ` set xs \<and>
      (\<forall>v \<in> set xs. map_of (domains acc) (root_domain v) = Some (root_hard v) \<and> 1 \<le> root_hard v \<and> root_hard v mod 1024 = 0))"

lemma fst_set_update: "fst ` set (AList.update k x xs) = insert k (fst ` set xs)"
proof -
  have "fst ` set ys = dom (map_of ys)" for ys :: "('a \<times> 'b) list" by (simp add: dom_map_of_conv_image_fst)
  then show ?thesis by simp
qed

lemma roots_inv_step:
  assumes inv: "roots_inv acc xs" and step: "roots_step phase acc v = Inr acc'"
  shows "roots_inv acc' (xs @ [v])"
proof -
  note s = roots_step_Inr [OF step]
  have new: "root_role v \<notin> root_role ` set xs"
    using s(2) inv by (auto simp: roots_inv_def map_of_eq_None_iff image_image)
  have "by_role acc' = map (\<lambda>v. (root_role v, v)) (xs @ [v])"
    using inv new s(5) by (simp add: roots_inv_def update_new image_image)
  moreover have "map_of (domains acc') (root_domain w) = Some (root_hard w)" if "w \<in> set (xs @ [v])" for w
  proof (cases "w = v")
    case False
    with that inv have "map_of (domains acc) (root_domain w) = Some (root_hard w)" by (simp add: roots_inv_def)
    with s(4,7) show ?thesis by auto
  qed (simp add: s(7))
  moreover have "1 \<le> root_hard w \<and> root_hard w mod 1024 = 0" if "w \<in> set (xs @ [v])" for w
    using that inv quota_root_hard [OF s(1)] by (auto simp: roots_inv_def)
  ultimately show ?thesis
    using inv new s(3,6,7) by (auto simp: roots_inv_def distinct_update fst_set_update image_iff)
qed

lemma roots_inv_foldE:
  "foldE (roots_step phase) \<lparr>by_role = [], identities = [], fs_devices = [], device_fs = [], domains = []\<rparr> xs = Inr acc \<Longrightarrow>
     roots_inv acc xs"
proof (induction xs arbitrary: acc rule: rev_induct)
  case Nil
  then have "acc = \<lparr>by_role = [], identities = [], fs_devices = [], device_fs = [], domains = []\<rparr>" by simp
  then show ?case by (simp add: roots_inv_def)
next
  case (snoc v vs)
  then show ?case by (auto simp: foldE_snoc res_simps intro: roots_inv_step)
qed

lemma sum_snd_distinct:
  assumes "distinct (map fst ds)"
  shows "sum_list (map snd ds) = (\<Sum>k \<in> fst ` set ds. the (map_of ds k))"
proof -
  have "map snd ds = map (\<lambda>k. the (map_of ds k)) (map fst ds)"
    using assms by (auto simp: map_of_eq_Some_iff [THEN iffD2])
  then have "sum_list (map snd ds) = sum_list (map (\<lambda>k. the (map_of ds k)) (map fst ds))" by (rule arg_cong)
  also have "\<dots> = (\<Sum>k \<in> set (map fst ds). the (map_of ds k))" by (rule sum_list_distinct_conv_sum_set [OF assms])
  finally show ?thesis by simp
qed

text \<open>A list of roots that the contract accepts has no repeated role and no repeated directory; roots of one quota
  domain (a filesystem and a project) declare one limit, a positive number of kilobytes; and the total
  reported counts every domain exactly once and fits in 63 bits.\<close>

theorem roots_total_by_domain:
  assumes "quota_roots (JList xs) phase complete = Inr (roots, tot)"
  shows "roots = map (\<lambda>v. (root_role v, v)) xs \<and> distinct (map root_role xs) \<and> distinct (map root_identity xs) \<and>
     (\<exists>limit. (\<forall>v \<in> set xs. limit (root_domain v) = root_hard v \<and> 1 \<le> root_hard v \<and> root_hard v mod 1024 = 0) \<and>
        tot = (\<Sum>d \<in> root_domain ` set xs. limit d)) \<and> 0 \<le> tot \<and> tot < 2 ^ 63"
proof -
  from assms obtain acc where run: "foldE (roots_step phase)
      \<lparr>by_role = [], identities = [], fs_devices = [], device_fs = [], domains = []\<rparr> xs = Inr acc"
    and roots: "roots = by_role acc" and tot: "tot = sum_list (map snd (domains acc))" "0 \<le> tot" "tot \<le> MAX_INTEGER"
    by (auto simp: quota_roots_def res_simps)
  from roots_inv_foldE [OF run] have inv: "roots_inv acc xs" .
  let ?limit = "\<lambda>d. the (map_of (domains acc) d)"
  have "\<forall>v \<in> set xs. ?limit (root_domain v) = root_hard v \<and> 1 \<le> root_hard v \<and> root_hard v mod 1024 = 0"
    using inv by (simp add: roots_inv_def)
  moreover have "tot = (\<Sum>d \<in> root_domain ` set xs. ?limit d)"
    using inv sum_snd_distinct [of "domains acc"] by (simp add: tot(1) roots_inv_def)
  moreover have "tot < 2 ^ 63" using tot(3) by (simp add: MAX_INTEGER_def)
  ultimately show ?thesis
    using inv roots tot(2) unfolding roots_inv_def by (intro conjI exI [of _ ?limit]) simp_all
qed

section \<open>A concrete report\<close>

definition example_call :: "string \<Rightarrow> json" where
  "example_call op = obj [(''role'', jlit ''work''), (''operation'', jlit op), (''rc'', JInt 0), (''errno'', JInt 0)]"

theorem observed_calls_are_blocks_witness:
  "\<exists>roles. set roles = {lit ''work''} \<and>
     map call_key (map example_call [''STATE_BEFORE'', ''GET_QUOTA'', ''STATE_AFTER'']) = concat (map block roles)"
proof -
  have "quota_calls (JList (map example_call [''STATE_BEFORE'', ''GET_QUOTA'', ''STATE_AFTER''])) [(lit ''work'', JNull)] True = Inr ()"
    by code_simp
  from observed_calls_are_blocks [OF this] show ?thesis by auto
qed

definition example_root :: "string \<Rightarrow> int \<Rightarrow> json" where
  "example_root role inode = obj [(''role'', jlit role), (''device'', JInt 8), (''inode'', JInt inode), (''uid'', JInt 1000), (''gid'', JInt 1000),
     (''mode'', JInt 16832), (''filesystem'', jlit ''ext4''), (''filesystem_uuid'', jlit ''00000000-0000-0000-0000-000000000001''),
     (''project_id'', JInt 5), (''xflags'', JInt 512), (''hard_bytes'', JInt 2048), (''accounting'', JBool True),
     (''enforcement'', JBool True), (''identity_unchanged'', JBool True)]"

text \<open>Two directories of one domain: its limit counts once.\<close>

theorem roots_total_by_domain_witness:
  "\<exists>limit. limit (root_domain (example_root ''work'' 2)) = (2048 :: int) \<and>
     2048 = (\<Sum>d \<in> root_domain ` set [example_root ''work'' 2, example_root ''temporary'' 3]. limit d)"
proof -
  let ?xs = "[example_root ''work'' 2, example_root ''temporary'' 3]"
  have "quota_roots (JList ?xs) (lit ''preflight'') False =
      Inr ([(lit ''work'', example_root ''work'' 2), (lit ''temporary'', example_root ''temporary'' 3)], 2048)"
    by code_simp
  from roots_total_by_domain [OF this] obtain limit where
    "\<forall>v \<in> set ?xs. limit (root_domain v) = root_hard v" "2048 = (\<Sum>d \<in> root_domain ` set ?xs. limit d)" by blast
  moreover have "root_hard (example_root ''work'' 2) = 2048" by code_simp
  ultimately show ?thesis by (intro exI [of _ limit]) simp
qed

end
