(* ===== verification/Bootstrap.thy ===== *)
theory Bootstrap
  imports Budget Paths Resources "HOL-Library.Sublist"
begin

text \<open>
  The one-use root slots of \<open>tools/local_hand_jobs/bootstrap_roots.py\<close>: the validation of a pool of
  precreated directories and of the grant that consumes one slot, the search of the lease table for a
  slot that was never consumed, the reservation inside the caller's transaction, and the rewriting of an
  execution onto the directories it was granted.
\<close>

section \<open>Constants\<close>

definition ROOT_NAMES :: "string list" where
  "ROOT_NAMES = [''work'', ''evidence'', ''temporary'']"

definition ROOT_PHASES :: "pystr \<Rightarrow> pystr list option" where
  "ROOT_PHASES ns = (if ns = lit ''job'' then Some [lit ''preflight'', lit ''business'', lit ''evidence'']
     else if ns = lit ''reconcile'' then Some [lit ''reconcile'', lit ''evidence''] else None)"

definition IDENTITY_KEYS :: "string list" where
  "IDENTITY_KEYS = [''device'', ''inode'', ''uid'']"

definition BOOTSTRAP_GRANT_KEYS :: "string list" where
  "BOOTSTRAP_GRANT_KEYS = [''version'', ''namespace'', ''record_id'', ''operation_id'', ''execution_id'', ''phase'', ''slot_id'',
     ''allocation_id'', ''roots'', ''paths'', ''retained_paths'', ''fresh'', ''source_roots'', ''grant_digest'']"

abbreviation bootstrap_invalid :: "string \<Rightarrow> exn" where
  "bootstrap_invalid m \<equiv> JobError ''IO_UNCERTAIN'' m"

abbreviation bootstrap_unresolved :: exn where
  "bootstrap_unresolved \<equiv> bootstrap_invalid ''Bootstrap root admission is unresolved''"

definition json_digest :: "json \<Rightarrow> pystr" where
  "json_digest v = sha256_hex (canonical_bytes v)"

section \<open>Paths\<close>

text \<open>\<open>str.isspace\<close> of one character.\<close>

definition is_space :: "nat \<Rightarrow> bool" where
  "is_space c = (9 \<le> c \<and> c \<le> 13 \<or> 28 \<le> c \<and> c \<le> 32 \<or> c \<in> {133, 160, 5760} \<or> 8192 \<le> c \<and> c \<le> 8202 \<or>
     c \<in> {8232, 8233, 8239, 8287, 12288})"

definition path_text :: "pystr \<Rightarrow> bool" where
  "path_text s = (prefix [47] s \<and> \<not> prefix [47, 47] s \<and> s \<noteq> [47] \<and> 47 # join_slash (posix_parts s) = s \<and>
     lit ''..'' \<notin> set (posix_parts s) \<and>
     (\<forall>c \<in> set s. \<not> (is_space c \<or> c < 32 \<or> 55296 \<le> c \<and> c \<le> 57343 \<or> c \<in> {92, 37, 36})))"

definition root_path :: "json \<Rightarrow> pystr res" where
  "root_path v = (case v of
     JStr s \<Rightarrow> if path_text s then Inr s else Inl (bootstrap_invalid ''Bootstrap root path is not canonical'')
   | _ \<Rightarrow> Inl (bootstrap_invalid ''Bootstrap root path is not canonical''))"

definition overlap :: "pystr \<Rightarrow> pystr \<Rightarrow> bool" where
  "overlap left right = (left = right \<or> prefix (right @ [47]) left \<or> prefix (left @ [47]) right)"

text \<open>The values of a dictionary.\<close>

definition jvalues :: "json \<Rightarrow> json list" where
  "jvalues v = map snd (items v)"

text \<open>\<open>v[k]\<close> where the key is known to be present.\<close>

definition dat :: "json \<Rightarrow> pystr \<Rightarrow> json" where
  "dat v k = (case dget v k of None \<Rightarrow> JNull | Some x \<Rightarrow> x)"

text \<open>A dictionary built by a comprehension.\<close>

definition mk_dict :: "(pystr \<times> json) list \<Rightarrow> json" where
  "mk_dict kvs = JObj (fold (\<lambda>(k, v). AList.update k v) kvs [])"

section \<open>Slots\<close>

definition validate_root :: "int option \<Rightarrow> json \<Rightarrow> unit res" where
  "validate_root expected_uid v =
     (if \<not> is_dict v \<or> \<not> has_keys v (''path'' # IDENTITY_KEYS)
      then Inl (bootstrap_invalid ''Bootstrap root identity fields are incomplete'')
      else bindE (root_path (get_or v ''path'' JNull)) (\<lambda>_.
        thenE (forE IDENTITY_KEYS (\<lambda>name. raise_if
          (\<not> is_int_field v name (\<lambda>n. (if name = ''inode'' then 1 else 0) \<le> n \<and> n \<le> MAX_SAFE_INTEGER))
          (bootstrap_invalid ''Bootstrap root identity is malformed'')))
        (case expected_uid of None \<Rightarrow> Inr ()
         | Some uid \<Rightarrow> raise_if (int_of (fld v ''uid'') \<noteq> uid)
             (bootstrap_invalid ''Bootstrap root belongs to another admitted account''))))"

definition path_of :: "json \<Rightarrow> pystr" where
  "path_of root = str_of (fld root ''path'')"

definition inode_of :: "json \<Rightarrow> int \<times> int" where
  "inode_of root = (int_of (fld root ''device''), int_of (fld root ''inode''))"

text \<open>What \<open>validate_slots\<close> has seen so far.\<close>

record slots_acc =
  seen_ids :: "pystr list"
  seen_inodes :: "(int \<times> int) list"
  seen_paths :: "pystr list"

definition slot_root_step :: "json option \<Rightarrow> int option \<Rightarrow> pystr list \<Rightarrow> slots_acc \<Rightarrow> pystr \<times> json \<Rightarrow> slots_acc res" where
  "slot_root_step parents expected_uid denied acc entry = (case entry of (name, root) \<Rightarrow>
     thenE (validate_root expected_uid root)
     (thenE (case parents of None \<Rightarrow> Inr ()
        | Some ps \<Rightarrow> raise_if (\<not> prefix (str_of (dget ps name) @ [47]) (path_of root))
            (bootstrap_invalid ''Bootstrap slot would grant its profile parent or escape it''))
     (thenE (raise_if (inode_of root \<in> set (seen_inodes acc) \<or> (\<exists>old \<in> set (seen_paths acc). overlap (path_of root) old) \<or>
               (\<exists>old \<in> set denied. overlap (path_of root) old))
               (bootstrap_invalid ''Bootstrap slots alias, overlap, or enter a forbidden root''))
        (Inr (acc\<lparr>seen_inodes := inode_of root # seen_inodes acc, seen_paths := seen_paths acc @ [path_of root]\<rparr>)))))"

definition slot_step :: "json option \<Rightarrow> int option \<Rightarrow> pystr list \<Rightarrow> slots_acc \<Rightarrow> json \<Rightarrow> slots_acc res" where
  "slot_step parents expected_uid denied acc slot =
     (if \<not> (is_dict slot \<and> has_keys slot [''slot_id'', ''roots''] \<and>
            is_str_field slot ''slot_id'' (\<lambda>s. REF_PATTERN s \<and> s \<notin> set (seen_ids acc)) \<and>
            (case fld slot ''roots'' of Some (JObj rs) \<Rightarrow> has_keys (JObj rs) ROOT_NAMES | _ \<Rightarrow> False))
      then Inl (bootstrap_invalid ''Bootstrap slot identity is ambiguous'')
      else foldE (slot_root_step parents expected_uid denied)
        (acc\<lparr>seen_ids := str_of (fld slot ''slot_id'') # seen_ids acc\<rparr>) (items (get_or slot ''roots'' JNull)))"

definition validate_slots :: "json option \<Rightarrow> int option \<Rightarrow> json list \<Rightarrow> json \<Rightarrow> unit res" where
  "validate_slots parents expected_uid forbidden slots = (case slots of
     JList xs \<Rightarrow>
       if \<not> (1 \<le> length xs \<and> length xs \<le> 1024)
       then Inl (bootstrap_invalid ''A finite precreated bootstrap slot pool is required'')
       else thenE (case parents of None \<Rightarrow> Inr ()
         | Some ps \<Rightarrow> if \<not> is_dict ps \<or> \<not> has_keys ps ROOT_NAMES
             then Inl (bootstrap_invalid ''Bootstrap profile roots are incomplete'')
             else forE (jvalues ps) (\<lambda>p. bindE (root_path p) (\<lambda>_. Inr ())))
       (bindE (mapE root_path forbidden) (\<lambda>denied.
        bindE (foldE (slot_step parents expected_uid denied) \<lparr>seen_ids = [], seen_inodes = [], seen_paths = []\<rparr> xs)
          (\<lambda>_. Inr ())))
   | _ \<Rightarrow> Inl (bootstrap_invalid ''A finite precreated bootstrap slot pool is required''))"

section \<open>Grants\<close>

definition allocation_id :: "pystr \<Rightarrow> pystr \<Rightarrow> pystr \<Rightarrow> json \<Rightarrow> json \<Rightarrow> pystr" where
  "allocation_id ns record_id slot_id roots paths = json_digest (obj [(''namespace'', JStr ns), (''record_id'', JStr record_id),
     (''slot_id'', JStr slot_id), (''roots'', roots),
     (''paths'', mk_dict (map (\<lambda>p. (str_of (Some p), dat paths (str_of (Some p)))) (jvalues roots)))])"

text \<open>
  \<open>any(_overlap(path, other) for other in others)\<close> over values not checked yet: a value that is no
  string makes \<open>other + "/"\<close> raise \<open>TypeError\<close>.
\<close>

fun any_overlap :: "pystr \<Rightarrow> json list \<Rightarrow> bool res" where
  "any_overlap p [] = Inr False"
| "any_overlap p (v # vs) = (case v of
     JStr s \<Rightarrow> if overlap p s then Inr True else any_overlap p vs
   | _ \<Rightarrow> Inl (PyError ''TypeError''))"

fun disjoint_paths :: "json list \<Rightarrow> unit res" where
  "disjoint_paths [] = Inr ()"
| "disjoint_paths (v # vs) =
     bindE (root_path v) (\<lambda>p. bindE (any_overlap p vs) (\<lambda>b.
       if b then Inl bootstrap_unresolved else disjoint_paths vs))"

fun identities_ok :: "(int \<times> int) list \<Rightarrow> dict \<Rightarrow> unit res" where
  "identities_ok seen [] = Inr ()"
| "identities_ok seen ((path, ident) # rest) =
     (if \<not> is_dict ident \<or> \<not> has_keys ident IDENTITY_KEYS then Inl bootstrap_unresolved
      else thenE (validate_root None (JObj ((lit ''path'', JStr path) # items ident)))
        (if inode_of ident \<in> set seen \<or> (\<exists>other \<in> set (map fst rest). overlap path other) then Inl bootstrap_unresolved
         else identities_ok (inode_of ident # seen) rest))"

text \<open>The keyword arguments \<open>execution_id\<close>, \<open>phase\<close>, \<open>operation_id\<close>, \<open>namespace\<close> and \<open>record_id\<close>.\<close>

definition bound_to :: "expect \<Rightarrow> json \<Rightarrow> bool" where
  "bound_to x grant = (expected_field grant ''execution_id'' (x_execution_id x) \<and> expected_field grant ''phase'' (x_phase x) \<and>
     expected_field grant ''operation_id'' (x_operation_id x) \<and> expected_field grant ''namespace'' (x_namespace x) \<and>
     expected_field grant ''record_id'' (x_record_id x))"

definition bootstrap_shape :: "json \<Rightarrow> bool" where
  "bootstrap_shape grant =
     (is_dict grant \<and> has_keys grant BOOTSTRAP_GRANT_KEYS \<and> fld grant ''version'' = Some (JInt 1) \<and>
      is_str_field grant ''namespace'' (\<lambda>ns. case ROOT_PHASES ns of None \<Rightarrow> False
        | Some ps \<Rightarrow> is_str_field grant ''phase'' (\<lambda>p. p \<in> set ps)) \<and>
      (\<forall>name \<in> {''record_id'', ''operation_id'', ''execution_id'', ''slot_id''}.
         is_str_field grant name (\<lambda>s. 1 \<le> length s \<and> length s \<le> 256)) \<and>
      REF_PATTERN (str_of (fld grant ''slot_id'')) \<and>
      str_of (fld grant ''execution_id'') = execution_name (str_of (fld grant ''namespace''))
        (str_of (fld grant ''record_id'')) (str_of (fld grant ''phase'')) \<and>
      (fld grant ''namespace'' = Some (jlit ''job'') \<longrightarrow> fld grant ''record_id'' = fld grant ''operation_id'') \<and>
      fld grant ''fresh'' = Some (JBool (fld grant ''phase'' \<noteq> Some (jlit ''business''))))"

definition retained_ok :: "json \<Rightarrow> json \<Rightarrow> json \<Rightarrow> bool" where
  "retained_ok grant paths retained = (case retained of
     JList rs \<Rightarrow> is_dict paths \<and> length rs \<le> 1 \<and> (\<forall>r \<in> set rs. is_str r) \<and> distinct rs \<and>
       JStr ` set (jkeys paths) = set (jvalues (get_or grant ''roots'' JNull)) \<union> set rs \<and>
       set rs \<inter> set (jvalues (get_or grant ''roots'' JNull)) = {} \<and>
       (rs \<noteq> [] \<longrightarrow> fld grant ''phase'' = Some (jlit ''evidence''))
   | _ \<Rightarrow> False)"

definition validate_bootstrap :: "expect \<Rightarrow> json \<Rightarrow> unit res" where
  "validate_bootstrap x grant =
     thenE (raise_if (\<not> bootstrap_shape grant) bootstrap_unresolved)
     (thenE (raise_if (\<not> bound_to x grant) (bootstrap_invalid ''Bootstrap roots belong to another execution''))
     (thenE (forE [''roots'', ''source_roots''] (\<lambda>name.
        let roots = get_or grant name JNull in
        if \<not> is_dict roots \<or> \<not> has_keys roots ROOT_NAMES then Inl bootstrap_unresolved
        else disjoint_paths (jvalues roots)))
     (let paths = get_or grant ''paths'' JNull; retained = get_or grant ''retained_paths'' JNull in
      thenE (raise_if (\<not> retained_ok grant paths retained) bootstrap_unresolved)
     (thenE (identities_ok [] (items paths))
        (raise_if (get_or grant ''allocation_id'' JNull \<noteq> JStr (allocation_id (str_of (fld grant ''namespace''))
              (str_of (fld grant ''record_id'')) (str_of (fld grant ''slot_id'')) (get_or grant ''roots'' JNull) paths) \<or>
            get_or grant ''grant_digest'' JNull \<noteq> JStr (json_digest (dpop grant (lit ''grant_digest''))))
           (bootstrap_invalid ''Bootstrap root grant digest or slot binding differs''))))))"

section \<open>Leases\<close>

definition path_resource :: "pystr \<Rightarrow> pystr" where
  "path_resource path = lit ''bootstrap-path:'' @ path"

definition inode_resource :: "int \<times> int \<Rightarrow> pystr" where
  "inode_resource i = lit ''bootstrap-inode:'' @ print_int (fst i) @ lit '':'' @ print_int (snd i)"

definition lease_resources :: "json \<Rightarrow> pystr list" where
  "lease_resources grant = concat (map (\<lambda>v. let path = str_of (Some v); ident = dat (get_or grant ''paths'' JNull) path in
     [path_resource path, inode_resource (inode_of ident)]) (jvalues (get_or grant ''roots'' JNull)))"

definition bootstrap_owner :: "json \<Rightarrow> pystr" where
  "bootstrap_owner grant = lit ''bootstrap:'' @ str_of (fld grant ''allocation_id'')"

text \<open>\<open>str(parent) for parent in PurePosixPath(path).parents\<close>, for an absolute path.\<close>

definition path_parents :: "pystr \<Rightarrow> pystr list" where
  "path_parents path = map (\<lambda>n. 47 # join_slash (take n (posix_parts path))) (rev [0..<length (posix_parts path)])"

text \<open>
  A root is taken when the lease table holds its path, one of its ancestors, its inode, or, by the binary
  range query, a path below it.
\<close>

definition root_taken :: "db \<Rightarrow> json \<Rightarrow> bool" where
  "root_taken d root =
     (let key = path_resource (path_of root) in
      (\<exists>resource \<in> set (key # map path_resource (path_parents (path_of root)) @ [inode_resource (inode_of root)]).
         map_of (leases d) resource \<noteq> None) \<or>
      (\<exists>(resource, holder) \<in> set (leases d). key @ [47] \<le> resource \<and> resource < key @ [48]))"

definition slot_available :: "db \<Rightarrow> json \<Rightarrow> bool" where
  "slot_available d roots = (\<forall>root \<in> set (jvalues roots). \<not> root_taken d root)"

definition assert_reserved :: "json \<Rightarrow> unit act" where
  "assert_reserved grant =
     thenA (liftA (validate_bootstrap no_expect grant))
       (forA (lease_resources grant) (\<lambda>resource s.
          (if map_option fst (map_of (leases (sdb s)) resource) \<noteq> Some (bootstrap_owner grant)
           then raiseA (bootstrap_invalid ''Bootstrap root consumption is missing or belongs to another operation'')
           else returnA ()) s))"

section \<open>Reservation\<close>

text \<open>\<open>SELECT data_json FROM events WHERE ... ORDER BY seq DESC LIMIT 1\<close>\<close>

definition latest_event :: "db \<Rightarrow> pystr \<Rightarrow> pystr \<Rightarrow> pystr \<Rightarrow> event_row option" where
  "latest_event d ns i kind = (case filter (\<lambda>e. e_namespace e = ns \<and> e_id e = i \<and> e_kind e = kind) (events d) of
     [] \<Rightarrow> None
   | e # es \<Rightarrow> Some (fold (\<lambda>x best. if e_seq best < e_seq x then x else best) es e))"

text \<open>The grants recorded for the operation must be those of its last reservation event.\<close>

definition consumption_event :: "json \<Rightarrow> event_row option \<Rightarrow> unit res" where
  "consumption_event grants last_event = (case last_event of
     None \<Rightarrow> raise_if (items grants \<noteq> []) (bootstrap_invalid ''Bootstrap allocation has no durable consumption event'')
   | Some e \<Rightarrow>
       (case (case utf8_encode (e_data_json e) of
                None \<Rightarrow> Inl (bootstrap_invalid ''Bootstrap consumption event is malformed'')
              | Some bs \<Rightarrow> strict_loads MAX_REQUEST_BYTES (RawBytes bs)) of
          Inl (JobError _ _) \<Rightarrow> Inl (bootstrap_invalid ''Bootstrap consumption event is malformed'')
        | Inl e' \<Rightarrow> Inl e'
        | Inr historical \<Rightarrow> raise_if (\<not> jeq historical (obj [(''bootstrap_grants'', grants)]))
            (bootstrap_invalid ''Bootstrap consumption record differs from its immutable event'')))"

text \<open>\<open>{key: root[key] for key in _IDENTITY_KEYS}\<close>\<close>

definition identity_of :: "json \<Rightarrow> json" where
  "identity_of root = obj (map (\<lambda>key. (key, get_or root key JNull)) IDENTITY_KEYS)"

text \<open>A grant that already names a slot must still name the slot that is admitted.\<close>

definition rebound :: "json \<Rightarrow> json \<Rightarrow> bool" where
  "rebound inherited slot = (\<exists>(name, root) \<in> set (items (get_or slot ''roots'' JNull)).
     \<not> jeq (dat (get_or inherited ''roots'' JNull) name) (JStr (path_of root)) \<or>
     \<not> jeq (dat (get_or inherited ''paths'' JNull) (path_of root)) (identity_of root))"

definition inherited_grant :: "json \<Rightarrow> pystr \<Rightarrow> json option" where
  "inherited_grant grants phase = (case dget grants phase of
     Some g \<Rightarrow> if truthy g then Some g else if phase = lit ''business'' then fld grants ''preflight'' else None
   | None \<Rightarrow> if phase = lit ''business'' then fld grants ''preflight'' else None)"

definition select_slot :: "row \<Rightarrow> pystr \<Rightarrow> json list \<Rightarrow> json \<Rightarrow> (json option \<times> json) act" where
  "select_slot r phase slots grants = (case inherited_grant grants phase of
     Some inherited \<Rightarrow>
       thenA (liftA (validate_bootstrap (no_expect\<lparr>x_namespace := Some (namespace r), x_record_id := Some (identity r),
                x_operation_id := Some (parent r)\<rparr>) inherited))
       (thenA (assert_reserved inherited)
       (case find (\<lambda>slot. fld slot ''slot_id'' = fld inherited ''slot_id'') slots of
          None \<Rightarrow> raiseA (bootstrap_invalid ''Consumed bootstrap slot is no longer admitted'')
        | Some slot \<Rightarrow> if rebound inherited slot then raiseA (bootstrap_invalid ''Consumed bootstrap slot was rebound'')
            else returnA (Some inherited, slot)))
   | None \<Rightarrow>
       if phase = lit ''business'' then raiseA (bootstrap_invalid ''Business execution has no consumed preflight roots'')
       else (\<lambda>s. (case find (\<lambda>slot. slot_available (sdb s) (get_or slot ''roots'' JNull)) slots of
          None \<Rightarrow> raiseA (JobError ''LIMIT_EXCEEDED'' ''No unused precreated bootstrap root slot remains'')
        | Some slot \<Rightarrow> returnA (None, slot)) s))"

text \<open>The extra writer of the evidence phase, added to the paths of the slot.\<close>

definition add_extra :: "json \<times> json list \<Rightarrow> json \<Rightarrow> (json \<times> json list) res" where
  "add_extra acc root = (case acc of (paths, retained) \<Rightarrow>
     if dget paths (path_of root) \<noteq> None then Inl bootstrap_unresolved
     else Inr (dset paths (path_of root) (identity_of root), retained @ [JStr (path_of root)]))"

definition slot_roots :: "json \<Rightarrow> json" where
  "slot_roots slot = mk_dict (map (\<lambda>(name, root). (name, JStr (path_of root))) (items (get_or slot ''roots'' JNull)))"

definition slot_paths :: "json \<Rightarrow> json" where
  "slot_paths slot = mk_dict (map (\<lambda>root. (path_of root, identity_of root)) (jvalues (get_or slot ''roots'' JNull)))"

definition build_grant :: "row \<Rightarrow> pystr \<Rightarrow> json \<Rightarrow> json list \<Rightarrow> json res" where
  "build_grant r phase slot extras =
     (let roots = slot_roots slot; slot_id = str_of (fld slot ''slot_id'') in
      bindE (foldE add_extra (slot_paths slot, []) extras) (\<lambda>(paths, retained).
      bindE (sub (plan r) ''execution'') (\<lambda>execution.
      bindE (sub execution ''roots'') (\<lambda>source_roots.
      let grant = obj [(''version'', JInt 1), (''namespace'', JStr (namespace r)), (''record_id'', JStr (identity r)),
        (''operation_id'', JStr (parent r)), (''execution_id'', JStr (execution_name (namespace r) (identity r) phase)),
        (''phase'', JStr phase), (''slot_id'', JStr slot_id), (''roots'', roots), (''paths'', paths),
        (''retained_paths'', JList (map JStr (sort (map (\<lambda>v. str_of (Some v)) retained)))),
        (''fresh'', JBool (phase \<noteq> lit ''business'')), (''source_roots'', source_roots),
        (''allocation_id'', JStr (allocation_id (namespace r) (identity r) slot_id roots paths))] in
      let grant' = dset grant (lit ''grant_digest'') (JStr (json_digest grant)) in
      thenE (validate_bootstrap no_expect grant') (Inr grant')))))"

text \<open>\<open>INSERT INTO leases VALUES(?,?,?)\<close>; the resource is the primary key of the table.\<close>

definition insert_lease :: "pystr \<Rightarrow> pystr \<Rightarrow> int \<Rightarrow> unit act" where
  "insert_lease resource owner epoch s =
     (if map_of (leases (sdb s)) resource \<noteq> None then raiseA (SqliteError 1555)
      else modify_db (\<lambda>d. d\<lparr>leases := leases d @ [(resource, owner, epoch)]\<rparr>)) s"

definition recorded_grants :: "row \<Rightarrow> pystr \<Rightarrow> pystr list \<Rightarrow> json act" where
  "recorded_grants r phase phases =
     bindA (get (namespace r) (identity r)) (\<lambda>found. case found of
       None \<Rightarrow> raiseA bootstrap_unresolved
     | Some current \<Rightarrow>
         if parent current \<noteq> parent r \<or> digest current \<noteq> digest r then raiseA bootstrap_unresolved
         else let grants = get_or (rec current) ''bootstrap_grants'' (JObj []) in
           if \<not> is_dict grants \<or> \<not> set (jkeys grants) \<subseteq> set phases then raiseA bootstrap_unresolved
           else (\<lambda>s. thenA (liftA (consumption_event grants
                     (latest_event (sdb s) (namespace r) (identity r) (lit ''BOOTSTRAP_ROOTS_RESERVED''))))
             (thenA (liftA (forE (items grants) (\<lambda>(prior_phase, prior). validate_bootstrap
                  (no_expect\<lparr>x_namespace := Some (namespace r), x_record_id := Some (identity r),
                     x_operation_id := Some (parent r), x_phase := Some prior_phase\<rparr>) prior)))
               (returnA grants)) s))"

text \<open>A grant recorded before is returned unchanged; a new one consumes its slot and is recorded.\<close>

definition commit_grant :: "json \<Rightarrow> row \<Rightarrow> pystr \<Rightarrow> json \<Rightarrow> json option \<Rightarrow> json \<Rightarrow> json act" where
  "commit_grant now r phase grants inherited grant = (case dget grants phase of
     Some old \<Rightarrow> if \<not> jeq grant old then raiseA (bootstrap_invalid ''Bootstrap phase cannot be rebound'') else returnA grant
   | None \<Rightarrow>
       thenA (if inherited = None then forA (lease_resources grant) (\<lambda>resource. insert_lease resource (bootstrap_owner grant) 1)
              else returnA ())
       (bindA (update now (namespace r) (identity r) (lit ''BOOTSTRAP_ROOTS_RESERVED'')
                 [(lit ''bootstrap_grants'', dset grants phase grant)])
          (\<lambda>_. returnA grant)))"

definition reserve_roots :: "json \<Rightarrow> row \<Rightarrow> pystr \<Rightarrow> json \<Rightarrow> json option \<Rightarrow> json act" where
  "reserve_roots now r phase slots extra_roots =
     thenA (liftA (validate_slots None None [] slots))
     (case ROOT_PHASES (namespace r) of
        None \<Rightarrow> raiseA bootstrap_unresolved
      | Some phases \<Rightarrow>
        if phase \<notin> set phases then raiseA bootstrap_unresolved
        else let extras = (case extra_roots of None \<Rightarrow> JObj [] | Some e \<Rightarrow> e) in
          if \<not> is_dict extras \<or> \<not> set (jkeys extras) \<subseteq> {lit ''evidence_store''} \<or> (items extras \<noteq> [] \<and> phase \<noteq> lit ''evidence'')
          then raiseA (bootstrap_invalid ''Only an admitted evidence store may be an extra bootstrap writer'')
          else thenA (liftA (forE (jvalues extras) (validate_root None)))
          (bindA (recorded_grants r phase phases) (\<lambda>grants.
           bindA (select_slot r phase (case slots of JList xs \<Rightarrow> xs | _ \<Rightarrow> []) grants) (\<lambda>(inherited, slot).
           bindA (liftA (build_grant r phase slot (jvalues extras))) (\<lambda>grant.
             commit_grant now r phase grants inherited grant)))))"

section \<open>Binding an execution\<close>

text \<open>The first source root, in the order of the dictionary, that is the path or an ancestor of it.\<close>

fun map_path :: "dict \<Rightarrow> json \<Rightarrow> pystr \<Rightarrow> pystr" where
  "map_path [] target s = s"
| "map_path ((name, v) # rest) target s =
     (let path = str_of (Some v) in
      if s = path \<or> prefix (path @ [47]) s then str_of (dget target name) @ drop (length path) s
      else map_path rest target s)"

fun mapped :: "dict \<Rightarrow> json \<Rightarrow> json \<Rightarrow> json" where
  "mapped source target (JStr s) = JStr (map_path source target s)"
| "mapped source target (JList xs) = JList (map (mapped source target) xs)"
| "mapped source target (JObj kvs) = JObj (map (\<lambda>(k, v). (k, mapped source target v)) kvs)"
| "mapped source target v = v"

definition map_field :: "dict \<Rightarrow> json \<Rightarrow> string \<Rightarrow> json \<Rightarrow> json" where
  "map_field source target name d = (case fld d name of None \<Rightarrow> d | Some v \<Rightarrow> dset d (lit name) (mapped source target v))"

definition bind_execution :: "json \<Rightarrow> json \<Rightarrow> json res" where
  "bind_execution execution grant =
     thenE (validate_bootstrap no_expect grant)
     (if \<not> is_dict execution then Inl (PyError ''AttributeError'')
      else let source = get_or grant ''source_roots'' JNull; target = get_or grant ''roots'' JNull;
               roots = get_or execution ''roots'' JNull in
        if jeq roots target then Inr execution
        else if \<not> jeq roots source then Inl (bootstrap_invalid ''Execution roots do not match their admitted allocation source'')
        else let bound = fold (map_field (items source) target) [''stages'', ''writable'', ''environment'']
                           (dset execution (lit ''roots'') target)
          in Inr (if fld bound ''kind'' = Some (jlit ''ledger.prepare'') then map_field (items source) target ''prepared'' bound else bound))"

end
