(* ===== verification/BootstrapProps.thy ===== *)
theory BootstrapProps
  imports Bootstrap LedgerHistory "HOL-Library.Multiset"
begin

text \<open>
  What the root slots guarantee: a validated pool is pairwise disjoint, a consumed slot is never offered
  again, and an execution is bound to its granted directories once.
\<close>

section \<open>Absolute paths\<close>

lemma split_slash_append: "split_slash (a @ 47 # b) = split_slash a @ split_slash b"
proof (induction a)
  case (Cons c a)
  have "split_slash a \<noteq> []" by (cases a) (auto split: list.splits)
  with Cons show ?case by (auto split: list.splits simp: append_eq_Cons_conv)
qed simp

lemma posix_parts_append: "posix_parts (a @ 47 # b) = posix_parts a @ posix_parts b"
  by (simp add: posix_parts_def split_slash_append)

lemma path_text_join: "path_text p \<Longrightarrow> p = 47 # join_slash (posix_parts p)"
  by (simp add: path_text_def)

text \<open>A canonical path below another has it among its parents.\<close>

lemma parent_of_prefix:
  assumes "path_text p" "path_text q" "prefix (q @ [47]) p"
  shows "q \<in> set (path_parents p)"
proof -
  from assms(3) obtain t where p: "p = q @ 47 # t" by (auto simp: prefix_def)
  then have parts: "posix_parts p = posix_parts q @ posix_parts t" by (simp add: posix_parts_append)
  have "posix_parts t \<noteq> []"
  proof
    assume "posix_parts t = []"
    with parts have "posix_parts p = posix_parts q" by simp
    then have "p = q" using path_text_join [OF assms(1)] path_text_join [OF assms(2)] by simp
    with p show False by simp
  qed
  then have "length (posix_parts q) < length (posix_parts p)" by (simp add: parts)
  moreover have "q = 47 # join_slash (take (length (posix_parts q)) (posix_parts p))"
    using path_text_join [OF assms(2)] by (simp add: parts)
  ultimately show ?thesis by (auto simp: path_parents_def image_iff intro!: bexI [of _ "length (posix_parts q)"])
qed

text \<open>The range query of \<open>_available\<close> selects exactly the paths below the key.\<close>

lemma range_is_prefix: "k @ [47] \<le> r \<and> r < k @ [48] \<longleftrightarrow> prefix (k @ [47]) (r :: pystr)"
proof (induction k arbitrary: r)
  case Nil
  show ?case by (cases r) (auto simp: prefix_def)
next
  case (Cons a k)
  show ?case
  proof (cases r)
    case (Cons b r')
    then show ?thesis using Cons.IH [of r'] by auto
  qed auto
qed

section \<open>Taken roots\<close>

lemma overlap_taken:
  assumes "path_text (path_of root)" "path_text q" "overlap (path_of root) q"
    and "map_of (leases d) (path_resource q) \<noteq> None"
  shows "root_taken d root"
  using assms(3) unfolding overlap_def
proof (elim disjE)
  assume "path_of root = q"
  with assms(4) show ?thesis by (simp add: root_taken_def)
next
  assume "prefix (q @ [47]) (path_of root)"
  from parent_of_prefix [OF assms(1,2) this] assms(4) show ?thesis by (auto simp: root_taken_def Let_def)
next
  assume below: "prefix (path_of root @ [47]) q"
  from assms(4) obtain h where h: "(path_resource q, h) \<in> set (leases d)" by (auto dest: map_of_SomeD)
  have "prefix (path_resource (path_of root) @ [47]) (path_resource q)"
    using below by (simp add: path_resource_def)
  with h range_is_prefix [of "path_resource (path_of root)" "path_resource q"] show ?thesis
    unfolding root_taken_def Let_def by blast
qed

lemma inode_taken: "map_of (leases d) (inode_resource (inode_of root)) \<noteq> None \<Longrightarrow> root_taken d root"
  by (simp add: root_taken_def Let_def)

section \<open>Validated slots\<close>

lemma if_Inl_Inr_iff [res_simps]: "(if c then Inl e else m) = Inr x \<longleftrightarrow> \<not> c \<and> m = Inr x"
  by simp

lemma if_raiseA_iff [act_simps]: "(if c then raiseA e else m) s = (Inr x, s') \<longleftrightarrow> \<not> c \<and> m s = (Inr x, s')"
  by (simp add: raiseA_def)

lemma root_path_Inr: "root_path v = Inr p \<longleftrightarrow> v = JStr p \<and> path_text p"
  by (cases v) (auto simp: root_path_def)

lemma validate_root_facts:
  assumes "validate_root uid root = Inr ()"
  shows "fld root ''path'' = Some (JStr (path_of root)) \<and> path_text (path_of root) \<and>
    fld root ''device'' = Some (JInt (fst (inode_of root))) \<and> fld root ''inode'' = Some (JInt (snd (inode_of root)))"
proof -
  from assms obtain p where "root_path (get_or root ''path'' JNull) = Inr p"
    and all: "\<forall>name \<in> set IDENTITY_KEYS. is_int_field root name (\<lambda>n. (if name = ''inode'' then 1 else 0) \<le> n \<and> n \<le> MAX_SAFE_INTEGER)"
    unfolding validate_root_def res_simps by blast
  from all have ints: "is_int_field root ''device'' (\<lambda>n. 0 \<le> n \<and> n \<le> MAX_SAFE_INTEGER)"
      "is_int_field root ''inode'' (\<lambda>n. 1 \<le> n \<and> n \<le> MAX_SAFE_INTEGER)"
    by (simp_all add: IDENTITY_KEYS_def)
  note \<open>root_path (get_or root ''path'' JNull) = Inr p\<close>
  then have "get_or root ''path'' JNull = JStr p" "path_text p" by (simp_all add: root_path_Inr)
  then have "fld root ''path'' = Some (JStr p) \<and> path_text p"
    by (simp add: get_or_def split: option.splits)
  with ints show ?thesis
    by (auto simp: path_of_def inode_of_def is_int_field_def split: option.splits json.splits)
qed

definition apart :: "json \<Rightarrow> json \<Rightarrow> bool" where
  "apart a b = (\<not> overlap (path_of a) (path_of b) \<and> inode_of a \<noteq> inode_of b)"

lemma overlap_sym: "overlap a b = overlap b a"
  by (auto simp: overlap_def)

definition slot_root_ok :: "json option \<Rightarrow> int option \<Rightarrow> pystr list \<Rightarrow> pystr \<times> json \<Rightarrow> bool" where
  "slot_root_ok parents uid denied entry = (case entry of (name, root) \<Rightarrow>
     validate_root uid root = Inr () \<and>
     (\<forall>ps. parents = Some ps \<longrightarrow> prefix (str_of (dget ps name) @ [47]) (path_of root)) \<and>
     (\<forall>old \<in> set denied. \<not> overlap (path_of root) old))"

definition slots_inv :: "json option \<Rightarrow> int option \<Rightarrow> pystr list \<Rightarrow> (pystr \<times> json) list \<Rightarrow> slots_acc \<Rightarrow> bool" where
  "slots_inv parents uid denied entries acc =
     (seen_paths acc = map (path_of \<circ> snd) entries \<and> set (seen_inodes acc) = inode_of ` snd ` set entries \<and>
      sorted_wrt apart (map snd entries) \<and> (\<forall>e \<in> set entries. slot_root_ok parents uid denied e))"

lemma slots_inv_root:
  assumes inv: "slots_inv parents uid denied es acc"
    and step: "slot_root_step parents uid denied acc e = Inr acc'"
  shows "slots_inv parents uid denied (es @ [e]) acc'"
proof -
  obtain name root where e: "e = (name, root)" by (cases e)
  from step have ok: "slot_root_ok parents uid denied e"
    and new: "inode_of root \<notin> set (seen_inodes acc)" "\<forall>old \<in> set (seen_paths acc). \<not> overlap (path_of root) old"
    and acc': "acc' = acc\<lparr>seen_inodes := inode_of root # seen_inodes acc, seen_paths := seen_paths acc @ [path_of root]\<rparr>"
    unfolding slot_root_step_def e prod.case
    by (auto simp: res_simps slot_root_ok_def split: option.splits)
  have "apart x root" if "x \<in> snd ` set es" for x
  proof -
    from that inv have "inode_of x \<in> set (seen_inodes acc)" "path_of x \<in> set (seen_paths acc)"
      by (auto simp: slots_inv_def)
    with new show ?thesis by (auto simp: apart_def overlap_sym [of "path_of x"])
  qed
  with inv ok show ?thesis
    by (auto simp: slots_inv_def acc' e sorted_wrt_append)
qed

definition slot_entries :: "json \<Rightarrow> (pystr \<times> json) list" where
  "slot_entries slot = items (get_or slot ''roots'' JNull)"

lemma slots_inv_slot:
  assumes inv: "slots_inv parents uid denied (concat (map slot_entries xs)) acc"
    and step: "slot_step parents uid denied acc slot = Inr acc'"
  shows "slots_inv parents uid denied (concat (map slot_entries (xs @ [slot]))) acc'"
proof -
  from step have run: "foldE (slot_root_step parents uid denied)
      (acc\<lparr>seen_ids := str_of (fld slot ''slot_id'') # seen_ids acc\<rparr>) (slot_entries slot) = Inr acc'"
    by (simp add: slot_step_def slot_entries_def split: if_splits)
  have "slots_inv parents uid denied (concat (map slot_entries xs)) (acc\<lparr>seen_ids := str_of (fld slot ''slot_id'') # seen_ids acc\<rparr>)"
    using inv by (simp add: slots_inv_def)
  from foldE_history [where I = "slots_inv parents uid denied", OF slots_inv_root this run] show ?thesis by simp
qed

definition ids_inv :: "json list \<Rightarrow> slots_acc \<Rightarrow> bool" where
  "ids_inv xs acc = (seen_ids acc = rev (map (\<lambda>slot. str_of (fld slot ''slot_id'')) xs) \<and> distinct (seen_ids acc) \<and>
     (\<forall>slot \<in> set xs. has_keys (get_or slot ''roots'' JNull) ROOT_NAMES))"

lemma slot_root_ids: "slot_root_step parents uid denied acc e = Inr acc' \<Longrightarrow> seen_ids acc' = seen_ids acc"
  by (cases e) (auto simp: slot_root_step_def res_simps)

lemma ids_inv_slot:
  assumes "ids_inv xs acc" and "slot_step parents uid denied acc slot = Inr acc'"
  shows "ids_inv (xs @ [slot]) acc'"
proof -
  let ?acc = "acc\<lparr>seen_ids := str_of (fld slot ''slot_id'') # seen_ids acc\<rparr>"
  from assms(2) have guard: "is_str_field slot ''slot_id'' (\<lambda>s. REF_PATTERN s \<and> s \<notin> set (seen_ids acc))"
      "case fld slot ''roots'' of Some (JObj rs) \<Rightarrow> has_keys (JObj rs) ROOT_NAMES | _ \<Rightarrow> False"
    and run: "foldE (slot_root_step parents uid denied) ?acc (items (get_or slot ''roots'' JNull)) = Inr acc'"
    by (simp_all add: slot_step_def split: if_splits)
  have "seen_ids acc' = seen_ids ?acc"
    by (rule foldE_invariant [where P = "\<lambda>a. seen_ids a = seen_ids ?acc", OF _ refl run]) (simp add: slot_root_ids)
  with assms(1) guard show ?thesis
    by (auto simp: ids_inv_def is_str_field_def str_of_def get_or_def split: option.splits json.splits)
qed

lemma validate_slots_facts:
  assumes "validate_slots parents uid forbidden (JList xs) = Inr ()"
  obtains denied acc where "mapE root_path forbidden = Inr denied" "slots_inv parents uid denied (concat (map slot_entries xs)) acc"
    "ids_inv xs acc"
proof -
  from assms obtain denied acc where d: "mapE root_path forbidden = Inr denied"
    and run: "foldE (slot_step parents uid denied) \<lparr>seen_ids = [], seen_inodes = [], seen_paths = []\<rparr> xs = Inr acc"
    by (auto simp: validate_slots_def res_simps split: if_splits)
  have "slots_inv parents uid denied (concat (map slot_entries ([] @ xs))) acc"
    by (rule foldE_history [where I = "\<lambda>ys. slots_inv parents uid denied (concat (map slot_entries ys))", OF slots_inv_slot _ run])
      (auto simp: slots_inv_def)
  moreover have "ids_inv ([] @ xs) acc"
    by (rule foldE_history [where I = ids_inv, OF ids_inv_slot _ run]) (auto simp: ids_inv_def)
  ultimately show thesis using d by (intro that) simp_all
qed

text \<open>C37. The slots of a validated pool are independent.  No two slots share an identifier; every root has a
  canonical path strictly below the parent of its name and outside every forbidden root; and no two roots
  of the pool, in the same slot or in different ones, are equal, nested or the same inode.\<close>

theorem slots_disjoint:
  assumes "validate_slots (Some parents) (Some uid) forbidden (JList xs) = Inr ()"
  shows "distinct (map (\<lambda>slot. str_of (fld slot ''slot_id'')) xs) \<and>
    sorted_wrt (\<lambda>a b. \<not> overlap (path_of a) (path_of b) \<and> inode_of a \<noteq> inode_of b)
      (concat (map (\<lambda>slot. jvalues (get_or slot ''roots'' JNull)) xs)) \<and>
    (\<forall>slot \<in> set xs. \<forall>(name, root) \<in> set (items (get_or slot ''roots'' JNull)).
       path_text (path_of root) \<and> prefix (str_of (dget parents name) @ [47]) (path_of root) \<and>
       (\<forall>v \<in> set forbidden. \<not> overlap (path_of root) (str_of (Some v))))"
proof -
  from assms obtain denied acc where d: "mapE root_path forbidden = Inr denied"
    and inv: "slots_inv (Some parents) (Some uid) denied (concat (map slot_entries xs)) acc" and ids: "ids_inv xs acc"
    by (rule validate_slots_facts)
  have denied: "str_of (Some v) \<in> set denied" if v: "v \<in> set forbidden" for v
  proof -
    from v obtain i where i: "i < length forbidden" "forbidden ! i = v" by (auto simp: in_set_conv_nth)
    with d have "root_path v = Inr (denied ! i)" "i < length denied" by (auto simp: mapE_Inr_iff)
    then show ?thesis by (auto simp: root_path_Inr)
  qed
  have "path_text (path_of root) \<and> prefix (str_of (dget parents name) @ [47]) (path_of root) \<and>
       (\<forall>v \<in> set forbidden. \<not> overlap (path_of root) (str_of (Some v)))"
    if "slot \<in> set xs" "(name, root) \<in> set (slot_entries slot)" for slot name root
  proof -
    have "(name, root) \<in> set (concat (map slot_entries xs))" using that by auto
    with inv have "slot_root_ok (Some parents) (Some uid) denied (name, root)" unfolding slots_inv_def by blast
    then show ?thesis using denied validate_root_facts [of "Some uid" root] by (auto simp: slot_root_ok_def)
  qed
  moreover have "map snd (concat (map slot_entries xs)) = concat (map (\<lambda>slot. jvalues (get_or slot ''roots'' JNull)) xs)"
    by (induction xs) (auto simp: slot_entries_def jvalues_def)
  with inv have "sorted_wrt apart (concat (map (\<lambda>slot. jvalues (get_or slot ''roots'' JNull)) xs))"
    by (simp add: slots_inv_def)
  moreover have "distinct (map (\<lambda>slot. str_of (fld slot ''slot_id'')) xs)"
    using ids by (auto simp: ids_inv_def)
  ultimately show ?thesis by (auto simp: apart_def [abs_def] slot_entries_def)
qed

section \<open>Leases that stay\<close>

text \<open>A lease that is held is untouched by the writers of rows and by every other owner.\<close>

interpretation lease_rows: ledger_rows "\<lambda>d. map_of (leases d) res = Some h" for res h
  by unfold_locales (simp_all add: add_event_def put_record_def)

abbreviation lease_held :: "pystr \<Rightarrow> pystr \<times> int \<Rightarrow> store \<Rightarrow> bool" where
  "lease_held res h s \<equiv> map_of (leases (sdb s)) res = Some h"

lemma keeps_lease_insert: "keepsA (lease_held res h) (insert_lease resource owner epoch)"
  by (auto simp: keepsA_def insert_lease_def raiseA_def modify_db_def map_add_def split: option.splits)

lemma keeps_lease_acquire: "keepsA (lease_held res h) (acquire al owner epoch resources)"
  unfolding acquire_def Let_def
  by (intro keepsA_bindA keepsA_pure keepsA_if keepsA_thenA keepsA_forA)
    (auto simp: keepsA_def check_lease_def raiseA_def returnA_def claim_lease_def modify_db_def map_add_def
      split: option.splits if_splits)

lemma map_of_filter_keeps: "map_of xs k = Some v \<Longrightarrow> P (k, v) \<Longrightarrow> map_of (filter P xs) k = Some v"
  by (induction xs) (auto split: if_splits)

lemma keeps_lease_release: "owner \<noteq> fst h \<Longrightarrow> keepsA (lease_held res h) (release owner a b c)"
  unfolding release_def
  by (intro keepsA_if keepsA_pure)
    (auto simp: keepsA_def modify_db_def drop_leases_def intro!: map_of_filter_keeps)

lemma keeps_test: "keepsA P (\<lambda>s. (if c s then raiseA e else returnA x) s)"
  by (auto simp: keepsA_def raiseA_def returnA_def)

lemma keeps_find: "keepsA P (\<lambda>s. (case g s of None \<Rightarrow> raiseA e | Some x \<Rightarrow> returnA (f x)) s)"
  by (auto simp: keepsA_def raiseA_def returnA_def split: option.splits)

lemma keeps_check: "keepsA P m \<Longrightarrow> keepsA P (\<lambda>s. thenA (liftA (f s)) m s)"
  by (auto simp: keepsA_def thenA_def bindA_def liftA_def split: sum.splits)

lemma keeps_assert_reserved: "keepsA P (assert_reserved grant)"
  unfolding assert_reserved_def by (intro keepsA_thenA keepsA_forA keepsA_pure keeps_test)

lemma keeps_select_slot: "keepsA P (select_slot r phase slots grants)"
  unfolding select_slot_def
  by (intro keepsA_option keepsA_thenA keepsA_pure keeps_assert_reserved keepsA_if keeps_find)

lemma keeps_recorded: "keepsA (\<lambda>s. Q (sdb s)) (get ns i) \<Longrightarrow> ns = namespace r \<Longrightarrow> i = identity r \<Longrightarrow>
    keepsA (\<lambda>s. Q (sdb s)) (recorded_grants r phase phases)"
  unfolding recorded_grants_def Let_def
  by (intro keepsA_bindA keepsA_option keepsA_if keepsA_pure keeps_check keepsA_thenA) simp

lemma keeps_split: "(\<And>a b. x = (a, b) \<Longrightarrow> keepsA P (f a b)) \<Longrightarrow> keepsA P (case x of (a, b) \<Rightarrow> f a b)"
  by (cases x) simp

lemma keeps_lease_reserve: "keepsA (lease_held res h) (reserve_roots now r phase slots extra)"
  unfolding reserve_roots_def commit_grant_def Let_def
  by (intro keepsA_bindA keepsA_option keepsA_if keepsA_pure keepsA_thenA keeps_recorded [OF _ refl refl] keeps_split
      keeps_select_slot lease_rows.keeps_get lease_rows.keeps_update keepsA_forA keeps_lease_insert)

lemma insert_leases_held:
  assumes "forA rs (\<lambda>res. insert_lease res owner epoch) s = (Inr u, s')" and "res \<in> set rs"
  shows "map_of (leases (sdb s')) res = Some (owner, epoch)"
  using assms
proof (induction rs arbitrary: s)
  case (Cons a rs)
  from Cons.prems(1) obtain t where t: "insert_lease a owner epoch s = (Inr (), t)"
    and rest: "forA rs (\<lambda>res. insert_lease res owner epoch) t = (Inr u, s')"
    by (auto simp: act_simps)
  from t have "lease_held a (owner, epoch) t"
    by (auto simp: insert_lease_def raiseA_def modify_db_def map_add_def split: option.splits if_splits)
  from keepsA_D [OF keepsA_forA [OF keeps_lease_insert] this rest] have "lease_held a (owner, epoch) s'" .
  with Cons rest show ?case by auto
qed simp

section \<open>Reservation consumes the slot\<close>

text \<open>Dictionaries that Python calls equal have equal entries.\<close>

lemma jeq_dget:
  assumes "jeq v (JObj b)" and "distinct (map fst b)"
  shows "map_option norm (dget v k) = map_option norm (map_of b k)"
proof -
  from assms(1) obtain a where v: "v = JObj a"
    and eq: "sort_key fst (map (\<lambda>(k, x). (k, norm x)) a) = sort_key fst (map (\<lambda>(k, x). (k, norm x)) b)"
    by (cases v) (auto simp: jeq_def)
  have "mset (map (\<lambda>(k, x). (k, norm x)) a) = mset (map (\<lambda>(k, x). (k, norm x)) b)"
    using arg_cong [OF eq, of mset] by simp
  then have "mset (map fst (map (\<lambda>(k, x). (k, norm x)) a)) = mset (map fst (map (\<lambda>(k, x). (k, norm x)) b))"
    by (simp only: mset_map)
  then have "mset (map fst a) = mset (map fst b)" by (simp only: sort_keys_map_fst)
  then have "distinct (map fst a)" using assms(2) mset_eq_imp_distinct_iff by blast
  then have "map_of (map (\<lambda>(k, x). (k, norm x)) a) k = map_of (map (\<lambda>(k, x). (k, norm x)) b) k"
    using arg_cong [OF eq, of "\<lambda>l. map_of l k"] assms(2) by (simp only: map_of_sort_key distinct_map_snd)
  then show ?thesis by (simp only: v map_of_map_snd dget_JObj)
qed

lemma int_of_norm: "map_option norm a = map_option norm b \<Longrightarrow> a = Some (JInt m) \<Longrightarrow> b = Some (JInt n) \<Longrightarrow> m = n"
  by auto

lemma dget_mk_dict: "dget (mk_dict kvs) k = map_of (rev kvs) k"
proof -
  have "map_of (fold (\<lambda>(k, v). AList.update k v) kvs d) k = (case map_of (rev kvs) k of None \<Rightarrow> map_of d k | Some x \<Rightarrow> Some x)" for d
    by (induction kvs arbitrary: d) (auto simp: map_add_def split: option.splits)
  then show ?thesis by (auto simp: mk_dict_def split: option.splits)
qed

lemma set_jvalues_mk_dict: "set (jvalues (mk_dict kvs)) \<subseteq> snd ` set kvs"
proof -
  have "set (fold (\<lambda>(k, v). AList.update k v) kvs d) \<subseteq> set d \<union> set kvs" for d
  proof (induction kvs arbitrary: d)
    case (Cons x kvs)
    have "set (AList.update k v d) \<subseteq> insert (k, v) (set d)" for k v d
      by (induction d) auto
    with Cons show ?case by (cases x) fastforce
  qed simp
  from this [of "[]"] show ?thesis by (auto simp: jvalues_def items_def mk_dict_def)
qed

lemma int_of_get_or [simp]: "int_of (Some (get_or v k JNull)) = int_of (fld v k)"
  by (auto simp: get_or_def int_of_def split: option.splits)

lemma inode_of_identity [simp]: "inode_of (identity_of root) = inode_of root"
  by (simp add: inode_of_def identity_of_def IDENTITY_KEYS_def)

lemma slot_facts:
  assumes "validate_slots None None [] (JList xs) = Inr ()" and "slot \<in> set xs"
  shows "distinct (map path_of (jvalues (get_or slot ''roots'' JNull)))"
    and "\<forall>root \<in> set (jvalues (get_or slot ''roots'' JNull)). validate_root None root = Inr ()"
proof -
  from validate_slots_facts [OF assms(1)] obtain acc where
    inv: "slots_inv None None [] (concat (map slot_entries xs)) acc" by (metis mapE.simps(1) sum.inject(2))
  from assms(2) obtain a b where xs: "xs = a @ slot # b" by (auto simp: in_set_conv_decomp)
  have "sorted_wrt apart (jvalues (get_or slot ''roots'' JNull))"
    using inv by (simp add: slots_inv_def xs sorted_wrt_append jvalues_def slot_entries_def)
  moreover have "distinct (map path_of rs)" if "sorted_wrt apart rs" for rs
    using that by (induction rs) (auto simp: apart_def overlap_def)
  ultimately show "distinct (map path_of (jvalues (get_or slot ''roots'' JNull)))" by blast
  show "\<forall>root \<in> set (jvalues (get_or slot ''roots'' JNull)). validate_root None root = Inr ()"
    using inv by (auto simp: slots_inv_def xs jvalues_def slot_entries_def slot_root_ok_def)
qed

lemma extras_keep:
  assumes "foldE add_extra (paths, ret) extras = Inr (paths', ret')" and "is_dict paths" and "dget paths k = Some x"
  shows "dget paths' k = Some x"
proof -
  have "is_dict (fst (paths', ret')) \<and> dget (fst (paths', ret')) k = Some x"
    by (rule foldE_invariant [where P = "\<lambda>a. is_dict (fst a) \<and> dget (fst a) k = Some x", OF _ _ assms(1)])
      (auto simp: add_extra_def assms(2,3) split: if_splits)
  then show ?thesis by simp
qed

definition root_resources :: "json \<Rightarrow> pystr set" where
  "root_resources root = {path_resource (path_of root), inode_resource (inode_of root)}"

lemma build_grant_roots:
  assumes "build_grant r phase slot extras = Inr grant"
  obtains paths ret where "foldE add_extra (slot_paths slot, []) extras = Inr (paths, ret)"
    "get_or grant ''roots'' JNull = slot_roots slot" "get_or grant ''paths'' JNull = paths"
    "validate_bootstrap no_expect grant = Inr ()"
  using assms unfolding build_grant_def Let_def
  by (auto simp: res_simps get_or_def split: prod.splits)

lemma build_grant_resources:
  assumes "build_grant r phase slot extras = Inr grant" and "distinct (map path_of (jvalues (get_or slot ''roots'' JNull)))"
  shows "set (lease_resources grant) \<subseteq> (\<Union>root \<in> set (jvalues (get_or slot ''roots'' JNull)). root_resources root)"
proof -
  from assms(1) obtain paths ret where ex: "foldE add_extra (slot_paths slot, []) extras = Inr (paths, ret)"
    and g: "get_or grant ''roots'' JNull = slot_roots slot" "get_or grant ''paths'' JNull = paths"
    by (rule build_grant_roots)
  have look: "dat paths (path_of root) = identity_of root" if "root \<in> set (jvalues (get_or slot ''roots'' JNull))" for root
  proof -
    let ?kvs = "map (\<lambda>root. (path_of root, identity_of root)) (jvalues (get_or slot ''roots'' JNull))"
    have "distinct (map fst (rev ?kvs))" using assms(2) by (simp add: comp_def rev_map [symmetric])
    then have "dget (slot_paths slot) (path_of root) = Some (identity_of root)"
      using that by (simp add: slot_paths_def dget_mk_dict map_of_eq_Some_iff)
    from extras_keep [OF ex _ this] show ?thesis by (simp add: dat_def slot_paths_def mk_dict_def)
  qed
  have "\<exists>root \<in> set (jvalues (get_or slot ''roots'' JNull)). v = JStr (path_of root)" if "v \<in> set (jvalues (slot_roots slot))" for v
  proof -
    from that set_jvalues_mk_dict have "v \<in> snd ` set (map (\<lambda>(name, root). (name, JStr (path_of root))) (items (get_or slot ''roots'' JNull)))"
      unfolding slot_roots_def by blast
    then show ?thesis by (force simp: jvalues_def)
  qed
  then show ?thesis using look by (fastforce simp: lease_resources_def g Let_def root_resources_def)
qed

lemma validate_bootstrap_paths:
  assumes "validate_bootstrap x grant = Inr ()"
  shows "disjoint_paths (jvalues (get_or grant ''roots'' JNull)) = Inr ()"
    and "identities_ok [] (items (get_or grant ''paths'' JNull)) = Inr ()"
  using assms unfolding validate_bootstrap_def Let_def res_simps by simp_all

lemma disjoint_paths_text: "disjoint_paths vs = Inr () \<Longrightarrow> v \<in> set vs \<Longrightarrow> path_text (str_of (Some v))"
  by (induction vs) (auto simp: res_simps root_path_Inr)

lemma identities_ok_ints:
  "identities_ok seen kvs = Inr () \<Longrightarrow> (p, v) \<in> set kvs \<Longrightarrow>
     fld v ''device'' = Some (JInt (fst (inode_of v))) \<and> fld v ''inode'' = Some (JInt (snd (inode_of v)))"
proof (induction seen kvs rule: identities_ok.induct)
  case (2 seen path ident rest)
  from "2.prems"(1) have ok: "validate_root None (JObj ((lit ''path'', JStr path) # items ident)) = Inr ()"
    and d: "is_dict ident" and rest: "identities_ok (inode_of ident # seen) rest = Inr ()"
    and keys: "has_keys ident IDENTITY_KEYS"
    and new: "\<not> (inode_of ident \<in> set seen \<or> (\<exists>other \<in> set (map fst rest). overlap path other))"
    unfolding identities_ok.simps res_simps by blast+
  show ?case
  proof (cases "(p, v) = (path, ident)")
    case True
    with validate_root_facts [OF ok] d show ?thesis by (auto simp: is_dict_iff items_def inode_of_def)
  next
    case False
    with "2.prems"(2) have "(p, v) \<in> set rest" by auto
    from "2.IH" [OF _ new rest this] d keys show ?thesis by simp
  qed
qed simp

lemma not_rebound_resources:
  assumes ok: "validate_bootstrap x inherited = Inr ()" and same: "\<not> rebound inherited slot"
    and root: "root \<in> set (jvalues (get_or slot ''roots'' JNull))" "validate_root None root = Inr ()"
  shows "root_resources root \<subseteq> set (lease_resources inherited)"
proof -
  from root(1) obtain name where entry: "(name, root) \<in> set (items (get_or slot ''roots'' JNull))"
    by (auto simp: jvalues_def)
  with same have j: "jeq (dat (get_or inherited ''roots'' JNull) name) (JStr (path_of root))"
      "jeq (dat (get_or inherited ''paths'' JNull) (path_of root)) (identity_of root)"
    by (auto simp: rebound_def)
  from j(1) have "dat (get_or inherited ''roots'' JNull) name = JStr (path_of root)" by (simp add: jeq_JStr_right)
  then have in_roots: "JStr (path_of root) \<in> set (jvalues (get_or inherited ''roots'' JNull))"
    by (cases "get_or inherited ''roots'' JNull")
      (force simp: dat_def dget_def jvalues_def items_def dest: map_of_SomeD split: option.splits)+
  define ident where "ident = dat (get_or inherited ''paths'' JNull) (path_of root)"
  have "ident \<noteq> JNull" using j(2) by (auto simp: ident_def [symmetric] identity_of_def obj_def jeq_def)
  then have "(path_of root, ident) \<in> set (items (get_or inherited ''paths'' JNull))"
    by (cases "get_or inherited ''paths'' JNull")
      (auto simp: ident_def dat_def dget_def items_def dest: map_of_SomeD split: option.splits)
  from identities_ok_ints [OF validate_bootstrap_paths(2) [OF ok] this]
  have ints: "fld ident ''device'' = Some (JInt (fst (inode_of ident)))" "fld ident ''inode'' = Some (JInt (snd (inode_of ident)))"
    by simp_all
  have look: "map_option norm (fld ident k) = map_option norm (fld (identity_of root) k)" for k
    using jeq_dget [OF j(2) [unfolded identity_of_def obj_def]]
    by (simp add: ident_def identity_of_def obj_def IDENTITY_KEYS_def)
  have "inode_of ident = inode_of root"
    using look [of "''device''"] look [of "''inode''"] ints validate_root_facts [OF root(2)]
    by (simp add: identity_of_def IDENTITY_KEYS_def get_or_def prod_eq_iff)
  with in_roots show ?thesis
    by (force simp: root_resources_def lease_resources_def ident_def Let_def)
qed

text \<open>Every resource of the grant is leased to some allocation.\<close>

definition consumed :: "db \<Rightarrow> json \<Rightarrow> bool" where
  "consumed d grant = (\<forall>res \<in> set (lease_resources grant). \<exists>a ep. map_of (leases d) res = Some (lit ''bootstrap:'' @ a, ep))"

lemma assert_reserved_consumed:
  assumes "assert_reserved grant s = (Inr u, s')"
  shows "s' = s" "consumed (sdb s) grant" "validate_bootstrap no_expect grant = Inr ()"
proof -
  let ?ok = "\<lambda>res. map_option fst (map_of (leases (sdb s)) res) = Some (bootstrap_owner grant)"
  from assms show "validate_bootstrap no_expect grant = Inr ()"
    by (auto simp: assert_reserved_def act_simps)
  have check: "forA rs (\<lambda>resource s. (if map_option fst (map_of (leases (sdb s)) resource) \<noteq> Some (bootstrap_owner grant)
        then raiseA (bootstrap_invalid ''Bootstrap root consumption is missing or belongs to another operation'')
        else returnA ()) s) s =
      (if \<forall>res \<in> set rs. ?ok res then (Inr (), s)
       else (Inl (bootstrap_invalid ''Bootstrap root consumption is missing or belongs to another operation''), s))" for rs
    by (rule forA_check) (simp add: raiseA_def returnA_def)
  from assms check [of "lease_resources grant"] show "s' = s"
    by (auto simp: assert_reserved_def act_simps split: if_splits)
  from assms check [of "lease_resources grant"] have "\<forall>res \<in> set (lease_resources grant). ?ok res"
    by (auto simp: assert_reserved_def act_simps split: if_splits)
  then show "consumed (sdb s) grant" by (fastforce simp: consumed_def bootstrap_owner_def)
qed

lemma select_slot_cases:
  assumes "select_slot r phase slots grants s = (Inr (inherited, slot), s')"
  obtains (inherits) g where "inherited = Some g" "slot \<in> set slots" "s' = s" "consumed (sdb s) g" "\<not> rebound g slot"
      "validate_bootstrap no_expect g = Inr ()"
    | (fresh) "inherited = None" "slot \<in> set slots" "s' = s" "inherited_grant grants phase = None"
proof (cases "inherited_grant grants phase")
  case None
  with assms show thesis
    by (intro fresh) (auto simp: select_slot_def raiseA_def returnA_def find_Some_iff split: if_splits option.splits)
next
  case (Some g)
  with assms obtain t where t: "assert_reserved g s = (Inr (), t)"
    and rest: "(case find (\<lambda>slot. fld slot ''slot_id'' = fld g ''slot_id'') slots of
          None \<Rightarrow> raiseA (bootstrap_invalid ''Consumed bootstrap slot is no longer admitted'')
        | Some slot \<Rightarrow> if rebound g slot then raiseA (bootstrap_invalid ''Consumed bootstrap slot was rebound'')
            else returnA (Some g, slot)) t = (Inr (inherited, slot), s')"
    by (auto simp: select_slot_def act_simps)
  from rest have "inherited = Some g" "slot \<in> set slots" "\<not> rebound g slot" "s' = t"
    by (auto simp: raiseA_def returnA_def find_Some_iff split: option.splits if_splits)
  with assert_reserved_consumed [OF t] show thesis by (intro inherits) auto
qed

lemma update_leases: "update now ns i event changes s = (r, s') \<Longrightarrow> lease_held res h s \<Longrightarrow> lease_held res h s'"
  using keepsA_D [OF lease_rows.keeps_update] .

lemma update_consumed: "update now ns i event changes s = (r, s') \<Longrightarrow> consumed (sdb s) g \<Longrightarrow> consumed (sdb s') g"
  unfolding consumed_def using update_leases by blast

lemma recorded_grants_truthy:
  assumes "recorded_grants r phase phases s = (Inr grants, t)" and "dget grants k = Some g"
  shows "truthy g"
proof -
  from assms(1) have "forE (items grants) (\<lambda>(prior_phase, prior). validate_bootstrap
      (no_expect\<lparr>x_namespace := Some (namespace r), x_record_id := Some (identity r),
         x_operation_id := Some (parent r), x_phase := Some prior_phase\<rparr>) prior) = Inr ()"
    unfolding recorded_grants_def Let_def bindA_Inr_iff
    by (auto simp: thenA_Inr_iff liftA_iff returnA_iff raiseA_iff if_raiseA_iff split: option.splits)
  then have all: "\<forall>(p, g) \<in> set (items grants). \<exists>x. validate_bootstrap x g = Inr ()"
    unfolding forE_Inr_iff by fast
  have "(k, g) \<in> set (items grants)"
    using assms(2) by (cases grants) (auto simp: items_def dest: map_of_SomeD simp: dget_def)
  with all obtain x where "validate_bootstrap x g = Inr ()" by fast
  then have "bootstrap_shape g" by (auto simp: validate_bootstrap_def res_simps)
  then have "is_dict g" "fld g ''version'' = Some (JInt 1)" by (auto simp: bootstrap_shape_def)
  then show ?thesis by (auto simp: is_dict_iff)
qed

lemma reserve_roots_cases:
  assumes "reserve_roots now r phase slots extra s = (Inr grant, s')"
  obtains xs phases grants inherited slot t u extras where "slots = JList xs" "validate_slots None None [] (JList xs) = Inr ()"
    "recorded_grants r phase phases s = (Inr grants, t)"
    "select_slot r phase xs grants t = (Inr (inherited, slot), u)" "build_grant r phase slot extras = Inr grant"
    "commit_grant now r phase grants inherited grant u = (Inr grant, s')"
proof -
  from assms have ok: "validate_slots None None [] slots = Inr ()"
    by (auto simp: reserve_roots_def act_simps)
  then obtain xs where xs: "slots = JList xs" by (cases slots) (auto simp: validate_slots_def)
  from assms obtain phases where ph: "ROOT_PHASES (namespace r) = Some phases"
    by (cases "ROOT_PHASES (namespace r)") (auto simp: reserve_roots_def act_simps)
  have "\<exists>ex. bindA (recorded_grants r phase phases) (\<lambda>grants. bindA (select_slot r phase xs grants) (\<lambda>(inherited, slot).
      bindA (liftA (build_grant r phase slot (jvalues ex))) (\<lambda>grant. commit_grant now r phase grants inherited grant))) s = (Inr grant, s')"
    using assms ph xs unfolding reserve_roots_def Let_def
    by (simp only: option.case json.case thenA_Inr_iff liftA_iff if_raiseA_iff simp_thms) blast
  then obtain ex grants t inherited slot u g where run: "recorded_grants r phase phases s = (Inr grants, t)"
    "select_slot r phase xs grants t = (Inr (inherited, slot), u)" "build_grant r phase slot (jvalues ex) = Inr g"
    "commit_grant now r phase grants inherited g u = (Inr grant, s')"
    by (force simp: bindA_Inr_iff liftA_iff)
  moreover have "g = grant"
    using run(4) by (auto simp: commit_grant_def act_simps raiseA_def returnA_def split: option.splits if_splits)
  ultimately show thesis using ok xs by (intro that) auto
qed

lemma commit_grant_cases:
  assumes "commit_grant now r phase grants inherited grant u = (Inr grant, s')"
  obtains (again) old where "dget grants phase = Some old" "s' = u"
    | (new) w d v where "dget grants phase = None" "inherited = None"
        "forA (lease_resources grant) (\<lambda>resource. insert_lease resource (bootstrap_owner grant) 1) u = (Inr (), w)"
        "update now (namespace r) (identity r) (lit ''BOOTSTRAP_ROOTS_RESERVED'') d w = (Inr v, s')"
    | (inherited) g d v where "inherited = Some g"
        "update now (namespace r) (identity r) (lit ''BOOTSTRAP_ROOTS_RESERVED'') d u = (Inr v, s')"
  using assms unfolding commit_grant_def
  by (cases "dget grants phase"; cases inherited) (auto simp: act_simps raiseA_def returnA_def split: if_splits)

lemma reserve_roots_consumes:
  assumes "reserve_roots now r phase slots extra s = (Inr grant, s')"
  shows "consumed (sdb s') grant" "validate_bootstrap no_expect grant = Inr ()"
proof -
  from assms obtain xs phases grants inherited slot t u extras where xs: "validate_slots None None [] (JList xs) = Inr ()"
    and recorded: "recorded_grants r phase phases s = (Inr grants, t)"
    and sel: "select_slot r phase xs grants t = (Inr (inherited, slot), u)"
    and build: "build_grant r phase slot extras = Inr grant"
    and commit: "commit_grant now r phase grants inherited grant u = (Inr grant, s')"
    by (rule reserve_roots_cases)
  from build show "validate_bootstrap no_expect grant = Inr ()" by (rule build_grant_roots)
  have slot: "slot \<in> set xs" using sel by (rule select_slot_cases) auto
  have inh: "consumed (sdb u) grant" if g: "inherited = Some g" for g
    using sel
  proof (cases rule: select_slot_cases)
    case (inherits g')
    have "set (lease_resources grant) \<subseteq> set (lease_resources g')"
      using build_grant_resources [OF build slot_facts(1) [OF xs slot]] slot_facts(2) [OF xs slot]
        not_rebound_resources [OF inherits(6,5)] by blast
    with inherits(3,4) show ?thesis by (auto simp: consumed_def)
  qed (use g in simp)
  have again: "\<exists>g. inherited = Some g" if "dget grants phase = Some old" for old
    using sel
  proof (cases rule: select_slot_cases)
    case fresh
    with that recorded_grants_truthy [OF recorded that] have False by (simp add: inherited_grant_def)
    then show ?thesis ..
  qed simp
  from commit show "consumed (sdb s') grant"
  proof (cases rule: commit_grant_cases)
    case (new w d v)
    then have "consumed (sdb w) grant"
      using insert_leases_held by (fastforce simp: consumed_def bootstrap_owner_def)
    with new(4) show ?thesis by (rule update_consumed)
  next
    case inherited
    with inh show ?thesis by (auto intro: update_consumed)
  qed (use inh again in auto)
qed

section \<open>Slots over time\<close>

text \<open>
  The transactions that run beside reservations.  Executions release their leases under their own
  owner name, which never has the form of an allocation.
\<close>

inductive root_step :: "store \<Rightarrow> store \<Rightarrow> bool" where
  root_insert: "transaction f (insert_row now1 now2 ns i par prin dig req pl bytes) s = (x, s') \<Longrightarrow> root_step s s'"
| root_update: "transaction f (update now ns i event changes) s = (y, s') \<Longrightarrow> root_step s s'"
| root_acquire: "transaction f (acquire al owner epoch resources) s = (u, s') \<Longrightarrow> root_step s s'"
| root_release: "\<not> prefix (lit ''bootstrap:'') owner \<Longrightarrow> transaction f (release owner a b c) s = (u, s') \<Longrightarrow> root_step s s'"
| root_reserve: "transaction f (reserve_roots now r phase slots extra) s = (z, s') \<Longrightarrow> root_step s s'"

lemma root_step_keeps:
  assumes "root_step s s'" and h: "lease_held res (lit ''bootstrap:'' @ a, ep) s"
  shows "lease_held res (lit ''bootstrap:'' @ a, ep) s'"
proof -
  note keeps = keepsA_D [OF lease_rows.keeps_transaction h]
  from assms(1) show ?thesis
  proof cases
    case root_insert
    then show ?thesis by (rule keeps [OF lease_rows.keeps_insert])
  next
    case root_update
    then show ?thesis by (rule keeps [OF lease_rows.keeps_update])
  next
    case root_acquire
    then show ?thesis by (rule keeps [OF keeps_lease_acquire])
  next
    case (root_release owner)
    then have "owner \<noteq> fst (lit ''bootstrap:'' @ a, ep)" by auto
    from keeps [OF keeps_lease_release [OF this] root_release(2)] show ?thesis .
  next
    case root_reserve
    then show ?thesis by (rule keeps [OF keeps_lease_reserve])
  qed
qed

lemma root_steps_consumed: "root_step\<^sup>*\<^sup>* s t \<Longrightarrow> consumed (sdb s) grant \<Longrightarrow> consumed (sdb t) grant"
proof (induction rule: rtranclp_induct)
  case (step y z)
  then show ?case unfolding consumed_def using root_step_keeps by blast
qed

text \<open>C13. A slot is used once, for good.  After a reservation returned a grant, and after any later sequence of
  transactions in which executions release only their own leases, no slot is offered one of whose roots
  equals, contains or lies inside a granted root, or is the same inode.\<close>

theorem consumed_slot_never_offered:
  assumes grant: "reserve_roots now r phase slots extra s = (Inr grant, s')" and later: "root_step\<^sup>*\<^sup>* s' t"
    and root: "root \<in> set (jvalues roots)" "validate_root None root = Inr ()"
    and v: "v \<in> set (jvalues (get_or grant ''roots'' JNull))"
    and clash: "overlap (path_of root) (str_of (Some v)) \<or>
      inode_of root = inode_of (dat (get_or grant ''paths'' JNull) (str_of (Some v)))"
  shows "\<not> slot_available (sdb t) roots"
proof -
  let ?q = "str_of (Some v)" and ?ident = "dat (get_or grant ''paths'' JNull) (str_of (Some v))"
  have consumed: "consumed (sdb t) grant"
    using later reserve_roots_consumes(1) [OF grant] by (rule root_steps_consumed)
  have "{path_resource ?q, inode_resource (inode_of ?ident)} \<subseteq> set (lease_resources grant)"
    using v by (force simp: lease_resources_def Let_def)
  with consumed have held: "map_of (leases (sdb t)) (path_resource ?q) \<noteq> None"
      "map_of (leases (sdb t)) (inode_resource (inode_of ?ident)) \<noteq> None"
    by (fastforce simp: consumed_def)+
  have q: "path_text ?q"
    using disjoint_paths_text [OF validate_bootstrap_paths(1) [OF reserve_roots_consumes(2) [OF grant]] v] .
  have "path_text (path_of root)" using validate_root_facts [OF root(2)] by simp
  from clash have "root_taken (sdb t) root"
    using overlap_taken [OF \<open>path_text (path_of root)\<close> q _ held(1)] inode_taken [of "sdb t" root] held(2) by auto
  with root(1) show ?thesis by (auto simp: slot_available_def)
qed

section \<open>Binding\<close>

lemma any_overlap_False: "any_overlap p vs = Inr False \<Longrightarrow> v \<in> set vs \<Longrightarrow> \<not> overlap p (str_of (Some v))"
  by (induction vs) (auto split: json.splits if_splits)

lemma disjoint_paths_apart:
  "disjoint_paths vs = Inr () \<Longrightarrow> sorted_wrt (\<lambda>a b. \<not> overlap (str_of (Some a)) (str_of (Some b))) vs"
proof (induction vs)
  case (Cons v vs)
  then obtain p where "root_path v = Inr p" "any_overlap p vs = Inr False" "disjoint_paths vs = Inr ()"
    by (auto simp: res_simps)
  with Cons.IH any_overlap_False [of p vs] show ?case by (auto simp: root_path_Inr)
qed simp

definition under :: "pystr \<Rightarrow> pystr \<Rightarrow> bool" where
  "under path s = (s = path \<or> prefix (path @ [47]) s)"

lemma under_overlap:
  assumes "under p s" and "under q s"
  shows "overlap p q"
proof -
  have "prefix p s" "prefix q s" using assms by (auto simp: under_def dest: append_prefixD)
  then consider "prefix p q" | "prefix q p" using prefix_same_cases by blast
  then show ?thesis
  proof cases
    case 1
    then obtain t where t: "q = p @ t" by (auto simp: prefix_def)
    then show ?thesis using assms by (cases t) (auto simp: under_def overlap_def prefix_def)
  next
    case 2
    then obtain t where t: "p = q @ t" by (auto simp: prefix_def)
    then show ?thesis using assms by (cases t) (auto simp: under_def overlap_def prefix_def)
  qed
qed

lemma map_path_under:
  assumes "sorted_wrt (\<lambda>a b. \<not> overlap (str_of (Some a)) (str_of (Some b))) (map snd source)"
    and "(name, JStr path) \<in> set source" and "under path s"
  shows "map_path source target s = str_of (dget target name) @ drop (length path) s"
  using assms
proof (induction source)
  case (Cons e source)
  obtain n v where e: "e = (n, v)" by (cases e)
  show ?case
  proof (cases "(n, v) = (name, JStr path)")
    case True
    with Cons.prems(3) show ?thesis by (simp add: e Let_def under_def)
  next
    case False
    with Cons.prems(2) have rest: "(name, JStr path) \<in> set source" by (auto simp: e)
    then have "JStr path \<in> set (map snd source)" by force
    with Cons.prems(1) have "\<not> overlap (str_of (Some v)) (str_of (Some (JStr path)))" by (auto simp: e)
    with under_overlap [of "str_of (Some v)" s path] Cons.prems(3) have "\<not> under (str_of (Some v)) s" by auto
    with Cons.IH Cons.prems rest show ?thesis by (simp add: e Let_def under_def)
  qed
qed simp

lemma map_field_dget:
  "is_dict d \<Longrightarrow> is_dict (map_field src tgt name d) \<and> (\<forall>k. k \<noteq> lit name \<longrightarrow> dget (map_field src tgt name d) k = dget d k)"
  by (auto simp: map_field_def split: option.splits)

lemma map_fields_dget:
  "is_dict d \<Longrightarrow> is_dict (fold (map_field src tgt) names d) \<and>
     (\<forall>k. k \<notin> lit ` set names \<longrightarrow> dget (fold (map_field src tgt) names d) k = dget d k)"
proof (induction names arbitrary: d)
  case (Cons name names)
  from map_field_dget [OF Cons.prems, of src tgt name] Cons.IH show ?case by auto
qed simp

lemma bind_execution_cases:
  assumes "bind_execution execution grant = Inr bound"
  obtains (same) "bound = execution" "jeq (get_or execution ''roots'' JNull) (get_or grant ''roots'' JNull)"
      "is_dict execution" "validate_bootstrap no_expect grant = Inr ()"
    | (moved) src names where "is_dict execution" "validate_bootstrap no_expect grant = Inr ()"
      "set names \<subseteq> {''stages'', ''writable'', ''environment'', ''prepared''}"
      "bound = fold (map_field src (get_or grant ''roots'' JNull)) names (dset execution (lit ''roots'') (get_or grant ''roots'' JNull))"
proof -
  let ?src = "items (get_or grant ''source_roots'' JNull)" and ?tgt = "get_or grant ''roots'' JNull"
  let ?b = "fold (map_field ?src ?tgt) [''stages'', ''writable'', ''environment''] (dset execution (lit ''roots'') ?tgt)"
  from assms have ok: "validate_bootstrap no_expect grant = Inr ()" "is_dict execution"
    and b: "bound = execution \<and> jeq (get_or execution ''roots'' JNull) ?tgt \<or> bound = ?b \<or> bound = map_field ?src ?tgt ''prepared'' ?b"
    unfolding bind_execution_def Let_def res_simps by (auto split: if_splits)
  from b show thesis
  proof (elim disjE conjE)
    assume "bound = ?b"
    with ok show thesis by (intro moved [of "[''stages'', ''writable'', ''environment'']" ?src]) auto
  next
    assume "bound = map_field ?src ?tgt ''prepared'' ?b"
    with ok show thesis by (intro moved [of "[''stages'', ''writable'', ''environment'', ''prepared'']" ?src]) auto
  qed (use ok same in auto)
qed

text \<open>Binding is idempotent and exact.  An execution that was bound to its grant has the granted roots, and binding
  it again changes nothing; what is neither a root nor one of the mapped fields is untouched.\<close>

theorem bind_execution_once:
  assumes "bind_execution execution grant = Inr bound"
  shows "jeq (get_or bound ''roots'' JNull) (get_or grant ''roots'' JNull) \<and> bind_execution bound grant = Inr bound \<and>
    (\<forall>k. k \<notin> lit ` {''roots'', ''stages'', ''writable'', ''environment'', ''prepared''} \<longrightarrow> dget bound k = dget execution k)"
proof -
  have "is_dict bound \<and> validate_bootstrap no_expect grant = Inr () \<and>
      jeq (get_or bound ''roots'' JNull) (get_or grant ''roots'' JNull) \<and>
      (\<forall>k. k \<notin> lit ` {''roots'', ''stages'', ''writable'', ''environment'', ''prepared''} \<longrightarrow> dget bound k = dget execution k)"
    using assms
  proof (cases rule: bind_execution_cases)
    case (moved src names)
    let ?d = "dset execution (lit ''roots'') (get_or grant ''roots'' JNull)"
    have "is_dict ?d" using moved(1) by simp
    note f = map_fields_dget [OF this, of src "get_or grant ''roots'' JNull" names]
    have "''roots'' \<notin> set names" using moved(3) by auto
    then have "lit ''roots'' \<notin> lit ` set names" by auto
    with f moved(1) have "fld bound ''roots'' = Some (get_or grant ''roots'' JNull)" by (simp add: moved(4))
    moreover have "dget bound k = dget execution k"
      if "k \<notin> lit ` {''roots'', ''stages'', ''writable'', ''environment'', ''prepared''}" for k
    proof -
      have "k \<notin> lit ` set names" using that image_mono [OF subset_insertI2 [OF moved(3)]] by (meson subsetD)
      have "k \<noteq> lit ''roots''" using that by (metis imageI insertI1)
      with f \<open>k \<notin> lit ` set names\<close> have "dget bound k = dget ?d k" unfolding moved(4) by blast
      with moved(1) \<open>k \<noteq> lit ''roots''\<close> show ?thesis by (simp only: dget_dset if_False)
    qed
    ultimately show ?thesis using f moved(2) by (simp add: moved(4) get_or_def)
  qed simp
  then show ?thesis by (simp add: bind_execution_def)
qed

text \<open>Every path at or below a source root of a valid grant is moved to the same place below the granted root of
  the same name, whichever root it is, and a path outside all of them stays.\<close>

theorem mapped_path_exact:
  assumes "validate_bootstrap x grant = Inr ()"
  shows "(\<forall>(name, v) \<in> set (items (get_or grant ''source_roots'' JNull)). \<forall>rest. rest = [] \<or> hd rest = 47 \<longrightarrow>
      mapped (items (get_or grant ''source_roots'' JNull)) (get_or grant ''roots'' JNull) (JStr (str_of (Some v) @ rest)) =
        JStr (str_of (dget (get_or grant ''roots'' JNull) name) @ rest)) \<and>
    (\<forall>s. (\<forall>v \<in> set (jvalues (get_or grant ''source_roots'' JNull)).
        s \<noteq> str_of (Some v) \<and> \<not> prefix (str_of (Some v) @ [47]) s) \<longrightarrow>
      mapped (items (get_or grant ''source_roots'' JNull)) (get_or grant ''roots'' JNull) (JStr s) = JStr s)"
proof -
  let ?src = "get_or grant ''source_roots'' JNull"
  from assms have ok: "disjoint_paths (jvalues ?src) = Inr ()"
    unfolding validate_bootstrap_def Let_def res_simps by simp
  have "map_path (items ?src) t (str_of (Some v) @ rest) = str_of (dget t name) @ rest"
    if e: "(name, v) \<in> set (items ?src)" and rest: "rest = [] \<or> hd rest = 47" for name v rest t
  proof -
    have "v \<in> set (jvalues ?src)" using e by (force simp: jvalues_def)
    moreover have "disjoint_paths vs = Inr () \<Longrightarrow> w \<in> set vs \<Longrightarrow> \<exists>p. w = JStr p" for vs w
      by (induction vs) (auto simp: res_simps root_path_Inr)
    ultimately obtain p where p: "v = JStr p" using ok by blast
    have "under p (p @ rest)" using rest by (cases rest) (auto simp: under_def)
    with map_path_under [of "items ?src" name p "p @ rest" t] disjoint_paths_apart [OF ok] e show ?thesis
      by (simp add: p jvalues_def)
  qed
  moreover have "map_path kvs t s = s" if "\<forall>v \<in> set (map snd kvs). s \<noteq> str_of (Some v) \<and> \<not> prefix (str_of (Some v) @ [47]) s" for kvs t s
    using that by (induction kvs) (auto simp: Let_def)
  ultimately show ?thesis by (simp only: jvalues_def mapped.simps json.inject) blast
qed

section \<open>Concrete instances\<close>

definition example_root :: "string \<Rightarrow> int \<Rightarrow> json" where
  "example_root path inode = obj [(''path'', jlit path), (''device'', JInt 1), (''inode'', JInt inode), (''uid'', JInt 7)]"

definition example_slot :: json where
  "example_slot = obj [(''slot_id'', jlit ''s1''), (''roots'', obj [(''work'', example_root ''/w/1'' 11),
     (''evidence'', example_root ''/e/1'' 12), (''temporary'', example_root ''/t/1'' 13)])]"

definition example_parents :: json where
  "example_parents = obj [(''work'', jlit ''/w''), (''evidence'', jlit ''/e''), (''temporary'', jlit ''/t'')]"

lemma example_path_text: "path_text (lit ''/w/1'')" "path_text (lit ''/e/1'')" "path_text (lit ''/t/1'')"
    "path_text (lit ''/w'')" "path_text (lit ''/e'')" "path_text (lit ''/t'')" "path_text (lit ''/private'')"
  by (simp_all add: path_text_def lit_def posix_parts_def is_space_def)

lemma example_overlap: "\<not> overlap (lit ''/e/1'') (lit ''/w/1'')" "\<not> overlap (lit ''/t/1'') (lit ''/w/1'')"
    "\<not> overlap (lit ''/t/1'') (lit ''/e/1'')" "\<not> overlap (lit ''/w/1'') (lit ''/private'')"
    "\<not> overlap (lit ''/e/1'') (lit ''/private'')" "\<not> overlap (lit ''/t/1'') (lit ''/private'')"
  by (simp_all add: overlap_def lit_def)

lemma example_root_ok:
  assumes "path_text (lit path)" "1 \<le> inode" "inode \<le> MAX_SAFE_INTEGER" "uid \<in> {None, Some 7}"
  shows "validate_root uid (example_root path inode) = Inr ()"
  using assms by (auto simp: validate_root_def example_root_def get_or_def root_path_def IDENTITY_KEYS_def is_int_field_def
      MAX_SAFE_INTEGER_def)

lemma example_root_fields: "path_of (example_root path inode) = lit path" "inode_of (example_root path inode) = (1, inode)"
  by (simp_all add: path_of_def inode_of_def example_root_def)

lemma example_slot_entries: "items (get_or example_slot ''roots'' JNull) = [(lit ''work'', example_root ''/w/1'' 11),
     (lit ''evidence'', example_root ''/e/1'' 12), (lit ''temporary'', example_root ''/t/1'' 13)]"
  by (simp add: example_slot_def get_or_def) (simp add: obj_def items_def)

lemma example_slot_guard:
  "is_dict example_slot \<and> has_keys example_slot [''slot_id'', ''roots''] \<and>
     is_str_field example_slot ''slot_id'' (\<lambda>s. REF_PATTERN s \<and> s \<notin> set []) \<and>
     (case fld example_slot ''roots'' of Some (JObj rs) \<Rightarrow> has_keys (JObj rs) ROOT_NAMES | _ \<Rightarrow> False)"
proof -
  let ?roots = "obj [(''work'', example_root ''/w/1'' 11), (''evidence'', example_root ''/e/1'' 12), (''temporary'', example_root ''/t/1'' 13)]"
  have roots: "fld example_slot ''roots'' = Some ?roots" by (simp add: example_slot_def)
  have "has_keys ?roots ROOT_NAMES" by (simp add: ROOT_NAMES_def)
  then have "case fld example_slot ''roots'' of Some (JObj rs) \<Rightarrow> has_keys (JObj rs) ROOT_NAMES | _ \<Rightarrow> False"
    unfolding roots by (simp add: obj_def)
  moreover have "is_str_field example_slot ''slot_id'' (\<lambda>s. REF_PATTERN s \<and> s \<notin> set [])"
    by (simp add: example_slot_def is_str_field_def) (simp add: REF_PATTERN_def lit_def lower_alnum_def)
  ultimately show ?thesis by (simp add: example_slot_def)
qed

lemma example_slot_step:
  "slot_step None None [] \<lparr>seen_ids = [], seen_inodes = [], seen_paths = []\<rparr> example_slot =
     Inr \<lparr>seen_ids = [lit ''s1''], seen_inodes = [(1, 13), (1, 12), (1, 11)], seen_paths = [lit ''/w/1'', lit ''/e/1'', lit ''/t/1'']\<rparr>"
  "slot_step (Some example_parents) (Some 7) [lit ''/private''] \<lparr>seen_ids = [], seen_inodes = [], seen_paths = []\<rparr> example_slot =
     Inr \<lparr>seen_ids = [lit ''s1''], seen_inodes = [(1, 13), (1, 12), (1, 11)], seen_paths = [lit ''/w/1'', lit ''/e/1'', lit ''/t/1'']\<rparr>"
proof -
  have id: "str_of (fld example_slot ''slot_id'') = lit ''s1''" by (simp add: example_slot_def)
  have parents: "prefix (str_of (fld example_parents ''work'') @ [47]) (lit ''/w/1'')"
    "prefix (str_of (fld example_parents ''evidence'') @ [47]) (lit ''/e/1'')"
    "prefix (str_of (fld example_parents ''temporary'') @ [47]) (lit ''/t/1'')"
    by (simp_all add: example_parents_def) (simp_all add: lit_def)
  note facts = example_slot_guard example_slot_entries slot_root_step_def example_root_fields example_root_ok example_path_text
    example_overlap id parents MAX_SAFE_INTEGER_def
  show "slot_step None None [] \<lparr>seen_ids = [], seen_inodes = [], seen_paths = []\<rparr> example_slot =
     Inr \<lparr>seen_ids = [lit ''s1''], seen_inodes = [(1, 13), (1, 12), (1, 11)], seen_paths = [lit ''/w/1'', lit ''/e/1'', lit ''/t/1'']\<rparr>"
    unfolding slot_step_def using example_slot_guard by (simp add: facts)
  show "slot_step (Some example_parents) (Some 7) [lit ''/private''] \<lparr>seen_ids = [], seen_inodes = [], seen_paths = []\<rparr> example_slot =
     Inr \<lparr>seen_ids = [lit ''s1''], seen_inodes = [(1, 13), (1, 12), (1, 11)], seen_paths = [lit ''/w/1'', lit ''/e/1'', lit ''/t/1'']\<rparr>"
    unfolding slot_step_def using example_slot_guard by (simp add: facts)
qed

lemma example_slot_ok:
  "validate_slots (Some example_parents) (Some 7) [jlit ''/private''] (JList [example_slot]) = Inr ()"
  "validate_slots None None [] (JList [example_slot]) = Inr ()"
proof -
  have "jvalues example_parents = [jlit ''/w'', jlit ''/e'', jlit ''/t'']" "has_keys example_parents ROOT_NAMES" "is_dict example_parents"
    by (simp_all add: example_parents_def ROOT_NAMES_def) (simp add: jvalues_def items_def obj_def)
  then show "validate_slots (Some example_parents) (Some 7) [jlit ''/private''] (JList [example_slot]) = Inr ()"
    by (simp add: validate_slots_def root_path_def example_path_text example_slot_step)
  show "validate_slots None None [] (JList [example_slot]) = Inr ()"
    by (simp add: validate_slots_def example_slot_step)
qed

theorem slots_disjoint_witness:
  "validate_slots (Some example_parents) (Some 7) [jlit ''/private''] (JList [example_slot]) = Inr () \<and>
     \<not> overlap (lit ''/w/1'') (lit ''/private'')"
proof -
  have "\<not> overlap (path_of (example_root ''/w/1'' 11)) (str_of (Some (jlit ''/private'')))"
    using slots_disjoint [OF example_slot_ok(1)] by (simp add: example_slot_entries)
  then show ?thesis using example_slot_ok(1) by (simp add: example_root_fields)
qed

definition example_bootstrap_row :: row where
  "example_bootstrap_row = \<lparr>namespace = lit ''job'', identity = lit ''a1'', parent = lit ''a1'', principal_of = lit ''p'',
     digest = lit ''d'', reserved_bytes = 1, request = JObj [], plan = obj [(''execution'', obj [(''roots'', example_parents)])],
     rec = JObj []\<rparr>"

definition example_roots :: json where
  "example_roots = obj [(''work'', jlit ''/w/1''), (''evidence'', jlit ''/e/1''), (''temporary'', jlit ''/t/1'')]"

definition example_identity :: "int \<Rightarrow> json" where
  "example_identity inode = obj [(''device'', JInt 1), (''inode'', JInt inode), (''uid'', JInt 7)]"

definition example_paths :: json where
  "example_paths = obj [(''/w/1'', example_identity 11), (''/e/1'', example_identity 12), (''/t/1'', example_identity 13)]"

definition example_unsealed :: json where
  "example_unsealed = obj [(''version'', JInt 1), (''namespace'', jlit ''job''), (''record_id'', jlit ''a1''),
        (''operation_id'', jlit ''a1''), (''execution_id'', JStr (execution_name (lit ''job'') (lit ''a1'') (lit ''preflight''))),
        (''phase'', jlit ''preflight''), (''slot_id'', jlit ''s1''), (''roots'', example_roots), (''paths'', example_paths),
        (''retained_paths'', JList []), (''fresh'', JBool True), (''source_roots'', example_parents),
        (''allocation_id'', JStr (allocation_id (lit ''job'') (lit ''a1'') (lit ''s1'') example_roots example_paths))]"

definition example_bootstrap_grant :: json where
  "example_bootstrap_grant = dset example_unsealed (lit ''grant_digest'') (JStr (json_digest example_unsealed))"

lemma example_bootstrap_fields:
  "fld example_bootstrap_grant k = (if k = ''grant_digest'' then Some (JStr (json_digest example_unsealed)) else fld example_unsealed k)"
  by (simp add: example_bootstrap_grant_def) (simp add: example_unsealed_def)

lemma example_bootstrap_valid: "validate_bootstrap no_expect example_bootstrap_grant = Inr ()"
proof -
  have pop: "dpop example_bootstrap_grant (lit ''grant_digest'') = example_unsealed"
    by (simp add: example_bootstrap_grant_def example_unsealed_def dset_def dpop_def obj_def)
  have keys: "has_keys example_bootstrap_grant BOOTSTRAP_GRANT_KEYS" "is_dict example_bootstrap_grant"
    by (simp_all add: has_keys_def jkeys_def example_bootstrap_grant_def example_unsealed_def dset_def obj_def
        BOOTSTRAP_GRANT_KEYS_def) auto
  have ref: "REF_PATTERN (lit ''s1'')" by (simp add: REF_PATTERN_def lower_alnum_def lit_def)
  have phase: "is_str_field example_bootstrap_grant ''phase'' P = P (lit ''preflight'')" for P
    by (simp add: is_str_field_def example_bootstrap_fields) (simp add: example_unsealed_def)
  have "bootstrap_shape example_bootstrap_grant"
    using keys by (simp add: bootstrap_shape_def is_str_field_def [of _ "''namespace''"] is_str_field_def [of _ "''record_id''"]
        is_str_field_def [of _ "''operation_id''"] is_str_field_def [of _ "''execution_id''"] is_str_field_def [of _ "''slot_id''"]
        example_bootstrap_fields phase)
      (simp add: example_unsealed_def ROOT_PHASES_def execution_name_def ref phase)
  moreover have "bound_to no_expect example_bootstrap_grant"
    by (simp add: bound_to_def no_expect_def expected_field_def)
  moreover have "has_keys example_roots ROOT_NAMES" "has_keys example_parents ROOT_NAMES" "is_dict example_roots" "is_dict example_parents"
    by (simp_all add: example_roots_def example_parents_def ROOT_NAMES_def)
  moreover have vals: "jvalues example_roots = [jlit ''/w/1'', jlit ''/e/1'', jlit ''/t/1'']"
    "jvalues example_parents = [jlit ''/w'', jlit ''/e'', jlit ''/t'']"
    "items example_paths = [(lit ''/w/1'', example_identity 11), (lit ''/e/1'', example_identity 12), (lit ''/t/1'', example_identity 13)]"
    by (simp_all add: jvalues_def items_def obj_def example_roots_def example_parents_def example_paths_def)
  moreover have "disjoint_paths [jlit ''/w/1'', jlit ''/e/1'', jlit ''/t/1''] = Inr ()" "disjoint_paths [jlit ''/w'', jlit ''/e'', jlit ''/t''] = Inr ()"
    by (simp_all add: root_path_def example_path_text) (simp_all add: overlap_def lit_def)
  moreover have "retained_ok example_bootstrap_grant example_paths (JList [])"
    by (simp add: retained_ok_def get_or_def example_bootstrap_fields)
      (simp add: example_unsealed_def vals, simp add: example_paths_def)
  moreover have "identities_ok [] (items example_paths) = Inr ()"
  proof -
    have "validate_root None (JObj ((lit ''path'', jlit p) # items (example_identity n))) = Inr ()"
      if "path_text (lit p)" "1 \<le> n" "n \<le> MAX_SAFE_INTEGER" for p n
      using example_root_ok [OF that, of None] by (simp add: example_root_def example_identity_def obj_def items_def)
    moreover have "is_dict (example_identity n)" "has_keys (example_identity n) IDENTITY_KEYS" "inode_of (example_identity n) = (1, n)" for n
      by (simp_all add: example_identity_def IDENTITY_KEYS_def inode_of_def)
    moreover have "\<not> overlap (lit ''/w/1'') (lit ''/e/1'')" "\<not> overlap (lit ''/w/1'') (lit ''/t/1'')" "\<not> overlap (lit ''/e/1'') (lit ''/t/1'')"
      using example_overlap by (simp_all add: overlap_sym)
    ultimately show ?thesis
      unfolding vals by (simp add: example_path_text MAX_SAFE_INTEGER_def)
  qed
  ultimately show ?thesis
    unfolding validate_bootstrap_def Let_def get_or_def example_bootstrap_fields pop
    by (simp add: thenE_Inr_iff raise_if_Inr_iff) (simp add: example_unsealed_def)
qed

lemma example_build:
  "build_grant example_bootstrap_row (lit ''preflight'') example_slot [] = Inr example_bootstrap_grant"
proof -
  have "identity_of (example_root path inode) = example_identity inode" for path inode
    by (simp add: identity_of_def example_root_def example_identity_def IDENTITY_KEYS_def get_or_def)
  then have "slot_paths example_slot = example_paths"
    by (simp add: slot_paths_def mk_dict_def jvalues_def example_slot_entries example_root_fields example_paths_def)
      (simp add: obj_def)
  moreover have "slot_roots example_slot = example_roots"
    by (simp add: slot_roots_def mk_dict_def example_slot_entries example_root_fields example_roots_def) (simp add: obj_def)
  moreover have "str_of (fld example_slot ''slot_id'') = lit ''s1''" by (simp add: example_slot_def)
  moreover have "dset (obj [(''version'', JInt 1), (''namespace'', JStr (namespace example_bootstrap_row)), (''record_id'', JStr (identity example_bootstrap_row)),
        (''operation_id'', JStr (parent example_bootstrap_row)),
        (''execution_id'', JStr (execution_name (namespace example_bootstrap_row) (identity example_bootstrap_row) (lit ''preflight''))),
        (''phase'', jlit ''preflight''), (''slot_id'', jlit ''s1''), (''roots'', example_roots), (''paths'', example_paths),
        (''retained_paths'', JList []), (''fresh'', JBool True), (''source_roots'', example_parents),
        (''allocation_id'', JStr (allocation_id (namespace example_bootstrap_row) (identity example_bootstrap_row) (lit ''s1'') example_roots example_paths))])
     = dset example_unsealed"
    by (simp add: example_unsealed_def example_bootstrap_row_def)
  ultimately show ?thesis
    using example_bootstrap_valid
    by (simp add: build_grant_def example_bootstrap_row_def example_unsealed_def [symmetric] example_bootstrap_grant_def)
qed

definition example_bootstrap_store :: store where
  "example_bootstrap_store = \<lparr>sdb = (create (lit ''authority'') (lit ''ledger''))\<lparr>operations := [\<lparr>o_namespace = lit ''job'', o_id = lit ''a1'',
       o_parent = lit ''a1'', o_principal = lit ''p'', o_digest = lit ''d'', o_request_json = dumps (JObj []), o_plan_json = dumps (JObj []),
       o_reserved_bytes = 1, o_record_json = dumps (JObj [])\<rparr>]\<rparr>, healthy = True, read_only = False\<rparr>"

lemma example_get:
  "get (lit ''job'') (lit ''a1'') s = (Inr (Some (example_bootstrap_row\<lparr>plan := JObj []\<rparr>)), s)"
  if "operations (sdb s) = operations (sdb example_bootstrap_store)"
proof -
  have "decode_doc (dumps (JObj [])) = Inr (JObj [])" using decode_doc_dumps [of "JObj []"] by (simp add: storable_JObj)
  with that show ?thesis
    by (simp add: get_def find_row_def example_bootstrap_store_def create_def decode_row_def example_bootstrap_row_def)
qed

lemma example_root_row_fields [simp]: "namespace example_bootstrap_row = lit ''job''" "identity example_bootstrap_row = lit ''a1''"
    "parent example_bootstrap_row = lit ''a1''" "digest example_bootstrap_row = lit ''d''" "rec example_bootstrap_row = JObj []"
  by (simp_all add: example_bootstrap_row_def)

lemma example_recorded:
  "recorded_grants example_bootstrap_row (lit ''preflight'') phases example_bootstrap_store = (Inr (JObj []), example_bootstrap_store)"
proof -
  have "latest_event (sdb example_bootstrap_store) ns i k = None" for ns i k
    by (simp add: latest_event_def example_bootstrap_store_def create_def)
  moreover have "consumption_event (JObj []) None = Inr ()" by (simp add: consumption_event_def items_def)
  ultimately show ?thesis
    by (simp add: recorded_grants_def Let_def example_get bindA_def thenA_def liftA_def returnA_def get_or_def jkeys_def items_def)
qed

lemma nonfinite_dset: "\<not> nonfinite d \<Longrightarrow> \<not> nonfinite x \<Longrightarrow> \<not> nonfinite (dset d k x)"
proof (cases d)
  case (JObj kvs)
  assume "\<not> nonfinite d" "\<not> nonfinite x"
  moreover have "set (AList.update k x kvs) \<subseteq> insert (k, x) (set kvs)" by (induction kvs) auto
  ultimately show ?thesis using JObj by (fastforce simp: dset_def)
qed (auto simp: dset_def)

lemma nonfinite_obj: "nonfinite (obj kvs) = (\<exists>(k, v) \<in> set kvs. nonfinite v)"
  by (force simp: obj_def)

lemma example_update:
  assumes "operations (sdb s) = operations (sdb example_bootstrap_store)" and "\<not> nonfinite (JObj changes)"
  shows "\<exists>v s'. update (JInt 1) (lit ''job'') (lit ''a1'') e changes s = (Inr v, s')"
proof -
  have "\<not> nonfinite (dupdate d cs)" if "\<not> nonfinite d" "\<not> nonfinite (JObj cs)" for d cs
    using that by (induction cs arbitrary: d) (auto simp: nonfinite_dset)
  with assms show ?thesis
    by (simp add: update_def bindA_def example_get liftA_def encoded_def Let_def thenA_def modify_db_def returnA_def nonfinite_dset)
qed

lemma example_resources:
  "lease_resources example_bootstrap_grant = [path_resource (lit ''/w/1''), inode_resource (1, 11), path_resource (lit ''/e/1''),
     inode_resource (1, 12), path_resource (lit ''/t/1''), inode_resource (1, 13)]"
proof -
  have "jvalues example_roots = [jlit ''/w/1'', jlit ''/e/1'', jlit ''/t/1'']"
    by (simp add: jvalues_def items_def obj_def example_roots_def)
  moreover have "inode_of (example_identity n) = (1, n)" for n by (simp add: example_identity_def inode_of_def)
  ultimately show ?thesis
    by (simp add: lease_resources_def get_or_def example_bootstrap_fields) (simp add: example_unsealed_def dat_def example_paths_def)
qed

lemma insert_leases_free:
  "distinct rs \<Longrightarrow> \<forall>res \<in> set rs. map_of (leases (sdb s)) res = None \<Longrightarrow>
     \<exists>s'. forA rs (\<lambda>res. insert_lease res owner epoch) s = (Inr (), s') \<and> operations (sdb s') = operations (sdb s)"
proof (induction rs arbitrary: s)
  case (Cons a rs)
  let ?t = "s\<lparr>sdb := (sdb s)\<lparr>leases := leases (sdb s) @ [(a, owner, epoch)]\<rparr>\<rparr>"
  have "insert_lease a owner epoch s = (Inr (), ?t)" using Cons.prems by (simp add: insert_lease_def modify_db_def)
  moreover have "\<forall>res \<in> set rs. map_of (leases (sdb ?t)) res = None" using Cons.prems by (auto simp: map_add_def)
  ultimately show ?case using Cons.IH [of ?t] Cons.prems(1) by (simp add: thenA_def bindA_def)
qed (simp add: returnA_def)

lemma example_root_reserve:
  "\<exists>s'. reserve_roots (JInt 1) example_bootstrap_row (lit ''preflight'') (JList [example_slot]) None example_bootstrap_store =
     (Inr example_bootstrap_grant, s')"
proof -
  have free: "leases (sdb example_bootstrap_store) = []" by (simp add: example_bootstrap_store_def create_def)
  then have select: "select_slot example_bootstrap_row (lit ''preflight'') [example_slot] (JObj []) example_bootstrap_store =
      (Inr (None, example_slot), example_bootstrap_store)"
    by (simp add: select_slot_def inherited_grant_def slot_available_def root_taken_def Let_def returnA_def)
  have "distinct (lease_resources example_bootstrap_grant)"
    unfolding example_resources by (simp add: path_resource_def inode_resource_def) (simp add: lit_def print_int_def dec.simps)
  then obtain w where w: "forA (lease_resources example_bootstrap_grant)
      (\<lambda>res. insert_lease res (bootstrap_owner example_bootstrap_grant) 1) example_bootstrap_store = (Inr (), w)"
      "operations (sdb w) = operations (sdb example_bootstrap_store)"
    using insert_leases_free [of "lease_resources example_bootstrap_grant" example_bootstrap_store] free by auto
  have "\<not> nonfinite (JObj [(lit ''bootstrap_grants'', dset (JObj []) (lit ''preflight'') example_bootstrap_grant)])"
    by (simp add: nonfinite_dset example_bootstrap_grant_def)
      (simp add: nonfinite_dset nonfinite_obj example_unsealed_def example_roots_def example_paths_def example_identity_def example_parents_def)
  from example_update [OF w(2) this] obtain v t where "update (JInt 1) (lit ''job'') (lit ''a1'') (lit ''BOOTSTRAP_ROOTS_RESERVED'')
      [(lit ''bootstrap_grants'', dset (JObj []) (lit ''preflight'') example_bootstrap_grant)] w = (Inr v, t)" by blast
  with w(1) have "\<exists>s'. commit_grant (JInt 1) example_bootstrap_row (lit ''preflight'') (JObj []) None
      example_bootstrap_grant example_bootstrap_store = (Inr example_bootstrap_grant, s')"
    by (auto simp: commit_grant_def thenA_def bindA_def returnA_def)
  moreover have "ROOT_PHASES (lit ''job'') = Some [lit ''preflight'', lit ''business'', lit ''evidence'']"
    by (simp add: ROOT_PHASES_def)
  ultimately show ?thesis
    by (simp add: reserve_roots_def thenA_def bindA_def liftA_def example_slot_ok is_dict_iff jkeys_def items_def jvalues_def
        example_recorded select example_build)
qed

theorem consumed_slot_never_offered_witness:
  "\<exists>s'. reserve_roots (JInt 1) example_bootstrap_row (lit ''preflight'') (JList [example_slot]) None example_bootstrap_store =
       (Inr example_bootstrap_grant, s') \<and> \<not> slot_available (sdb s') (obj [(''work'', example_root ''/w/1'' 11)])"
proof -
  obtain s' where run: "reserve_roots (JInt 1) example_bootstrap_row (lit ''preflight'') (JList [example_slot]) None
      example_bootstrap_store = (Inr example_bootstrap_grant, s')" using example_root_reserve by blast
  have "jlit ''/w/1'' \<in> set (jvalues (get_or example_bootstrap_grant ''roots'' JNull))"
    by (simp add: get_or_def example_bootstrap_fields)
      (simp add: example_unsealed_def jvalues_def items_def obj_def example_roots_def)
  moreover have "example_root ''/w/1'' 11 \<in> set (jvalues (obj [(''work'', example_root ''/w/1'' 11)]))"
    by (simp add: jvalues_def items_def obj_def)
  moreover have "validate_root None (example_root ''/w/1'' 11) = Inr ()"
    by (rule example_root_ok) (simp_all add: example_path_text MAX_SAFE_INTEGER_def)
  ultimately have "\<not> slot_available (sdb s') (obj [(''work'', example_root ''/w/1'' 11)])"
    using consumed_slot_never_offered [OF run rtranclp.rtrancl_refl] by (auto simp: overlap_def example_root_fields)
  with run show ?thesis by blast
qed

theorem bind_execution_once_witness:
  "\<exists>bound. bind_execution (obj [(''roots'', example_parents), (''kind'', jlit ''check'')]) example_bootstrap_grant = Inr bound \<and>
     bind_execution bound example_bootstrap_grant = Inr bound \<and> fld bound ''kind'' = Some (jlit ''check'')"
proof -
  let ?e = "obj [(''roots'', example_parents), (''kind'', jlit ''check'')]"
  have fields: "get_or example_bootstrap_grant ''source_roots'' JNull = example_parents"
    by (simp add: get_or_def example_bootstrap_fields) (simp add: example_unsealed_def)
  have "\<exists>bound. bind_execution ?e example_bootstrap_grant = Inr bound"
    by (simp add: bind_execution_def example_bootstrap_valid Let_def fields) (simp add: get_or_def)
  then obtain bound where b: "bind_execution ?e example_bootstrap_grant = Inr bound" ..
  have "fld bound ''kind'' = fld ?e ''kind''" using bind_execution_once [OF b] by simp
  with b bind_execution_once [OF b] show ?thesis by auto
qed

theorem mapped_path_exact_witness:
  "mapped (items (get_or example_bootstrap_grant ''source_roots'' JNull)) (get_or example_bootstrap_grant ''roots'' JNull) (jlit ''/w/x'') =
     jlit ''/w/1/x''"
proof -
  have src: "get_or example_bootstrap_grant ''source_roots'' JNull = example_parents"
      "get_or example_bootstrap_grant ''roots'' JNull = example_roots"
    by (simp_all add: get_or_def example_bootstrap_fields) (simp_all add: example_unsealed_def)
  have "(lit ''work'', jlit ''/w'') \<in> set (items (get_or example_bootstrap_grant ''source_roots'' JNull))"
    by (simp add: src example_parents_def items_def obj_def)
  with mapped_path_exact [OF example_bootstrap_valid]
  have "mapped (items (get_or example_bootstrap_grant ''source_roots'' JNull)) (get_or example_bootstrap_grant ''roots'' JNull)
      (JStr (str_of (Some (jlit ''/w'')) @ lit ''/x'')) =
      JStr (str_of (dget (get_or example_bootstrap_grant ''roots'' JNull) (lit ''work'')) @ lit ''/x'')"
    by (fastforce simp: lit_def)
  then show ?thesis by (simp add: src example_roots_def lit_append [symmetric])
qed

end
