(* ===== verification/ManagerBinding.thy ===== *)
theory ManagerBinding
  imports Bootstrap
begin

text \<open>
  The identity of the process manager, \<open>tools/local_hand_jobs/manager_binding.py\<close>: the validation of a
  binding, its derivation from the private configuration, and the check of an original against a current one.
\<close>

abbreviation binding_rejected :: exn where
  "binding_rejected \<equiv> JobError ''IO_UNCERTAIN'' ''Original process manager identity is unresolved''"

definition SYSTEM_CONFIGURATION_KEYS :: "string list" where
  "SYSTEM_CONFIGURATION_KEYS = [''uid'', ''gid'', ''slice'', ''cgroup'', ''manager_binding'']"

text \<open>\<open>removesuffix(".slice")\<close>, and a component \<open>[a-z0-9][...]*\.slice\<close> whose later characters satisfy \<open>P\<close>.\<close>

definition slice_stem :: "pystr \<Rightarrow> pystr" where
  "slice_stem t = (if suffix (lit ''.slice'') t then take (length t - 6) t else t)"

definition slice_component :: "(nat \<Rightarrow> bool) \<Rightarrow> pystr \<Rightarrow> bool" where
  "slice_component P t = (suffix (lit ''.slice'') t \<and>
     (let stem = slice_stem t in stem \<noteq> [] \<and> lower_alnum (hd stem) \<and> (\<forall>c \<in> set (tl stem). lower_alnum c \<or> P c)))"

text \<open>
  The path of the parent slice: two components, the second named after the first with one more dash.
\<close>

definition slice_path :: "pystr \<Rightarrow> bool" where
  "slice_path path = (length path \<le> 512 \<and> (case split_slash path of
     [start, outer, inner] \<Rightarrow> start = [] \<and> slice_component (\<lambda>c. c = 95) outer \<and> slice_component (\<lambda>c. c \<in> {95, 45}) inner \<and>
       (let stem = slice_stem outer; leaf = slice_stem inner in
        prefix (stem @ [45]) leaf \<and> 45 \<notin> set (drop (length stem + 1) leaf))
   | _ \<Rightarrow> False))"

definition validate_binding :: "pystr option \<Rightarrow> pystr option \<Rightarrow> json option \<Rightarrow> json \<Rightarrow> json res" where
  "validate_binding authority_id boot_id parent_pin v =
     (if \<not> (is_dict v \<and> has_keys v [''schema'', ''manager_kind'', ''authority_id'', ''boot_id'', ''parent''] \<and>
            fld v ''schema'' = Some (jlit ''local-hand-manager-binding/v1'') \<and> fld v ''manager_kind'' = Some (jlit ''system''))
      then Inl binding_rejected
      else if \<not> (is_str_field v ''authority_id'' REF_PATTERN \<and> is_str_field v ''boot_id'' UUID_PATTERN) then Inl binding_rejected
      else let pin = get_or v ''parent'' JNull in
        if \<not> (is_dict pin \<and> has_keys pin [''path'', ''device'', ''inode'']) then Inl binding_rejected
        else if \<not> is_str_field pin ''path'' slice_path then Inl binding_rejected
        else if \<not> (is_int_field pin ''device'' (\<lambda>n. 0 \<le> n \<and> n \<le> MAX_SAFE_INTEGER) \<and>
                    is_int_field pin ''inode'' (\<lambda>n. 1 \<le> n \<and> n \<le> MAX_SAFE_INTEGER)) then Inl binding_rejected
        else if \<not> (expected_field v ''authority_id'' authority_id \<and> expected_field v ''boot_id'' boot_id \<and>
                    (case parent_pin of None \<Rightarrow> True | Some p \<Rightarrow> jeq pin p)) then Inl binding_rejected
        else Inr v)"

text \<open>An absent configuration and a legacy one have no binding.\<close>

definition from_configuration :: "pystr option \<Rightarrow> json \<Rightarrow> json option res" where
  "from_configuration authority_id configuration =
     (if configuration = JNull then Inr None
      else if \<not> is_dict configuration then Inl binding_rejected
      else case fld configuration ''manager_binding'' of
        None \<Rightarrow> if fld configuration ''manager_kind'' \<noteq> None \<or> fld configuration ''gid'' \<noteq> None then Inl binding_rejected else Inr None
      | Some b \<Rightarrow>
          if \<not> has_keys configuration SYSTEM_CONFIGURATION_KEYS then Inl binding_rejected
          else bindE (validate_binding authority_id None None b) (\<lambda>v.
            let path = str_of (fld (get_or v ''parent'' JNull) ''path'') in
            if get_or configuration ''cgroup'' JNull \<noteq> JStr (lit ''/sys/fs/cgroup'' @ path) \<or>
               get_or configuration ''slice'' JNull \<noteq> JStr (last (posix_parts path)) then Inl binding_rejected
            else if \<not> (\<forall>key \<in> {''uid'', ''gid''}. is_int_field configuration key (\<lambda>n. 1 \<le> n \<and> n \<le> 2 ^ 32 - 2)) then Inl binding_rejected
            else Inr (Some v)))"

definition check_binding :: "json option \<Rightarrow> json option \<Rightarrow> json option res" where
  "check_binding expected actual = (case expected of
     None \<Rightarrow> (case actual of None \<Rightarrow> Inr None | Some _ \<Rightarrow> Inl binding_rejected)
   | Some e \<Rightarrow> bindE (validate_binding None None None e) (\<lambda>e'. case actual of
       None \<Rightarrow> Inl binding_rejected
     | Some a \<Rightarrow> bindE (validate_binding None None None a) (\<lambda>a'. if jeq a' e' then Inr (Some e') else Inl binding_rejected)))"

end
