(* ===== verification/Policy.thy ===== *)
theory Policy
  imports ManagerBinding
begin

text \<open>
  The private admission policy of \<open>tools/local_hand_jobs/policy.py\<close>: the validation of the whole
  configuration, the authorization of a principal, the expected deployment binding of a profile and the
  catalog of prepared references.  The loading of the protected file and the checks of the mounted
  directories are file-system calls and are not part of the model.
\<close>

section \<open>Helpers\<close>

definition LIMIT_FIELDS :: "string list" where
  "LIMIT_FIELDS = [''max_queued'', ''max_running'', ''retained_bytes'', ''ledger_emergency_bytes'', ''requests_per_minute'']"

definition OPTIONAL_KINDS :: "string list" where
  "OPTIONAL_KINDS = [''workspace.edit'', ''ledger.test.local_a2'']"

abbreviation bad :: exn where
  "bad \<equiv> JobError ''UNAUTHORIZED'' ''Private admission configuration is invalid''"

definition bad_unless :: "bool \<Rightarrow> unit res" where
  "bad_unless c = raise_if (\<not> c) bad"

lemma bad_unless_Inr [res_simps]: "bad_unless c = Inr u \<longleftrightarrow> c"
  by (simp add: bad_unless_def raise_if_def)

definition pol_keys :: "json \<Rightarrow> string list \<Rightarrow> string list \<Rightarrow> unit res" where
  "pol_keys v required optional = bad_unless (is_dict v \<and> set (map lit required) \<subseteq> set (jkeys v) \<and>
     set (jkeys v) \<subseteq> set (map lit (required @ optional)))"

definition pol_ref :: "json \<Rightarrow> unit res" where
  "pol_ref v = bad_unless (case v of JStr s \<Rightarrow> REF_PATTERN s | _ \<Rightarrow> False)"

definition pol_digest :: "nat \<Rightarrow> json \<Rightarrow> unit res" where
  "pol_digest n v = bad_unless (case v of JStr s \<Rightarrow> length s = n \<and> (\<forall>c \<in> set s. is_hex_digit c) | _ \<Rightarrow> False)"

definition pol_positive :: "bool \<Rightarrow> json \<Rightarrow> unit res" where
  "pol_positive allow_zero v = bad_unless (case v of JInt n \<Rightarrow> (if allow_zero then 0 else 1) \<le> n \<and> n \<le> MAX_SAFE_INTEGER | _ \<Rightarrow> False)"

text \<open>An absolute path in the form \<open>str(Path(value))\<close>, with no \<open>..\<close> among its parts.\<close>

definition posix_abs :: "pystr \<Rightarrow> bool" where
  "posix_abs s = (prefix [47] s \<and> \<not> prefix [47, 47] s \<and> 47 # join_slash (posix_parts s) = s \<and> lit ''..'' \<notin> set (posix_parts s))"

definition pol_path :: "json \<Rightarrow> pystr res" where
  "pol_path v = (case v of JStr s \<Rightarrow> if posix_abs s \<and> 0 \<notin> set s \<and> s \<noteq> [47] then Inr s else Inl bad | _ \<Rightarrow> Inl bad)"

text \<open>\<open>set(value)\<close> raises \<open>TypeError\<close> on an element that cannot be hashed.\<close>

definition hashable :: "json list \<Rightarrow> unit res" where
  "hashable xs = raise_if (\<exists>x \<in> set xs. is_list x \<or> is_dict x) (PyError ''TypeError'')"

definition pol_refs :: "json \<Rightarrow> pystr list option \<Rightarrow> unit res" where
  "pol_refs v allowed = (case v of
     JList xs \<Rightarrow> thenE (hashable xs) (thenE (bad_unless (distinct xs))
       (forE xs (\<lambda>x. thenE (pol_ref x) (case allowed of None \<Rightarrow> Inr () | Some as \<Rightarrow> bad_unless (\<exists>a \<in> set as. x = JStr a)))))
   | _ \<Rightarrow> Inl bad)"

text \<open>\<open>a == b or a in b.parents or b in a.parents\<close> on absolute paths.\<close>

definition parts_overlap :: "pystr \<Rightarrow> pystr \<Rightarrow> bool" where
  "parts_overlap left right = (prefix (posix_parts left) (posix_parts right) \<or> prefix (posix_parts right) (posix_parts left))"

definition pol_file_names :: "json \<Rightarrow> nat \<Rightarrow> unit res" where
  "pol_file_names files n =
     thenE (bad_unless (is_dict files))
     (forE (items files) (\<lambda>(name, digest).
        thenE (bad_unless (name \<noteq> [] \<and> \<not> is_absolute name \<and> lit ''..'' \<notin> set (posix_parts name) \<and> 92 \<notin> set name))
          (pol_digest n digest)))"

text \<open>Two elements at different positions of a list.\<close>

fun some_pair :: "('a \<Rightarrow> 'a \<Rightarrow> bool) \<Rightarrow> 'a list \<Rightarrow> bool" where
  "some_pair P [] = False"
| "some_pair P (x # xs) = ((\<exists>y \<in> set xs. P x y) \<or> some_pair P xs)"

lemma not_some_pair: "\<not> some_pair P xs \<longleftrightarrow> sorted_wrt (\<lambda>x y. \<not> P x y) xs"
  by (induction xs) auto

section \<open>Installed runtimes\<close>

text \<open>\<open>local_a2_jobs.validate_runtime\<close>; its errors are \<open>LedgerPlanError\<close>, a subclass of \<open>ValueError\<close>.\<close>

abbreviation plan_error :: exn where
  "plan_error \<equiv> PyError ''ValueError''"

definition ledger_path :: "json \<Rightarrow> pystr res" where
  "ledger_path v = (case v of JStr s \<Rightarrow> if posix_abs s \<and> 0 \<notin> set s then Inr s else Inl plan_error | _ \<Rightarrow> Inl plan_error)"

definition SOURCE_BLOBS :: "(string \<times> string) list" where
  "SOURCE_BLOBS = [(''src/infra_artifact_ledger/__init__.py'', ''1c6eaf6c61d4dadc9597620384072269e0f0db90''),
     (''src/infra_artifact_ledger/__main__.py'', ''d6dc00c4af8d5e63bd941ca42547b659256f2257''),
     (''src/infra_artifact_ledger/_checkpoints.py'', ''4074eef3dd8d01dcea320504492b92f3acf6d194''),
     (''src/infra_artifact_ledger/cli.py'', ''21cfb47214903cf2f0c88a243b97e2fb4fb6e04d''),
     (''src/infra_artifact_ledger/errors.py'', ''f28642ac43d4729bd7cc0b72620846c16e97b8bc''),
     (''src/infra_artifact_ledger/fingerprint.py'', ''81c72458329eeed7caeb4d7918c1871a5e232ea1''),
     (''src/infra_artifact_ledger/portable.py'', ''4077fd57d624b70c215e5e482286f88c9379c511''),
     (''src/infra_artifact_ledger/records.py'', ''7ff4cbc3e7099bf7464339e8456fb3e1ffed4cfd''),
     (''src/infra_artifact_ledger/recovery.py'', ''46d90e74150f069dbcdfc115d8fb157bba1fcca7''),
     (''src/infra_artifact_ledger/service.py'', ''fea8428cac264cb9cabea0017ff5829121dc36fa''),
     (''src/infra_artifact_ledger/snapshot_cli.py'', ''459f97568a1841de174474d270a0bd545752538c''),
     (''src/infra_artifact_ledger/snapshot_common.py'', ''a70dfeb897f2b313fdf6c0c1580424826bbea3be''),
     (''src/infra_artifact_ledger/snapshot_format.py'', ''8befa03444f255f804c1c4d55b9a455fc639e0f3''),
     (''src/infra_artifact_ledger/snapshot_sqlite.py'', ''baaad0f552bc4f3895c47879ffc910ae0aa42333''),
     (''src/infra_artifact_ledger/snapshot_storage.py'', ''fe56add3d925bd9b677151845b8c169ce67479d8''),
     (''src/infra_artifact_ledger/sqlite_store.py'', ''8c9ecd8acdd4a022280e6bac9954aebc48a1dd92''),
     (''src/infra_artifact_ledger/validation.py'', ''cb26e75a86c989bbb0d7fd6d18fa85dec1ab7b95''),
     (''tests/installed_snapshot_walkthrough.py'', ''347e07b6c32042ddf10bebb0ddfab45c703c0c14'')]"

definition RUNTIME_FIELDS :: "string list" where
  "RUNTIME_FIELDS = [''source_root'', ''source_commit'', ''source_blobs'', ''runtime_root'', ''runtime_python'',
     ''runtime_python_realpath'', ''runtime_python_sha256'', ''venv_config_sha256'', ''package_root'', ''wheel'',
     ''wheel_sha256'', ''console_script_sha256'']"

definition RUNTIME_PATHS :: "string list" where
  "RUNTIME_PATHS = [''source_root'', ''runtime_root'', ''runtime_python'', ''runtime_python_realpath'', ''package_root'', ''wheel'']"

definition RUNTIME_HASHES :: "string list" where
  "RUNTIME_HASHES = [''runtime_python_sha256'', ''venv_config_sha256'', ''wheel_sha256'', ''console_script_sha256'']"

definition inside :: "pystr \<Rightarrow> pystr \<Rightarrow> bool" where
  "inside child ancestor = prefix (posix_parts ancestor) (posix_parts child)"

definition validate_runtime :: "json \<Rightarrow> unit res" where
  "validate_runtime v =
     thenE (raise_if (\<not> (is_dict v \<and> has_keys v RUNTIME_FIELDS)) plan_error)
     (thenE (forE RUNTIME_PATHS (\<lambda>name. bindE (ledger_path (get_or v name JNull)) (\<lambda>_. Inr ())))
     (thenE (forE RUNTIME_HASHES (\<lambda>name. raise_if (\<not> is_str_field v name DIGEST_PATTERN) plan_error))
     (thenE (raise_if (\<not> is_str_field v ''source_commit'' (\<lambda>s. length s = 40 \<and> (\<forall>c \<in> set s. is_hex_digit c))) plan_error)
     (thenE (raise_if (\<not> jeq (get_or v ''source_blobs'' JNull) (obj (map (\<lambda>(k, x). (k, jlit x)) SOURCE_BLOBS))) plan_error)
     (let source = str_of (fld v ''source_root''); runtime = str_of (fld v ''runtime_root'');
          package = posix_parts (str_of (fld v ''package_root'')) in
      thenE (raise_if (inside source runtime \<or> inside runtime source) plan_error)
     (thenE (raise_if (str_of (fld v ''runtime_python'') \<noteq> 47 # join_slash (posix_parts runtime @ [lit ''bin'', lit ''python''])) plan_error)
      (raise_if (\<not> (prefix (posix_parts runtime) package \<and> 2 \<le> length package \<and> last package = lit ''infra_artifact_ledger'' \<and>
           last (butlast package) = lit ''site-packages'')) plan_error)))))))"

section \<open>Profiles\<close>

text \<open>What the validation of the profiles collects.\<close>

record pol_acc =
  writable :: "pystr list"
  readonly_paths :: "pystr list"
  profile_roots :: "(pystr list \<times> json list) list"
  archives :: "(pystr \<times> json \<times> json) list"

definition unit_path :: "json \<Rightarrow> unit res" where
  "unit_path v = bindE (pol_path v) (\<lambda>_. Inr ())"

definition at :: "json \<Rightarrow> string \<Rightarrow> json" where
  "at v k = get_or v k JNull"

definition path_at :: "json \<Rightarrow> string \<Rightarrow> pystr" where
  "path_at v k = str_of (fld v k)"

text \<open>\<open>if k in v: f(v[k])\<close>\<close>

definition when_key :: "json \<Rightarrow> string \<Rightarrow> (json \<Rightarrow> unit res) \<Rightarrow> unit res" where
  "when_key v k f = (case fld v k of None \<Rightarrow> Inr () | Some x \<Rightarrow> f x)"

definition check_manifest_pin :: "json \<Rightarrow> unit res" where
  \<comment> \<open>a pinned file: \<open>workspace_git\<close> and the \<open>manifest\<close> of a source\<close>
  "check_manifest_pin v = thenE (pol_keys v [''path'', ''sha256''] []) (thenE (unit_path (at v ''path'')) (pol_digest 64 (at v ''sha256'')))"

definition check_runtimes :: "json \<Rightarrow> unit res" where
  "check_runtimes runtimes =
     thenE (bad_unless (is_dict runtimes \<and> length (items runtimes) \<le> 100))
     (forE (items runtimes) (\<lambda>(ref, runtime).
        thenE (pol_ref (JStr ref)) (case validate_runtime runtime of Inl _ \<Rightarrow> Inl bad | Inr _ \<Rightarrow> Inr ())))"

definition runtime_readonly :: "json \<Rightarrow> pystr list" where
  "runtime_readonly profile = concat (map (\<lambda>runtime. map (path_at runtime) [''source_root'', ''runtime_root'', ''wheel'', ''runtime_python_realpath''])
     (jvalues (get_or profile ''local_a2_runtimes'' JNull)))"

text \<open>The module names of a fixed validation.\<close>

definition test_module :: "pystr \<Rightarrow> bool" where
  "test_module s = (prefix (lit ''test_'') s \<and> length s > 5 \<and> (\<forall>c \<in> set (drop 5 s). lower_alnum c \<or> c = 95))"

definition check_source :: "json \<Rightarrow> unit res" where
  "check_source item =
     thenE (pol_keys item [''root'', ''commit'', ''blobs''] [''validations'', ''manifest''])
     (thenE (unit_path (at item ''root''))
     (thenE (pol_digest 40 (at item ''commit''))
     (thenE (pol_file_names (at item ''blobs'') 40)
     (thenE (when_key item ''manifest'' (\<lambda>m. thenE (check_manifest_pin m)
        (bad_unless (json_digest (obj [(''commit'', at item ''commit''), (''blobs'', at item ''blobs'')]) = path_at m ''sha256''))))
      (when_key item ''validations'' (\<lambda>vs. thenE (bad_unless (is_dict vs \<and> items vs \<noteq> []))
        (forE (items vs) (\<lambda>(validation, modules). thenE (pol_ref (JStr validation))
           (bad_unless (case modules of JList ms \<Rightarrow> 1 \<le> length ms \<and> length ms \<le> 16 \<and>
                (\<forall>m \<in> set ms. case m of JStr name \<Rightarrow> test_module name \<and>
                   dget (at item ''blobs'') (lit ''tests/'' @ name @ lit ''.py'') \<noteq> None | _ \<Rightarrow> False)
              | _ \<Rightarrow> False))))))))))"

definition source_readonly :: "json \<Rightarrow> pystr list" where
  "source_readonly item = path_at item ''root'' # (case fld item ''manifest'' of None \<Rightarrow> [] | Some m \<Rightarrow> [path_at m ''path''])"

definition check_cache :: "json \<Rightarrow> unit res" where
  "check_cache item = thenE (pol_keys item [''root'', ''files''] [])
     (thenE (unit_path (at item ''root'')) (pol_file_names (at item ''files'') 64))"

definition mount_ok :: "json \<Rightarrow> bool" where
  "mount_ok binding =
     (is_str_field binding ''source'' (\<lambda>s. 1 \<le> length s \<and> length s \<le> 1024 \<and> (\<forall>c \<in> set s. 32 \<le> c)) \<and>
      is_str_field binding ''root'' posix_abs \<and> at binding ''type'' \<in> {jlit ''nfs'', jlit ''nfs4'', jlit ''cifs''})"

definition check_storage :: "json \<Rightarrow> unit res" where
  "check_storage item =
     thenE (pol_keys item [''config'', ''config_digest'', ''resource_id'', ''archive_root'', ''stable_mount_binding''] [])
     (thenE (unit_path (at item ''config''))
     (thenE (unit_path (at item ''archive_root''))
     (thenE (pol_digest 64 (at item ''config_digest''))
     (thenE (pol_ref (at item ''resource_id''))
     (let binding = at item ''stable_mount_binding'' in
      thenE (pol_keys binding [''source'', ''root'', ''type'', ''device'', ''inode''] [])
     (thenE (bad_unless (mount_ok binding))
     (thenE (pol_positive True (at binding ''device'')) (pol_positive False (at binding ''inode'')))))))))"

definition check_inputs :: "json \<Rightarrow> unit res" where
  "check_inputs profile = forE [(''sources'', check_source), (''build_caches'', check_cache), (''storages'', check_storage)] (\<lambda>(category, check).
     thenE (bad_unless (is_dict (at profile category)))
       (forE (items (at profile category)) (\<lambda>(input_ref, item). thenE (pol_ref (JStr input_ref)) (check item))))"

definition check_budgets :: "int \<Rightarrow> json \<Rightarrow> unit res" where
  "check_budgets retained budgets =
     thenE (pol_keys budgets (filter (\<lambda>k. k \<notin> set OPTIONAL_KINDS) KINDS @ [''reconcile'']) OPTIONAL_KINDS)
     (forE (items budgets) (\<lambda>(kind, budget).
        thenE (pol_keys budget BUDGET_FIELDS [])
       (thenE (forE (items budget) (\<lambda>(field, v). pol_positive (field = lit ''nas_bytes'' \<and> kind \<noteq> lit ''ledger.nas.roundtrip'') v))
       (thenE (bad_unless (int_of (fld budget ''reservation_bytes'') \<ge>
                  3 * (int_of (fld budget ''temporary_bytes'') + int_of (fld budget ''log_bytes''))))
          (bad_unless (int_of (fld budget ''reservation_bytes'') \<le> retained))))))"

text \<open>The checks of one profile by itself, in the order of the loop.\<close>

definition own_roots :: "json \<Rightarrow> pystr list" where
  "own_roots profile = map (path_at profile) [''work_root'', ''evidence_root'', ''temporary_root'']"

definition check_profile :: "int \<Rightarrow> pystr \<times> json \<Rightarrow> unit res" where
  "check_profile retained entry = (case entry of (ref, profile) \<Rightarrow>
     thenE (pol_ref (JStr ref))
     (thenE (pol_keys profile [''work_root'', ''evidence_root'', ''temporary_root'', ''python'', ''sources'', ''build_caches'',
          ''storages'', ''budgets'', ''resource_ids''] [''execution_admission'', ''display_name'', ''bootstrap_slots'',
          ''bootstrap_evidence_store'', ''workspace_git'', ''local_a2_runtimes''])
     (thenE (when_key profile ''workspace_git'' check_manifest_pin)
     (thenE (when_key profile ''local_a2_runtimes'' check_runtimes)
     (thenE (forE [''work_root'', ''evidence_root'', ''temporary_root'', ''python''] (\<lambda>field. unit_path (at profile field)))
     (thenE (bad_unless (\<not> some_pair parts_overlap (own_roots profile)))
     (thenE (when_key profile ''bootstrap_evidence_store'' (validate_root None))
     (thenE (pol_refs (at profile ''resource_ids'') None)
     (thenE (bad_unless (at profile ''resource_ids'' \<noteq> JList []))
     (thenE (when_key profile ''display_name'' (\<lambda>v. bad_unless (case v of JStr s \<Rightarrow> length s \<le> 256 | _ \<Rightarrow> False)))
     (thenE (when_key profile ''execution_admission'' (\<lambda>v.
        thenE (pol_keys v [''quota_enforced'', ''filesystem_isolation'', ''stable_inputs''] [])
          (bad_unless (\<forall>x \<in> set (jvalues v). x = JBool True))))
     (thenE (check_inputs profile)
        (check_budgets retained (at profile ''budgets''))))))))))))))"

definition elements :: "json \<Rightarrow> json list" where
  "elements v = (case v of JList xs \<Rightarrow> xs | _ \<Rightarrow> [])"

definition profile_storages :: "json \<Rightarrow> json list" where
  "profile_storages profile = jvalues (at profile ''storages'')"

text \<open>What one profile adds to the lists of the loop.\<close>

definition add_profile :: "json \<Rightarrow> pol_acc \<Rightarrow> pol_acc" where
  "add_profile profile acc =
     \<lparr>writable = writable acc @ own_roots profile @
        (case fld profile ''bootstrap_evidence_store'' of None \<Rightarrow> [] | Some st \<Rightarrow> [path_of st]) @
        map (\<lambda>item. path_at item ''archive_root'') (profile_storages profile),
      readonly_paths = readonly_paths acc @ (case fld profile ''workspace_git'' of None \<Rightarrow> [] | Some g \<Rightarrow> [path_at g ''path'']) @
        runtime_readonly profile @ [path_at profile ''python''] @
        concat (map source_readonly (jvalues (at profile ''sources''))) @
        map (\<lambda>item. path_at item ''root'') (jvalues (at profile ''build_caches'')) @
        map (\<lambda>item. path_at item ''config'') (profile_storages profile),
      profile_roots = profile_roots acc @ [(own_roots profile, elements (at profile ''resource_ids''))],
      archives = archives acc @ map (\<lambda>item. (path_at item ''archive_root'', at item ''resource_id'', at item ''stable_mount_binding''))
        (profile_storages profile)\<rparr>"

definition collect_profiles :: "int \<Rightarrow> pol_acc \<Rightarrow> dict \<Rightarrow> pol_acc res" where
  "collect_profiles retained = foldE (\<lambda>acc entry. thenE (check_profile retained entry) (Inr (add_profile (snd entry) acc)))"

section \<open>Isolation of the roots\<close>

definition same_mount :: "json \<Rightarrow> json \<Rightarrow> bool" where
  "same_mount a b = (\<forall>k \<in> {''source'', ''root'', ''type'', ''device'', ''inode''}. jeq (at a k) (at b k))"

definition store_paths :: "json \<Rightarrow> pystr list" where
  "store_paths profiles = concat (map (\<lambda>profile. case fld profile ''bootstrap_evidence_store'' of None \<Rightarrow> [] | Some st \<Rightarrow> [path_of st]) (jvalues profiles))"

definition shares :: "json list \<Rightarrow> json list \<Rightarrow> bool" where
  "shares xs ys = (set xs \<inter> set ys \<noteq> {})"

definition check_isolation :: "json \<Rightarrow> pystr list \<Rightarrow> pol_acc \<Rightarrow> unit res" where
  "check_isolation config forbidden acc =
     thenE (bad_unless (\<not> (\<exists>root \<in> set (writable acc). \<exists>denied \<in> set forbidden. parts_overlap root denied)))
     (thenE (bad_unless (\<not> (\<exists>root \<in> set (writable acc). \<exists>src \<in> set (readonly_paths acc). parts_overlap root src)))
     (let execution_roots = concat (map fst (profile_roots acc)) @ map fst (archives acc) @ store_paths (at config ''profiles'') in
      thenE (bad_unless (\<not> (\<exists>root \<in> set execution_roots. \<exists>control \<in> {path_at config ''broker_root'', path_at config ''authority_root''}.
               parts_overlap root control)))
     (thenE (bad_unless (\<forall>(archive_root, archive_id, _) \<in> set (archives acc). \<forall>(roots, ids) \<in> set (profile_roots acc).
               (\<exists>root \<in> set roots. parts_overlap archive_root root) \<longrightarrow> archive_id \<in> set ids))
     (thenE (bad_unless (\<not> some_pair (\<lambda>(left_root, left_id, left_binding) (right_root, right_id, right_binding).
               (parts_overlap left_root right_root \<or> same_mount left_binding right_binding) \<and> left_id \<noteq> right_id) (archives acc)))
        (bad_unless (\<not> some_pair (\<lambda>(left_roots, left_ids) (right_roots, right_ids).
               (\<exists>a \<in> set left_roots. \<exists>b \<in> set right_roots. parts_overlap a b) \<and> \<not> shares left_ids right_ids) (profile_roots acc)))))))"

section \<open>Principals, peers and the process manager\<close>

definition check_access :: "json \<Rightarrow> pystr \<times> json \<Rightarrow> unit res" where
  "check_access profiles entry = (case entry of (profile_ref, access) \<Rightarrow>
     case dget profiles profile_ref of
       None \<Rightarrow> Inl bad
     | Some profile \<Rightarrow>
       thenE (pol_keys access [''kinds'', ''source_refs'', ''build_cache_refs'', ''storage_refs'', ''prepared_refs'', ''prepared_access''] [''runtime_refs''])
       (thenE (pol_refs (at access ''kinds'') (Some (map lit KINDS)))
       (thenE (bad_unless (\<forall>k \<in> set (elements (at access ''kinds'')). dget (at profile ''budgets'') (str_of (Some k)) \<noteq> None))
       (thenE (forE [(''source_refs'', ''sources''), (''build_cache_refs'', ''build_caches''), (''storage_refs'', ''storages'')]
                (\<lambda>(field, category). pol_refs (at access field) (Some (jkeys (at profile category)))))
       (thenE (pol_refs (get_or access ''runtime_refs'' (JList [])) (Some (jkeys (get_or profile ''local_a2_runtimes'' (JObj [])))))
       (thenE (bad_unless (\<not> (jlit ''ledger.test.local_a2'' \<in> set (elements (at access ''kinds'')) \<and> \<not> truthy (get_or access ''runtime_refs'' JNull))))
       (thenE (pol_refs (at access ''prepared_refs'') None)
       (thenE (bad_unless (at access ''prepared_access'' \<in> {jlit ''owned'', jlit ''listed''}))
          (bad_unless (\<not> (at access ''prepared_access'' = jlit ''owned'' \<and> truthy (at access ''prepared_refs''))))))))))))"

definition check_principal :: "json \<Rightarrow> pystr \<times> json \<Rightarrow> unit res" where
  "check_principal profiles entry = (case entry of (pid, grant) \<Rightarrow>
     thenE (pol_ref (JStr pid))
     (thenE (pol_keys grant [''scopes'', ''profiles''] [])
     (thenE (bad_unless (is_list (at grant ''scopes'')))
     (thenE (hashable (elements (at grant ''scopes'')))
     (thenE (bad_unless (\<forall>x \<in> set (elements (at grant ''scopes'')). \<exists>p \<in> set TOOL_SCOPES. x = jlit (snd p)))
     (thenE (bad_unless (is_dict (at grant ''profiles'') \<and> items (at grant ''profiles'') \<noteq> []))
        (forE (items (at grant ''profiles'')) (check_access profiles))))))))"

definition uid_text :: "pystr \<Rightarrow> bool" where
  "uid_text s = (s = lit ''0'' \<or> (s \<noteq> [] \<and> hd s \<noteq> 48 \<and> length s \<le> 10 \<and> (\<forall>c \<in> set s. is_digit c)))"

definition check_peers :: "json \<Rightarrow> json \<Rightarrow> unit res" where
  "check_peers principals peers =
     thenE (bad_unless (is_dict peers))
     (forE (items peers) (\<lambda>(uid, pid).
        thenE (bad_unless (uid_text uid)) (thenE (hashable [pid]) (bad_unless (\<exists>p \<in> set (jkeys principals). pid = JStr p)))))"

definition manager_slice :: "pystr \<Rightarrow> bool" where
  "manager_slice s = (slice_component (\<lambda>c. c \<in> {95, 45}) s \<and> length (slice_stem s) \<le> 101)"

definition check_manager :: "json \<Rightarrow> unit res" where
  "check_manager config = (case fld config ''process_manager'' of
     None \<Rightarrow> bad_unless (at config ''schema_version'' \<noteq> jlit ''lh-policy-v2'')
   | Some manager \<Rightarrow>
       thenE (if at config ''schema_version'' = jlit ''lh-policy-v2''
              then thenE (pol_keys manager SYSTEM_CONFIGURATION_KEYS [])
                (bindE (from_configuration (Some (path_at config ''authority_id'')) manager) (\<lambda>_. Inr ()))
              else pol_keys manager [''uid'', ''slice'', ''cgroup''] [])
       (thenE (pol_positive True (at manager ''uid''))
       (thenE (bad_unless (is_str_field manager ''slice'' manager_slice))
       (bindE (pol_path (at manager ''cgroup'')) (\<lambda>cgroup. bad_unless (prefix (lit ''/sys/fs/cgroup/'') cgroup))))))"

section \<open>Bootstrap pools of the profiles\<close>

record pool_acc =
  pool_roots :: "json list"
  pool_stores :: "(json \<times> json list) list"

definition pool_step :: "json \<Rightarrow> pystr list \<Rightarrow> pol_acc \<Rightarrow> int option \<Rightarrow> pool_acc \<Rightarrow> json \<Rightarrow> pool_acc res" where
  "pool_step config forbidden acc uid pools profile =
     bindE (case fld profile ''bootstrap_slots'' of
         None \<Rightarrow> Inr pools
       | Some slots \<Rightarrow>
           thenE (validate_slots (Some (obj (map (\<lambda>name. (name, at profile (name @ ''_root''))) [''work'', ''evidence'', ''temporary'']))) uid
               (map JStr (forbidden @ [path_at config ''broker_root'', path_at config ''authority_root''] @ readonly_paths acc)) slots)
             (Inr (pools\<lparr>pool_roots := pool_roots pools @ concat (map (\<lambda>slot. jvalues (at slot ''roots'')) (elements slots))\<rparr>))) (\<lambda>pools'.
     case fld profile ''bootstrap_evidence_store'' of
         None \<Rightarrow> Inr pools'
       | Some st \<Rightarrow>
           thenE (bad_unless (fld profile ''bootstrap_slots'' \<noteq> None))
           (thenE (validate_root uid st)
           (thenE (bad_unless (\<not> (\<exists>(roots, ids) \<in> set (profile_roots acc). \<exists>path \<in> set roots. parts_overlap (path_of st) path)))
           (thenE (bad_unless (\<not> (\<exists>(path, ids) \<in> set (archives acc). parts_overlap (path_of st) path)))
              (Inr (pools'\<lparr>pool_stores := pool_stores pools' @ [(st, elements (at profile ''resource_ids''))]\<rparr>))))))"

definition root_clash :: "json \<Rightarrow> json \<Rightarrow> bool" where
  "root_clash a b = (parts_overlap (path_of a) (path_of b) \<or> inode_of a = inode_of b)"

definition check_pools :: "pol_acc \<Rightarrow> pool_acc \<Rightarrow> unit res" where
  "check_pools acc pools =
     thenE (bad_unless (\<not> some_pair root_clash (pool_roots pools) \<and>
        \<not> (\<exists>root \<in> set (pool_roots pools). \<exists>(st, ids) \<in> set (pool_stores pools). root_clash root st)))
     (thenE (bad_unless (\<not> (\<exists>root \<in> set (pool_roots pools @ map fst (pool_stores pools)). \<exists>(path, i, binding) \<in> set (archives acc).
        inode_of root = inode_of binding)))
      (bad_unless (\<not> some_pair (\<lambda>(st, ids) (other, other_ids). root_clash st other \<and> (\<not> jeq st other \<or> \<not> shares ids other_ids))
        (pool_stores pools))))"

section \<open>The whole configuration\<close>

definition CONFIG_KEYS :: "string list" where
  "CONFIG_KEYS = [''schema_version'', ''authority_id'', ''node_id'', ''install_uuid'', ''deployment_epoch'', ''generation'', ''broker_root'',
     ''authority_root'', ''forbidden_roots'', ''limits'', ''profiles'', ''principals'', ''installed_payload_digest'', ''execution_entrypoint'',
     ''source_commit'']"

definition check_header :: "json \<Rightarrow> pystr list res" where
  "check_header config =
     thenE (pol_keys config CONFIG_KEYS [''local_peers'', ''process_manager''])
     (thenE (bad_unless (at config ''schema_version'' \<in> {jlit ''lh-policy-v1'', jlit ''lh-policy-v2''}))
     (thenE (forE [''authority_id'', ''node_id''] (\<lambda>k. pol_ref (at config k)))
     (thenE (bad_unless (is_str_field config ''install_uuid'' UUID_PATTERN))
     (thenE (forE [''deployment_epoch'', ''generation''] (\<lambda>k. pol_positive False (at config k)))
     (thenE (pol_digest 40 (at config ''source_commit''))
     (thenE (pol_digest 64 (at config ''installed_payload_digest''))
     (thenE (forE [''broker_root'', ''authority_root'', ''execution_entrypoint''] (\<lambda>k. unit_path (at config k)))
     (thenE (bad_unless (is_list (at config ''forbidden_roots'') \<and> at config ''forbidden_roots'' \<noteq> JList []))
     (bindE (mapE pol_path (elements (at config ''forbidden_roots''))) (\<lambda>forbidden.
      thenE (pol_keys (at config ''limits'') LIMIT_FIELDS [''control_response_seconds''])
     (thenE (forE (jvalues (at config ''limits'')) (pol_positive False))
     (thenE (bad_unless (is_dict (at config ''profiles'') \<and> items (at config ''profiles'') \<noteq> []))
        (Inr forbidden)))))))))))))"

definition start_acc :: "json \<Rightarrow> pol_acc" where
  "start_acc config = \<lparr>writable = [path_at config ''broker_root'', path_at config ''authority_root''],
     readonly_paths = [path_at config ''execution_entrypoint''], profile_roots = [], archives = []\<rparr>"

definition manager_uid :: "json \<Rightarrow> int option" where
  \<comment> \<open>\<open>config.get("process_manager", {}).get("uid")\<close>\<close>
  "manager_uid config = (case fld config ''process_manager'' of None \<Rightarrow> None
     | Some manager \<Rightarrow> (case fld manager ''uid'' of Some (JInt n) \<Rightarrow> Some n | _ \<Rightarrow> None))"

definition validate_policy :: "json \<Rightarrow> unit res" where
  "validate_policy config =
     bindE (check_header config) (\<lambda>forbidden.
     bindE (collect_profiles (int_of (fld (at config ''limits'') ''retained_bytes'')) (start_acc config) (items (at config ''profiles''))) (\<lambda>acc.
     thenE (check_isolation config forbidden acc)
     (thenE (bad_unless (is_dict (at config ''principals'') \<and> items (at config ''principals'') \<noteq> []))
     (thenE (forE (items (at config ''principals'')) (check_principal (at config ''profiles'')))
     (thenE (check_peers (at config ''principals'') (get_or config ''local_peers'' (JObj [])))
     (thenE (check_manager config)
     (bindE (foldE (pool_step config forbidden acc (manager_uid config)) \<lparr>pool_roots = [], pool_stores = []\<rparr> (jvalues (at config ''profiles'')))
        (check_pools acc))))))))"

text \<open>
  \<open>Policy.__init__\<close>: every refusal is the one error of the private configuration; the snapshot keeps the
  configuration, its digest and the catalog of prepared references.
\<close>

record policy =
  config :: json
  policy_digest :: pystr
  prepared_catalog :: "(pystr \<times> json) list"

definition as_bad :: "'a res \<Rightarrow> 'a res" where
  "as_bad r = (case r of
     Inl (JobError code m) \<Rightarrow> if code = ''UNAUTHORIZED'' then Inl (JobError code m) else Inl bad
   | Inl (PyError c) \<Rightarrow> if c \<in> {''ValueError'', ''TypeError'', ''OverflowError'', ''RecursionError''} then Inl bad else Inl (PyError c)
   | _ \<Rightarrow> r)"

definition policy_init :: "json \<Rightarrow> policy res" where
  "policy_init c =
     (if nonfinite c then Inl bad
      else thenE (as_bad (validate_policy c)) (Inr \<lparr>config = c, policy_digest = json_digest c, prepared_catalog = []\<rparr>))"

section \<open>Authorization\<close>

abbreviation profiles_of :: "policy \<Rightarrow> json" where "profiles_of P \<equiv> at (config P) ''profiles''"
abbreviation principals_of :: "policy \<Rightarrow> json" where "principals_of P \<equiv> at (config P) ''principals''"

abbreviation unauthorized :: "string \<Rightarrow> exn" where
  "unauthorized m \<equiv> JobError ''UNAUTHORIZED'' m"

definition listed :: "json \<Rightarrow> string \<Rightarrow> json \<Rightarrow> bool" where
  \<comment> \<open>\<open>item in access[field]\<close>\<close>
  "listed access field item = (item \<in> set (elements (at access field)))"

definition authorize_request :: "json \<Rightarrow> json \<Rightarrow> unit res" where
  "authorize_request grant req =
     (let profile_ref = at req ''profile_ref'' in
      if is_list profile_ref \<or> is_dict profile_ref then Inl (PyError ''TypeError'') else
      case (case profile_ref of JStr ref \<Rightarrow> dget (at grant ''profiles'') ref | _ \<Rightarrow> None) of
        None \<Rightarrow> Inl (unauthorized ''Job kind or profile is not granted'')
      | Some access \<Rightarrow>
          let inputs = get_or req ''inputs'' (JObj []) in
          thenE (raise_if (\<not> listed access ''kinds'' (at req ''kind'')) (unauthorized ''Job kind or profile is not granted''))
         (thenE (forE [(''source_ref'', ''source_refs''), (''build_cache_ref'', ''build_cache_refs''), (''storage_ref'', ''storage_refs'')]
            (\<lambda>(field, allowed). raise_if (case fld inputs field of None \<Rightarrow> False | Some r \<Rightarrow> \<not> listed access allowed r)
               (unauthorized ''Logical input is not granted'')))
         (thenE (raise_if (at inputs ''runtime_ref'' \<noteq> JNull \<and> \<not> listed access ''runtime_refs'' (at inputs ''runtime_ref''))
            (unauthorized ''Installed runtime is not granted''))
            (raise_if (at inputs ''prepared_ref'' \<noteq> JNull \<and> at access ''prepared_access'' = jlit ''listed'' \<and>
                 \<not> listed access ''prepared_refs'' (at inputs ''prepared_ref''))
               (unauthorized ''Prepared reference is not granted'')))))"

definition authorize :: "int \<Rightarrow> policy \<Rightarrow> principal \<Rightarrow> string \<Rightarrow> json option \<Rightarrow> pystr option \<Rightarrow> unit res" where
  "authorize now P p scope req owner =
     thenE (require_current now p)
     (case dget (principals_of P) (principal_id p) of
        None \<Rightarrow> Inl (unauthorized ''Current principal does not have the required grant'')
      | Some grant \<Rightarrow>
          thenE (raise_if (lit scope \<notin> set (scopes p) \<or> \<not> listed grant ''scopes'' (jlit scope))
             (unauthorized ''Current principal does not have the required grant''))
         (thenE (raise_if (case owner of None \<Rightarrow> False | Some own \<Rightarrow> own \<noteq> principal_id p)
             (unauthorized ''Resource belongs to a different principal''))
          (case req of
             None \<Rightarrow> Inr ()
           | Some r \<Rightarrow> if fld r ''profile_ref'' = None then Inr () else authorize_request grant r)))"

definition profile :: "policy \<Rightarrow> pystr \<Rightarrow> json res" where
  "profile P ref = (case dget (profiles_of P) ref of None \<Rightarrow> Inl (unauthorized ''Profile is not admitted'') | Some v \<Rightarrow> Inr v)"

text \<open>The digest of the registry manifest is the constant of \<open>registry.py\<close>, passed in.\<close>

definition expected :: "pystr \<Rightarrow> policy \<Rightarrow> pystr \<Rightarrow> json res" where
  "expected registry_digest P ref = bindE (profile P ref) (\<lambda>prof.
     Inr (obj [(''node_id'', at (config P) ''node_id''), (''install_uuid'', at (config P) ''install_uuid''),
       (''deployment_epoch'', at (config P) ''deployment_epoch''), (''profile_digest'', JStr (json_digest prof)),
       (''policy_digest'', JStr (policy_digest P)), (''registry_digest'', JStr registry_digest)]))"

definition register_prepared_reference :: "pystr \<Rightarrow> policy \<Rightarrow> json \<Rightarrow> json \<Rightarrow> pystr \<Rightarrow> json option \<Rightarrow> policy res" where
  "register_prepared_reference registry_digest P ref owner profile_ref expect =
     thenE (pol_ref ref)
     (bindE (case expect of None \<Rightarrow> expected registry_digest P profile_ref | Some e \<Rightarrow> Inr e) (\<lambda>e.
      let fact = obj [(''owner'', owner), (''profile_ref'', JStr profile_ref), (''expected'', e)]; r = str_of (Some ref) in
      case map_of (prepared_catalog P) r of
        Some old \<Rightarrow> if \<not> jeq old fact then Inl (JobError ''CONFLICT'' ''Prepared reference cannot be rebound'')
          else Inr (P\<lparr>prepared_catalog := AList.update r fact (prepared_catalog P)\<rparr>)
      | None \<Rightarrow> Inr (P\<lparr>prepared_catalog := AList.update r fact (prepared_catalog P)\<rparr>)))"

end
