(* ===== verification/PolicyProps.thy ===== *)
theory PolicyProps
  imports Policy BootstrapProps
begin

text \<open>
  What an admitted policy guarantees: the writers of executions are isolated from the control roots, from
  forbidden roots and from inputs; profiles that share storage share a lease; and an authorization is
  exactly the grant of the principal.
\<close>

section \<open>The lists collected from the profiles\<close>

lemma collect_profiles_Inr:
  "collect_profiles retained acc kvs = Inr acc' \<Longrightarrow>
     acc' = fold add_profile (map snd kvs) acc \<and> (\<forall>e \<in> set kvs. check_profile retained e = Inr ())"
proof (induction kvs arbitrary: acc)
  case (Cons e kvs)
  from Cons.prems have "check_profile retained e = Inr ()" "collect_profiles retained (add_profile (snd e) acc) kvs = Inr acc'"
    by (auto simp: collect_profiles_def thenE_def split: sum.splits)
  with Cons.IH show ?case by simp
qed (simp add: collect_profiles_def)

lemma fold_add_profile:
  "profile_roots (fold add_profile ps acc) = profile_roots acc @ map (\<lambda>p. (own_roots p, elements (at p ''resource_ids''))) ps"
  "set (writable (fold add_profile ps acc)) = set (writable acc) \<union> (\<Union>p \<in> set ps. set (writable (add_profile p \<lparr>writable = [], readonly_paths = [], profile_roots = [], archives = []\<rparr>)))"
  "set (readonly_paths (fold add_profile ps acc)) = set (readonly_paths acc) \<union> (\<Union>p \<in> set ps. set (readonly_paths (add_profile p \<lparr>writable = [], readonly_paths = [], profile_roots = [], archives = []\<rparr>)))"
  "set (archives (fold add_profile ps acc)) = set (archives acc) \<union> (\<Union>p \<in> set ps. set (archives (add_profile p \<lparr>writable = [], readonly_paths = [], profile_roots = [], archives = []\<rparr>)))"
  by (induction ps arbitrary: acc) (auto simp: add_profile_def)

lemma policy_init_facts:
  assumes "policy_init c = Inr P"
  obtains forbidden acc where "config P = c" "policy_digest P = json_digest c" "prepared_catalog P = []"
    "mapE pol_path (elements (at c ''forbidden_roots'')) = Inr forbidden"
    "acc = fold add_profile (jvalues (at c ''profiles'')) (start_acc c)"
    "check_isolation c forbidden acc = Inr ()" "validate_policy c = Inr ()"
proof -
  from assms have P: "P = \<lparr>config = c, policy_digest = json_digest c, prepared_catalog = []\<rparr>"
    and "as_bad (validate_policy c) = Inr ()"
    by (auto simp: policy_init_def res_simps split: if_splits)
  then have ok: "validate_policy c = Inr ()"
    by (auto simp: as_bad_def split: sum.splits exn.splits if_splits)
  then obtain forbidden acc where head: "check_header c = Inr forbidden"
    and col: "collect_profiles (int_of (fld (at c ''limits'') ''retained_bytes'')) (start_acc c) (items (at c ''profiles'')) = Inr acc"
    and iso: "check_isolation c forbidden acc = Inr ()"
    unfolding validate_policy_def res_simps by blast
  from head have "mapE pol_path (elements (at c ''forbidden_roots'')) = Inr forbidden"
    unfolding check_header_def thenE_Inr_iff bindE_Inr_iff by auto
  with P ok iso collect_profiles_Inr [OF col] show thesis
    by (intro that) (simp_all add: jvalues_def)
qed

text \<open>The directories that executions of a profile may write.\<close>

definition execution_writers :: "json \<Rightarrow> pystr list" where
  "execution_writers p = own_roots p @ (case fld p ''bootstrap_evidence_store'' of None \<Rightarrow> [] | Some st \<Rightarrow> [path_of st]) @
     map (\<lambda>item. path_at item ''archive_root'') (profile_storages p)"

text \<open>The files and directories an execution of a profile reads.\<close>

definition execution_inputs :: "json \<Rightarrow> pystr list" where
  "execution_inputs p = path_at p ''python'' # concat (map source_readonly (jvalues (at p ''sources''))) @
     map (\<lambda>item. path_at item ''root'') (jvalues (at p ''build_caches'')) @ map (\<lambda>item. path_at item ''config'') (profile_storages p)"

text \<open>C29. In an admitted policy no directory that an execution of any profile may write lies at, above or below the
  broker's root, the authority's root, a forbidden root, the execution entrypoint, or an input of any
  profile.\<close>

theorem policy_isolates_writers:
  assumes init: "policy_init c = Inr P"
    and p: "p \<in> set (jvalues (at c ''profiles''))" "q \<in> set (jvalues (at c ''profiles''))"
    and w: "w \<in> set (execution_writers p)"
  shows "(\<forall>r \<in> {path_at c ''broker_root'', path_at c ''authority_root'', path_at c ''execution_entrypoint''} \<union> set (execution_inputs q). \<not> parts_overlap w r) \<and>
    (\<forall>v \<in> set (elements (at c ''forbidden_roots'')). \<not> parts_overlap w (str_of (Some v)))"
proof -
  from init obtain forbidden acc where f: "mapE pol_path (elements (at c ''forbidden_roots'')) = Inr forbidden"
    and acc: "acc = fold add_profile (jvalues (at c ''profiles'')) (start_acc c)"
    and iso: "check_isolation c forbidden acc = Inr ()"
    by (rule policy_init_facts)
  have writable: "w \<in> set (writable acc)"
    using p(1) w unfolding acc fold_add_profile by (auto simp: add_profile_def execution_writers_def)
  have inputs: "r \<in> set (readonly_paths acc)" if "r = path_at c ''execution_entrypoint'' \<or> r \<in> set (execution_inputs q)" for r
    using that p(2) unfolding acc fold_add_profile
    by (auto simp: add_profile_def execution_inputs_def start_acc_def)
  have forb: "str_of (Some v) \<in> set forbidden" if "v \<in> set (elements (at c ''forbidden_roots''))" for v
  proof -
    from that obtain i where "i < length (elements (at c ''forbidden_roots''))" "elements (at c ''forbidden_roots'') ! i = v"
      by (auto simp: in_set_conv_nth)
    with f have "pol_path v = Inr (forbidden ! i)" "i < length forbidden" by (auto simp: mapE_Inr_iff)
    then show ?thesis by (cases v) (auto simp: pol_path_def split: if_splits)
  qed
  from iso have iso1: "\<not> (\<exists>root \<in> set (writable acc). \<exists>denied \<in> set forbidden. parts_overlap root denied)"
    and iso2: "\<not> (\<exists>root \<in> set (writable acc). \<exists>src \<in> set (readonly_paths acc). parts_overlap root src)"
    and iso3: "\<not> (\<exists>root \<in> set (concat (map fst (profile_roots acc)) @ map fst (archives acc) @ store_paths (at c ''profiles'')).
        \<exists>control \<in> {path_at c ''broker_root'', path_at c ''authority_root''}. parts_overlap root control)"
    unfolding check_isolation_def Let_def res_simps by blast+
  have "w \<in> set (concat (map fst (profile_roots acc)) @ map fst (archives acc) @ store_paths (at c ''profiles''))"
  proof -
    from w consider "w \<in> set (own_roots p)" | st where "Some st = fld p ''bootstrap_evidence_store''" "w = path_of st"
      | item where "item \<in> set (profile_storages p)" "w = path_at item ''archive_root''"
      by (auto simp: execution_writers_def split: option.splits)
    then show ?thesis
    proof cases
      case 1
      with p(1) have "w \<in> set (concat (map fst (profile_roots acc)))" by (auto simp: acc fold_add_profile(1))
      then show ?thesis by simp
    next
      case (2 st)
      from 2(1) have "fld p ''bootstrap_evidence_store'' = Some st" by simp
      with 2(2) p(1) have "w \<in> set (store_paths (at c ''profiles''))" by (force simp: store_paths_def)
      then show ?thesis by simp
    next
      case (3 item)
      let ?a = "(path_at item ''archive_root'', at item ''resource_id'', at item ''stable_mount_binding'')"
      have "?a \<in> set (archives acc)" using 3(1) p(1) unfolding acc fold_add_profile(4) by (auto simp: add_profile_def)
      then have "fst ?a \<in> set (map fst (archives acc))" by force
      then show ?thesis by (simp add: 3(2))
    qed
  qed
  with iso1 iso2 iso3 writable inputs forb show ?thesis by blast
qed

section \<open>Shared storage means a shared lease\<close>

lemma pol_refs_distinct: "pol_refs v allowed = Inr () \<Longrightarrow> distinct (elements v)"
  by (cases v) (auto simp: pol_refs_def elements_def res_simps)

lemma overlapping_profiles_share:
  assumes init: "policy_init c = Inr P"
    and p: "jvalues (at c ''profiles'') = as @ p # bs @ q # cs"
    and clash: "a \<in> set (own_roots p)" "b \<in> set (own_roots q)" "parts_overlap a b"
  shows "\<exists>r. r \<in> set (elements (at p ''resource_ids'')) \<and> r \<in> set (elements (at q ''resource_ids''))"
proof -
  from init obtain forbidden acc where acc: "acc = fold add_profile (jvalues (at c ''profiles'')) (start_acc c)"
    and iso: "check_isolation c forbidden acc = Inr ()"
    by (rule policy_init_facts)
  have "\<not> some_pair (\<lambda>(left_roots, left_ids) (right_roots, right_ids).
       (\<exists>a \<in> set left_roots. \<exists>b \<in> set right_roots. parts_overlap a b) \<and> \<not> shares left_ids right_ids) (profile_roots acc)"
    using iso unfolding check_isolation_def Let_def res_simps by blast
  then have "sorted_wrt (\<lambda>x y. \<not> (\<lambda>(left_roots, left_ids) (right_roots, right_ids).
       (\<exists>a \<in> set left_roots. \<exists>b \<in> set right_roots. parts_overlap a b) \<and> \<not> shares left_ids right_ids) x y) (profile_roots acc)"
    unfolding not_some_pair .
  then have "shares (elements (at p ''resource_ids'')) (elements (at q ''resource_ids''))"
    unfolding acc fold_add_profile p using clash
    by (auto simp: start_acc_def sorted_wrt_append)
  then show ?thesis by (auto simp: shares_def)
qed

lemma mapE_canonical_member:
  assumes "mapE (canonical al) rs = Inr names" and "r \<in> set rs" and "canonical al r = Inr k"
  shows "k \<in> set names"
proof -
  from assms(2) obtain i where "i < length rs" "rs ! i = r" by (auto simp: in_set_conv_nth)
  with assms(1,3) have "names ! i = k" "i < length names" by (auto simp: mapE_Inr_iff)
  then show ?thesis by auto
qed

text \<open>C14. Storage that two profiles share is never used by two executions at once.  If the working directories of two
  different profiles of an admitted policy overlap, an execution that binds the resources of the one
  is refused, without a change of the ledger, while an execution of the other holds its leases, under
  whatever aliases the resources are known.\<close>

theorem shared_storage_excludes:
  assumes init: "policy_init c = Inr P"
    and profiles: "jvalues (at c ''profiles'') = as @ p # bs @ q # cs"
    and clash: "a \<in> set (own_roots p)" "b \<in> set (own_roots q)" "parts_overlap a b"
    and bind: "set (elements (at p ''resource_ids'')) \<subseteq> set rs" "set (elements (at q ''resource_ids'')) \<subseteq> set rs'"
    and first: "acquire al owner epoch rs s = (Inr (), s')" and other: "owner' \<noteq> owner"
    and names: "mapE (canonical al) rs = Inr names" "mapE (canonical al) rs' = Inr names'"
  shows "acquire al owner' epoch' rs' s' = (Inl resource_busy, s') \<and> acquire al owner' epoch' rs s' = (Inl resource_busy, s')"
proof -
  from overlapping_profiles_share [OF init profiles clash] obtain r where
    r: "r \<in> set rs" "r \<in> set rs'" using bind by blast
  from r(1) names(1) obtain k where k: "canonical al r = Inr k" by (auto simp: mapE_Inr_iff in_set_conv_nth)
  have kn: "k \<in> set names" "k \<in> set names'"
    using mapE_canonical_member [OF names(1) r(1) k] mapE_canonical_member [OF names(2) r(2) k] by auto
  then have ne: "names \<noteq> []" "names' \<noteq> []" by auto
  from first have free: "\<forall>r \<in> set names. lease_open (sdb s) (owner, epoch) r"
    and s': "s' = s\<lparr>sdb := fold (\<lambda>r. claim_lease r (owner, epoch)) (sort (remdups names)) (sdb s)\<rparr>"
    by (simp_all add: acquire_eq [OF names(1) ne(1)] split: if_splits)
  have "lease_holder (sdb s') k = Some (owner, epoch)"
    using leases.claims_held [of "sort (remdups names)"] free kn(1) by (simp add: s' lease_open_def)
  then have "\<not> lease_open (sdb s') (owner', epoch') k" using other by (simp add: lease_open_def)
  then show ?thesis using kn by (auto simp: acquire_eq [OF names(1) ne(1)] acquire_eq [OF names(2) ne(2)])
qed

section \<open>Authorization\<close>


section \<open>Concrete instances\<close>

definition example_budget :: json where
  "example_budget = obj [(''wall_seconds'', JInt 1), (''terminate_grace_seconds'', JInt 1), (''cpu_seconds'', JInt 1), (''memory_bytes'', JInt 1),
     (''processes'', JInt 1), (''temporary_bytes'', JInt 1), (''nas_bytes'', JInt 1), (''log_bytes'', JInt 1), (''reservation_bytes'', JInt 6)]"

definition example_profile_budgets :: json where
  "example_profile_budgets = obj (map (\<lambda>k. (k, example_budget)) (filter (\<lambda>k. k \<notin> set OPTIONAL_KINDS) KINDS @ [''reconcile'']))"

definition example_profile :: json where
  "example_profile = obj [(''work_root'', jlit ''/w''), (''evidence_root'', jlit ''/e''), (''temporary_root'', jlit ''/t''), (''python'', jlit ''/p''),
     (''sources'', JObj []), (''build_caches'', JObj []), (''storages'', JObj []), (''budgets'', example_profile_budgets),
     (''resource_ids'', JList [jlit ''disk''])]"

definition example_limits :: json where
  "example_limits = obj [(''max_queued'', JInt 10), (''max_running'', JInt 1), (''retained_bytes'', JInt 100), (''ledger_emergency_bytes'', JInt 1),
     (''requests_per_minute'', JInt 60)]"

definition example_access :: json where
  "example_access = obj [(''kinds'', JList [jlit ''host.inspect'']), (''source_refs'', JList []), (''build_cache_refs'', JList []),
     (''storage_refs'', JList []), (''prepared_refs'', JList []), (''prepared_access'', jlit ''owned'')]"

definition example_grants :: json where
  "example_grants = obj [(''alice'', obj [(''scopes'', JList [jlit ''lh:submit'', jlit ''lh:read'', jlit ''lh:cancel'']),
     (''profiles'', obj [(''pa'', example_access)])])]"

definition example_config :: json where
  "example_config = obj [(''schema_version'', jlit ''lh-policy-v1''), (''authority_id'', jlit ''auth''), (''node_id'', jlit ''node''),
     (''install_uuid'', jlit ''00000000-0000-0000-0000-000000000000''), (''deployment_epoch'', JInt 1), (''generation'', JInt 1),
     (''broker_root'', jlit ''/b''), (''authority_root'', jlit ''/a''), (''forbidden_roots'', JList [jlit ''/f'']), (''limits'', example_limits),
     (''profiles'', obj [(''pa'', example_profile), (''pb'', example_profile)]), (''principals'', example_grants),
     (''installed_payload_digest'', JStr (replicate 64 48)), (''execution_entrypoint'', jlit ''/x''), (''source_commit'', JStr (replicate 40 48))]"

definition example_policy :: policy where
  "example_policy = \<lparr>config = example_config, policy_digest = json_digest example_config, prepared_catalog = []\<rparr>"

lemma at_obj [simp]: "at (obj kvs) k = (case map_of kvs k of None \<Rightarrow> JNull | Some x \<Rightarrow> x)"
  by (simp add: at_def get_or_def)

lemma path_at_obj [simp]: "path_at (obj kvs) k = str_of (map_of kvs k)"
  by (simp add: path_at_def)

lemma items_obj [simp]: "items (obj kvs) = map (\<lambda>(k, v). (lit k, v)) kvs" "jvalues (obj kvs) = map snd kvs"
  by (auto simp: items_def obj_def jvalues_def)

lemma pol_keys_obj: "pol_keys (obj kvs) required optional = Inr () \<longleftrightarrow>
    set required \<subseteq> fst ` set kvs \<and> fst ` set kvs \<subseteq> set (required @ optional)"
proof -
  have inj: "inj lit" by (simp add: inj_def)
  have "set (jkeys (obj kvs)) = lit ` fst ` set kvs" by (simp add: image_comp)
  then show ?thesis
    unfolding pol_keys_def bad_unless_Inr set_map using inj by (simp only: inj_image_subset_iff is_dict_obj simp_thms)
qed

lemma example_parts: "posix_parts (lit ''/w'') = [lit ''w'']" "posix_parts (lit ''/e'') = [lit ''e'']" "posix_parts (lit ''/t'') = [lit ''t'']"
    "posix_parts (lit ''/p'') = [lit ''p'']" "posix_parts (lit ''/b'') = [lit ''b'']" "posix_parts (lit ''/a'') = [lit ''a'']"
    "posix_parts (lit ''/f'') = [lit ''f'']" "posix_parts (lit ''/x'') = [lit ''x'']"
  by (simp_all add: posix_parts_def lit_def)

lemma example_paths_ok: "pol_path (jlit ''/w'') = Inr (lit ''/w'')" "pol_path (jlit ''/e'') = Inr (lit ''/e'')" "pol_path (jlit ''/t'') = Inr (lit ''/t'')"
    "pol_path (jlit ''/p'') = Inr (lit ''/p'')" "pol_path (jlit ''/b'') = Inr (lit ''/b'')" "pol_path (jlit ''/a'') = Inr (lit ''/a'')"
    "pol_path (jlit ''/f'') = Inr (lit ''/f'')" "pol_path (jlit ''/x'') = Inr (lit ''/x'')"
  unfolding pol_path_def json.case posix_abs_def example_parts by (simp_all add: lit_def)

lemma example_refs: "pol_ref (jlit ''pa'') = Inr ()" "pol_ref (jlit ''pb'') = Inr ()" "pol_ref (jlit ''disk'') = Inr ()"
    "pol_ref (jlit ''auth'') = Inr ()" "pol_ref (jlit ''node'') = Inr ()" "pol_ref (jlit ''alice'') = Inr ()" "pol_ref (jlit ''host.inspect'') = Inr ()"
  by (simp_all add: pol_ref_def bad_unless_def REF_PATTERN_def lower_alnum_def) (simp_all add: lit_def)

lemma example_own_roots: "own_roots example_profile = [lit ''/w'', lit ''/e'', lit ''/t'']"
  by (simp add: own_roots_def example_profile_def)

lemma example_budgets_ok: "check_budgets 100 example_profile_budgets = Inr ()"
proof -
  have keys: "pol_keys example_budget BUDGET_FIELDS [] = Inr ()"
    by (simp add: example_budget_def pol_keys_obj BUDGET_FIELDS_def)
  have pos: "pol_positive b (JInt 1) = Inr ()" "pol_positive b (JInt 6) = Inr ()" for b
    by (simp_all add: pol_positive_def bad_unless_def MAX_SAFE_INTEGER_def)
  have one: "thenE (forE (items example_budget) (\<lambda>(field, v). pol_positive (P field) v)) r = r" for P r
    by (simp add: example_budget_def pos)
  have ints: "int_of (fld example_budget ''reservation_bytes'') = 6" "int_of (fld example_budget ''temporary_bytes'') = 1"
    "int_of (fld example_budget ''log_bytes'') = 1"
    by (simp_all add: example_budget_def)
  have "pol_keys example_profile_budgets (filter (\<lambda>k. k \<notin> set OPTIONAL_KINDS) KINDS @ [''reconcile'']) OPTIONAL_KINDS = Inr ()"
    unfolding example_profile_budgets_def pol_keys_obj by (auto simp: image_comp comp_def)
  then show ?thesis
    by (auto simp: check_budgets_def res_simps example_profile_budgets_def keys one ints)
qed

lemma example_profile_ok: "check_profile 100 (lit ''pa'', example_profile) = Inr ()" "check_profile 100 (lit ''pb'', example_profile) = Inr ()"
proof -
  have keys: "pol_keys example_profile [''work_root'', ''evidence_root'', ''temporary_root'', ''python'', ''sources'', ''build_caches'',
          ''storages'', ''budgets'', ''resource_ids''] opt = Inr ()" for opt
    by (simp add: example_profile_def pol_keys_obj)
  have absent: "when_key example_profile ''workspace_git'' f = Inr ()" "when_key example_profile ''local_a2_runtimes'' f = Inr ()"
    "when_key example_profile ''bootstrap_evidence_store'' f = Inr ()" "when_key example_profile ''display_name'' f = Inr ()"
    "when_key example_profile ''execution_admission'' f = Inr ()" for f
    by (simp_all add: when_key_def example_profile_def)
  have paths: "forE [''work_root'', ''evidence_root'', ''temporary_root'', ''python''] (\<lambda>field. unit_path (at example_profile field)) = Inr ()"
    by (simp add: example_profile_def unit_path_def example_paths_ok)
  have apart: "\<not> some_pair parts_overlap (own_roots example_profile)"
    by (simp add: example_own_roots parts_overlap_def example_parts)
  have refs: "pol_refs (at example_profile ''resource_ids'') None = Inr ()" "at example_profile ''resource_ids'' \<noteq> JList []"
    by (simp_all add: example_profile_def pol_refs_def hashable_def example_refs bad_unless_def)
  have inputs: "check_inputs example_profile = Inr ()"
    by (simp add: check_inputs_def example_profile_def bad_unless_def items_def)
  have budgets: "at example_profile ''budgets'' = example_profile_budgets" by (simp add: example_profile_def)
  show "check_profile 100 (lit ''pa'', example_profile) = Inr ()" "check_profile 100 (lit ''pb'', example_profile) = Inr ()"
    unfolding check_profile_def prod.case
    by (simp_all only: example_refs keys absent paths refs inputs budgets example_budgets_ok apart bad_unless_def thenE_simps raise_if_simps not_True_eq_False not_not not_False_eq_True simp_thms)
qed

lemma example_header: "check_header example_config = Inr [lit ''/f'']"
proof -
  have keys: "pol_keys example_config CONFIG_KEYS opt = Inr ()" for opt
    by (auto simp: example_config_def pol_keys_obj CONFIG_KEYS_def)
  have version: "at example_config ''schema_version'' = jlit ''lh-policy-v1''" by (simp add: example_config_def)
  have refs: "forE [''authority_id'', ''node_id''] (\<lambda>k. pol_ref (at example_config k)) = Inr ()"
    by (simp add: example_config_def example_refs)
  have uuid: "is_str_field example_config ''install_uuid'' UUID_PATTERN"
    by (simp add: is_str_field_def example_config_def)
      (simp add: UUID_PATTERN_def lit_def is_hex_digit_def eval_nat_numeral)
  have ints: "forE [''deployment_epoch'', ''generation''] (\<lambda>k. pol_positive False (at example_config k)) = Inr ()"
    by (simp add: example_config_def pol_positive_def bad_unless_def MAX_SAFE_INTEGER_def)
  have digests: "pol_digest 40 (at example_config ''source_commit'') = Inr ()" "pol_digest 64 (at example_config ''installed_payload_digest'') = Inr ()"
    by (simp_all add: example_config_def pol_digest_def bad_unless_def is_hex_digit_def)
  have paths: "forE [''broker_root'', ''authority_root'', ''execution_entrypoint''] (\<lambda>k. unit_path (at example_config k)) = Inr ()"
    by (simp add: example_config_def unit_path_def example_paths_ok)
  have forbidden: "at example_config ''forbidden_roots'' = JList [jlit ''/f'']" by (simp add: example_config_def)
  have limits: "at example_config ''limits'' = example_limits" by (simp add: example_config_def)
  have lk: "pol_keys example_limits LIMIT_FIELDS opt = Inr ()" for opt
    by (simp add: example_limits_def pol_keys_obj LIMIT_FIELDS_def)
  have lv: "forE (jvalues example_limits) (pol_positive False) = Inr ()"
    by (simp add: example_limits_def pol_positive_def bad_unless_def MAX_SAFE_INTEGER_def)
  have profiles: "is_dict (at example_config ''profiles'')" "items (at example_config ''profiles'') \<noteq> []"
    by (simp_all add: example_config_def)
  have f: "mapE pol_path (elements (JList [jlit ''/f''])) = Inr [lit ''/f'']" by (simp add: elements_def example_paths_ok)
  show ?thesis
    unfolding check_header_def
    by (simp only: keys version refs uuid ints digests paths forbidden limits lk lv profiles f bad_unless_def thenE_simps bindE_simps
        raise_if_simps simp_thms insertI1 is_list.simps) (simp add: profiles)
qed

lemma example_admitted: "policy_init example_config = Inr example_policy"
proof -
  let ?acc = "fold add_profile [example_profile, example_profile] (start_acc example_config)"
  have limits: "int_of (fld (at example_config ''limits'') ''retained_bytes'') = 100"
    by (simp add: example_config_def) (simp add: example_limits_def)
  have profiles: "items (at example_config ''profiles'') = [(lit ''pa'', example_profile), (lit ''pb'', example_profile)]"
    "jvalues (at example_config ''profiles'') = [example_profile, example_profile]"
    by (simp_all add: example_config_def)
  have collect: "collect_profiles 100 (start_acc example_config) [(lit ''pa'', example_profile), (lit ''pb'', example_profile)] = Inr ?acc"
    by (simp add: collect_profiles_def example_profile_ok)
  have storages: "profile_storages example_profile = []" "jvalues (at example_profile ''sources'') = []" "jvalues (at example_profile ''build_caches'') = []"
    by (simp_all add: profile_storages_def example_profile_def jvalues_def items_def)
  have fields: "fld example_profile ''bootstrap_evidence_store'' = None" "fld example_profile ''workspace_git'' = None" "fld example_profile ''bootstrap_slots'' = None"
    "runtime_readonly example_profile = []" "path_at example_profile ''python'' = lit ''/p''" "elements (at example_profile ''resource_ids'') = [jlit ''disk'']"
    by (simp_all add: example_profile_def runtime_readonly_def get_or_def jvalues_def items_def elements_def)
  have roots: "path_at example_config ''broker_root'' = lit ''/b''" "path_at example_config ''authority_root'' = lit ''/a''"
    "path_at example_config ''execution_entrypoint'' = lit ''/x''"
    by (simp_all add: example_config_def)
  have acc: "?acc = \<lparr>writable = [lit ''/b'', lit ''/a'', lit ''/w'', lit ''/e'', lit ''/t'', lit ''/w'', lit ''/e'', lit ''/t''],
      readonly_paths = [lit ''/x'', lit ''/p'', lit ''/p''],
      profile_roots = [([lit ''/w'', lit ''/e'', lit ''/t''], [jlit ''disk'']), ([lit ''/w'', lit ''/e'', lit ''/t''], [jlit ''disk''])], archives = []\<rparr>"
    by (simp add: add_profile_def start_acc_def roots example_own_roots storages fields)
  have stores: "store_paths (at example_config ''profiles'') = []" by (simp add: store_paths_def profiles fields)
  have iso: "check_isolation example_config [lit ''/f''] ?acc = Inr ()"
    unfolding acc check_isolation_def Let_def res_simps stores roots
    by (simp add: parts_overlap_def example_parts shares_def)
  have principals: "at example_config ''principals'' = example_grants" by (simp add: example_config_def)
  have access: "check_access (at example_config ''profiles'') (lit ''pa'', example_access) = Inr ()"
  proof -
    have "fld (at example_config ''profiles'') ''pa'' = Some example_profile" by (simp add: example_config_def)
    moreover have "pol_keys example_access [''kinds'', ''source_refs'', ''build_cache_refs'', ''storage_refs'', ''prepared_refs'', ''prepared_access''] opt = Inr ()" for opt
      by (simp add: example_access_def pol_keys_obj)
    moreover have "fld (at example_profile ''budgets'') ''host.inspect'' = Some example_budget"
      by (simp add: example_profile_def) (simp add: example_profile_budgets_def KINDS_def OPTIONAL_KINDS_def)
    moreover have "pol_refs (JList []) a = Inr ()" for a by (simp add: pol_refs_def hashable_def bad_unless_def)
    moreover have "pol_refs (JList [jlit ''host.inspect'']) (Some (map lit KINDS)) = Inr ()"
      by (simp add: pol_refs_def hashable_def bad_unless_def example_refs) (simp add: KINDS_def)
    ultimately show ?thesis
      by (simp add: check_access_def bad_unless_def) (simp add: example_access_def elements_def get_or_def)
  qed
  have grant: "forE (items example_grants) (check_principal (at example_config ''profiles'')) = Inr ()"
  proof -
    have "pol_keys (obj [(''scopes'', a), (''profiles'', b)]) [''scopes'', ''profiles''] [] = Inr ()" for a b by (simp add: pol_keys_obj)
    with access show ?thesis
      unfolding forE_Inr_iff
      by (auto simp: example_grants_def check_principal_def example_refs elements_def hashable_def TOOL_SCOPES_def res_simps)
  qed
  have peers: "check_peers p (get_or example_config ''local_peers'' (JObj [])) = Inr ()" for p
    by (simp add: get_or_def example_config_def check_peers_def bad_unless_def items_def)
  have manager: "check_manager example_config = Inr ()" "manager_uid example_config = None"
    by (simp_all add: check_manager_def manager_uid_def example_config_def bad_unless_def)
  have pools: "bindE (foldE (pool_step example_config [lit ''/f''] ?acc None) \<lparr>pool_roots = [], pool_stores = []\<rparr> [example_profile, example_profile]) (check_pools ?acc) = Inr ()"
    by (simp add: pool_step_def fields check_pools_def bad_unless_def)
  have "validate_policy example_config = Inr ()"
    unfolding validate_policy_def example_header bindE_simps limits profiles collect iso thenE_simps principals grant peers manager pools bad_unless_def
    by (simp add: example_grants_def)
  moreover have "\<not> nonfinite example_config"
  proof -
    have "\<not> nonfinite example_profile"
      by (simp add: example_profile_def nonfinite_obj) (auto simp: example_profile_budgets_def nonfinite_obj example_budget_def)
    then show ?thesis
      by (simp add: example_config_def nonfinite_obj) (simp add: example_limits_def example_grants_def example_access_def nonfinite_obj)
  qed
  ultimately show ?thesis by (simp add: policy_init_def as_bad_def example_policy_def)
qed

lemma example_profiles: "jvalues (at example_config ''profiles'') = [example_profile, example_profile]"
  by (simp add: example_config_def)

theorem policy_isolates_writers_witness: "\<not> parts_overlap (lit ''/w'') (path_at example_config ''broker_root'')"
proof -
  have "example_profile \<in> set (jvalues (at example_config ''profiles''))" by (simp add: example_profiles)
  moreover have "lit ''/w'' \<in> set (execution_writers example_profile)" by (simp add: execution_writers_def example_own_roots)
  ultimately show ?thesis using policy_isolates_writers [OF example_admitted] by blast
qed

theorem shared_storage_excludes_witness:
  "\<exists>s'. acquire [] (lit ''job-1'') 1 [jlit ''disk''] example_store = (Inr (), s') \<and>
     acquire [] (lit ''job-2'') 1 [jlit ''disk''] s' = (Inl resource_busy, s')"
proof -
  have names: "mapE (canonical []) [jlit ''disk''] = Inr [lit ''disk'']" by (simp add: canonical_def canonical_from.simps)
  obtain s' where s': "acquire [] (lit ''job-1'') 1 [jlit ''disk''] example_store = (Inr (), s')"
    by (simp add: acquire_eq [OF names] lease_open_def lease_holder_def example_store_def create_def)
  have ids: "set (elements (at example_profile ''resource_ids'')) \<subseteq> set [jlit ''disk'']" by (simp add: example_profile_def elements_def)
  have split: "jvalues (at example_config ''profiles'') = [] @ example_profile # [] @ example_profile # []" by (simp add: example_profiles)
  have w: "lit ''/w'' \<in> set (own_roots example_profile)" by (simp add: example_own_roots)
  have "parts_overlap (lit ''/w'') (lit ''/w'')" by (simp add: parts_overlap_def)
  from shared_storage_excludes [OF example_admitted split w w this ids ids s' _ names names, of "lit ''job-2''" 1]
  have "acquire [] (lit ''job-2'') 1 [jlit ''disk''] s' = (Inl resource_busy, s')" by simp
  with s' show ?thesis by blast
qed

definition example_alice :: principal where
  "example_alice = \<lparr>principal_id = lit ''alice'', scopes = [lit ''lh:submit'', lit ''lh:read''], p_expires_at = Some 1000\<rparr>"

definition example_inspect :: json where
  "example_inspect = obj [(''profile_ref'', jlit ''pa''), (''kind'', jlit ''host.inspect'')]"


end
