(* ===== verification/LedgerPlan.thy ===== *)
theory LedgerPlan
  imports Policy
begin

text \<open>
  The fixed execution plans: \<open>build_plan\<close> of \<open>tools/local_hand_jobs/ledger_jobs.py\<close>, of \<open>workspace_jobs.py\<close>
  and of \<open>local_a2_jobs.py\<close>.  A plan is a JSON object whose stages are argument vectors; no caller text
  becomes a program.  \<open>LedgerPlanError\<close> is a \<open>ValueError\<close>.
\<close>

section \<open>Constants\<close>

definition SOURCE_COMMIT :: string where
  "SOURCE_COMMIT = ''6bd6acfbe5c35d581891eb87275e1173e17848fc''"

definition SCRIPT_BLOBS :: "(string \<times> string) list" where
  "SCRIPT_BLOBS = [(''tools/acceptance/a2_nas_exercise.py'', ''3dc8642cb3034db0e5451b5bf6dc6f4137f27f73''),
     (''tests/installed_snapshot_walkthrough.py'', ''347e07b6c32042ddf10bebb0ddfab45c703c0c14'')]"

definition BUILD_REQUIREMENTS :: "string list" where
  "BUILD_REQUIREMENTS = [''setuptools==84.0.0'', ''wheel==0.48.0'', ''packaging==26.3'']"

definition LEDGER_KINDS :: "string list" where
  "LEDGER_KINDS = [''host.inspect'', ''ledger.prepare'', ''ledger.test.source'', ''ledger.test.resources'',
     ''ledger.test.installed_local'', ''ledger.nas.roundtrip'']"

definition BUDGET_KEYS :: "string list" where
  "BUDGET_KEYS = [''wall_seconds'', ''terminate_grace_seconds'', ''cpu_seconds'', ''memory_bytes'', ''processes'', ''temporary_bytes'',
     ''nas_bytes'', ''log_bytes'', ''reservation_bytes'']"

section \<open>Helpers\<close>

text \<open>\<open>str(Path(root) / name)\<close> for a relative name.\<close>

definition path_join :: "pystr \<Rightarrow> string \<Rightarrow> pystr" where
  "path_join root name = 47 # join_slash (posix_parts root @ posix_parts (lit name))"

definition plan_join :: "json \<Rightarrow> pystr \<Rightarrow> pystr res" where
  "plan_join root name = bindE (ledger_path root) (\<lambda>r. Inr (47 # join_slash (posix_parts r @ posix_parts name)))"

definition clean_environment :: "json \<Rightarrow> bool \<Rightarrow> bool \<Rightarrow> json" where
  "clean_environment temporary source resources = obj ([(''PATH'', jlit ''/usr/bin:/bin''), (''LANG'', jlit ''C.UTF-8''), (''LC_ALL'', jlit ''C.UTF-8''),
     (''TMPDIR'', temporary), (''TMP'', temporary), (''TEMP'', temporary), (''PYTHONNOUSERSITE'', jlit ''1''), (''PYTHONDONTWRITEBYTECODE'', jlit ''1''),
     (''PIP_CONFIG_FILE'', jlit ''/dev/null''), (''PIP_NO_INDEX'', jlit ''1''), (''PIP_DISABLE_PIP_VERSION_CHECK'', jlit ''1''), (''PIP_NO_CACHE_DIR'', jlit ''1'')] @
     (if source then [(''PYTHONPATH'', jlit ''src'')] else []) @ (if resources then [(''A2_RESOURCE_TESTS'', jlit ''1'')] else []))"

definition operation_text :: "pystr \<Rightarrow> bool" where
  "operation_text s = (s \<noteq> [] \<and> length s \<le> 64 \<and> (\<forall>c \<in> set s. lower_alnum c \<or> c = 45))"

definition budget_value_ok :: "json \<Rightarrow> string \<Rightarrow> bool" where
  "budget_value_ok budget key = is_int_field budget key (\<lambda>n. (if key = ''nas_bytes'' then 0 else 1) \<le> n \<and> n \<le> 2 ^ 53 - 1)"

text \<open>\<open>dict(value or {})\<close>\<close>

definition dict_or_empty :: "json \<Rightarrow> json" where
  "dict_or_empty v = (if truthy v then v else JObj [])"

text \<open>The bindings of a prepared artifact fill the fields it does not have.\<close>

definition set_default :: "pystr \<times> json \<Rightarrow> json \<Rightarrow> json" where
  "set_default entry d = (if dget d (fst entry) = None then dset d (fst entry) (snd entry) else d)"

definition merged_prepared :: "json \<Rightarrow> json" where
  "merged_prepared prepared =
     (let p = fold set_default (items (get_or prepared ''bindings'' (JObj []))) prepared in
      if fld p ''evidence_state'' = Some (jlit ''SEALED'') then dset p (lit ''sealed'') (JBool True) else p)"

definition plan_roots :: "json \<Rightarrow> pystr \<Rightarrow> json res" where
  "plan_roots prof operation =
     bindE (sub prof ''work_root'') (\<lambda>work_root.
     bindE (plan_join work_root operation) (\<lambda>work.
     bindE (plan_join (get_or prof ''temporary_root'' work_root) (operation @ lit ''-tmp'')) (\<lambda>temporary.
     bindE (plan_join (get_or prof ''evidence_root'' work_root) (operation @ lit ''-evidence'')) (\<lambda>evidence.
       Inr (obj [(''work'', JStr work), (''temporary'', JStr temporary), (''evidence'', JStr evidence)])))))"

section \<open>Stages\<close>

definition mk_stage :: "json \<Rightarrow> json \<Rightarrow> json list \<Rightarrow> json \<Rightarrow> bool \<Rightarrow> bool \<Rightarrow> json" where
  "mk_stage temporary name argv cwd source_env resource_env =
     obj [(''name'', name), (''argv'', JList argv), (''cwd'', cwd), (''env'', clean_environment temporary source_env resource_env)]"

definition INSPECT_CODE :: string where
  "INSPECT_CODE = ''import importlib.metadata,infra_artifact_ledger,json,sqlite3,sys; print(json.dumps({'version':importlib.metadata.version('infra-artifact-ledger'),'module':infra_artifact_ledger.__file__,'python':sys.version,'sqlite':sqlite3.sqlite_version}))''"

definition WHEEL_NAME :: string where
  "WHEEL_NAME = ''wheels/infra_artifact_ledger-0.2.0a1-py3-none-any.whl''"

definition prepare_stages :: "pystr \<Rightarrow> json \<Rightarrow> json \<Rightarrow> json \<Rightarrow> json list" where
  "prepare_stages work temporary python cache_root =
     (let build_python = JStr (path_join work ''build-venv/bin/python''); runtime_python = JStr (path_join work ''runtime-venv/bin/python'');
          add = (\<lambda>name argv. mk_stage temporary (jlit name) argv (JStr work) False False) in
      [add ''create-build-venv'' [python, jlit ''-m'', jlit ''venv'', jlit ''--copies'', JStr (path_join work ''build-venv'')],
       add ''create-runtime-venv'' [python, jlit ''-m'', jlit ''venv'', jlit ''--copies'', JStr (path_join work ''runtime-venv'')],
       add ''install-build-cache'' ([build_python, jlit ''-m'', jlit ''pip'', jlit ''install'', jlit ''--no-index'', jlit ''--no-deps'',
         jlit ''--find-links'', cache_root] @ map jlit BUILD_REQUIREMENTS),
       add ''build-wheel'' [build_python, jlit ''-m'', jlit ''pip'', jlit ''wheel'', jlit ''--no-index'', jlit ''--no-build-isolation'', jlit ''--no-deps'',
         jlit ''--wheel-dir'', JStr (path_join work ''wheels''), JStr (path_join work ''build-source'')],
       add ''install-wheel'' [runtime_python, jlit ''-m'', jlit ''pip'', jlit ''install'', jlit ''--no-index'', jlit ''--no-deps'', JStr (path_join work WHEEL_NAME)],
       add ''inspect-runtime'' [runtime_python, jlit ''-I'', jlit ''-c'', jlit INSPECT_CODE]])"

definition prepared_output :: "pystr \<Rightarrow> json" where
  "prepared_output work = obj [(''root'', JStr work), (''source_root'', JStr (path_join work ''source'')),
     (''build_python'', JStr (path_join work ''build-venv/bin/python'')), (''runtime_python'', JStr (path_join work ''runtime-venv/bin/python'')),
     (''wheel'', JStr (path_join work WHEEL_NAME)), (''source_commit'', jlit SOURCE_COMMIT)]"

definition suite_command :: "pystr \<Rightarrow> string list option" where
  "suite_command suite = map_of [(lit ''a1_resources'', [''tests/test_resources.py'', ''-v'']),
     (lit ''a1_response_boundaries'', [''tests/test_response_boundaries.py'', ''-v'']),
     (lit ''a2_snapshot_resources'', [''-m'', ''unittest'', ''discover'', ''-s'', ''tests'', ''-p'', ''test_snapshot_resources.py'', ''-v'']),
     (lit ''a2_semantic_resources'', [''-m'', ''unittest'', ''discover'', ''-s'', ''tests'', ''-p'', ''test_snapshot_semantic_resources.py'', ''-v''])] suite"

definition plan_stages :: "string \<Rightarrow> json \<Rightarrow> pystr \<Rightarrow> json \<Rightarrow> json \<Rightarrow> json \<Rightarrow> json \<Rightarrow> json \<Rightarrow> json list res" where
  "plan_stages kind inputs work temporary python cache prepared storage =
     (let source_copy = path_join work ''source''; build_python = at prepared ''build_python''; runtime_python = at prepared ''runtime_python'' in
      if kind = ''ledger.prepare'' then Inr (prepare_stages work temporary python (at cache ''root''))
      else if kind = ''ledger.test.source'' then Inr
        [mk_stage temporary (jlit ''source-unittest'') [build_python, jlit ''-m'', jlit ''unittest'', jlit ''discover'', jlit ''-s'', jlit ''tests'', jlit ''-v''] (JStr source_copy) True False,
         mk_stage temporary (jlit ''source-compile'') [build_python, jlit ''-m'', jlit ''compileall'', jlit ''-q'', jlit ''src'', jlit ''tests'', jlit ''tools/acceptance''] (JStr source_copy) True False]
      else if kind = ''ledger.test.resources'' then
        bindE (sub inputs ''suite'') (\<lambda>suite. case suite_command (str_of (Some suite)) of
            None \<Rightarrow> Inl plan_error
          | Some args \<Rightarrow> Inr [mk_stage temporary suite (build_python # map jlit args) (JStr source_copy) True (prefix (lit ''a2_'') (str_of (Some suite)))])
      else if kind = ''ledger.test.installed_local'' then Inr
        [mk_stage temporary (jlit ''a1-installed'') [runtime_python, jlit ''-I'', JStr (path_join source_copy ''tests/installed_walkthrough.py''), jlit ''--repo'', JStr source_copy] (JStr work) False False,
         mk_stage temporary (jlit ''a2-installed-local'') [runtime_python, jlit ''-I'', JStr (path_join source_copy ''tests/installed_snapshot_walkthrough.py''), jlit ''--scratch-parent'',
           JStr (path_join work ''local-parent''), jlit ''--source-commit'', jlit SOURCE_COMMIT] (JStr work) False False]
      else if kind = ''ledger.nas.roundtrip'' then
        (if \<not> truthy (at storage ''stable_mount_binding'') then Inl plan_error
         else bindE (ledger_path (at storage ''config'')) (\<lambda>config_path. bindE (sub prepared ''wheel'') (\<lambda>wheel. Inr
           [mk_stage temporary (jlit ''nas-roundtrip'') [runtime_python, jlit ''-I'', JStr (path_join source_copy ''tools/acceptance/a2_nas_exercise.py''), jlit ''--local-parent'',
             JStr (path_join work ''local-parent''), jlit ''--storage-config'', JStr config_path, jlit ''--source-commit'', jlit SOURCE_COMMIT, jlit ''--wheel'', wheel] (JStr work) False False])))
      else Inr [])"

section \<open>\<open>ledger_jobs.build_plan\<close>\<close>

text \<open>The paths of a prepared artifact and its fixed source, for the kinds that need one.\<close>

definition check_prepared_paths :: "string \<Rightarrow> json \<Rightarrow> unit res" where
  "check_prepared_paths kind prepared =
     (if prefix ''ledger.'' kind \<and> kind \<noteq> ''ledger.prepare'' then
        thenE (forE [''root'', ''source_root'', ''build_python'', ''runtime_python'', ''wheel''] (\<lambda>key. bindE (ledger_path (at prepared key)) (\<lambda>_. Inr ())))
          (raise_if (at prepared ''source_commit'' \<noteq> jlit SOURCE_COMMIT) plan_error)
      else Inr ())"

definition build_plan :: "json \<Rightarrow> json \<Rightarrow> json \<Rightarrow> json list \<Rightarrow> json res" where
  "build_plan req prof prepared_in prerequisites =
     bindE (sub req ''kind'') (\<lambda>kind_v.
     case find (\<lambda>k. kind_v = jlit k) LEDGER_KINDS of
       None \<Rightarrow> Inl plan_error
     | Some kind \<Rightarrow>
      bindE (sub req ''operation_id'') (\<lambda>operation_v.
      let operation = str_of (Some operation_v) in
      thenE (raise_if (\<not> is_str operation_v) (PyError ''TypeError''))
     (thenE (raise_if (\<not> operation_text operation) plan_error)
     (bindE (plan_roots prof operation) (\<lambda>roots.
      bindE (sub prof ''budgets'') (\<lambda>budget.
      thenE (forE BUDGET_KEYS (\<lambda>key. raise_if (\<not> budget_value_ok budget key) plan_error))
     (bindE (sub prof ''python'') (\<lambda>python_v. bindE (ledger_path python_v) (\<lambda>python.
      let source = dict_or_empty (at prof ''source''); cache = dict_or_empty (at prof ''build_cache'');
          storage = dict_or_empty (at prof ''storage''); prepared = merged_prepared (dict_or_empty prepared_in);
          work = path_at roots ''work''; temporary = at roots ''temporary'' in
      thenE (raise_if (kind = ''ledger.prepare'' \<and> at source ''commit'' \<noteq> jlit SOURCE_COMMIT) plan_error)
     (thenE (check_prepared_paths kind prepared)
     (thenE (if kind = ''ledger.prepare'' then forE [source, cache] (\<lambda>d. bindE (ledger_path (at d ''root'')) (\<lambda>_. Inr ())) else Inr ())
     (bindE (sub req ''inputs'') (\<lambda>inputs.
      bindE (plan_stages kind inputs work temporary (JStr python) cache prepared storage) (\<lambda>stages.
      bindE (mapE (\<lambda>d. sub d ''root'') (filter truthy [source, cache])) (\<lambda>roots_read.
      bindE (if kind \<noteq> ''ledger.prepare'' \<and> truthy prepared then bindE (sub prepared ''root'') (\<lambda>r. Inr [r]) else Inr []) (\<lambda>prepared_read.
      bindE (if truthy storage then bindE (ledger_path (at storage ''config'')) (\<lambda>c. Inr [JStr c]) else Inr []) (\<lambda>storage_read.
      bindE (if truthy storage then bindE (sub storage ''archive_root'') (\<lambda>a. Inr [a]) else Inr []) (\<lambda>archive.
      Inr (obj [(''kind'', jlit kind), (''operation_id'', operation_v), (''inputs'', inputs), (''roots'', roots), (''stages'', JList stages),
        (''budgets'', budget), (''python'', JStr python), (''source'', source), (''build_cache'', cache),
        (''prepared'', if kind = ''ledger.prepare'' then prepared_output work else prepared), (''storage'', storage),
        (''readonly'', JList (roots_read @ prepared_read @ storage_read)), (''writable'', JList (jvalues roots @ archive)),
        (''environment'', clean_environment temporary False False), (''prerequisites'', JList prerequisites),
        (''bindings'', obj [(''source_commit'', jlit SOURCE_COMMIT), (''script_blobs'', obj (map (\<lambda>(k, x). (k, jlit x)) SCRIPT_BLOBS))]),
        (''retention'', jlit (if kind \<in> {''ledger.test.installed_local'', ''ledger.test.resources''} then ''EPHEMERAL_BY_UPSTREAM_TOOL'' else ''JOB_FILES_RETAINED''))])))))))))))))))))))"

section \<open>\<open>workspace_jobs.build_plan\<close>\<close>

definition VALIDATION_CODE :: string where
  "VALIDATION_CODE = ''import pathlib,sys,unittest; root=pathlib.Path.cwd(); '' @
     ''sys.path[:0]=[str(root),str(root/'tools'),str(root/'tests')]; '' @
     ''compile((root/sys.argv[1]).read_bytes(),sys.argv[1],'exec') if sys.argv[1].endswith('.py') else None; '' @
     ''suite=unittest.defaultTestLoader.loadTestsFromNames(sys.argv[2:]); '' @
     ''result=unittest.TextTestRunner(verbosity=2).run(suite); '' @
     ''sys.exit(0 if result.wasSuccessful() and result.testsRun>0 else 1)''"

text \<open>A refusal of the path contract, \<open>LocalHandError\<close>, is not among the exceptions that the registry turns into \<open>UNSUPPORTED\<close>.\<close>

definition workspace_plan :: "udb \<Rightarrow> json \<Rightarrow> json \<Rightarrow> json res" where
  "workspace_plan U req prof =
     bindE (sub req ''inputs'') (\<lambda>inputs.
     bindE (sub prof ''source'') (\<lambda>source.
     bindE (sub inputs ''relative_path'') (\<lambda>relative.
     bindE (canonical_relative_posix U False (str_of (Some relative))) (\<lambda>_.
     bindE (sub source ''blobs'') (\<lambda>blobs.
     thenE (raise_if (dget blobs (str_of (Some relative)) = None) (PyError ''ValueError''))
     (bindE (sub source ''validations'') (\<lambda>validations.
      bindE (sub inputs ''validation_ref'') (\<lambda>validation_ref.
      bindE (key_or_raise (dget validations (str_of (Some validation_ref)))) (\<lambda>modules.
      bindE (build_plan (dset req (lit ''kind'') (jlit ''host.inspect'')) prof JNull []) (\<lambda>base.
      bindE (sub source ''commit'') (\<lambda>commit.
      bindE (sub prof ''workspace_git'') (\<lambda>git.
      let stage = obj [(''name'', jlit ''workspace-validation''),
            (''argv'', JList ([at base ''python'', jlit ''-I'', jlit ''-B'', jlit ''-c'', jlit VALIDATION_CODE, relative] @ elements modules)),
            (''cwd'', JStr (path_join (path_at (at base ''roots'') ''work'') ''source'')), (''env'', at base ''environment'')];
          plan1 = dupdate base [(lit ''kind'', jlit ''workspace.edit''), (lit ''source'', source),
            (lit ''bindings'', obj [(''source_commit'', commit)]), (lit ''workspace_git'', git), (lit ''stages'', JList [stage])] in
      case fld source ''manifest'' of
        None \<Rightarrow> Inr plan1
      | Some manifest \<Rightarrow>
          bindE (sub source ''root'') (\<lambda>root. bindE (sub manifest ''path'') (\<lambda>mpath.
          Inr (dupdate plan1 [(lit ''source'', obj [(''root'', root), (''commit'', commit), (''manifest'', manifest)]),
            (lit ''readonly'', JList (elements (at plan1 ''readonly'') @ [mpath]))])))))))))))))))"

definition workspace_local_effects :: "json \<Rightarrow> bool" where
  "workspace_local_effects plan_v =
     (let execution = get_or plan_v ''execution'' (JObj []) in
      fld plan_v ''kind'' = Some (jlit ''workspace.edit'') \<and> fld execution ''kind'' = Some (jlit ''workspace.edit'') \<and>
      \<not> (\<exists>key \<in> {''storage'', ''build_cache'', ''prepared''}. truthy (at execution key)) \<and>
      sort (map (\<lambda>v. str_of (Some v)) (elements (get_or execution ''writable'' (JList [])))) =
        sort (map (\<lambda>v. str_of (Some v)) (jvalues (get_or execution ''roots'' (JObj [])))))"

section \<open>\<open>local_a2_jobs.build_plan\<close>\<close>

definition A2_SCRIPT_FILE :: string where
  "A2_SCRIPT_FILE = ''tests/installed_snapshot_walkthrough.py''"

definition SOURCE_EVIDENCE :: string where
  "SOURCE_EVIDENCE = ''CALLER_ASSERTED_NOT_GIT_ATTESTED''"

definition a2_environment :: "json \<Rightarrow> json" where
  "a2_environment temporary = dset (clean_environment temporary False False) (lit ''SETUPTOOLS_USE_DISTUTILS'') (jlit ''stdlib'')"

definition a2_stage :: "json \<Rightarrow> json \<Rightarrow> json" where
  "a2_stage runtime roots = obj [(''name'', jlit ''a2-installed-local''),
     (''argv'', JList [at runtime ''runtime_python'', jlit ''-I'', jlit ''-B'', JStr (path_join (path_at runtime ''source_root'') A2_SCRIPT_FILE),
        jlit ''--scratch-parent'', JStr (path_join (path_at roots ''work'') ''local-parent''), jlit ''--source-commit'', at runtime ''source_commit'']),
     (''cwd'', at roots ''work''), (''env'', a2_environment (at roots ''temporary''))]"

definition runtime_reference :: "pystr \<Rightarrow> bool" where
  "runtime_reference s = (s \<noteq> [] \<and> length s \<le> 128 \<and> (lower_alnum (hd s) \<or> 65 \<le> hd s \<and> hd s \<le> 90) \<and>
     (\<forall>c \<in> set (tl s). lower_alnum c \<or> 65 \<le> c \<and> c \<le> 90 \<or> c \<in> {46, 95, 45}))"

definition a2_readonly :: "json \<Rightarrow> json list" where
  "a2_readonly runtime = map (at runtime) [''source_root'', ''runtime_root'', ''wheel'', ''runtime_python_realpath'']"

definition a2_bindings :: "json \<Rightarrow> (string \<times> json) list" where
  "a2_bindings runtime = [(''source_commit'', at runtime ''source_commit''), (''source_commit_evidence'', jlit SOURCE_EVIDENCE),
     (''runtime_descriptor_digest'', JStr (json_digest runtime)), (''wheel_digest'', at runtime ''wheel_sha256''),
     (''script_blobs'', obj [(A2_SCRIPT_FILE, jlit ''347e07b6c32042ddf10bebb0ddfab45c703c0c14'')])]"

definition touches_inputs :: "json \<Rightarrow> pystr \<Rightarrow> bool" where
  "touches_inputs runtime root = (\<exists>name \<in> set RUNTIME_PATHS. inside root (path_at runtime name) \<or> inside (path_at runtime name) root)"

definition a2_plan :: "json \<Rightarrow> json \<Rightarrow> json res" where
  "a2_plan req prof =
     thenE (raise_if (fld req ''kind'' \<noteq> Some (jlit ''ledger.test.local_a2'') \<or> \<not> has_keys (get_or req ''inputs'' (JObj [])) [''runtime_ref'']) plan_error)
     (let reference = at (at req ''inputs'') ''runtime_ref'' in
      thenE (raise_if (\<not> (case reference of JStr s \<Rightarrow> runtime_reference s | _ \<Rightarrow> False)) plan_error)
     (bindE (sub prof ''local_a2_runtimes'') (\<lambda>runtimes.
      bindE (key_or_raise (dget runtimes (str_of (Some reference)))) (\<lambda>runtime.
      thenE (validate_runtime runtime)
     (bindE (build_plan (dset req (lit ''kind'') (jlit ''host.inspect'')) (dpop (dpop (dpop prof (lit ''source'')) (lit ''storage'')) (lit ''build_cache'')) JNull []) (\<lambda>base.
      thenE (raise_if (int_of (fld (at base ''budgets'') ''nas_bytes'') \<noteq> 0) plan_error)
     (let roots = at base ''roots'' in
      thenE (raise_if (\<exists>root \<in> set (jvalues roots). touches_inputs runtime (str_of (Some root))) plan_error)
      (Inr (dupdate base [(lit ''kind'', jlit ''ledger.test.local_a2''), (lit ''runtime_ref'', reference), (lit ''local_a2_runtime'', runtime),
         (lit ''environment'', a2_environment (at roots ''temporary'')), (lit ''stages'', JList [a2_stage runtime roots]),
         (lit ''readonly'', JList (a2_readonly runtime)), (lit ''source'', JObj []), (lit ''storage'', JObj []), (lit ''build_cache'', JObj []),
         (lit ''prepared'', JObj []), (lit ''prerequisites'', JList []), (lit ''bindings'', obj (a2_bindings runtime)),
         (lit ''retention'', jlit ''JOB_FILES_RETAINED'')])))))))))"

section \<open>\<open>local_a2_jobs.local_effects_only\<close>\<close>

text \<open>
  The scope predicate of a stored execution.  \<open>False\<close> also stands for the exceptions that the function
  turns into it; a check below that fails may be either.
\<close>

definition fail_unless :: "bool \<Rightarrow> unit res" where
  "fail_unless c = raise_if (\<not> c) plan_error"

definition texts :: "json list \<Rightarrow> pystr list" where
  "texts vs = map (\<lambda>v. str_of (Some v)) vs"

definition effects_roots :: "json \<Rightarrow> json \<Rightarrow> unit res" where
  "effects_roots runtime roots =
     thenE (fail_unless (has_keys roots [''work'', ''temporary'', ''evidence'']))
     (thenE (forE (jvalues roots) (\<lambda>path. bindE (ledger_path path) (\<lambda>p. fail_unless (\<not> touches_inputs runtime p))))
      (fail_unless (distinct (jvalues roots) \<and> length (jvalues roots) = 3 \<and>
         \<not> (\<exists>a \<in> set (texts (jvalues roots)). \<exists>b \<in> set (texts (jvalues roots)). a \<noteq> b \<and> inside a b))))"

definition effects_provenance :: "json \<Rightarrow> json \<Rightarrow> unit res" where
  "effects_provenance execution binds =
     (let fixed = [''source_commit'', ''source_commit_evidence'', ''runtime_descriptor_digest'', ''wheel_digest'', ''script_blobs''];
          provenance = [''expected'', ''local_hand_source_commit'', ''local_hand_installed_payload_digest'', ''local_hand_execution_entrypoint''];
          extra = set (jkeys binds) - set (map lit fixed) in
      if extra = {} then Inr () else
      thenE (fail_unless (extra = set (map lit provenance) \<and> is_dict (at binds ''expected'')))
     (thenE (fail_unless (matches EXPECTED_SCHEMA (at binds ''expected'') \<and>
         (case fld execution ''expected'' of None \<Rightarrow> True | Some e \<Rightarrow> jeq e (at binds ''expected''))))
     (thenE (fail_unless (is_str_field binds ''local_hand_source_commit'' (\<lambda>s. length s = 40 \<and> (\<forall>c \<in> set s. is_hex_digit c)) \<and>
         is_str_field binds ''local_hand_installed_payload_digest'' DIGEST_PATTERN))
      (bindE (ledger_path (at binds ''local_hand_execution_entrypoint'')) (\<lambda>_. Inr ())))))"

definition effects_facts :: "json \<Rightarrow> json option \<Rightarrow> bool" where
  "effects_facts runtime facts = (case facts of None \<Rightarrow> True | Some f \<Rightarrow>
     at f ''inputs_stable'' = JBool True \<and> at f ''local_a2_runtime_verified'' = JBool True \<and>
     at f ''runtime_descriptor_digest'' = JStr (json_digest runtime))"

definition a2_effects_check :: "json \<Rightarrow> json option \<Rightarrow> unit res" where
  "a2_effects_check execution facts =
     thenE (fail_unless (is_dict execution \<and> at execution ''kind'' = jlit ''ledger.test.local_a2''))
     (bindE (sub execution ''local_a2_runtime'') (\<lambda>runtime.
      thenE (validate_runtime runtime)
     (bindE (sub execution ''roots'') (\<lambda>roots.
      thenE (effects_roots runtime roots)
     (bindE (sub execution ''budgets'') (\<lambda>budget.
      thenE (fail_unless (sort (texts (elements (at execution ''writable''))) = sort (texts (jvalues roots)) \<and>
         elements (at execution ''readonly'') = a2_readonly runtime \<and>
         \<not> (\<exists>name \<in> {''storage'', ''build_cache'', ''prepared'', ''source'', ''prerequisites''}. truthy (at execution name)) \<and>
         at budget ''nas_bytes'' = JInt 0 \<and> jeq (get_or execution ''environment'' (JObj [])) (a2_environment (at roots ''temporary''))))
     (bindE (sub execution ''stages'') (\<lambda>stages.
      thenE (fail_unless (length (elements stages) = 1 \<and> jeq (hd (elements stages)) (a2_stage runtime roots)))
     (let binds = get_or execution ''bindings'' (JObj []) in
      thenE (fail_unless (is_dict binds \<and> (\<forall>(name, v) \<in> set (a2_bindings runtime). jeq (at binds name) v)))
     (thenE (effects_provenance execution binds)
        (fail_unless (effects_facts runtime facts))))))))))))"

definition a2_local_effects :: "json \<Rightarrow> json option \<Rightarrow> bool" where
  "a2_local_effects execution facts = (a2_effects_check execution facts = Inr ())"

end
