(* ===== verification/Registry.thy ===== *)
theory Registry
  imports LedgerPlan
begin

text \<open>
  The fixed catalog of \<open>tools/local_hand_jobs/registry.py\<close>: the manifest and its digest, the immutable facts
  of prepared artifacts, the prerequisite observations, and the resolution of a request into the plan
  that the ledger stores.  The broker gives its one policy object to its one registry, so the list of
  known policies is the flag \<open>knows_policy\<close>; frozen values are the values themselves.
\<close>

section \<open>The manifest\<close>

definition PREREQUISITE_MAX_AGE_SECONDS :: int where
  "PREREQUISITE_MAX_AGE_SECONDS = 24 * 60 * 60"

abbreviation words :: "string list \<Rightarrow> json" where
  "words xs \<equiv> JList (map jlit xs)"

definition TEMPLATES :: json where
  "TEMPLATES = obj [
     (''ledger.test.source'', JList [words [''-m'', ''unittest'', ''discover'', ''-s'', ''tests'', ''-v''],
        words [''-m'', ''compileall'', ''-q'', ''src'', ''tests'', ''tools/acceptance'']]),
     (''a1_resources'', words [''tests/test_resources.py'', ''-v'']),
     (''a1_response_boundaries'', words [''tests/test_response_boundaries.py'', ''-v'']),
     (''a2_snapshot_resources'', words [''-m'', ''unittest'', ''discover'', ''-s'', ''tests'', ''-p'', ''test_snapshot_resources.py'', ''-v'']),
     (''a2_semantic_resources'', words [''-m'', ''unittest'', ''discover'', ''-s'', ''tests'', ''-p'', ''test_snapshot_semantic_resources.py'', ''-v'']),
     (''ledger.test.installed_local'', JList [words [''-I'', ''tests/installed_walkthrough.py'', ''--repo'', ''{source}''],
        words [''-I'', ''tests/installed_snapshot_walkthrough.py'', ''--scratch-parent'', ''{job-parent}'', ''--source-commit'', SOURCE_COMMIT]]),
     (''ledger.nas.roundtrip'', words [''-I'', ''tools/acceptance/a2_nas_exercise.py'', ''--local-parent'', ''{job-parent}'',
        ''--storage-config'', ''{admitted-config}'', ''--source-commit'', SOURCE_COMMIT, ''--wheel'', ''{admitted-wheel}''])]"

definition REGISTRY_MANIFEST :: json where
  "REGISTRY_MANIFEST = obj [(''schema_version'', jlit ''lh-registry-v1''), (''source_commit'', jlit SOURCE_COMMIT),
     (''script_blobs'', obj (map (\<lambda>(k, x). (k, jlit x)) SCRIPT_BLOBS)), (''build_requirements'', words BUILD_REQUIREMENTS),
     (''kinds'', words KINDS), (''suites'', words SUITES),
     (''prerequisite_max_age_seconds'', JInt PREREQUISITE_MAX_AGE_SECONDS), (''templates'', TEMPLATES)]"

definition REGISTRY_DIGEST :: pystr where
  "REGISTRY_DIGEST = json_digest REGISTRY_MANIFEST"

definition BINDINGS :: "string list" where
  "BINDINGS = [''source_digest'', ''wheel_digest'', ''installed_payload_digest'', ''runtime_digest'', ''environment_fingerprint'']"

definition PREREQUISITES :: "string list" where
  "PREREQUISITES = [''host.inspect'', ''ledger.prepare'', ''ledger.test.source''] @ SUITES @ [''ledger.test.installed_local'']"

section \<open>State\<close>

record registry =
  reg_prepared :: dict
  reg_evidence :: dict
  knows_policy :: bool

definition registry_init :: registry where
  "registry_init = \<lparr>reg_prepared = [], reg_evidence = [], knows_policy = False\<rparr>"

section \<open>Prepared artifacts\<close>

abbreviation not_sealed :: "string \<Rightarrow> exn" where
  "not_sealed m \<equiv> JobError ''NOT_SEALED'' m"

text \<open>One name of \<open>_BINDINGS\<close>: its value must be a digest, and both places then hold it.\<close>

definition bind_name :: "json \<times> json \<Rightarrow> string \<Rightarrow> (json \<times> json) res" where
  "bind_name st name = (case st of (pf, binds) \<Rightarrow>
     let v = get_or binds name (at pf name) in
     case v of
       JStr s \<Rightarrow> if DIGEST_PATTERN s then Inr (set_default (lit name, v) pf, dset binds (lit name) v)
         else Inl (not_sealed ''Prepared artifact binding is incomplete'')
     | _ \<Rightarrow> Inl (not_sealed ''Prepared artifact binding is incomplete''))"

definition fact_path_ok :: "json \<Rightarrow> string \<Rightarrow> unit res" where
  "fact_path_ok pf name =
     thenE (raise_if (\<not> is_str_field pf name posix_abs) (not_sealed ''Prepared artifact path binding is incomplete''))
       (raise_if (name \<noteq> ''root'' \<and> \<not> strict_prefix (posix_parts (path_at pf ''root'')) (posix_parts (path_at pf name)))
          (not_sealed ''Prepared artifact paths escaped their immutable root''))"

definition script_blob_ok :: "json \<Rightarrow> string \<times> string \<Rightarrow> unit res" where
  "script_blob_ok pf entry =
     (let blobs = get_or pf ''source_blobs'' (JObj []) in
      if \<not> is_dict blobs then Inl (PyError ''AttributeError'')
      else raise_if (fld blobs (fst entry) \<noteq> Some (jlit (snd entry))) (not_sealed ''Prepared artifact trusted script binding is incomplete''))"

definition check_prepared_fact :: "json \<Rightarrow> json \<Rightarrow> principal option \<Rightarrow> json res" where
  "check_prepared_fact pf req prin =
     thenE (case prin of
         None \<Rightarrow> Inl (unauthorized ''Prepared artifact is not granted to this principal and profile'')
       | Some p \<Rightarrow>
           if fld pf ''owner'' \<noteq> Some (JStr (principal_id p)) then Inl (unauthorized ''Prepared artifact is not granted to this principal and profile'')
           else bindE (sub req ''profile_ref'') (\<lambda>ref. raise_if (\<not> jeq (at pf ''profile_ref'') ref)
             (unauthorized ''Prepared artifact is not granted to this principal and profile'')))
     (thenE (raise_if (at pf ''outcome'' \<noteq> jlit ''SUCCEEDED'' \<or> at pf ''evidence_state'' \<noteq> jlit ''SEALED'' \<or> \<not> truthy (at pf ''seal''))
        (not_sealed ''Prepared artifact has no successful durable seal''))
     (thenE (if \<not> is_dict (at pf ''expected'') then Inl (JobError ''STALE_DEPLOYMENT'' ''Prepared artifact admission binding is no longer current'')
        else bindE (sub req ''expected'') (\<lambda>e. raise_if (\<not> jeq (at pf ''expected'') e)
          (JobError ''STALE_DEPLOYMENT'' ''Prepared artifact admission binding is no longer current'')))
     (let binds = get_or pf ''bindings'' (JObj []) in
      thenE (raise_if (\<not> is_dict binds) (not_sealed ''Prepared artifact bindings are incomplete''))
     (thenE (raise_if (\<not> set (jkeys binds) \<subseteq> set (map lit (''source_commit'' # BINDINGS)))
        (JobError ''CONFLICT'' ''Prepared bindings contain non-payload provenance fields''))
     (thenE (forE (''source_commit'' # BINDINGS) (\<lambda>name. raise_if
          (case (fld pf name, fld binds name) of (Some a, Some b) \<Rightarrow> \<not> jeq a b | _ \<Rightarrow> False)
          (JobError ''CONFLICT'' ''Prepared artifact has conflicting provenance bindings'')))
     (thenE (raise_if (get_or pf ''source_commit'' (at binds ''source_commit'') \<noteq> jlit SOURCE_COMMIT)
        (JobError ''UNSUPPORTED'' ''Prepared artifact is not the fixed Ledger source''))
     (bindE (foldE bind_name (pf, binds) BINDINGS) (\<lambda>(pf1, binds1).
      let pf2 = dupdate pf1 [(lit ''bindings'', binds1), (lit ''source_commit'', jlit SOURCE_COMMIT)] in
      thenE (forE [''root'', ''source_root'', ''build_python'', ''runtime_python'', ''wheel''] (fact_path_ok pf2))
     (thenE (forE SCRIPT_BLOBS (script_blob_ok pf2))
     (thenE (raise_if (\<not> is_dict (at pf2 ''files'') \<or> items (at pf2 ''files'') = [] \<or> fld pf2 ''readonly_enforced'' \<noteq> Some (JBool True))
        (not_sealed ''Prepared artifact immutable payload proof is incomplete''))
        (Inr (dset pf2 (lit ''sealed'') (JBool True)))))))))))))"

text \<open>\<open>register_prepared\<close>: the checked fact is published once, and the known policy is told of it.\<close>

definition seal_incomplete :: "json \<Rightarrow> bool" where
  "seal_incomplete facts = (at facts ''outcome'' \<noteq> jlit ''SUCCEEDED'' \<or> at facts ''evidence_state'' \<noteq> jlit ''SEALED'' \<or>
     \<not> truthy (at facts ''seal'') \<or> \<not> truthy (at facts ''owner'') \<or> \<not> truthy (at facts ''profile_ref''))"

text \<open>\<open>Principal(facts["owner"], frozenset())\<close> refuses an owner that is no text of at most 256 characters.\<close>

definition fact_owner :: "json \<Rightarrow> principal res" where
  "fact_owner facts = (case fld facts ''owner'' of
     Some (JStr own) \<Rightarrow> mk_principal own [] None
   | _ \<Rightarrow> Inl (unauthorized ''Invalid authenticated principal''))"

definition publishable :: "json \<Rightarrow> json \<Rightarrow> json res" where
  "publishable ref facts =
     thenE (raise_if (\<not> (case ref of JStr s \<Rightarrow> REF_PATTERN s | _ \<Rightarrow> False)) (invalid ''Invalid prepared reference''))
     (thenE (raise_if (seal_incomplete facts) (not_sealed ''Only successful sealed preparation can publish a reference''))
     (bindE (sub facts ''profile_ref'') (\<lambda>profile_ref.
      bindE (fact_owner facts) (\<lambda>p.
      bindE (check_prepared_fact facts (obj [(''profile_ref'', profile_ref), (''expected'', at facts ''expected'')]) (Some p)) (\<lambda>pf.
        Inr (dset pf (lit ''prepared_ref'') ref))))))"

definition tell_policy :: "policy \<Rightarrow> pystr \<times> json \<Rightarrow> policy res" where
  "tell_policy P entry = register_prepared_reference REGISTRY_DIGEST P (JStr (fst entry)) (at (snd entry) ''owner'')
     (path_at (snd entry) ''profile_ref'') (Some (at (snd entry) ''expected''))"

definition register_prepared :: "registry \<Rightarrow> policy \<Rightarrow> json \<Rightarrow> json \<Rightarrow> unit res \<times> registry \<times> policy" where
  "register_prepared R P ref facts = (case publishable ref facts of
     Inl e \<Rightarrow> (Inl e, R, P)
   | Inr pf \<Rightarrow>
       let r = str_of (Some ref) in
       if (case map_of (reg_prepared R) r of None \<Rightarrow> False | Some old \<Rightarrow> \<not> jeq old pf)
       then (Inl (JobError ''CONFLICT'' ''Prepared reference cannot be overwritten''), R, P)
       else let R' = R\<lparr>reg_prepared := AList.update r pf (reg_prepared R)\<rparr> in
         if knows_policy R then (case tell_policy P (r, pf) of Inl e \<Rightarrow> (Inl e, R', P) | Inr P' \<Rightarrow> (Inr (), R', P'))
         else (Inr (), R', P))"

section \<open>Evidence\<close>

definition register_evidence :: "registry \<Rightarrow> json \<Rightarrow> registry res" where
  "register_evidence R item =
     thenE (raise_if (\<exists>k \<in> {''evidence_id'', ''kind'', ''profile_ref'', ''owner''}. \<not> truthy (at item k))
        (invalid ''Prerequisite evidence identity is incomplete''))
     (thenE (raise_if (\<not> is_int (at item ''observed_at'')) (invalid ''Prerequisite observation time is required''))
     (thenE (raise_if (case fld item ''event_seq'' of None \<Rightarrow> False | Some (JInt n) \<Rightarrow> n \<le> 0 | Some _ \<Rightarrow> True)
        (invalid ''Prerequisite event sequence must be positive''))
     (let i = path_at item ''evidence_id'' in
      if (case map_of (reg_evidence R) i of None \<Rightarrow> False | Some old \<Rightarrow> \<not> jeq old item)
      then Inl (JobError ''CONFLICT'' ''Prerequisite evidence cannot be overwritten'')
      else Inr (R\<lparr>reg_evidence := AList.update i item (reg_evidence R)\<rparr>))))"

definition prepared_fact :: "(pystr \<Rightarrow> json option) option \<Rightarrow> registry \<Rightarrow> pystr \<Rightarrow> json \<Rightarrow> principal option \<Rightarrow> json res" where
  "prepared_fact prepared_lookup R ref req prin =
     (case (case map_of (reg_prepared R) ref of
              Some pf \<Rightarrow> Some pf
            | None \<Rightarrow> (case prepared_lookup of None \<Rightarrow> None | Some f \<Rightarrow> f ref)) of
        None \<Rightarrow> Inl (JobError ''NOT_FOUND'' ''Prepared artifact is not registered'')
      | Some pf \<Rightarrow> check_prepared_fact pf req prin)"

text \<open>
  The clock \<open>now\<close> is a float; its comparison with a whole number of seconds is decided by its integer part
  \<open>now_floor\<close> and the next whole second \<open>now_ceil\<close>.  The pair that orders observations is
  \<open>(event_seq, observed_at)\<close>.
\<close>

definition observation_order :: "json \<Rightarrow> int \<times> int" where
  "observation_order item = (int_of (Some (get_or item ''event_seq'' (JInt 0))), int_of (Some (get_or item ''observed_at'' (JInt (-1)))))"

definition order_le :: "int \<times> int \<Rightarrow> int \<times> int \<Rightarrow> bool" where
  "order_le a b = (fst a < fst b \<or> fst a = fst b \<and> snd a \<le> snd b)"

definition latest_items :: "json list \<Rightarrow> json list" where
  "latest_items found = filter (\<lambda>item. \<forall>other \<in> set found. order_le (observation_order other) (observation_order item)) found"

definition evidence_matches :: "json \<Rightarrow> principal \<Rightarrow> string \<Rightarrow> json \<Rightarrow> bool" where
  "evidence_matches req p requirement item =
     (jeq (at item ''profile_ref'') (at req ''profile_ref'') \<and> at item ''owner'' = JStr (principal_id p) \<and>
      (if at item ''kind'' = jlit ''ledger.test.resources'' then at item ''suite'' else at item ''kind'') = jlit requirement \<and>
      (requirement = ''host.inspect'' \<or> jeq (at item ''prepared_ref'') (at (at req ''inputs'') ''prepared_ref'')))"

definition check_observation :: "int \<Rightarrow> int \<Rightarrow> json \<Rightarrow> json \<Rightarrow> string \<Rightarrow> json \<Rightarrow> unit res" where
  "check_observation now_floor now_ceil req prepared requirement item =
     (let stale = not_sealed ''Latest NAS prerequisite is not current successful sealed evidence'' in
      thenE (raise_if (at item ''outcome'' \<noteq> jlit ''SUCCEEDED'' \<or> at item ''evidence_state'' \<noteq> jlit ''SEALED'' \<or>
           \<not> truthy (at item ''seal_digest'') \<or> at item ''coverage'' \<notin> {jlit ''PASS'', jlit ''LOGIC_ONLY''} \<or>
           \<not> jeq (at item ''expected'') (at req ''expected'')) stale)
     (bindE (sub item ''observed_at'') (\<lambda>t.
      thenE (raise_if (\<not> (int_of (Some t) \<le> now_floor \<and> now_ceil \<le> int_of (Some t) + PREREQUISITE_MAX_AGE_SECONDS)) stale)
     (let binds = get_or item ''bindings'' (JObj []) in
      thenE (raise_if (\<not> is_dict binds) (PyError ''AttributeError''))
     (thenE (forE (if requirement = ''host.inspect'' then [''environment_fingerprint''] else BINDINGS) (\<lambda>name.
        bindE (sub prepared ''bindings'') (\<lambda>pb. bindE (sub pb name) (\<lambda>v.
          raise_if (\<not> jeq (at binds name) v) (JobError ''STALE_DEPLOYMENT'' ''NAS prerequisite candidate or environment differs'')))))
        (raise_if (at item ''coverage'' = jlit ''LOGIC_ONLY'' \<and> requirement \<notin> set SUITES)
          (not_sealed ''Logic-only evidence cannot satisfy this prerequisite'')))))))"

definition prerequisite :: "int \<Rightarrow> int \<Rightarrow> json \<Rightarrow> json \<Rightarrow> principal \<Rightarrow> json list \<Rightarrow> string \<Rightarrow> json res" where
  "prerequisite now_floor now_ceil req prepared p evidence requirement =
     (let found = filter (evidence_matches req p requirement) evidence;
          latest = latest_items found;
          chosen = last (sort_key (\<lambda>item. path_at item ''evidence_id'') latest) in
      thenE (raise_if (found = []) (not_sealed ''Required NAS prerequisite evidence is missing''))
     (thenE (forE latest (check_observation now_floor now_ceil req prepared requirement))
     (bindE (mapE (\<lambda>name. bindE (sub chosen name) (\<lambda>v. Inr (name, v))) [''evidence_id'', ''seal_digest'', ''observed_at'', ''bindings'', ''coverage'']) (\<lambda>fields.
        Inr (obj ((''requirement'', jlit requirement) # fields))))))"

definition prerequisites :: "(json \<Rightarrow> json list) option \<Rightarrow> int \<Rightarrow> int \<Rightarrow> registry \<Rightarrow> json \<Rightarrow> json \<Rightarrow> principal \<Rightarrow> json list res" where
  "prerequisites evidence_lookup now_floor now_ceil R req prepared p =
     (let evidence = map snd (reg_evidence R) @ (case evidence_lookup of None \<Rightarrow> [] | Some f \<Rightarrow> f req) in
      mapE (prerequisite now_floor now_ceil req prepared p evidence) PREREQUISITES)"

section \<open>Resolution\<close>

text \<open>\<open>except (names): raise error from ...\<close>\<close>

definition catching :: "string list \<Rightarrow> exn \<Rightarrow> 'a res \<Rightarrow> 'a res" where
  "catching names e r = (case r of Inl (PyError c) \<Rightarrow> if c \<in> set names then Inl e else r | _ \<Rightarrow> r)"

text \<open>A policy seen for the first time learns every published reference; a refusal ends the loop.\<close>

fun tell_all :: "policy \<Rightarrow> dict \<Rightarrow> unit res \<times> policy" where
  "tell_all P [] = (Inr (), P)"
| "tell_all P (entry # es) = (case tell_policy P entry of Inl e \<Rightarrow> (Inl e, P) | Inr P' \<Rightarrow> tell_all P' es)"

definition know_policy :: "registry \<Rightarrow> policy \<Rightarrow> unit res \<times> registry \<times> policy" where
  "know_policy R P = (if knows_policy R then (Inr (), R, P)
     else case tell_all P (reg_prepared R) of (r, P') \<Rightarrow> (r, R\<lparr>knows_policy := True\<rparr>, P'))"

text \<open>The request as the registry admits it.\<close>

definition resolve_request :: "udb \<Rightarrow> int \<Rightarrow> policy \<Rightarrow> json \<Rightarrow> principal option \<Rightarrow> json res" where
  "resolve_request U now P request_in prin =
     bindE (validate_submit U (ObjIn request_in)) (\<lambda>req.
     thenE (case prin of None \<Rightarrow> Inr () | Some p \<Rightarrow> authorize now P p ''lh:submit'' (Some req) None)
     (bindE (sub req ''expected'') (\<lambda>e.
      bindE (sub req ''profile_ref'') (\<lambda>ref.
      bindE (expected REGISTRY_DIGEST P (str_of (Some ref))) (\<lambda>current.
      thenE (raise_if (\<not> jeq e current) (JobError ''STALE_DEPLOYMENT'' ''Expected deployment binding no longer matches''))
        (Inr req))))))"

definition build_inputs :: "json \<Rightarrow> json \<Rightarrow> json res" where
  \<comment> \<open>the source and the build cache of \<open>ledger.prepare\<close>\<close>
  "build_inputs prof inputs =
     bindE (catching [''KeyError''] (unauthorized ''Build input is not admitted'')
        (bindE (sub prof ''sources'') (\<lambda>sources. bindE (key_or_raise (dget sources (path_at inputs ''source_ref''))) (\<lambda>source.
         bindE (sub prof ''build_caches'') (\<lambda>caches. bindE (key_or_raise (dget caches (path_at inputs ''build_cache_ref''))) (\<lambda>cache.
           Inr (dupdate prof [(lit ''source'', source), (lit ''build_cache'', cache)]))))))) (\<lambda>prof'.
     let source = at prof' ''source'' in
     bindE (sub source ''commit'') (\<lambda>commit.
     thenE (raise_if (commit \<noteq> jlit SOURCE_COMMIT)
        (JobError ''UNSUPPORTED'' ''Source and trusted scripts differ from the fixed Ledger baseline''))
     (bindE (sub source ''blobs'') (\<lambda>blobs.
      thenE (raise_if (\<exists>(name, blob) \<in> set SCRIPT_BLOBS. at blobs name \<noteq> jlit blob)
        (JobError ''UNSUPPORTED'' ''Source and trusted scripts differ from the fixed Ledger baseline''))
     (bindE (sub (at prof' ''build_cache'') ''files'') (\<lambda>files.
      thenE (raise_if (\<not> truthy files) (JobError ''UNSUPPORTED'' ''An independently admitted local build cache is required''))
        (Inr prof')))))))"

definition nas_storage :: "json \<Rightarrow> json \<Rightarrow> json res" where
  "nas_storage prof inputs =
     bindE (catching [''KeyError''] (unauthorized ''Storage reference is not admitted'')
        (bindE (sub prof ''storages'') (\<lambda>storages. bindE (key_or_raise (dget storages (path_at inputs ''storage_ref''))) (\<lambda>storage.
           Inr (dset prof (lit ''storage'') storage))))) (\<lambda>prof'.
     bindE (sub (at prof' ''storage'') ''stable_mount_binding'') (\<lambda>binding.
     thenE (raise_if (\<not> is_dict binding) (JobError ''UNSUPPORTED'' ''Stable cross-stage NAS mount binding has not been admitted''))
       (Inr prof')))"

text \<open>The profile with its inputs, the prepared artifact, the prerequisites and the execution of one request.\<close>

record resolved =
  res_profile :: json
  res_prepared :: json
  res_prerequisites :: "json list"
  res_execution :: json

record lookups =
  prepared_lookup :: "(pystr \<Rightarrow> json option) option"
  evidence_lookup :: "(json \<Rightarrow> json list) option"

definition no_lookups :: lookups where
  "no_lookups = \<lparr>prepared_lookup = None, evidence_lookup = None\<rparr>"

definition early_execution :: "udb \<Rightarrow> json \<Rightarrow> json \<Rightarrow> json option res" where
  "early_execution U req prof =
     (let kind = at req ''kind''; inputs = at req ''inputs'' in
      if kind = jlit ''ledger.test.local_a2'' then
        bindE (catching [''KeyError'', ''TypeError'', ''ValueError''] (JobError ''UNSUPPORTED'' ''Installed local A2 runtime is not admitted'') (a2_plan req prof))
          (\<lambda>x. Inr (Some x))
      else if kind = jlit ''workspace.edit'' then
        bindE (catching [''KeyError'', ''ValueError''] (JobError ''UNSUPPORTED'' ''Workspace source or fixed validation is not admitted'')
          (bindE (sub prof ''sources'') (\<lambda>sources. bindE (key_or_raise (dget sources (path_at inputs ''source_ref''))) (\<lambda>source.
             workspace_plan U req (dset prof (lit ''source'') source)))))
          (\<lambda>x. Inr (Some x))
      else Inr None)"

definition resolve_execution :: "udb \<Rightarrow> lookups \<Rightarrow> int \<Rightarrow> int \<Rightarrow> registry \<Rightarrow> json \<Rightarrow> json \<Rightarrow> principal option \<Rightarrow> resolved res" where
  "resolve_execution U L now_floor now_ceil R req prof prin =
     (let kind = at req ''kind''; inputs = at req ''inputs'' in
      bindE (early_execution U req prof) (\<lambda>early.
      bindE (if kind = jlit ''ledger.prepare'' then build_inputs prof inputs else Inr prof) (\<lambda>prof1.
      bindE (case fld inputs ''prepared_ref'' of None \<Rightarrow> Inr JNull
           | Some ref \<Rightarrow> prepared_fact (prepared_lookup L) R (str_of (Some ref)) req prin) (\<lambda>prepared.
      bindE (if kind = jlit ''ledger.nas.roundtrip'' then nas_storage prof1 inputs else Inr prof1) (\<lambda>prof2.
      bindE (if kind = jlit ''ledger.nas.roundtrip'' then
               (case prin of None \<Rightarrow> Inl (PyError ''AttributeError'')
                | Some p \<Rightarrow> prerequisites (evidence_lookup L) now_floor now_ceil R req prepared p) else Inr []) (\<lambda>prereqs.
      bindE (case early of Some x \<Rightarrow> Inr x
           | None \<Rightarrow> catching [''KeyError'', ''TypeError'', ''ValueError''] (JobError ''UNSUPPORTED'' ''Admitted inputs cannot resolve the fixed execution plan'')
               (build_plan req prof2 prepared prereqs)) (\<lambda>execution.
        Inr \<lparr>res_profile = prof2, res_prepared = prepared, res_prerequisites = prereqs, res_execution = execution\<rparr>)))))))"

definition execution_bindings :: "policy \<Rightarrow> json \<Rightarrow> resolved \<Rightarrow> json" where
  "execution_bindings P req r =
     dset (res_execution r) (lit ''bindings'') (dupdate (at (res_execution r) ''bindings'')
       ([(lit ''expected'', at req ''expected''), (lit ''local_hand_source_commit'', at (config P) ''source_commit''),
         (lit ''local_hand_installed_payload_digest'', at (config P) ''installed_payload_digest''),
         (lit ''local_hand_execution_entrypoint'', at (config P) ''execution_entrypoint'')] @
        (if truthy (res_prepared r) then items (at (res_prepared r) ''bindings'') else [])))"

definition prepared_resource :: "json \<Rightarrow> json res" where
  "prepared_resource prepared = (case utf8_encode (path_at prepared ''root'') of
     None \<Rightarrow> Inl (PyError ''ValueError'')
   | Some bytes \<Rightarrow> Inr (JStr (lit ''prepared-'' @ take 32 (sha256_hex bytes))))"

definition plan_resources :: "resolved \<Rightarrow> json res" where
  "plan_resources r =
     bindE (if truthy (res_prepared r) then bindE (prepared_resource (res_prepared r)) (\<lambda>x. Inr [x]) else Inr []) (\<lambda>prepared.
     bindE (case fld (res_profile r) ''storage'' of None \<Rightarrow> Inr [] | Some storage \<Rightarrow> bindE (sub storage ''resource_id'') (\<lambda>x. Inr [x])) (\<lambda>storage.
       Inr (JList (map JStr (sort (remdups (map (\<lambda>v. str_of (Some v)) (elements (at (res_profile r) ''resource_ids'') @ prepared @ storage))))))))"

definition final_plan :: "policy \<Rightarrow> json \<Rightarrow> resolved \<Rightarrow> json res" where
  "final_plan P req r =
     bindE (plan_resources r) (\<lambda>resources.
     let budget = at (res_profile r) ''budgets'';
         body = obj [(''schema_version'', jlit ''lh-resolved-plan-v1''), (''kind'', at req ''kind''), (''operation_id'', at req ''operation_id''),
           (''profile_ref'', at req ''profile_ref''), (''inputs'', at req ''inputs''), (''expected'', at req ''expected''), (''budgets'', budget),
           (''resource_ids'', resources), (''reservation_bytes'', at budget ''reservation_bytes''),
           (''execution'', execution_bindings P req r), (''prerequisites'', JList (res_prerequisites r)),
           (''policy_generation'', at (config P) ''generation''), (''registry_digest'', JStr REGISTRY_DIGEST)] in
     Inr (dset body (lit ''plan_digest'') (JStr (json_digest body))))"

definition resolve_plan :: "udb \<Rightarrow> lookups \<Rightarrow> int \<Rightarrow> int \<Rightarrow> registry \<Rightarrow> policy \<Rightarrow> json \<Rightarrow> principal option \<Rightarrow> json res" where
  "resolve_plan U L now_floor now_ceil R P req prin =
     bindE (profile P (path_at req ''profile_ref'')) (\<lambda>prof.
     bindE (sub prof ''budgets'') (\<lambda>budgets.
     bindE (key_or_raise (dget budgets (path_at req ''kind''))) (\<lambda>budget.
     bindE (sub prof ''resource_ids'') (\<lambda>ids.
     bindE (resolve_execution U L now_floor now_ceil R req (dupdate prof [(lit ''budgets'', budget), (lit ''resources'', ids)]) prin)
       (final_plan P req)))))"

definition resolve :: "udb \<Rightarrow> lookups \<Rightarrow> int \<Rightarrow> int \<Rightarrow> registry \<Rightarrow> policy \<Rightarrow> json \<Rightarrow> principal option \<Rightarrow> json res \<times> registry \<times> policy" where
  "resolve U L now_floor now_ceil R P request_in prin =
     (case resolve_request U now_floor P request_in prin of
        Inl e \<Rightarrow> (Inl e, R, P)
      | Inr req \<Rightarrow> (case know_policy R P of
          (Inl e, R', P') \<Rightarrow> (Inl e, R', P')
        | (Inr _, R', P') \<Rightarrow> (resolve_plan U L now_floor now_ceil R' P' req prin, R', P')))"

end
