(* ===== verification/Broker.thy ===== *)
theory Broker
  imports Registry
begin

text \<open>
  The admission side of \<open>tools/local_hand_jobs/broker.py\<close>: authorization against the policy and the
  revocation table, the public view of a row, capacity and rate limits, and the operations \<open>submit\<close>,
  \<open>status\<close>, \<open>cancel\<close>, \<open>reconcile\<close> and \<open>revoke\<close>, each in the transaction it runs in; with
  \<open>original\<close> and \<open>admission_version\<close> of \<open>quota_binding.py\<close>, which the release of resources consults.
  The fence and the wake event order threads of one process; every operation below runs under the fence.
\<close>

section \<open>State\<close>

text \<open>
  \<open>bk_rates\<close> holds the readings of the monotonic clock (in nanoseconds) of the recent requests of each principal;
  \<open>bk_private\<close> is the answer of \<open>private_verification()\<close>; \<open>bk_session\<close> is \<open>admit\<close> of the task session, if there is one.
\<close>

record broker =
  bk_store :: store
  bk_policy :: policy
  bk_registry :: registry
  bk_rates :: "(pystr \<times> int list) list"
  bk_aliases :: aliases
  bk_read_only :: bool
  bk_quota_required :: bool
  bk_private :: bool
  bk_session :: "(json \<Rightarrow> principal \<Rightarrow> unit res) option"

type_synonym 'a bact = "broker \<Rightarrow> 'a res \<times> broker"

text \<open>
  What an operation reads from outside, numbered in program order: the failures of its transactions, the
  integer part and the next whole second of the clock, and the readings of the clock that are stored.
\<close>

record world =
  w_faults :: "nat \<Rightarrow> faults"
  w_now :: "nat \<Rightarrow> int"
  w_ceil :: "nat \<Rightarrow> int"
  w_stamp :: "nat \<Rightarrow> json"

text \<open>Code over the ledger inside an operation of the broker, and a transaction around code of the broker.\<close>

definition onStore :: "'a act \<Rightarrow> 'a bact" where
  "onStore m b = (case m (bk_store b) of (r, s) \<Rightarrow> (r, b\<lparr>bk_store := s\<rparr>))"

definition bindB :: "'a bact \<Rightarrow> ('a \<Rightarrow> 'b bact) \<Rightarrow> 'b bact" where
  "bindB m f b = (case m b of (Inl e, b') \<Rightarrow> (Inl e, b') | (Inr x, b') \<Rightarrow> f x b')"

text \<open>A rollback restores the tables; the memory of the broker keeps what the body did to it.\<close>

definition in_transaction :: "faults \<Rightarrow> 'a bact \<Rightarrow> 'a bact" where
  "in_transaction f body b =
     (case body b of (r, b1) \<Rightarrow>
      case transaction f (\<lambda>_. (r, bk_store b1)) (bk_store b) of (r', s') \<Rightarrow>
        (r', (if healthy (bk_store b) \<and> begin_error f = None then b1 else b)\<lparr>bk_store := s'\<rparr>))"

section \<open>Authorization\<close>

definition check_revoked :: "principal \<Rightarrow> unit act" where
  "check_revoked p s = (if map_of (revocations (sdb s)) (principal_id p) \<noteq> None
     then raiseA (unauthorized ''Principal admission has been revoked'') else returnA ()) s"

definition authorize_tx :: "int \<Rightarrow> policy \<Rightarrow> principal \<Rightarrow> string \<Rightarrow> json option \<Rightarrow> pystr option \<Rightarrow> unit act" where
  "authorize_tx now P p scope req owner = thenA (liftA (authorize now P p scope req owner)) (check_revoked p)"

text \<open>\<open>_authorize\<close> without a transaction checks the policy, and again inside the transaction it opens.\<close>

definition authorize_new :: "faults \<Rightarrow> int \<Rightarrow> int \<Rightarrow> policy \<Rightarrow> principal \<Rightarrow> string \<Rightarrow> unit act" where
  "authorize_new f now1 now2 P p scope =
     thenA (liftA (authorize now1 P p scope None None)) (transaction f (authorize_tx now2 P p scope None None))"

definition get_owned :: "int \<Rightarrow> policy \<Rightarrow> string \<Rightarrow> pystr \<Rightarrow> principal \<Rightarrow> string \<Rightarrow> row act" where
  "get_owned now P ns i p scope =
     bindA (get (lit ns) i) (\<lambda>found. case found of
       None \<Rightarrow> raiseA (JobError ''NOT_FOUND'' ''No matching record in the healthy ledger'')
     | Some r \<Rightarrow> thenA (authorize_tx now P p scope None (Some (principal_of r)))
         (if principal_of r \<noteq> principal_id p then raiseA (unauthorized ''Operation ownership does not match'') else returnA r))"

section \<open>Views\<close>

definition INTERNAL_KEYS :: "string list" where
  "INTERNAL_KEYS = [''handles'', ''facts'', ''principal_scopes'', ''generation'', ''runner_result'',
     ''frozen_snapshot'', ''prepared_facts'', ''business_outcome'', ''business_exit_proof'', ''delivery_intents'',
     ''execution_budget'', ''budget_grant'', ''bootstrap_grants'', ''bootstrap_completed'', ''helper_completed'',
     ''quota_binding_version'', ''quota_preparations'', ''quota_bindings'', ''quota_observed'', ''quota_event_phase'',
     ''quota_pending'', ''quota_closed'', ''preflight_completion'', ''stopped_completion'']"

definition PROOF_KEYS :: "string list" where
  "PROOF_KEYS = [''future_start_blocked'', ''tree_exited'', ''collectors_stopped'', ''writers_stopped'', ''effects_checked'', ''exit_code'']"

definition seal_refs :: "json \<Rightarrow> json res" where
  "seal_refs v = bindE (mapE (\<lambda>item. bindE (sub item ''seal_id'') (\<lambda>i.
     Inr (obj [(''seal_id'', i), (''seal_sha256'', at item ''seal_sha256'')]))) (elements (get_or v ''seals'' (JList [])))) (\<lambda>xs. Inr (JList xs))"

definition public_proof :: "json \<Rightarrow> json" where
  "public_proof v = (case fld v ''exit_proof'' of
     Some (JObj kvs) \<Rightarrow> dset v (lit ''exit_proof'') (obj (map (\<lambda>k. (k, at (JObj kvs) k)) PROOF_KEYS))
   | _ \<Rightarrow> v)"

definition drop_keys :: "string list \<Rightarrow> json \<Rightarrow> json" where
  "drop_keys keys v = fold (\<lambda>k d. dpop d (lit k)) keys v"

definition view :: "row \<Rightarrow> json res" where
  "view r =
     (let v1 = dupdate (rec r) [(lit ''operation_id'', JStr (parent r)), (lit ''request_digest'', JStr (digest r))];
          v2 = (if namespace r = lit ''reconcile'' then dset v1 (lit ''reconcile_id'') (JStr (identity r)) else v1) in
      bindE (sub v2 ''evidence'') (\<lambda>evidence.
      bindE (if evidence \<noteq> jlit ''SEALED'' then Inr True else bindE (sub v2 ''outcome'') (\<lambda>out. Inr (out \<noteq> jlit ''SUCCEEDED''))) (\<lambda>withheld.
      let v3 = (if withheld then dset v2 (lit ''outputs'') (JObj []) else v2);
          v4 = drop_keys INTERNAL_KEYS v3 in
      bindE (seal_refs v4) (\<lambda>refs.
        Inr (public_proof (dset (dpop v4 (lit ''seals'')) (lit ''seal_refs'') refs))))))"

section \<open>Limits\<close>

abbreviation limit_of :: "policy \<Rightarrow> string \<Rightarrow> int" where
  "limit_of P name \<equiv> int_of (fld (at (config P) ''limits'') name)"

text \<open>\<open>state.all\<close>: every row that \<open>get\<close> finds.\<close>

definition rows_act :: "row list act" where
  "rows_act = bindA all_rows (\<lambda>found. returnA (concat (map (\<lambda>x. case x of None \<Rightarrow> [] | Some r \<Rightarrow> [r]) found)))"

definition lifecycle_of :: "row \<Rightarrow> json res" where
  "lifecycle_of r = sub (rec r) ''lifecycle''"

definition active_count :: "row list \<Rightarrow> int res" where
  "active_count rows = bindE (mapE lifecycle_of rows) (\<lambda>ls. Inr (int (length (filter (\<lambda>l. l \<noteq> jlit ''TERMINAL'') ls))))"

definition capacity :: "policy \<Rightarrow> int \<Rightarrow> unit act" where
  "capacity P reserved =
     bindA rows_act (\<lambda>rows. bindA (liftA (active_count rows)) (\<lambda>active.
       if active \<ge> limit_of P ''max_queued'' \<or>
          sum_list (map reserved_bytes rows) + reserved + limit_of P ''ledger_emergency_bytes'' > limit_of P ''retained_bytes''
       then raiseA (JobError ''LIMIT_EXCEEDED'' ''Admitted queue or retained evidence budget is exhausted'') else returnA ()))"

text \<open>The sliding minute of a principal; \<open>now\<close> is the reading of the monotonic clock.\<close>

definition rate :: "int \<Rightarrow> principal \<Rightarrow> unit bact" where
  "rate now p b =
     (if bk_private b then (Inr (), b) else
      let recent = dropWhile (\<lambda>t. t \<le> now - 60 * NANOSECONDS) (case map_of (bk_rates b) (principal_id p) of None \<Rightarrow> [] | Some ts \<Rightarrow> ts) in
      if int (length recent) \<ge> limit_of (bk_policy b) ''requests_per_minute''
      then (Inl (JobError ''LIMIT_EXCEEDED'' ''Principal request rate is exhausted''), b\<lparr>bk_rates := AList.update (principal_id p) recent (bk_rates b)\<rparr>)
      else (Inr (), b\<lparr>bk_rates := AList.update (principal_id p) (recent @ [now]) (bk_rates b)\<rparr>))"

definition generation_of :: "policy \<Rightarrow> json act" where
  "generation_of P s = (case map_of (counters (sdb s)) (lit ''generation'') of
     None \<Rightarrow> (Inl (PyError ''TypeError''), s)
   | Some n \<Rightarrow> (Inr (JList [at (config P) ''generation'', JInt n]), s))"

section \<open>\<open>submit\<close>\<close>

abbreviation read_only_error :: exn where
  "read_only_error \<equiv> JobError ''UNSUPPORTED'' ''This service only reads retained task results''"

text \<open>A repeated submission of a stored operation.\<close>

definition replay :: "int \<Rightarrow> policy \<Rightarrow> principal \<Rightarrow> pystr \<Rightarrow> row \<Rightarrow> json act" where
  "replay now P p dig old =
     thenA (authorize_tx now P p ''lh:read'' None (Some (principal_of old)))
     (if principal_of old \<noteq> principal_id p then raiseA (unauthorized ''Operation ownership does not match'')
      else if digest old \<noteq> dig then raiseA (JobError ''CONFLICT'' ''The operation ID already binds different content'')
      else liftA (view old))"

definition fresh_checks :: "world \<Rightarrow> broker \<Rightarrow> principal \<Rightarrow> json \<Rightarrow> unit act" where
  "fresh_checks W b p req =
     thenA (authorize_tx (w_now W 3) (bk_policy b) p ''lh:submit'' (Some req) None)
     (liftA
       (thenE (raise_if (at req ''kind'' \<in> set (map jlit DISABLED_JOB_KINDS)) (JobError ''UNSUPPORTED'' ''This job kind is not available for new execution''))
       (thenE (case bk_session b of None \<Rightarrow> Inr () | Some admit \<Rightarrow> admit req p)
       (bindE (sub req ''expires_at'') (\<lambda>expires.
        thenE (raise_if (int_of (Some expires) \<le> w_now W 4) (JobError ''STALE_DEPLOYMENT'' ''First admission deadline has expired''))
       (bindE (expected REGISTRY_DIGEST (bk_policy b) (path_at req ''profile_ref'')) (\<lambda>current.
          raise_if (\<not> jeq (at req ''expected'') current) (JobError ''STALE_DEPLOYMENT'' ''Expected deployment binding does not match''))))))))"

definition admission_changes :: "bool \<Rightarrow> principal \<Rightarrow> json \<Rightarrow> dict" where
  "admission_changes quota p gen =
     [(lit ''principal_scopes'', JList (map JStr (sort (remdups (scopes p))))), (lit ''generation'', gen), (lit ''handles'', JObj [])] @
     (if quota then [(lit ''quota_binding_version'', JInt 1)] else [])"

text \<open>The stored row must still be there when it is read back.\<close>

definition view_stored :: "pystr \<Rightarrow> pystr \<Rightarrow> json act" where
  "view_stored ns i = bindA (get ns i) (\<lambda>found. liftA (case found of None \<Rightarrow> Inl (PyError ''TypeError'') | Some r \<Rightarrow> view r))"

definition admit_row :: "world \<Rightarrow> policy \<Rightarrow> aliases \<Rightarrow> bool \<Rightarrow> principal \<Rightarrow> json \<Rightarrow> json \<Rightarrow> json act" where
  "admit_row W P al quota p req plan_v =
     (let i = path_at req ''operation_id''; dig = path_at req ''request_digest''; reserved = int_of (fld plan_v ''reservation_bytes'') in
      thenA (capacity P reserved)
     (thenA (acquire al i (int_of (fld (at req ''expected'') ''deployment_epoch'')) (elements (at plan_v ''resource_ids'')))
     (bindA (insert_row (w_stamp W 0) (w_stamp W 1) (lit ''job'') i i (principal_id p) dig req plan_v reserved) (\<lambda>_.
      bindA (generation_of P) (\<lambda>gen.
      bindA (update (w_stamp W 2) (lit ''job'') i (lit ''ADMISSION_BOUND'') (admission_changes quota p gen)) (\<lambda>_.
        view_stored (lit ''job'') i))))))"

definition resolveB :: "udb \<Rightarrow> lookups \<Rightarrow> int \<Rightarrow> int \<Rightarrow> json \<Rightarrow> principal \<Rightarrow> json bact" where
  "resolveB U L now now_ceil req p b = (case resolve U L now now_ceil (bk_registry b) (bk_policy b) req (Some p) of
     (r, R, P) \<Rightarrow> (r, b\<lparr>bk_registry := R, bk_policy := P\<rparr>))"

definition submit_body :: "udb \<Rightarrow> lookups \<Rightarrow> world \<Rightarrow> json \<Rightarrow> principal \<Rightarrow> (json \<times> bool) bact" where
  "submit_body U L W req p =
     bindB (onStore (get (lit ''job'') (path_at req ''operation_id''))) (\<lambda>old b. (case old of
       Some r \<Rightarrow> bindB (onStore (replay (w_now W 2) (bk_policy b) p (path_at req ''request_digest'') r)) (\<lambda>v b. (Inr (v, False), b))
     | None \<Rightarrow>
         bindB (onStore (fresh_checks W b p req)) (\<lambda>_.
         bindB (resolveB U L (w_now W 5) (w_ceil W 5) req p) (\<lambda>plan_v b.
         bindB (onStore (admit_row W (bk_policy b) (bk_aliases b) (bk_quota_required b) p req plan_v)) (\<lambda>v b. (Inr (v, True), b)) b))) b)"

section \<open>The catalog of observations\<close>

text \<open>
  \<open>int(x)\<close> of a stored clock reading: the integer part of its decimal text, which a float below \<open>10 ^ 16\<close>
  and above \<open>1\<close> has without an exponent.
\<close>

definition whole_seconds :: "json \<Rightarrow> int" where
  "whole_seconds v = (case v of JInt n \<Rightarrow> n | JFloat s \<Rightarrow> int_of_text (takeWhile (\<lambda>c. c \<noteq> 46) (lit s)) | _ \<Rightarrow> 0)"

definition sealed_observation :: "row \<Rightarrow> json list \<Rightarrow> (json \<times> json) act" where
  "sealed_observation r seals =
     bindA (events_of (lit ''job'') (identity r)) (\<lambda>evs.
       case filter (\<lambda>e. e_kind e = lit ''EVIDENCE_SEALED'') evs of
         [] \<Rightarrow> raiseA (JobError ''IO_UNCERTAIN'' ''Sealed observation has no durable registration event'')
       | sealed \<Rightarrow>
           let final = last (sort_key e_seq sealed) in
           if seals = [] then returnA (JInt (int (e_seq final)), e_observed_at final)
           else bindA (liftA (sub (last seals) ''event_seq'')) (\<lambda>seq.
             case find (\<lambda>e. JInt (int (e_seq e)) = seq) evs of
               None \<Rightarrow> raiseA (JobError ''IO_UNCERTAIN'' ''Seal has no original execution observation'')
             | Some e \<Rightarrow> returnA (JInt (int (e_seq final)), e_observed_at e)))"

definition observation_fact :: "row \<Rightarrow> json list \<Rightarrow> json \<times> json \<Rightarrow> json" where
  "observation_fact r seals order =
     (let run = get_or (rec r) ''runner_result'' (JObj []); inputs = at (request r) ''inputs'' in
      obj [(''evidence_id'', JStr (identity r @ lit ''-'' @ print_int (int_of (fld (rec r) ''event_seq'')))), (''operation_id'', JStr (identity r)),
        (''kind'', at (request r) ''kind''), (''profile_ref'', at (request r) ''profile_ref''), (''owner'', JStr (principal_of r)),
        (''observed_at'', JInt (whole_seconds (snd order))), (''event_seq'', fst order), (''outcome'', at (rec r) ''outcome''),
        (''evidence_state'', at (rec r) ''evidence''), (''prepared_ref'', get_or inputs ''prepared_ref'' (JStr (lit ''prepared-'' @ identity r))),
        (''suite'', at inputs ''suite''), (''expected'', at (request r) ''expected''),
        (''bindings'', get_or run ''bindings'' (get_or (get_or (plan r) ''execution'' (JObj [])) ''bindings'' (JObj []))),
        (''coverage'', get_or run ''coverage'' (jlit ''PASS'')),
        (''seal_digest'', if seals = [] then JNull else at (last seals) ''seal_sha256'')])"

text \<open>\<open>_catalog\<close> of a prepared artifact: a retired profile closes new use only.\<close>

definition catalog_prepared :: "row \<Rightarrow> unit bact" where
  "catalog_prepared r b =
     (let prepared = at (rec r) ''prepared_facts'' in
      if \<not> (truthy prepared \<and> at (rec r) ''evidence'' = jlit ''SEALED'' \<and> at (rec r) ''outcome'' = jlit ''SUCCEEDED'') then (Inr (), b)
      else case register_prepared (bk_registry b) (bk_policy b) (at prepared ''prepared_ref'') prepared of
        (Inl e, R, P) \<Rightarrow> (Inl e, b\<lparr>bk_registry := R, bk_policy := P\<rparr>)
      | (Inr _, R, P) \<Rightarrow>
          let b' = b\<lparr>bk_registry := R, bk_policy := P\<rparr>;
              current = (case expected REGISTRY_DIGEST P (path_at prepared ''profile_ref'') of Inl _ \<Rightarrow> JNull | Inr e \<Rightarrow> e) in
          if jeq (at prepared ''expected'') current then
            (case register_prepared_reference REGISTRY_DIGEST P (at prepared ''prepared_ref'') (at prepared ''owner'') (path_at prepared ''profile_ref'') None of
               Inl e \<Rightarrow> (Inl e, b') | Inr P' \<Rightarrow> (Inr (), b'\<lparr>bk_policy := P'\<rparr>))
          else (Inr (), b'))"

definition catalog :: "faults \<Rightarrow> row \<Rightarrow> unit bact" where
  "catalog f r =
     bindB (catalog_prepared r) (\<lambda>_.
     let seals = elements (get_or (rec r) ''seals'' (JList [])) in
     bindB (onStore (if at (rec r) ''evidence'' = jlit ''SEALED'' then transaction f (sealed_observation r seals)
         else returnA (at (rec r) ''event_seq'', at (rec r) ''observed_at''))) (\<lambda>order b.
       case register_evidence (bk_registry b) (observation_fact r seals order) of
         Inl e \<Rightarrow> (Inl e, b) | Inr R \<Rightarrow> (Inr (), b\<lparr>bk_registry := R\<rparr>)))"

text \<open>\<open>_restore_catalog\<close>: every job of the ledger, in order; the \<open>k\<close>-th one in the transaction with the faults \<open>w_faults W (k + 1)\<close>.\<close>

fun catalog_all :: "world \<Rightarrow> nat \<Rightarrow> row list \<Rightarrow> unit bact" where
  "catalog_all W k [] b = (Inr (), b)"
| "catalog_all W k (r # rows) b = (if namespace r = lit ''job''
     then bindB (catalog (w_faults W k) r) (\<lambda>_. catalog_all W (Suc k) rows) b else catalog_all W (Suc k) rows b)"

definition restore_catalog :: "world \<Rightarrow> unit bact" where
  "restore_catalog W = bindB (onStore (transaction (w_faults W 0) rows_act)) (catalog_all W 1)"

text \<open>\<open>submit\<close>: only a new admission is catalogued, after its commit.\<close>

definition submit :: "udb \<Rightarrow> lookups \<Rightarrow> world \<Rightarrow> tool_input \<Rightarrow> principal \<Rightarrow> json bact" where
  "submit U L W inp p b =
     (if bk_read_only b then (Inl read_only_error, b) else
      bindB (onStore (authorize_new (w_faults W 0) (w_now W 0) (w_now W 1) (bk_policy b) p ''lh:submit'')) (\<lambda>_ b.
        case validate_submit U inp of Inl e \<Rightarrow> (Inl e, b) | Inr req \<Rightarrow>
        bindB (in_transaction (w_faults W 1) (submit_body U L W req p)) (\<lambda>(v, fresh). if \<not> fresh then (\<lambda>b. (Inr v, b)) else
          bindB (onStore (transaction (w_faults W 2) (get (lit ''job'') (path_at req ''operation_id'')))) (\<lambda>found.
            case found of None \<Rightarrow> (\<lambda>b. (Inl (PyError ''TypeError''), b))
            | Some r \<Rightarrow> bindB (catalog (w_faults W 3) r) (\<lambda>_ b. (Inr v, b)))) b) b)"

section \<open>\<open>status\<close>\<close>

text \<open>\<open>xs[-10:]\<close>\<close>

definition last_ten :: "'a list \<Rightarrow> 'a list" where
  "last_ten xs = drop (length xs - 10) xs"

definition round_summary :: "row \<Rightarrow> json res" where
  "round_summary r = bindE (lifecycle_of r) (\<lambda>l. bindE (sub (rec r) ''outcome'') (\<lambda>out.
     Inr (obj [(''reconcile_id'', JStr (identity r)), (''lifecycle'', l), (''outcome'', out)])))"

definition is_round_of :: "pystr \<Rightarrow> row \<Rightarrow> bool" where
  "is_round_of operation_id r = (namespace r = lit ''reconcile'' \<and> parent r = operation_id)"

definition status :: "world \<Rightarrow> policy \<Rightarrow> pystr \<Rightarrow> principal \<Rightarrow> pystr option \<Rightarrow> json act" where
  "status W P operation_id p reconcile_id = transaction (w_faults W 0)
     (bindA (get_owned (w_now W 0) P ''job'' operation_id p ''lh:read'') (\<lambda>par.
      case reconcile_id of
        Some i \<Rightarrow> bindA (get_owned (w_now W 1) P ''reconcile'' i p ''lh:read'') (\<lambda>r.
          if parent r \<noteq> operation_id then raiseA (JobError ''CONFLICT'' ''Reconciliation belongs to a different operation'')
          else liftA (view r))
      | None \<Rightarrow> bindA (liftA (view par)) (\<lambda>v. bindA rows_act (\<lambda>rows.
          bindA (liftA (mapE round_summary (last_ten (filter (is_round_of operation_id) rows)))) (\<lambda>rounds.
            returnA (dset v (lit ''reconciliations'') (JList rounds)))))))"

section \<open>The quota history of an operation\<close>

text \<open>Keys of the quota maps are phase names; another value is no key of them.\<close>

definition phase_get :: "json \<Rightarrow> json \<Rightarrow> json option" where
  "phase_get d phase = (case phase of JStr s \<Rightarrow> dget d s | _ \<Rightarrow> None)"

definition event_data :: "pystr \<Rightarrow> pystr \<Rightarrow> string list \<Rightarrow> (pystr \<times> json) list act" where
  "event_data ns i kinds = bindA (events_of ns i) (\<lambda>evs.
     liftA (mapE (\<lambda>e. bindE (loads plain_hooks (e_data_json e)) (\<lambda>v. Inr (e_kind e, v)))
       (filter (\<lambda>e. e_kind e \<in> set (map lit kinds)) (sort_key e_seq evs))))"

definition admission_version :: "row \<Rightarrow> json act" where
  "admission_version r =
     bindA (events_of (namespace r) (identity r)) (\<lambda>evs.
     bindA (liftA (case filter (\<lambda>e. e_kind e = lit (if namespace r = lit ''job'' then ''ADMISSION_BOUND'' else ''OBSERVATION_BOUND'')) (sort_key e_seq evs) of
         [] \<Rightarrow> Inr JNull
       | e # _ \<Rightarrow> bindE (loads plain_hooks (e_data_json e)) (\<lambda>v. Inr (at v ''quota_binding_version'')))) (\<lambda>initial.
     let current = at (rec r) ''quota_binding_version'' in
     if \<not> jeq initial current \<or> current \<notin> {JNull, JInt 1}
     then raiseA (JobError ''IO_UNCERTAIN'' ''Quota admission version differs from its original event'') else returnA current))"

definition original :: "row \<Rightarrow> json \<Rightarrow> string \<Rightarrow> string \<Rightarrow> json act" where
  "original r phase kind name =
     bindA (event_data (namespace r) (identity r) [kind]) (\<lambda>data.
     let bound = filter (\<lambda>(k, item). jeq (at item ''quota_event_phase'') phase) data;
         found = map (\<lambda>(k, item). phase_get (get_or item name (JObj [])) phase) bound;
         originals = concat (map (\<lambda>v. case v of Some x \<Rightarrow> if x \<noteq> JNull \<and> jeq (at x ''phase'') phase then [x] else [] | None \<Rightarrow> []) found);
         snapshot = phase_get (get_or (rec r) name (JObj [])) phase in
     case (originals, snapshot) of
       ([x], Some y) \<Rightarrow> if jeq x y then returnA y else raiseA (JobError ''IO_UNCERTAIN'' ''Original quota binding is missing or changed'')
     | _ \<Rightarrow> raiseA (JobError ''IO_UNCERTAIN'' ''Original quota binding is missing or changed''))"

section \<open>The release of resources\<close>

definition upper :: "pystr \<Rightarrow> pystr" where
  "upper s = map (\<lambda>c. if 97 \<le> c \<and> c \<le> 122 then c - 32 else c) s"

definition execution_issued :: "row \<Rightarrow> (pystr \<times> json) list \<Rightarrow> pystr \<Rightarrow> bool" where
  "execution_issued r history phase =
     (let execution = namespace r @ lit ''-'' @ identity r @ lit ''-'' @ phase in
      dget (get_or (rec r) ''handles'' (JObj [])) phase \<noteq> None \<or>
      (\<exists>(kind, data) \<in> set history.
         kind = lit ''EXECUTION_INTENT'' \<and> (at data ''phase'' = JStr (upper phase) \<or> dget (get_or data ''handles'' (JObj [])) phase \<noteq> None) \<or>
         kind = lit ''MANAGER_DELIVERY_INTENT'' \<and> (\<exists>item \<in> set (elements (get_or data ''delivery_intents'' (JList []))).
           item = JStr execution \<or> prefix (execution @ lit '':'') (str_of (Some item)))))"

text \<open>Whether the loop over the prepared phases goes on to the release.\<close>

fun phases_released :: "row \<Rightarrow> (pystr \<times> json) list \<Rightarrow> json list \<Rightarrow> bool act" where
  "phases_released r history [] = returnA True"
| "phases_released r history (phase # phases) =
     bindA (original r phase ''QUOTA_PREPARATION'' ''quota_preparations'') (\<lambda>_.
       if phase_get (get_or (rec r) ''quota_closed'' (JObj [])) phase = None
       then (if execution_issued r history (str_of (Some phase)) then returnA False else phases_released r history phases)
       else bindA (original r phase ''QUOTA_PHASE_CLOSED'' ''quota_closed'') (\<lambda>_. phases_released r history phases))"

text \<open>The phases are a Python set, visited in an order of its own; here in the order of the snapshot and the events.\<close>

definition quota_released :: "row \<Rightarrow> bool act" where
  "quota_released r =
     bindA (admission_version r) (\<lambda>version. if version \<noteq> JInt 1 then returnA True else
     bindA (event_data (namespace r) (identity r) [''QUOTA_PREPARATION'', ''EXECUTION_INTENT'', ''MANAGER_DELIVERY_INTENT'']) (\<lambda>history.
       phases_released r history (remdups (map JStr (jkeys (get_or (rec r) ''quota_preparations'' (JObj []))) @
         map (\<lambda>(k, data). at data ''quota_event_phase'') (filter (\<lambda>(k, data). k = lit ''QUOTA_PREPARATION'') history)))))"

fun rounds_terminal :: "row \<Rightarrow> pystr list \<Rightarrow> bool act" where
  "rounds_terminal r [] = returnA True"
| "rounds_terminal r (i # ids) =
     (if namespace r = lit ''reconcile'' \<and> i = identity r then rounds_terminal r ids
      else bindA (get (lit ''reconcile'') i) (\<lambda>found. case found of
          None \<Rightarrow> raiseA (PyError ''TypeError'')
        | Some other \<Rightarrow> bindA (liftA (lifecycle_of other)) (\<lambda>l. if l \<noteq> jlit ''TERMINAL'' then returnA False else rounds_terminal r ids)))"

definition round_ids :: "pystr \<Rightarrow> pystr list act" where
  "round_ids par s = (Inr (map o_id (filter (\<lambda>r. o_namespace r = lit ''reconcile'' \<and> o_parent r = par) (operations (sdb s)))), s)"

text \<open>A round of observation releases nothing while the business execution itself is unproven.\<close>

definition parent_settled :: "row \<Rightarrow> bool act" where
  "parent_settled r = (if namespace r \<noteq> lit ''reconcile'' then returnA True else
     bindA (get (lit ''job'') (parent r)) (\<lambda>found. case found of
       None \<Rightarrow> raiseA (PyError ''TypeError'')
     | Some par \<Rightarrow> bindA (liftA (lifecycle_of par)) (\<lambda>l.
         let proof_v = dict_or_empty (at (rec par) ''exit_proof'') in
         returnA (\<not> (l \<in> {jlit ''ACCEPTED'', jlit ''RUNNING''} \<or> at (rec par) ''outcome'' = jlit ''UNKNOWN'' \<or>
            \<not> (\<forall>name \<in> {''future_start_blocked'', ''tree_exited'', ''effects_checked''}. at proof_v name = JBool True))))))"

definition release_row :: "row \<Rightarrow> json \<Rightarrow> unit act" where
  "release_row r proof_v =
     bindA (quota_released r) (\<lambda>go1. if \<not> go1 then returnA () else
     bindA (round_ids (parent r)) (\<lambda>ids.
     bindA (rounds_terminal r ids) (\<lambda>go2. if \<not> go2 then returnA () else
     bindA (parent_settled r) (\<lambda>go3. if \<not> go3 then returnA () else
       release (parent r) (at proof_v ''future_start_blocked'') (at proof_v ''tree_exited'') (at proof_v ''effects_checked'')))))"

section \<open>\<open>cancel\<close>\<close>

definition stop_proof :: json where
  "stop_proof = obj [(''future_start_blocked'', JBool True), (''tree_exited'', JBool True), (''effects_checked'', JBool True)]"

definition cancelled_before_start :: dict where
  "cancelled_before_start = [(lit ''cancel_requested'', JBool True), (lit ''lifecycle'', jlit ''TERMINAL''), (lit ''outcome'', jlit ''CANCELLED''),
     (lit ''phase'', jlit ''CANCELLED_BEFORE_START''), (lit ''side_effects'', jlit ''NONE''), (lit ''exit_proof'', stop_proof)]"

definition cancel_row :: "json \<Rightarrow> row \<Rightarrow> unit act" where
  "cancel_row stamp r =
     bindA (liftA (sub (rec r) ''cancel_requested'')) (\<lambda>requested. if truthy requested then returnA () else
     bindA (liftA (sub (rec r) ''phase'')) (\<lambda>phase.
       if phase = jlit ''QUEUED''
       then thenA (release_row r stop_proof)
         (bindA (update stamp (namespace r) (identity r) (lit ''CANCEL_REQUESTED'') cancelled_before_start) (\<lambda>_. returnA ()))
       else bindA (update stamp (namespace r) (identity r) (lit ''CANCEL_REQUESTED'') [(lit ''cancel_requested'', JBool True)]) (\<lambda>_. returnA ())))"

definition cancel_body :: "world \<Rightarrow> policy \<Rightarrow> bool \<Rightarrow> pystr \<Rightarrow> pystr \<Rightarrow> string \<Rightarrow> pystr \<Rightarrow> principal \<Rightarrow> json act" where
  "cancel_body W P ro operation_id dig ns i p =
     bindA (get_owned (w_now W 0) P ''job'' operation_id p ''lh:cancel'') (\<lambda>par.
       if digest par \<noteq> dig then raiseA (JobError ''CONFLICT'' ''Cancellation request digest does not match'') else
     bindA (get_owned (w_now W 1) P ns i p ''lh:cancel'') (\<lambda>r.
       if parent r \<noteq> operation_id then raiseA (JobError ''CONFLICT'' ''Cancellation target belongs to another operation'') else
     bindA (liftA (lifecycle_of r)) (\<lambda>l.
       if l = jlit ''TERMINAL'' then liftA (view r)
       else if ro then raiseA (JobError ''IO_UNCERTAIN'' ''No live task controller; cancellation has not been recorded'')
       else thenA (cancel_row (w_stamp W 0) r) (view_stored (lit ns) i))))"

text \<open>The target is \<open>{"kind": "job"}\<close> or \<open>{"kind": "reconcile", "reconcile_id": ...}\<close>.\<close>

datatype target = JobTarget | RoundTarget pystr

definition cancel :: "world \<Rightarrow> pystr \<Rightarrow> pystr \<Rightarrow> target \<Rightarrow> principal \<Rightarrow> json bact" where
  "cancel W operation_id dig t p b =
     onStore (transaction (w_faults W 0) (cancel_body W (bk_policy b) (bk_read_only b) operation_id dig
       (case t of JobTarget \<Rightarrow> ''job'' | RoundTarget _ \<Rightarrow> ''reconcile'') (case t of JobTarget \<Rightarrow> operation_id | RoundTarget i \<Rightarrow> i) p)) b"

section \<open>\<open>reconcile\<close>\<close>

definition observation_plan :: "policy \<Rightarrow> row \<Rightarrow> json res" where
  "observation_plan P par =
     bindE (sub (rec par) ''event_seq'') (\<lambda>seq.
     bindE (key_or_raise (dget (profiles_of P) (path_at (request par) ''profile_ref''))) (\<lambda>prof.
     bindE (sub prof ''budgets'') (\<lambda>budgets. bindE (sub budgets ''reconcile'') (\<lambda>budget.
     bindE (sub budget ''reservation_bytes'') (\<lambda>reserved.
       Inr (dupdate (plan par) [(lit ''phase'', jlit ''reconcile''), (lit ''observation_event_seq'', seq),
         (lit ''parent_request_digest'', JStr (digest par)), (lit ''budgets'', budget), (lit ''reservation_bytes'', reserved)]))))))"

definition round_busy :: "pystr \<Rightarrow> row list \<Rightarrow> unit res" where
  "round_busy operation_id rows = forE (filter (is_round_of operation_id) rows) (\<lambda>r.
     bindE (lifecycle_of r) (\<lambda>l. raise_if (l \<noteq> jlit ''TERMINAL'') (JobError ''RESOURCE_BUSY'' ''An earlier reconciliation retains its barrier'')))"

definition new_round :: "world \<Rightarrow> broker \<Rightarrow> row \<Rightarrow> pystr \<Rightarrow> pystr \<Rightarrow> pystr \<Rightarrow> principal \<Rightarrow> json act" where
  "new_round W b par operation_id dig i p =
     thenA (if bk_session b \<noteq> None then raiseA (JobError ''UNSUPPORTED'' ''This task session supports same-task recovery; a new reconciliation needs its own session'') else returnA ())
     (thenA (authorize_tx (w_now W 1) (bk_policy b) p ''lh:reconcile'' (Some (request par)) None)
     (bindA (liftA (lifecycle_of par)) (\<lambda>l.
      thenA (liftA (raise_if (l \<in> {jlit ''ACCEPTED'', jlit ''RUNNING''}) (JobError ''RESOURCE_BUSY'' ''Business execution has not become quiescent'')))
     (bindA rows_act (\<lambda>rows.
      thenA (liftA (round_busy operation_id rows))
     (bindA (liftA (observation_plan (bk_policy b) par)) (\<lambda>plan_v.
      let reserved = int_of (fld plan_v ''reservation_bytes'') in
      thenA (capacity (bk_policy b) reserved)
     (thenA (acquire (bk_aliases b) operation_id (int_of (fld (at (request par) ''expected'') ''deployment_epoch'')) (elements (at plan_v ''resource_ids'')))
     (bindA (insert_row (w_stamp W 0) (w_stamp W 1) (lit ''reconcile'') i operation_id (principal_id p) dig
        (obj [(''operation_id'', JStr operation_id), (''reconcile_id'', JStr i), (''expected_request_digest'', JStr dig)]) plan_v reserved) (\<lambda>_.
      bindA (generation_of (bk_policy b)) (\<lambda>gen.
      bindA (update (w_stamp W 2) (lit ''reconcile'') i (lit ''OBSERVATION_BOUND'') (admission_changes (bk_quota_required b) p gen)) (\<lambda>_.
        view_stored (lit ''reconcile'') i))))))))))))"

definition reconcile :: "world \<Rightarrow> pystr \<Rightarrow> pystr \<Rightarrow> pystr \<Rightarrow> principal \<Rightarrow> json bact" where
  "reconcile W operation_id dig i p b =
     (if bk_read_only b then (Inl read_only_error, b) else
      onStore (transaction (w_faults W 0)
        (bindA (get_owned (w_now W 0) (bk_policy b) ''job'' operation_id p ''lh:reconcile'') (\<lambda>par.
           if digest par \<noteq> dig then raiseA (JobError ''CONFLICT'' ''Reconciliation request digest does not match'') else
         bindA (get (lit ''reconcile'') i) (\<lambda>old. case old of
           Some r \<Rightarrow>
             if principal_of r \<noteq> principal_id p then raiseA (unauthorized ''Reconciliation ownership does not match'')
             else if parent r \<noteq> operation_id \<or> digest r \<noteq> dig then raiseA (JobError ''CONFLICT'' ''Reconciliation ID binds another request'')
             else liftA (view r)
         | None \<Rightarrow> new_round W b par operation_id dig i p)))) b)"

section \<open>\<open>revoke\<close>\<close>

definition next_generation :: "db \<Rightarrow> db" where
  "next_generation d = d\<lparr>counters := map (\<lambda>(k, n). (k, if k = lit ''generation'' then n + 1 else n)) (counters d)\<rparr>"

definition revoke_body :: "world \<Rightarrow> policy \<Rightarrow> pystr \<Rightarrow> nat act" where
  "revoke_body W P principal_id_v =
     thenA (modify_db next_generation)
     (bindA (generation_of P) (\<lambda>gen.
      let n = int_of (Some (elements gen ! 1)) in
      thenA (modify_db (\<lambda>d. d\<lparr>revocations := AList.update principal_id_v n (revocations d)\<rparr>))
     (bindA rows_act (\<lambda>rows.
      bindA (liftA (mapE (\<lambda>r. bindE (lifecycle_of r) (\<lambda>l. Inr (r, l))) (filter (\<lambda>r. principal_of r = principal_id_v) rows))) (\<lambda>owned.
      let targets = filter (\<lambda>(r, l). l \<noteq> jlit ''TERMINAL'') owned in
      thenA (forA (zip [0..<length targets] targets) (\<lambda>(k, r, l). bindA (update (w_stamp W k) (namespace r) (identity r) (lit ''GRANT_REVOKED'') [(lit ''cancel_requested'', JBool True)]) (\<lambda>_. returnA ())))
        (returnA (length targets)))))))"

definition revoke :: "world \<Rightarrow> pystr \<Rightarrow> json bact" where
  "revoke W principal_id_v b = onStore (bindA (transaction (w_faults W 0) (revoke_body W (bk_policy b) principal_id_v)) (\<lambda>n.
     returnA (obj [(''new_admission_closed'', JBool True), (''queued_launches'', jlit ''PENDING_STOP_PROOF''),
       (''running_execution'', jlit ''PENDING_STOP_PROOF''), (''affected'', JInt (int n))]))) b"

end
