(* ===== verification/BrokerProps.thy ===== *)
theory BrokerProps
  imports Broker PolicyProps LedgerHistory
begin

text \<open>
  What the operations of the broker keep of the ledger: triples over actions that return in one store or raise
  in another, the soundness of the rows, and the triples of every operation of the broker on a sound ledger.
\<close>

section \<open>Triples\<close>

text \<open>
  \<open>tripleA P m Q E\<close>: from a store with \<open>P\<close>, the action returns in a store with \<open>Q\<close> of its result or raises in
  a store with \<open>E\<close>.
\<close>

definition tripleA :: "(store \<Rightarrow> bool) \<Rightarrow> 'a act \<Rightarrow> ('a \<Rightarrow> store \<Rightarrow> bool) \<Rightarrow> (store \<Rightarrow> bool) \<Rightarrow> bool" where
  "tripleA P m Q E = (\<forall>s r s'. P s \<longrightarrow> m s = (r, s') \<longrightarrow> (case r of Inr x \<Rightarrow> Q x s' | Inl e \<Rightarrow> E s'))"

lemma tripleA_I:
  "(\<And>s x s'. P s \<Longrightarrow> m s = (Inr x, s') \<Longrightarrow> Q x s') \<Longrightarrow> (\<And>s e s'. P s \<Longrightarrow> m s = (Inl e, s') \<Longrightarrow> E s') \<Longrightarrow> tripleA P m Q E"
  by (auto simp: tripleA_def split: sum.splits)

lemma tripleA_Inr: "tripleA P m Q E \<Longrightarrow> P s \<Longrightarrow> m s = (Inr x, s') \<Longrightarrow> Q x s'"
  by (fastforce simp: tripleA_def)

lemma tripleA_Inl: "tripleA P m Q E \<Longrightarrow> P s \<Longrightarrow> m s = (Inl e, s') \<Longrightarrow> E s'"
  by (fastforce simp: tripleA_def)

lemma tripleA_keeps: "keepsA P m \<Longrightarrow> tripleA P m (\<lambda>_. P) P"
  by (auto simp: tripleA_def keepsA_def split: sum.splits)

lemma tripleA_post:
  "tripleA P m Q E \<Longrightarrow> (\<And>x s. Q x s \<Longrightarrow> Q' x s) \<Longrightarrow> (\<And>s. E s \<Longrightarrow> E' s) \<Longrightarrow> tripleA P m Q' E'"
  by (fastforce simp: tripleA_def split: sum.splits)

lemma tripleA_bind:
  assumes m: "tripleA P m R E" and f: "\<And>x. tripleA (R x) (f x) Q E"
  shows "tripleA P (bindA m f) Q E"
proof (unfold tripleA_def, intro allI impI)
  fix s r s'
  assume P: "P s" and run: "bindA m f s = (r, s')"
  obtain x t where t: "m s = (x, t)" by fastforce
  show "case r of Inl e \<Rightarrow> E s' | Inr y \<Rightarrow> Q y s'"
  proof (cases x)
    case (Inl e)
    with t run tripleA_Inl [OF m P, of e t] show ?thesis by (auto simp: bindA_def)
  next
    case (Inr y)
    with t run have "R y t" "f y t = (r, s')" using tripleA_Inr [OF m P, of y t] by (auto simp: bindA_def)
    then show ?thesis using f [of y] by (auto simp: tripleA_def)
  qed
qed

lemma tripleA_then: "tripleA P m (\<lambda>_. R) E \<Longrightarrow> tripleA R n Q E \<Longrightarrow> tripleA P (thenA m n) Q E"
  unfolding thenA_def by (rule tripleA_bind)

text \<open>A transaction ends in what its body established, or back where it began; a failed commit may have landed.\<close>

lemma tripleA_transaction:
  assumes body: "tripleA (\<lambda>s. P (sdb s)) m (\<lambda>x s. Q (sdb s)) (\<lambda>s. Q (sdb s))" and PQ: "\<And>d. P d \<Longrightarrow> Q d"
  shows "tripleA (\<lambda>s. P (sdb s)) (transaction f m) (\<lambda>x s. Q (sdb s)) (\<lambda>s. Q (sdb s))"
proof -
  have "Q (sdb s')" if P: "P (sdb s)" and run: "transaction f m s = (r, s')" for s r s'
  proof -
    have "Q (sdb (snd (m s)))"
    proof (cases "m s")
      case (Pair x t)
      then show ?thesis using tripleA_Inr [OF body P] tripleA_Inl [OF body P] by (cases x) auto
    qed
    with run PQ [OF P] P show ?thesis by (cases rule: transaction_cases) auto
  qed
  then show ?thesis by (intro tripleA_I)
qed

section \<open>What the broker keeps\<close>

lemma keeps_read [simp]: "keepsA P (check_revoked p)" "keepsA P (events_of ns i)" "keepsA P (round_ids par)" "keepsA P (generation_of pol)"
  by (auto simp: keepsA_def check_revoked_def raiseA_def returnA_def events_of_def round_ids_def generation_of_def split: option.splits if_splits)

lemma keeps_authorize [simp]: "keepsA P (authorize_tx now pol p scope req owner)"
  unfolding authorize_tx_def by (intro keepsA_thenA keepsA_pure keeps_read)

lemma keeps_list: "keepsA P m \<Longrightarrow> (\<And>x xs. keepsA P (f x xs)) \<Longrightarrow> keepsA P (case y of [] \<Rightarrow> m | x # xs \<Rightarrow> f x xs)"
  by (cases y) auto

lemmas keeps_rules = keepsA_bindA keepsA_thenA keepsA_if keepsA_option keepsA_pure keepsA_mapA keepsA_forA keeps_read keeps_authorize keeps_split keeps_list

text \<open>The quota history is only read.\<close>

lemma keeps_event_data [simp]: "keepsA P (event_data ns i kinds)"
  unfolding event_data_def by (intro keeps_rules)

lemma keeps_original [simp]: "keepsA P (original r phase kind name)"
  unfolding original_def Let_def by (intro keeps_rules keeps_event_data)

lemma keeps_admission_version [simp]: "keepsA P (admission_version r)"
  unfolding admission_version_def Let_def by (intro keeps_rules)

lemma keeps_phases [simp]: "keepsA P (phases_released r history phases)"
  by (induction phases) (auto intro!: keeps_rules)

lemma keeps_quota_released [simp]: "keepsA P (quota_released r)"
  unfolding quota_released_def by (intro keeps_rules keeps_admission_version keeps_event_data keeps_phases)

text \<open>A property of the ledger that records, events and leases keep.\<close>

locale broker_docs = ledger_docs +
  assumes Q_leases: "Q d \<Longrightarrow> Q (d\<lparr>leases := ls\<rparr>)"
begin

abbreviation QS :: "store \<Rightarrow> bool" where "QS s \<equiv> Q (sdb s)"

lemma keeps_all_rows: "keepsA QS rows_act"
proof -
  have "keepsA QS all_rows"
    by (rule keepsA_I) (auto simp: all_rows_def intro: keepsA_D [OF keepsA_mapA [OF keeps_get]])
  then show ?thesis unfolding rows_act_def by (intro keeps_rules)
qed

lemma keeps_acquire: "keepsA QS (acquire al owner epoch resources)"
  unfolding acquire_def Let_def
  by (intro keeps_rules keeps_modify)
    (auto simp: keepsA_def check_lease_def raiseA_def returnA_def claim_lease_def Q_leases split: option.splits if_splits)

lemma keeps_release: "keepsA QS (release owner a b c)"
  unfolding release_def by (intro keeps_rules keeps_modify) (simp add: drop_leases_def Q_leases)

lemma keeps_get_owned: "keepsA QS (get_owned now P ns i p scope)"
  unfolding get_owned_def by (intro keeps_rules keeps_get)

lemma keeps_capacity: "keepsA QS (capacity P reserved)"
  unfolding capacity_def by (intro keeps_rules keeps_all_rows)

lemma keeps_replay: "keepsA QS (replay now P p dig old)"
  unfolding replay_def by (intro keeps_rules)

lemma keeps_fresh: "keepsA QS (fresh_checks W b p req)"
  unfolding fresh_checks_def by (intro keeps_rules)

lemma keeps_view: "keepsA QS (view_stored ns i)"
  unfolding view_stored_def by (intro keeps_rules keeps_get)

lemma keeps_status: "keepsA QS (status W P operation_id p reconcile_id)"
  unfolding status_def by (intro keeps_transaction keeps_rules keeps_get_owned keeps_all_rows)

lemma keeps_rounds: "keepsA QS (rounds_terminal r ids)"
  by (induction ids) (auto intro!: keeps_rules keeps_get)

lemma keeps_release_row: "keepsA QS (release_row r proof_v)"
  unfolding release_row_def parent_settled_def Let_def
  by (intro keeps_rules keeps_quota_released keeps_rounds keeps_release keeps_get)

lemma keeps_cancel: "keepsA QS (cancel_body W P ro operation_id dig ns i p)"
  unfolding cancel_body_def cancel_row_def
  by (intro keeps_rules keeps_get_owned keeps_release_row keeps_update keeps_view)

lemma keeps_sealed: "keepsA QS (sealed_observation r seals)"
  unfolding sealed_observation_def Let_def by (intro keeps_rules)

lemma keeps_authorize_new: "keepsA QS (authorize_new f now1 now2 P p scope)"
  unfolding authorize_new_def by (intro keeps_rules keeps_transaction)

lemma keeps_admit_if:
  assumes "\<And>now1 now2 pl bytes. keepsA QS (insert_row now1 now2 (lit ''job'') (path_at req ''operation_id'') (path_at req ''operation_id'')
      (principal_id p) (path_at req ''request_digest'') req pl bytes)"
  shows "keepsA QS (admit_row W P al quota p req plan_v)"
  unfolding admit_row_def Let_def
  by (intro keeps_rules keeps_capacity keeps_acquire assms keeps_update keeps_view)

lemma keeps_round_if:
  assumes "\<And>now1 now2 r pl bytes. keepsA QS (insert_row now1 now2 (lit ''reconcile'') i operation_id (principal_id p) dig r pl bytes)"
  shows "keepsA QS (new_round W b par operation_id dig i p)"
  unfolding new_round_def Let_def
  by (intro keeps_rules keeps_capacity keeps_acquire assms keeps_update keeps_view keeps_all_rows)

end

text \<open>A property that also new rows and revocations keep.\<close>

locale broker_rows = ledger_rows + broker_docs +
  assumes Q_counters: "Q d \<Longrightarrow> Q (d\<lparr>counters := cs\<rparr>)"
    and Q_revoke: "Q d \<Longrightarrow> Q (d\<lparr>revocations := AList.update p n (revocations d)\<rparr>)"
begin

lemma keeps_admit: "keepsA QS (admit_row W P al quota p req plan_v)"
  by (rule keeps_admit_if) (rule keeps_insert)

lemma keeps_round: "keepsA QS (new_round W b par operation_id dig i p)"
  by (rule keeps_round_if) (rule keeps_insert)

lemma keeps_revoke: "keepsA QS (revoke_body W P principal_id_v)"
  unfolding revoke_body_def Let_def
  by (intro keeps_rules keeps_modify keeps_update keeps_all_rows) (simp_all add: next_generation_def Q_counters Q_revoke)

end

sublocale ledger_invariant \<subseteq> broker_rows
  by unfold_locales (auto intro: Q_leases Q_revocations Q_counters)

section \<open>Operations of the broker\<close>

text \<open>One public operation, with whatever its environment does.\<close>

inductive broker_step :: "broker \<Rightarrow> broker \<Rightarrow> bool" where
  step_submit: "submit U L W inp p b = (r, b') \<Longrightarrow> broker_step b b'"
| step_status: "onStore (status W (bk_policy b) i p rid) b = (r, b') \<Longrightarrow> broker_step b b'"
| step_cancel: "cancel W i dig t p b = (r, b') \<Longrightarrow> broker_step b b'"
| step_reconcile: "reconcile W i dig rid p b = (r, b') \<Longrightarrow> broker_step b b'"
| step_revoke: "revoke W pid b = (r, b') \<Longrightarrow> broker_step b b'"
| step_rate: "rate now p b = (u, b') \<Longrightarrow> broker_step b b'"
| step_restore: "restore_catalog W b = (u, b') \<Longrightarrow> broker_step b b'"

text \<open>
  The same notion of keeping for operations of the broker, whose policy never changes its configuration.
\<close>

definition holds :: "(db \<Rightarrow> bool) \<Rightarrow> json \<Rightarrow> broker \<Rightarrow> bool" where
  "holds Q c b = (Q (sdb (bk_store b)) \<and> config (bk_policy b) = c)"

definition keepsB :: "(db \<Rightarrow> bool) \<Rightarrow> json \<Rightarrow> 'a bact \<Rightarrow> bool" where
  "keepsB Q c m = (\<forall>b r b'. holds Q c b \<longrightarrow> m b = (r, b') \<longrightarrow> holds Q c b')"

lemma keepsB_I: "(\<And>b r b'. holds Q c b \<Longrightarrow> m b = (r, b') \<Longrightarrow> holds Q c b') \<Longrightarrow> keepsB Q c m"
  by (auto simp: keepsB_def)

lemma keepsB_D: "keepsB Q c m \<Longrightarrow> holds Q c b \<Longrightarrow> m b = (r, b') \<Longrightarrow> holds Q c b'"
  by (auto simp: keepsB_def)

lemma keepsB_onStore: "keepsA (\<lambda>s. Q (sdb s)) m \<Longrightarrow> keepsB Q c (onStore m)"
  by (auto simp: keepsB_def keepsA_def onStore_def holds_def split: prod.splits)

lemma onStore_keeps: "keepsA (\<lambda>s. Q (sdb s)) m \<Longrightarrow> holds Q c b \<Longrightarrow> onStore m b = (r, b') \<Longrightarrow> holds Q c b'"
  by (rule keepsB_D [OF keepsB_onStore])

lemma keepsB_bindB: "keepsB Q c m \<Longrightarrow> (\<And>x. keepsB Q c (f x)) \<Longrightarrow> keepsB Q c (bindB m f)"
proof (rule keepsB_I)
  fix b r b'
  assume m: "keepsB Q c m" and f: "\<And>x. keepsB Q c (f x)" and Q: "holds Q c b" and run: "bindB m f b = (r, b')"
  obtain x b1 where x: "m b = (x, b1)" by fastforce
  have Q1: "holds Q c b1" by (rule keepsB_D [OF m Q x])
  show "holds Q c b'"
  proof (cases x)
    case (Inl e)
    with run x Q1 show ?thesis by (auto simp: bindB_def)
  next
    case (Inr y)
    with run x have "f y b1 = (r, b')" by (simp add: bindB_def)
    from keepsB_D [OF f Q1 this] show ?thesis .
  qed
qed

lemma keepsB_pure [simp]: "keepsB Q c (\<lambda>b. (x, b))"
  by (simp add: keepsB_def)

lemma keepsB_at: "(\<And>b. holds Q c b \<Longrightarrow> keepsB Q c (f b)) \<Longrightarrow> keepsB Q c (\<lambda>b. f b b)"
  by (rule keepsB_I) (rule keepsB_D)

lemma keepsB_if: "keepsB Q c m \<Longrightarrow> keepsB Q c n \<Longrightarrow> keepsB Q c (if x then m else n)"
  by simp

lemma keepsB_option: "keepsB Q c m \<Longrightarrow> (\<And>x. keepsB Q c (f x)) \<Longrightarrow> keepsB Q c (case x of None \<Rightarrow> m | Some x \<Rightarrow> f x)"
  by (cases x) auto

subsection \<open>The configuration\<close>

lemma register_reference_config: "register_prepared_reference dig P ref own pref e = Inr P' \<Longrightarrow> config P' = config P"
proof -
  assume "register_prepared_reference dig P ref own pref e = Inr P'"
  then obtain f where "(case map_of (prepared_catalog P) (str_of (Some ref)) of
      Some old \<Rightarrow> if \<not> jeq old f then Inl (JobError ''CONFLICT'' ''Prepared reference cannot be rebound'')
        else Inr (P\<lparr>prepared_catalog := AList.update (str_of (Some ref)) f (prepared_catalog P)\<rparr>)
    | None \<Rightarrow> Inr (P\<lparr>prepared_catalog := AList.update (str_of (Some ref)) f (prepared_catalog P)\<rparr>)) = Inr P'"
    unfolding register_prepared_reference_def Let_def thenE_Inr_iff bindE_Inr_iff by blast
  then show ?thesis by (cases "map_of (prepared_catalog P) (str_of (Some ref))") (auto simp: if_Inl_Inr_iff)
qed

lemma tell_policy_config: "tell_policy P entry = Inr P' \<Longrightarrow> config P' = config P"
  unfolding tell_policy_def by (rule register_reference_config)

lemma tell_all_config: "tell_all P es = (r, P') \<Longrightarrow> config P' = config P"
  by (induction P es rule: tell_all.induct) (auto split: sum.splits dest: tell_policy_config)

lemma resolve_config: "resolve U L n c R P req p = (r, R', P') \<Longrightarrow> config P' = config P"
  by (auto simp: resolve_def know_policy_def split: sum.splits prod.splits if_splits dest: tell_all_config)

lemma register_prepared_config: "register_prepared R P ref facts = (r, R', P') \<Longrightarrow> config P' = config P"
  by (auto simp: register_prepared_def Let_def split: sum.splits if_splits dest: tell_policy_config)

lemma catalog_prepared_holds: "holds Q c b \<Longrightarrow> catalog_prepared r b = (u, b') \<Longrightarrow> holds Q c b'"
  by (auto simp: catalog_prepared_def Let_def holds_def split: if_splits prod.splits sum.splits)
    (metis register_prepared_config register_reference_config)+

lemma resolveB_holds: "holds Q c b \<Longrightarrow> resolveB U L now now_ceil req p b = (u, b') \<Longrightarrow> holds Q c b'"
  by (auto simp: resolveB_def holds_def split: prod.splits dest: resolve_config)

lemma rate_holds: "holds Q c b \<Longrightarrow> rate now p b = (u, b') \<Longrightarrow> holds Q c b'"
  by (auto simp: rate_def Let_def holds_def split: if_splits)

subsection \<open>Operations\<close>

lemma in_transaction_cases:
  assumes "in_transaction f body b = (r, b')"
  obtains x b1 where "body b = (x, b1)" "transaction f (\<lambda>_. (x, bk_store b1)) (bk_store b) = (r, bk_store b')"
    "b' = (if healthy (bk_store b) \<and> begin_error f = None then b1 else b)\<lparr>bk_store := bk_store b'\<rparr>"
proof -
  obtain x b1 where x: "body b = (x, b1)" by fastforce
  obtain r' s' where t: "transaction f (\<lambda>_. (x, bk_store b1)) (bk_store b) = (r', s')" by fastforce
  from assms x t have "r = r'" "b' = (if healthy (bk_store b) \<and> begin_error f = None then b1 else b)\<lparr>bk_store := s'\<rparr>"
    by (simp_all add: in_transaction_def)
  then show thesis using that [OF x] t by simp
qed

lemma keepsB_in_transaction:
  assumes "keepsB Q c body"
  shows "keepsB Q c (in_transaction f body)"
proof (rule keepsB_I)
  fix b r b'
  assume Q: "holds Q c b" and run: "in_transaction f body b = (r, b')"
  from run obtain x b1 where x: "body b = (x, b1)" and t: "transaction f (\<lambda>_. (x, bk_store b1)) (bk_store b) = (r, bk_store b')"
    and b': "b' = (if healthy (bk_store b) \<and> begin_error f = None then b1 else b)\<lparr>bk_store := bk_store b'\<rparr>"
    by (rule in_transaction_cases)
  have Q1: "holds Q c b1" by (rule keepsB_D [OF assms Q x])
  have "config (bk_policy b') = c" using arg_cong [OF b', of bk_policy] Q Q1 by (simp add: holds_def split: if_splits)
  moreover have "Q (sdb (bk_store b'))" using t Q Q1 unfolding holds_def by (cases rule: transaction_cases) auto
  ultimately show "holds Q c b'" by (simp add: holds_def)
qed

text \<open>What \<open>submit\<close> does after its first authorization.\<close>

definition submit_rest :: "udb \<Rightarrow> lookups \<Rightarrow> world \<Rightarrow> json \<Rightarrow> principal \<Rightarrow> json bact" where
  "submit_rest U L W req p = bindB (in_transaction (w_faults W 1) (submit_body U L W req p)) (\<lambda>(v, fresh). if \<not> fresh then (\<lambda>b. (Inr v, b)) else
     bindB (onStore (transaction (w_faults W 2) (get (lit ''job'') (path_at req ''operation_id'')))) (\<lambda>found.
       case found of None \<Rightarrow> (\<lambda>b. (Inl (PyError ''TypeError''), b))
       | Some r \<Rightarrow> bindB (catalog (w_faults W 3) r) (\<lambda>_ b. (Inr v, b))))"

lemma submit_alt:
  "submit U L W inp p b = (if bk_read_only b then (Inl read_only_error, b) else
     bindB (onStore (authorize_new (w_faults W 0) (w_now W 0) (w_now W 1) (bk_policy b) p ''lh:submit''))
       (\<lambda>_. case validate_submit U inp of Inl e \<Rightarrow> (\<lambda>b. (Inl e, b)) | Inr req \<Rightarrow> submit_rest U L W req p) b)"
  unfolding submit_def submit_rest_def by (cases "validate_submit U inp") simp_all

text \<open>The body of the transaction of \<open>reconcile\<close>.\<close>

definition reconcile_body :: "world \<Rightarrow> broker \<Rightarrow> pystr \<Rightarrow> pystr \<Rightarrow> pystr \<Rightarrow> principal \<Rightarrow> json act" where
  "reconcile_body W b operation_id dig i p =
     bindA (get_owned (w_now W 0) (bk_policy b) ''job'' operation_id p ''lh:reconcile'') (\<lambda>par.
       if digest par \<noteq> dig then raiseA (JobError ''CONFLICT'' ''Reconciliation request digest does not match'') else
     bindA (get (lit ''reconcile'') i) (\<lambda>old. case old of
       Some r \<Rightarrow>
         if principal_of r \<noteq> principal_id p then raiseA (unauthorized ''Reconciliation ownership does not match'')
         else if parent r \<noteq> operation_id \<or> digest r \<noteq> dig then raiseA (JobError ''CONFLICT'' ''Reconciliation ID binds another request'')
         else liftA (view r)
     | None \<Rightarrow> new_round W b par operation_id dig i p))"

lemma reconcile_alt:
  "reconcile W operation_id dig i p b = (if bk_read_only b then (Inl read_only_error, b) else
     onStore (transaction (w_faults W 0) (reconcile_body W b operation_id dig i p)) b)"
  unfolding reconcile_def reconcile_body_def ..

context broker_docs
begin

lemma keepsB_catalog: "keepsB Q c (catalog f r)"
proof -
  have prepared: "keepsB Q c (catalog_prepared r)" by (rule keepsB_I) (rule catalog_prepared_holds)
  have evidence: "keepsB Q c (\<lambda>b. case register_evidence (bk_registry b) x of Inl e \<Rightarrow> (Inl e, b) | Inr R \<Rightarrow> (Inr (), b\<lparr>bk_registry := R\<rparr>))" for x
    by (rule keepsB_I) (auto simp: holds_def split: sum.splits)
  show ?thesis
    unfolding catalog_def Let_def
    by (intro keepsB_bindB prepared keepsB_onStore keepsA_if keeps_transaction keeps_sealed keepsA_pure evidence)
qed

lemma keepsB_catalog_all: "keepsB Q c (catalog_all W k rows)"
proof (induction rows arbitrary: k)
  case Nil
  show ?case by (simp add: keepsB_def)
next
  case (Cons r rows)
  have both: "keepsB Q c (bindB (catalog (w_faults W k) r) (\<lambda>_. catalog_all W (Suc k) rows))"
    by (intro keepsB_bindB keepsB_catalog Cons)
  have "catalog_all W k (r # rows) =
      (if namespace r = lit ''job'' then bindB (catalog (w_faults W k) r) (\<lambda>_. catalog_all W (Suc k) rows) else catalog_all W (Suc k) rows)"
    by (rule ext) simp
  with keepsB_if [OF both Cons [of "Suc k"]] show ?case by (simp only:)
qed

lemma keepsB_restore: "keepsB Q c (restore_catalog W)"
  unfolding restore_catalog_def by (intro keepsB_bindB keepsB_onStore keeps_transaction keeps_all_rows keepsB_catalog_all)

lemma keepsB_submit_rest:
  assumes admit: "\<And>P al quota plan_v. config P = c \<Longrightarrow> keepsA QS (admit_row W P al quota p req plan_v)"
  shows "keepsB Q c (submit_rest U L W req p)"
proof -
  have resolve: "keepsB Q c (resolveB U L n m req p)" for n m by (rule keepsB_I) (rule resolveB_holds)
  have fresh: "keepsB Q c (\<lambda>b. bindB (onStore (admit_row W (bk_policy b) (bk_aliases b) (bk_quota_required b) p req plan_v)) (\<lambda>v b. (Inr (v, True), b)) b)" for plan_v
    by (rule keepsB_at) (intro keepsB_bindB keepsB_onStore admit keepsB_pure, simp add: holds_def)
  have old: "keepsB Q c (\<lambda>b. (case old of
       Some r \<Rightarrow> bindB (onStore (replay (w_now W 2) (bk_policy b) p (path_at req ''request_digest'') r)) (\<lambda>v b. (Inr (v, False), b))
     | None \<Rightarrow>
         bindB (onStore (fresh_checks W b p req)) (\<lambda>_.
         bindB (resolveB U L (w_now W 5) (w_ceil W 5) req p) (\<lambda>plan_v b.
         bindB (onStore (admit_row W (bk_policy b) (bk_aliases b) (bk_quota_required b) p req plan_v)) (\<lambda>v b. (Inr (v, True), b)) b))) b)" for old
    by (rule keepsB_at, rule keepsB_option) (intro keepsB_bindB keepsB_onStore keeps_replay keeps_fresh keepsB_pure resolve fresh)+
  have body: "keepsB Q c (submit_body U L W req p)"
    unfolding submit_body_def by (intro keepsB_bindB keepsB_onStore keeps_get old)
  show ?thesis
    unfolding submit_rest_def split_beta
    by (intro keepsB_bindB keepsB_in_transaction body keepsB_if keepsB_pure keepsB_onStore keeps_transaction keeps_get keepsB_option keepsB_catalog)
qed

lemma submit_keeps:
  assumes admit: "\<And>req P al quota plan_v. validate_submit U inp = Inr req \<Longrightarrow> config P = c \<Longrightarrow> keepsA QS (admit_row W P al quota p req plan_v)"
    and Q: "holds Q c b" and run: "submit U L W inp p b = (r, b')"
  shows "holds Q c b'"
proof (cases "bk_read_only b")
  case False
  have "keepsB Q c (case validate_submit U inp of Inl e \<Rightarrow> (\<lambda>b. (Inl e, b)) | Inr req \<Rightarrow> submit_rest U L W req p)"
    using keepsB_submit_rest [OF admit] by (cases "validate_submit U inp") auto
  then have "keepsB Q c (bindB (onStore (authorize_new (w_faults W 0) (w_now W 0) (w_now W 1) (bk_policy b) p ''lh:submit''))
       (\<lambda>_. case validate_submit U inp of Inl e \<Rightarrow> (\<lambda>b. (Inl e, b)) | Inr req \<Rightarrow> submit_rest U L W req p))"
    by (intro keepsB_bindB keepsB_onStore keeps_authorize_new)
  from keepsB_D [OF this Q] run False show ?thesis by (simp add: submit_alt)
qed (use Q run in \<open>simp add: submit_alt\<close>)

lemma reconcile_keeps:
  assumes round: "\<And>par. config (bk_policy b) = c \<Longrightarrow> keepsA QS (new_round W b par i dig rid p)"
    and Q: "holds Q c b" and run: "reconcile W i dig rid p b = (r, b')"
  shows "holds Q c b'"
proof (cases "bk_read_only b")
  case False
  have "keepsA QS (reconcile_body W b i dig rid p)"
    unfolding reconcile_body_def using Q by (intro keeps_rules keeps_get_owned keeps_get round) (simp add: holds_def)
  from onStore_keeps [where Q = Q, OF keeps_transaction [OF this] Q] run False show ?thesis by (simp add: reconcile_alt)
qed (use Q run in \<open>simp add: reconcile_alt\<close>)

text \<open>The operations that admit and revoke nothing.\<close>

lemma quiet_keeps:
  assumes Q: "holds Q c b"
  shows "onStore (status W P i p rid) b = (r, b') \<Longrightarrow> holds Q c b'"
    and "cancel W i dig t p b = (r, b') \<Longrightarrow> holds Q c b'"
    and "rate now p b = (u, b') \<Longrightarrow> holds Q c b'"
    and "restore_catalog W b = (u, b') \<Longrightarrow> holds Q c b'"
  unfolding cancel_def
  using onStore_keeps [where Q = Q, OF keeps_status Q] onStore_keeps [where Q = Q, OF keeps_transaction [OF keeps_cancel] Q]
    rate_holds [OF Q] keepsB_D [OF keepsB_restore Q] by auto

lemma revoke_keeps:
  assumes body: "keepsA QS (revoke_body W (bk_policy b) pid)" and Q: "holds Q c b" and run: "revoke W pid b = (r, b')"
  shows "holds Q c b'"
proof -
  have "keepsA QS (bindA (transaction (w_faults W 0) (revoke_body W (bk_policy b) pid)) (\<lambda>n. returnA (f n)))" for f :: "nat \<Rightarrow> json"
    by (intro keeps_rules keeps_transaction body)
  note step = onStore_keeps [where Q = Q, OF this Q]
  from run show ?thesis unfolding revoke_def by (rule step)
qed

end

section \<open>What rows, leases, counters and revocations keep, the broker keeps\<close>

lemma broker_step_keeps:
  assumes "broker_step b b'" and inv: "broker_rows Q" and Q: "holds Q c b"
  shows "holds Q c b'"
proof -
  have docs: "broker_docs Q" using inv by (rule broker_rows.axioms)
  from assms(1) show ?thesis
  proof cases
    case step_submit
    show ?thesis by (rule broker_docs.submit_keeps [OF docs _ Q step_submit]) (rule broker_rows.keeps_admit [OF inv])
  next
    case step_reconcile
    show ?thesis by (rule broker_docs.reconcile_keeps [OF docs _ Q step_reconcile]) (rule broker_rows.keeps_round [OF inv])
  next
    case step_revoke
    show ?thesis by (rule broker_docs.revoke_keeps [OF docs _ Q step_revoke]) (rule broker_rows.keeps_revoke [OF inv])
  next
    case step_status
    then show ?thesis by (rule broker_docs.quiet_keeps(1) [OF docs Q])
  next
    case step_cancel
    then show ?thesis by (rule broker_docs.quiet_keeps(2) [OF docs Q])
  next
    case step_rate
    then show ?thesis by (rule broker_docs.quiet_keeps(3) [OF docs Q])
  next
    case step_restore
    then show ?thesis by (rule broker_docs.quiet_keeps(4) [OF docs Q])
  qed
qed

lemma broker_steps_keep: "broker_step\<^sup>*\<^sup>* b b' \<Longrightarrow> broker_rows Q \<Longrightarrow> holds Q c b \<Longrightarrow> holds Q c b'"
  by (induction rule: rtranclp_induct) (auto intro: broker_step_keeps)

end
