(* ===== verification/Admission.thy ===== *)
theory Admission
  imports BrokerProps ContractProps
begin

text \<open>
  The admission contract of the broker.  An abstract register keeps, for every operation, the principal and
  the digest it was admitted with, and the principals whose admission is closed; every operation of the
  broker refines a step of it.  Then the consequences that callers rely on.
\<close>

section \<open>The abstract register\<close>

record register =
  bound :: "pystr \<times> pystr \<Rightarrow> (pystr \<times> pystr) option"
  closed :: "pystr set"

text \<open>An operation is bound once, for a principal whose admission is open; an admission closes for good.\<close>

inductive register_step :: "register \<Rightarrow> register \<Rightarrow> bool" where
  stay: "register_step a a"
| admit: "bound a k = None \<Longrightarrow> fst v \<notin> closed a \<Longrightarrow> register_step a (a\<lparr>bound := (bound a)(k \<mapsto> v)\<rparr>)"
| close: "register_step a (a\<lparr>closed := insert pid (closed a)\<rparr>)"

definition bound_of :: "db \<Rightarrow> pystr \<times> pystr \<Rightarrow> (pystr \<times> pystr) option" where
  "bound_of d k = map_option (\<lambda>r. (o_principal r, o_digest r)) (find_row d (fst k) (snd k))"

definition closed_of :: "db \<Rightarrow> pystr set" where
  "closed_of d = dom (map_of (revocations d))"

definition register_of :: "broker \<Rightarrow> register" where
  "register_of b = \<lparr>bound = bound_of (sdb (bk_store b)), closed = closed_of (sdb (bk_store b))\<rparr>"

definition within :: "((pystr \<times> pystr \<Rightarrow> (pystr \<times> pystr) option) \<times> pystr set) set \<Rightarrow> db \<Rightarrow> bool" where
  "within A d = ((bound_of d, closed_of d) \<in> A)"

lemma find_row_simps [simp]:
  "find_row (d\<lparr>leases := ls\<rparr>) = find_row d" "find_row (d\<lparr>revocations := rs\<rparr>) = find_row d" "find_row (d\<lparr>counters := cs\<rparr>) = find_row d"
  by (auto simp: find_row_def fun_eq_iff)

lemma bound_of_simps [simp]:
  "bound_of (add_event e d) = bound_of d" "bound_of (put_record ns i t d) = bound_of d" "bound_of (d\<lparr>leases := ls\<rparr>) = bound_of d"
  "bound_of (d\<lparr>revocations := rs\<rparr>) = bound_of d" "bound_of (d\<lparr>counters := cs\<rparr>) = bound_of d"
  by (auto simp: bound_of_def fun_eq_iff find_row_put_record option.map_comp comp_def intro!: option.map_cong)

lemma closed_of_simps [simp]:
  "closed_of (add_event e d) = closed_of d" "closed_of (put_record ns i t d) = closed_of d" "closed_of (d\<lparr>leases := ls\<rparr>) = closed_of d"
  "closed_of (d\<lparr>operations := ops\<rparr>) = closed_of d" "closed_of (d\<lparr>counters := cs\<rparr>) = closed_of d"
  "closed_of (d\<lparr>revocations := AList.update pid n (revocations d)\<rparr>) = insert pid (closed_of d)"
  by (auto simp: closed_of_def add_event_def put_record_def)

lemma bound_of_append:
  "find_row d (o_namespace r) (o_id r) = None \<Longrightarrow>
     bound_of (d\<lparr>operations := operations d @ [r]\<rparr>) = (bound_of d)((o_namespace r, o_id r) \<mapsto> (o_principal r, o_digest r))"
  by (auto simp: bound_of_def fun_eq_iff find_row_append split: option.split)

interpretation register: broker_docs "within A" for A
  by unfold_locales (simp_all add: within_def)

section \<open>A closed admission\<close>

lemma authorize_tx_closed:
  assumes "principal_id p \<in> closed_of (sdb s)" and "authorize_tx now P p scope req owner s = (r, s')"
  shows "\<exists>e. r = Inl e"
proof -
  have "\<exists>e. check_revoked p s = (Inl e, s)"
    using assms(1) by (auto simp: closed_of_def check_revoked_def raiseA_def dom_def)
  then show ?thesis
    using assms(2) by (cases "authorize now P p scope req owner") (auto simp: authorize_tx_def thenA_def bindA_def liftA_def dest: sym)
qed

lemma transaction_Inr: "transaction f body s = (Inr x, s') \<Longrightarrow> body s = (Inr x, s')"
  by (cases rule: transaction_cases [of f body s "Inr x" s']) auto

lemma authorize_new_closed:
  assumes closed: "principal_id p \<in> closed_of (sdb s)" and run: "authorize_new f now1 now2 P p scope s = (r, s')"
  shows "\<exists>e. r = Inl e"
proof (cases r)
  case (Inr u)
  with run obtain t where "transaction f (authorize_tx now2 P p scope None None) s = (Inr (), t)"
    by (auto simp: authorize_new_def act_simps)
  from authorize_tx_closed [OF closed transaction_Inr [OF this]] show ?thesis by simp
qed simp

lemma get_owned_closed:
  assumes closed: "principal_id p \<in> closed_of (sdb s)" and run: "get_owned now P ns i p scope s = (r, s')"
  shows "\<exists>e. r = Inl e"
proof (cases r)
  case (Inr x)
  note run' = run [unfolded Inr]
  from run' obtain fnd t where g: "get (lit ns) i s = (Inr fnd, t)" and rest: "(case fnd of
       None \<Rightarrow> raiseA (JobError ''NOT_FOUND'' ''No matching record in the healthy ledger'')
     | Some r \<Rightarrow> thenA (authorize_tx now P p scope None (Some (principal_of r)))
         (if principal_of r \<noteq> principal_id p then raiseA (unauthorized ''Operation ownership does not match'') else returnA r)) t = (Inr x, s')"
    unfolding get_owned_def bindA_Inr_iff by blast
  have "sdb t = sdb s" using g by (auto simp: get_def split: option.splits sum.splits)
  with closed have closed_t: "principal_id p \<in> closed_of (sdb t)" by simp
  show ?thesis
  proof (cases fnd)
    case None
    with rest show ?thesis by (simp add: raiseA_def)
  next
    case (Some r)
    with rest obtain t' where "authorize_tx now P p scope None (Some (principal_of r)) t = (Inr (), t')"
      by (auto simp only: thenA_Inr_iff option.case)
    from authorize_tx_closed [OF closed_t this] show ?thesis by simp
  qed
qed simp

lemma submit_closed:
  assumes closed: "principal_id p \<in> closed_of (sdb (bk_store b))" and run: "submit U L W inp p b = (r, b')"
  shows "(\<exists>e. r = Inl e) \<and> register_of b' = register_of b"
proof (cases "bk_read_only b")
  case False
  obtain x s where a: "authorize_new (w_faults W 0) (w_now W 0) (w_now W 1) (bk_policy b) p ''lh:submit'' (bk_store b) = (x, s)" by fastforce
  from authorize_new_closed [OF closed a] obtain e where "x = Inl e" by blast
  with run False a have "r = Inl e" "b' = b\<lparr>bk_store := s\<rparr>" by (simp_all add: submit_alt bindB_def onStore_def)
  moreover have "within {(bound_of (sdb (bk_store b)), closed_of (sdb (bk_store b)))} (sdb s)"
    by (rule keepsA_D [OF register.keeps_authorize_new _ a]) (simp add: within_def)
  ultimately show ?thesis by (simp add: register_of_def within_def)
qed (use run in \<open>auto simp: submit_alt\<close>)

lemma reconcile_closed:
  assumes closed: "principal_id p \<in> closed_of (sdb (bk_store b))" and run: "reconcile W i dig rid p b = (r, b')"
  shows "(\<exists>e. r = Inl e) \<and> register_of b' = register_of b"
proof (cases "bk_read_only b")
  case False
  let ?A = "{(bound_of (sdb (bk_store b)), closed_of (sdb (bk_store b)))}"
  obtain x s where g: "get_owned (w_now W 0) (bk_policy b) ''job'' i p ''lh:reconcile'' (bk_store b) = (x, s)" by fastforce
  from get_owned_closed [OF closed g] obtain e where e: "x = Inl e" by blast
  have body: "reconcile_body W b i dig rid p (bk_store b) = (Inl e, s)" using g e by (simp add: reconcile_body_def bindA_def)
  have "within ?A (sdb s)" by (rule keepsA_D [OF register.keeps_get_owned _ g]) (simp add: within_def)
  then have s: "bound_of (sdb s) = bound_of (sdb (bk_store b))" "closed_of (sdb s) = closed_of (sdb (bk_store b))" by (simp_all add: within_def)
  obtain y s' where t: "transaction (w_faults W 0) (reconcile_body W b i dig rid p) (bk_store b) = (y, s')" by fastforce
  with run False have b': "r = y" "b' = b\<lparr>bk_store := s'\<rparr>" by (simp_all add: reconcile_alt onStore_def)
  have "sdb s' = sdb (bk_store b) \<or> sdb s' = sdb s"
    using t
  proof (cases rule: transaction_cases)
    case (failed e')
    then show ?thesis by (simp only: body snd_conv)
  qed (use body in simp_all)
  then have "bound_of (sdb s') = bound_of (sdb (bk_store b)) \<and> closed_of (sdb s') = closed_of (sdb (bk_store b))" using s by metis
  moreover have "\<exists>e. y = Inl e" using transaction_Inr [of "w_faults W 0" "reconcile_body W b i dig rid p" "bk_store b"] t body by (cases y) auto
  ultimately show ?thesis using b' by (simp add: register_of_def)
qed (use run in \<open>auto simp: reconcile_alt\<close>)

section \<open>The refinement\<close>

text \<open>The register before an admission, or after it.\<close>

definition around :: "(pystr \<times> pystr \<Rightarrow> (pystr \<times> pystr) option) \<Rightarrow> pystr set \<Rightarrow> pystr \<times> pystr \<Rightarrow> pystr \<times> pystr \<Rightarrow>
    ((pystr \<times> pystr \<Rightarrow> (pystr \<times> pystr) option) \<times> pystr set) set" where
  "around B C k v = (if B k = None then {(B, C), (B(k \<mapsto> v), C)} else {(B, C)})"

lemma around_insert:
  "keepsA (\<lambda>s. within (around B C (ns, i) (prin, dig)) (sdb s)) (insert_row now1 now2 ns i par prin dig req pl bytes)"
proof (rule register.keeps_insert_at)
  fix d :: db and r :: op_row
  assume Q: "within (around B C (ns, i) (prin, dig)) d" and none: "find_row d ns i = None"
    and r: "o_namespace r = ns" "o_id r = i" "o_principal r = prin" "o_digest r = dig"
  from none have "bound_of d (ns, i) = None" by (simp add: bound_of_def)
  with Q have "bound_of d = B" "closed_of d = C" "B (ns, i) = None"
    by (auto simp: within_def around_def split: if_splits)
  with bound_of_append [of d r] none r show "within (around B C (ns, i) (prin, dig)) (d\<lparr>operations := operations d @ [r]\<rparr>)"
    by (simp add: within_def around_def)
qed

lemma around_step:
  assumes "holds (within (around (bound_of (sdb (bk_store b))) (closed_of (sdb (bk_store b))) k v)) c b'"
    and "fst v \<notin> closed_of (sdb (bk_store b))"
  shows "register_step (register_of b) (register_of b')"
proof -
  let ?B = "bound_of (sdb (bk_store b))" and ?C = "closed_of (sdb (bk_store b))"
  from assms(1) consider (same) "register_of b' = register_of b"
    | (new) "?B k = None" "register_of b' = (register_of b)\<lparr>bound := ?B(k \<mapsto> v)\<rparr>"
    by (auto simp: holds_def within_def around_def register_of_def split: if_splits)
  then show ?thesis
  proof cases
    case same
    then show ?thesis by (simp add: stay)
  next
    case new
    with assms(2) admit [of "register_of b" k v] show ?thesis by (simp add: register_of_def)
  qed
qed

lemma holds_here: "holds (within (around (bound_of (sdb (bk_store b))) (closed_of (sdb (bk_store b))) k v)) (config (bk_policy b)) b"
  by (simp add: holds_def within_def around_def)

lemma same_here: "holds (within {(bound_of (sdb (bk_store b)), closed_of (sdb (bk_store b)))}) (config (bk_policy b)) b"
  by (simp add: holds_def within_def)

lemma same_step:
  "holds (within {(bound_of (sdb (bk_store b)), closed_of (sdb (bk_store b)))}) c b' \<Longrightarrow> register_step (register_of b) (register_of b')"
  by (simp add: holds_def within_def register_of_def stay)

lemma submit_refines:
  assumes run: "submit U L W inp p b = (r, b')"
  shows "register_step (register_of b) (register_of b')"
proof (cases "principal_id p \<in> closed_of (sdb (bk_store b))")
  case True
  from submit_closed [OF this run] show ?thesis by (simp add: stay)
next
  case False
  define req where "req = (case validate_submit U inp of Inr q \<Rightarrow> q | Inl _ \<Rightarrow> JNull)"
  let ?k = "(lit ''job'', path_at req ''operation_id'')" and ?v = "(principal_id p, path_at req ''request_digest'')"
  have "holds (within (around (bound_of (sdb (bk_store b))) (closed_of (sdb (bk_store b))) ?k ?v)) (config (bk_policy b)) b'"
  proof (rule register.submit_keeps [OF _ holds_here run])
    fix q P al quota plan_v
    assume "validate_submit U inp = Inr q"
    then have q: "q = req" by (simp add: req_def)
    show "keepsA (\<lambda>s. within (around (bound_of (sdb (bk_store b))) (closed_of (sdb (bk_store b))) ?k ?v) (sdb s)) (admit_row W P al quota p q plan_v)"
      unfolding q by (rule register.keeps_admit_if) (rule around_insert)
  qed
  from around_step [OF this] False show ?thesis by simp
qed

lemma reconcile_refines:
  assumes run: "reconcile W i dig rid p b = (r, b')"
  shows "register_step (register_of b) (register_of b')"
proof (cases "principal_id p \<in> closed_of (sdb (bk_store b))")
  case True
  from reconcile_closed [OF this run] show ?thesis by (simp add: stay)
next
  case False
  let ?k = "(lit ''reconcile'', rid)" and ?v = "(principal_id p, dig)"
  have "holds (within (around (bound_of (sdb (bk_store b))) (closed_of (sdb (bk_store b))) ?k ?v)) (config (bk_policy b)) b'"
    by (rule register.reconcile_keeps [OF _ holds_here run], rule register.keeps_round_if, rule around_insert)
  from around_step [OF this] False show ?thesis by simp
qed

lemma revoke_refines:
  assumes run: "revoke W pid b = (r, b')"
  shows "register_step (register_of b) (register_of b')"
proof -
  let ?B = "bound_of (sdb (bk_store b))" and ?C = "closed_of (sdb (bk_store b))"
  let ?A = "{(?B, ?C), (?B, insert pid ?C)}"
  have "keepsA (\<lambda>s. within ?A (sdb s)) (revoke_body W P pid)" for P
    unfolding revoke_body_def Let_def
    by (intro keeps_rules register.keeps_modify register.keeps_update register.keeps_all_rows) (auto simp: within_def next_generation_def)
  then have "holds (within ?A) (config (bk_policy b)) b'"
    by (rule register.revoke_keeps [OF _ _ run]) (simp add: holds_def within_def)
  then have "register_of b' = register_of b \<or> register_of b' = (register_of b)\<lparr>closed := insert pid (closed (register_of b))\<rparr>"
    by (auto simp: holds_def within_def register_of_def)
  then show ?thesis by (metis stay close)
qed

text \<open>C1. Every public operation of the broker, whatever fails in it, refines one step of the abstract register: it leaves
  the register alone, or binds one operation that was not bound, to the digest of the request and to the principal
  that sent it, whose admission is open, or closes the admission of one principal.\<close>

theorem broker_refines: "broker_step b b' \<Longrightarrow> register_step (register_of b) (register_of b')"
proof (induction rule: broker_step.induct)
  case (step_submit U L W inp p b r b')
  then show ?case by (rule submit_refines)
next
  case (step_reconcile W i dig rid p b r b')
  then show ?case by (rule reconcile_refines)
next
  case (step_revoke W pid b r b')
  then show ?case by (rule revoke_refines)
next
  case (step_status W b i p rid r b')
  then show ?case by (rule same_step [OF register.quiet_keeps(1) [OF same_here]])
next
  case (step_cancel W i dig t p b r b')
  then show ?case by (rule same_step [OF register.quiet_keeps(2) [OF same_here]])
next
  case (step_rate now p b u b')
  then show ?case by (rule same_step [OF register.quiet_keeps(3) [OF same_here]])
next
  case (step_restore W b u b')
  then show ?case by (rule same_step [OF register.quiet_keeps(4) [OF same_here]])
qed

section \<open>A concrete broker\<close>

definition example_broker :: broker where
  "example_broker = \<lparr>bk_store = example_store, bk_policy = example_policy, bk_registry = registry_init, bk_rates = [],
     bk_aliases = [], bk_read_only = False, bk_quota_required = False, bk_private = False, bk_session = None\<rparr>"

definition example_world :: world where
  "example_world = \<lparr>w_faults = \<lambda>_. no_faults, w_now = \<lambda>_. 5, w_ceil = \<lambda>_. 6, w_stamp = \<lambda>_. example_now\<rparr>"

lemma example_revoke:
  "\<exists>v. revoke example_world (lit ''mallory'') example_broker = (Inr v, example_broker\<lparr>bk_store := example_store\<lparr>sdb := (sdb example_store)
     \<lparr>counters := [(lit ''generation'', 2)], revocations := [(lit ''mallory'', 2)]\<rparr>\<rparr>\<rparr>)"
  by (simp add: revoke_def onStore_def bindA_def transaction_def example_world_def no_faults_def example_broker_def example_store_def create_def
      revoke_body_def thenA_def modify_db_def next_generation_def generation_of_def rows_act_def all_rows_def returnA_def liftA_def elements_def)

theorem broker_refines_witness:
  "register_step (register_of example_broker) (register_of (snd (revoke example_world (lit ''mallory'') example_broker)))"
  by (rule broker_refines, rule step_revoke) (rule prod.collapse [symmetric])

section \<open>A revoked principal\<close>

interpretation closing: broker_rows "\<lambda>d. pid \<in> closed_of d" for pid
  by unfold_locales simp_all

lemma revoke_closes:
  assumes run: "revoke W pid b = (Inr v, b')"
  shows "pid \<in> closed_of (sdb (bk_store b'))"
proof -
  from run obtain n where t: "transaction (w_faults W 0) (revoke_body W (bk_policy b) pid) (bk_store b) = (Inr n, bk_store b')"
    unfolding revoke_def onStore_def by (auto simp: bindA_def returnA_def split: prod.splits sum.splits)
  have "tripleA (\<lambda>_. True) (revoke_body W (bk_policy b) pid) (\<lambda>_ s. pid \<in> closed_of (sdb s)) (\<lambda>_. True)"
    unfolding revoke_body_def Let_def
    by (rule tripleA_then [where R = "\<lambda>_. True"], simp add: tripleA_def split: sum.splits,
        rule tripleA_bind [where R = "\<lambda>_ _. True"], simp add: tripleA_def split: sum.splits,
        rule tripleA_then [where R = "\<lambda>s. pid \<in> closed_of (sdb s)"], simp add: tripleA_def modify_db_def split: sum.splits,
        rule tripleA_post [OF tripleA_keeps])
      (intro keeps_rules closing.keeps_update closing.keeps_all_rows, simp_all)
  from tripleA_Inr [OF this _ transaction_Inr [OF t]] show ?thesis by simp
qed

text \<open>C11. A revocation is final.  Once \<open>revoke\<close> returned, and after any further operations of the broker, a submission and a
  reconciliation by the revoked principal are refused, and admit nothing.\<close>

theorem revoked_stays_refused:
  assumes "revoke W pid b = (Inr v, b1)" and "broker_step\<^sup>*\<^sup>* b1 b2" and "principal_id p = pid"
  shows "(\<exists>e. fst (submit U L W1 inp p b2) = Inl e) \<and> register_of (snd (submit U L W1 inp p b2)) = register_of b2 \<and>
    (\<exists>e. fst (reconcile W2 i dig rid p b2) = Inl e) \<and> register_of (snd (reconcile W2 i dig rid p b2)) = register_of b2"
proof -
  have "holds (\<lambda>d. pid \<in> closed_of d) (config (bk_policy b1)) b1" using revoke_closes [OF assms(1)] by (simp add: holds_def)
  from broker_steps_keep [OF assms(2) closing.broker_rows_axioms this] assms(3)
  have closed: "principal_id p \<in> closed_of (sdb (bk_store b2))" by (simp add: holds_def)
  from submit_closed [OF closed prod.collapse [symmetric]] reconcile_closed [OF closed prod.collapse [symmetric]]
  show ?thesis by blast
qed

theorem revoked_stays_refused_witness:
  "\<exists>e. fst (submit ascii_udb no_lookups example_world (ObjIn JNull) \<lparr>principal_id = lit ''mallory'', scopes = [], p_expires_at = None\<rparr>
     (snd (revoke example_world (lit ''mallory'') example_broker))) = Inl e"
proof -
  obtain v where r: "revoke example_world (lit ''mallory'') example_broker = (Inr v, snd (revoke example_world (lit ''mallory'') example_broker))"
    using example_revoke by (metis snd_conv)
  from revoked_stays_refused [OF r rtranclp.rtrancl_refl, of "\<lparr>principal_id = lit ''mallory'', scopes = [], p_expires_at = None\<rparr>"]
  show ?thesis by simp
qed

section \<open>Repeated submissions\<close>

lemma transaction_clean:
  assumes "begin_error f = None" "commit_error f = None" "rollback_error f = False" "healthy s"
    and "body s = (r, s)" and "\<And>c. r \<noteq> Inl (SqliteError c)"
  shows "transaction f body s = (r, s)"
proof (cases r)
  case (Inl e)
  with assms(6) have "sqlite_code e = None" by (cases e) (auto simp: sqlite_code_def)
  with Inl assms(1-5) show ?thesis by (simp add: transaction_def)
next
  case (Inr x)
  with assms(1-5) show ?thesis by (simp add: transaction_def)
qed

text \<open>The world in which nothing fails.\<close>

definition calm :: "world \<Rightarrow> bool" where
  "calm W = (\<forall>k. begin_error (w_faults W k) = None \<and> commit_error (w_faults W k) = None \<and> \<not> rollback_error (w_faults W k))"

lemma calm_transaction:
  "calm W \<Longrightarrow> healthy s \<Longrightarrow> body s = (r, s) \<Longrightarrow> (\<And>c. r \<noteq> Inl (SqliteError c)) \<Longrightarrow> transaction (w_faults W k) body s = (r, s)"
  by (rule transaction_clean) (auto simp: calm_def)

lemma authorize_tx_open:
  "authorize now P p scope req owner = Inr () \<Longrightarrow> principal_id p \<notin> closed_of (sdb s) \<Longrightarrow> authorize_tx now P p scope req owner s = (Inr (), s)"
  by (simp add: authorize_tx_def thenA_def bindA_def liftA_def check_revoked_def returnA_def closed_of_def domIff)

text \<open>C27. A repeated submission is answered from the ledger.  When the operation is stored and its owner submits again, the answer
  is the view of the stored row if the digest is the stored one and \<open>CONFLICT\<close> if it is not; the broker is unchanged either way.\<close>

theorem submit_replays:
  assumes W: "calm W" and open_b: "\<not> bk_read_only b" "healthy (bk_store b)" "principal_id p \<notin> closed_of (sdb (bk_store b))"
    and submit_ok: "authorize (w_now W 0) (bk_policy b) p ''lh:submit'' None None = Inr ()" "authorize (w_now W 1) (bk_policy b) p ''lh:submit'' None None = Inr ()"
    and valid: "validate_submit U inp = Inr req"
    and stored: "get (lit ''job'') (path_at req ''operation_id'') (bk_store b) = (Inr (Some old), bk_store b)"
    and read_ok: "authorize (w_now W 2) (bk_policy b) p ''lh:read'' None (Some (principal_of old)) = Inr ()"
    and own: "principal_of old = principal_id p" and v: "view old = Inr v"
  shows "submit U L W inp p b = (if digest old = path_at req ''request_digest'' then Inr v
    else Inl (JobError ''CONFLICT'' ''The operation ID already binds different content''), b)"
proof -
  define answer where "answer = (if digest old = path_at req ''request_digest'' then Inr v
    else Inl (JobError ''CONFLICT'' ''The operation ID already binds different content''))"
  have sqlite: "answer \<noteq> Inl (SqliteError c)" for c by (simp add: answer_def)
  have first: "authorize_new (w_faults W 0) (w_now W 0) (w_now W 1) (bk_policy b) p ''lh:submit'' (bk_store b) = (Inr (), bk_store b)"
    using calm_transaction [where k = 0 and r = "Inr ()" and body = "authorize_tx (w_now W 1) (bk_policy b) p ''lh:submit'' None None", OF W open_b(2)]
      authorize_tx_open [OF submit_ok(2) open_b(3)] submit_ok(1)
    by (simp add: authorize_new_def thenA_def bindA_def liftA_def)
  have "replay (w_now W 2) (bk_policy b) p (path_at req ''request_digest'') old (bk_store b) = (answer, bk_store b)"
    using authorize_tx_open [OF read_ok open_b(3)] own v by (simp add: replay_def thenA_def bindA_def liftA_def raiseA_def answer_def)
  then have "submit_body U L W req p b = (case answer of Inl e \<Rightarrow> Inl e | Inr x \<Rightarrow> Inr (x, False), b)"
    using stored by (simp add: submit_body_def bindB_def onStore_def split: sum.splits)
  then have "submit_rest U L W req p b = (answer, b)"
    using calm_transaction [where k = 1 and r = "case answer of Inl e \<Rightarrow> Inl e | Inr x \<Rightarrow> Inr (x, False)"
        and body = "\<lambda>_. (case answer of Inl e \<Rightarrow> Inl e | Inr x \<Rightarrow> Inr (x, False), bk_store b)", OF W open_b(2)] sqlite
    by (simp add: submit_rest_def in_transaction_def bindB_def split: sum.splits)
  then show ?thesis using open_b(1) first valid by (simp add: submit_alt bindB_def onStore_def answer_def)
qed

section \<open>What a caller may see\<close>

lemma dget_drop_keys: "dget (drop_keys keys v) k = (if k \<in> set (map lit keys) then None else dget v k)"
  unfolding drop_keys_def by (induction keys arbitrary: v) auto

lemma drop_keys_dict [simp]: "is_dict (drop_keys keys v) = is_dict v"
  unfolding drop_keys_def by (induction keys arbitrary: v) auto

lemma dget_public_proof: "is_dict v \<Longrightarrow> k \<noteq> lit ''exit_proof'' \<Longrightarrow> dget (public_proof v) k = dget v k"
  by (auto simp: public_proof_def split: option.splits json.splits)

lemma public_proof_keys:
  assumes "fld (public_proof v) ''exit_proof'' = Some (JObj kvs)" and v: "is_dict v"
  shows "fst ` set kvs \<subseteq> lit ` set PROOF_KEYS"
proof (cases "fld v ''exit_proof''")
  case None
  with assms show ?thesis by (simp add: public_proof_def)
next
  case (Some x)
  show ?thesis
  proof (cases x)
    case (JObj ps)
    with Some assms show ?thesis by (auto simp: public_proof_def obj_def)
  qed (use Some assms in \<open>simp_all add: public_proof_def\<close>)
qed

text \<open>The record of a row as the view starts from it, and as it drops the internal fields.\<close>

definition view_base :: "row \<Rightarrow> json" where
  "view_base r = (let v1 = dupdate (rec r) [(lit ''operation_id'', JStr (parent r)), (lit ''request_digest'', JStr (digest r))] in
     if namespace r = lit ''reconcile'' then dset v1 (lit ''reconcile_id'') (JStr (identity r)) else v1)"

definition view_kept :: "row \<Rightarrow> bool \<Rightarrow> json" where
  "view_kept r withheld = drop_keys INTERNAL_KEYS (if withheld then dset (view_base r) (lit ''outputs'') (JObj []) else view_base r)"

lemma view_cases:
  assumes "view r = Inr v"
  obtains withheld refs where "is_dict (rec r)" "v = public_proof (dset (dpop (view_kept r withheld) (lit ''seals'')) (lit ''seal_refs'') refs)"
    "withheld \<or> fld (view_base r) ''evidence'' = Some (jlit ''SEALED'') \<and> fld (view_base r) ''outcome'' = Some (jlit ''SUCCEEDED'')"
proof -
  from assms obtain e w refs where e: "fld (view_base r) ''evidence'' = Some e"
    and w: "(if e \<noteq> jlit ''SEALED'' then Inr True else bindE (sub (view_base r) ''outcome'') (\<lambda>out. Inr (out \<noteq> jlit ''SUCCEEDED''))) = Inr w"
    and v: "v = public_proof (dset (dpop (view_kept r w) (lit ''seals'')) (lit ''seal_refs'') refs)"
    unfolding view_def Let_def view_base_def view_kept_def bindE_Inr_iff sub_Inr_iff sum.inject by blast
  have "is_dict (rec r)" using e by (auto simp: view_base_def Let_def dget_not_dict split: if_splits dest: dget_not_dict intro: ccontr)
  moreover have "w \<or> e = jlit ''SEALED'' \<and> fld (view_base r) ''outcome'' = Some (jlit ''SUCCEEDED'')"
    using w by (auto simp: res_simps split: if_splits)
  ultimately show thesis using that v e by blast
qed

lemma view_base_dict [simp]: "is_dict (view_base r) = is_dict (rec r)"
  by (simp add: view_base_def Let_def)

lemma view_base_get:
  "is_dict (rec r) \<Longrightarrow> dget (view_base r) k =
     (if k = lit ''reconcile_id'' \<and> namespace r = lit ''reconcile'' then Some (JStr (identity r))
      else if k = lit ''request_digest'' then Some (JStr (digest r)) else if k = lit ''operation_id'' then Some (JStr (parent r)) else dget (rec r) k)"
  by (simp add: view_base_def Let_def)

lemma view_kept_get:
  "is_dict (rec r) \<Longrightarrow> dget (view_kept r w) k = (if k \<in> set (map lit INTERNAL_KEYS) then None
     else if w \<and> k = lit ''outputs'' then Some (JObj []) else dget (view_base r) k)"
  by (simp add: view_kept_def dget_drop_keys)

lemma view_kept_dict [simp]: "is_dict (view_kept r w) = is_dict (rec r)"
  by (simp add: view_kept_def)

text \<open>C28. What a caller sees of an operation has none of the internal fields, shows outputs only of a sealed success, names the
  operation and its request, and reduces the exit proof to the public fields.\<close>

theorem view_hides:
  assumes "view r = Inr v"
  shows "(\<forall>k \<in> set INTERNAL_KEYS. fld v k = None) \<and> fld v ''seals'' = None \<and>
    (fld v ''outputs'' = Some (JObj []) \<or> fld (rec r) ''evidence'' = Some (jlit ''SEALED'') \<and> fld (rec r) ''outcome'' = Some (jlit ''SUCCEEDED'')) \<and>
    fld v ''operation_id'' = Some (JStr (parent r)) \<and> fld v ''request_digest'' = Some (JStr (digest r)) \<and>
    (\<forall>kvs. fld v ''exit_proof'' = Some (JObj kvs) \<longrightarrow> fst ` set kvs \<subseteq> lit ` set PROOF_KEYS)"
proof -
  from assms obtain w refs where r: "is_dict (rec r)"
    and v: "v = public_proof (dset (dpop (view_kept r w) (lit ''seals'')) (lit ''seal_refs'') refs)"
    and w: "w \<or> fld (view_base r) ''evidence'' = Some (jlit ''SEALED'') \<and> fld (view_base r) ''outcome'' = Some (jlit ''SUCCEEDED'')"
    by (rule view_cases)
  have get: "dget v k = (if k = lit ''seal_refs'' then Some refs else if k = lit ''seals'' then None else dget (view_kept r w) k)"
    if "k \<noteq> lit ''exit_proof''" for k
    using that r by (simp add: v dget_public_proof)
  have names: "''exit_proof'' \<notin> set INTERNAL_KEYS" "''seal_refs'' \<notin> set INTERNAL_KEYS" "''outputs'' \<notin> set INTERNAL_KEYS"
      "''operation_id'' \<notin> set INTERNAL_KEYS" "''request_digest'' \<notin> set INTERNAL_KEYS"
    by (simp_all add: INTERNAL_KEYS_def)
  have "fld v k = None" if "k \<in> set INTERNAL_KEYS" for k
  proof -
    from that names(1,2) have "k \<noteq> ''exit_proof''" "k \<noteq> ''seal_refs''" by metis+
    with that r show ?thesis by (simp add: get view_kept_get)
  qed
  moreover have "fld v ''outputs'' = Some (JObj []) \<or> fld (rec r) ''evidence'' = Some (jlit ''SEALED'') \<and> fld (rec r) ''outcome'' = Some (jlit ''SUCCEEDED'')"
    using w r names(3) by (auto simp: get view_kept_get view_base_get image_iff)
  moreover have "fst ` set kvs \<subseteq> lit ` set PROOF_KEYS" if "fld v ''exit_proof'' = Some (JObj kvs)" for kvs
    by (rule public_proof_keys [OF that [unfolded v]]) (simp add: r)
  ultimately show ?thesis
    using r names(4,5) by (simp add: get view_kept_get view_base_get image_iff)
qed

lemma view_total:
  assumes "is_dict (rec r)" and e: "fld (rec r) ''evidence'' = Some e" "e \<noteq> jlit ''SEALED''" and s: "fld (rec r) ''seals'' = None"
  shows "\<exists>v. view r = Inr v"
proof -
  have "fld (view_base r) ''evidence'' = Some e" using assms by (simp add: view_base_get)
  moreover have "seal_refs (view_kept r True) = Inr (JList [])"
  proof -
    have "fld (view_kept r True) ''seals'' = None" using assms(1) s by (simp add: view_kept_get view_base_get)
    then show ?thesis by (simp add: seal_refs_def get_or_def elements_def)
  qed
  ultimately have "sub (view_base r) ''evidence'' = Inr e" by (simp add: sub_Inr_iff)
  with e(2) \<open>seal_refs (view_kept r True) = Inr (JList [])\<close> show ?thesis
    unfolding view_def Let_def view_base_def [unfolded Let_def, symmetric]
    by (simp add: view_kept_def [of r True, simplified, symmetric])
qed

subsection \<open>A stored operation\<close>

lemma get_stored:
  assumes "find_row (sdb s) ns i = Some r" and "o_request_json r = dumps req" "o_plan_json r = dumps pl" "o_record_json r = dumps rc"
    and "storable req" "is_dict req" "storable pl" "is_dict pl" "storable rc" "is_dict rc"
  shows "get ns i s = (Inr (Some \<lparr>namespace = o_namespace r, identity = o_id r, parent = o_parent r, principal_of = o_principal r,
     digest = o_digest r, reserved_bytes = o_reserved_bytes r, request = sort_keys req, plan = sort_keys pl, rec = sort_keys rc\<rparr>), s)"
  using assms by (simp add: get_def decode_row_def decode_doc_dumps)

definition example_id :: pystr where
  "example_id = lit ''0a1b2c3d-0000-4000-8000-00000000000f''"

definition example_digest :: pystr where
  "example_digest = sha256_hex (canonical_bytes (obj example_body))"

definition example_job :: op_row where
  "example_job = \<lparr>o_namespace = lit ''job'', o_id = example_id, o_parent = example_id, o_principal = lit ''alice'', o_digest = example_digest,
     o_request_json = dumps (JObj []), o_plan_json = dumps (JObj []), o_reserved_bytes = 1, o_record_json = dumps (initial_record example_now)\<rparr>"

definition example_job_row :: row where
  "example_job_row = \<lparr>namespace = lit ''job'', identity = example_id, parent = example_id, principal_of = lit ''alice'', digest = example_digest,
     reserved_bytes = 1, request = JObj [], plan = JObj [], rec = sort_keys (initial_record example_now)\<rparr>"

definition example_busy :: broker where
  "example_busy = example_broker\<lparr>bk_store := example_store\<lparr>sdb := (sdb example_store)\<lparr>operations := [example_job],
     leases := [(lit ''disk'', (example_id, 1))]\<rparr>\<rparr>\<rparr>"

lemma example_busy_get: "get (lit ''job'') example_id (bk_store example_busy) = (Inr (Some example_job_row), bk_store example_busy)"
proof -
  have "find_row (sdb (bk_store example_busy)) (lit ''job'') example_id = Some example_job"
    by (simp add: example_busy_def find_row_def example_job_def example_broker_def)
  from get_stored [OF this, of "JObj []" "JObj []" "initial_record example_now"] show ?thesis
    by (simp add: example_job_def example_job_row_def storable_empty storable_initial_record storable_example_now)
qed

lemma example_record_get: "dget (rec example_job_row) (lit k) = map_option sort_keys (fld (initial_record example_now) k)"
  using storable_wf [OF storable_initial_record [OF storable_example_now]] by (simp add: example_job_row_def dget_sort_keys)

lemma example_busy_simps [simp]: "bk_read_only example_busy = False" "healthy (bk_store example_busy)" "closed_of (sdb (bk_store example_busy)) = {}"
    "bk_policy example_busy = example_policy"
  by (simp_all add: example_busy_def example_broker_def example_store_def create_def closed_of_def)

lemma example_view: "\<exists>v. view example_job_row = Inr v"
  by (rule view_total [where e = "jlit ''STAGING''"])
    (simp_all add: example_record_get initial_record_def, simp add: example_job_row_def initial_record_def)

lemma example_authorized:
  assumes "scope \<in> {''lh:submit'', ''lh:read'', ''lh:cancel''}" and "owner \<in> {None, Some (lit ''alice'')}"
  shows "authorize 5 example_policy \<lparr>principal_id = lit ''alice'', scopes = [lit ''lh:submit'', lit ''lh:read'', lit ''lh:cancel''], p_expires_at = Some 1000\<rparr>
    scope None owner = Inr ()"
proof -
  have grant: "dget (principals_of example_policy) (lit ''alice'') =
      Some (obj [(''scopes'', JList [jlit ''lh:submit'', jlit ''lh:read'', jlit ''lh:cancel'']), (''profiles'', obj [(''pa'', example_access)])])"
    by (simp add: example_policy_def example_config_def) (simp add: example_grants_def)
  show ?thesis
    using assms unfolding authorize_def principal.simps grant by (auto simp: require_current_def listed_def elements_def)
qed

lemma example_calm: "calm example_world"
  by (simp add: calm_def example_world_def no_faults_def)

lemma example_request: "path_at (sort_keys example_submission) ''operation_id'' = example_id"
    "path_at (sort_keys example_submission) ''request_digest'' = example_digest"
  using example_wf by (simp_all add: path_at_def dget_sort_keys example_submission_def example_id_def example_digest_def)
    (simp_all add: example_body_def)

theorem view_hides_witness: "\<exists>v. view example_job_row = Inr v \<and> fld v ''handles'' = None \<and> fld v ''outputs'' = Some (JObj [])"
proof -
  obtain v where v: "view example_job_row = Inr v" using example_view by blast
  from view_hides [OF v] have "fld v ''handles'' = None" by (simp add: INTERNAL_KEYS_def)
  moreover have "fld (rec example_job_row) ''evidence'' = Some (jlit ''STAGING'')" by (simp add: example_record_get initial_record_def)
  ultimately show ?thesis using v view_hides [OF v] by auto
qed

theorem submit_replays_witness:
  "\<exists>v. submit ascii_udb no_lookups example_world (ObjIn example_submission)
     \<lparr>principal_id = lit ''alice'', scopes = [lit ''lh:submit'', lit ''lh:read'', lit ''lh:cancel''], p_expires_at = Some 1000\<rparr> example_busy = (Inr v, example_busy)"
proof -
  let ?p = "\<lparr>principal_id = lit ''alice'', scopes = [lit ''lh:submit'', lit ''lh:read'', lit ''lh:cancel''], p_expires_at = Some 1000\<rparr>"
  obtain v where v: "view example_job_row = Inr v" using example_view by blast
  have now: "w_now example_world k = 5" for k by (simp add: example_world_def)
  have own: "principal_of example_job_row = lit ''alice''" "digest example_job_row = example_digest" by (simp_all add: example_job_row_def)
  have "submit ascii_udb no_lookups example_world (ObjIn example_submission) ?p example_busy = (Inr v, example_busy)"
    using submit_replays [where b = example_busy and W = example_world and p = ?p and old = example_job_row and v = v and L = no_lookups, OF example_calm _ _ _ _ _ example_validates]
    by (simp add: example_request example_busy_get v own now example_authorized)
  then show ?thesis by blast
qed

end
