(* ===== verification/Retention.thy ===== *)
theory Retention
  imports Admission
begin

text \<open>
  The retained-bytes bound of the broker: \<open>_capacity\<close> is checked in the transaction that inserts the row, so the
  reservations of all operations together never leave the admitted budget.
\<close>

section \<open>The size of the ledger\<close>

definition reserved_total :: "db \<Rightarrow> int" where
  "reserved_total d = sum_list (map o_reserved_bytes (operations d))"

definition row_keys :: "db \<Rightarrow> (pystr \<times> pystr) list" where
  "row_keys d = map (\<lambda>r. (o_namespace r, o_id r)) (operations d)"

definition sized :: "pystr \<Rightarrow> pystr \<Rightarrow> (bool \<times> bool \<times> int) set \<Rightarrow> db \<Rightarrow> bool" where
  "sized ns i A d = (distinct (row_keys d) \<and> (find_row d ns i = None, operations d = [], reserved_total d) \<in> A)"

lemma size_simps [simp]:
  "reserved_total (add_event e d) = reserved_total d" "reserved_total (put_record ns i t d) = reserved_total d"
  "row_keys (add_event e d) = row_keys d" "row_keys (put_record ns i t d) = row_keys d"
  "operations (add_event e d) = operations d" "operations (put_record ns i t d) = [] \<longleftrightarrow> operations d = []"
  "reserved_total (d\<lparr>leases := ls\<rparr>) = reserved_total d" "row_keys (d\<lparr>leases := ls\<rparr>) = row_keys d"
  "reserved_total (d\<lparr>counters := cs\<rparr>) = reserved_total d" "row_keys (d\<lparr>counters := cs\<rparr>) = row_keys d"
  "reserved_total (d\<lparr>revocations := rs\<rparr>) = reserved_total d" "row_keys (d\<lparr>revocations := rs\<rparr>) = row_keys d"
  by (simp_all add: reserved_total_def row_keys_def add_event_def put_record_def if_distrib comp_def cong: if_cong)

lemma find_row_put_None [simp]: "find_row (put_record ns i t d) ns' i' = None \<longleftrightarrow> find_row d ns' i' = None"
  by (simp add: find_row_put_record)

interpretation sizes: broker_docs "sized ns i A" for ns i A
  by unfold_locales (simp_all add: sized_def)

section \<open>What \<open>_capacity\<close> counts\<close>

lemma find_row_distinct: "distinct (row_keys d) \<Longrightarrow> r \<in> set (operations d) \<Longrightarrow> find_row d (o_namespace r) (o_id r) = Some r"
proof -
  have "distinct (map (\<lambda>r. (o_namespace r, o_id r)) xs) \<Longrightarrow> r \<in> set xs \<Longrightarrow>
      find (\<lambda>r'. o_namespace r' = o_namespace r \<and> o_id r' = o_id r) xs = Some r" for xs
    by (induction xs) auto
  then show "distinct (row_keys d) \<Longrightarrow> r \<in> set (operations d) \<Longrightarrow> ?thesis" by (simp add: row_keys_def find_row_def)
qed

lemma decode_row_reserved: "decode_row r = Inr v \<Longrightarrow> reserved_bytes v = o_reserved_bytes r"
  by (auto simp: decode_row_def res_simps)

lemma mapA_get_Inr:
  assumes "mapA (\<lambda>r. get (o_namespace r) (o_id r)) xs s = (Inr ys, t)"
    and "\<And>r. r \<in> set xs \<Longrightarrow> find_row (sdb s) (o_namespace r) (o_id r) = Some r"
  shows "t = s \<and> map reserved_bytes (concat (map (\<lambda>x. case x of None \<Rightarrow> [] | Some r \<Rightarrow> [r]) ys)) = map o_reserved_bytes xs"
  using assms
proof (induction xs arbitrary: ys)
  case Nil
  then show ?case by (simp add: returnA_def)
next
  case (Cons r xs)
  from Cons.prems(1) obtain y zs s1 where g: "get (o_namespace r) (o_id r) s = (Inr y, s1)"
    and rest: "mapA (\<lambda>r. get (o_namespace r) (o_id r)) xs s1 = (Inr zs, t)" and ys: "ys = y # zs"
    by (auto simp: act_simps)
  from g Cons.prems(2) [of r] obtain v where "s1 = s" "y = Some v" "reserved_bytes v = o_reserved_bytes r"
    by (auto simp: get_def split: sum.splits dest: decode_row_reserved)
  with Cons.IH [of zs] rest Cons.prems(2) ys show ?case by simp
qed

lemma rows_act_Inr:
  assumes "rows_act s = (Inr rows, t)" and "distinct (row_keys (sdb s))"
  shows "t = s \<and> sum_list (map reserved_bytes rows) = reserved_total (sdb s)"
proof -
  from assms(1) obtain ys where "mapA (\<lambda>r. get (o_namespace r) (o_id r)) (operations (sdb s)) s = (Inr ys, t)"
    and rows: "rows = concat (map (\<lambda>x. case x of None \<Rightarrow> [] | Some r \<Rightarrow> [r]) ys)"
    by (auto simp: rows_act_def all_rows_def act_simps)
  from mapA_get_Inr [OF this(1) find_row_distinct [OF assms(2)]] show ?thesis by (simp add: rows reserved_total_def)
qed

lemma capacity_Inr:
  assumes "capacity P reserved s = (Inr u, t)" and "distinct (row_keys (sdb s))"
  shows "t = s \<and> reserved_total (sdb s) + reserved + limit_of P ''ledger_emergency_bytes'' \<le> limit_of P ''retained_bytes''"
proof -
  from assms(1) obtain rows s1 where rows: "rows_act s = (Inr rows, s1)"
    and rest: "t = s1" "\<not> sum_list (map reserved_bytes rows) + reserved + limit_of P ''ledger_emergency_bytes'' > limit_of P ''retained_bytes''"
    unfolding capacity_def bindA_Inr_iff liftA_iff if_raiseA_iff returnA_iff by blast
  from rows_act_Inr [OF rows assms(2)] rest show ?thesis by simp
qed

section \<open>The bound\<close>

definition fits :: "json \<Rightarrow> db \<Rightarrow> bool" where
  "fits c d = (distinct (row_keys d) \<and> (operations d \<noteq> [] \<longrightarrow>
     reserved_total d + int_of (fld (at c ''limits'') ''ledger_emergency_bytes'') \<le> int_of (fld (at c ''limits'') ''retained_bytes'')))"

definition room :: "json \<Rightarrow> int \<Rightarrow> (bool \<times> bool \<times> int) set" where
  "room c bytes = {(x, e, n). n + bytes + int_of (fld (at c ''limits'') ''ledger_emergency_bytes'') \<le> int_of (fld (at c ''limits'') ''retained_bytes'') \<and>
     (e \<or> n + int_of (fld (at c ''limits'') ''ledger_emergency_bytes'') \<le> int_of (fld (at c ''limits'') ''retained_bytes''))}"

lemma fits_sized: "fits c d = sized ns i {(x, e, n). e \<or> n + int_of (fld (at c ''limits'') ''ledger_emergency_bytes'') \<le> int_of (fld (at c ''limits'') ''retained_bytes'')} d"
  by (auto simp: fits_def sized_def)

lemma fits_eq: "fits c = sized ns i {(x, e, n). e \<or> n + int_of (fld (at c ''limits'') ''ledger_emergency_bytes'') \<le> int_of (fld (at c ''limits'') ''retained_bytes'')}"
  by (rule ext) (rule fits_sized)

interpretation fitting: broker_docs "fits c" for c
  unfolding fits_eq [of c "[]" "[]"] by (rule sizes.broker_docs_axioms)

lemma room_fits: "sized ns i (room c bytes) d \<Longrightarrow> fits c d"
  by (auto simp: sized_def room_def fits_def)

lemma insert_fits:
  "tripleA (\<lambda>s. sized ns i (room c bytes) (sdb s)) (insert_row now1 now2 ns i par prin dig req pl bytes) (\<lambda>_ s. fits c (sdb s)) (\<lambda>s. fits c (sdb s))"
proof -
  have "fits c (sdb s')" if Q: "sized ns i (room c bytes) (sdb s)" and run: "insert_row now1 now2 ns i par prin dig req pl bytes s = (r, s')" for s r s'
  proof -
    define e n where "e = (operations (sdb s) = [])" and "n = reserved_total (sdb s)"
    let ?A = "{(True, e, n), (False, e, n), (False, False, n + bytes)}"
    have "keepsA (\<lambda>s. sized ns i ?A (sdb s)) (insert_row now1 now2 ns i par prin dig req pl bytes)"
    proof (rule sizes.keeps_insert_at)
      fix d :: db and r :: op_row
      assume "sized ns i ?A d" "find_row d ns i = None" "o_namespace r = ns" "o_id r = i" "o_reserved_bytes r = bytes"
      then show "sized ns i ?A (d\<lparr>operations := operations d @ [r]\<rparr>)"
        by (auto simp: sized_def find_row_append reserved_total_def row_keys_def find_row_def find_None_iff)
    qed
    moreover have "sized ns i ?A (sdb s)" using Q by (auto simp: sized_def e_def n_def)
    ultimately have "sized ns i ?A (sdb s')" using run by (rule keepsA_D)
    with Q show ?thesis by (auto simp: sized_def room_def fits_def e_def n_def)
  qed
  then show ?thesis by (intro tripleA_I)
qed

lemma capacity_room:
  "tripleA (\<lambda>s. fits (config P) (sdb s)) (capacity P bytes) (\<lambda>_ s. sized ns i (room (config P) bytes) (sdb s)) (\<lambda>s. fits (config P) (sdb s))"
proof (rule tripleA_I)
  fix s u t
  assume fits: "fits (config P) (sdb s)" and run: "capacity P bytes s = (Inr u, t)"
  have "distinct (row_keys (sdb s))" using fits by (simp add: fits_def)
  with capacity_Inr [OF run this] fits show "sized ns i (room (config P) bytes) (sdb t)" by (auto simp: sized_def room_def fits_def)
next
  fix s e t
  assume "fits (config P) (sdb s)" and "capacity P bytes s = (Inl e, t)"
  then show "fits (config P) (sdb t)" by (rule keepsA_D [OF fitting.keeps_capacity])
qed

lemma keepsA_triple: "tripleA P m (\<lambda>_. P) P \<Longrightarrow> keepsA P m"
  by (rule keepsA_I) (auto simp: tripleA_def split: sum.splits)

text \<open>The order of the code: the capacity first, then the leases, then the row.\<close>

lemma reserve_keeps:
  assumes rest: "\<And>x. keepsA (\<lambda>s. fits (config P) (sdb s)) (f x)"
  shows "keepsA (\<lambda>s. fits (config P) (sdb s)) (thenA (capacity P bytes) (thenA (acquire al owner epoch resources)
     (bindA (insert_row now1 now2 ns i par prin dig req pl bytes) f)))"
proof (rule keepsA_triple, rule tripleA_then [OF capacity_room], rule tripleA_then)
  show "tripleA (\<lambda>s. sized ns i (room (config P) bytes) (sdb s)) (acquire al owner epoch resources)
      (\<lambda>_ s. sized ns i (room (config P) bytes) (sdb s)) (\<lambda>s. fits (config P) (sdb s))"
    by (rule tripleA_post [OF tripleA_keeps [OF sizes.keeps_acquire]]) (auto intro: room_fits)
  show "tripleA (\<lambda>s. sized ns i (room (config P) bytes) (sdb s)) (bindA (insert_row now1 now2 ns i par prin dig req pl bytes) f)
      (\<lambda>_ s. fits (config P) (sdb s)) (\<lambda>s. fits (config P) (sdb s))"
    by (rule tripleA_bind [OF insert_fits]) (rule tripleA_keeps [OF rest])
qed

lemma admit_fits: "config P = c \<Longrightarrow> keepsA (\<lambda>s. fits c (sdb s)) (admit_row W P al quota p req plan_v)"
  unfolding admit_row_def Let_def
  by (drule sym, simp only:, rule reserve_keeps) (intro keeps_rules fitting.keeps_update fitting.keeps_view)

lemma round_fits: "keepsA (\<lambda>s. fits (config (bk_policy b)) (sdb s)) (new_round W b par operation_id dig i p)"
  unfolding new_round_def Let_def
  by (intro keeps_rules fitting.keeps_all_rows reserve_keeps fitting.keeps_update fitting.keeps_view)

lemma revoke_fits: "keepsA (\<lambda>s. fits c (sdb s)) (revoke_body W P pid)"
  unfolding revoke_body_def Let_def
  by (intro keeps_rules fitting.keeps_modify fitting.keeps_update fitting.keeps_all_rows) (auto simp: fits_def next_generation_def)

lemma step_fits: "broker_step b b' \<Longrightarrow> holds (fits c) c b \<Longrightarrow> holds (fits c) c b'"
proof (induction rule: broker_step.induct)
  case (step_submit U L W inp p b r b')
  show ?case by (rule fitting.submit_keeps [OF admit_fits step_submit(2,1)])
next
  case (step_reconcile W i dig rid p b r b')
  show ?case by (rule fitting.reconcile_keeps [OF _ step_reconcile(2,1)]) (use round_fits in blast)
next
  case (step_revoke W pid b r b')
  show ?case by (rule fitting.revoke_keeps [OF revoke_fits step_revoke(2,1)])
next
  case (step_status W b i p rid r b')
  show ?case by (rule fitting.quiet_keeps(1) [OF step_status(2,1)])
next
  case (step_cancel W i dig t p b r b')
  show ?case by (rule fitting.quiet_keeps(2) [OF step_cancel(2,1)])
next
  case (step_rate now p b u b')
  show ?case by (rule fitting.quiet_keeps(3) [OF step_rate(2,1)])
next
  case (step_restore W b u b')
  show ?case by (rule fitting.quiet_keeps(4) [OF step_restore(2,1)])
qed

lemma steps_fit: "broker_step\<^sup>*\<^sup>* b b' \<Longrightarrow> holds (fits c) c b \<Longrightarrow> holds (fits c) c b'"
  by (induction rule: rtranclp_induct) (auto intro: step_fits)

text \<open>C15. The retained bytes are bounded.  From an empty ledger, or one within its bounds, whatever operations the broker runs and
  whatever fails in them, the reservations of all stored operations together with the emergency bytes of the ledger
  stay within the retained bytes of the policy, and no two rows share a key.\<close>

theorem retained_bounded:
  assumes start: "distinct (map (\<lambda>r. (o_namespace r, o_id r)) (operations (sdb (bk_store b0))))"
      "operations (sdb (bk_store b0)) = [] \<or> sum_list (map o_reserved_bytes (operations (sdb (bk_store b0)))) +
         limit_of (bk_policy b0) ''ledger_emergency_bytes'' \<le> limit_of (bk_policy b0) ''retained_bytes''"
    and steps: "broker_step\<^sup>*\<^sup>* b0 b"
  shows "distinct (map (\<lambda>r. (o_namespace r, o_id r)) (operations (sdb (bk_store b)))) \<and>
    (operations (sdb (bk_store b)) = [] \<or> sum_list (map o_reserved_bytes (operations (sdb (bk_store b)))) +
       limit_of (bk_policy b) ''ledger_emergency_bytes'' \<le> limit_of (bk_policy b) ''retained_bytes'')"
proof -
  have "holds (fits (config (bk_policy b0))) (config (bk_policy b0)) b0"
    using start by (auto simp: holds_def fits_def row_keys_def reserved_total_def)
  from steps_fit [OF steps this] show ?thesis by (auto simp: holds_def fits_def row_keys_def reserved_total_def)
qed

theorem retained_bounded_witness:
  "operations (sdb (bk_store (snd (revoke example_world (lit ''alice'') example_busy)))) = [] \<or>
   sum_list (map o_reserved_bytes (operations (sdb (bk_store (snd (revoke example_world (lit ''alice'') example_busy)))))) +
     limit_of (bk_policy (snd (revoke example_world (lit ''alice'') example_busy))) ''ledger_emergency_bytes'' \<le>
     limit_of (bk_policy (snd (revoke example_world (lit ''alice'') example_busy))) ''retained_bytes''"
proof -
  let ?b = "snd (revoke example_world (lit ''alice'') example_busy)"
  have "broker_step\<^sup>*\<^sup>* example_busy ?b" by (rule r_into_rtranclp, rule step_revoke) (rule prod.collapse [symmetric])
  moreover have rows: "operations (sdb (bk_store example_busy)) = [example_job]" by (simp add: example_busy_def example_broker_def)
  moreover have "o_reserved_bytes example_job = 1" by (simp add: example_job_def)
  moreover have "limit_of example_policy ''ledger_emergency_bytes'' = 1" "limit_of example_policy ''retained_bytes'' = 100"
    by (simp_all add: example_policy_def example_config_def example_limits_def)
  ultimately show ?thesis using retained_bounded [of example_busy ?b] by simp
qed

end
