(* ===== verification/CancelProps.thy ===== *)
theory CancelProps
  imports Admission
begin

text \<open>
  Cancellation of an operation that has not started: on a sound ledger it always takes effect, ends the
  operation and frees exactly its leases.
\<close>

lemma transaction_commits:
  assumes "calm W" and "healthy s" and "body s = (Inr x, t)"
  shows "transaction (w_faults W k) body s = (Inr x, t)"
  using assms by (simp add: transaction_def calm_def)

lemma get_owned_open:
  assumes "get (lit ns) i s = (Inr (Some r), s)" and "authorize now P p scope None (Some (principal_of r)) = Inr ()"
    and "principal_id p \<notin> closed_of (sdb s)" and "principal_of r = principal_id p"
  shows "get_owned now P ns i p scope s = (Inr r, s)"
  using assms(1,4) authorize_tx_open [OF assms(2,3)] by (simp add: get_owned_def bindA_def thenA_def returnA_def)

text \<open>A row admitted without a quota, and with no round of observation, is released on a complete proof.\<close>

lemma release_row_plain:
  assumes version: "admission_version r s = (Inr JNull, s)" and job: "namespace r = lit ''job''"
    and rounds: "\<forall>o' \<in> set (operations (sdb s)). \<not> (o_namespace o' = lit ''reconcile'' \<and> o_parent o' = parent r)"
  shows "release_row r stop_proof s = (Inr (), s\<lparr>sdb := drop_leases (parent r) (sdb s)\<rparr>)"
proof -
  have "quota_released r s = (Inr True, s)" using version by (simp add: quota_released_def bindA_def returnA_def)
  moreover have "round_ids (parent r) s = (Inr [], s)" using rounds by (auto simp: round_ids_def filter_empty_conv)
  moreover have "parent_settled r s = (Inr True, s)" using job by (simp add: parent_settled_def returnA_def)
  ultimately show ?thesis
    by (simp add: release_row_def bindA_def returnA_def release_def stop_proof_def modify_db_def)
qed

lemma storable_cancelled: "storable (JObj cancelled_before_start)" "distinct (map fst cancelled_before_start)"
  by (simp_all add: cancelled_before_start_def storable_JObj stop_proof_def obj_def)

lemma cancelled_record:
  fixes seq :: nat
  assumes "is_dict old" "storable now" "storable old"
  defines "rec2 \<equiv> sort_keys (updated_record now seq old cancelled_before_start)"
  shows "is_dict rec2" "fld rec2 ''lifecycle'' = Some (jlit ''TERMINAL'')" "fld rec2 ''outcome'' = Some (jlit ''CANCELLED'')"
    "fld rec2 ''phase'' = Some (jlit ''CANCELLED_BEFORE_START'')" "fld rec2 ''evidence'' = map_option sort_keys (fld old ''evidence'')"
    "fld rec2 ''seals'' = map_option sort_keys (fld old ''seals'')"
proof -
  have "storable (updated_record now seq old cancelled_before_start)"
    using assms(2,3) storable_cancelled(1) by (auto simp: updated_record_def storable_JObj intro!: storable_dset storable_dupdate)
  note get = dget_sort_keys [OF storable_wf [OF this]]
  show "is_dict rec2" using assms(1) by (simp add: rec2_def updated_record_def)
  show "fld rec2 ''lifecycle'' = Some (jlit ''TERMINAL'')" "fld rec2 ''outcome'' = Some (jlit ''CANCELLED'')"
    "fld rec2 ''phase'' = Some (jlit ''CANCELLED_BEFORE_START'')" "fld rec2 ''evidence'' = map_option sort_keys (fld old ''evidence'')"
    "fld rec2 ''seals'' = map_option sort_keys (fld old ''seals'')"
    using assms(1) unfolding rec2_def get by (simp_all add: updated_record_def cancelled_before_start_def)
qed

lemma put_record_leases [simp]: "leases (put_record ns i t d) = leases d" "leases (add_event e d) = leases d"
  by (simp_all add: put_record_def add_event_def)

lemma db_ok_leases [simp]: "db_ok (drop_leases own d) = db_ok d" "find_row (drop_leases own d) = find_row d" "events (drop_leases own d) = events d"
  by (simp_all add: db_ok_def drop_leases_def)



end
