(* ===== verification/QuotaGrant.thy ===== *)
theory QuotaGrant
  imports QuotaContract Bootstrap
begin

text \<open>
  The protected declarations of \<open>tools/local_hand_jobs/quota_grant.py\<close>: the quota grant of a phase, the
  capacity declaration and the permanent accounting of all grants against it; and the bounded receipt
  transport of \<open>quota_binding.py\<close>.  A \<open>Grant\<close> is its canonical wire bytes.
\<close>

section \<open>Constants\<close>

definition GRANT_LIMIT :: nat where "GRANT_LIMIT = 32768"
definition MAX_GRANTS :: nat where "MAX_GRANTS = 32"
definition CELL_BYTES :: int where "CELL_BYTES = 131072"
definition BASE_BYTES :: int where "BASE_BYTES = 131072"
definition BASE_INODES :: int where "BASE_INODES = 4"
definition STAGES :: "string list" where "STAGES = [''admission'', ''query'', ''collector'']"

definition STAGE_KEYS :: "string list" where
  "STAGE_KEYS = [''cpu_ns'', ''memory_bytes'', ''pids'', ''output_bytes'', ''runtime_ns'']"

definition MANAGEMENT_KEYS :: "string list" where
  "MANAGEMENT_KEYS = [''id'', ''capacity_digest'', ''issued_ns'', ''receive_ns'', ''stop_ns'', ''storage_bytes'', ''storage_inodes'', ''stages'']"

definition DECLARATION_KEYS :: "string list" where
  "DECLARATION_KEYS = [''schema'', ''request'', ''allocation'', ''budget'', ''endpoint'', ''query_parent'', ''management_parent'', ''roots'',
     ''management'', ''predecessors'']"

definition grant_digest_of :: "json \<Rightarrow> pystr res" where
  "grant_digest_of v = bindE (quota_canonical v GRANT_LIMIT) (\<lambda>wire. Inr (sha256_hex wire))"

definition rounded :: "int \<Rightarrow> int" where
  "rounded v = (v + 4095) div 4096 * 4096"

text \<open>\<open>integer(value, low)\<close>, with the result discarded.\<close>

definition int_from :: "json \<Rightarrow> int \<Rightarrow> unit res" where
  "int_from v low = bindE (integer v low MAX_INTEGER) (\<lambda>_. Inr ())"

definition hex_match :: "json \<Rightarrow> nat \<Rightarrow> unit res" where
  "hex_match v n = bindE (match_str v (hexes n)) (\<lambda>_. Inr ())"

section \<open>Grants\<close>

definition root_paths :: "json \<Rightarrow> json res" where
  "root_paths allocation =
     bindE (sub allocation ''roots'') (\<lambda>roots.
     bindE (sub allocation ''retained_paths'') (\<lambda>retained.
       Inr (case retained of JList (x # _) \<Rightarrow> dset roots (lit ''retained_store'') x | _ \<Rightarrow> roots)))"

definition grant_request :: "bytes \<Rightarrow> bytes res" where
  "grant_request wire = bindE (as_dict wire) (\<lambda>v.
     bindE (quota_canonical (dset (field v ''request'') (lit ''observation_grant_digest'') (JStr (sha256_hex wire))) REQUEST_LIMIT) decode_request)"

definition original_error :: "exn \<Rightarrow> bool" where
  \<comment> \<open>\<open>except (JobError, KeyError, TypeError, ValueError)\<close>\<close>
  "original_error e = (case e of JobError _ _ \<Rightarrow> True | BudgetExhausted _ \<Rightarrow> True | LedgerBusy _ _ \<Rightarrow> True
     | PyError c \<Rightarrow> c \<in> {''KeyError'', ''TypeError'', ''ValueError''} | _ \<Rightarrow> False)"

definition as_original :: "'a res \<Rightarrow> 'a res" where
  "as_original r = (case r of Inl e \<Rightarrow> if original_error e then Inl (QuotaError ''ORIGINAL_GRANT'') else r | _ \<Rightarrow> r)"

text \<open>The allocation and the phase budget of a declaration, and the last instant its work may use.\<close>

definition check_originals :: "json \<Rightarrow> json \<Rightarrow> int res" where
  "check_originals v req = as_original
     (let allocation = field v ''allocation''; phase = field v ''budget'';
          x = no_expect\<lparr>x_execution_id := Some (str_of (fld req ''execution_id'')), x_phase := Some (str_of (fld req ''phase''))\<rparr> in
      thenE (validate_bootstrap x allocation)
     (thenE (validate_grant (x\<lparr>x_namespace := Some (str_of (fld allocation ''namespace'')), x_record_id := Some (str_of (fld allocation ''record_id'')),
          x_operation_id := Some (str_of (fld allocation ''operation_id''))\<rparr>) phase)
     (bindE (phase_deadline_ns phase) (\<lambda>deadline.
        Inr (deadline - int_of (fld (field phase ''limits'') ''terminate_grace_seconds'') * NANOSECONDS)))))"

text \<open>One root against its directory and its limit; the quota domains are collected.\<close>

definition grant_root_step :: "json \<Rightarrow> json \<Rightarrow> json \<Rightarrow> ((pystr \<times> int) \<times> int) list \<Rightarrow> json \<Rightarrow> ((pystr \<times> int) \<times> int) list res" where
  "grant_root_step allocation limits paths doms root =
     bindE (key_or_raise (dget paths (str_of (fld root ''role'')))) (\<lambda>path.
     bindE (key_or_raise (dget (field allocation ''paths'') (str_of (Some path)))) (\<lambda>ident.
     thenE (require (\<forall>key \<in> {''device'', ''inode'', ''uid''}. jeq (field ident key) (field root key)) ''ROOT_BINDING'')
     (thenE (require (int_of (fld root ''hard_bytes'') \<le>
          int_of (fld limits (if fld root ''role'' = Some (jlit ''temporary'') then ''temporary_bytes'' else ''reservation_bytes''))) ''ROOT_BUDGET'')
       (Inr (AList.update (str_of (fld root ''filesystem_uuid''), int_of (fld root ''project_id'')) (int_of (fld root ''hard_bytes'')) doms)))))"

definition json_elements :: "json \<Rightarrow> json list" where
  "json_elements v = (case v of JList xs \<Rightarrow> xs | _ \<Rightarrow> [])"

definition check_grant_roots :: "json \<Rightarrow> json \<Rightarrow> unit res" where
  "check_grant_roots v phase_name =
     (let allocation = field v ''allocation''; limits = field (field v ''budget'') ''limits'' in
      bindE (validate_expected_roots (field v ''roots'') phase_name) (\<lambda>roots.
      bindE (root_paths allocation) (\<lambda>paths.
      thenE (require (set (map (\<lambda>root. str_of (fld root ''role'')) (json_elements roots)) = set (jkeys paths)) ''ROOT_BINDING'')
     (thenE (forE (jvalues paths) (\<lambda>path. bindE (canonical_path path) (\<lambda>_. Inr ())))
     (bindE (foldE (grant_root_step allocation limits paths) [] (json_elements roots)) (\<lambda>doms.
        require (sum_list (map snd doms) \<le> int_of (fld limits ''reservation_bytes'')) ''ROOT_BUDGET''))))))"

definition check_endpoint :: "json \<Rightarrow> json \<Rightarrow> unit res" where
  "check_endpoint endpoint boot_id =
     thenE (keys_are endpoint [''path'', ''uid'', ''gid'', ''boot_id''])
     (bindE (canonical_path (field endpoint ''path'')) (\<lambda>path.
      thenE (require (length path \<le> 107) ''ENDPOINT_LENGTH'')
     (bindE (integer (field endpoint ''uid'') 0 (2 ^ 32 - 2)) (\<lambda>_.
      bindE (integer (field endpoint ''gid'') 0 (2 ^ 32 - 2)) (\<lambda>_.
        require (jeq (field endpoint ''boot_id'') boot_id) ''BOOT_BINDING'')))))"

definition check_parent :: "json \<Rightarrow> unit res" where
  "check_parent par =
     thenE (keys_are par [''path'', ''device'', ''inode''])
     (bindE (canonical_path (field par ''path'')) (\<lambda>_.
      thenE (int_from (field par ''device'') 0) (int_from (field par ''inode'') 1)))"

definition stage_sum :: "json \<Rightarrow> (json \<Rightarrow> int) \<Rightarrow> int" where
  "stage_sum management f = sum_list (map f (jvalues (field management ''stages'')))"

definition check_management :: "json \<Rightarrow> int \<Rightarrow> int \<Rightarrow> unit res" where
  "check_management management reserved_ns deadline_ns =
     thenE (keys_are management MANAGEMENT_KEYS)
     (thenE (hex_match (field management ''id'') 32)
     (thenE (hex_match (field management ''capacity_digest'') 64)
     (bindE (integer (field management ''issued_ns'') reserved_ns MAX_INTEGER) (\<lambda>issued.
      thenE (forE [''receive_ns'', ''stop_ns'', ''storage_bytes'', ''storage_inodes''] (\<lambda>key. int_from (field management key) 1))
     (thenE (keys_are (field management ''stages'') STAGES)
     (thenE (forE (jvalues (field management ''stages'')) (\<lambda>item. thenE (keys_are item STAGE_KEYS) (forE STAGE_KEYS (\<lambda>key. int_from (field item key) 1))))
     (thenE (require (issued + stage_sum management (\<lambda>item. int_of (fld item ''runtime_ns'')) + int_of (fld management ''receive_ns'') +
          int_of (fld management ''stop_ns'') \<le> deadline_ns) ''MANAGEMENT_DEADLINE'')
     (thenE (require (int_of (fld (field (field management ''stages'') ''collector'') ''output_bytes'') \<ge> int RESPONSE_LIMIT) ''RECEIPT_BUDGET'')
      (require (int_of (fld management ''storage_bytes'') \<ge> CELL_BYTES + stage_sum management (\<lambda>item. rounded (int_of (fld item ''output_bytes'')) + 8192) \<and>
          int_of (fld management ''storage_inodes'') \<ge> 7) ''MANAGEMENT_STORAGE'')))))))))"

definition check_predecessors :: "json \<Rightarrow> json \<Rightarrow> unit res" where
  "check_predecessors predecessors req =
     thenE (require (is_list predecessors \<and> length (json_elements predecessors) < MAX_GRANTS) ''PREDECESSORS'')
     (thenE (forE (json_elements predecessors) (\<lambda>previous. hex_match previous 32))
     (thenE (require (distinct (json_elements predecessors) \<and> field req ''request_id'' \<notin> set (json_elements predecessors)) ''PREDECESSORS'')
      (require (field req ''phase'' \<in> {jlit ''business'', jlit ''evidence''} \<longrightarrow> json_elements predecessors \<noteq> []) ''PREDECESSORS'')))"

definition decode_grant :: "bytes \<Rightarrow> bytes res" where
  "decode_grant raw =
     bindE (quota_load raw GRANT_LIMIT 10) (\<lambda>v.
     thenE (keys_are v DECLARATION_KEYS)
     (thenE (require (field v ''schema'' = jlit ''local-hand-quota-grant/v1'') ''GRANT_SCHEMA'')
     (thenE (require (is_dict (field v ''request'') \<and> fld (field v ''request'') ''observation_grant_digest'' = None) ''GRANT_REQUEST'')
     (bindE (quota_canonical (dset (field v ''request'') (lit ''observation_grant_digest'') zero_digest) REQUEST_LIMIT) (\<lambda>wire.
      bindE (decode_request wire) (\<lambda>checked.
      bindE (as_dict checked) (\<lambda>req.
      bindE (check_originals v req) (\<lambda>last_ns.
      let phase = field v ''budget''; allocation = field v ''allocation'' in
      thenE (require (jeq (field req ''boot_id'') (field phase ''boot_id'') \<and> jeq (field req ''allocation_digest'') (field allocation ''allocation_id'') \<and>
          jeq (field req ''slot_ref'') (field allocation ''slot_id'') \<and> int_of (fld req ''deadline_ns'') \<le> last_ns) ''ORIGINAL_BINDING'')
     (thenE (check_grant_roots v (field req ''phase''))
     (thenE (check_endpoint (field v ''endpoint'') (field req ''boot_id''))
     (thenE (forE [''query_parent'', ''management_parent''] (\<lambda>k. check_parent (field v k)))
     (thenE (check_management (field v ''management'') (int_of (fld phase ''reserved_boottime_ns'')) (int_of (fld req ''deadline_ns'')))
     (thenE (check_predecessors (field v ''predecessors'') req)
        (quota_canonical v GRANT_LIMIT))))))))))))))"

section \<open>Accounting\<close>

definition ACCOUNT_KEYS :: "string list" where
  "ACCOUNT_KEYS = [''storage_bytes'', ''storage_inodes'', ''cpu_ns'', ''memory_bytes'', ''pids'', ''output_bytes'']"

definition totals :: "bytes \<Rightarrow> (string \<times> int) list res" where
  "totals wire = bindE (as_dict wire) (\<lambda>v. let management = field v ''management'' in
     bindE (mapE (\<lambda>key. bindE (integer (JInt (stage_sum management (\<lambda>stage. int_of (fld stage key)))) 0 MAX_INTEGER) (\<lambda>n. Inr (key, n)))
       [''cpu_ns'', ''memory_bytes'', ''pids'', ''output_bytes'']) (\<lambda>shared.
       Inr ((''storage_bytes'', int_of (fld management ''storage_bytes'')) # (''storage_inodes'', int_of (fld management ''storage_inodes'')) # shared)))"

definition check_management_runtime :: "json \<Rightarrow> unit res" where
  "check_management_runtime management =
     bindE (integer (field management ''stop_ns'') 1 MAX_INTEGER) (\<lambda>stop.
     thenE (require (stop \<ge> 1000) ''MANAGEMENT_STOP_GRANULARITY'')
      (forE STAGES (\<lambda>name. bindE (integer (field (field (field management ''stages'') name) ''runtime_ns'') 1 MAX_INTEGER) (\<lambda>runtime.
         require (runtime - stop \<ge> 1000) ''MANAGEMENT_STAGE_RUNTIME''))))"

definition CAPACITY_KEYS :: "string list" where
  "CAPACITY_KEYS = [''schema'', ''boot_id'', ''epoch'', ''authority_digest'', ''domains'', ''ceiling_bytes'', ''ceiling_inodes'',
     ''retained_bytes'', ''retained_inodes'', ''management'']"

definition domain_key :: "json \<Rightarrow> pystr \<times> int" where
  "domain_key d = (str_of (fld d ''filesystem_uuid''), int_of (fld d ''project_id''))"

definition domain_step :: "(pystr \<times> int) list \<Rightarrow> json \<Rightarrow> (pystr \<times> int) list res" where
  "domain_step seen d =
     thenE (keys_are d [''filesystem_uuid'', ''project_id'', ''hard_bytes'', ''hard_inodes''])
     (bindE (match_str (field d ''filesystem_uuid'') UUID_PATTERN) (\<lambda>_.
      bindE (integer (field d ''project_id'') 1 (2 ^ 32 - 1)) (\<lambda>_.
      bindE (integer (field d ''hard_bytes'') 1 MAX_INTEGER) (\<lambda>hard.
      thenE (require (hard mod 1024 = 0) ''HARD_LIMIT'')
     (thenE (int_from (field d ''hard_inodes'') 1)
     (thenE (require (domain_key d \<notin> set seen) ''DUPLICATE_DOMAIN'') (Inr (domain_key d # seen))))))))"

definition capacity_used :: "json \<Rightarrow> string \<Rightarrow> int \<Rightarrow> int" where
  "capacity_used v kind extra = sum_list (map (\<lambda>d. int_of (fld d (''hard_'' @ kind))) (json_elements (field v ''domains''))) +
     int_of (fld v (''retained_'' @ kind)) + int_of (fld (field v ''management'') (''storage_'' @ kind)) + extra"

definition decode_capacity :: "bytes \<Rightarrow> json res" where
  "decode_capacity raw =
     bindE (quota_load raw GRANT_LIMIT 6) (\<lambda>v.
     thenE (keys_are v CAPACITY_KEYS)
     (thenE (require (field v ''schema'' = jlit ''local-hand-quota-capacity/v1'') ''CAPACITY_SCHEMA'')
     (bindE (match_str (field v ''boot_id'') UUID_PATTERN) (\<lambda>_.
      thenE (hex_match (field v ''epoch'') 32)
     (thenE (hex_match (field v ''authority_digest'') 64)
     (thenE (forE [''ceiling_bytes'', ''ceiling_inodes'', ''retained_bytes'', ''retained_inodes''] (\<lambda>key. int_from (field v key) 0))
     (thenE (keys_are (field v ''management'') ACCOUNT_KEYS)
     (thenE (forE (jvalues (field v ''management'')) (\<lambda>limit. int_from limit 1))
     (thenE (require (is_list (field v ''domains'') \<and> 0 < length (json_elements (field v ''domains'')) \<and>
          length (json_elements (field v ''domains'')) \<le> MAX_GRANTS * 4) ''DOMAIN_COUNT'')
     (bindE (foldE domain_step [] (json_elements (field v ''domains''))) (\<lambda>_.
      thenE (forE [(''bytes'', BASE_BYTES), (''inodes'', BASE_INODES)] (\<lambda>(kind, extra).
        bindE (integer (JInt (capacity_used v kind extra)) 0 MAX_INTEGER) (\<lambda>used. require (used \<le> int_of (fld v (''ceiling_'' @ kind))) ''GLOBAL_CAPACITY'')))
        (Inr v))))))))))))"

text \<open>The state of the accounting loop: what is used of each kind, and the management identities seen.\<close>

type_synonym account = "(string \<times> int) list \<times> json list"

definition charge :: "json \<Rightarrow> (string \<times> int) list \<Rightarrow> string \<times> int \<Rightarrow> (string \<times> int) list res" where
  "charge capacity used entry = (case entry of (key, amount) \<Rightarrow>
     let total_v = (case map_of used key of None \<Rightarrow> 0 | Some n \<Rightarrow> n) + amount in
     thenE (require (total_v \<le> int_of (fld (field capacity ''management'') key)) ''MANAGEMENT_EXHAUSTED'')
       (Inr (AList.update key total_v used)))"

definition account_step :: "json \<Rightarrow> pystr \<Rightarrow> account \<Rightarrow> bytes \<Rightarrow> account res" where
  "account_step capacity capacity_digest acc original_wire = (case acc of (used, ids) \<Rightarrow>
     bindE (decode_grant original_wire) (\<lambda>wire.
     bindE (as_dict wire) (\<lambda>v.
     bindE (grant_request wire) (\<lambda>request_wire.
     bindE (as_dict request_wire) (\<lambda>req.
     thenE (require ((\<forall>key \<in> {''boot_id'', ''epoch'', ''authority_digest''}. jeq (field req key) (field capacity key)) \<and>
        field (field v ''management'') ''capacity_digest'' = JStr capacity_digest) ''CAPACITY_BINDING'')
     (thenE (require (field (field v ''management'') ''id'' \<notin> set ids) ''MANAGEMENT_REUSE'')
     (thenE (forE (json_elements (field v ''roots'')) (\<lambda>root. require
        (map_of (map (\<lambda>d. (domain_key d, int_of (fld d ''hard_bytes''))) (json_elements (field capacity ''domains''))) (domain_key root) =
           Some (int_of (fld root ''hard_bytes''))) ''DOMAIN_BUDGET''))
     (bindE (totals wire) (\<lambda>amounts.
      bindE (foldE (charge capacity) used amounts) (\<lambda>used'.
        Inr (used', field (field v ''management'') ''id'' # ids)))))))))))"

definition check_capacity :: "json \<Rightarrow> bytes list \<Rightarrow> (string \<times> int) list res" where
  "check_capacity capacity_in grants =
     bindE (quota_canonical capacity_in GRANT_LIMIT) (\<lambda>raw.
     bindE (decode_capacity raw) (\<lambda>capacity.
     thenE (require (length grants \<le> MAX_GRANTS) ''GRANT_COUNT'')
     (bindE (grant_digest_of capacity) (\<lambda>capacity_digest.
      bindE (foldE (account_step capacity capacity_digest) (map (\<lambda>key. (key, 0)) ACCOUNT_KEYS, []) grants) (\<lambda>(used, ids).
        Inr used)))))"

definition check_execution :: "bytes \<Rightarrow> json \<Rightarrow> json \<Rightarrow> json \<Rightarrow> bytes res" where
  "check_execution grant_wire execution allocation now_ns =
     bindE (decode_grant grant_wire) (\<lambda>wire.
     bindE (as_dict wire) (\<lambda>v.
     bindE (grant_request wire) (\<lambda>request_wire.
     bindE (as_dict request_wire) (\<lambda>req.
     bindE (if jeq (field execution ''execution_id'') (field req ''execution_id'') \<and> jeq (field execution ''phase'') (field req ''phase'')
        then bindE (sub allocation ''operation_id'') (\<lambda>op. Inr (jeq (field execution ''operation_id'') op)) else Inr False) (\<lambda>named.
     thenE (require (named \<and> jeq allocation (field v ''allocation'') \<and> jeq (field execution ''budget_grant'') (field v ''budget'') \<and>
         field execution ''quota_grant_digest'' = JStr (sha256_hex wire) \<and> jeq (field execution ''budgets'') (field (field v ''budget'') ''limits'')) ''BOOTSTRAP_BINDING'')
     (bindE (integer (field execution ''phase_deadline_boottime_ns'') 1 MAX_INTEGER) (\<lambda>limit.
      thenE (require (int_of (fld req ''deadline_ns'') \<le> limit) ''DEADLINE'')
     (bindE (integer now_ns 0 MAX_INTEGER) (\<lambda>now.
      thenE (require (int_of (fld (field v ''management'') ''issued_ns'') \<le> now \<and> now < int_of (fld req ''deadline_ns'')) ''DEADLINE'')
        (Inr wire))))))))))"

end
