(* ===== verification/QuotaBinding.thy ===== *)
theory QuotaBinding
  imports QuotaGrant Broker
begin

text \<open>
  The broker side of the quota receipts, \<open>tools/local_hand_jobs/quota_binding.py\<close>: the execution document
  a grant stands for, the observation that is accepted for it, the bounded pipe a receipt arrives through,
  and the selection of the grant a phase may consume from the immutable events of its row.
  \<open>original\<close> and \<open>admission_version\<close> of that module are in \<open>Broker\<close>, which calls them.
\<close>

section \<open>Observations\<close>

definition execution :: "bytes \<Rightarrow> json res" where
  "execution wire =
     bindE (as_dict wire) (\<lambda>data.
     let req = field data ''request''; phase = field data ''budget''; limits = field phase ''limits'' in
     bindE (phase_deadline_ns phase) (\<lambda>deadline. Inr (JObj
       [(lit ''execution_id'', field req ''execution_id''), (lit ''phase'', field req ''phase''),
        (lit ''operation_id'', field (field data ''allocation'') ''operation_id''), (lit ''budget_grant'', phase),
        (lit ''budgets'', limits), (lit ''quota_grant_digest'', JStr (sha256_hex wire)),
        (lit ''phase_deadline_boottime_ns'', JInt (deadline - int_of (fld limits ''terminate_grace_seconds'') * NANOSECONDS))])))"

definition OBSERVATION_KEYS :: "string list" where
  "OBSERVATION_KEYS = [''schema'', ''grant_digest'', ''request_digest'', ''receipt_digest'', ''domain_hard_bytes'', ''receipt'']"

definition validate_observation :: "json \<Rightarrow> bytes \<Rightarrow> int \<Rightarrow> json res" where
  "validate_observation v grant_wire now_ns =
     thenE (keys_are v OBSERVATION_KEYS)
     (bindE (quota_canonical (field v ''receipt'') RESPONSE_LIMIT) (\<lambda>raw.
      bindE (grant_request grant_wire) (\<lambda>request_wire.
      bindE (as_dict grant_wire) (\<lambda>data.
      bindE (decode_receipt raw request_wire (field data ''roots'') now_ns) (\<lambda>(wire, domain_hard_bytes).
      bindE (as_dict wire) (\<lambda>receipt.
      thenE (require (field v ''schema'' = jlit ''local-hand-bootstrap-quota/v1'' \<and> field v ''grant_digest'' = JStr (sha256_hex grant_wire) \<and>
          field v ''request_digest'' = JStr (quota_digest request_wire) \<and> field v ''receipt_digest'' = JStr (sha256_hex wire) \<and>
          field v ''domain_hard_bytes'' = JInt domain_hard_bytes \<and> field receipt ''status'' = jlit ''OBSERVED'' \<and>
          field (field receipt ''query'') ''cgroup'' =
            JStr (str_of (fld (field data ''query_parent'') ''path'') @ [47] @ query_unit request_wire)) ''BOOTSTRAP_OBSERVATION'')
     (bindE (execution grant_wire) (\<lambda>doc.
      bindE (check_execution grant_wire doc (field data ''allocation'') (JInt now_ns)) (\<lambda>_.
      bindE (quota_canonical v RESPONSE_LIMIT) (\<lambda>wire'. quota_load wire' RESPONSE_LIMIT 8))))))))))"

section \<open>The pipe\<close>

text \<open>\<open>struct.pack("!I", n)\<close> and \<open>struct.unpack\<close>: four bytes, most significant first.\<close>

definition pack_u32 :: "nat \<Rightarrow> bytes res" where
  "pack_u32 n = (if n < 2 ^ 32 then Inr (map (\<lambda>i. n div 256 ^ i mod 256) [3, 2, 1, 0]) else Inl (PyError ''struct.error''))"

fun unpack_u32 :: "bytes \<Rightarrow> nat" where
  "unpack_u32 [a, b, c, d] = a * 256 ^ 3 + b * 256 ^ 2 + c * 256 + d"
| "unpack_u32 _ = 0"

definition frame :: "json \<Rightarrow> bytes res" where
  "frame v = bindE (quota_canonical v RESPONSE_LIMIT) (\<lambda>raw. bindE (pack_u32 (length raw)) (\<lambda>head. Inr (head @ raw)))"

record pipe =
  pipe_raw :: bytes
  pipe_eof :: bool
  pipe_error :: bool

definition new_pipe :: pipe where
  "new_pipe = \<lparr>pipe_raw = [], pipe_eof = False, pipe_error = False\<rparr>"

definition feed :: "pipe \<Rightarrow> bytes \<Rightarrow> pipe" where
  "feed p data =
     (if pipe_eof p \<or> length (pipe_raw p) + length data > RESPONSE_LIMIT + 4 then p\<lparr>pipe_error := True\<rparr>
      else p\<lparr>pipe_eof := data = [], pipe_raw := pipe_raw p @ data\<rparr>)"

definition finish :: "pipe \<Rightarrow> bytes \<Rightarrow> int \<Rightarrow> json res" where
  "finish p grant_wire now_ns =
     thenE (require (pipe_eof p \<and> \<not> pipe_error p \<and> 4 \<le> length (pipe_raw p)) ''RECEIPT_EOF'')
     (let size = unpack_u32 (take 4 (pipe_raw p)) in
      thenE (require (0 < size \<and> size \<le> RESPONSE_LIMIT \<and> length (pipe_raw p) = size + 4) ''RECEIPT_FRAME'')
     (bindE (quota_load (drop 4 (pipe_raw p)) RESPONSE_LIMIT 8) (\<lambda>v. validate_observation v grant_wire now_ns)))"

section \<open>The immutable events of a phase\<close>

definition recorded :: "row \<Rightarrow> pystr \<Rightarrow> string \<Rightarrow> bool act" where
  "recorded r phase kind =
     bindA (event_data (namespace r) (identity r) [kind]) (\<lambda>data.
       returnA (\<exists>(k, item) \<in> set data. jeq (at item ''quota_event_phase'') (JStr phase)))"

fun recovery_scan :: "pystr \<Rightarrow> bool \<Rightarrow> bool \<Rightarrow> (pystr \<times> json) list \<Rightarrow> bool" where
  "recovery_scan phase intended recovered [] = False"
| "recovery_scan phase intended recovered ((kind, data) # rest) =
     (if kind = lit ''EXECUTION_INTENT'' then recovery_scan phase (at data ''phase'' = JStr (upper phase)) False rest
      else if kind = lit ''RECOVERY_BARRIER'' then recovery_scan phase intended (intended \<and> at data ''recovered'' = JBool True) rest
      else if at data ''quota_event_phase'' = JStr phase then recovered
      else recovery_scan phase intended recovered rest)"

definition exit_recorded_during_recovery :: "row \<Rightarrow> pystr \<Rightarrow> bool act" where
  "exit_recorded_during_recovery r phase =
     bindA (event_data (namespace r) (identity r) [''EXECUTION_INTENT'', ''RECOVERY_BARRIER'', ''QUOTA_EXIT_PENDING'']) (\<lambda>data.
       returnA (recovery_scan phase False False data))"

text \<open>\<open>now_ns\<close> is \<open>None\<close> when the caller only inspects the grant.\<close>

definition selected :: "row \<Rightarrow> pystr \<Rightarrow> json \<Rightarrow> int option \<Rightarrow> bytes act" where
  "selected r phase session now_ns =
     bindA (admission_version r) (\<lambda>version.
     bindA (liftA (require (jeq version (JInt 1)) ''QUOTA_ADMISSION'')) (\<lambda>_.
     bindA (original r (JStr phase) ''QUOTA_PREPARATION'' ''quota_preparations'') (\<lambda>prep.
     bindA (liftA (sub prep ''session'')) (\<lambda>prepared_session.
     bindA (liftA (require (jeq prepared_session session) ''QUOTA_RECOVERY_BARRIER'')) (\<lambda>_.
     bindA (original r (JStr phase) ''QUOTA_OBSERVATION_BOUND'' ''quota_bindings'') (\<lambda>item.
     bindA (liftA (sub item ''grant'')) (\<lambda>declared.
     bindA (liftA (bindE (quota_canonical declared GRANT_LIMIT) decode_grant)) (\<lambda>wire.
     bindA (liftA (as_dict wire)) (\<lambda>data.
     bindA (liftA (sub item ''grant_digest'')) (\<lambda>named.
     bindA (liftA (if named \<noteq> JStr (sha256_hex wire) then Inr False
         else bindE (sub prep ''allocation'') (\<lambda>allocation.
           if \<not> jeq (field data ''allocation'') allocation then Inr False
           else bindE (sub prep ''budget'') (\<lambda>budget. Inr (jeq (field data ''budget'') budget))))) (\<lambda>same.
     bindA (liftA (require same ''QUOTA_PREPARATION_CHANGED'')) (\<lambda>_.
     bindA (liftA (case now_ns of None \<Rightarrow> Inr [] | Some now \<Rightarrow>
         bindE (execution wire) (\<lambda>doc. bindE (sub prep ''allocation'') (\<lambda>allocation. check_execution wire doc allocation (JInt now))))) (\<lambda>_.
       returnA wire)))))))))))))"

end
