(* ===== verification/Maintenance.thy ===== *)
theory Maintenance
  imports Policy
begin

text \<open>
  The node admission barrier of \<open>tools/local_hand_jobs/maintenance.py\<close>.  The state is the content of
  \<open>gate.json\<close>, absent before the bootstrap; every operation takes the lock, reads and validates the record,
  changes the decoded document and writes its canonical bytes.  What the operating system does in a call is
  an argument: whether the lock and the protected directory can be had, whether the record file is a
  protected regular file, and whether a write fails before or after the rename.
\<close>

section \<open>Identities\<close>

definition GATE_SCHEMA :: string where "GATE_SCHEMA = ''local-hand-maintenance/v1''"
definition GATE_CONFIG_SCHEMA :: string where "GATE_CONFIG_SCHEMA = ''local-hand-maintenance-config/v1''"
definition MAX_STATE_BYTES :: nat where "MAX_STATE_BYTES = 8 * 1024 * 1024"

definition gate_digest :: "json \<Rightarrow> pystr" where
  "gate_digest v = sha256_hex (canonical_bytes v)"

definition gate_identifier :: "json \<Rightarrow> unit res" where
  "gate_identifier v = raise_if (\<not> (case v of JStr s \<Rightarrow> s \<noteq> [] \<and> length s \<le> 4096 \<and> 0 \<notin> set s | _ \<Rightarrow> False))
     (JobError ''MAINTENANCE_UNKNOWN'' ''Maintenance identity is invalid'')"

definition gate_hex :: "json \<Rightarrow> unit res" where
  "gate_hex v = raise_if (\<not> (case v of JStr s \<Rightarrow> length s = 64 \<and> (\<forall>c \<in> set s. is_hex_digit c) | _ \<Rightarrow> False))
     (JobError ''MAINTENANCE_UNKNOWN'' ''Maintenance deployment binding is invalid'')"

text \<open>\<open>str(Path(s))\<close>; exactly two leading slashes are kept.\<close>

definition path_str :: "pystr \<Rightarrow> pystr" where
  "path_str s = (if prefix [47, 47] s \<and> \<not> prefix [47, 47, 47] s then 47 # 47 # join_slash (posix_parts s)
     else if prefix [47] s then 47 # join_slash (posix_parts s) else posix_str (posix_parts s))"

definition normal_path :: "pystr \<Rightarrow> bool" where
  "normal_path s = (prefix [47] s \<and> path_str s = s \<and> lit ''..'' \<notin> set (posix_parts s))"

text \<open>A \<open>MaintenanceGate\<close> object: its directory and its node.\<close>

record maintenance_gate =
  gate_directory :: pystr
  gate_node :: json

definition new_gate :: "json \<Rightarrow> json \<Rightarrow> maintenance_gate res" where
  "new_gate directory node_id = (case directory of
     JStr d \<Rightarrow>
       thenE (raise_if (\<not> normal_path d \<or> prefix [47, 47] d) (JobError ''MAINTENANCE_UNKNOWN'' ''Maintenance directory is invalid''))
       (thenE (gate_identifier node_id) (Inr \<lparr>gate_directory = d, gate_node = node_id\<rparr>))
   | _ \<Rightarrow> Inl (PyError ''TypeError''))"

definition from_config :: "json \<Rightarrow> maintenance_gate option res" where
  "from_config cfg =
     (let v = at cfg ''maintenance'' in
      if v = JNull then Inr None
      else thenE (raise_if (\<not> (is_dict v \<and> has_keys v [''schema'', ''directory'', ''node_id'', ''deployment_digest'', ''startup_descriptor''] \<and>
            at v ''schema'' = jlit GATE_CONFIG_SCHEMA)) (JobError ''MAINTENANCE_UNKNOWN'' ''Maintenance configuration is invalid''))
     (thenE (gate_hex (at v ''deployment_digest''))
     (case at v ''startup_descriptor'' of
        JStr s \<Rightarrow> thenE (raise_if (\<not> normal_path s) (JobError ''MAINTENANCE_UNKNOWN'' ''Startup descriptor path is invalid''))
          (bindE (new_gate (at v ''directory'') (at v ''node_id'')) (\<lambda>g. Inr (Some g)))
      | _ \<Rightarrow> Inl (PyError ''TypeError''))))"

definition loaded_configuration :: "json \<Rightarrow> json \<Rightarrow> json \<Rightarrow> json res" where
  "loaded_configuration cfg boot_id component =
     bindE (sub cfg ''maintenance'') (\<lambda>v.
     bindE (sub cfg ''installation'') (\<lambda>installation.
     bindE (sub installation ''installed'') (\<lambda>installed.
     bindE (sub installed ''payload_digest'') (\<lambda>payload.
     bindE (sub v ''node_id'') (\<lambda>node_id.
     bindE (sub v ''deployment_digest'') (\<lambda>deployment.
     thenE (gate_hex deployment) (thenE (gate_hex payload) (thenE (gate_identifier boot_id) (thenE (gate_identifier component)
       (Inr (obj [(''node_id'', node_id), (''deployment_digest'', deployment),
          (''configuration_digest'', JStr (gate_digest (dpop cfg (lit ''maintenance'')))), (''payload_digest'', payload),
          (''boot_id'', boot_id), (''component'', component)])))))))))))"

definition prepared_binding :: "json \<Rightarrow> json \<Rightarrow> json \<Rightarrow> json \<Rightarrow> json \<Rightarrow> json res" where
  "prepared_binding loaded operation_id attempt_id request_hash launch =
     thenE (gate_identifier operation_id) (thenE (gate_identifier attempt_id) (thenE (gate_hex request_hash)
     (bindE (sub loaded ''deployment_digest'') (\<lambda>deployment.
      bindE (sub loaded ''configuration_digest'') (\<lambda>configuration.
      bindE (sub loaded ''payload_digest'') (\<lambda>payload.
      bindE (sub loaded ''boot_id'') (\<lambda>boot_id.
        Inr (obj [(''operation_id'', operation_id), (''attempt_id'', attempt_id), (''request_digest'', request_hash),
          (''resource_digest'', JStr (gate_digest launch)), (''deployment_digest'', deployment),
          (''configuration_digest'', configuration), (''payload_digest'', payload), (''boot_id'', boot_id)]))))))))"

section \<open>The record\<close>

definition value_unless :: "bool \<Rightarrow> unit res" where
  "value_unless c = raise_if (\<not> c) (PyError ''ValueError'')"

text \<open>\<open>v in {names}\<close>, which raises on a value that cannot be hashed.\<close>

definition in_names :: "json \<Rightarrow> string list \<Rightarrow> bool res" where
  "in_names v names = (if is_list v \<or> is_dict v then Inl (PyError ''TypeError'') else Inr (v \<in> set (map jlit names)))"

definition GATE_KEYS :: "string list" where
  "GATE_KEYS = [''schema'', ''node_id'', ''state'', ''sequence'', ''owner'', ''decision_id'', ''deployment_digest'', ''responsibilities'',
     ''compatibility'', ''last_transition'', ''retired_owners'']"

definition DUTY_KEYS :: "string list" where
  "DUTY_KEYS = [''id'', ''kind'', ''operation_id'', ''attempt_id'', ''binding'', ''binding_digest'', ''loaded'', ''state'', ''accepted_sequence'', ''proof'']"

definition LOADED_KEYS :: "string list" where
  "LOADED_KEYS = [''node_id'', ''deployment_digest'', ''configuration_digest'', ''payload_digest'', ''boot_id'', ''component'']"

definition PREPARED_KEYS :: "string list" where
  "PREPARED_KEYS = [''operation_id'', ''attempt_id'', ''request_digest'', ''resource_digest'', ''deployment_digest'', ''configuration_digest'',
     ''payload_digest'', ''boot_id'']"

definition validate_loaded :: "json \<Rightarrow> json \<Rightarrow> unit res" where
  "validate_loaded node loaded =
     thenE (raise_if (\<not> (is_dict loaded \<and> has_keys loaded LOADED_KEYS \<and> jeq (at loaded ''node_id'') node))
       (JobError ''STALE_DEPLOYMENT'' ''Loaded deployment proof is invalid''))
     (thenE (forE [''deployment_digest'', ''configuration_digest'', ''payload_digest''] (\<lambda>k. gate_hex (at loaded k)))
     (thenE (gate_identifier (at loaded ''boot_id'')) (gate_identifier (at loaded ''component''))))"

definition validate_prepared :: "json \<Rightarrow> unit res" where
  "validate_prepared prepared =
     thenE (raise_if (\<not> (is_dict prepared \<and> has_keys prepared PREPARED_KEYS))
       (JobError ''STALE_DEPLOYMENT'' ''Prepared task has no complete deployment binding''))
     (thenE (forE [''operation_id'', ''attempt_id'', ''boot_id''] (\<lambda>k. gate_identifier (at prepared k)))
     (forE [''request_digest'', ''resource_digest'', ''deployment_digest'', ''configuration_digest'', ''payload_digest''] (\<lambda>k. gate_hex (at prepared k))))"

definition validate_closure :: "json \<Rightarrow> unit res" where
  "validate_closure proof_doc =
     raise_if (\<not> (is_dict proof_doc \<and>
        (has_keys proof_doc [''never_dispatched''] \<and> at proof_doc ''never_dispatched'' = JBool True \<or>
         has_keys proof_doc [''process_exited'', ''writers_stopped''] \<and> at proof_doc ''process_exited'' = JBool True \<and>
         at proof_doc ''writers_stopped'' = JBool True)))
       (JobError ''IO_UNCERTAIN'' ''Responsibility needs positive closure proof'')"

definition validate_duty :: "json \<Rightarrow> int \<Rightarrow> pystr \<times> json \<Rightarrow> unit res" where
  "validate_duty node sequence entry = (case entry of (ident, item) \<Rightarrow>
     thenE (value_unless (is_dict item \<and> has_keys item DUTY_KEYS \<and> at item ''id'' = JStr ident \<and> length ident = 32 \<and> (\<forall>c \<in> set ident. is_hex_digit c)))
     (bindE (in_names (at item ''kind'') [''prepare'', ''execute'']) (\<lambda>kind_ok.
      thenE (value_unless kind_ok)
     (bindE (in_names (at item ''state'') [''ACCEPTED'', ''DISPATCHING'', ''CLOSED'']) (\<lambda>state_ok.
      thenE (value_unless (state_ok \<and> is_int (at item ''accepted_sequence'') \<and>
          1 \<le> int_of (fld item ''accepted_sequence'') \<and> int_of (fld item ''accepted_sequence'') \<le> sequence \<and>
          is_dict (at item ''binding'') \<and> is_dict (at item ''loaded'')))
     (thenE (if at item ''state'' = jlit ''CLOSED'' then validate_closure (at item ''proof'') else value_unless (at item ''proof'' = JNull))
     (thenE (forE [''operation_id'', ''attempt_id''] (\<lambda>k. gate_identifier (at item k)))
     (thenE (validate_loaded node (at item ''loaded''))
     (thenE (gate_hex (at item ''binding_digest''))
      (value_unless (JStr (gate_digest (at item ''binding'')) = at item ''binding_digest'')))))))))))"

definition validate_compatibility :: "json \<Rightarrow> pystr \<times> json \<Rightarrow> unit res" where
  "validate_compatibility node entry = (case entry of (key, item) \<Rightarrow>
     thenE (value_unless (is_dict item \<and>
        set (jkeys item) \<subseteq> set (map lit [''prepared'', ''target_deployment_digest'', ''owner'', ''target_loaded'']) \<and>
        set (map lit [''prepared'', ''target_deployment_digest'', ''owner'']) \<subseteq> set (jkeys item) \<and>
        key = gate_digest (at item ''prepared'') \<and> is_dict (at item ''prepared'')))
     (thenE (gate_hex (at item ''target_deployment_digest''))
     (thenE (gate_identifier (at item ''owner''))
     (thenE (validate_prepared (at item ''prepared''))
      (case fld item ''target_loaded'' of None \<Rightarrow> Inr () | Some loaded \<Rightarrow>
         thenE (validate_loaded node loaded)
          (value_unless (at loaded ''deployment_digest'' = at item ''target_deployment_digest'')))))))"

definition validate_transition :: "json \<Rightarrow> unit res" where
  "validate_transition v =
     (let t = at v ''last_transition''; closed_gate = (at v ''state'' = jlit ''CLOSED''); retired = elements (at v ''retired_owners'') in
      if t = JNull then value_unless (at v ''sequence'' = JInt 1 \<and> at v ''state'' = jlit ''OPEN'')
      else if \<not> is_dict t then Inl (PyError ''ValueError'')
      else if at t ''kind'' = jlit ''close'' then
        value_unless (has_keys t [''kind'', ''owner''] \<and> closed_gate \<and> jeq (at t ''owner'') (at v ''owner''))
      else if at t ''kind'' = jlit ''handoff'' then
        value_unless (has_keys t [''kind'', ''owner'', ''successor''] \<and> closed_gate \<and> jeq (at t ''successor'') (at v ''owner'') \<and> at t ''owner'' \<in> set retired)
      else if at t ''kind'' = jlit ''release'' then
        value_unless (has_keys t [''kind'', ''owner'', ''decision_id'', ''deployment_digest''] \<and> at v ''state'' = jlit ''OPEN'' \<and>
          at t ''owner'' \<in> set retired \<and> jeq (at t ''decision_id'') (at v ''decision_id'') \<and> jeq (at t ''deployment_digest'') (at v ''deployment_digest''))
      else Inl (PyError ''ValueError''))"

definition validate_gate :: "json \<Rightarrow> json \<Rightarrow> unit res" where
  "validate_gate node v =
     thenE (value_unless (is_dict v \<and> has_keys v GATE_KEYS \<and> at v ''schema'' = jlit GATE_SCHEMA \<and> jeq (at v ''node_id'') node))
     (bindE (in_names (at v ''state'') [''OPEN'', ''CLOSED'']) (\<lambda>state_ok.
      thenE (value_unless (state_ok \<and> is_int (at v ''sequence'') \<and> 1 \<le> int_of (fld v ''sequence'') \<and>
          is_dict (at v ''responsibilities'') \<and> is_dict (at v ''compatibility'') \<and> is_list (at v ''retired_owners'')))
     (thenE (forE (elements (at v ''retired_owners'')) gate_identifier)
     (thenE (value_unless (distinct (elements (at v ''retired_owners''))))
     (thenE (gate_hex (at v ''deployment_digest''))
     (thenE (if at v ''state'' = jlit ''CLOSED''
             then thenE (gate_identifier (at v ''owner'')) (value_unless (at v ''owner'' \<notin> set (elements (at v ''retired_owners''))))
             else value_unless (at v ''owner'' = JNull))
     (thenE (gate_identifier (at v ''decision_id''))
     (thenE (forE (items (at v ''responsibilities'')) (validate_duty node (int_of (fld v ''sequence''))))
     (thenE (forE (items (at v ''compatibility'')) (validate_compatibility node))
      (validate_transition v))))))))))"

section \<open>Reading and writing\<close>

type_synonym gate_file = "bytes option"

datatype write_outcome = Written | Not_written | Unsynced

record gate_os =
  lock_fails :: bool
  record_unprotected :: bool
  write_outcome :: write_outcome
  confirm_fails :: bool

definition gate_unknown :: "string \<Rightarrow> exn" where
  "gate_unknown m = JobError ''MAINTENANCE_UNKNOWN'' m"

text \<open>\<open>except (ValueError, TypeError, KeyError, JobError)\<close> around the decoding of the record.\<close>

definition as_invalid_record :: "'a res \<Rightarrow> 'a res" where
  "as_invalid_record r = (case r of
     Inl e \<Rightarrow> (case e of
        JobError _ _ \<Rightarrow> Inl (gate_unknown ''Maintenance record is incomplete or invalid'')
      | PyError c \<Rightarrow> if c \<in> {''ValueError'', ''TypeError'', ''KeyError''} then Inl (gate_unknown ''Maintenance record is incomplete or invalid'') else r
      | _ \<Rightarrow> r)
   | _ \<Rightarrow> r)"

definition gate_read :: "json \<Rightarrow> gate_os \<Rightarrow> gate_file \<Rightarrow> json res" where
  "gate_read node os g = (case g of
     None \<Rightarrow> Inl (PyError ''FileNotFoundError'')
   | Some raw \<Rightarrow> as_invalid_record
       (thenE (raise_if (record_unprotected os) (gate_unknown ''Maintenance record is not protected''))
       (bindE (strict_loads MAX_STATE_BYTES (RawBytes raw)) (\<lambda>v. thenE (validate_gate node v) (Inr v)))))"

definition gate_write :: "json \<Rightarrow> gate_os \<Rightarrow> json \<Rightarrow> gate_file \<Rightarrow> unit res \<times> gate_file" where
  "gate_write node os v g = (case validate_gate node v of
     Inl e \<Rightarrow> (Inl e, g)
   | Inr _ \<Rightarrow> let raw = canonical_bytes v @ [10] in
      if length raw > MAX_STATE_BYTES then (Inl (JobError ''LIMIT_EXCEEDED'' ''Maintenance history needs explicit retention management''), g)
      else (case write_outcome os of
        Written \<Rightarrow> (Inr (), Some raw)
      | Not_written \<Rightarrow> (Inl (PyError ''OSError''), g)
      | Unsynced \<Rightarrow> (Inl (PyError ''OSError''), Some raw)))"

definition gate_confirm :: "gate_os \<Rightarrow> unit res" where
  "gate_confirm os = raise_if (confirm_fails os) (PyError ''OSError'')"

text \<open>\<open>_locked\<close>: an error of the operating system inside the block means that the state is unknown.\<close>

definition as_unknown_state :: "'a res \<Rightarrow> 'a res" where
  "as_unknown_state r = (case r of
     Inl (PyError c) \<Rightarrow> if c \<in> {''OSError'', ''FileNotFoundError''} then Inl (gate_unknown ''Maintenance state cannot be established'') else r
   | _ \<Rightarrow> r)"

definition locked :: "gate_os \<Rightarrow> (gate_file \<Rightarrow> 'a res \<times> gate_file) \<Rightarrow> gate_file \<Rightarrow> 'a res \<times> gate_file" where
  "locked os body g =
     (if lock_fails os then (Inl (gate_unknown ''Maintenance state cannot be established''), g)
      else case body g of (r, g') \<Rightarrow> (as_unknown_state r, g'))"

text \<open>
  What an operation does under the lock with the record it read: fail, confirm the stored record and
  return a value, or write a changed record and return a value.
\<close>

datatype gate_change = Refuse exn | Confirm json | Store json json

definition gate_apply :: "json \<Rightarrow> gate_os \<Rightarrow> gate_change \<Rightarrow> gate_file \<Rightarrow> json res \<times> gate_file" where
  "gate_apply node os change g = (case change of
     Refuse e \<Rightarrow> (Inl e, g)
   | Confirm result \<Rightarrow> (bindE (gate_confirm os) (\<lambda>_. Inr result), g)
   | Store v result \<Rightarrow> (case gate_write node os v g of (r, g') \<Rightarrow> (bindE r (\<lambda>_. Inr result), g')))"

definition under_lock :: "json \<Rightarrow> gate_os \<Rightarrow> (json \<Rightarrow> gate_change) \<Rightarrow> gate_file \<Rightarrow> json res \<times> gate_file" where
  "under_lock node os decide = locked os (\<lambda>g. case gate_read node os g of
     Inl e \<Rightarrow> (Inl e, g)
   | Inr v \<Rightarrow> gate_apply node os (decide v) g)"

section \<open>The marker\<close>

definition conflict :: "string \<Rightarrow> gate_change" where
  "conflict m = Refuse (JobError ''CONFLICT'' m)"

definition expected_marker :: "json \<Rightarrow> json \<Rightarrow> bool" where
  "expected_marker v expect = (case expect of
     JNull \<Rightarrow> True
   | JInt n \<Rightarrow> at v ''sequence'' = JInt n
   | JObj _ \<Rightarrow> (\<forall>k \<in> set [''sequence'', ''state'', ''owner'', ''decision_id'', ''deployment_digest'', ''node_id'']. jeq (at v k) (at expect k))
   | _ \<Rightarrow> False)"

definition when_expected :: "json \<Rightarrow> json \<Rightarrow> gate_change \<Rightarrow> gate_change" where
  "when_expected v expect c = (if expected_marker v expect then c else conflict ''Maintenance marker changed; observe the original operation'')"

definition next_sequence :: "json \<Rightarrow> json" where
  "next_sequence v = JInt (int_of (fld v ''sequence'') + 1)"

definition retire :: "json \<Rightarrow> json \<Rightarrow> json" where
  "retire v owner = dset v (lit ''retired_owners'') (JList (elements (at v ''retired_owners'') @ [owner]))"

definition gate_initial :: "json \<Rightarrow> json \<Rightarrow> json \<Rightarrow> json" where
  "gate_initial node deployment_digest decision_id = obj
     [(''schema'', jlit GATE_SCHEMA), (''node_id'', node), (''state'', jlit ''OPEN''), (''sequence'', JInt 1), (''owner'', JNull),
      (''decision_id'', decision_id), (''deployment_digest'', deployment_digest), (''responsibilities'', JObj []),
      (''compatibility'', JObj []), (''last_transition'', JNull), (''retired_owners'', JList [])]"

definition initialize :: "json \<Rightarrow> gate_os \<Rightarrow> json \<Rightarrow> json \<Rightarrow> bool \<Rightarrow> gate_file \<Rightarrow> json res \<times> gate_file" where
  "initialize node os deployment_digest decision_id bootstrap g =
     (if \<not> bootstrap then (Inl (JobError ''UNAUTHORIZED'' ''Initialization requires explicit trusted bootstrap''), g)
      else case thenE (gate_hex deployment_digest) (gate_identifier decision_id) of
        Inl e \<Rightarrow> (Inl e, g)
      | Inr _ \<Rightarrow> locked os (\<lambda>g. case gate_read node os g of
          Inl e \<Rightarrow> if e = PyError ''FileNotFoundError''
            then gate_apply node os (Store (gate_initial node deployment_digest decision_id) (gate_initial node deployment_digest decision_id)) g
            else (Inl e, g)
        | Inr v \<Rightarrow> gate_apply node os
            (if at v ''sequence'' = JInt 1 \<and> at v ''state'' = jlit ''OPEN'' \<and> at v ''deployment_digest'' = deployment_digest \<and> at v ''decision_id'' = decision_id
             then Confirm v else conflict ''An existing maintenance record cannot be initialized again'') g) g)"

definition snapshot :: "json \<Rightarrow> gate_os \<Rightarrow> gate_file \<Rightarrow> json res \<times> gate_file" where
  "snapshot node os = locked os (\<lambda>g. (gate_read node os g, g))"

definition close_change :: "json \<Rightarrow> json \<Rightarrow> json \<Rightarrow> gate_change" where
  "close_change owner expect v =
     (if at v ''state'' = jlit ''CLOSED'' \<and> at v ''owner'' = owner then Confirm v
      else when_expected v expect
       (if at v ''state'' \<noteq> jlit ''OPEN'' \<or> owner \<in> set (elements (at v ''retired_owners'')) then conflict ''Another operation owns maintenance''
        else let v' = dupdate v [(lit ''state'', jlit ''CLOSED''), (lit ''owner'', owner), (lit ''sequence'', next_sequence v),
               (lit ''last_transition'', obj [(''kind'', jlit ''close''), (''owner'', owner)])] in Store v' v'))"

definition close_gate :: "json \<Rightarrow> gate_os \<Rightarrow> json \<Rightarrow> json \<Rightarrow> gate_file \<Rightarrow> json res \<times> gate_file" where
  "close_gate node os owner expect g = (case gate_identifier owner of
     Inl e \<Rightarrow> (Inl e, g)
   | Inr _ \<Rightarrow> under_lock node os (close_change owner expect) g)"

definition release_change :: "json \<Rightarrow> json \<Rightarrow> json \<Rightarrow> json \<Rightarrow> json \<Rightarrow> gate_change" where
  "release_change owner decision_id deployment_digest expect v =
     (let transition = obj [(''kind'', jlit ''release''), (''owner'', owner), (''decision_id'', decision_id), (''deployment_digest'', deployment_digest)] in
      if at v ''state'' = jlit ''OPEN'' \<and> jeq (at v ''last_transition'') transition then Confirm v
      else when_expected v expect
       (if at v ''state'' \<noteq> jlit ''CLOSED'' \<or> at v ''owner'' \<noteq> owner then conflict ''Only the current maintenance owner may release''
        else let v' = retire (dupdate v [(lit ''state'', jlit ''OPEN''), (lit ''owner'', JNull), (lit ''decision_id'', decision_id),
               (lit ''deployment_digest'', deployment_digest), (lit ''sequence'', next_sequence v), (lit ''last_transition'', transition)]) owner in Store v' v'))"

definition release_gate :: "json \<Rightarrow> gate_os \<Rightarrow> json \<Rightarrow> json \<Rightarrow> json \<Rightarrow> json \<Rightarrow> gate_file \<Rightarrow> json res \<times> gate_file" where
  "release_gate node os owner decision_id deployment_digest expect g =
     (case thenE (gate_identifier owner) (thenE (gate_identifier decision_id) (gate_hex deployment_digest)) of
        Inl e \<Rightarrow> (Inl e, g)
      | Inr _ \<Rightarrow> under_lock node os (release_change owner decision_id deployment_digest expect) g)"

definition handoff_change :: "json \<Rightarrow> json \<Rightarrow> json \<Rightarrow> json \<Rightarrow> gate_change" where
  "handoff_change owner successor expect v =
     (let transition = obj [(''kind'', jlit ''handoff''), (''owner'', owner), (''successor'', successor)] in
      if at v ''state'' = jlit ''CLOSED'' \<and> at v ''owner'' = successor \<and> jeq (at v ''last_transition'') transition then Confirm v
      else when_expected v expect
       (if at v ''state'' \<noteq> jlit ''CLOSED'' \<or> at v ''owner'' \<noteq> owner \<or> successor \<in> set (elements (at v ''retired_owners''))
        then conflict ''Only the current maintenance owner may hand off''
        else let v' = retire (dupdate v [(lit ''owner'', successor), (lit ''sequence'', next_sequence v), (lit ''last_transition'', transition)]) owner in
          Store v' v'))"

definition handoff :: "json \<Rightarrow> gate_os \<Rightarrow> json \<Rightarrow> json \<Rightarrow> json \<Rightarrow> gate_file \<Rightarrow> json res \<times> gate_file" where
  "handoff node os owner successor expect g =
     (case thenE (gate_identifier owner) (thenE (gate_identifier successor)
         (raise_if (owner = successor) (JobError ''CONFLICT'' ''Maintenance successor must be a distinct operation''))) of
        Inl e \<Rightarrow> (Inl e, g)
      | Inr _ \<Rightarrow> under_lock node os (handoff_change owner successor expect) g)"

section \<open>Responsibilities\<close>

definition check_prepared :: "json \<Rightarrow> json \<Rightarrow> json \<Rightarrow> unit res" where
  "check_prepared v prepared loaded =
     thenE (validate_prepared prepared)
     (let same = (\<forall>k \<in> set [''deployment_digest'', ''configuration_digest'', ''payload_digest'', ''boot_id'']. jeq (at prepared k) (at loaded k));
          decision = dget (at v ''compatibility'') (gate_digest prepared) in
      raise_if (\<not> same \<and> \<not> (case decision of None \<Rightarrow> False
         | Some d \<Rightarrow> truthy d \<and> jeq (at d ''prepared'') prepared \<and> jeq (at d ''target_loaded'') loaded))
        (JobError ''STALE_DEPLOYMENT'' ''Prepared task requires exact deployment compatibility''))"

definition compatibility_change :: "json \<Rightarrow> json \<Rightarrow> json \<Rightarrow> json \<Rightarrow> json \<Rightarrow> gate_change" where
  "compatibility_change owner prepared target_digest target_loaded v =
     (let decision = obj [(''owner'', owner), (''prepared'', prepared), (''target_deployment_digest'', target_digest), (''target_loaded'', target_loaded)] in
      if at v ''state'' \<noteq> jlit ''CLOSED'' \<or> at v ''owner'' \<noteq> owner then conflict ''Compatibility decision needs the current maintenance owner''
      else if (case dget (at v ''compatibility'') (gate_digest prepared) of None \<Rightarrow> False | Some d \<Rightarrow> jeq d decision) then Confirm JNull
      else Store (dset v (lit ''compatibility'') (dset (at v ''compatibility'') (gate_digest prepared) decision)) JNull)"

definition authorize_compatibility :: "json \<Rightarrow> gate_os \<Rightarrow> json \<Rightarrow> json \<Rightarrow> json \<Rightarrow> json \<Rightarrow> gate_file \<Rightarrow> json res \<times> gate_file" where
  "authorize_compatibility node os owner prepared target_digest target_loaded g =
     (case thenE (gate_hex target_digest) (thenE (validate_prepared prepared) (thenE (validate_loaded node target_loaded)
         (raise_if (at target_loaded ''deployment_digest'' \<noteq> target_digest)
           (JobError ''STALE_DEPLOYMENT'' ''Compatibility target does not match its loaded binding'')))) of
        Inl e \<Rightarrow> (Inl e, g)
      | Inr _ \<Rightarrow> under_lock node os (compatibility_change owner prepared target_digest target_loaded) g)"

text \<open>\<open>authorization.require_current()\<close> at the time \<open>now\<close>, where a principal is given.\<close>

definition still_current :: "int \<Rightarrow> principal option \<Rightarrow> unit res" where
  "still_current now authorization = (case authorization of None \<Rightarrow> Inr () | Some p \<Rightarrow> require_current now p)"

definition new_duty :: "pystr \<Rightarrow> json \<Rightarrow> json \<Rightarrow> json \<Rightarrow> json \<Rightarrow> json \<Rightarrow> json \<Rightarrow> json" where
  "new_duty ident kind operation_id attempt_id binding loaded sequence = obj
     [(''id'', JStr ident), (''kind'', kind), (''operation_id'', operation_id), (''attempt_id'', attempt_id), (''binding'', binding),
      (''binding_digest'', JStr (gate_digest binding)), (''loaded'', loaded), (''state'', jlit ''ACCEPTED''),
      (''accepted_sequence'', sequence), (''proof'', JNull)]"

definition put_duty :: "json \<Rightarrow> pystr \<Rightarrow> json \<Rightarrow> json" where
  "put_duty v ident item = dset v (lit ''responsibilities'') (dset (at v ''responsibilities'') ident item)"

definition checked :: "unit res \<Rightarrow> gate_change \<Rightarrow> gate_change" where
  "checked r c = (case r of Inl e \<Rightarrow> Refuse e | Inr _ \<Rightarrow> c)"

definition execute_binds :: "json \<Rightarrow> json \<Rightarrow> json \<Rightarrow> json \<Rightarrow> json \<Rightarrow> unit res" where
  "execute_binds v prepared loaded operation_id binding =
     thenE (check_prepared v prepared loaded)
      (raise_if (\<not> jeq (at prepared ''operation_id'') operation_id \<or> \<not> jeq (at binding ''prepared'') prepared)
        (JobError ''STALE_DEPLOYMENT'' ''Execution does not bind the original preparation''))"

definition accept_change :: "int \<Rightarrow> pystr \<Rightarrow> json \<Rightarrow> json \<Rightarrow> json \<Rightarrow> json \<Rightarrow> json \<Rightarrow> principal option \<Rightarrow> json \<Rightarrow> json \<Rightarrow> gate_change" where
  "accept_change now ident kind operation_id attempt_id binding loaded authorization prepared v = checked (still_current now authorization)
     (case filter (\<lambda>item. at item ''kind'' = kind \<and> at item ''operation_id'' = operation_id \<and> at item ''attempt_id'' = attempt_id)
         (map snd (items (at v ''responsibilities''))) of
        old # _ \<Rightarrow> if \<not> jeq (at old ''binding'') binding \<or> \<not> jeq (at old ''loaded'') loaded \<or> at old ''state'' = jlit ''CLOSED''
           then conflict ''Admission attempt cannot be rebound or reopened'' else Confirm old
      | [] \<Rightarrow>
        if at v ''state'' \<noteq> jlit ''OPEN'' then Refuse (JobError ''MAINTENANCE'' ''New preparation and execution are temporarily closed'')
        else if at v ''deployment_digest'' \<noteq> at loaded ''deployment_digest'' then Refuse (JobError ''STALE_DEPLOYMENT'' ''Loaded deployment is no longer selected'')
        else checked (if kind = jlit ''execute'' then execute_binds v prepared loaded operation_id binding else Inr ())
          (let item = new_duty ident kind operation_id attempt_id binding loaded (at v ''sequence'') in Store (put_duty v ident item) item))"

text \<open>\<open>ident\<close> is the value of \<open>uuid.uuid4().hex\<close>.\<close>

definition accept :: "json \<Rightarrow> gate_os \<Rightarrow> int \<Rightarrow> pystr \<Rightarrow> json \<Rightarrow> json \<Rightarrow> json \<Rightarrow> json \<Rightarrow> json \<Rightarrow> principal option \<Rightarrow> json \<Rightarrow>
    gate_file \<Rightarrow> json res \<times> gate_file" where
  "accept node os now ident kind operation_id attempt_id binding loaded authorization prepared g =
     (case bindE (in_names kind [''prepare'', ''execute'']) (\<lambda>ok.
         thenE (raise_if (\<not> ok \<or> \<not> is_dict binding) (gate_unknown ''Admission responsibility is invalid''))
         (thenE (gate_identifier operation_id) (thenE (gate_identifier attempt_id) (validate_loaded node loaded)))) of
        Inl e \<Rightarrow> (Inl e, g)
      | Inr _ \<Rightarrow> under_lock node os (accept_change now ident kind operation_id attempt_id binding loaded authorization prepared) g)"

definition ORIGINAL_KEYS :: "string list" where
  "ORIGINAL_KEYS = [''id'', ''kind'', ''operation_id'', ''attempt_id'', ''binding'', ''binding_digest'', ''loaded'', ''accepted_sequence'']"

definition find_receipt :: "json \<Rightarrow> json \<Rightarrow> (pystr \<times> json) res" where
  "find_receipt v receipt =
     (if is_dict receipt \<and> (is_list (at receipt ''id'') \<or> is_dict (at receipt ''id'')) then Inl (PyError ''TypeError'')
      else case at receipt ''id'' of
        JStr ident \<Rightarrow> (case dget (at v ''responsibilities'') ident of
          Some item \<Rightarrow> if \<exists>k \<in> set ORIGINAL_KEYS. \<not> jeq (at item k) (at receipt k)
            then Inl (JobError ''CONFLICT'' ''Admission responsibility does not match its original attempt'') else Inr (ident, item)
        | None \<Rightarrow> Inl (JobError ''CONFLICT'' ''Admission responsibility does not match its original attempt''))
      | _ \<Rightarrow> Inl (JobError ''CONFLICT'' ''Admission responsibility does not match its original attempt''))"

definition dispatch_change :: "int \<Rightarrow> json \<Rightarrow> principal option \<Rightarrow> json \<Rightarrow> gate_change" where
  "dispatch_change now receipt authorization v = (case find_receipt v receipt of
     Inl e \<Rightarrow> Refuse e
   | Inr (ident, item) \<Rightarrow> checked (still_current now authorization)
       (if at item ''state'' \<noteq> jlit ''ACCEPTED'' then Refuse (JobError ''IO_UNCERTAIN'' ''The original dispatch must be observed, not repeated'')
        else let item' = dset item (lit ''state'') (jlit ''DISPATCHING'') in Store (put_duty v ident item') item'))"

definition dispatch :: "json \<Rightarrow> gate_os \<Rightarrow> int \<Rightarrow> json \<Rightarrow> principal option \<Rightarrow> gate_file \<Rightarrow> json res \<times> gate_file" where
  "dispatch node os now receipt authorization = under_lock node os (dispatch_change now receipt authorization)"

definition finish_change :: "json \<Rightarrow> json \<Rightarrow> json \<Rightarrow> gate_change" where
  "finish_change receipt proof_doc v = (case find_receipt v receipt of
     Inl e \<Rightarrow> Refuse e
   | Inr (ident, item) \<Rightarrow>
       if at item ''state'' = jlit ''CLOSED'' then
         (if \<not> jeq (at item ''proof'') proof_doc then conflict ''Original responsibility closure differs'' else Confirm item)
       else let item' = dupdate item [(lit ''state'', jlit ''CLOSED''), (lit ''proof'', proof_doc)] in Store (put_duty v ident item') item')"

definition finish_duty :: "json \<Rightarrow> gate_os \<Rightarrow> json \<Rightarrow> json \<Rightarrow> gate_file \<Rightarrow> json res \<times> gate_file" where
  "finish_duty node os receipt proof_doc g = (case validate_closure proof_doc of
     Inl e \<Rightarrow> (Inl e, g)
   | Inr _ \<Rightarrow> under_lock node os (finish_change receipt proof_doc) g)"

definition active_duties :: "json \<Rightarrow> gate_os \<Rightarrow> gate_file \<Rightarrow> json list res" where
  "active_duties node os g = bindE (fst (snapshot node os g)) (\<lambda>v.
     Inr (filter (\<lambda>item. at item ''state'' \<noteq> jlit ''CLOSED'') (map snd (items (at v ''responsibilities'')))))"

end
