(* ===== verification/MaintenanceProps.thy ===== *)
theory MaintenanceProps
  imports Maintenance ContractProps
begin

text \<open>
  Correctness of the admission barrier.  A record the gate wrote is read back, whatever keys order the
  encoding chose; every operation refines one step of an abstract barrier, or leaves it alone, whatever the
  operating system does; and along every history owners never return, accepted responsibilities are never
  rebound or reopened, and a closed barrier admits nothing.
\<close>

section \<open>Sorted documents\<close>

lemma at_sort_keys: "wf_json v \<Longrightarrow> at (sort_keys v) k = sort_keys (at v k)"
  by (simp add: at_def get_or_def dget_sort_keys split: option.splits)

lemma wf_json_at: "wf_json v \<Longrightarrow> wf_json (at v k)"
  by (simp add: at_def get_or_def wf_json_dget split: option.splits)

lemma has_keys_sort_keys [simp]: "has_keys (sort_keys v) ks = has_keys v ks"
  by (cases v) (auto simp: has_keys_def jkeys_def image_image split_beta)

lemma jkeys_sort_keys [simp]: "set (jkeys (sort_keys v)) = set (jkeys v)"
  by (cases v) (auto simp: jkeys_def image_image split_beta)

lemma gate_identifier_sort_keys [simp]: "gate_identifier (sort_keys v) = gate_identifier v"
  by (cases v) (simp_all add: gate_identifier_def)

lemma gate_hex_sort_keys [simp]: "gate_hex (sort_keys v) = gate_hex v"
  by (cases v) (simp_all add: gate_hex_def)

lemma gate_digest_sort_keys [simp]: "gate_digest (sort_keys v) = gate_digest v"
  by (simp add: gate_digest_def canonical_bytes_def)

lemma is_type_sort_keys [simp]: "is_list (sort_keys v) = is_list v" "is_int (sort_keys v) = is_int v"
  by (cases v; simp)+

lemma sort_keys_eq_scalar [simp]: "sort_keys v = JNull \<longleftrightarrow> v = JNull" "sort_keys v = JInt n \<longleftrightarrow> v = JInt n"
  by (cases v; simp)+

lemma in_names_sort_keys [simp]: "in_names (sort_keys v) names = in_names v names"
  by (auto simp: in_names_def)

lemma elements_sort_keys: "elements (sort_keys v) = map sort_keys (elements v)"
  by (cases v) (simp_all add: elements_def)

lemma items_sort_keys: "set (items (sort_keys v)) = (\<lambda>(k, x). (k, sort_keys x)) ` set (items v)"
  by (cases v) (auto simp: items_def)

lemma jeq_sorted [simp]: "jeq (sort_keys a) b = jeq a b" "jeq a (sort_keys b) = jeq a b"
  by (simp_all add: jeq_def)

lemma fld_sort_keys_int: "wf_json v \<Longrightarrow> int_of (fld (sort_keys v) k) = int_of (fld v k)"
  by (cases "fld v k") (auto simp: dget_sort_keys int_of_def split: json.splits)

lemma items_wf: "wf_json v \<Longrightarrow> (k, x) \<in> set (items v) \<Longrightarrow> wf_json x"
  by (cases v) (auto simp: items_def)

lemma items_dget: "wf_json v \<Longrightarrow> (k, x) \<in> set (items v) \<longleftrightarrow> dget v k = Some x"
  by (cases v) (auto simp: items_def dget_def dest: map_of_SomeD)

lemmas sorted_simps = at_sort_keys wf_json_at elements_sort_keys fld_sort_keys_int

lemma forE_sort_keys:
  assumes "wf_json v"
  shows "forE ks (\<lambda>k. gate_identifier (at (sort_keys v) k)) = forE ks (\<lambda>k. gate_identifier (at v k))"
    and "forE ks (\<lambda>k. gate_hex (at (sort_keys v) k)) = forE ks (\<lambda>k. gate_hex (at v k))"
  using assms by (simp_all add: at_sort_keys)

lemma validate_loaded_sort_keys [simp]: "wf_json l \<Longrightarrow> validate_loaded node (sort_keys l) = validate_loaded node l"
  by (simp add: validate_loaded_def sorted_simps forE_sort_keys del: forE.simps)

lemma validate_prepared_sort_keys [simp]: "wf_json p \<Longrightarrow> validate_prepared (sort_keys p) = validate_prepared p"
  by (simp add: validate_prepared_def sorted_simps forE_sort_keys del: forE.simps)

lemma validate_closure_sort_keys [simp]: "wf_json p \<Longrightarrow> validate_closure (sort_keys p) = validate_closure p"
  by (simp add: validate_closure_def sorted_simps)

lemma validate_duty_sort_keys [simp]:
  "wf_json item \<Longrightarrow> validate_duty node n (i, sort_keys item) = validate_duty node n (i, item)"
  by (simp add: validate_duty_def sorted_simps forE_sort_keys eq_commute [of "JStr _"] del: forE.simps)

lemma validate_compatibility_sort_keys:
  assumes "wf_json item" and "validate_compatibility node (k, item) = Inr ()"
  shows "validate_compatibility node (k, sort_keys item) = Inr ()"
proof (cases "fld item ''target_loaded''")
  case None
  with assms show ?thesis
    by (simp add: validate_compatibility_def sorted_simps dget_sort_keys)
next
  case (Some l)
  then have "wf_json l" using assms(1) by (rule wf_json_dget [rotated])
  with Some assms show ?thesis
    by (auto simp: validate_compatibility_def value_unless_def raise_if_def sorted_simps dget_sort_keys res_simps split: if_splits)
qed

lemma value_unless_Inr [res_simps]: "value_unless c = Inr u \<longleftrightarrow> c"
  by (simp add: value_unless_def raise_if_def)

lemma validate_transition_sort_keys:
  assumes "wf_json v" and "validate_transition v = Inr ()"
  shows "validate_transition (sort_keys v) = Inr ()"
  using assms unfolding validate_transition_def Let_def
  by (simp add: sorted_simps res_simps split: if_splits)

lemma gate_identifier_JStr: "gate_identifier x = Inr u \<Longrightarrow> \<exists>s. x = JStr s"
  by (cases x) (auto simp: gate_identifier_def raise_if_def)

lemma map_sort_keys_names: "forE xs gate_identifier = Inr () \<Longrightarrow> map sort_keys xs = xs"
  by (rule map_idI) (force simp: res_simps dest: gate_identifier_JStr)

lemma in_names_Inr [res_simps]: "in_names v names = Inr b \<longleftrightarrow> \<not> is_list v \<and> \<not> is_dict v \<and> b = (v \<in> set (map jlit names))"
  by (auto simp: in_names_def)

lemma names_scalar: "v \<in> set (map jlit names) \<Longrightarrow> \<not> is_list v \<and> \<not> is_dict v"
  by auto

definition gate_shape :: "json \<Rightarrow> json \<Rightarrow> bool" where
  "gate_shape node v = (is_dict v \<and> has_keys v GATE_KEYS \<and> at v ''schema'' = jlit GATE_SCHEMA \<and> jeq (at v ''node_id'') node \<and>
     at v ''state'' \<in> {jlit ''OPEN'', jlit ''CLOSED''} \<and> is_int (at v ''sequence'') \<and> 1 \<le> int_of (fld v ''sequence'') \<and>
     is_dict (at v ''responsibilities'') \<and> is_dict (at v ''compatibility'') \<and> is_list (at v ''retired_owners''))"

definition gate_owner_ok :: "json \<Rightarrow> bool" where
  "gate_owner_ok v = (if at v ''state'' = jlit ''CLOSED''
     then gate_identifier (at v ''owner'') = Inr () \<and> at v ''owner'' \<notin> set (elements (at v ''retired_owners''))
     else at v ''owner'' = JNull)"

definition gate_names_ok :: "json \<Rightarrow> bool" where
  "gate_names_ok v = (forE (elements (at v ''retired_owners'')) gate_identifier = Inr () \<and> distinct (elements (at v ''retired_owners'')) \<and>
     gate_hex (at v ''deployment_digest'') = Inr () \<and> gate_identifier (at v ''decision_id'') = Inr ())"

definition duties_ok :: "json \<Rightarrow> json \<Rightarrow> bool" where
  "duties_ok node v = (\<forall>e \<in> set (items (at v ''responsibilities'')). validate_duty node (int_of (fld v ''sequence'')) e = Inr ())"

definition compatible_ok :: "json \<Rightarrow> json \<Rightarrow> bool" where
  "compatible_ok node v = (\<forall>e \<in> set (items (at v ''compatibility'')). validate_compatibility node e = Inr ())"

lemma validate_gate_iff:
  "validate_gate node v = Inr () \<longleftrightarrow> gate_shape node v \<and> gate_names_ok v \<and> gate_owner_ok v \<and> duties_ok node v \<and>
     compatible_ok node v \<and> validate_transition v = Inr ()"
proof -
  have state: "(\<exists>ok. in_names (at v ''state'') [''OPEN'', ''CLOSED''] = Inr ok \<and> ok \<and> P) \<longleftrightarrow> at v ''state'' \<in> {jlit ''OPEN'', jlit ''CLOSED''} \<and> P" for P
    by (auto simp: res_simps)
  have owner: "(if at v ''state'' = jlit ''CLOSED''
      then thenE (gate_identifier (at v ''owner'')) (value_unless (at v ''owner'' \<notin> set (elements (at v ''retired_owners''))))
      else value_unless (at v ''owner'' = JNull)) = Inr () \<longleftrightarrow> gate_owner_ok v"
    by (simp add: gate_owner_ok_def res_simps)
  show ?thesis
    unfolding validate_gate_def gate_shape_def gate_names_ok_def duties_ok_def compatible_ok_def
    by (simp only: thenE_Inr_iff bindE_Inr_iff value_unless_Inr forE_Inr_iff owner conj_assoc state) blast
qed

lemma gate_shape_sort_keys: "wf_json v \<Longrightarrow> gate_shape node (sort_keys v) = gate_shape node v"
  by (simp add: gate_shape_def sorted_simps)

lemma gate_names_sort_keys: "wf_json v \<Longrightarrow> gate_names_ok v \<Longrightarrow> gate_names_ok (sort_keys v)"
  by (simp add: gate_names_ok_def sorted_simps map_sort_keys_names)

lemma gate_owner_sort_keys: "wf_json v \<Longrightarrow> gate_names_ok v \<Longrightarrow> gate_owner_ok v \<Longrightarrow> gate_owner_ok (sort_keys v)"
  by (auto simp: gate_owner_ok_def gate_names_ok_def sorted_simps map_sort_keys_names simp del: set_map
      dest!: gate_identifier_JStr split: if_splits)

lemma duties_sort_keys: "wf_json v \<Longrightarrow> duties_ok node v \<Longrightarrow> duties_ok node (sort_keys v)"
  using items_wf [OF wf_json_at] by (auto simp: duties_ok_def sorted_simps items_sort_keys)

lemma compatible_sort_keys: "wf_json v \<Longrightarrow> compatible_ok node v \<Longrightarrow> compatible_ok node (sort_keys v)"
  using items_wf [OF wf_json_at]
  by (auto simp: compatible_ok_def sorted_simps items_sort_keys intro!: validate_compatibility_sort_keys)

lemma validate_gate_sort_keys:
  "wf_json v \<Longrightarrow> validate_gate node v = Inr () \<Longrightarrow> validate_gate node (sort_keys v) = Inr ()"
  by (simp add: validate_gate_iff gate_shape_sort_keys gate_names_sort_keys gate_owner_sort_keys duties_sort_keys
      compatible_sort_keys validate_transition_sort_keys)

section \<open>What is written is read back\<close>

lemma scan_value_object:
  assumes acc: "accepts h (JObj kvs)" and n: "length (jprint (JObj kvs)) \<le> n"
  shows "scan_value h n (jprint (JObj kvs) @ r) = Inr (JObj kvs, r)"
proof -
  from n obtain m where m: "n = Suc m" by (cases n) auto
  show ?thesis
  proof (cases "kvs = []")
    case True
    with acc m show ?thesis by simp
  next
    case False
    have ob: "scan_object h m (join_comma (map print_member kvs) @ 125 # r) = Inr (kvs, r)"
      using acc n m False value_head_jprint by (intro scan_object_join scan_value_jprint) (fastforce+)
    have "value_head (join_comma (map print_member kvs))"
      using False by (intro value_head_join) (auto simp: hd_map value_head_member split: prod.splits)
    then have "skip_ws (join_comma (map print_member kvs) @ 125 # r) = join_comma (map print_member kvs) @ 125 # r"
      and "\<exists>d ds. join_comma (map print_member kvs) @ 125 # r = d # ds \<and> d \<noteq> 125"
      by (auto simp: value_head_def neq_Nil_conv)
    with ob m acc show ?thesis by auto
  qed
qed

lemma loads_dumps_line:
  assumes acc: "accepts h (sort_keys v)" and dict: "is_dict v"
  shows "loads h (dumps v @ [10]) = Inr (sort_keys v)"
proof -
  obtain kvs where kvs: "sort_keys v = JObj kvs" using dict by (cases v) auto
  have head: "value_head (jprint (sort_keys v))" using acc by (rule value_head_jprint)
  have "skip_ws (jprint (sort_keys v) @ [10]) = jprint (sort_keys v) @ [10]" using head by (rule skip_ws_value)
  moreover have "scan_value h (2 * length (jprint (sort_keys v) @ [10]) + 1) (jprint (sort_keys v) @ [10]) = Inr (sort_keys v, [10])"
    using acc unfolding kvs by (rule scan_value_object) simp
  moreover have "hd (jprint (sort_keys v) @ [10]) \<noteq> 65279" using head by (auto simp: value_head_def)
  ultimately show ?thesis by (simp add: loads_def dumps_def)
qed

lemma strict_loads_line:
  assumes tree: "tree 0 v = Inr ()" and wf: "wf_json v" and dict: "is_dict v" and size: "length (canonical_bytes v @ [10]) \<le> n"
  shows "strict_loads n (RawBytes (canonical_bytes v @ [10])) = Inr (sort_keys v)"
proof -
  have acc: "accepts strict_hooks (sort_keys v)"
    using tree wf by (intro tree_accepts_sorted keeps_strict)
  have "utf8_decode (canonical_bytes v @ [10]) = Some (canonical_bytes v @ [10])"
    using jprint_ascii [OF acc] by (intro utf8_decode_ascii) (auto simp: canonical_bytes_def dumps_def)
  moreover have "depth_scan 0 False False (canonical_bytes v @ [10])"
    using depth_scan_jprint [of 0 "sort_keys v" "[10]"] tree
    by (simp add: canonical_bytes_def dumps_def tree_sort_keys)
  moreover have "loads strict_hooks (canonical_bytes v @ [10]) = Inr (sort_keys v)"
    using acc dict by (simp add: canonical_bytes_def loads_dumps_line)
  ultimately show ?thesis
    using size tree_sort_keys [THEN iffD2, OF tree]
    by (simp add: strict_loads_def raw_text_def malformed_def)
qed

text \<open>A record the gate can have written, and the file that holds it.\<close>

definition gate_doc :: "json \<Rightarrow> json \<Rightarrow> bool" where
  "gate_doc node v \<longleftrightarrow> wf_json v \<and> tree 0 v = Inr () \<and> validate_gate node v = Inr ()"

definition gate_holds :: "json \<Rightarrow> gate_file \<Rightarrow> json \<Rightarrow> bool" where
  "gate_holds node g v \<longleftrightarrow> gate_doc node v \<and> g = Some (canonical_bytes v @ [10]) \<and> length (canonical_bytes v) < MAX_STATE_BYTES"

lemma gate_doc_sort_keys: "gate_doc node v \<Longrightarrow> gate_doc node (sort_keys v)"
  by (simp add: gate_doc_def wf_json_sort_keys tree_sort_keys validate_gate_sort_keys)

lemma gate_read_holds:
  assumes "gate_holds node g v" and "\<not> record_unprotected os"
  shows "gate_read node os g = Inr (sort_keys v)"
proof -
  have "is_dict v" using assms by (simp add: gate_holds_def gate_doc_def validate_gate_iff gate_shape_def)
  then show ?thesis
    using assms strict_loads_line [of v MAX_STATE_BYTES] validate_gate_sort_keys [of v node]
    by (simp add: gate_holds_def gate_doc_def gate_read_def as_invalid_record_def raise_if_def thenE_def)
qed

section \<open>The abstract barrier\<close>

text \<open>
  The marker, the retired owners and, for every responsibility, what it was accepted with, how far it went
  (accepted, dispatching, closed) and its closure proof.
\<close>

record barrier =
  b_closed :: bool
  b_owner :: json
  b_sequence :: int
  b_decision :: json
  b_deployment :: json
  b_retired :: "json set"
  b_duty :: "pystr \<Rightarrow> (json list \<times> nat \<times> json) option"

inductive barrier_step :: "barrier \<Rightarrow> barrier \<Rightarrow> bool" where
  close: "\<not> b_closed A \<Longrightarrow> x \<notin> b_retired A \<Longrightarrow>
    barrier_step A (A\<lparr>b_closed := True, b_owner := x, b_sequence := b_sequence A + 1\<rparr>)"
| release: "b_closed A \<Longrightarrow> barrier_step A (A\<lparr>b_closed := False, b_owner := JNull, b_sequence := b_sequence A + 1,
    b_decision := d, b_deployment := p, b_retired := insert (b_owner A) (b_retired A)\<rparr>)"
| handoff: "b_closed A \<Longrightarrow> x \<notin> b_retired A \<Longrightarrow> x \<noteq> b_owner A \<Longrightarrow>
    barrier_step A (A\<lparr>b_owner := x, b_sequence := b_sequence A + 1, b_retired := insert (b_owner A) (b_retired A)\<rparr>)"
| admit: "\<not> b_closed A \<Longrightarrow> b_duty A i = None \<Longrightarrow> barrier_step A (A\<lparr>b_duty := (b_duty A)(i \<mapsto> (b, 0, JNull))\<rparr>)"
| dispatch: "b_duty A i = Some (b, 0, p) \<Longrightarrow> barrier_step A (A\<lparr>b_duty := (b_duty A)(i \<mapsto> (b, 1, p))\<rparr>)"
| finish: "b_duty A i = Some (b, n, p) \<Longrightarrow> n < 2 \<Longrightarrow> barrier_step A (A\<lparr>b_duty := (b_duty A)(i \<mapsto> (b, 2, q))\<rparr>)"

definition duty_rank :: "json \<Rightarrow> nat" where
  "duty_rank item = (if at item ''state'' = jlit ''ACCEPTED'' then 0 else if at item ''state'' = jlit ''DISPATCHING'' then 1 else 2)"

definition duty_abs :: "json \<Rightarrow> json list \<times> nat \<times> json" where
  "duty_abs item = (map (\<lambda>k. norm (at item k)) ORIGINAL_KEYS, duty_rank item, norm (at item ''proof''))"

definition barrier_of :: "json \<Rightarrow> barrier" where
  "barrier_of v = \<lparr>b_closed = (at v ''state'' = jlit ''CLOSED''), b_owner = norm (at v ''owner''), b_sequence = int_of (fld v ''sequence''),
     b_decision = norm (at v ''decision_id''), b_deployment = norm (at v ''deployment_digest''),
     b_retired = norm ` set (elements (at v ''retired_owners'')),
     b_duty = (\<lambda>i. map_option duty_abs (dget (at v ''responsibilities'') i))\<rparr>"

lemma duty_abs_sort_keys: "wf_json item \<Longrightarrow> duty_abs (sort_keys item) = duty_abs item"
  by (simp add: duty_abs_def duty_rank_def sorted_simps)

lemma barrier_of_sort_keys: "wf_json v \<Longrightarrow> barrier_of (sort_keys v) = barrier_of v"
proof -
  assume wf: "wf_json v"
  have "map_option duty_abs (dget (sort_keys (at v ''responsibilities'')) i) = map_option duty_abs (dget (at v ''responsibilities'') i)" for i
    using wf_json_dget [OF wf_json_at [OF wf], of "''responsibilities''" i]
    by (cases "dget (at v ''responsibilities'') i") (simp_all add: dget_sort_keys wf_json_at wf duty_abs_sort_keys)
  with wf show ?thesis by (simp add: barrier_of_def sorted_simps image_image)
qed

section \<open>Changes of a document\<close>

lemma at_dset [simp]: "is_dict v \<Longrightarrow> at (dset v (lit k) x) k' = (if k' = k then x else at v k')"
  by (simp add: at_def get_or_def)

lemma int_of_dset: "is_dict v \<Longrightarrow> int_of (fld (dset v (lit k) x) k') = (if k' = k then int_of (Some x) else int_of (fld v k'))"
  by simp

lemma set_alist_update: "set (AList.update k x xs) \<subseteq> insert (k, x) (set xs)"
  by (induction xs) auto

lemma wf_json_dset: "wf_json v \<Longrightarrow> code_points k \<Longrightarrow> wf_json x \<Longrightarrow> wf_json (dset v k x)"
  by (cases v) (auto simp: dset_def distinct_update dest!: subsetD [OF set_alist_update])

lemma tree_JObj: "tree d (JObj kvs) = Inr () \<longleftrightarrow> d < MAX_DEPTH \<and> (\<forall>(k, x) \<in> set kvs. tree 0 (JStr k) = Inr () \<and> tree (Suc d) x = Inr ())"
  by (auto simp: res_simps not_le)

lemma tree_JStr: "tree d (JStr s) = Inr () \<longleftrightarrow> (\<forall>c \<in> set s. \<not> surrogate c)"
  by (auto simp: res_simps)

lemma tree_dset:
  assumes "tree d v = Inr ()" and "tree 0 (JStr k) = Inr ()" and "tree (Suc d) x = Inr ()"
  shows "tree d (dset v k x) = Inr ()"
  using assms by (cases v) (auto simp: dset_def tree_JObj simp del: tree.simps(1,3) dest!: subsetD [OF set_alist_update])

lemma tree_at: "tree d v = Inr () \<Longrightarrow> tree (Suc d) (at v k) = Inr ()"
  by (cases v) (auto simp: at_def get_or_def dget_def tree_JObj simp del: tree.simps(1,3) split: option.splits dest!: map_of_SomeD)

lemma tree_append:
  assumes "tree d v = Inr ()" and "is_list v" and "tree (Suc d) x = Inr ()"
  shows "tree d (JList (elements v @ [x])) = Inr ()"
  using assms by (cases v) (auto simp: res_simps elements_def)

lemma wf_append: "wf_json v \<Longrightarrow> wf_json x \<Longrightarrow> wf_json (JList (elements v @ [x]))"
  by (cases v) (auto simp: elements_def)

text \<open>A scalar argument of an operation: a string without unpaired surrogates.\<close>

definition gate_text :: "json \<Rightarrow> bool" where
  "gate_text x \<longleftrightarrow> wf_json x \<and> (\<exists>s. x = JStr s) \<and> tree 0 x = Inr ()"

lemma gate_text_tree: "gate_text x \<Longrightarrow> tree d x = Inr ()"
  by (auto simp: gate_text_def tree_JStr simp del: tree.simps(1))

lemma gate_text_norm: "gate_text x \<Longrightarrow> norm x = x"
  by (auto simp: gate_text_def)

lemma gate_doc_shape: "gate_doc node v \<Longrightarrow> gate_shape node v \<and> gate_names_ok v \<and> gate_owner_ok v \<and> wf_json v \<and> tree 0 v = Inr ()"
  by (simp add: gate_doc_def validate_gate_iff)

lemma retired_norm: "gate_names_ok v \<Longrightarrow> norm ` set (elements (at v ''retired_owners'')) = set (elements (at v ''retired_owners''))"
proof -
  assume "gate_names_ok v"
  then have "norm x = x" if "x \<in> set (elements (at v ''retired_owners''))" for x
    using that by (auto simp: gate_names_ok_def res_simps dest!: gate_identifier_JStr)
  then show ?thesis by (simp cong: image_cong)
qed

definition gate_small :: "json \<Rightarrow> bool" where
  "gate_small v = (int_of (fld v ''sequence'') < MAX_SAFE_INTEGER)"

lemmas change_simps = tree_dset wf_json_dset tree_at wf_json_at tree_jlit wf_json_obj tree_obj

lemma gate_text_ok: "gate_text x \<Longrightarrow> wf_json x \<and> (\<forall>d. tree d x = Inr ())"
  by (simp add: gate_text_tree) (simp add: gate_text_def)

lemma doc_dupdate:
  assumes "wf_json v \<and> tree 0 v = Inr ()" and "\<forall>(k, x) \<in> set cs. (\<exists>s. k = lit s) \<and> wf_json x \<and> tree 1 x = Inr ()"
  shows "wf_json (dupdate v cs) \<and> tree 0 (dupdate v cs) = Inr ()"
  using assms
proof (induction cs arbitrary: v)
  case (Cons c cs)
  obtain k x where c: "c = (k, x)" by (cases c)
  have "wf_json (dset v k x) \<and> tree 0 (dset v k x) = Inr ()"
    using Cons.prems tree_jlit by (auto simp: c intro!: wf_json_dset tree_dset simp del: tree.simps(1))
  with Cons show ?case by (simp add: c)
qed simp

lemma tree_next_sequence: "gate_shape node v \<Longrightarrow> gate_small v \<Longrightarrow> tree d (next_sequence v) = Inr ()"
  by (simp add: gate_shape_def gate_small_def next_sequence_def res_simps)

lemma wf_next_sequence [simp]: "wf_json (next_sequence v)"
  by (simp add: next_sequence_def)

text \<open>What a stored change of a well-formed record must satisfy.\<close>

definition good_change :: "json \<Rightarrow> json \<Rightarrow> bool" where
  "good_change v v' \<longleftrightarrow> wf_json v' \<and> tree 0 v' = Inr () \<and> (barrier_of v' = barrier_of v \<or> barrier_step (barrier_of v) (barrier_of v'))"

lemma when_expected_Store: "when_expected v expect c = Store v' r \<longleftrightarrow> expected_marker v expect \<and> c = Store v' r"
  by (simp add: when_expected_def conflict_def)

lemma close_good:
  assumes doc: "gate_doc node v" and small: "gate_small v" and owner: "gate_text owner"
    and change: "close_change owner expect v = Store v' r"
  shows "good_change v v'"
proof -
  note sh = gate_doc_shape [OF doc]
  have v': "v' = dupdate v [(lit ''state'', jlit ''CLOSED''), (lit ''owner'', owner), (lit ''sequence'', next_sequence v),
      (lit ''last_transition'', obj [(''kind'', jlit ''close''), (''owner'', owner)])]"
    and opened: "at v ''state'' = jlit ''OPEN''" and new: "owner \<notin> set (elements (at v ''retired_owners''))"
    using change by (auto simp: close_change_def when_expected_Store conflict_def Let_def split: if_splits)
  have dict: "is_dict v" using sh by (simp add: gate_shape_def)
  have tr: "wf_json v' \<and> tree 0 v' = Inr ()"
    unfolding v' using sh small gate_text_ok [OF owner] tree_next_sequence [of node v]
    by (intro doc_dupdate) (simp_all add: wf_json_obj tree_obj MAX_DEPTH_def tree_jlit del: tree.simps(1))
  have "barrier_of v' = (barrier_of v)\<lparr>b_closed := True, b_owner := owner, b_sequence := b_sequence (barrier_of v) + 1\<rparr>"
    using dict gate_text_norm [OF owner] by (simp add: v' barrier_of_def next_sequence_def)
  moreover have "barrier_step (barrier_of v) \<dots>"
    using opened new sh by (intro barrier_step.close) (auto simp: barrier_of_def retired_norm)
  ultimately show ?thesis using tr by (simp add: good_change_def)
qed

lemma retire_simps:
  assumes "is_dict v"
  shows "is_dict (retire v x)"
    and "at (retire v x) k = (if k = ''retired_owners'' then JList (elements (at v ''retired_owners'') @ [x]) else at v k)"
    and "k \<noteq> ''retired_owners'' \<Longrightarrow> fld (retire v x) k = fld v k"
  using assms by (simp_all add: retire_def)

lemma retire_wf: "wf_json v \<Longrightarrow> wf_json x \<Longrightarrow> wf_json (retire v x)"
  unfolding retire_def by (intro wf_json_dset wf_append wf_json_at) simp_all

lemma retire_tree: "tree 0 v = Inr () \<Longrightarrow> is_list (at v ''retired_owners'') \<Longrightarrow> gate_text x \<Longrightarrow> tree 0 (retire v x) = Inr ()"
  using gate_text_tree [of x "Suc (Suc 0)"] tree_at [of 0 v "''retired_owners''"] unfolding retire_def
  by (intro tree_dset tree_append tree_jlit) simp_all

lemma elements_JList [simp]: "elements (JList xs) = xs"
  by (simp add: elements_def)

lemma release_good:
  assumes doc: "gate_doc node v" and small: "gate_small v"
    and texts: "gate_text owner" "gate_text decision_id" "gate_text deployment"
    and change: "release_change owner decision_id deployment expect v = Store v' r"
  shows "good_change v v'"
proof -
  note sh = gate_doc_shape [OF doc]
  define u where "u = dupdate v [(lit ''state'', jlit ''OPEN''), (lit ''owner'', JNull), (lit ''decision_id'', decision_id),
     (lit ''deployment_digest'', deployment), (lit ''sequence'', next_sequence v),
     (lit ''last_transition'', obj [(''kind'', jlit ''release''), (''owner'', owner), (''decision_id'', decision_id), (''deployment_digest'', deployment)])]"
  have v': "v' = retire u owner" and shut: "at v ''state'' = jlit ''CLOSED''" "at v ''owner'' = owner"
    using change by (auto simp: release_change_def when_expected_Store conflict_def Let_def u_def split: if_splits)
  have dict: "is_dict v" "is_dict u" using sh by (simp_all add: gate_shape_def u_def)
  have "wf_json u \<and> tree 0 u = Inr ()"
    unfolding u_def using sh small texts [THEN gate_text_ok] tree_next_sequence [of node v]
    by (intro doc_dupdate) (simp_all add: wf_json_obj tree_obj MAX_DEPTH_def tree_jlit del: tree.simps(1))
  moreover have "is_list (at u ''retired_owners'')"
    using sh dict by (simp add: u_def gate_shape_def)
  ultimately have "wf_json u \<and> tree 0 u = Inr () \<and> is_list (at u ''retired_owners'')" by simp
  then have tr: "wf_json v' \<and> tree 0 v' = Inr ()"
    using texts(1) by (auto simp: v' intro!: retire_wf retire_tree simp: gate_text_def)
  have "barrier_of v' = (barrier_of v)\<lparr>b_closed := False, b_owner := JNull, b_sequence := b_sequence (barrier_of v) + 1,
      b_decision := decision_id, b_deployment := deployment, b_retired := insert (b_owner (barrier_of v)) (b_retired (barrier_of v))\<rparr>"
    using dict texts [THEN gate_text_norm] shut
    by (simp add: v' barrier_of_def retire_simps) (simp add: u_def next_sequence_def)
  moreover have "barrier_step (barrier_of v) \<dots>"
    using shut by (intro barrier_step.release) (simp add: barrier_of_def)
  ultimately show ?thesis using tr by (simp add: good_change_def)
qed

lemma handoff_good:
  assumes doc: "gate_doc node v" and small: "gate_small v" and texts: "gate_text owner" "gate_text successor" and other: "owner \<noteq> successor"
    and change: "handoff_change owner successor expect v = Store v' r"
  shows "good_change v v'"
proof -
  note sh = gate_doc_shape [OF doc]
  define u where "u = dupdate v [(lit ''owner'', successor), (lit ''sequence'', next_sequence v),
     (lit ''last_transition'', obj [(''kind'', jlit ''handoff''), (''owner'', owner), (''successor'', successor)])]"
  have v': "v' = retire u owner" and shut: "at v ''state'' = jlit ''CLOSED''" "at v ''owner'' = owner"
    and new: "successor \<notin> set (elements (at v ''retired_owners''))"
    using change by (auto simp: handoff_change_def when_expected_Store conflict_def Let_def u_def split: if_splits)
  have dict: "is_dict v" "is_dict u" using sh by (simp_all add: gate_shape_def u_def)
  have "wf_json u \<and> tree 0 u = Inr ()"
    unfolding u_def using sh small texts [THEN gate_text_ok] tree_next_sequence [of node v]
    by (intro doc_dupdate) (simp_all add: wf_json_obj tree_obj MAX_DEPTH_def tree_jlit del: tree.simps(1))
  moreover have "is_list (at u ''retired_owners'')"
    using sh dict by (simp add: u_def gate_shape_def)
  ultimately have "wf_json u \<and> tree 0 u = Inr () \<and> is_list (at u ''retired_owners'')" by simp
  then have tr: "wf_json v' \<and> tree 0 v' = Inr ()"
    using texts(1) by (auto simp: v' intro!: retire_wf retire_tree simp: gate_text_def)
  have "barrier_of v' = (barrier_of v)\<lparr>b_owner := successor, b_sequence := b_sequence (barrier_of v) + 1,
      b_retired := insert (b_owner (barrier_of v)) (b_retired (barrier_of v))\<rparr>"
    using dict texts [THEN gate_text_norm] shut
    by (simp add: v' barrier_of_def retire_simps) (simp add: u_def next_sequence_def)
  moreover have "barrier_step (barrier_of v) \<dots>"
    using shut new other sh texts [THEN gate_text_norm]
    by (intro barrier_step.handoff) (auto simp: barrier_of_def retired_norm)
  ultimately show ?thesis using tr by (simp add: good_change_def)
qed

lemma code_points_sha256: "code_points (sha256_hex m)"
  using sha256_hex_digits [of _ m] by (fastforce simp: code_points_def is_hex_digit_def)

lemma barrier_put_duty:
  assumes "gate_shape node v"
  shows "barrier_of (put_duty v i item) = (barrier_of v)\<lparr>b_duty := (b_duty (barrier_of v))(i \<mapsto> duty_abs item)\<rparr>"
  using assms by (simp add: gate_shape_def put_duty_def barrier_of_def fun_eq_iff)

lemma put_duty_doc:
  assumes doc: "gate_doc node v" and i: "code_points i" "tree 0 (JStr i) = Inr ()" and item: "wf_json item" "tree 2 item = Inr ()"
  shows "wf_json (put_duty v i item) \<and> tree 0 (put_duty v i item) = Inr ()"
  using gate_doc_shape [OF doc] i item tree_at [of 0 v "''responsibilities''"] tree_jlit unfolding put_duty_def
  by (auto intro!: wf_json_dset tree_dset wf_json_at simp: numeral_2_eq_2 simp del: tree.simps(1))

lemma sequence_tree: "gate_doc node v \<Longrightarrow> wf_json (at v ''sequence'') \<and> tree d (at v ''sequence'') = Inr ()"
  using gate_doc_shape [of node v] tree_at [of 0 v "''sequence''"] by (auto simp: gate_shape_def is_type_iffs)

lemma compatibility_good:
  assumes doc: "gate_doc node v" and owner: "gate_text owner" and docs: "wf_json prepared" "tree 3 prepared = Inr ()"
      "wf_json target_loaded" "tree 3 target_loaded = Inr ()" and target: "gate_text target_digest"
    and change: "compatibility_change owner prepared target_digest target_loaded v = Store v' r"
  shows "good_change v v'"
proof -
  note sh = gate_doc_shape [OF doc]
  define decision where "decision = obj [(''owner'', owner), (''prepared'', prepared), (''target_deployment_digest'', target_digest), (''target_loaded'', target_loaded)]"
  have v': "v' = dset v (lit ''compatibility'') (dset (at v ''compatibility'') (gate_digest prepared) decision)"
    using change by (auto simp: compatibility_change_def conflict_def Let_def decision_def split: if_splits option.splits)
  have "wf_json decision \<and> tree 2 decision = Inr ()"
    using docs gate_text_ok [OF owner] gate_text_ok [OF target]
    by (simp add: decision_def wf_json_obj tree_obj MAX_DEPTH_def numeral_3_eq_3)
  moreover have "tree 0 (JStr (gate_digest prepared)) = Inr () \<and> code_points (gate_digest prepared)"
    using tree_sha256 [of 0] by (simp add: gate_digest_def code_points_sha256 del: tree.simps(1))
  ultimately have "wf_json v' \<and> tree 0 v' = Inr ()"
    using sh tree_at [of 0 v "''compatibility''"] tree_jlit unfolding v'
    by (auto intro!: wf_json_dset tree_dset wf_json_at simp: numeral_2_eq_2 simp del: tree.simps(1))
  moreover have "barrier_of v' = barrier_of v"
    using sh by (simp add: v' barrier_of_def gate_shape_def)
  ultimately show ?thesis by (simp add: good_change_def)
qed

lemma accept_good:
  assumes doc: "gate_doc node v" and fresh: "dget (at v ''responsibilities'') i = None" and hex: "\<forall>c \<in> set i. is_hex_digit c"
    and kind: "kind \<in> {jlit ''prepare'', jlit ''execute''}" and texts: "gate_text operation_id" "gate_text attempt_id"
    and docs: "wf_json binding" "tree 3 binding = Inr ()" "wf_json loaded" "tree 3 loaded = Inr ()"
    and change: "accept_change now i kind operation_id attempt_id binding loaded authorization prepared v = Store v' r"
  shows "good_change v v'"
proof -
  define item where "item = new_duty i kind operation_id attempt_id binding loaded (at v ''sequence'')"
  have v': "v' = put_duty v i item" and opened: "at v ''state'' = jlit ''OPEN''"
    using change by (auto simp: accept_change_def checked_def conflict_def Let_def item_def split: if_splits sum.splits list.splits)
  have i: "code_points i" "tree 0 (JStr i) = Inr ()"
    using hex by (auto simp: code_points_def tree_JStr surrogate_def is_hex_digit_def is_digit_def simp del: tree.simps(1))
  have "wf_json item \<and> tree 2 item = Inr ()"
    using docs texts [THEN gate_text_ok] sequence_tree [OF doc] i kind tree_sha256 tree_jlit
    by (auto simp: item_def new_duty_def wf_json_obj tree_obj MAX_DEPTH_def numeral_3_eq_3 gate_digest_def code_points_sha256 tree_JStr simp del: tree.simps(1))
  then have "wf_json v' \<and> tree 0 v' = Inr ()" unfolding v' using doc i by (intro put_duty_doc) auto
  moreover have "duty_abs item = (map (\<lambda>k. norm (at item k)) ORIGINAL_KEYS, 0, JNull)"
    by (simp add: duty_abs_def duty_rank_def item_def new_duty_def at_def get_or_def obj_def)
  then have "barrier_step (barrier_of v) (barrier_of v')"
    using opened fresh unfolding v' barrier_put_duty [OF gate_doc_shape [OF doc, THEN conjunct1]]
    by (simp only:) (rule barrier_step.admit; simp add: barrier_of_def)
  ultimately show ?thesis by (simp add: good_change_def)
qed

lemma find_receipt_Inr:
  "find_receipt v receipt = Inr (i, item) \<Longrightarrow> dget (at v ''responsibilities'') i = Some item"
  by (auto simp: find_receipt_def split: if_splits json.splits option.splits)

lemma duty_doc:
  assumes doc: "gate_doc node v" and item: "dget (at v ''responsibilities'') i = Some item"
  shows "wf_json item" "tree 2 item = Inr ()" "code_points i" "tree 0 (JStr i) = Inr ()" "validate_duty node (int_of (fld v ''sequence'')) (i, item) = Inr ()"
proof -
  note sh = gate_doc_shape [OF doc]
  obtain kvs where kvs: "at v ''responsibilities'' = JObj kvs" using sh by (auto simp: gate_shape_def is_dict_iff)
  have member: "(i, item) \<in> set kvs" using item by (simp add: kvs map_of_SomeD)
  have "wf_json (JObj kvs)" "tree 1 (JObj kvs) = Inr ()"
    using sh tree_at [of 0 v "''responsibilities''"] wf_json_at [of v "''responsibilities''"] by (simp_all add: kvs)
  with member show "wf_json item" "tree 2 item = Inr ()" "code_points i" "tree 0 (JStr i) = Inr ()"
    by (auto simp: tree_JObj numeral_2_eq_2 simp del: tree.simps(1,3))
  show "validate_duty node (int_of (fld v ''sequence'')) (i, item) = Inr ()"
    using doc member by (auto simp: gate_doc_def validate_gate_iff duties_ok_def kvs items_def)
qed

lemma validate_duty_dict: "validate_duty node n (i, item) = Inr () \<Longrightarrow>
    is_dict item \<and> at item ''state'' \<in> {jlit ''ACCEPTED'', jlit ''DISPATCHING'', jlit ''CLOSED''}"
  by (simp add: validate_duty_def thenE_Inr_iff bindE_Inr_iff value_unless_Inr in_names_Inr)

lemma dispatch_good:
  assumes doc: "gate_doc node v" and change: "dispatch_change now receipt authorization v = Store v' r"
  shows "good_change v v'"
proof -
  from change obtain i item where found: "find_receipt v receipt = Inr (i, item)"
    and v': "v' = put_duty v i (dset item (lit ''state'') (jlit ''DISPATCHING''))" and state: "at item ''state'' = jlit ''ACCEPTED''"
    by (auto simp: dispatch_change_def checked_def Let_def split: if_splits sum.splits)
  note item = find_receipt_Inr [OF found]
  note d = duty_doc [OF doc item]
  have dict: "is_dict item" using d(5) validate_duty_dict by blast
  have "wf_json (dset item (lit ''state'') (jlit ''DISPATCHING'')) \<and> tree 2 (dset item (lit ''state'') (jlit ''DISPATCHING'')) = Inr ()"
    using d tree_jlit by (auto intro!: wf_json_dset tree_dset simp del: tree.simps(1))
  then have "wf_json v' \<and> tree 0 v' = Inr ()" unfolding v' using doc d by (intro put_duty_doc) auto
  moreover have "barrier_step (barrier_of v) (barrier_of v')"
  proof -
    have "duty_abs item = (fst (duty_abs item), 0, snd (snd (duty_abs item)))" by (simp add: duty_abs_def duty_rank_def state)
    then have "b_duty (barrier_of v) i = Some (fst (duty_abs item), 0, snd (snd (duty_abs item)))"
      by (simp add: barrier_of_def item)
    moreover have "duty_abs (dset item (lit ''state'') (jlit ''DISPATCHING'')) = (fst (duty_abs item), 1, snd (snd (duty_abs item)))"
      using dict by (simp add: duty_abs_def duty_rank_def ORIGINAL_KEYS_def)
    ultimately show ?thesis
      unfolding v' barrier_put_duty [OF gate_doc_shape [OF doc, THEN conjunct1]] by (simp only: barrier_step.dispatch)
  qed
  ultimately show ?thesis by (simp add: good_change_def)
qed

lemma finish_good:
  assumes doc: "gate_doc node v" and proof_doc: "wf_json p" "tree 3 p = Inr ()" and change: "finish_change receipt p v = Store v' r"
  shows "good_change v v'"
proof -
  from change obtain i item where found: "find_receipt v receipt = Inr (i, item)" and state: "at item ''state'' \<noteq> jlit ''CLOSED''"
    and v': "v' = put_duty v i (dupdate item [(lit ''state'', jlit ''CLOSED''), (lit ''proof'', p)])"
    by (auto simp: finish_change_def conflict_def Let_def split: if_splits sum.splits)
  note item = find_receipt_Inr [OF found]
  note d = duty_doc [OF doc item]
  have shape: "is_dict item \<and> at item ''state'' \<in> {jlit ''ACCEPTED'', jlit ''DISPATCHING'', jlit ''CLOSED''}"
    using d(5) by (rule validate_duty_dict)
  have "wf_json (dupdate item [(lit ''state'', jlit ''CLOSED''), (lit ''proof'', p)]) \<and>
      tree 2 (dupdate item [(lit ''state'', jlit ''CLOSED''), (lit ''proof'', p)]) = Inr ()"
    using d proof_doc tree_jlit by (auto intro!: wf_json_dset tree_dset simp: numeral_3_eq_3 numeral_2_eq_2 simp del: tree.simps(1))
  then have "wf_json v' \<and> tree 0 v' = Inr ()" unfolding v' using doc d by (intro put_duty_doc) auto
  moreover have "barrier_step (barrier_of v) (barrier_of v')"
  proof -
    have "b_duty (barrier_of v) i = Some (fst (duty_abs item), duty_rank item, snd (snd (duty_abs item)))"
      by (simp add: barrier_of_def item duty_abs_def)
    moreover have "duty_rank item < 2" using shape state by (auto simp: duty_rank_def)
    moreover have "duty_abs (dupdate item [(lit ''state'', jlit ''CLOSED''), (lit ''proof'', p)]) = (fst (duty_abs item), 2, norm p)"
      using shape by (simp add: duty_abs_def duty_rank_def ORIGINAL_KEYS_def)
    ultimately show ?thesis
      unfolding v' barrier_put_duty [OF gate_doc_shape [OF doc, THEN conjunct1]] by (simp only: barrier_step.finish)
  qed
  ultimately show ?thesis by (simp add: good_change_def)
qed

end
