(* ===== verification/Barrier.thy ===== *)
theory Barrier
  imports MaintenanceProps BudgetProps
begin

text \<open>
  The operations of the maintenance gate against the abstract barrier: one rule for what happens under the
  lock, interpreted for every operation, then the refinement of every public call and what holds along
  every history of calls.
\<close>

text \<open>The file holds a record that is the abstract state of \<open>v\<close> or one step after it.\<close>

definition refined :: "json \<Rightarrow> gate_file \<Rightarrow> json \<Rightarrow> bool" where
  "refined node g v \<longleftrightarrow> (\<exists>w. gate_holds node g w \<and> (barrier_of w = barrier_of v \<or> barrier_step (barrier_of v) (barrier_of w)))"

lemma refined_refl: "gate_holds node g v \<Longrightarrow> refined node g v"
  by (auto simp: refined_def)

section \<open>One rule for every operation\<close>

text \<open>
  The interface between an operation and the gate that runs it: on a well-formed record that satisfies the
  precondition, what the operation asks to store is well-formed and is one abstract step.
\<close>

locale gate_operation =
  fixes node :: json and change :: "json \<Rightarrow> gate_change" and pre :: "json \<Rightarrow> bool"
  assumes good: "gate_doc node v \<Longrightarrow> pre v \<Longrightarrow> change v = Store v' r \<Longrightarrow> good_change v v'"
begin

lemma write_refines:
  assumes holds: "gate_holds node g v" and good_v: "good_change v v'"
  shows "refined node (snd (gate_write node os v' g)) v"
proof (cases "snd (gate_write node os v' g) = g")
  case True
  then show ?thesis using holds by (auto simp: refined_def)
next
  case False
  then have "gate_holds node (snd (gate_write node os v' g)) v'"
    using good_v by (auto simp: gate_write_def gate_holds_def gate_doc_def good_change_def Let_def
        split: sum.splits if_splits write_outcome.splits)
  then show ?thesis using good_v by (auto simp: refined_def good_change_def)
qed

lemma apply_refines:
  assumes holds: "gate_holds node g v" and pre: "pre (sort_keys v)"
  shows "refined node (snd (gate_apply node os (change (sort_keys v)) g)) v"
proof (cases "change (sort_keys v)")
  case (Store v' r)
  have doc: "gate_doc node v" using holds by (simp add: gate_holds_def)
  have "good_change (sort_keys v) v'" using good [OF gate_doc_sort_keys [OF doc] pre Store] .
  then have "good_change v v'" using doc by (simp add: good_change_def gate_doc_def barrier_of_sort_keys)
  from write_refines [OF holds this, of os] show ?thesis
    by (auto simp: gate_apply_def Store split: prod.splits)
qed (use holds in \<open>auto simp: gate_apply_def refined_def\<close>)

theorem under_lock_refines:
  assumes holds: "gate_holds node g v" and pre: "pre (sort_keys v)"
  shows "refined node (snd (under_lock node os change g)) v"
proof -
  have "refined node g v" using holds by (auto simp: refined_def)
  moreover have "refined node (snd (gate_apply node os (change (sort_keys v)) g)) v" using assms by (rule apply_refines)
  moreover have "gate_read node os g = Inr (sort_keys v)" if "\<not> record_unprotected os"
    using holds that by (rule gate_read_holds)
  moreover have "\<exists>e. gate_read node os g = Inl e" if "record_unprotected os"
    using holds that by (auto simp: gate_holds_def gate_read_def as_invalid_record_def raise_if_def thenE_def gate_unknown_def)
  ultimately show ?thesis
    by (cases "record_unprotected os") (auto simp: under_lock_def locked_def split: prod.splits)
qed

end

interpretation closing: gate_operation node "close_change owner expect" "\<lambda>v. gate_small v \<and> gate_text owner" for node owner expect
  by unfold_locales (auto intro: close_good)

interpretation releasing: gate_operation node "release_change owner d p expect"
  "\<lambda>v. gate_small v \<and> gate_text owner \<and> gate_text d \<and> gate_text p" for node owner d p expect
  by unfold_locales (auto intro: release_good)

interpretation handing: gate_operation node "handoff_change owner successor expect"
  "\<lambda>v. gate_small v \<and> gate_text owner \<and> gate_text successor \<and> owner \<noteq> successor" for node owner successor expect
  by unfold_locales (auto intro: handoff_good)

text \<open>A document argument: it can be nested where the record has it.\<close>

definition gate_value :: "json \<Rightarrow> bool" where
  "gate_value x \<longleftrightarrow> wf_json x \<and> tree 3 x = Inr ()"

interpretation deciding: gate_operation node "compatibility_change owner prepared p loaded"
  "\<lambda>v. gate_text owner \<and> gate_text p \<and> gate_value prepared \<and> gate_value loaded" for node owner prepared p loaded
  by unfold_locales (auto intro: compatibility_good simp: gate_value_def)

interpretation accepting: gate_operation node "accept_change now i kind operation_id attempt_id binding loaded authorization prepared"
  "\<lambda>v. dget (at v ''responsibilities'') i = None \<and> (\<forall>c \<in> set i. is_hex_digit c) \<and> kind \<in> {jlit ''prepare'', jlit ''execute''} \<and>
     gate_text operation_id \<and> gate_text attempt_id \<and> gate_value binding \<and> gate_value loaded"
  for node now i kind operation_id attempt_id binding loaded authorization prepared
  by unfold_locales (rule accept_good, auto simp: gate_value_def)

interpretation dispatching: gate_operation node "dispatch_change now receipt authorization" "\<lambda>v. True" for node now receipt authorization
  by unfold_locales (auto intro: dispatch_good)

interpretation finishing: gate_operation node "finish_change receipt p" "\<lambda>v. gate_value p" for node receipt p
  by unfold_locales (auto intro: finish_good simp: gate_value_def)

section \<open>The public calls\<close>

datatype gate_op =
    Initialize json json bool
  | Close json json
  | Release json json json json
  | Handoff json json json
  | Compatibility json json json json
  | Accept int pystr json json json json json "principal option" json
  | Dispatch int json "principal option"
  | Finish json json

fun gate_run :: "json \<Rightarrow> gate_os \<Rightarrow> gate_op \<Rightarrow> gate_file \<Rightarrow> json res \<times> gate_file" where
  "gate_run node os (Initialize p d bootstrap) = initialize node os p d bootstrap"
| "gate_run node os (Close owner expect) = close_gate node os owner expect"
| "gate_run node os (Release owner d p expect) = release_gate node os owner d p expect"
| "gate_run node os (Handoff owner successor expect) = handoff node os owner successor expect"
| "gate_run node os (Compatibility owner prepared p loaded) = authorize_compatibility node os owner prepared p loaded"
| "gate_run node os (Accept now i kind operation_id attempt_id binding loaded authorization prepared) =
     accept node os now i kind operation_id attempt_id binding loaded authorization prepared"
| "gate_run node os (Dispatch now receipt authorization) = dispatch node os now receipt authorization"
| "gate_run node os (Finish receipt p) = finish_duty node os receipt p"

text \<open>
  What a caller and the environment guarantee: strings without unpaired surrogates, documents the strict decoder
  would admit where they are stored, a sequence number that can still be counted up, and a new identity from
  \<open>uuid4().hex\<close> that is not in use.
\<close>

fun op_ok :: "gate_op \<Rightarrow> json \<Rightarrow> bool" where
  "op_ok (Initialize p d bootstrap) v = True"
| "op_ok (Close owner expect) v = (gate_small v \<and> gate_text owner)"
| "op_ok (Release owner d p expect) v = (gate_small v \<and> gate_text owner \<and> gate_text d \<and> gate_text p)"
| "op_ok (Handoff owner successor expect) v = (gate_small v \<and> gate_text owner \<and> gate_text successor)"
| "op_ok (Compatibility owner prepared p loaded) v = (gate_text owner \<and> gate_text p \<and> gate_value prepared \<and> gate_value loaded)"
| "op_ok (Accept now i kind operation_id attempt_id binding loaded authorization prepared) v =
     (dget (at v ''responsibilities'') i = None \<and> (\<forall>c \<in> set i. is_hex_digit c) \<and>
      gate_text operation_id \<and> gate_text attempt_id \<and> gate_value binding \<and> gate_value loaded)"
| "op_ok (Dispatch now receipt authorization) v = True"
| "op_ok (Finish receipt p) v = gate_value p"

lemma gate_small_sort_keys [simp]: "wf_json v \<Longrightarrow> gate_small (sort_keys v) = gate_small v"
  by (simp add: gate_small_def fld_sort_keys_int)

lemma dget_duties_sort_keys: "wf_json v \<Longrightarrow> dget (at (sort_keys v) ''responsibilities'') i = None \<longleftrightarrow> dget (at v ''responsibilities'') i = None"
  by (simp add: at_sort_keys dget_sort_keys wf_json_at)

lemma initialize_refines: "gate_holds node g v \<Longrightarrow> refined node (snd (initialize node os p d bootstrap g)) v"
proof -
  assume holds: "gate_holds node g v"
  then obtain raw where "g = Some raw" by (auto simp: gate_holds_def)
  then have "gate_read node os g \<noteq> Inl (PyError ''FileNotFoundError'')"
    using gate_read_holds [OF holds, of os]
    by (cases "record_unprotected os") (auto simp: gate_read_def as_invalid_record_def gate_unknown_def thenE_def raise_if_def)
  then have "snd (initialize node os p d bootstrap g) = g"
    by (auto simp: initialize_def locked_def gate_apply_def conflict_def split: sum.splits prod.splits if_splits)
  then show ?thesis using refined_refl [OF holds] by simp
qed

lemma in_names_kind: "in_names kind [''prepare'', ''execute''] = Inr True \<Longrightarrow> kind \<in> {jlit ''prepare'', jlit ''execute''}"
  by (auto simp: in_names_def split: if_splits)

lemma gate_run_refined:
  assumes holds: "gate_holds node g v" and ok: "op_ok op v"
  shows "refined node (snd (gate_run node os op g)) v"
proof -
  have wf: "wf_json v" using holds by (simp add: gate_holds_def gate_doc_def)
  note same = refined_refl [OF holds]
  show ?thesis
  proof (cases op)
    case (Close owner expect)
    then show ?thesis using closing.under_lock_refines [OF holds] same ok wf
      by (auto simp: close_gate_def split: sum.splits)
  next
    case (Release owner d p expect)
    then show ?thesis using releasing.under_lock_refines [OF holds] same ok wf
      by (auto simp: release_gate_def split: sum.splits)
  next
    case (Handoff owner successor expect)
    then have "owner \<noteq> successor \<Longrightarrow> refined node (snd (under_lock node os (handoff_change owner successor expect) g)) v"
      using handing.under_lock_refines [OF holds] ok wf by simp
    with Handoff same show ?thesis
      by (cases "owner = successor") (auto simp: handoff_def raise_if_def thenE_def split: sum.splits)
  next
    case (Compatibility owner prepared p loaded)
    then show ?thesis using deciding.under_lock_refines [OF holds] same ok
      by (auto simp: authorize_compatibility_def split: sum.splits)
  next
    case (Accept now i kind operation_id attempt_id binding loaded authorization prepared)
    have "refined node (snd (under_lock node os (accept_change now i kind operation_id attempt_id binding loaded authorization prepared) g)) v"
      if "kind \<in> {jlit ''prepare'', jlit ''execute''}"
      using Accept ok wf that by (intro accepting.under_lock_refines [OF holds]) (simp add: dget_duties_sort_keys)
    then show ?thesis using Accept same
      by (auto simp: accept_def bindE_def thenE_def raise_if_def split: sum.splits if_splits dest!: in_names_kind)
  next
    case (Dispatch now receipt authorization)
    then show ?thesis using dispatching.under_lock_refines [OF holds] by (simp add: dispatch_def)
  next
    case (Finish receipt p)
    then show ?thesis using finishing.under_lock_refines [OF holds] same ok
      by (auto simp: finish_duty_def split: sum.splits)
  qed (simp add: initialize_refines [OF holds])
qed

section \<open>Histories\<close>

inductive gate_step :: "json \<Rightarrow> gate_file \<Rightarrow> gate_file \<Rightarrow> bool" for node where
  call: "gate_holds node g v \<Longrightarrow> op_ok op v \<Longrightarrow> gate_step node g (snd (gate_run node os op g))"

text \<open>
  What only grows: the sequence number, the retired owners and the responsibilities, each of which keeps what it
  was accepted with, only moves forward and keeps its closure proof.  While the sequence number stays, so does
  the marker; and while that marker is closed, no responsibility is added.
\<close>

definition later :: "barrier \<Rightarrow> barrier \<Rightarrow> bool" where
  "later A B \<longleftrightarrow> b_sequence A \<le> b_sequence B \<and> b_retired A \<subseteq> b_retired B \<and>
     (\<forall>i b n p. b_duty A i = Some (b, n, p) \<longrightarrow> (\<exists>m q. b_duty B i = Some (b, m, q) \<and> n \<le> m \<and> (n = 2 \<longrightarrow> m = 2 \<and> q = p))) \<and>
     (b_sequence A = b_sequence B \<longrightarrow> b_closed A = b_closed B \<and> b_owner A = b_owner B \<and> b_decision A = b_decision B \<and>
        b_deployment A = b_deployment B \<and> (b_closed A \<longrightarrow> dom (b_duty B) = dom (b_duty A)))"

lemma later_refl: "later A A"
  by (auto simp: later_def)

lemma later_step: "barrier_step A B \<Longrightarrow> later A B"
  by (induction rule: barrier_step.induct) (auto simp: later_def)

lemma later_trans:
  assumes ab: "later A B" and bc: "later B C"
  shows "later A C"
proof -
  have "\<exists>m q. b_duty C i = Some (b, m, q) \<and> n \<le> m \<and> (n = 2 \<longrightarrow> m = 2 \<and> q = p)" if d: "b_duty A i = Some (b, n, p)" for i b n p
  proof -
    from ab d obtain m q where m: "b_duty B i = Some (b, m, q)" "n \<le> m" "n = 2 \<longrightarrow> m = 2 \<and> q = p"
      unfolding later_def by meson
    from bc m(1) obtain k r where "b_duty C i = Some (b, k, r)" "m \<le> k" "m = 2 \<longrightarrow> k = 2 \<and> r = q"
      unfolding later_def by meson
    with m show ?thesis by auto
  qed
  moreover have "b_sequence A \<le> b_sequence B" "b_sequence B \<le> b_sequence C" using ab bc by (simp_all add: later_def)
  ultimately show ?thesis using ab bc unfolding later_def by (auto simp del: dom_def)
qed

lemma history_later:
  assumes "(gate_step node)\<^sup>*\<^sup>* g g'" and "gate_holds node g v"
  shows "\<exists>w. gate_holds node g' w \<and> later (barrier_of v) (barrier_of w)"
  using assms
proof (induction rule: rtranclp_induct)
  case base
  then show ?case using later_refl by blast
next
  case (step g1 g2)
  then obtain u where u: "gate_holds node g1 u" "later (barrier_of v) (barrier_of u)" by blast
  from step.hyps(2) obtain v1 op os where v1: "gate_holds node g1 v1" "op_ok op v1" "g2 = snd (gate_run node os op g1)"
    by (cases rule: gate_step.cases) auto
  have "u = v1 \<or> sort_keys u = sort_keys v1"
    using gate_read_holds [OF u(1), of "\<lparr>lock_fails = False, record_unprotected = False, write_outcome = Written, confirm_fails = False\<rparr>"]
      gate_read_holds [OF v1(1), of "\<lparr>lock_fails = False, record_unprotected = False, write_outcome = Written, confirm_fails = False\<rparr>"] by simp
  then have same: "barrier_of u = barrier_of v1"
    using u(1) v1(1) barrier_of_sort_keys unfolding gate_holds_def gate_doc_def by metis
  from gate_run_refined [OF v1(1,2), of os] obtain w where "gate_holds node g2 w" "later (barrier_of v1) (barrier_of w)"
    unfolding refined_def v1(3) using later_step later_refl by metis
  then show ?case using later_trans u(2) same by metis
qed

lemma owner_not_retired: "gate_holds node g v \<Longrightarrow> b_closed (barrier_of v) \<Longrightarrow> b_owner (barrier_of v) \<notin> b_retired (barrier_of v)"
  using gate_doc_shape [of node v]
  by (auto simp: gate_holds_def barrier_of_def gate_owner_ok_def retired_norm dest!: gate_identifier_JStr)

section \<open>The bootstrap\<close>

lemma initial_doc:
  assumes "gate_text node" "gate_text d" "gate_text p" and "gate_hex p = Inr ()" "gate_identifier d = Inr ()"
  shows "gate_doc node (gate_initial node p d)"
proof -
  let ?v = "gate_initial node p d"
  note texts = assms(1-3) [THEN gate_text_ok]
  have dict: "is_dict ?v" by (simp add: gate_initial_def obj_def)
  have at: "at ?v ''schema'' = jlit GATE_SCHEMA" "at ?v ''node_id'' = node" "at ?v ''state'' = jlit ''OPEN''" "fld ?v ''sequence'' = Some (JInt 1)"
    "at ?v ''sequence'' = JInt 1" "at ?v ''owner'' = JNull" "at ?v ''decision_id'' = d" "at ?v ''deployment_digest'' = p" "at ?v ''responsibilities'' = JObj []"
    "at ?v ''compatibility'' = JObj []" "at ?v ''last_transition'' = JNull" "at ?v ''retired_owners'' = JList []"
    by (simp_all add: gate_initial_def obj_def at_def get_or_def)
  have keys: "has_keys ?v GATE_KEYS" by (simp add: has_keys_def gate_initial_def obj_def jkeys_def GATE_KEYS_def)
  have "wf_json ?v \<and> tree 0 ?v = Inr ()"
    using texts by (simp add: gate_initial_def wf_json_obj tree_obj MAX_DEPTH_def tree_jlit MAX_SAFE_INTEGER_def raise_if_def thenE_def del: tree.simps(1))
  moreover have "validate_gate node ?v = Inr ()"
    using dict keys assms(4,5) by (simp add: validate_gate_iff gate_shape_def gate_names_ok_def gate_owner_ok_def duties_ok_def compatible_ok_def
        validate_transition_def at items_def res_simps)
  ultimately show ?thesis by (simp add: gate_doc_def)
qed

lemma initialize_holds:
  assumes texts: "gate_text node" "gate_text d" "gate_text p" and names: "gate_hex p = Inr ()" "gate_identifier d = Inr ()"
    and size: "length (canonical_bytes (gate_initial node p d)) < MAX_STATE_BYTES"
    and os: "\<not> lock_fails os" "write_outcome os = Written"
  shows "gate_holds node (snd (initialize node os p d True None)) (gate_initial node p d)"
  using initial_doc [OF texts names] size os names
  by (simp add: initialize_def locked_def gate_read_def gate_apply_def gate_write_def gate_holds_def gate_doc_def thenE_def Let_def)

section \<open>Repeated calls\<close>

fun marker_change :: "gate_op \<Rightarrow> (json \<Rightarrow> gate_change) option" where
  "marker_change (Close owner expect) = Some (close_change owner expect)"
| "marker_change (Release owner d p expect) = Some (release_change owner d p expect)"
| "marker_change (Handoff owner successor expect) = Some (handoff_change owner successor expect)"
| "marker_change _ = None"

text \<open>A call that moves the marker either fails on its arguments or runs its change under the lock.\<close>

lemma marker_run:
  assumes "marker_change op = Some change"
  shows "(\<exists>e. \<forall>os g. gate_run node os op g = (Inl e, g)) \<or> (\<forall>os g. gate_run node os op g = under_lock node os change g)"
  using assms
proof (cases op)
  case (Close owner expect)
  with assms show ?thesis by (cases "gate_identifier owner") (auto simp: close_gate_def)
next
  case (Release owner d p expect)
  with assms show ?thesis
    by (cases "thenE (gate_identifier owner) (thenE (gate_identifier d) (gate_hex p))") (auto simp: release_gate_def)
next
  case (Handoff owner successor expect)
  with assms show ?thesis
    by (cases "thenE (gate_identifier owner) (thenE (gate_identifier successor)
         (raise_if (owner = successor) (JobError ''CONFLICT'' ''Maintenance successor must be a distinct operation'')))") (auto simp: handoff_def)
qed auto

lemma under_lock_changed:
  assumes holds: "gate_holds node g v" and run: "snd (under_lock node os change g) \<noteq> g"
  obtains v' r where "change (sort_keys v) = Store v' r" and "validate_gate node v' = Inr ()"
    and "snd (under_lock node os change g) = Some (canonical_bytes v' @ [10])" and "length (canonical_bytes v') < MAX_STATE_BYTES"
proof -
  have "\<not> record_unprotected os"
  proof
    assume "record_unprotected os"
    then have "\<exists>e. gate_read node os g = Inl e"
      using holds by (auto simp: gate_holds_def gate_read_def as_invalid_record_def raise_if_def thenE_def gate_unknown_def)
    with run show False by (auto simp: under_lock_def locked_def split: if_splits)
  qed
  then have read: "gate_read node os g = Inr (sort_keys v)" using holds by (rule gate_read_holds [rotated])
  show thesis
  proof (cases "change (sort_keys v)")
    case (Store v' r)
    then show thesis using run read that [OF Store]
      by (auto simp: under_lock_def locked_def gate_apply_def gate_write_def Let_def split: if_splits sum.splits write_outcome.splits prod.splits)
  qed (use run read in \<open>auto simp: under_lock_def locked_def gate_apply_def split: if_splits prod.splits\<close>)
qed

lemma gate_text_sorted: "gate_text x \<Longrightarrow> sort_keys x = x"
  by (auto simp: gate_text_def)

lemma marker_confirms:
  assumes "marker_change op = Some change" and ok: "op_ok op v" and dict: "is_dict u" and store: "change u = Store v' r" and wf: "wf_json v'"
  shows "change (sort_keys v') = Confirm (sort_keys v')"
proof (cases op)
  case (Close owner expect)
  with assms show ?thesis
    by (auto simp: close_change_def when_expected_Store conflict_def Let_def at_sort_keys gate_text_sorted split: if_splits)
next
  case (Release owner d p expect)
  with assms show ?thesis
    by (auto simp: release_change_def when_expected_Store conflict_def Let_def at_sort_keys gate_text_sorted retire_simps split: if_splits)
next
  case (Handoff owner successor expect)
  with assms show ?thesis
    by (auto simp: handoff_change_def when_expected_Store conflict_def Let_def at_sort_keys gate_text_sorted retire_simps split: if_splits)
qed (use assms(1) in auto)

lemma marker_good:
  assumes op: "marker_change op = Some change" and ok: "op_ok op v" and doc: "gate_doc node v"
    and other: "\<And>a b x. op = Handoff a b x \<Longrightarrow> a \<noteq> b" and store: "change (sort_keys v) = Store v' r"
  shows "good_change (sort_keys v) v'"
proof -
  note doc' = gate_doc_sort_keys [OF doc]
  have wf: "wf_json v" using doc by (simp add: gate_doc_def)
  show ?thesis
  proof (cases op)
    case (Close owner expect)
    with op ok wf store show ?thesis by (intro close_good [OF doc']) auto
  next
    case (Release owner d p expect)
    with op ok wf store show ?thesis by (intro release_good [OF doc', of owner d p expect v' r]) auto
  next
    case (Handoff owner successor expect)
    with op ok wf store other show ?thesis by (intro handoff_good [OF doc']) auto
  qed (use op in auto)
qed

lemma handoff_self: "snd (gate_run node os (Handoff a a x) g) = g"
  by (auto simp: handoff_def raise_if_def thenE_def split: sum.splits)

section \<open>The theorems of the barrier\<close>

text \<open>C5. Whatever the operating system does in a call of the maintenance gate (the lock or the file refused, the
  write failing before or after the rename), the record file afterwards is one the gate reads back, and the
  call either left the barrier as it was or made exactly one of its steps: a close by an owner that never owned before,
  a release or handoff by the current owner, the admission of one new responsibility while open, or one
  responsibility moving from accepted to dispatching or to closed.\<close>

theorem gate_refines:
  assumes "gate_holds node g v" and "op_ok op v" and "\<not> record_unprotected os'"
  shows "\<exists>w. gate_read node os' (snd (gate_run node os op g)) = Inr (sort_keys w) \<and>
     (barrier_of w = barrier_of v \<or> barrier_step (barrier_of v) (barrier_of w))"
proof -
  from gate_run_refined [OF assms(1,2), of os] obtain w where "gate_holds node (snd (gate_run node os op g)) w"
    "barrier_of w = barrier_of v \<or> barrier_step (barrier_of v) (barrier_of w)" unfolding refined_def by blast
  then show ?thesis using gate_read_holds assms(3) by blast
qed

text \<open>C6. Along every history of gate calls, with any failures of the operating system: the sequence number and the
  retired owners only grow, an owner that was retired never holds maintenance again, a responsibility keeps what it
  was accepted with, never moves back and keeps its closure proof, and under one closed marker nothing is admitted.\<close>

theorem gate_history:
  assumes "gate_holds node g v" and "(gate_step node)\<^sup>*\<^sup>* g g'"
  shows "\<exists>w. gate_holds node g' w \<and> later (barrier_of v) (barrier_of w) \<and>
     (b_closed (barrier_of w) \<longrightarrow> b_owner (barrier_of w) \<notin> b_retired (barrier_of v))"
proof -
  from history_later [OF assms(2,1)] obtain w where w: "gate_holds node g' w" "later (barrier_of v) (barrier_of w)" by blast
  then show ?thesis using owner_not_retired [OF w(1)] by (auto simp: later_def)
qed

text \<open>Closing, releasing and handing off survive a lost reply: once the record was replaced, even when the call
  reported an error because the directory could not be synced, the same call again confirms the record it
  finds, returns it and changes nothing.\<close>

theorem marker_retry:
  assumes holds: "gate_holds node g v" and ok: "op_ok op v" and op: "marker_change op = Some change"
    and changed: "snd (gate_run node os op g) \<noteq> g"
    and quiet: "\<not> lock_fails os'" "\<not> record_unprotected os'" "\<not> confirm_fails os'"
  shows "\<exists>w. gate_run node os' op (snd (gate_run node os op g)) = (Inr w, snd (gate_run node os op g))"
proof -
  from marker_run [OF op, of node] changed have run: "\<And>os g. gate_run node os op g = under_lock node os change g" by auto
  from under_lock_changed [OF holds changed [unfolded run]] obtain v' r where v': "change (sort_keys v) = Store v' r"
    "validate_gate node v' = Inr ()" "snd (under_lock node os change g) = Some (canonical_bytes v' @ [10])"
    "length (canonical_bytes v') < MAX_STATE_BYTES" by blast
  have doc: "gate_doc node v" using holds by (simp add: gate_holds_def)
  have good: "good_change (sort_keys v) v'"
    using changed handoff_self [of node os] v'(1) by (intro marker_good [OF op ok doc]) (blast, assumption)
  then have holds': "gate_holds node (snd (under_lock node os change g)) v'"
    using v' by (simp add: gate_holds_def gate_doc_def good_change_def)
  have dict: "is_dict (sort_keys v)" using gate_doc_shape [OF doc] by (simp add: gate_shape_def)
  have "change (sort_keys v') = Confirm (sort_keys v')"
    using good by (intro marker_confirms [OF op ok dict v'(1)]) (simp add: good_change_def)
  then show ?thesis
    using gate_read_holds [OF holds' quiet(2)] quiet unfolding run
    by (simp add: under_lock_def locked_def gate_apply_def gate_confirm_def raise_if_def as_unknown_state_def)
qed

section \<open>Witnesses\<close>

definition quiet_os :: gate_os where
  "quiet_os = \<lparr>lock_fails = False, record_unprotected = False, write_outcome = Written, confirm_fails = False\<rparr>"

definition lossy_os :: gate_os where
  "lossy_os = quiet_os\<lparr>write_outcome := Unsynced\<rparr>"

abbreviation "gate_example_node \<equiv> jlit ''node-1''"
abbreviation "first_decision \<equiv> jlit ''boot''"
abbreviation "gate_deployment \<equiv> JStr (replicate 64 48)"
abbreviation "example_close \<equiv> Close (jlit ''deploy-1'') JNull"

definition example_gate :: gate_file where
  "example_gate = snd (initialize gate_example_node quiet_os gate_deployment first_decision True None)"

lemma gate_text_jlit [simp]: "gate_text (jlit s)"
  using tree_jlit [of 0 s] by (simp add: gate_text_def del: tree.simps(1))

lemma example_deployment_text: "gate_text gate_deployment" "gate_hex gate_deployment = Inr ()"
  by (simp_all add: gate_text_def code_points_def gate_hex_def raise_if_def surrogate_def is_hex_digit_def is_digit_def)

lemma example_gate_holds: "gate_holds gate_example_node example_gate (gate_initial gate_example_node gate_deployment first_decision)"
  unfolding example_gate_def
proof (rule initialize_holds)
  show "length (canonical_bytes (gate_initial gate_example_node gate_deployment first_decision)) < MAX_STATE_BYTES"
    by (rule le_less_trans [OF length_canonical_bytes]) (simp add: gate_initial_def obj_def MAX_STATE_BYTES_def GATE_SCHEMA_def)
  show "gate_identifier first_decision = Inr ()" by code_simp
qed (simp_all add: example_deployment_text quiet_os_def del: map_replicate replicate_Suc)

lemma example_close_ok: "op_ok example_close (gate_initial gate_example_node gate_deployment first_decision)"
  by (simp add: gate_small_def gate_initial_def obj_def MAX_SAFE_INTEGER_def)

lemma holds_unique: "gate_holds node g v \<Longrightarrow> gate_holds node g w \<Longrightarrow> barrier_of v = barrier_of w"
  using gate_read_holds [of node g v quiet_os] gate_read_holds [of node g w quiet_os] barrier_of_sort_keys [of v] barrier_of_sort_keys [of w]
  by (simp add: quiet_os_def gate_holds_def gate_doc_def)

lemma size_bound_dset: "size_bound (dset v k x) \<le> size_bound v + (12 * length k + 4 + size_bound x)"
proof -
  let ?f = "\<lambda>(k, v). 12 * length k + 4 + size_bound v"
  have "sum_list (map ?f (AList.update k x kvs)) \<le> sum_list (map ?f kvs) + ?f (k, x)" for kvs
    by (induction kvs) auto
  from this [of "items v"] show ?thesis by (cases v) (auto simp: dset_def items_def)
qed

lemma size_bound_dupdate: "size_bound (dupdate v cs) \<le> size_bound v + sum_list (map (\<lambda>(k, x). 12 * length k + 4 + size_bound x) cs)"
proof (induction cs arbitrary: v)
  case (Cons c cs)
  obtain k x where c: "c = (k, x)" by (cases c)
  from Cons.IH [of "dset v k x"] size_bound_dset [of v k x] show ?case by (simp add: c)
qed simp

lemma example_close_changes: "snd (gate_run gate_example_node lossy_os example_close example_gate) \<noteq> example_gate"
proof
  let ?v = "sort_keys (gate_initial gate_example_node gate_deployment first_decision)" and ?o = "jlit ''deploy-1''"
  define v' where "v' = dupdate ?v [(lit ''state'', jlit ''CLOSED''), (lit ''owner'', ?o), (lit ''sequence'', next_sequence ?v),
     (lit ''last_transition'', obj [(''kind'', jlit ''close''), (''owner'', ?o)])]"
  have read: "gate_read gate_example_node lossy_os example_gate = Inr ?v"
    using gate_read_holds [OF example_gate_holds] by (simp add: lossy_os_def quiet_os_def)
  have doc: "gate_doc gate_example_node ?v" using example_gate_holds by (simp add: gate_holds_def gate_doc_sort_keys)
  have wf: "wf_json (gate_initial gate_example_node gate_deployment first_decision)" using example_gate_holds by (simp add: gate_holds_def gate_doc_def)
  have at: "at ?v ''state'' = jlit ''OPEN''" "at ?v ''retired_owners'' = JList []" "fld ?v ''sequence'' = Some (JInt 1)"
    "at ?v ''responsibilities'' = JObj []" "at ?v ''compatibility'' = JObj []"
    using wf by (simp_all add: at_sort_keys dget_sort_keys) (simp_all add: gate_initial_def obj_def at_def get_or_def)
  have store: "close_change ?o JNull ?v = Store v' v'"
    by (simp add: close_change_def at when_expected_def expected_marker_def v'_def Let_def)
  have good: "good_change ?v v'"
    using doc store wf by (intro close_good) (auto simp: gate_small_def at MAX_SAFE_INTEGER_def)
  note sh = gate_doc_shape [OF doc]
  have dict: "is_dict ?v" using sh by (simp add: gate_shape_def)
  have keys: "has_keys v' GATE_KEYS"
    using sh dict by (auto simp: v'_def gate_shape_def has_keys_def jkeys_dset GATE_KEYS_def)
  have at': "at v' k = (if k = ''last_transition'' then obj [(''kind'', jlit ''close''), (''owner'', ?o)] else if k = ''sequence'' then JInt 2
      else if k = ''owner'' then ?o else if k = ''state'' then jlit ''CLOSED'' else at ?v k)" for k
    using dict by (simp add: v'_def next_sequence_def at)
  have seq: "fld v' ''sequence'' = Some (JInt 2)" using dict by (simp add: v'_def next_sequence_def at)
  have "gate_shape gate_example_node v'"
    using sh dict keys seq unfolding gate_shape_def at' by (simp add: v'_def)
  moreover have "gate_names_ok v'" using sh unfolding gate_names_ok_def at' by simp
  moreover have "gate_owner_ok v'" unfolding gate_owner_ok_def at' by (simp add: at gate_identifier_def raise_if_def) (simp add: lit_def)
  moreover have "duties_ok gate_example_node v' \<and> compatible_ok gate_example_node v'"
    unfolding duties_ok_def compatible_ok_def at' by (simp add: at items_def)
  moreover have "validate_transition v' = Inr ()"
    unfolding validate_transition_def at' Let_def by (simp add: obj_def at_def get_or_def has_keys_def jkeys_def value_unless_def raise_if_def)
  ultimately have valid: "validate_gate gate_example_node v' = Inr ()" by (simp add: validate_gate_iff)
  have "size_bound v' \<le> size_bound ?v + 1000"
    unfolding v'_def by (rule order_trans [OF size_bound_dupdate]) (simp add: obj_def next_sequence_def at)
  then have "length (canonical_bytes v') \<le> size_bound (gate_initial gate_example_node gate_deployment first_decision) + 1000"
    using length_canonical_bytes [of v'] by (simp add: size_bound_sort_keys)
  then have size: "length (canonical_bytes v' @ [10]) \<le> MAX_STATE_BYTES"
    by (simp add: gate_initial_def obj_def MAX_STATE_BYTES_def GATE_SCHEMA_def)
  have "snd (gate_run gate_example_node lossy_os example_close example_gate) = Some (canonical_bytes v' @ [10])"
    using size store valid read
    by (simp add: close_gate_def under_lock_def locked_def gate_apply_def gate_write_def lossy_os_def quiet_os_def gate_identifier_def raise_if_def lit_def)
  moreover assume "snd (gate_run gate_example_node lossy_os example_close example_gate) = example_gate"
  ultimately have "gate_holds gate_example_node example_gate v'"
    using good valid size by (simp add: gate_holds_def gate_doc_def good_change_def)
  from holds_unique [OF this example_gate_holds] show False
    using at(1) dict wf by (simp add: v'_def barrier_of_def at_sort_keys)
qed

theorem gate_refines_witness:
  "\<exists>w. gate_read gate_example_node quiet_os (snd (gate_run gate_example_node lossy_os example_close example_gate)) = Inr (sort_keys w)"
  using gate_refines [OF example_gate_holds example_close_ok, of quiet_os lossy_os] by (auto simp: quiet_os_def)

theorem gate_history_witness:
  "\<exists>w. gate_holds gate_example_node (snd (gate_run gate_example_node lossy_os example_close example_gate)) w"
proof -
  have "(gate_step gate_example_node)\<^sup>*\<^sup>* example_gate (snd (gate_run gate_example_node lossy_os example_close example_gate))"
    using gate_step.call [OF example_gate_holds example_close_ok, of lossy_os] by (rule r_into_rtranclp)
  from gate_history [OF example_gate_holds this] show ?thesis by blast
qed

theorem marker_retry_witness:
  "\<exists>w. gate_run gate_example_node quiet_os example_close (snd (gate_run gate_example_node lossy_os example_close example_gate)) =
     (Inr w, snd (gate_run gate_example_node lossy_os example_close example_gate))"
proof (rule marker_retry [OF example_gate_holds example_close_ok])
  show "marker_change example_close = Some (close_change (jlit ''deploy-1'') JNull)" by simp
  show "snd (gate_run gate_example_node lossy_os example_close example_gate) \<noteq> example_gate" by (rule example_close_changes)
qed (simp_all add: quiet_os_def)

end
