(* ===== verification/Deploy.thy ===== *)
theory Deploy
  imports Maintenance Ledger "HOL-Library.Product_Lexorder"
begin

text \<open>
  The deployment plans of \<open>tools/admin/local_hand_deploy\<close>: the sealed plan and the new operation of
  \<open>model.py\<close>, and from \<open>planner.py\<close> the order of the managed services, the order of the actions and the
  check of a schedule against it.
\<close>

section \<open>Records\<close>

definition DEPLOY_SCHEMA :: string where "DEPLOY_SCHEMA = ''local-hand-deployment/v1''"
definition PLAN_SCHEMA :: string where "PLAN_SCHEMA = ''local-hand-deployment-plan/v1''"
definition STEP_KINDS :: "string list" where "STEP_KINDS = [''file'', ''service'', ''gateway'']"

definition deploy_id :: "pystr \<Rightarrow> bool" where
  \<comment> \<open>\<open>[A-Za-z0-9][A-Za-z0-9_.-]{0,127}\<close>\<close>
  "deploy_id s = (s \<noteq> [] \<and> length s \<le> 128 \<and> (\<forall>c \<in> set s. 48 \<le> c \<and> c \<le> 57 \<or> 65 \<le> c \<and> c \<le> 90 \<or> 97 \<le> c \<and> c \<le> 122 \<or> c \<in> {95, 46, 45}) \<and>
     hd s \<notin> {95, 46, 45})"

definition deploy_hex :: "pystr \<Rightarrow> bool" where
  "deploy_hex s = (length s = 64 \<and> (\<forall>c \<in> set s. is_hex_digit c))"

definition deploy_canonical :: "json \<Rightarrow> bytes res" where
  "deploy_canonical v = (if nonfinite v then Inl (DeployError ''INVALID_RECORD'' ''Record must be finite JSON'') else Inr (dumps v))"

definition deploy_digest :: "json \<Rightarrow> pystr res" where
  "deploy_digest v = bindE (deploy_canonical v) (\<lambda>raw. Inr (sha256_hex raw))"

definition deploy_pairs :: "dict \<Rightarrow> json res" where
  "deploy_pairs kvs = (if distinct (map fst kvs) then Inr (JObj kvs) else Inl (PyError ''ValueError''))"

definition deploy_hooks :: hooks where
  "deploy_hooks = \<lparr>parse_int = \<lambda>t. Inr (JInt (int_of_text t)), parse_float = \<lambda>t. Inr (JFloat (map char_of t)),
     parse_constant = \<lambda>t. Inl (PyError ''ValueError''), object_pairs_hook = deploy_pairs\<rparr>"

text \<open>\<open>except (ValueError, UnicodeError, TypeError)\<close>; only exhausted recursion passes.\<close>

definition deploy_decode :: "pystr \<Rightarrow> json res" where
  "deploy_decode text = (case loads deploy_hooks text of
     Inl e \<Rightarrow> if e = recursion_error then Inl e else Inl (DeployError ''INVALID_RECORD'' ''Record is not unambiguous JSON'')
   | r \<Rightarrow> r)"

definition deploy_identity :: "json \<Rightarrow> string \<Rightarrow> pystr res" where
  "deploy_identity v name = (case v of
     JStr s \<Rightarrow> if deploy_id s then Inr s else Inl (DeployError ''INVALID_PLAN'' (''Invalid '' @ name))
   | _ \<Rightarrow> Inl (DeployError ''INVALID_PLAN'' (''Invalid '' @ name)))"

record limits =
  max_operations :: int
  max_steps :: int
  max_record_bytes :: int
  max_events :: int
  recovery_events :: int
  max_database_bytes :: int
  max_attempts :: int
  wait_seconds :: int

definition default_limits :: limits where
  "default_limits = \<lparr>max_operations = 128, max_steps = 128, max_record_bytes = 2 * 1024 * 1024, max_events = 8192,
     recovery_events = 2048, max_database_bytes = 128 * 1024 * 1024, max_attempts = 8, wait_seconds = 30\<rparr>"

definition check_limits :: "limits \<Rightarrow> limits res" where
  "check_limits l =
     thenE (raise_if (\<exists>x \<in> set [max_operations l, max_steps l, max_record_bytes l, max_events l, recovery_events l, max_database_bytes l,
         max_attempts l, wait_seconds l]. x \<le> 0) (DeployError ''INVALID_LIMIT'' ''Limits must be positive integers''))
     (thenE (raise_if (recovery_events l \<ge> max_events l)
        (DeployError ''INVALID_LIMIT'' ''Recovery event reserve must be below total event limit'')) (Inr l))"

section \<open>Plans\<close>

definition invalid_plan :: "bool \<Rightarrow> string \<Rightarrow> unit res" where
  "invalid_plan c m = raise_if c (DeployError ''INVALID_PLAN'' m)"

text \<open>\<open>str(v)\<close> where it can match the pattern of a digest: a string, or a number of sixty-four digits.\<close>

definition digest_text :: "json \<Rightarrow> pystr" where
  "digest_text v = (case v of JStr s \<Rightarrow> s | JInt n \<Rightarrow> print_int n | _ \<Rightarrow> [])"

definition PLAN_KEYS :: "string list" where
  "PLAN_KEYS = [''schema'', ''request_id'', ''node_id'', ''source'', ''target'', ''steps'', ''profile'', ''digest'']"

definition plan_step :: "pystr list \<Rightarrow> json \<Rightarrow> pystr list res" where
  "plan_step seen step =
     thenE (invalid_plan (\<not> (is_dict step \<and> has_keys step [''id'', ''kind'', ''action''])) ''Unsupported deployment action'')
     (bindE (in_names (at step ''kind'') STEP_KINDS) (\<lambda>known.
      thenE (invalid_plan (\<not> known \<or> \<not> is_dict (at step ''action'')) ''Unsupported deployment action'')
     (bindE (deploy_identity (at step ''id'') ''step ID'') (\<lambda>ident.
      thenE (invalid_plan (ident \<in> set seen) ''Duplicate deployment step'') (Inr (ident # seen))))))"

definition validate_plan :: "limits \<Rightarrow> json \<Rightarrow> json res" where
  "validate_plan l p =
     thenE (invalid_plan (\<not> (is_dict p \<and> has_keys p PLAN_KEYS \<and> at p ''schema'' = jlit PLAN_SCHEMA)) ''Unknown deployment plan format'')
     (bindE (deploy_identity (at p ''request_id'') ''request ID'') (\<lambda>_.
      bindE (deploy_identity (at p ''node_id'') ''node ID'') (\<lambda>_.
      thenE (forE [''source'', ''target''] (\<lambda>key. invalid_plan (\<not> (is_dict (at p key) \<and> deploy_hex (digest_text (get_or (at p key) ''deployment_digest'' (JStr [])))))
          ''Source and target require exact deployment digests''))
     (thenE (invalid_plan (\<not> (is_dict (at p ''profile'') \<and> is_list (at p ''steps'') \<and> int (length (elements (at p ''steps''))) \<le> max_steps l))
          ''Plan exceeds its supported action count'')
     (bindE (foldE plan_step [] (elements (at p ''steps''))) (\<lambda>_.
      bindE (deploy_digest (dpop p (lit ''digest''))) (\<lambda>content.
      bindE (if at p ''digest'' \<noteq> JStr content then Inr False
             else bindE (deploy_canonical p) (\<lambda>raw. Inr (int (length raw) \<le> max_record_bytes l div 2))) (\<lambda>ok.
      thenE (invalid_plan (\<not> ok) ''Plan digest or size is invalid'') (Inr p)))))))))"

definition seal_plan :: "json \<Rightarrow> json res" where
  "seal_plan v =
     bindE (deploy_canonical v) (\<lambda>raw.
     bindE (deploy_decode raw) (\<lambda>d.
       if \<not> is_dict d then Inl (PyError ''AttributeError'')
       else bindE (deploy_digest (dpop d (lit ''digest''))) (\<lambda>content.
         validate_plan default_limits (dset d (lit ''digest'') (JStr content)))))"

definition deploy_operation_id :: "json \<Rightarrow> pystr res" where
  "deploy_operation_id request_id = bindE (deploy_identity request_id ''identity'') (\<lambda>s. Inr (lit ''deploy-'' @ take 32 (sha256_hex s)))"

definition new_step :: "json \<Rightarrow> json" where
  "new_step step = obj [(''id'', at step ''id''), (''state'', jlit ''PLANNED''), (''prepared'', JNull), (''restore'', JNull), (''attempts'', JList []),
     (''restore_attempts'', JList []), (''observation'', JNull), (''restore_observation'', JNull), (''effective'', JBool False)]"

text \<open>\<open>now\<close> is \<open>time.time_ns()\<close>.\<close>

definition new_operation :: "int \<Rightarrow> json \<Rightarrow> json \<Rightarrow> json res" where
  "new_operation now p predecessor =
     bindE (validate_plan default_limits p) (\<lambda>_.
     bindE (deploy_operation_id (at p ''request_id'')) (\<lambda>ident. Inr (obj
       [(''schema'', jlit DEPLOY_SCHEMA), (''id'', JStr ident), (''plan'', p), (''created_ns'', JInt now), (''updated_ns'', JInt now),
        (''phase'', jlit ''PLANNED''), (''direction'', jlit ''APPLY''), (''decision'', JNull), (''decision_id'', JNull), (''released'', JBool False),
        (''waiting'', JNull), (''gate_sequence'', JNull), (''gate_owned'', JBool False), (''predecessor'', predecessor), (''successor'', JNull),
        (''handoff_complete'', JBool False), (''rollback_successor'', JNull), (''steps'', JList (map new_step (elements (at p ''steps'')))),
        (''errors'', obj [(''primary'', JList []), (''recovery'', JList []), (''diagnostics'', JList [])]), (''checks'', JObj []),
        (''startup'', obj [(''blocked'', JBool False), (''current'', JNull)])])))"

section \<open>The order of the services\<close>

text \<open>\<open>v.get(k, d)\<close> where \<open>v\<close> may be no dictionary, and the elements of \<open>set(v)\<close>.\<close>

definition get_attr :: "json \<Rightarrow> string \<Rightarrow> json \<Rightarrow> json res" where
  "get_attr v k d = (if is_dict v then Inr (get_or v k d) else Inl (PyError ''AttributeError''))"

definition set_of :: "json \<Rightarrow> json list res" where
  "set_of v = (case v of
     JList xs \<Rightarrow> thenE (hashable xs) (Inr xs)
   | JStr s \<Rightarrow> Inr (map (\<lambda>c. JStr [c]) s)
   | JObj kvs \<Rightarrow> Inr (map (\<lambda>(k, x). JStr k) kvs)
   | _ \<Rightarrow> Inl (PyError ''TypeError''))"

type_synonym service_graph = "(pystr \<times> pystr list) list"

definition declared_needs :: "json \<Rightarrow> pystr \<times> json \<Rightarrow> (pystr \<times> pystr list) res" where
  "declared_needs units entry = (case entry of (name, spec) \<Rightarrow>
     bindE (get_attr spec ''read_only_dependencies'' (JList [])) (\<lambda>d.
     bindE (set_of d) (\<lambda>xs. Inr (name, filter (\<lambda>u. JStr u \<in> set xs) (jkeys units)))))"

definition probe_kind :: "json \<Rightarrow> json \<Rightarrow> json res" where
  "probe_kind pr spec =
     bindE (get_attr pr ''probes'' (JObj [])) (\<lambda>probes.
     bindE (get_attr spec ''component'' JNull) (\<lambda>component.
     if \<not> is_dict probes then Inl (PyError ''AttributeError'')
     else if is_list component \<or> is_dict component then Inl (PyError ''TypeError'')
     else get_attr (case component of JStr c \<Rightarrow> (case dget probes c of Some x \<Rightarrow> x | None \<Rightarrow> JObj []) | _ \<Rightarrow> JObj []) ''kind'' JNull))"

definition manager_names :: "json \<Rightarrow> dict \<Rightarrow> pystr list res" where
  "manager_names pr units = bindE (mapE (\<lambda>(name, spec). bindE (probe_kind pr spec) (\<lambda>k. bindE (in_names k [''resident'', ''prepared'']) (\<lambda>m. Inr (name, m)))) units)
     (\<lambda>marked. Inr (map fst (filter snd marked)))"

definition add_managers :: "json \<Rightarrow> pystr list \<Rightarrow> (pystr \<times> json) \<times> (pystr \<times> pystr list) \<Rightarrow> (pystr \<times> pystr list) res" where
  "add_managers pr managers entry = (case entry of ((name, spec), (n, required)) \<Rightarrow>
     bindE (probe_kind pr spec) (\<lambda>k. Inr (n, if k = jlit ''mcp'' then required @ filter (\<lambda>m. m \<notin> set required) managers else required)))"

definition service_needs :: "json \<Rightarrow> service_graph res" where
  "service_needs pr =
     bindE (get_attr pr ''systemd'' (JObj [])) (\<lambda>systemd.
     bindE (get_attr systemd ''units'' (JObj [])) (\<lambda>units.
     if \<not> is_dict units then Inl (PyError ''AttributeError'')
     else bindE (mapE (declared_needs units) (items units)) (\<lambda>needs.
       bindE (manager_names pr (items units)) (\<lambda>managers.
         mapE (add_managers pr managers) (zip (items units) needs)))))"

definition ready_names :: "service_graph \<Rightarrow> pystr list" where
  "ready_names deps = sort (map fst (filter (\<lambda>(name, required). required = []) deps))"

definition drop_ready :: "pystr list \<Rightarrow> service_graph \<Rightarrow> service_graph" where
  "drop_ready ready deps = map (\<lambda>(name, required). (name, filter (\<lambda>r. r \<notin> set ready) required)) (filter (\<lambda>(name, required). name \<notin> set ready) deps)"

definition cycle_error :: exn where
  "cycle_error = DeployError ''UNSUPPORTED_SERVICE_GRAPH'' ''Fixed managed service dependencies contain a cycle''"

lemma length_drop_ready: "ready_names deps \<noteq> [] \<Longrightarrow> length (drop_ready (ready_names deps) deps) < length deps"
proof -
  assume "ready_names deps \<noteq> []"
  then have member: "hd (ready_names deps) \<in> set (ready_names deps)" by simp
  then have "hd (ready_names deps) \<in> fst ` set deps" unfolding ready_names_def by auto
  with member obtain e where "e \<in> set deps" "\<not> (case e of (name, required) \<Rightarrow> name \<notin> set (ready_names deps))" by auto
  then have "length (filter (\<lambda>(name, required). name \<notin> set (ready_names deps)) deps) < length deps"
    by (rule length_filter_less)
  then show ?thesis by (simp add: drop_ready_def)
qed

function order_loop :: "service_graph \<Rightarrow> pystr list \<Rightarrow> pystr list res" where
  "order_loop deps ordered =
     (if deps = [] then Inr ordered
      else if ready_names deps = [] then Inl cycle_error
      else order_loop (drop_ready (ready_names deps) deps) (ordered @ ready_names deps))"
  by auto
termination
  by (relation "measure (length \<circ> fst)") (simp_all add: length_drop_ready)

declare order_loop.simps [simp del]

definition ranks_of :: "pystr list \<Rightarrow> (pystr \<times> nat) list" where
  "ranks_of ordered = zip ordered [0..<length ordered]"

definition service_order :: "json \<Rightarrow> (pystr \<times> nat) list res" where
  "service_order pr = bindE (service_needs pr) (\<lambda>deps. bindE (order_loop deps []) (\<lambda>ordered. Inr (ranks_of ordered)))"

section \<open>The order of the actions\<close>

definition PHASES :: "(string \<times> int) list" where
  "PHASES = [(''isolate'', 0), (''quiesced_before_files'', 10), (''after_stop'', 20), (''files'', 30), (''after_files'', 40), (''after_reload'', 50),
     (''after_create'', 60)]"

definition phase_number :: "json \<Rightarrow> int res" where
  "phase_number v = (if is_list v \<or> is_dict v then Inl (PyError ''TypeError'')
     else case v of JStr s \<Rightarrow> (case map_of (map (\<lambda>(k, n). (lit k, n)) PHASES) s of Some n \<Rightarrow> Inr n | None \<Rightarrow> Inl (PyError ''KeyError''))
        | _ \<Rightarrow> Inl (PyError ''KeyError''))"

definition action_rank :: "(pystr \<times> nat) list \<Rightarrow> json \<Rightarrow> int" where
  "action_rank ranks action = (let base = (case at action ''target'' of JStr s \<Rightarrow> (case map_of ranks s of Some n \<Rightarrow> int n | None \<Rightarrow> 0) | _ \<Rightarrow> 0) in
     if at action ''kind'' = jlit ''gateway_stop'' then - int (length ranks) - 1 else if at action ''kind'' = jlit ''service_stop'' then - base else base)"

definition action_order :: "json \<Rightarrow> json \<Rightarrow> (int \<times> int) res" where
  "action_order item pr =
     bindE (sub item ''action'') (\<lambda>action.
     bindE (service_order pr) (\<lambda>ranks.
     bindE (get_attr action ''target'' JNull) (\<lambda>tgt.
     if is_list tgt \<or> is_dict tgt then Inl (PyError ''TypeError'')
     else bindE (sub action ''phase'') (\<lambda>phase. bindE (phase_number phase) (\<lambda>n. Inr (n, action_rank ranks action))))))"

definition SCHEDULE_PHASES :: "(string \<times> string list) list" where
  "SCHEDULE_PHASES = [(''service_stop'', [''quiesced_before_files'']), (''service_start'', [''after_reload'']),
     (''service_policy_link'', [''files'']), (''service_daemon_reload'', [''after_files'']),
     (''gateway_stop'', [''quiesced_before_files'', ''isolate'']), (''gateway_remove'', [''after_stop'']),
     (''gateway_create'', [''after_files'']), (''gateway_start'', [''after_create''])]"

definition allowed_phases :: "json \<Rightarrow> string list res" where
  "allowed_phases kind = (if is_list kind \<or> is_dict kind then Inl (PyError ''TypeError'')
     else Inr (case kind of JStr s \<Rightarrow> (case map_of (map (\<lambda>(k, ps). (lit k, ps)) SCHEDULE_PHASES) s of Some ps \<Rightarrow> ps | None \<Rightarrow> []) | _ \<Rightarrow> []))"

definition check_schedule_step :: "json \<Rightarrow> json \<Rightarrow> unit res" where
  "check_schedule_step pr step =
     (let action = at step ''action''; outside = DeployError ''INVALID_SCHEDULE'' ''Only the fixed gateway stop may run before business drain'' in
      bindE (if at step ''kind'' = jlit ''file'' then Inr [''files''] else allowed_phases (at action ''kind'')) (\<lambda>allowed.
      bindE (in_names (at action ''phase'') allowed) (\<lambda>phase_ok.
        raise_if (\<not> phase_ok \<or>
          at step ''kind'' \<noteq> jlit ''file'' \<and> \<not> prefix (str_of (fld step ''kind'') @ [95]) (str_of (fld action ''kind'')) \<or>
          at action ''phase'' = jlit ''isolate'' \<and> \<not> truthy (at pr ''security_repair'')) outside)))"

text \<open>\<open>sorted(steps, key=...)\<close>: the keys are computed in order, then the sort is stable.\<close>

definition keyed_steps :: "json \<Rightarrow> json list \<Rightarrow> ((int \<times> int) \<times> json) list res" where
  "keyed_steps pr steps = mapE (\<lambda>step. bindE (action_order step pr) (\<lambda>k. Inr (k, step))) steps"

definition validate_schedule :: "json \<Rightarrow> unit res" where
  "validate_schedule p =
     (let pr = at p ''profile''; steps = elements (at p ''steps'') in
      bindE (service_order pr) (\<lambda>_.
      thenE (forE steps (check_schedule_step pr))
     (bindE (keyed_steps pr steps) (\<lambda>keyed.
        raise_if (\<not> jeq (JList steps) (JList (map snd (sort_key fst keyed))))
          (DeployError ''INVALID_SCHEDULE'' ''Plan actions are outside the fixed dependency order'')))))"

end
