(* ===== verification/DeployProps.thy ===== *)
theory DeployProps
  imports Deploy MaintenanceProps
begin

text \<open>
  The order of the managed services is a topological order of their requirements and is refused exactly for
  a cycle; an accepted schedule starts services after, and stops them before, what they require.
\<close>

section \<open>The loop\<close>

definition needs :: "service_graph \<Rightarrow> (pystr \<times> pystr) set" where
  "needs deps = {(a, b). \<exists>required. (a, required) \<in> set deps \<and> b \<in> set required}"

definition closed_graph :: "service_graph \<Rightarrow> bool" where
  "closed_graph deps \<longleftrightarrow> distinct (map fst deps) \<and> (\<forall>(a, required) \<in> set deps. set required \<subseteq> fst ` set deps)"

definition before :: "'a \<Rightarrow> 'a \<Rightarrow> 'a list \<Rightarrow> bool" where
  "before x y zs \<longleftrightarrow> (\<exists>us vs. zs = us @ vs \<and> x \<in> set us \<and> y \<in> set vs)"

lemma before_append: "before x y zs \<Longrightarrow> before x y (ws @ zs)"
  unfolding before_def by (metis append_assoc in_set_conv_decomp set_append UnCI)

lemma set_ready: "set (ready_names deps) = {a. (a, []) \<in> set deps}"
  by (force simp: ready_names_def)

lemma names_drop_ready: "fst ` set (drop_ready ready deps) = fst ` set deps - set ready"
  by (force simp: drop_ready_def)

lemma distinct_ready: "closed_graph deps \<Longrightarrow> distinct (ready_names deps)"
  by (simp add: closed_graph_def ready_names_def distinct_map_filter)

lemma drop_ready_closed: "closed_graph deps \<Longrightarrow> closed_graph (drop_ready ready deps)"
proof -
  assume c: "closed_graph deps"
  have "map fst (drop_ready ready deps) = filter (\<lambda>a. a \<notin> set ready) (map fst deps)"
    by (simp add: drop_ready_def filter_map comp_def split_beta case_prod_beta')
  then have "distinct (map fst (drop_ready ready deps))" using c by (simp add: closed_graph_def)
  moreover have "set required \<subseteq> fst ` set deps - set ready" if "(a, required) \<in> set (drop_ready ready deps)" for a required
    using that c by (fastforce simp: drop_ready_def closed_graph_def)
  ultimately show ?thesis by (auto simp: closed_graph_def names_drop_ready)
qed

lemma needs_drop_ready: "needs (drop_ready ready deps) = {(a, b) \<in> needs deps. a \<notin> set ready \<and> b \<notin> set ready}"
  by (fastforce simp: needs_def drop_ready_def)

lemma ready_no_needs: "closed_graph deps \<Longrightarrow> (a, b) \<in> needs deps \<Longrightarrow> a \<notin> set (ready_names deps)"
  unfolding needs_def set_ready closed_graph_def by (auto dest: eq_key_imp_eq_value)

lemma order_loop_topological:
  assumes "closed_graph deps" and "order_loop deps ordered = Inr result"
  shows "\<exists>tail. result = ordered @ tail \<and> set tail = fst ` set deps \<and> distinct tail \<and> (\<forall>(a, b) \<in> needs deps. before b a tail)"
  using assms
proof (induction deps ordered arbitrary: result rule: order_loop.induct)
  case (1 deps ordered)
  show ?case
  proof (cases "deps = []")
    case True
    with 1 show ?thesis by (simp add: order_loop.simps needs_def)
  next
    case False
    let ?ready = "ready_names deps"
    have ready: "?ready \<noteq> []" using 1(3) False by (subst (asm) order_loop.simps) (auto split: if_splits)
    have rest: "order_loop (drop_ready ?ready deps) (ordered @ ?ready) = Inr result"
      using 1(3) False ready by (subst (asm) order_loop.simps) simp
    from 1(1) [OF False ready drop_ready_closed [OF 1(2)] rest] obtain tail where tail: "result = (ordered @ ?ready) @ tail"
      "set tail = fst ` set deps - set ?ready" "distinct tail" "\<forall>(a, b) \<in> needs (drop_ready ?ready deps). before b a tail"
      by (auto simp: names_drop_ready)
    have "before b a (?ready @ tail)" if e: "(a, b) \<in> needs deps" for a b
    proof (cases "b \<in> set ?ready")
      case True
      have "a \<in> set tail" using e ready_no_needs [OF 1(2) e] tail(2) by (force simp: needs_def)
      with True show ?thesis unfolding before_def by blast
    next
      case False
      then have "(a, b) \<in> needs (drop_ready ?ready deps)" using e ready_no_needs [OF 1(2) e] by (simp add: needs_drop_ready)
      then show ?thesis using tail(4) by (auto intro: before_append)
    qed
    moreover have "set ?ready \<subseteq> fst ` set deps" by (force simp: set_ready)
    moreover have "distinct (?ready @ tail)" using tail(2,3) distinct_ready [OF 1(2)] by auto
    ultimately show ?thesis using tail by (intro exI [of _ "?ready @ tail"]) auto
  qed
qed

lemma stuck_cyclic:
  assumes c: "closed_graph deps" and "deps \<noteq> []" and stuck: "ready_names deps = []"
  shows "\<not> acyclic (needs deps)"
proof
  assume "acyclic (needs deps)"
  moreover have "finite (needs deps)"
    by (rule finite_subset [of _ "fst ` set deps \<times> \<Union> (set ` snd ` set deps)"]) (force simp: needs_def)+
  ultimately have "wf ((needs deps)\<inverse>)" by (rule finite_acyclic_wf_converse [rotated])
  moreover have "fst (hd deps) \<in> fst ` set deps" using \<open>deps \<noteq> []\<close> by simp
  ultimately obtain z where z: "z \<in> fst ` set deps" "\<And>y. (y, z) \<in> (needs deps)\<inverse> \<Longrightarrow> y \<notin> fst ` set deps"
    by (rule wfE_min) blast
  then obtain required where r: "(z, required) \<in> set deps" by auto
  then have "required \<noteq> []" using stuck set_ready [of deps] by auto
  then obtain y where "y \<in> set required" by (cases required) auto
  with r have "(y, z) \<in> (needs deps)\<inverse>" "y \<in> fst ` set deps"
    using c by (auto simp: needs_def closed_graph_def)
  with z(2) show False by blast
qed

lemma order_loop_error:
  assumes "closed_graph deps" and "order_loop deps ordered = Inl e"
  shows "e = cycle_error \<and> \<not> acyclic (needs deps)"
  using assms
proof (induction deps ordered rule: order_loop.induct)
  case (1 deps ordered)
  have nonempty: "deps \<noteq> []" using 1(3) by (auto simp: order_loop.simps)
  show ?case
  proof (cases "ready_names deps = []")
    case True
    with 1(3) nonempty have "e = cycle_error" by (subst (asm) order_loop.simps) simp
    then show ?thesis using stuck_cyclic [OF 1(2) nonempty True] by simp
  next
    case False
    then have "order_loop (drop_ready (ready_names deps) deps) (ordered @ ready_names deps) = Inl e"
      using 1(3) nonempty by (subst (asm) order_loop.simps) simp
    from 1(1) [OF nonempty False drop_ready_closed [OF 1(2)] this]
    have "e = cycle_error \<and> \<not> acyclic (needs (drop_ready (ready_names deps) deps))" .
    moreover have "needs (drop_ready (ready_names deps) deps) \<subseteq> needs deps" by (auto simp: needs_drop_ready)
    ultimately show ?thesis using acyclic_subset by blast
  qed
qed

section \<open>The graph of a profile\<close>

lemma mapE_fst: "mapE f xs = Inr ys \<Longrightarrow> (\<And>x y. f x = Inr y \<Longrightarrow> fst y = h x) \<Longrightarrow> map fst ys = map h xs"
  by (induction xs arbitrary: ys) (auto split: sum.splits)

lemma mapE_member: "mapE f xs = Inr ys \<Longrightarrow> y \<in> set ys \<Longrightarrow> \<exists>x \<in> set xs. f x = Inr y"
  by (induction xs arbitrary: ys) (auto split: sum.splits)

lemma service_needs_closed:
  assumes wf: "wf_json pr" and ok: "service_needs pr = Inr deps"
  shows "closed_graph deps"
proof -
  from ok obtain systemd units needed managers where
    systemd: "get_attr pr ''systemd'' (JObj []) = Inr systemd" and units: "get_attr systemd ''units'' (JObj []) = Inr units"
    and dict: "is_dict units" and needed: "mapE (declared_needs units) (items units) = Inr needed"
    and managers: "manager_names pr (items units) = Inr managers"
    and deps: "mapE (add_managers pr managers) (zip (items units) needed) = Inr deps"
    unfolding service_needs_def by (auto simp: bindE_Inr_iff split: if_splits)
  have "wf_json units"
    using wf systemd units by (auto simp: get_attr_def get_or_def split: if_splits option.splits dest: wf_json_dget)
  then have distinct: "distinct (map fst (items units))" using dict by (auto simp: is_dict_iff items_def)
  have names1: "map fst needed = map fst (items units)"
    using needed by (rule mapE_fst) (auto simp: declared_needs_def bindE_Inr_iff split: prod.splits)
  have names: "map fst deps = map fst (items units)"
  proof -
    have "map fst deps = map (\<lambda>e. fst (snd e)) (zip (items units) needed)"
      using deps by (rule mapE_fst) (auto simp: add_managers_def bindE_Inr_iff split: prod.splits)
    also have "\<dots> = map fst needed"
      using arg_cong [OF names1, of length] by (simp add: map_snd_zip flip: map_map [of fst snd, unfolded comp_def])
    finally show ?thesis by (simp add: names1)
  qed
  have mine: "set managers \<subseteq> fst ` set (items units)"
  proof
    fix m assume "m \<in> set managers"
    then show "m \<in> fst ` set (items units)"
      using managers by (auto simp: manager_names_def bindE_Inr_iff dest!: mapE_member split: prod.splits) force
  qed
  have "set required \<subseteq> fst ` set (items units)" if "(a, required) \<in> set deps" for a required
  proof -
    from mapE_member [OF deps that] obtain name spec n req where e: "((name, spec), (n, req)) \<in> set (zip (items units) needed)"
      and add: "add_managers pr managers ((name, spec), (n, req)) = Inr (a, required)" by (metis surj_pair)
    from add have r: "n = a" "set required \<subseteq> set req \<union> set managers"
      by (auto simp: add_managers_def bindE_Inr_iff split: if_splits)
    from e have "(a, req) \<in> set needed" unfolding r(1) by (rule set_zip_rightD)
    from mapE_member [OF needed this] have "set req \<subseteq> set (jkeys units)"
      by (auto simp: declared_needs_def bindE_Inr_iff split: prod.splits)
    moreover have "set (jkeys units) = fst ` set (items units)" using dict by (auto simp: is_dict_iff items_def jkeys_def)
    ultimately show ?thesis using r(2) mine by blast
  qed
  then show ?thesis using distinct names unfolding closed_graph_def by (metis (no_types, lifting) case_prodI2 list.set_map)
qed

lemma map_of_ranks: "distinct xs \<Longrightarrow> map_of (ranks_of xs) x = Some i \<longleftrightarrow> i < length xs \<and> xs ! i = x"
  unfolding ranks_of_def by (subst map_of_eq_Some_iff) (auto simp: in_set_zip)

lemma rank_before:
  assumes "distinct xs" and "before b a xs"
  shows "\<exists>i j. map_of (ranks_of xs) b = Some i \<and> map_of (ranks_of xs) a = Some j \<and> i < j"
proof -
  from assms(2) obtain us vs where xs: "xs = us @ vs" and b: "b \<in> set us" and a: "a \<in> set vs" unfolding before_def by blast
  from b obtain i where i: "i < length us" "us ! i = b" by (auto simp: in_set_conv_nth)
  from a obtain j where j: "j < length vs" "vs ! j = a" by (auto simp: in_set_conv_nth)
  have "map_of (ranks_of xs) b = Some i" using assms(1) i by (simp add: map_of_ranks xs nth_append)
  moreover have "map_of (ranks_of xs) a = Some (length us + j)" using assms(1) j by (simp add: map_of_ranks xs)
  ultimately show ?thesis using i(1) by (metis trans_less_add1)
qed

lemma map_fst_ranks [simp]: "map fst (ranks_of xs) = xs"
  by (simp add: ranks_of_def)

definition rank_lt :: "(pystr \<times> nat) list \<Rightarrow> pystr \<Rightarrow> pystr \<Rightarrow> bool" where
  "rank_lt ranks b a = (case (map_of ranks b, map_of ranks a) of (Some i, Some j) \<Rightarrow> i < j | _ \<Rightarrow> False)"

lemma rank_lt_iff: "rank_lt ranks b a \<longleftrightarrow> (\<exists>i j. map_of ranks b = Some i \<and> map_of ranks a = Some j \<and> i < j)"
  by (auto simp: rank_lt_def split: option.splits)

lemma rank_lt_acyclic: "\<forall>(a, b) \<in> r. rank_lt ranks b a \<Longrightarrow> acyclic r"
proof -
  assume lt: "\<forall>(a, b) \<in> r. rank_lt ranks b a"
  let ?f = "\<lambda>x. the (map_of ranks x)"
  have "r\<inverse> \<subseteq> measure ?f" using lt by (fastforce simp: rank_lt_iff)
  then have "acyclic (r\<inverse>)" using wf_acyclic [OF wf_measure] acyclic_subset by blast
  then show ?thesis by simp
qed

lemma service_order_ranks:
  assumes wf: "wf_json pr" and deps: "service_needs pr = Inr deps" and ok: "service_order pr = Inr ranks"
  shows "distinct (map fst ranks)" "set (map fst ranks) = fst ` set deps" "\<forall>(a, b) \<in> needs deps. rank_lt ranks b a"
proof -
  from ok deps obtain ordered where o: "order_loop deps [] = Inr ordered" and ranks: "ranks = ranks_of ordered"
    by (auto simp: service_order_def bindE_Inr_iff)
  from order_loop_topological [OF service_needs_closed [OF wf deps] o]
  have t: "set ordered = fst ` set deps" "distinct ordered" "\<forall>(a, b) \<in> needs deps. before b a ordered" by auto
  show "distinct (map fst ranks)" "set (map fst ranks) = fst ` set deps" using t by (simp_all add: ranks)
  show "\<forall>(a, b) \<in> needs deps. rank_lt ranks b a"
    using t(2,3) rank_before unfolding rank_lt_iff ranks by blast
qed

section \<open>Schedules\<close>

lemma is_type_norm [simp]: "is_dict (norm v) = is_dict v" "is_list (norm v) = is_list v"
  by (cases v; simp)+

lemma dget_norm: "wf_json v \<Longrightarrow> dget (norm v) k = map_option norm (dget v k)"
proof (cases v)
  case (JObj kvs)
  assume "wf_json v"
  then have "distinct (map fst (map (\<lambda>(k, v). (k, norm v)) kvs))" using JObj by (simp only: distinct_map_snd) simp
  then show ?thesis using JObj by (simp only: norm.simps dget_JObj map_of_sort_key map_of_map_snd)
qed (simp_all add: dget_def)

lemma at_norm: "wf_json v \<Longrightarrow> at (norm v) k = norm (at v k)"
  by (simp add: at_def get_or_def dget_norm split: option.splits)

lemma norm_eq_JStr: "norm v = JStr s \<longleftrightarrow> v = JStr s"
  by (cases v) auto

lemma phase_number_norm [simp]: "phase_number (norm v) = phase_number v"
  by (cases v) (simp_all add: phase_number_def)

lemma sub_Inr: "sub v k = Inr x \<longleftrightarrow> fld v k = Some x"
  by (cases v) (auto simp: sub_def dget_def key_or_raise_def split: option.splits)

lemma get_attr_Inr: "get_attr v k JNull = Inr x \<longleftrightarrow> is_dict v \<and> x = at v k"
  by (auto simp: get_attr_def at_def)

lemma action_order_Inr:
  "action_order item pr = Inr k \<longleftrightarrow> (\<exists>action ranks phase n. fld item ''action'' = Some action \<and> is_dict action \<and> service_order pr = Inr ranks \<and>
     \<not> is_list (at action ''target'') \<and> \<not> is_dict (at action ''target'') \<and> fld action ''phase'' = Some phase \<and> phase_number phase = Inr n \<and>
     k = (n, action_rank ranks action))"
  unfolding action_order_def bindE_Inr_iff sub_Inr get_attr_Inr by (auto simp: bindE_Inr_iff sub_Inr split: if_splits)

lemma action_rank_norm: "wf_json action \<Longrightarrow> action_rank ranks (norm action) = action_rank ranks action"
  by (cases "at action ''target''") (simp_all add: action_rank_def at_norm norm_eq_JStr Let_def)

lemma action_order_norm:
  assumes wf: "wf_json item" and "action_order item pr = Inr k"
  shows "action_order (norm item) pr = Inr k"
proof -
  from assms(2) obtain action ranks phase n where a: "fld item ''action'' = Some action" "is_dict action" "service_order pr = Inr ranks"
    "\<not> is_list (at action ''target'')" "\<not> is_dict (at action ''target'')" "fld action ''phase'' = Some phase" "phase_number phase = Inr n"
    "k = (n, action_rank ranks action)" unfolding action_order_Inr by blast
  have "wf_json action" using wf a(1) by (rule wf_json_dget)
  with a wf show ?thesis unfolding action_order_Inr by (simp add: dget_norm at_norm action_rank_norm)
qed

lemma keyed_steps_nth:
  assumes "keyed_steps pr steps = Inr keyed"
  shows "length keyed = length steps" and "\<And>i. i < length steps \<Longrightarrow> snd (keyed ! i) = steps ! i \<and> action_order (steps ! i) pr = Inr (fst (keyed ! i))"
proof -
  show "length keyed = length steps" using assms by (simp add: keyed_steps_def mapE_Inr_iff)
  fix i assume "i < length steps"
  with assms obtain k where "action_order (steps ! i) pr = Inr k" "keyed ! i = (k, steps ! i)"
    unfolding keyed_steps_def mapE_Inr_iff bindE_Inr_iff by (metis Inr_inject)
  then show "snd (keyed ! i) = steps ! i \<and> action_order (steps ! i) pr = Inr (fst (keyed ! i))" by simp
qed

lemma schedule_sorted:
  assumes wf: "wf_json p" and ok: "validate_schedule p = Inr ()"
  obtains keyed where "keyed_steps (at p ''profile'') (elements (at p ''steps'')) = Inr keyed" and "sorted (map fst keyed)"
proof -
  let ?pr = "at p ''profile''" and ?steps = "elements (at p ''steps'')"
  from ok obtain keyed where keyed: "keyed_steps ?pr ?steps = Inr keyed"
    and same: "jeq (JList ?steps) (JList (map snd (sort_key fst keyed)))"
    by (auto simp: validate_schedule_def Let_def bindE_Inr_iff thenE_Inr_iff raise_if_def split: if_splits)
  note nth = keyed_steps_nth [OF keyed]
  have steps_wf: "wf_json s" if "s \<in> set ?steps" for s
    using that wf_json_at [OF wf, of "''steps''"] by (cases "at p ''steps''") (auto simp: elements_def)
  have order: "action_order (norm (snd e)) ?pr = Inr (fst e)" if e: "e \<in> set keyed" for e
  proof -
    from e obtain i where "i < length ?steps" "e = keyed ! i" by (auto simp: in_set_conv_nth nth(1))
    then show ?thesis using nth(2) [of i] steps_wf by (auto intro: action_order_norm)
  qed
  have "map fst keyed = map fst (sort_key fst keyed)"
  proof (rule nth_equalityI)
    fix i assume "i < length (map fst keyed)"
    then have i: "i < length keyed" "i < length (sort_key fst keyed)" by simp_all
    have "map norm ?steps ! i = map norm (map snd (sort_key fst keyed)) ! i" using same by (simp add: jeq_def)
    then have "norm (snd (keyed ! i)) = norm (snd (sort_key fst keyed ! i))" using i nth(1) nth(2) [of i] by simp
    moreover have "keyed ! i \<in> set keyed" "sort_key fst keyed ! i \<in> set keyed" using i nth_mem [of i "sort_key fst keyed"] by simp_all
    ultimately have "Inr (fst (keyed ! i)) = (Inr (fst (sort_key fst keyed ! i)) :: (int \<times> int) res)"
      using order [of "keyed ! i"] order [of "sort_key fst keyed ! i"] by simp
    then show "map fst keyed ! i = map fst (sort_key fst keyed) ! i" using i by simp
  qed simp
  then have "sorted (map fst keyed)" by simp
  with keyed show thesis by (rule that)
qed

definition acts :: "string \<Rightarrow> json \<Rightarrow> pystr \<Rightarrow> bool" where
  "acts kind step a \<longleftrightarrow> at step ''kind'' \<noteq> jlit ''file'' \<and> at (at step ''action'') ''kind'' = jlit kind \<and> at (at step ''action'') ''target'' = JStr a"

lemma acts_phase:
  assumes "check_schedule_step pr step = Inr ()" and "acts kind step a" and "kind \<in> {''service_start'', ''service_stop''}"
  shows "at (at step ''action'') ''phase'' = jlit (if kind = ''service_start'' then ''after_reload'' else ''quiesced_before_files'')"
proof -
  from assms(1,2) obtain allowed where allowed: "allowed_phases (jlit kind) = Inr allowed" "at (at step ''action'') ''phase'' \<in> set (map jlit allowed)"
    by (simp add: check_schedule_step_def Let_def bindE_Inr_iff acts_def in_names_Inr raise_if_def split: if_splits) blast
  from assms(3) consider "kind = ''service_start''" | "kind = ''service_stop''" by blast
  then show ?thesis
  proof cases
    case 1
    then have "allowed = [''after_reload'']" using allowed(1) by (simp add: allowed_phases_def SCHEDULE_PHASES_def)
    then show ?thesis using allowed(2) 1 by simp
  next
    case 2
    then have "allowed = [''quiesced_before_files'']" using allowed(1) by (simp add: allowed_phases_def SCHEDULE_PHASES_def)
    then show ?thesis using allowed(2) 2 by simp
  qed
qed

lemma acts_key:
  assumes check: "check_schedule_step pr step = Inr ()" and act: "acts kind step a" and kind: "kind \<in> {''service_start'', ''service_stop''}"
    and order: "action_order step pr = Inr key" and ranks: "service_order pr = Inr ranks" "map_of ranks a = Some n"
  shows "key = (if kind = ''service_start'' then (50, int n) else (10, - int n))"
proof -
  from order ranks(1) obtain action phase m where a: "fld step ''action'' = Some action" "fld action ''phase'' = Some phase" "phase_number phase = Inr m"
    "key = (m, action_rank ranks action)" unfolding action_order_Inr by auto
  have "at step ''action'' = action" "at action ''phase'' = phase" using a by (simp_all add: at_def get_or_def)
  then have phase: "phase = jlit (if kind = ''service_start'' then ''after_reload'' else ''quiesced_before_files'')"
    and action: "at action ''kind'' = jlit kind" "at action ''target'' = JStr a"
    using acts_phase [OF check act kind] act by (simp_all add: acts_def)
  from kind consider "kind = ''service_start''" | "kind = ''service_stop''" by blast
  then show ?thesis
  proof cases
    case 1
    then show ?thesis using a(3,4) ranks(2) action unfolding phase by (simp add: action_rank_def phase_number_def PHASES_def)
  next
    case 2
    then show ?thesis using a(3,4) ranks(2) action unfolding phase by (simp add: action_rank_def phase_number_def PHASES_def)
  qed
qed

section \<open>The theorems of the planner\<close>

text \<open>C24. \<open>service_order\<close> always ends, and on a profile whose requirements can be read it answers completely: it
  ranks every managed unit once, each above everything it requires, or it refuses the profile with
  \<open>UNSUPPORTED_SERVICE_GRAPH\<close>; and it refuses exactly the profiles whose requirements have a cycle.\<close>

theorem service_order_topological:
  assumes "wf_json pr" and "service_needs pr = Inr deps"
  shows "(case service_order pr of
      Inr ranks \<Rightarrow> acyclic (needs deps) \<and> distinct (map fst ranks) \<and> set (map fst ranks) = fst ` set deps \<and>
        (\<forall>(a, b) \<in> needs deps. rank_lt ranks b a)
    | Inl e \<Rightarrow> e = cycle_error \<and> \<not> acyclic (needs deps))"
proof (cases "service_order pr")
  case (Inl e)
  then have "order_loop deps [] = Inl e" using assms(2) by (auto simp: service_order_def bindE_def split: sum.splits)
  then show ?thesis using order_loop_error [OF service_needs_closed [OF assms]] Inl by simp
next
  case (Inr ranks)
  note r = service_order_ranks [OF assms Inr]
  then show ?thesis using rank_lt_acyclic [OF r(3)] Inr by simp
qed

text \<open>C23. In a schedule that \<open>validate_schedule\<close> accepts, a managed service is started only after every service
  it requires and stopped only before them, wherever both actions are in the plan.\<close>

theorem schedule_respects_requirements:
  assumes wf: "wf_json p" and ok: "validate_schedule p = Inr ()" and deps: "service_needs (at p ''profile'') = Inr deps"
    and edge: "(a, b) \<in> needs deps" and i: "i < length (elements (at p ''steps''))" and j: "j < length (elements (at p ''steps''))"
    and kind: "kind \<in> {''service_start'', ''service_stop''}"
    and acts: "acts kind (elements (at p ''steps'') ! i) a" "acts kind (elements (at p ''steps'') ! j) b"
  shows "if kind = ''service_start'' then j < i else i < j"
proof -
  let ?pr = "at p ''profile''" and ?steps = "elements (at p ''steps'')"
  from schedule_sorted [OF wf ok] obtain keyed where keyed: "keyed_steps ?pr ?steps = Inr keyed" "sorted (map fst keyed)" by blast
  note nth = keyed_steps_nth [OF keyed(1)]
  from ok obtain ranks where ranks: "service_order ?pr = Inr ranks" and checks: "\<forall>s \<in> set ?steps. check_schedule_step ?pr s = Inr ()"
    by (auto simp: validate_schedule_def Let_def bindE_Inr_iff thenE_Inr_iff forE_Inr_iff)
  from service_order_ranks(3) [OF wf_json_at [OF wf] deps ranks] edge obtain m n
    where mn: "map_of ranks b = Some m" "map_of ranks a = Some n" "m < n" by (auto simp: rank_lt_iff)
  have ki: "fst (keyed ! i) = (if kind = ''service_start'' then (50, int n) else (10, - int n))"
    using acts_key [OF _ acts(1) kind _ ranks mn(2)] checks i nth(2) [OF i] by simp
  have kj: "fst (keyed ! j) = (if kind = ''service_start'' then (50, int m) else (10, - int m))"
    using acts_key [OF _ acts(2) kind _ ranks mn(1)] checks j nth(2) [OF j] by simp
  have mono: "fst (keyed ! x) \<le> fst (keyed ! y)" if "x \<le> y" "y < length ?steps" for x y
    using sorted_nth_mono [OF keyed(2), of x y] that nth(1) by simp
  show ?thesis
    using mono [of i j] mono [of j i] i j ki kj mn(3) kind by (auto split: if_splits intro: ccontr)
qed

section \<open>Witnesses\<close>

definition example_profile :: json where
  "example_profile = obj
     [(''systemd'', obj [(''units'', obj [(''mcp'', obj [(''component'', jlit ''m'')]),
         (''proxy'', obj [(''component'', jlit ''p''), (''read_only_dependencies'', JList [jlit ''mcp'', jlit ''network''])]),
         (''resident'', obj [(''component'', jlit ''r'')])])]),
      (''probes'', obj [(''m'', obj [(''kind'', jlit ''mcp'')]), (''p'', obj [(''kind'', jlit ''gateway'')]), (''r'', obj [(''kind'', jlit ''resident'')])])]"

definition start_of :: "string \<Rightarrow> string \<Rightarrow> json" where
  "start_of ident target = obj [(''id'', jlit ident), (''kind'', jlit ''service''),
     (''action'', obj [(''kind'', jlit ''service_start''), (''phase'', jlit ''after_reload''), (''target'', jlit target)])]"

definition example_plan :: json where
  "example_plan = obj [(''profile'', example_profile), (''steps'', JList [start_of ''step-000'' ''resident'', start_of ''step-001'' ''mcp''])]"

definition example_needs :: service_graph where
  "example_needs = [(lit ''mcp'', [lit ''resident'']), (lit ''proxy'', [lit ''mcp'']), (lit ''resident'', [])]"

lemma example_service_needs: "service_needs example_profile = Inr example_needs"
  by code_simp

lemma example_order: "service_order example_profile = Inr [(lit ''resident'', 0), (lit ''mcp'', 1), (lit ''proxy'', 2)]"
  by code_simp

lemma example_schedule: "validate_schedule example_plan = Inr ()"
  by code_simp

lemma example_profile_wf: "wf_json example_profile" "wf_json example_plan"
  by (simp_all add: example_profile_def example_plan_def start_of_def wf_json_obj)

theorem service_order_topological_witness:
  "acyclic (needs example_needs) \<and> service_order example_profile = Inr [(lit ''resident'', 0), (lit ''mcp'', 1), (lit ''proxy'', 2)]"
  using service_order_topological [OF example_profile_wf(1) example_service_needs] by (simp add: example_order)

theorem schedule_respects_requirements_witness:
  "elements (at example_plan ''steps'') = [start_of ''step-000'' ''resident'', start_of ''step-001'' ''mcp''] \<and> (0::nat) < 1"
proof -
  have steps: "elements (at example_plan ''steps'') = [start_of ''step-000'' ''resident'', start_of ''step-001'' ''mcp'']"
    by (simp add: example_plan_def obj_def at_def get_or_def)
  have profile: "at example_plan ''profile'' = example_profile" by (simp add: example_plan_def obj_def at_def get_or_def)
  have edge: "(lit ''mcp'', lit ''resident'') \<in> needs example_needs" by (auto simp: needs_def example_needs_def)
  have "if ''service_start'' = ''service_start'' then 0 < (1::nat) else 1 < (0::nat)"
    by (rule schedule_respects_requirements [OF example_profile_wf(2) example_schedule _ edge])
      (simp_all add: profile example_service_needs steps, simp_all add: acts_def start_of_def obj_def at_def get_or_def)
  then show ?thesis by (simp add: steps)
qed

end
