(* ===== verification/GrantProps.thy ===== *)
theory GrantProps
  imports QuotaGrant QuotaProps ContractProps
begin

text \<open>
  The permanent accounting of the quota grants: an accepted set of grants stays within every limit of the
  capacity declaration.
\<close>

section \<open>Accounting\<close>

definition grant_amounts :: "bytes \<Rightarrow> (string \<times> int) list" where
  "grant_amounts wire = (case bindE (decode_grant wire) totals of Inr xs \<Rightarrow> xs | Inl e \<Rightarrow> [])"

definition amount_of :: "string \<Rightarrow> bytes \<Rightarrow> int" where
  "amount_of key wire = (case map_of (grant_amounts wire) key of Some n \<Rightarrow> n | None \<Rightarrow> 0)"

definition management_id :: "bytes \<Rightarrow> json" where
  "management_id wire = (case bindE (decode_grant wire) as_dict of Inr v \<Rightarrow> field (field v ''management'') ''id'' | Inl e \<Rightarrow> JNull)"

definition limit_key :: "json \<Rightarrow> string \<Rightarrow> int" where
  "limit_key capacity key = int_of (fld (field capacity ''management'') key)"

lemma charge_Inr: "charge capacity used (key, amount) = Inr used' \<longleftrightarrow>
    (case map_of used key of None \<Rightarrow> 0 | Some n \<Rightarrow> n) + amount \<le> limit_key capacity key \<and>
    used' = AList.update key ((case map_of used key of None \<Rightarrow> 0 | Some n \<Rightarrow> n) + amount) used"
  by (auto simp: charge_def Let_def thenE_Inr_iff require_Inr limit_key_def)

definition total_of :: "(string \<times> int) list \<Rightarrow> string \<Rightarrow> int" where
  "total_of used key = (case map_of used key of None \<Rightarrow> 0 | Some n \<Rightarrow> n)"

lemma charge_fold:
  assumes "foldE (charge capacity) used amounts = Inr used'" and "distinct (map fst amounts)"
  shows "total_of used' key = total_of used key + total_of amounts key \<and>
    (key \<in> fst ` set amounts \<longrightarrow> total_of used' key \<le> limit_key capacity key)"
  using assms
proof (induction amounts arbitrary: used)
  case (Cons a amounts)
  obtain k n where a: "a = (k, n)" by (cases a)
  from Cons.prems obtain u where u: "charge capacity used (k, n) = Inr u" and rest: "foldE (charge capacity) u amounts = Inr used'"
    by (auto simp: a split: sum.splits)
  have step: "total_of u key = (if key = k then total_of used k + n else total_of used key)" "total_of used k + n \<le> limit_key capacity k"
    using u by (auto simp: charge_Inr total_of_def update_conv)
  have k: "k \<notin> fst ` set amounts" using Cons.prems(2) by (simp add: a)
  then have "map_of amounts k = None" by (simp add: map_of_eq_None_iff)
  then have "total_of amounts k = 0" by (simp add: total_of_def)
  with Cons.IH [OF rest] Cons.prems(2) step k show ?case by (auto simp: a total_of_def)
qed (simp add: total_of_def)

lemma mapE_keys: "mapE (\<lambda>k. bindE (f k) (\<lambda>n. Inr (k, n))) ks = Inr xs \<Longrightarrow> map fst xs = ks"
  by (induction ks arbitrary: xs) (auto simp: bindE_def split: sum.splits)

lemma totals_keys: "totals wire = Inr xs \<Longrightarrow> map fst xs = ACCOUNT_KEYS"
  by (auto simp: totals_def bindE_Inr_iff Let_def ACCOUNT_KEYS_def simp del: mapE.simps dest!: mapE_keys)

text \<open>What the accounting loop has seen, and what it has charged for it.\<close>

definition account_inv :: "json \<Rightarrow> bytes list \<Rightarrow> account \<Rightarrow> bool" where
  "account_inv capacity seen acc \<longleftrightarrow>
     (\<forall>key. total_of (fst acc) key = sum_list (map (amount_of key) seen)) \<and>
     (\<forall>key \<in> set ACCOUNT_KEYS. seen \<noteq> [] \<longrightarrow> total_of (fst acc) key \<le> limit_key capacity key) \<and>
     map management_id seen = rev (snd acc) \<and> distinct (snd acc)"

lemma account_step_inv:
  assumes inv: "account_inv capacity seen acc" and step: "account_step capacity dig acc w = Inr acc'"
  shows "account_inv capacity (seen @ [w]) acc'"
proof -
  obtain used ids where acc: "acc = (used, ids)" by (cases acc)
  from step obtain wire v amounts used' where wire: "decode_grant w = Inr wire" "as_dict wire = Inr v" "totals wire = Inr amounts"
    and fold: "foldE (charge capacity) used amounts = Inr used'" and new: "field (field v ''management'') ''id'' \<notin> set ids"
    and acc': "acc' = (used', field (field v ''management'') ''id'' # ids)"
    unfolding account_step_def acc prod.case bindE_Inr_iff thenE_Inr_iff require_Inr by blast
  have keys: "map fst amounts = ACCOUNT_KEYS" by (rule totals_keys [OF wire(3)])
  then have "distinct (map fst amounts)" by (simp add: ACCOUNT_KEYS_def)
  note charged = charge_fold [OF fold this]
  have amount: "amount_of key w = total_of amounts key" for key
    by (simp add: amount_of_def grant_amounts_def wire total_of_def)
  have ident: "management_id w = field (field v ''management'') ''id''" by (simp add: management_id_def wire)
  have "fst ` set amounts = set ACCOUNT_KEYS" using keys by (metis list.set_map)
  with charged have totals': "total_of used' key = total_of used key + amount_of key w"
    and bounded: "key \<in> set ACCOUNT_KEYS \<Longrightarrow> total_of used' key \<le> limit_key capacity key" for key
    unfolding amount by (blast, metis)
  show ?thesis
    using inv bounded ident new unfolding account_inv_def acc acc' by (simp add: totals')
qed

lemma start_total: "total_of (map (\<lambda>key. (key, 0)) ks) key = 0"
  by (induction ks) (auto simp: total_of_def)

lemma decoded_limits: "decode_capacity raw = Inr capacity \<Longrightarrow> key \<in> set ACCOUNT_KEYS \<Longrightarrow> 1 \<le> limit_key capacity key"
proof -
  assume ok: "decode_capacity raw = Inr capacity" and key: "key \<in> set ACCOUNT_KEYS"
  from ok have m: "keys_are (field capacity ''management'') ACCOUNT_KEYS = Inr ()"
    "forE (jvalues (field capacity ''management'')) (\<lambda>limit. int_from limit 1) = Inr ()"
    unfolding decode_capacity_def bindE_Inr_iff thenE_Inr_iff by blast+
  then obtain x where x: "fld (field capacity ''management'') key = Some x" using key has_keys_get by (fastforce simp: keys_are_Inr)
  then have "x \<in> set (jvalues (field capacity ''management''))"
    by (cases "field capacity ''management''") (auto simp: dget_def jvalues_def items_def dest!: map_of_SomeD intro: rev_image_eqI)
  then have "int_from x 1 = Inr ()" using m(2) by (simp add: forE_Inr_iff)
  then show ?thesis using x by (auto simp: int_from_def bindE_Inr_iff integer_Inr limit_key_def)
qed


section \<open>Witness\<close>

lemma quota_onto_distinct: "distinct (map fst (acc @ kvs)) \<Longrightarrow> quota_onto acc kvs = Inr (acc @ kvs)"
proof (induction kvs arbitrary: acc)
  case (Cons p kvs)
  obtain k v where p: "p = (k, v)" by (cases p)
  have "quota_onto (acc @ [(k, v)]) kvs = Inr ((acc @ [(k, v)]) @ kvs)"
    using Cons.prems by (intro Cons.IH) (simp add: p)
  then show ?case using Cons.prems by (auto simp: p require_def raise_if_def thenE_def update_new)
qed simp

lemma keeps_quota: "keeps quota_hooks"
  by (simp add: keeps_def quota_hooks_def quota_pairs_def quota_onto_distinct)

lemma quota_load_dumps:
  assumes doc: "tree 0 v = Inr ()" "wf_json v" and walk: "walk depth 1 (sort_keys v) = Inr ()" and size: "length (dumps v) \<le> limit"
  shows "quota_load (dumps v) limit depth = Inr (sort_keys v)"
proof -
  have acc: "accepts quota_hooks (sort_keys v)" using doc by (intro tree_accepts_sorted keeps_quota)
  have "utf8_decode (dumps v) = Some (dumps v)" using jprint_ascii [OF acc] by (simp add: utf8_decode_ascii dumps_def)
  moreover have "dumps v \<noteq> []" using value_head_jprint [OF acc] by (auto simp: dumps_def value_head_def)
  ultimately show ?thesis
    using size walk loads_dumps [OF acc] by (simp add: quota_load_def json_error_def require_def raise_if_def thenE_def)
qed

definition example_capacity :: json where
  "example_capacity = obj
     [(''authority_digest'', zero_digest), (''boot_id'', jlit ''00000000-0000-0000-0000-000000000001''), (''ceiling_bytes'', JInt 200000),
      (''ceiling_inodes'', JInt 40),
      (''domains'', JList [obj [(''filesystem_uuid'', jlit ''00000000-0000-0000-0000-000000000002''), (''hard_bytes'', JInt 1024),
         (''hard_inodes'', JInt 16), (''project_id'', JInt 7)]]),
      (''epoch'', JStr (replicate 32 48)),
      (''management'', obj [(''cpu_ns'', JInt 1), (''memory_bytes'', JInt 1), (''output_bytes'', JInt 1), (''pids'', JInt 1),
         (''storage_bytes'', JInt 4096), (''storage_inodes'', JInt 7)]),
      (''retained_bytes'', JInt 0), (''retained_inodes'', JInt 0), (''schema'', jlit ''local-hand-quota-capacity/v1'')]"

lemma walk_jlit: "walk m d (jlit s) = Inr () \<longleftrightarrow> d \<le> m"
  by (auto simp: thenE_Inr_iff require_Inr surrogate_def dest!: lit_below_256)

lemma walk_obj: "walk m d (obj kvs) = Inr () \<longleftrightarrow> d \<le> m \<and> (\<forall>(k, v) \<in> set kvs. Suc d \<le> m \<and> walk m (Suc d) v = Inr ())"
  by (simp add: obj_def thenE_Inr_iff require_Inr forE_Inr_iff walk_jlit case_prod_beta del: walk.simps(1))

lemma example_capacity_sorted: "sort_keys example_capacity = example_capacity"
  by code_simp

lemma example_capacity_size: "length (dumps example_capacity) \<le> GRANT_LIMIT"
  using length_canonical_bytes [of example_capacity] unfolding canonical_bytes_def
  by (rule order_trans) (simp add: example_capacity_def obj_def zero_digest_def GRANT_LIMIT_def)

lemma example_capacity_load: "quota_load (dumps example_capacity) GRANT_LIMIT 6 = Inr example_capacity"
proof -
  have "quota_load (dumps example_capacity) GRANT_LIMIT 6 = Inr (sort_keys example_capacity)"
  proof (rule quota_load_dumps)
    show "tree 0 example_capacity = Inr ()"
      by (simp add: example_capacity_def tree_obj tree_jlit MAX_DEPTH_def MAX_SAFE_INTEGER_def raise_if_def thenE_Inr_iff forE_Inr_iff zero_digest_def surrogate_def
          del: tree.simps(1,3) forE.simps) (simp add: surrogate_def)
    show "wf_json example_capacity" by (simp add: example_capacity_def wf_json_obj zero_digest_def code_points_def [of "replicate _ _"])
    show "walk 6 1 (sort_keys example_capacity) = Inr ()" unfolding example_capacity_sorted
      by (simp add: example_capacity_def walk_obj walk_jlit thenE_Inr_iff bindE_Inr_iff forE_Inr_iff require_Inr integer_Inr MAX_INTEGER_def zero_digest_def
          del: walk.simps(1) forE.simps) (simp add: surrogate_def require_Inr thenE_Inr_iff)
    show "length (dumps example_capacity) \<le> GRANT_LIMIT" by (rule example_capacity_size)
  qed
  then show ?thesis by (simp add: example_capacity_sorted)
qed

lemma example_decode: "decode_capacity (dumps example_capacity) = Inr example_capacity"
  unfolding decode_capacity_def example_capacity_load by code_simp

lemma example_check: "check_capacity example_capacity [] = Inr (map (\<lambda>key. (key, 0)) ACCOUNT_KEYS)"
proof -
  have "quota_canonical example_capacity GRANT_LIMIT = Inr (dumps example_capacity)"
    using example_capacity_size by (simp add: quota_canonical_def Let_def require_Inr thenE_Inr_iff)
  then show ?thesis by (simp add: check_capacity_def grant_digest_of_def example_decode require_def raise_if_def thenE_def)
qed


end
