(* ===== verification/PipeProps.thy ===== *)
theory PipeProps
  imports QuotaBinding QuotaProps
begin

text \<open>
  The receipt pipe of \<open>quota_binding.py\<close> against the frame it expects: whatever chunks the operating system
  delivers, a pipe is accepted exactly when they join to one complete frame and the end of file came
  from one empty read, the last.
\<close>

section \<open>Frames\<close>

definition feed_all :: "bytes list \<Rightarrow> pipe" where
  "feed_all reads = foldl feed new_pipe reads"

lemma shift_byte: "b < 256 \<Longrightarrow> (a * 256 + b) div 256 = (a :: nat) \<and> (a * 256 + b) mod 256 = b"
  by simp

lemma pack_digits: "n < 2 ^ 32 \<Longrightarrow> pack_u32 n = Inr [n div 256 div 256 div 256 mod 256, n div 256 div 256 mod 256, n div 256 mod 256, n mod 256]"
  by (simp add: pack_u32_def div_mult2_eq [symmetric])

lemma unpack_pack:
  assumes "length b = 4" and "\<forall>x \<in> set b. x < 256"
  shows "pack_u32 (unpack_u32 b) = Inr b"
proof -
  from assms(1) obtain w x y z where b: "b = [w, x, y, z]"
    by (auto simp: numeral_eq_Suc length_Suc_conv)
  from assms(2) have lt: "w < 256" "x < 256" "y < 256" "z < 256" by (simp_all add: b)
  have n: "unpack_u32 b = ((w * 256 + x) * 256 + y) * 256 + z" by (simp add: b)
  have "unpack_u32 b < 2 ^ 32" using lt unfolding n by simp
  note digits = pack_digits [OF this]
  note bytes = shift_byte [OF lt(4), of "(w * 256 + x) * 256 + y"] shift_byte [OF lt(3), of "w * 256 + x"] shift_byte [OF lt(2), of w]
  show ?thesis unfolding digits unfolding n by (simp only: bytes mod_less [OF lt(1)] b)
qed

lemma pack_unpack: "pack_u32 n = Inr b \<Longrightarrow> length b = 4 \<and> unpack_u32 b = n"
proof -
  assume p: "pack_u32 n = Inr b"
  then have lt: "n < 2 ^ 32" by (auto simp: pack_u32_def split: if_splits)
  have digits: "q = q div 256 * 256 + q mod 256" for q :: nat by simp
  have "n div 256 div 256 div 256 < 256" using lt by (simp add: div_mult2_eq [symmetric] less_mult_imp_div_less)
  then have "((n div 256 div 256 div 256 mod 256 * 256 + n div 256 div 256 mod 256) * 256 + n div 256 mod 256) * 256 + n mod 256 = n"
    using digits [of n] digits [of "n div 256"] digits [of "n div 256 div 256"] by simp
  then show ?thesis using p by (auto simp: pack_digits [OF lt])
qed

text \<open>The pipe after some reads: what it holds, and whether a read came after the end or exceeded the bound.\<close>

lemma feed_error: "pipe_error p \<Longrightarrow> pipe_error (foldl feed p reads)"
  by (induction reads arbitrary: p) (auto simp: feed_def)

lemma feed_all_Nil [simp]: "feed_all [] = new_pipe"
  by (simp add: feed_all_def)

lemma feed_all_snoc: "feed_all (reads @ [r]) = feed (feed_all reads) r"
  by (simp add: feed_all_def)

lemma feed_all_open:
  "\<not> pipe_error (feed_all reads) \<and> \<not> pipe_eof (feed_all reads) \<longleftrightarrow> [] \<notin> set reads \<and> length (concat reads) \<le> RESPONSE_LIMIT + 4"
  "\<not> pipe_error (feed_all reads) \<Longrightarrow> pipe_raw (feed_all reads) = concat reads"
proof (induction reads rule: rev_induct)
  case (snoc r reads)
  { case 1
    show ?case using snoc.IH by (auto simp: feed_all_snoc feed_def)
  next
    case 2
    then show ?case using snoc.IH by (auto simp: feed_all_snoc feed_def split: if_splits)
  }
qed (simp_all add: new_pipe_def)

lemma feed_all_done:
  "\<not> pipe_error (feed_all reads) \<and> pipe_eof (feed_all reads) \<longleftrightarrow>
     (\<exists>chunks. reads = chunks @ [[]] \<and> [] \<notin> set chunks \<and> length (concat reads) \<le> RESPONSE_LIMIT + 4)"
proof (cases reads rule: rev_cases)
  case Nil
  then show ?thesis by (simp add: new_pipe_def)
next
  case (snoc chunks r)
  then show ?thesis using feed_all_open [of chunks] by (auto simp: feed_all_snoc feed_def)
qed

text \<open>C32. A receipt pipe accepts its reads exactly when they are the chunks of one frame, the four length bytes of a body of
  admissible size and that body, closed by one empty read, and the body decodes to an observation the grant
  accepts; how the operating system split the frame makes no difference.\<close>

theorem pipe_accepts_one_frame:
  assumes octets: "set (concat reads) \<subseteq> {..<256}"
  shows "finish (feed_all reads) grant_wire now = Inr out \<longleftrightarrow>
     (\<exists>chunks head body v. reads = chunks @ [[]] \<and> [] \<notin> set chunks \<and> concat chunks = head @ body \<and> pack_u32 (length body) = Inr head \<and>
        0 < length body \<and> length body \<le> RESPONSE_LIMIT \<and> quota_load body RESPONSE_LIMIT 8 = Inr v \<and>
        validate_observation v grant_wire now = Inr out)" (is "_ \<longleftrightarrow> ?frame")
proof
  assume ok: "finish (feed_all reads) grant_wire now = Inr out"
  then obtain v where eof: "pipe_eof (feed_all reads)" "\<not> pipe_error (feed_all reads)" "4 \<le> length (pipe_raw (feed_all reads))"
    and size: "0 < unpack_u32 (take 4 (pipe_raw (feed_all reads)))" "unpack_u32 (take 4 (pipe_raw (feed_all reads))) \<le> RESPONSE_LIMIT"
      "length (pipe_raw (feed_all reads)) = unpack_u32 (take 4 (pipe_raw (feed_all reads))) + 4"
    and v: "quota_load (drop 4 (pipe_raw (feed_all reads))) RESPONSE_LIMIT 8 = Inr v" "validate_observation v grant_wire now = Inr out"
    by (auto simp: finish_def Let_def thenE_Inr_iff bindE_Inr_iff require_Inr)
  from eof feed_all_done obtain chunks where chunks: "reads = chunks @ [[]]" "[] \<notin> set chunks" by blast
  have raw: "pipe_raw (feed_all reads) = concat chunks" using feed_all_open(2) [OF eof(2)] chunks(1) by simp
  have "\<forall>x \<in> set (take 4 (concat chunks)). x < 256" using octets chunks(1) by (fastforce dest: in_set_takeD)
  then have "pack_u32 (length (drop 4 (concat chunks))) = Inr (take 4 (concat chunks))"
    using unpack_pack [of "take 4 (concat chunks)"] size(3) eof(3) raw by simp
  then show ?frame
    using chunks v size raw by (intro exI [of _ chunks] exI [of _ "take 4 (concat chunks)"] exI [of _ "drop 4 (concat chunks)"] exI [of _ v]) simp
next
  assume ?frame
  then obtain chunks head body v where f: "reads = chunks @ [[]]" "[] \<notin> set chunks" "concat chunks = head @ body" "pack_u32 (length body) = Inr head"
    "0 < length body" "length body \<le> RESPONSE_LIMIT" "quota_load body RESPONSE_LIMIT 8 = Inr v" "validate_observation v grant_wire now = Inr out" by blast
  note head = pack_unpack [OF f(4)]
  have "\<not> pipe_error (feed_all reads) \<and> pipe_eof (feed_all reads)" using f head by (subst feed_all_done) simp
  moreover from this have "pipe_raw (feed_all reads) = head @ body" using feed_all_open(2) [of reads] f(1,3) by simp
  ultimately show "finish (feed_all reads) grant_wire now = Inr out"
    using f head by (simp add: finish_def thenE_Inr_iff bindE_Inr_iff require_Inr)
qed

theorem pipe_accepts_one_frame_witness:
  "\<forall>grant_wire now out. finish (feed_all [[0, 0], [0], [1, 49, 50], []]) grant_wire now \<noteq> Inr out"
proof (intro allI notI)
  fix grant_wire now out
  assume "finish (feed_all [[0, 0], [0], [1, 49, 50], []]) grant_wire now = Inr out"
  then obtain chunks head body where f: "[[0, 0], [0], [1, 49, 50], []] = chunks @ [[]]" "concat chunks = head @ body"
    "pack_u32 (length body) = Inr head"
    using pipe_accepts_one_frame [of "[[0, 0], [0], [1, 49, 50], []]" grant_wire now out] by auto
  have "chunks = [[0, 0], [0], [1, 49, 50]]" using arg_cong [OF f(1), of butlast] by simp
  moreover note head = pack_unpack [OF f(3)]
  ultimately have "head = [0, 0, 0, 1]" "body = [49, 50]"
    using arg_cong [OF f(2), of "take 4"] arg_cong [OF f(2), of "drop 4"] by simp_all
  with head show False by simp
qed

end
