(* ===== verification/Startup.thy ===== *)
theory Startup
  imports Maintenance
begin

text \<open>
  The protected startup selection of \<open>tools/local_hand_jobs/startup.py\<close>: which configuration set and which
  components a node may start.  The state is the content of the descriptor, absent before the bootstrap;
  publication and admission run under the lock of the maintenance gate and see its record.  What the
  operating system does in a call, the members' bytes, the boot identity and the start time of a process
  are arguments.
\<close>

section \<open>Text of a JSON document\<close>

text \<open>
  \<open>json.loads\<close> of bytes: \<open>json.detect_encoding\<close>, then decoding with \<open>surrogatepass\<close>.  A failure is a
  \<open>UnicodeDecodeError\<close>, a \<open>ValueError\<close>.
\<close>

definition utf8_pass_head :: "bytes \<Rightarrow> (nat \<times> bytes) option" where
  "utf8_pass_head bs = (case bs of
     b # c1 # c2 # r \<Rightarrow>
       if b = 237 \<and> cont c1 \<and> cont c2 then Some (53248 + (c1 - 128) * 64 + (c2 - 128), r) else utf8_head bs
   | _ \<Rightarrow> utf8_head bs)"

lemma utf8_pass_head_length: "utf8_pass_head bs = Some (c, r) \<Longrightarrow> length r < length bs"
  by (auto simp: utf8_pass_head_def dest: utf8_head_length split: list.splits if_splits)

function utf8_pass :: "bytes \<Rightarrow> pystr option" where
  "utf8_pass bs = (if bs = [] then Some []
     else case utf8_pass_head bs of None \<Rightarrow> None
       | Some (c, r) \<Rightarrow> (case utf8_pass r of None \<Rightarrow> None | Some cs \<Rightarrow> Some (c # cs)))"
  by pat_completeness auto
termination
  by (relation "measure length") (auto dest: utf8_pass_head_length)

declare utf8_pass.simps [simp del]

fun units16 :: "bool \<Rightarrow> bytes \<Rightarrow> nat list option" where
  "units16 big [] = Some []"
| "units16 big [a] = None"
| "units16 big (a # b # r) = map_option ((#) (if big then a * 256 + b else b * 256 + a)) (units16 big r)"

fun join16 :: "nat list \<Rightarrow> pystr" where
  "join16 (h # l # r) =
     (if 55296 \<le> h \<and> h < 56320 \<and> 56320 \<le> l \<and> l < 57344 then (65536 + (h - 55296) * 1024 + (l - 56320)) # join16 r
      else h # join16 (l # r))"
| "join16 us = us"

fun units32 :: "bool \<Rightarrow> bytes \<Rightarrow> pystr option" where
  "units32 big (a # b # c # d # r) =
     (let u = (if big then ((a * 256 + b) * 256 + c) * 256 + d else ((d * 256 + c) * 256 + b) * 256 + a) in
      if u < 1114112 then map_option ((#) u) (units32 big r) else None)"
| "units32 big [] = Some []"
| "units32 big bs = None"

definition decode16 :: "bool \<Rightarrow> bytes \<Rightarrow> pystr option" where
  "decode16 big bs = map_option join16 (units16 big bs)"

definition json_text :: "bytes \<Rightarrow> pystr option" where
  "json_text bs =
     (if prefix [0, 0, 254, 255] bs then units32 True (drop 4 bs)
      else if prefix [255, 254, 0, 0] bs then units32 False (drop 4 bs)
      else if prefix [254, 255] bs then decode16 True (drop 2 bs)
      else if prefix [255, 254] bs then decode16 False (drop 2 bs)
      else if prefix [239, 187, 191] bs then utf8_pass (drop 3 bs)
      else case bs of
        a # b # c # d # _ \<Rightarrow>
          if a = 0 then (if b \<noteq> 0 then decode16 True bs else units32 True bs)
          else if b = 0 then (if c \<noteq> 0 \<or> d \<noteq> 0 then decode16 False bs else units32 False bs)
          else utf8_pass bs
      | [a, b] \<Rightarrow> if a = 0 then decode16 True bs else if b = 0 then decode16 False bs else utf8_pass bs
      | _ \<Rightarrow> utf8_pass bs)"

definition unique_object :: "dict \<Rightarrow> json res" where
  "unique_object kvs = (if distinct (map fst kvs) then Inr (JObj kvs) else Inl (PyError ''ValueError''))"

definition startup_hooks :: hooks where
  "startup_hooks = \<lparr>parse_int = \<lambda>t. Inr (JInt (int_of_text t)), parse_float = \<lambda>t. Inr (JFloat (map char_of t)),
     parse_constant = \<lambda>t. Inr (JFloat (map char_of t)), object_pairs_hook = unique_object\<rparr>"

definition startup_load :: "bytes \<Rightarrow> json res" where
  "startup_load raw = (case json_text raw of None \<Rightarrow> Inl (PyError ''ValueError'') | Some text \<Rightarrow> loads startup_hooks text)"

section \<open>Selections\<close>

definition STARTUP_SCHEMA :: string where "STARTUP_SCHEMA = ''local-hand-startup-selection/v1''"
definition MEMBER_TOTAL :: nat where "MEMBER_TOTAL = 64 * 1024 * 1024"

definition SELECTION_KEYS :: "string list" where
  "SELECTION_KEYS = [''schema'', ''node_id'', ''deployment_digest'', ''decision_id'', ''mode'', ''owner'', ''members'', ''components'', ''permit'']"

definition startup_unknown :: "string \<Rightarrow> exn" where
  "startup_unknown m = JobError ''STARTUP_UNKNOWN'' m"

definition startup_mismatch :: "string \<Rightarrow> exn" where
  "startup_mismatch m = JobError ''STARTUP_MISMATCH'' m"

definition hex_text :: "json \<Rightarrow> bool" where
  "hex_text v = (case v of JStr s \<Rightarrow> length s = 64 \<and> (\<forall>c \<in> set s. is_hex_digit c) | _ \<Rightarrow> False)"

definition some_text :: "json \<Rightarrow> bool" where
  "some_text v = (case v of JStr s \<Rightarrow> s \<noteq> [] | _ \<Rightarrow> False)"

definition validate_member :: "pystr list \<Rightarrow> json \<Rightarrow> pystr list res" where
  "validate_member paths member =
     (case at member ''path'' of
        JStr path \<Rightarrow> thenE (value_unless (is_dict member \<and> fld member ''sha256'' \<noteq> None \<and>
            set (jkeys member) \<subseteq> set (map lit [''path'', ''sha256'', ''owner_uid'']) \<and>
            (case fld member ''owner_uid'' of None \<Rightarrow> True | Some uid \<Rightarrow> is_int uid \<and> 0 \<le> int_of (Some uid) \<and> int_of (Some uid) < 2 ^ 32 - 1) \<and>
            prefix [47] path \<and> lit ''..'' \<notin> set (posix_parts path) \<and> path \<notin> set paths \<and> hex_text (at member ''sha256'')))
          (Inr (path # paths))
      | _ \<Rightarrow> Inl (PyError ''ValueError''))"

definition component_name :: "pystr \<Rightarrow> bool" where
  \<comment> \<open>\<open>[a-z][a-z0-9_-]{0,63}\<close>\<close>
  "component_name s = (s \<noteq> [] \<and> length s \<le> 64 \<and> 97 \<le> hd s \<and> hd s \<le> 122 \<and>
     (\<forall>c \<in> set s. 97 \<le> c \<and> c \<le> 122 \<or> 48 \<le> c \<and> c \<le> 57 \<or> c \<in> {95, 45}))"

definition validate_component :: "pystr \<times> json \<Rightarrow> unit res" where
  "validate_component entry = (case entry of (name, c) \<Rightarrow>
     thenE (value_unless (component_name name \<and> is_dict c \<and> has_keys c [''configuration_digest'', ''payload_digest'', ''entry'', ''running''] \<and>
        hex_text (at c ''configuration_digest'') \<and> hex_text (at c ''payload_digest'')))
     (bindE (in_names (at c ''entry'') [''local'', ''public'']) (\<lambda>ok.
        value_unless (ok \<and> (\<exists>b. at c ''running'' = JBool b)))))"

definition positive_int :: "json \<Rightarrow> bool" where
  "positive_int v = (is_int v \<and> 0 < int_of (Some v))"

definition claim_ok :: "json \<Rightarrow> json \<Rightarrow> bool" where
  "claim_ok permit claim = (is_dict claim \<and> has_keys claim [''pid'', ''start_ticks'', ''boot_id''] \<and> positive_int (at claim ''pid'') \<and>
     positive_int (at claim ''start_ticks'') \<and> at claim ''boot_id'' = at permit ''boot_id'')"

definition validate_permit :: "json \<Rightarrow> bool" where
  "validate_permit v =
     (let permit = at v ''permit'' in
      if at v ''mode'' = jlit ''stable'' then some_text (at v ''decision_id'') \<and> permit = JNull
      else if at v ''mode'' = jlit ''candidate'' then
        some_text (at v ''owner'') \<and> at v ''decision_id'' = JNull \<and> is_dict permit \<and> has_keys permit [''boot_id'', ''attempt_id'', ''claims''] \<and>
        some_text (at permit ''boot_id'') \<and> some_text (at permit ''attempt_id'') \<and> is_dict (at permit ''claims'') \<and>
        set (jkeys (at permit ''claims'')) \<subseteq> set (jkeys (at v ''components'')) \<and>
        (\<forall>claim \<in> set (jvalues (at permit ''claims'')). claim_ok permit claim)
      else permit = JNull)"

definition validate_selection :: "json \<Rightarrow> unit res" where
  "validate_selection v =
     thenE (value_unless (is_dict v \<and> has_keys v SELECTION_KEYS \<and> at v ''schema'' = jlit STARTUP_SCHEMA))
     (bindE (in_names (at v ''mode'') [''blocked'', ''candidate'', ''stable'']) (\<lambda>mode_ok.
      thenE (value_unless (mode_ok \<and> some_text (at v ''node_id'') \<and> hex_text (at v ''deployment_digest'') \<and>
          is_dict (at v ''components'') \<and> 1 \<le> length (items (at v ''components'')) \<and> length (items (at v ''components'')) \<le> 16 \<and>
          is_list (at v ''members'') \<and> 1 \<le> length (elements (at v ''members'')) \<and> length (elements (at v ''members'')) \<le> 64))
     (bindE (foldE validate_member [] (elements (at v ''members''))) (\<lambda>_.
      thenE (forE (items (at v ''components'')) validate_component)
       (value_unless (validate_permit v))))))"

section \<open>The operating system\<close>

text \<open>
  One call sees: whether the descriptor can be read as a protected file, whether \<open>lstat\<close> of it and of its
  parent fail, whether the parent is protected, what opening the chain of its directories raises, how a
  write and a directory sync end, the bytes of the members (none when a member is not a protected file of
  its owner), the boot identity and the start time of a process.
\<close>

type_synonym descriptor = "bytes option"

record startup_os =
  su_unreadable :: bool
  su_lstat_fails :: bool
  su_parent_lstat_fails :: bool
  su_parent_exposed :: bool
  su_directory :: "exn option"
  su_write :: write_outcome
  su_sync_fails :: bool
  su_member :: "pystr \<Rightarrow> json option \<Rightarrow> bytes option"
  su_boot :: "pystr res"
  su_ticks :: "int \<Rightarrow> int option"

text \<open>The checks of \<open>_protected_directory\<close> on the text of the path, for the parent of \<open>path\<close>.\<close>

definition parent_ok :: "pystr \<Rightarrow> unit res" where
  "parent_ok path = raise_if (\<not> prefix [47] path \<or> lit ''..'' \<in> set (butlast (posix_parts path)) \<or> prefix [47, 47] (path_str path))
     (startup_unknown ''Startup paths must be absolute'')"

definition unverified :: exn where
  "unverified = startup_unknown ''Cannot verify a protected startup object''"

definition read_member :: "startup_os \<Rightarrow> json \<Rightarrow> bytes res" where
  "read_member os member =
     (let path = str_of (fld member ''path'') in
      thenE (parent_ok path) (case su_member os path (fld member ''owner_uid'') of None \<Rightarrow> Inl unverified | Some raw \<Rightarrow> Inr raw))"

definition invalid_selection :: "'a res \<Rightarrow> 'a res" where
  "invalid_selection r = (case r of
     Inl (PyError c) \<Rightarrow> if c \<in> {''ValueError'', ''TypeError'', ''KeyError''} then Inl (startup_unknown ''Startup selection is invalid'') else r
   | _ \<Rightarrow> r)"

definition read_selection :: "startup_os \<Rightarrow> pystr \<Rightarrow> descriptor \<Rightarrow> json res" where
  "read_selection os path d = invalid_selection
     (thenE (parent_ok path)
     (case d of
        Some raw \<Rightarrow> if su_unreadable os then Inl unverified
          else bindE (startup_load raw) (\<lambda>v. thenE (validate_selection v) (Inr v))
      | None \<Rightarrow> Inl unverified))"

definition member_step :: "startup_os \<Rightarrow> nat \<Rightarrow> json \<Rightarrow> nat res" where
  "member_step os sofar member =
     bindE (read_member os member) (\<lambda>raw.
       thenE (raise_if (sofar + length raw > MEMBER_TOTAL \<or> JStr (sha256_hex raw) \<noteq> at member ''sha256'')
           (startup_mismatch ''The complete configuration set differs from the selection''))
         (Inr (sofar + length raw)))"

definition verify_members :: "startup_os \<Rightarrow> json \<Rightarrow> unit res" where
  "verify_members os v =
     thenE (validate_selection v) (bindE (foldE (member_step os) 0 (elements (at v ''members''))) (\<lambda>_. Inr ()))"

definition open_directory :: "startup_os \<Rightarrow> pystr \<Rightarrow> unit res" where
  "open_directory os path = thenE (parent_ok path) (case su_directory os of None \<Rightarrow> Inr () | Some e \<Rightarrow> Inl e)"

definition write_selection :: "startup_os \<Rightarrow> pystr \<Rightarrow> json \<Rightarrow> descriptor \<Rightarrow> unit res \<times> descriptor" where
  "write_selection os path v d = (case open_directory os path of
     Inl e \<Rightarrow> (Inl e, d)
   | Inr _ \<Rightarrow> (case su_write os of
       Written \<Rightarrow> (Inr (), Some (canonical_bytes v @ [10]))
     | Not_written \<Rightarrow> (Inl (PyError ''OSError''), d)
     | Unsynced \<Rightarrow> (Inl (PyError ''OSError''), Some (canonical_bytes v @ [10]))))"

definition confirm_selection :: "startup_os \<Rightarrow> pystr \<Rightarrow> unit res" where
  "confirm_selection os path = thenE (open_directory os path) (raise_if (su_sync_fails os) (PyError ''OSError''))"

text \<open>\<open>MaintenanceGate.admission_lock\<close>: the block runs under the lock and sees the record of the gate.\<close>

definition admission_lock :: "json \<Rightarrow> gate_os \<Rightarrow> gate_file \<Rightarrow> (json \<Rightarrow> descriptor \<Rightarrow> 'a res \<times> descriptor) \<Rightarrow> descriptor \<Rightarrow> 'a res \<times> descriptor" where
  "admission_lock node gos g body d =
     (if lock_fails gos then (Inl (gate_unknown ''Maintenance state cannot be established''), d)
      else case gate_read node gos g of
        Inl e \<Rightarrow> (as_unknown_state (Inl e), d)
      | Inr state \<Rightarrow> (case body state d of (r, d') \<Rightarrow> (as_unknown_state r, d')))"

section \<open>Publication\<close>

text \<open>\<open>None\<close> only when the descriptor is missing; any other descriptor that cannot be read stops the caller.\<close>

definition current_selection :: "startup_os \<Rightarrow> pystr \<Rightarrow> descriptor \<Rightarrow> json option res" where
  "current_selection os path d = (case read_selection os path d of
     Inr v \<Rightarrow> Inr (Some v)
   | Inl e \<Rightarrow> (case e of
       JobError _ _ \<Rightarrow> if su_lstat_fails os then Inl (PyError ''OSError'') else if d = None then Inr None else Inl e
     | _ \<Rightarrow> Inl e))"

definition publication_allowed :: "json \<Rightarrow> json \<Rightarrow> json option \<Rightarrow> json \<Rightarrow> json \<Rightarrow> unit res" where
  "publication_allowed state v current expect maintenance_owner =
     (if at v ''mode'' \<noteq> jlit ''stable'' then Inr ()
      else case current of
        None \<Rightarrow> raise_if (expect \<noteq> JNull \<or> at state ''state'' \<noteq> jlit ''OPEN'' \<or> maintenance_owner \<noteq> JNull \<or>
            at state ''deployment_digest'' \<noteq> at v ''deployment_digest'' \<or> at state ''decision_id'' \<noteq> at v ''decision_id'')
          (startup_mismatch ''Stable bootstrap requires the exact initialized open decision'')
      | Some _ \<Rightarrow> raise_if (at state ''state'' \<noteq> jlit ''CLOSED'' \<or> \<not> some_text maintenance_owner \<or> at state ''owner'' \<noteq> maintenance_owner)
          (startup_mismatch ''Stable publication requires the current maintenance owner''))"

definition publish_checks :: "startup_os \<Rightarrow> pystr \<Rightarrow> json \<Rightarrow> json \<Rightarrow> json \<Rightarrow> json \<Rightarrow> descriptor \<Rightarrow> json option res" where
  "publish_checks os path v expect maintenance_owner state d =
     thenE (raise_if (at v ''node_id'' \<noteq> at state ''node_id'') (startup_mismatch ''Startup selection belongs to another node''))
     (thenE (raise_if (at v ''mode'' \<in> {jlit ''blocked'', jlit ''candidate''} \<and>
           (at state ''state'' \<noteq> jlit ''CLOSED'' \<or> \<not> jeq (at state ''owner'') (at v ''owner'')))
         (startup_mismatch ''Selection requires its current maintenance owner''))
     (bindE (current_selection os path d) (\<lambda>current.
        thenE (publication_allowed state v current expect maintenance_owner) (Inr current))))"

definition replace_checks :: "startup_os \<Rightarrow> json \<Rightarrow> json \<Rightarrow> json option \<Rightarrow> unit res" where
  "replace_checks os v expect current =
     thenE (raise_if ((case current of None \<Rightarrow> JNull | Some c \<Rightarrow> JStr (gate_digest c)) \<noteq> expect)
         (JobError ''STARTUP_CONFLICT'' ''Startup selection was independently changed''))
     (thenE (raise_if (su_parent_lstat_fails os) (PyError ''OSError''))
     (thenE (raise_if (su_parent_exposed os) (startup_unknown ''Startup descriptor directory is not protected''))
      (if at v ''mode'' \<noteq> jlit ''blocked'' then verify_members os v else Inr ())))"

definition publish_body :: "startup_os \<Rightarrow> pystr \<Rightarrow> json \<Rightarrow> json \<Rightarrow> json \<Rightarrow> json \<Rightarrow> descriptor \<Rightarrow> json res \<times> descriptor" where
  "publish_body os path v expect maintenance_owner state d =
     (case publish_checks os path v expect maintenance_owner state d of
        Inl e \<Rightarrow> (Inl e, d)
      | Inr current \<Rightarrow>
          if (case current of None \<Rightarrow> False | Some c \<Rightarrow> jeq c v)
          then (thenE (confirm_selection os path) (Inr (JStr (gate_digest v))), d)
          else case replace_checks os v expect current of
            Inl e \<Rightarrow> (Inl e, d)
          | Inr _ \<Rightarrow> (case write_selection os path v d of (r, d') \<Rightarrow> (thenE r (Inr (JStr (gate_digest v))), d')))"

definition publish :: "json \<Rightarrow> gate_os \<Rightarrow> gate_file \<Rightarrow> startup_os \<Rightarrow> pystr \<Rightarrow> json \<Rightarrow> json \<Rightarrow> json \<Rightarrow> descriptor \<Rightarrow> json res \<times> descriptor" where
  "publish node gos g os path v expect maintenance_owner d =
     (case validate_selection v of
        Inl e \<Rightarrow> (Inl e, d)
      | Inr _ \<Rightarrow> admission_lock node gos g (publish_body os path v expect maintenance_owner) d)"

section \<open>Admission of a component\<close>

text \<open>\<open>instance(pid)\<close>: an unreadable process or boot identity is unknown.\<close>

definition process_instance :: "startup_os \<Rightarrow> int \<Rightarrow> json res" where
  "process_instance os pid =
     (let unknown = startup_unknown ''Listener process identity cannot be verified'' in
      case su_ticks os pid of
        None \<Rightarrow> Inl unknown
      | Some ticks \<Rightarrow> (case su_boot os of
          Inr boot \<Rightarrow> Inr (obj [(''pid'', JInt pid), (''start_ticks'', JInt ticks), (''boot_id'', JStr boot)])
        | Inl (PyError c) \<Rightarrow> if c \<in> {''OSError'', ''ValueError'', ''IndexError''} then Inl unknown else Inl (PyError c)
        | Inl e \<Rightarrow> Inl e))"

definition with_claim :: "json \<Rightarrow> pystr \<Rightarrow> json \<Rightarrow> json" where
  "with_claim v name claim =
     (let permit = at v ''permit'' in dset v (lit ''permit'') (dset permit (lit ''claims'') (dset (at permit ''claims'') name claim)))"

definition running :: "json \<Rightarrow> pystr \<Rightarrow> bool" where
  "running v name = (case dget (at v ''components'') name of None \<Rightarrow> False | Some c \<Rightarrow> at c ''running'' = JBool True)"

definition admit_selection :: "startup_os \<Rightarrow> pystr \<Rightarrow> json \<Rightarrow> json \<Rightarrow> int \<Rightarrow> descriptor \<Rightarrow> json res \<times> descriptor" where
  "admit_selection os path state component pid d =
     (case bindE (read_selection os path d) (\<lambda>v. thenE (verify_members os v)
          (thenE (raise_if (is_list component \<or> is_dict component) (PyError ''TypeError'')) (Inr v))) of
        Inl e \<Rightarrow> (Inl e, d)
      | Inr v \<Rightarrow> (case component of
          JStr name \<Rightarrow>
            if \<not> jeq (at v ''node_id'') (at state ''node_id'') \<or> at v ''mode'' = jlit ''blocked'' \<or> \<not> running v name
            then (Inl (startup_mismatch ''Component has no active startup selection''), d)
            else if at v ''mode'' = jlit ''candidate'' then
              (let stale = Inl (startup_mismatch ''Candidate startup permit is not current'') in
               if at state ''state'' \<noteq> jlit ''CLOSED'' \<or> \<not> jeq (at state ''owner'') (at v ''owner'') then (stale, d)
               else case bindE (su_boot os) (\<lambda>boot. if at (at v ''permit'') ''boot_id'' \<noteq> JStr boot then stale else process_instance os pid) of
                 Inl e \<Rightarrow> (Inl e, d)
               | Inr claim \<Rightarrow> (case dget (at (at v ''permit'') ''claims'') name of
                   Some previous \<Rightarrow>
                     if \<not> jeq previous claim then (Inl (startup_mismatch ''Candidate permit is already bound to another instance''), d)
                     else (thenE (confirm_selection os path) (Inr v), d)
                 | None \<Rightarrow> (case write_selection os path (with_claim v name claim) d of
                     (r, d') \<Rightarrow> (thenE r (Inr (with_claim v name claim)), d'))))
            else if at state ''state'' \<notin> {jlit ''OPEN'', jlit ''CLOSED''} \<or>
                at state ''state'' = jlit ''OPEN'' \<and> \<not> jeq (at state ''deployment_digest'') (at v ''deployment_digest'')
            then (Inl (startup_mismatch ''Admission does not select this stable deployment''), d)
            else (Inr v, d)
        | _ \<Rightarrow> (Inl (startup_mismatch ''Component has no active startup selection''), d)))"

text \<open>
  \<open>authorize\<close> up to its \<open>yield\<close>, which happens under the lock: the configuration that the listener proves it
  loaded is the one the selection names.
\<close>

definition proof_matches :: "json \<Rightarrow> json \<Rightarrow> json \<Rightarrow> json \<Rightarrow> unit res" where
  "proof_matches state v component prf =
     (let boundto = (\<lambda>a k. jeq (at a k) (at prf k)) in
      raise_if (\<not> (at v ''mode'' \<noteq> jlit ''blocked'' \<and> at component ''running'' = JBool True \<and> boundto v ''node_id'' \<and> jeq (at v ''node_id'') (at state ''node_id'') \<and> boundto v ''deployment_digest'' \<and>
          boundto component ''configuration_digest'' \<and> boundto component ''payload_digest''))
        (startup_mismatch ''Loaded configuration is not selected for startup''))"

definition authorize_checks :: "startup_os \<Rightarrow> json \<Rightarrow> json \<Rightarrow> json \<Rightarrow> json res" where
  "authorize_checks os state prf v =
     (let component = dat (at v ''components'') (str_of (fld prf ''component'')); entry = get_or prf ''entry'' (jlit ''local'') in
      thenE (proof_matches state v component prf)
     (thenE (if at v ''mode'' = jlit ''candidate'' then
           (let late = startup_mismatch ''Candidate startup requires current local-only maintenance'' in
            thenE (raise_if (at state ''state'' \<noteq> jlit ''CLOSED'' \<or> \<not> jeq (at state ''owner'') (at v ''owner'')) late)
            (bindE (su_boot os) (\<lambda>boot. raise_if (at (at v ''permit'') ''boot_id'' \<noteq> JStr boot \<or> entry \<noteq> jlit ''local'') late)))
         else if at state ''state'' \<notin> {jlit ''OPEN'', jlit ''CLOSED''} then Inl (startup_unknown ''Startup admission state is unknown'')
         else if at state ''state'' = jlit ''OPEN'' \<and> \<not> jeq (at state ''deployment_digest'') (at v ''deployment_digest'')
         then Inl (startup_mismatch ''Open admission does not select this deployment'')
         else raise_if (entry = jlit ''public'' \<and> at component ''entry'' \<noteq> jlit ''public'') (startup_mismatch ''Public protocol was not selected''))
       (Inr (obj [(''descriptor_digest'', JStr (gate_digest v)), (''mode'', at v ''mode''), (''decision_id'', at v ''decision_id''),
          (''deployment_digest'', at v ''deployment_digest'')]))))"

definition authorize_startup :: "json \<Rightarrow> gate_os \<Rightarrow> gate_file \<Rightarrow> startup_os \<Rightarrow> json \<Rightarrow> json \<Rightarrow> int \<Rightarrow> descriptor \<Rightarrow> json res \<times> descriptor" where
  "authorize_startup node gos g os cfg prf pid d =
     (if at cfg ''maintenance'' = JNull then (Inr JNull, d)
      else admission_lock node gos g (\<lambda>state d.
        case admit_selection os (str_of (fld (at cfg ''maintenance'') ''startup_descriptor'')) state (at prf ''component'') pid d of
          (Inl e, d') \<Rightarrow> (Inl e, d')
        | (Inr v, d') \<Rightarrow> (authorize_checks os state prf v, d')) d)"

end
