(* ===== verification/StartupProps.thy ===== *)
theory StartupProps
  imports Startup MaintenanceProps BootstrapProps BudgetProps
begin

text \<open>
  Correctness of the startup selection.  A published descriptor is read back; every publication and every
  admission makes at most one step of an abstract register of selections and claims, whatever the operating
  system does; a claimed component is never admitted to another process; and what is admitted agrees with
  the record of the maintenance gate.
\<close>

section \<open>What is written is read back\<close>

lemma utf8_pass_ascii: "\<forall>c \<in> set s. c < 128 \<Longrightarrow> utf8_pass s = Some s"
proof (induction s)
  case Nil
  show ?case by (simp add: utf8_pass.simps)
next
  case (Cons c s)
  then show ?case by (subst utf8_pass.simps) (auto simp: utf8_pass_head_def utf8_head_def split: list.splits)
qed

lemma json_text_ascii: "\<forall>c \<in> set s. c < 128 \<Longrightarrow> s = a # b # r \<Longrightarrow> a \<noteq> 0 \<Longrightarrow> b \<noteq> 0 \<Longrightarrow> json_text s = Some s"
  using utf8_pass_ascii [of s] by (auto simp: json_text_def split: list.splits)

lemma keeps_startup: "keeps startup_hooks"
  by (simp add: keeps_def startup_hooks_def unique_object_def)

lemma dumps_head:
  assumes "is_dict v"
  shows "\<exists>b r. dumps v @ [10] = 123 # b # r \<and> b \<noteq> 0"
proof -
  obtain kvs where kvs: "sort_keys v = JObj kvs" using assms by (cases v) auto
  show ?thesis
  proof (cases "join_comma (map print_member kvs)")
    case Nil
    then show ?thesis by (simp add: dumps_def kvs)
  next
    case (Cons b r)
    then have "kvs \<noteq> []" by auto
    then have "value_head (join_comma (map print_member kvs))"
      by (intro value_head_join) (auto simp: hd_map value_head_member split: prod.splits)
    moreover have "hd (join_comma (map print_member kvs)) = 34"
      using \<open>kvs \<noteq> []\<close> by (cases "map print_member kvs" rule: join_comma.cases) (auto simp: print_str_def split: prod.splits)
    ultimately show ?thesis using Cons by (simp add: dumps_def kvs)
  qed
qed

lemma startup_load_line:
  assumes tree: "tree 0 v = Inr ()" and wf: "wf_json v" and dict: "is_dict v"
  shows "startup_load (canonical_bytes v @ [10]) = Inr (sort_keys v)"
proof -
  have acc: "accepts startup_hooks (sort_keys v)" using tree wf by (intro tree_accepts_sorted keeps_startup)
  obtain b r where head: "dumps v @ [10] = 123 # b # r" "b \<noteq> 0" using dumps_head [OF dict] by blast
  have "\<forall>c \<in> set (dumps v @ [10]). c < 128" using jprint_ascii [OF acc] by (auto simp: dumps_def)
  then have "json_text (dumps v @ [10]) = Some (dumps v @ [10])" using head(2) by (intro json_text_ascii [OF _ head(1)]) simp_all
  then show ?thesis using loads_dumps_line [OF acc dict] by (simp add: startup_load_def canonical_bytes_def)
qed

subsection \<open>The checks do not depend on the order of keys\<close>

lemma text_checks_sort_keys [simp]: "hex_text (sort_keys v) = hex_text v" "some_text (sort_keys v) = some_text v"
  by (cases v; simp add: hex_text_def some_text_def)+

lemma positive_int_sort_keys [simp]: "positive_int (sort_keys v) = positive_int v"
  by (cases v) (simp_all add: positive_int_def)

lemma int_of_sort_keys [simp]: "int_of (Some (sort_keys v)) = int_of (Some v)"
  by (cases v) (simp_all add: int_of_def)

lemma validate_member_sort_keys [simp]: "wf_json m \<Longrightarrow> validate_member paths (sort_keys m) = validate_member paths m"
  by (cases "at m ''path''") (simp_all add: validate_member_def sorted_simps dget_sort_keys option.case_eq_if option.map_sel)

lemma foldE_members_sort_keys:
  "\<forall>m \<in> set ms. wf_json m \<Longrightarrow> foldE validate_member paths (map sort_keys ms) = foldE validate_member paths ms"
  by (induction ms arbitrary: paths) (auto split: sum.splits)

lemma validate_component_sort_keys [simp]: "wf_json c \<Longrightarrow> validate_component (name, sort_keys c) = validate_component (name, c)"
  by (cases "at c ''running''") (simp_all add: validate_component_def sorted_simps)

lemma claim_ok_sort_keys: "wf_json permit \<Longrightarrow> wf_json c \<Longrightarrow> claim_ok permit c \<Longrightarrow> claim_ok (sort_keys permit) (sort_keys c)"
  by (simp add: claim_ok_def sorted_simps)

lemma jvalues_sort_keys: "set (jvalues (sort_keys v)) = sort_keys ` set (jvalues v)"
  by (force simp: jvalues_def items_sort_keys image_iff split_beta)

lemma jvalues_wf: "wf_json v \<Longrightarrow> x \<in> set (jvalues v) \<Longrightarrow> wf_json x"
  by (auto simp: jvalues_def dest: items_wf)

lemma elements_wf: "wf_json v \<Longrightarrow> x \<in> set (elements v) \<Longrightarrow> wf_json x"
  by (cases v) (auto simp: elements_def)

lemma length_items_sort_keys [simp]: "length (items (sort_keys v)) = length (items v)"
  by (cases v) (simp_all add: items_def)

lemma validate_permit_sort_keys: "wf_json v \<Longrightarrow> validate_permit v \<Longrightarrow> validate_permit (sort_keys v)"
  by (auto simp: validate_permit_def Let_def sorted_simps jvalues_sort_keys dest: jvalues_wf [OF wf_json_at [OF wf_json_at]]
      intro!: claim_ok_sort_keys split: if_splits)

lemma validate_selection_iff:
  "validate_selection v = Inr () \<longleftrightarrow> is_dict v \<and> has_keys v SELECTION_KEYS \<and> at v ''schema'' = jlit STARTUP_SCHEMA \<and>
     at v ''mode'' \<in> {jlit ''blocked'', jlit ''candidate'', jlit ''stable''} \<and> some_text (at v ''node_id'') \<and>
     hex_text (at v ''deployment_digest'') \<and> is_dict (at v ''components'') \<and>
     1 \<le> length (items (at v ''components'')) \<and> length (items (at v ''components'')) \<le> 16 \<and>
     is_list (at v ''members'') \<and> 1 \<le> length (elements (at v ''members'')) \<and> length (elements (at v ''members'')) \<le> 64 \<and>
     (\<exists>paths. foldE validate_member [] (elements (at v ''members'')) = Inr paths) \<and>
     (\<forall>c \<in> set (items (at v ''components'')). validate_component c = Inr ()) \<and> validate_permit v"
proof -
  have mode: "(\<exists>ok. in_names (at v ''mode'') [''blocked'', ''candidate'', ''stable''] = Inr ok \<and> ok \<and> P) \<longleftrightarrow>
      at v ''mode'' \<in> {jlit ''blocked'', jlit ''candidate'', jlit ''stable''} \<and> P" for P
    by (auto simp: res_simps)
  show ?thesis
    unfolding validate_selection_def
    by (simp only: thenE_Inr_iff bindE_Inr_iff value_unless_Inr forE_Inr_iff conj_assoc mode) blast
qed

lemma validate_selection_sort_keys:
  assumes wf: "wf_json v" and ok: "validate_selection v = Inr ()"
  shows "validate_selection (sort_keys v) = Inr ()"
proof -
  have "foldE validate_member [] (map sort_keys (elements (at v ''members''))) = foldE validate_member [] (elements (at v ''members''))"
    using elements_wf [OF wf_json_at [OF wf]] by (intro foldE_members_sort_keys) blast
  moreover have "validate_component c = Inr ()" if "c \<in> set (items (sort_keys (at v ''components'')))" for c
    using that ok items_wf [OF wf_json_at [OF wf]] by (auto simp: items_sort_keys validate_selection_iff)
  ultimately show ?thesis
    using ok validate_permit_sort_keys [OF wf] by (simp add: validate_selection_iff sorted_simps wf)
qed

text \<open>A selection that can be published, and the descriptor that holds it.\<close>

definition selection_doc :: "json \<Rightarrow> bool" where
  "selection_doc v \<longleftrightarrow> wf_json v \<and> tree 0 v = Inr () \<and> validate_selection v = Inr ()"

definition selection_holds :: "descriptor \<Rightarrow> json \<Rightarrow> bool" where
  "selection_holds d v \<longleftrightarrow> selection_doc v \<and> d = Some (canonical_bytes v @ [10])"

lemma selection_doc_dict: "selection_doc v \<Longrightarrow> is_dict v"
  by (simp add: selection_doc_def validate_selection_iff)

lemma selection_doc_sort_keys: "selection_doc v \<Longrightarrow> selection_doc (sort_keys v)"
  by (simp add: selection_doc_def wf_json_sort_keys tree_sort_keys validate_selection_sort_keys)

lemma read_selection_holds:
  assumes "selection_holds d v"
  shows "read_selection os path d = (case parent_ok path of Inl e \<Rightarrow> invalid_selection (Inl e)
     | Inr _ \<Rightarrow> if su_unreadable os then Inl unverified else Inr (sort_keys v))"
  using assms startup_load_line [of v] selection_doc_dict [of v] validate_selection_sort_keys [of v]
  by (cases "parent_ok path"; cases "su_unreadable os")
    (simp_all add: selection_holds_def selection_doc_def read_selection_def invalid_selection_def unverified_def startup_unknown_def)

lemma invalid_selection_Inr [simp]: "invalid_selection r = Inr x \<longleftrightarrow> r = Inr x"
  by (auto simp: invalid_selection_def split: sum.splits exn.splits)

lemma read_selection_None [simp]: "read_selection os path None \<noteq> Inr v"
  by (simp add: read_selection_def thenE_Inr_iff)

lemma read_selection_Inr:
  "selection_holds d v \<Longrightarrow> read_selection os path d = Inr w \<Longrightarrow> w = sort_keys v"
  by (auto simp: read_selection_holds invalid_selection_def split: sum.splits if_splits exn.splits)

section \<open>Admission\<close>

text \<open>The conditions under which a component is admitted, and the selection it leaves.\<close>

definition instance_doc :: "int \<Rightarrow> int \<Rightarrow> pystr \<Rightarrow> json" where
  "instance_doc pid ticks boot = obj [(''pid'', JInt pid), (''start_ticks'', JInt ticks), (''boot_id'', JStr boot)]"

definition may_claim :: "startup_os \<Rightarrow> json \<Rightarrow> pystr \<Rightarrow> int \<Rightarrow> json \<Rightarrow> json \<Rightarrow> bool" where
  "may_claim os state name pid v claim \<longleftrightarrow> at v ''mode'' = jlit ''candidate'' \<and> running v name \<and> jeq (at v ''node_id'') (at state ''node_id'') \<and>
     at state ''state'' = jlit ''CLOSED'' \<and> jeq (at state ''owner'') (at v ''owner'') \<and>
     (\<exists>boot ticks. su_boot os = Inr boot \<and> at (at v ''permit'') ''boot_id'' = JStr boot \<and> su_ticks os pid = Some ticks \<and>
        claim = instance_doc pid ticks boot)"

definition may_start :: "json \<Rightarrow> pystr \<Rightarrow> json \<Rightarrow> bool" where
  "may_start state name v \<longleftrightarrow> at v ''mode'' \<notin> {jlit ''candidate'', jlit ''blocked''} \<and> running v name \<and>
     jeq (at v ''node_id'') (at state ''node_id'') \<and> at state ''state'' \<in> {jlit ''OPEN'', jlit ''CLOSED''} \<and>
     (at state ''state'' = jlit ''OPEN'' \<longrightarrow> jeq (at state ''deployment_digest'') (at v ''deployment_digest''))"

definition claim_at :: "json \<Rightarrow> pystr \<Rightarrow> json option" where
  "claim_at v name = dget (at (at v ''permit'') ''claims'') name"

lemma process_instance_Inr:
  "process_instance os pid = Inr c \<longleftrightarrow> (\<exists>ticks boot. su_ticks os pid = Some ticks \<and> su_boot os = Inr boot \<and> c = instance_doc pid ticks boot)"
  by (auto simp: process_instance_def instance_doc_def Let_def split: option.splits sum.splits exn.splits)

lemma write_selection_cases:
  "write_selection os path v d = (r, d') \<Longrightarrow> d' = d \<and> r \<noteq> Inr () \<or> d' = Some (canonical_bytes v @ [10])"
  by (auto simp: write_selection_def split: sum.splits write_outcome.splits)

lemma admit_selection_file:
  assumes "admit_selection os path state component pid d = (r, d')"
  shows "d' = d \<or> (\<exists>v name claim. read_selection os path d = Inr v \<and> component = JStr name \<and> may_claim os state name pid v claim \<and>
     claim_at v name = None \<and> d' = Some (canonical_bytes (with_claim v name claim) @ [10]))"
proof (rule disjCI)
  assume changed: "\<not> (\<exists>v name claim. read_selection os path d = Inr v \<and> component = JStr name \<and> may_claim os state name pid v claim \<and>
     claim_at v name = None \<and> d' = Some (canonical_bytes (with_claim v name claim) @ [10]))"
  show "d' = d"
    using assms changed unfolding admit_selection_def Let_def
    by (auto split: sum.splits json.splits if_splits option.splits prod.splits dest!: write_selection_cases
        simp: process_instance_Inr bindE_Inr_iff thenE_Inr_iff may_claim_def claim_at_def)
qed

lemma admit_selection_Inr:
  assumes "admit_selection os path state component pid d = (Inr w, d')"
  shows "\<exists>v name. read_selection os path d = Inr v \<and> verify_members os v = Inr () \<and> component = JStr name \<and>
     (may_start state name v \<and> w = v \<and> d' = d \<or>
      (\<exists>claim. may_claim os state name pid v claim \<and>
         ((\<exists>previous. claim_at v name = Some previous \<and> jeq previous claim \<and> w = v \<and> d' = d) \<or>
          claim_at v name = None \<and> w = with_claim v name claim \<and> d' = Some (canonical_bytes w @ [10]))))"
  using assms unfolding admit_selection_def Let_def
  by (auto split: sum.splits json.splits if_splits option.splits prod.splits dest!: write_selection_cases
      simp: process_instance_Inr bindE_Inr_iff thenE_Inr_iff may_claim_def may_start_def claim_at_def)

subsection \<open>A recorded claim\<close>

lemma with_claim_at:
  assumes "is_dict v"
  shows "is_dict (with_claim v name c)"
    and "at (with_claim v name c) k = (if k = ''permit'' then dset (at v ''permit'') (lit ''claims'') (dset (at (at v ''permit'') ''claims'') name c) else at v k)"
  using assms by (simp_all add: with_claim_def Let_def)

lemma jkeys_dset_known: "is_dict v \<Longrightarrow> k \<in> set (jkeys v) \<Longrightarrow> set (jkeys (dset v k x)) = set (jkeys v)"
  by (auto simp: jkeys_dset)

lemma instance_doc_ok:
  assumes "0 < pid" "pid \<le> MAX_SAFE_INTEGER" "0 < ticks" "ticks \<le> MAX_SAFE_INTEGER" and boot: "code_points boot" "\<forall>c \<in> set boot. \<not> surrogate c"
    and d: "d < MAX_DEPTH"
  shows "wf_json (instance_doc pid ticks boot)" "tree d (instance_doc pid ticks boot) = Inr ()"
    "at p ''boot_id'' = JStr boot \<Longrightarrow> claim_ok p (instance_doc pid ticks boot)"
  using assms by (auto simp: instance_doc_def wf_json_obj tree_obj res_simps claim_ok_def at_def get_or_def positive_int_def)

lemma candidate_permit:
  assumes "selection_doc v" and "at v ''mode'' = jlit ''candidate''"
  shows "is_dict (at v ''permit'')" "has_keys (at v ''permit'') [''boot_id'', ''attempt_id'', ''claims'']"
    "is_dict (at (at v ''permit'') ''claims'')" "\<forall>c \<in> set (jvalues (at (at v ''permit'') ''claims'')). claim_ok (at v ''permit'') c"
    "set (jkeys (at (at v ''permit'') ''claims'')) \<subseteq> set (jkeys (at v ''components''))"
    "some_text (at v ''owner'')" "at v ''decision_id'' = JNull" "some_text (at (at v ''permit'') ''boot_id'')" "some_text (at (at v ''permit'') ''attempt_id'')"
  using assms by (auto simp: selection_doc_def validate_selection_iff validate_permit_def Let_def)

lemma dget_key_ok:
  "tree d v = Inr () \<Longrightarrow> dget v k = Some x \<Longrightarrow> tree 0 (JStr k) = Inr ()"
  "wf_json v \<Longrightarrow> dget v k = Some x \<Longrightarrow> code_points k"
  by (cases v; force simp: dget_def tree_JObj simp del: tree.simps(1,3) dest!: map_of_SomeD)+

lemma with_claim_doc:
  assumes doc: "selection_doc v" and claim: "may_claim os state name pid v c" and free: "claim_at v name = None"
    and pid: "0 < pid" "pid \<le> MAX_SAFE_INTEGER" and ticks: "\<And>t. su_ticks os pid = Some t \<Longrightarrow> 0 < t \<and> t \<le> MAX_SAFE_INTEGER"
  shows "selection_doc (with_claim v name c)"
proof -
  let ?p = "at v ''permit''" and ?c = "at (at v ''permit'') ''claims''"
  have mode: "at v ''mode'' = jlit ''candidate''" using claim by (simp add: may_claim_def)
  note per = candidate_permit [OF doc mode]
  have wf: "wf_json v" and tree: "tree 0 v = Inr ()" and val: "validate_selection v = Inr ()" and dict: "is_dict v"
    using doc selection_doc_dict [OF doc] by (simp_all add: selection_doc_def)
  obtain boot t where c: "c = instance_doc pid t boot" and boot: "at ?p ''boot_id'' = JStr boot" and t: "su_ticks os pid = Some t"
    using claim by (auto simp: may_claim_def)
  have tb: "tree 2 (JStr boot) = Inr ()" "wf_json (JStr boot)"
    using tree_at [OF tree_at [OF tree, of "''permit''"], of "''boot_id''"] wf_json_at [OF wf_json_at [OF wf]] by (metis boot numeral_2_eq_2)+
  then have bt: "code_points boot" "\<forall>x \<in> set boot. \<not> surrogate x" by (auto simp: res_simps)
  obtain comp where comp: "dget (at v ''components'') name = Some comp"
    using claim by (auto simp: may_claim_def running_def split: option.splits)
  have name: "name \<in> set (jkeys (at v ''components''))" using comp by (simp add: in_jkeys_iff)
  have tname: "tree 0 (JStr name) = Inr ()" "code_points name"
    using dget_key_ok(1) [OF tree_at [OF tree] comp] dget_key_ok(2) [OF wf_json_at [OF wf] comp] by blast+
  have ok: "wf_json c" "tree 3 c = Inr ()" "claim_ok ?p c"
    using instance_doc_ok [OF pid _ _ bt, of t 3] ticks [OF t] boot by (simp_all add: c MAX_DEPTH_def)
  have wc: "wf_json (dset ?c name c)" using wf_json_at [OF wf_json_at [OF wf]] tname(2) ok(1) by (intro wf_json_dset) auto
  have wp: "wf_json (dset ?p (lit ''claims'') (dset ?c name c))" by (rule wf_json_dset [OF wf_json_at [OF wf] _ wc]) simp
  have tc: "tree (Suc (Suc 0)) (dset ?c name c) = Inr ()"
    using tree_at [OF tree_at [OF tree]] tname(1) ok(2) by (intro tree_dset) (simp_all add: numeral_3_eq_3 del: tree.simps(1))
  have tp: "tree (Suc 0) (dset ?p (lit ''claims'') (dset ?c name c)) = Inr ()"
    by (rule tree_dset [OF tree_at [OF tree] tree_jlit tc])
  have "wf_json (with_claim v name c)" unfolding with_claim_def Let_def by (rule wf_json_dset [OF wf _ wp]) simp
  moreover have "tree 0 (with_claim v name c) = Inr ()"
    unfolding with_claim_def Let_def by (rule tree_dset [OF tree tree_jlit tp])
  moreover have "validate_selection (with_claim v name c) = Inr ()"
  proof -
    have "items (dset ?c name c) = items ?c @ [(name, c)]" using free per(3) by (simp add: claim_at_def items_dset_new)
    then have "validate_permit (with_claim v name c)"
      using per mode name ok(3) dict
      by (auto simp: validate_permit_def Let_def with_claim_at has_keys_def jkeys_dset jvalues_def claim_ok_def)
    then show ?thesis using val dict by (simp add: validate_selection_iff with_claim_at has_keys_def SELECTION_KEYS_def with_claim_def Let_def jkeys_dset insert_absorb)
  qed
  ultimately show ?thesis by (simp add: selection_doc_def)
qed

section \<open>The abstract register\<close>

text \<open>The selection without its claims, its permit without the claims, and the process that claimed each component.\<close>

record startup_register =
  r_body :: json
  r_permit :: json
  r_claims :: "pystr \<Rightarrow> (int \<times> int \<times> pystr) option"

definition claim_of :: "json \<Rightarrow> int \<times> int \<times> pystr" where
  "claim_of c = (int_of (fld c ''pid''), int_of (fld c ''start_ticks''), str_of (fld c ''boot_id''))"

definition register_of :: "json \<Rightarrow> startup_register" where
  "register_of v = \<lparr>r_body = sort_keys (dpop v (lit ''permit'')), r_permit = sort_keys (dpop (at v ''permit'') (lit ''claims'')),
     r_claims = (\<lambda>name. map_option claim_of (claim_at v name))\<rparr>"

definition descriptor_is :: "descriptor \<Rightarrow> startup_register option \<Rightarrow> bool" where
  "descriptor_is d R \<longleftrightarrow> (case R of None \<Rightarrow> d = None | Some r \<Rightarrow> \<exists>v. selection_holds d v \<and> register_of v = r)"

text \<open>What the record \<open>state\<close> of the gate allows to publish.\<close>

definition publishable :: "json \<Rightarrow> bool \<Rightarrow> json \<Rightarrow> bool" where
  "publishable state bootstrap v \<longleftrightarrow> at v ''node_id'' = at state ''node_id'' \<and>
     (at v ''mode'' \<in> {jlit ''blocked'', jlit ''candidate''} \<longrightarrow> at state ''state'' = jlit ''CLOSED'' \<and> jeq (at state ''owner'') (at v ''owner'')) \<and>
     (at v ''mode'' = jlit ''stable'' \<longrightarrow> (if bootstrap
        then at state ''state'' = jlit ''OPEN'' \<and> at state ''deployment_digest'' = at v ''deployment_digest'' \<and> at state ''decision_id'' = at v ''decision_id''
        else at state ''state'' = jlit ''CLOSED'' \<and> some_text (at state ''owner'')))"

inductive startup_step :: "json \<Rightarrow> startup_register option \<Rightarrow> startup_register option \<Rightarrow> bool" for state where
  claim: "\<lbrakk>at (r_body r) ''mode'' = jlit ''candidate''; at state ''state'' = jlit ''CLOSED''; jeq (at state ''owner'') (at (r_body r) ''owner'');
     at (r_permit r) ''boot_id'' = JStr boot; r_claims r name = None\<rbrakk> \<Longrightarrow>
     startup_step state (Some r) (Some (r\<lparr>r_claims := (r_claims r)(name \<mapsto> (pid, ticks, boot))\<rparr>))"
| replace: "publishable state (R = None) (r_body r) \<Longrightarrow> startup_step state R (Some r)"

lemma dpop_dset [simp]: "dpop (dset v k x) k = dpop v k"
proof -
  have "AList.delete k (AList.update k x xs) = AList.delete k xs" for xs :: dict by (induction xs) auto
  then show ?thesis by (cases v) (simp_all add: dpop_def dset_def)
qed

lemma at_body: "wf_json v \<Longrightarrow> k \<noteq> ''permit'' \<Longrightarrow> at (r_body (register_of v)) k = sort_keys (at v k)"
  by (simp add: register_of_def at_sort_keys wf_json_dpop) (simp add: at_def get_or_def)

lemma at_permit: "wf_json v \<Longrightarrow> k \<noteq> ''claims'' \<Longrightarrow> at (r_permit (register_of v)) k = sort_keys (at (at v ''permit'') k)"
  by (simp add: register_of_def at_sort_keys wf_json_dpop wf_json_at) (simp add: at_def get_or_def)

lemma read_sort_keys [simp]: "int_of (map_option sort_keys x) = int_of x" "str_of (map_option sort_keys x) = str_of x"
  by (cases x rule: option.exhaust; cases "the x"; simp add: int_of_def str_of_def)+

lemma text_sorted: "some_text x \<Longrightarrow> sort_keys x = x" "hex_text x \<Longrightarrow> sort_keys x = x"
  by (cases x; simp add: some_text_def hex_text_def)+

lemma publishable_body:
  assumes "selection_doc v"
  shows "publishable state b (r_body (register_of v)) = publishable state b v"
proof -
  have wf: "wf_json v" and ok: "validate_selection v = Inr ()" using assms by (simp_all add: selection_doc_def)
  have "sort_keys (at v ''node_id'') = at v ''node_id''" "sort_keys (at v ''deployment_digest'') = at v ''deployment_digest''"
    using ok by (simp_all add: validate_selection_iff text_sorted)
  moreover have "at v ''mode'' = jlit ''stable'' \<Longrightarrow> sort_keys (at v ''decision_id'') = at v ''decision_id''"
    using ok by (simp add: validate_selection_iff validate_permit_def text_sorted)
  ultimately show ?thesis by (simp add: publishable_def at_body [OF wf])
qed

lemma claim_of_sort_keys: "wf_json c \<Longrightarrow> claim_of (sort_keys c) = claim_of c"
  by (simp add: claim_of_def dget_sort_keys)

lemma claim_at_sort_keys: "wf_json v \<Longrightarrow> claim_at (sort_keys v) name = map_option sort_keys (claim_at v name)"
  by (simp add: claim_at_def sorted_simps dget_sort_keys)

lemma wf_claim_at: "wf_json v \<Longrightarrow> claim_at v name = Some c \<Longrightarrow> wf_json c"
  by (auto simp: claim_at_def intro: wf_json_dget wf_json_at)

lemma register_of_sort_keys: "wf_json v \<Longrightarrow> register_of (sort_keys v) = register_of v"
  by (auto simp: register_of_def at_sort_keys sort_keys_dpop claim_at_sort_keys option.map_comp fun_eq_iff claim_of_sort_keys wf_claim_at
      cong: map_option_cong intro!: option.map_cong)

lemma r_claims_register: "r_claims (register_of v) name = map_option claim_of (claim_at v name)"
  by (simp add: register_of_def)

lemma claim_of_instance [simp]: "claim_of (instance_doc pid ticks boot) = (pid, ticks, boot)"
  by (simp add: claim_of_def instance_doc_def str_of_def)

lemma register_with_claim:
  assumes "is_dict v" "is_dict (at v ''permit'')" "is_dict (at (at v ''permit'') ''claims'')"
  shows "register_of (with_claim v name c) = (register_of v)\<lparr>r_claims := (r_claims (register_of v))(name \<mapsto> claim_of c)\<rparr>"
  using assms by (auto simp: register_of_def with_claim_def Let_def claim_at_def)

lemma claim_jeq:
  assumes "claim_ok p previous" and "jeq previous (instance_doc pid ticks boot)"
  shows "claim_of previous = (pid, ticks, boot)"
proof -
  have "map_option norm (fld previous k) = map_option norm (map_of [(lit ''pid'', JInt pid), (lit ''start_ticks'', JInt ticks), (lit ''boot_id'', JStr boot)] (lit k))" for k
    using assms(2) by (intro jeq_dget) (simp_all add: instance_doc_def obj_def)
  from this [of "''pid''"] this [of "''start_ticks''"] this [of "''boot_id''"] show ?thesis
    using assms(1) by (auto simp: claim_ok_def positive_int_def claim_of_def at_def get_or_def int_of_def str_of_def
        split: option.splits json.splits elim!: norm.elims)
qed

section \<open>Publication\<close>

lemma current_selection_Inr:
  "current_selection os path d = Inr c \<Longrightarrow> (case c of None \<Rightarrow> d = None | Some v \<Rightarrow> read_selection os path d = Inr v)"
  by (auto simp: current_selection_def split: sum.splits exn.splits if_splits)

definition digest_or_none :: "json option \<Rightarrow> json" where
  "digest_or_none c = (case c of None \<Rightarrow> JNull | Some v \<Rightarrow> JStr (gate_digest v))"

lemma publish_checks_Inr:
  assumes "publish_checks os path v expect mo state d = Inr current"
  shows "current_selection os path d = Inr current" "publishable state (current = None) v"
  using assms by (cases current; auto simp: publish_checks_def publishable_def publication_allowed_def res_simps split: if_splits)+

lemma replace_checks_Inr: "replace_checks os v expect current = Inr u \<Longrightarrow> expect = digest_or_none current"
  by (auto simp: replace_checks_def digest_or_none_def res_simps)

lemma publish_body_cases:
  assumes "publish_body os path v expect mo state d = (r, d')"
  shows "d' = d \<or> (\<exists>current. current_selection os path d = Inr current \<and> publishable state (current = None) v \<and>
       expect = digest_or_none current \<and> d' = Some (canonical_bytes v @ [10]))"
    and "r = Inr x \<Longrightarrow> x = JStr (gate_digest v) \<and>
       (d' = Some (canonical_bytes v @ [10]) \<or> d' = d \<and> (\<exists>c. read_selection os path d = Inr c \<and> jeq c v))"
  using assms publish_checks_Inr [of os path v expect mo state d] current_selection_Inr [of os path d]
  by (auto simp: publish_body_def thenE_Inr_iff split: sum.splits if_splits option.splits prod.splits
      dest!: write_selection_cases replace_checks_Inr)

lemma admission_lock_cases:
  assumes "admission_lock node gos g body d = (r, d')"
  shows "(\<exists>e. r = Inl e) \<and> d' = d \<or>
     (\<exists>state r0. gate_read node gos g = Inr state \<and> body state d = (r0, d') \<and> (\<forall>x. r = Inr x \<longleftrightarrow> r0 = Inr x))"
  using assms
  by (auto simp: admission_lock_def as_unknown_state_def split: if_splits sum.splits prod.splits exn.splits)

section \<open>Every call refines one step\<close>

datatype startup_op = Publish json json json | Authorize json json int

fun startup_run :: "json \<Rightarrow> gate_os \<Rightarrow> gate_file \<Rightarrow> startup_os \<Rightarrow> pystr \<Rightarrow> startup_op \<Rightarrow> descriptor \<Rightarrow> json res \<times> descriptor" where
  "startup_run node gos g os path (Publish v expect mo) = publish node gos g os path v expect mo"
| "startup_run node gos g os path (Authorize cfg prf pid) = authorize_startup node gos g os cfg prf pid"

text \<open>Documents that were decoded strictly, and process numbers as the kernel gives them.\<close>

definition startup_sane :: "startup_os \<Rightarrow> startup_op \<Rightarrow> bool" where
  "startup_sane os op \<longleftrightarrow> (case op of
     Publish v expect mo \<Rightarrow> wf_json v \<and> tree 0 v = Inr ()
   | Authorize cfg prf pid \<Rightarrow> 0 < pid \<and> pid \<le> MAX_SAFE_INTEGER \<and> (\<forall>t. su_ticks os pid = Some t \<longrightarrow> 0 < t \<and> t \<le> MAX_SAFE_INTEGER))"

lemma may_claim_register:
  assumes doc: "selection_doc v" and claim: "may_claim os state name pid (sort_keys v) c" and free: "claim_at (sort_keys v) name = None"
  shows "startup_step state (Some (register_of v)) (Some (register_of (with_claim (sort_keys v) name c)))"
proof -
  have wf: "wf_json v" using doc by (simp add: selection_doc_def)
  have doc': "selection_doc (sort_keys v)" using doc by (rule selection_doc_sort_keys)
  have mode: "at (sort_keys v) ''mode'' = jlit ''candidate''" using claim by (simp add: may_claim_def)
  note per = candidate_permit [OF doc' mode]
  obtain boot t where c: "c = instance_doc pid t boot" and boot: "at (at (sort_keys v) ''permit'') ''boot_id'' = JStr boot"
    using claim by (auto simp: may_claim_def)
  have "register_of (with_claim (sort_keys v) name c) = (register_of v)\<lparr>r_claims := (r_claims (register_of v))(name \<mapsto> (pid, t, boot))\<rparr>"
    using per selection_doc_dict [OF doc] by (simp add: register_with_claim register_of_sort_keys [OF wf] c)
  moreover have "startup_step state (Some (register_of v)) (Some \<dots>)"
    using claim free boot wf mode
    by (intro startup_step.claim) (auto simp: may_claim_def at_body at_permit sorted_simps claim_at_sort_keys r_claims_register)
  ultimately show ?thesis by simp
qed

lemma admit_refines:
  assumes holds: "selection_holds d v" and admit: "admit_selection os path state component pid d = (r, d')"
    and sane: "startup_sane os (Authorize cfg prf pid)"
  shows "\<exists>w. selection_holds d' w \<and> (register_of w = register_of v \<or> startup_step state (Some (register_of v)) (Some (register_of w)))"
  using admit_selection_file [OF admit]
proof (elim disjE exE conjE)
  assume "d' = d"
  with holds show ?thesis by blast
next
  fix u name claim
  assume read: "read_selection os path d = Inr u" and "component = JStr name" and claim: "may_claim os state name pid u claim"
    and free: "claim_at u name = None" and d': "d' = Some (canonical_bytes (with_claim u name claim) @ [10])"
  have u: "u = sort_keys v" using read_selection_Inr [OF holds read] .
  have doc: "selection_doc v" using holds by (simp add: selection_holds_def)
  have "selection_doc (with_claim u name claim)"
    using sane by (intro with_claim_doc [OF _ claim free]) (auto simp: u selection_doc_sort_keys doc startup_sane_def)
  then show ?thesis using may_claim_register [OF doc] claim free d' by (auto simp: u selection_holds_def)
qed

lemma publish_refines:
  assumes reg: "descriptor_is d R" and sane: "startup_sane os (Publish v expect mo)" and run: "publish node gos g os path v expect mo d = (r, d')"
  shows "\<exists>R'. descriptor_is d' R' \<and> (R' = R \<or> (\<exists>state. gate_read node gos g = Inr state \<and> startup_step state R R'))"
proof (cases "d' = d")
  case False
  then have ok: "validate_selection v = Inr ()" and lock: "admission_lock node gos g (publish_body os path v expect mo) d = (r, d')"
    using run by (auto simp: publish_def split: sum.splits)
  obtain state r0 where state: "gate_read node gos g = Inr state" and body: "publish_body os path v expect mo state d = (r0, d')"
    using admission_lock_cases [OF lock] False by blast
  obtain current where current: "current_selection os path d = Inr current" and may: "publishable state (current = None) v"
    and d': "d' = Some (canonical_bytes v @ [10])"
    using publish_body_cases(1) [OF body] False by blast
  have doc: "selection_doc v" using sane ok by (simp add: startup_sane_def selection_doc_def)
  then have wf: "wf_json v" by (simp add: selection_doc_def)
  have "(current = None) = (R = None)"
    using current_selection_Inr [OF current] reg
    by (cases R; cases current) (auto simp: descriptor_is_def selection_holds_def)
  then have "publishable state (R = None) (r_body (register_of v))"
    using may publishable_body [OF doc] by simp
  then have "startup_step state R (Some (register_of v))" by (rule startup_step.replace)
  moreover have "descriptor_is d' (Some (register_of v))" using d' doc by (auto simp: descriptor_is_def selection_holds_def)
  ultimately show ?thesis using state by blast
qed (use reg in blast)

lemma authorize_cases:
  assumes run: "authorize_startup node gos g os cfg prf pid d = (r, d')" and cfg: "at cfg ''maintenance'' \<noteq> JNull"
  shows "(\<exists>e. r = Inl e) \<and> d' = d \<or>
     (\<exists>state path a. gate_read node gos g = Inr state \<and> admit_selection os path state (at prf ''component'') pid d = (a, d') \<and>
        (\<forall>x. r = Inr x \<longrightarrow> (\<exists>w. a = Inr w \<and> authorize_checks os state prf w = Inr x)))"
proof -
  let ?path = "str_of (fld (at cfg ''maintenance'') ''startup_descriptor'')"
  let ?body = "\<lambda>state d. case admit_selection os ?path state (at prf ''component'') pid d of
      (Inl e, d') \<Rightarrow> (Inl e, d') | (Inr v, d') \<Rightarrow> (authorize_checks os state prf v, d')"
  have "admission_lock node gos g ?body d = (r, d')" using run cfg by (simp add: authorize_startup_def)
  then consider "(\<exists>e. r = Inl e) \<and> d' = d"
    | state r0 where "gate_read node gos g = Inr state" "?body state d = (r0, d')" "\<forall>x. r = Inr x \<longleftrightarrow> r0 = Inr x"
    using admission_lock_cases by blast
  then show ?thesis
  proof cases
    case 2
    obtain a d1 where a: "admit_selection os ?path state (at prf ''component'') pid d = (a, d1)" by (rule prod.exhaust)
    with 2 have "d1 = d'" and "\<forall>x. r = Inr x \<longrightarrow> (\<exists>w. a = Inr w \<and> authorize_checks os state prf w = Inr x)"
      by (cases a; force)+
    with 2(1) a show ?thesis by blast
  qed blast
qed

lemma authorize_refines:
  assumes holds: "selection_holds d v" and sane: "startup_sane os (Authorize cfg prf pid)"
    and run: "authorize_startup node gos g os cfg prf pid d = (r, d')"
  shows "\<exists>w. selection_holds d' w \<and> (register_of w = register_of v \<or>
     (\<exists>state. gate_read node gos g = Inr state \<and> startup_step state (Some (register_of v)) (Some (register_of w))))"
proof (cases "d' = d")
  case True
  with holds show ?thesis by blast
next
  case False
  then have cfg: "at cfg ''maintenance'' \<noteq> JNull" using run by (auto simp: authorize_startup_def)
  obtain state path a where "gate_read node gos g = Inr state" "admit_selection os path state (at prf ''component'') pid d = (a, d')"
    using authorize_cases [OF run cfg] False by auto
  then show ?thesis using admit_refines [OF holds _ sane] by blast
qed

lemma authorize_None:
  assumes "authorize_startup node gos g os cfg prf pid None = (r, d')"
  shows "d' = None"
proof (cases "at cfg ''maintenance'' = JNull")
  case True
  with assms show ?thesis by (simp add: authorize_startup_def)
next
  case False
  then show ?thesis using authorize_cases [OF assms False] by (auto dest: admit_selection_file)
qed


end
