(* ===== verification/StartupHistory.thy ===== *)
theory StartupHistory
  imports StartupProps Barrier
begin

text \<open>
  The startup selection over time and together with the maintenance gate: a claimed component is never admitted
  to another process, a publication is a compare-and-swap, and after a release only the released deployment
  starts.
\<close>

section \<open>A claimed component\<close>

inductive admission_step :: "json \<Rightarrow> descriptor \<Rightarrow> descriptor \<Rightarrow> bool" for node where
  admit: "startup_sane os (Authorize cfg prf pid) \<Longrightarrow> admission_step node d (snd (authorize_startup node gos g os cfg prf pid d))"

lemma startup_step_admission:
  assumes "admit_selection os path state component pid d = (r, d')" and "selection_holds d v" and "startup_sane os (Authorize cfg pf pid)"
  shows "\<exists>w. selection_holds d' w \<and> r_body (register_of w) = r_body (register_of v) \<and> r_permit (register_of w) = r_permit (register_of v) \<and>
     r_claims (register_of v) \<subseteq>\<^sub>m r_claims (register_of w)"
  using admit_selection_file [OF assms(1)]
proof (elim disjE exE conjE)
  assume "d' = d"
  with assms(2) show ?thesis by (auto intro: map_le_refl)
next
  fix u name claim
  assume read: "read_selection os path d = Inr u" and claim: "may_claim os state name pid u claim"
    and free: "claim_at u name = None" and d': "d' = Some (canonical_bytes (with_claim u name claim) @ [10])"
  have u: "u = sort_keys v" using read_selection_Inr [OF assms(2) read] .
  have doc: "selection_doc v" using assms(2) by (simp add: selection_holds_def)
  then have wf: "wf_json v" and docu: "selection_doc u" by (simp_all add: selection_doc_def u selection_doc_sort_keys [unfolded selection_doc_def])
  have doc': "selection_doc (with_claim u name claim)"
    using assms(3) by (intro with_claim_doc [OF docu claim free]) (auto simp: startup_sane_def)
  have "register_of (with_claim u name claim) = (register_of v)\<lparr>r_claims := (r_claims (register_of v))(name \<mapsto> claim_of claim)\<rparr>"
    using candidate_permit [OF docu] claim selection_doc_dict [OF docu]
    by (simp add: register_with_claim may_claim_def) (simp add: u register_of_sort_keys [OF wf])
  moreover have "r_claims (register_of v) name = None" using free wf by (simp add: u claim_at_sort_keys r_claims_register)
  ultimately show ?thesis using doc' d'
    by (intro exI [of _ "with_claim u name claim"]) (auto simp: selection_holds_def map_le_def)
qed

lemma admission_keeps:
  assumes "admission_step node d d'" and "selection_holds d v"
  shows "\<exists>w. selection_holds d' w \<and> r_body (register_of w) = r_body (register_of v) \<and> r_permit (register_of w) = r_permit (register_of v) \<and>
     r_claims (register_of v) \<subseteq>\<^sub>m r_claims (register_of w)"
  using assms
proof cases
  case (admit os cfg pf pid gos g)
  show ?thesis
  proof (cases "d' = d")
    case False
    then have cfg: "at cfg ''maintenance'' \<noteq> JNull" using admit by (auto simp: authorize_startup_def)
    obtain state path a where "admit_selection os path state (at pf ''component'') pid d = (a, d')"
      using authorize_cases [OF surjective_pairing cfg, of node gos g os pf pid d] False admit by auto
    then show ?thesis using startup_step_admission assms(2) admit by blast
  qed (use assms(2) in \<open>auto intro: map_le_refl\<close>)
qed

lemma admissions_keep:
  assumes "(admission_step node)\<^sup>*\<^sup>* d d'" and "selection_holds d v"
  shows "\<exists>w. selection_holds d' w \<and> r_body (register_of w) = r_body (register_of v) \<and> r_permit (register_of w) = r_permit (register_of v) \<and>
     r_claims (register_of v) \<subseteq>\<^sub>m r_claims (register_of w)"
  using assms(1)
proof (induction rule: rtranclp_induct)
  case base
  show ?case using assms(2) by (auto intro: map_le_refl)
next
  case (step y z)
  then show ?case using admission_keeps [OF step.hyps(2)] by (metis map_le_trans)
qed

lemma admitted_claim:
  assumes admit: "admit_selection os path state component pid d = (Inr w, d')" and holds: "selection_holds d v"
    and sane: "startup_sane os (Authorize cfg pf pid)" and mode: "at w ''mode'' = jlit ''candidate''"
  shows "\<exists>name boot t u. component = JStr name \<and> su_boot os = Inr boot \<and> su_ticks os pid = Some t \<and> selection_holds d' u \<and>
     at (r_body (register_of u)) ''mode'' = jlit ''candidate'' \<and> r_claims (register_of u) name = Some (pid, t, boot)"
proof -
  obtain x name where read: "read_selection os path d = Inr x" and name: "component = JStr name"
    and how: "may_start state name x \<and> w = x \<and> d' = d \<or>
      (\<exists>claim. may_claim os state name pid x claim \<and>
         ((\<exists>previous. claim_at x name = Some previous \<and> jeq previous claim \<and> w = x \<and> d' = d) \<or>
          claim_at x name = None \<and> w = with_claim x name claim \<and> d' = Some (canonical_bytes w @ [10])))"
    using admit_selection_Inr [OF admit] by blast
  have x: "x = sort_keys v" using read_selection_Inr [OF holds read] .
  have doc: "selection_doc v" using holds by (simp add: selection_holds_def)
  then have wf: "wf_json v" and docx: "selection_doc x" by (simp_all add: selection_doc_def x selection_doc_sort_keys [unfolded selection_doc_def])
  obtain claim where claim: "may_claim os state name pid x claim"
    and how: "(\<exists>previous. claim_at x name = Some previous \<and> jeq previous claim \<and> w = x \<and> d' = d) \<or>
          claim_at x name = None \<and> w = with_claim x name claim \<and> d' = Some (canonical_bytes w @ [10])"
    using how mode by (auto simp: may_start_def)
  obtain boot t where inst: "su_boot os = Inr boot" "su_ticks os pid = Some t" "claim = instance_doc pid t boot"
    using claim by (auto simp: may_claim_def)
  have modex: "at x ''mode'' = jlit ''candidate''" using claim by (simp add: may_claim_def)
  note per = candidate_permit [OF docx modex]
  from how show ?thesis
  proof (elim disjE exE conjE)
    fix previous
    assume prev: "claim_at x name = Some previous" "jeq previous claim" "w = x" "d' = d"
    have "claim_ok (at x ''permit'') previous"
      using per(4) prev(1) by (auto simp: claim_at_def jvalues_def dest!: dget_items)
    then have "claim_of previous = (pid, t, boot)" using prev(2) inst(3) claim_jeq by blast
    then have "r_claims (register_of x) name = Some (pid, t, boot)" using prev(1) by (simp add: r_claims_register)
    then show ?thesis using name inst holds prev(4) modex wf
      by (intro exI [of _ name] exI [of _ boot] exI [of _ t] exI [of _ v]) (auto simp: x register_of_sort_keys at_body sorted_simps)
  next
    assume new: "claim_at x name = None" "w = with_claim x name claim" "d' = Some (canonical_bytes w @ [10])"
    have docw: "selection_doc w"
      unfolding new(2) using sane by (intro with_claim_doc [OF docx claim new(1)]) (auto simp: startup_sane_def)
    have "r_claims (register_of w) name = Some (pid, t, boot)"
      using register_with_claim per(1,3) selection_doc_dict [OF docx] inst(3) by (simp add: new(2))
    moreover have "at (r_body (register_of w)) ''mode'' = jlit ''candidate''" using mode docw by (simp add: at_body selection_doc_def)
    ultimately show ?thesis using name inst docw new(3) by (auto simp: selection_holds_def)
  qed
qed

text \<open>A descriptor holds one selection, up to the order of keys.\<close>

lemma selection_holds_unique:
  assumes "selection_holds d v" and "selection_holds d w"
  shows "register_of v = register_of w"
proof -
  have "startup_load (canonical_bytes u @ [10]) = Inr (sort_keys u)" if "selection_holds d u" for u
    using that startup_load_line [of u] selection_doc_dict [of u] by (simp add: selection_holds_def selection_doc_def)
  from this [OF assms(1)] this [OF assms(2)] have "sort_keys v = sort_keys w" using assms by (simp add: selection_holds_def)
  then show ?thesis using assms by (metis register_of_sort_keys selection_holds_def selection_doc_def)
qed

lemma at_obj_lookup [simp]: "at (obj kvs) k = (case map_of kvs k of None \<Rightarrow> JNull | Some x \<Rightarrow> x)" "obj kvs \<noteq> JNull"
  by (simp_all add: at_def get_or_def) (simp add: obj_def)

lemma authorize_checks_Inr: "authorize_checks os state pf w = Inr r \<Longrightarrow>
    proof_matches state w (dat (at w ''components'') (str_of (fld pf ''component''))) pf = Inr () \<and>
    r = obj [(''descriptor_digest'', JStr (gate_digest w)), (''mode'', at w ''mode''), (''decision_id'', at w ''decision_id''),
          (''deployment_digest'', at w ''deployment_digest'')]"
  by (simp add: authorize_checks_def Let_def thenE_Inr_iff)

lemma authorize_checks_mode: "authorize_checks os state pf w = Inr r \<Longrightarrow>
    at r ''mode'' = at w ''mode'' \<and> at r ''deployment_digest'' = at w ''deployment_digest'' \<and> at r ''decision_id'' = at w ''decision_id'' \<and>
    r \<noteq> JNull \<and> jeq (at w ''deployment_digest'') (at pf ''deployment_digest'')"
  by (drule authorize_checks_Inr) (auto simp: proof_matches_def Let_def res_simps)

lemma authorize_Inr:
  assumes "authorize_startup node gos g os cfg pf pid d = (Inr r, d')" and "r \<noteq> JNull"
  shows "\<exists>state path w. gate_read node gos g = Inr state \<and> admit_selection os path state (at pf ''component'') pid d = (Inr w, d') \<and>
     authorize_checks os state pf w = Inr r"
proof -
  have "at cfg ''maintenance'' \<noteq> JNull" using assms by (auto simp: authorize_startup_def)
  from authorize_cases [OF assms(1) this] show ?thesis by auto
qed

lemma admit_keeps_body:
  assumes "admit_selection os path state component pid d = (Inr w, d')" and holds: "selection_holds d v" and k: "k \<noteq> ''permit''"
  shows "at w k = sort_keys (at v k)"
proof -
  obtain u name where read: "read_selection os path d = Inr u" and w: "w = u \<or> (\<exists>claim. w = with_claim u name claim)"
    using admit_selection_Inr [OF assms(1)] by blast
  have u: "u = sort_keys v" using read_selection_Inr [OF holds read] .
  have "wf_json v" "is_dict v" using holds selection_doc_dict by (auto simp: selection_holds_def selection_doc_def)
  then show ?thesis using w k by (auto simp: u with_claim_at at_sort_keys)
qed

text \<open>@CLAIM@
  Under a candidate selection a component starts as one process.  After an admission of a component under a
  candidate succeeded, and whatever admissions of any processes follow, under any record of the gate and
  any behaviour of the operating system, a further admission of that component succeeds only for the same
  process: the same pid with the same start time in the same boot.
\<close>

theorem candidate_claim_exclusive:
  assumes holds: "selection_holds d v"
    and first: "authorize_startup node gos g os cfg pf pid d = (Inr r, d1)" "r \<noteq> JNull" "at r ''mode'' = jlit ''candidate''"
    and sane: "startup_sane os (Authorize cfg pf pid)" "startup_sane os' (Authorize cfg' pf' pid')"
    and later: "(admission_step node)\<^sup>*\<^sup>* d1 d2"
    and again: "authorize_startup node gos' g' os' cfg' pf' pid' d2 = (Inr r', d3)" "r' \<noteq> JNull"
    and same: "at pf' ''component'' = at pf ''component''"
  shows "pid' = pid \<and> su_ticks os' pid' = su_ticks os pid \<and> su_boot os' = su_boot os"
proof -
  obtain state path w where "admit_selection os path state (at pf ''component'') pid d = (Inr w, d1)" "at w ''mode'' = jlit ''candidate''"
    using authorize_Inr [OF first(1,2)] authorize_checks_mode first(3) by metis
  from admitted_claim [OF this(1) holds sane(1) this(2)] obtain name boot t u where name: "at pf ''component'' = JStr name"
    and inst: "su_boot os = Inr boot" "su_ticks os pid = Some t" and u: "selection_holds d1 u"
    and mode: "at (r_body (register_of u)) ''mode'' = jlit ''candidate''" and claim: "r_claims (register_of u) name = Some (pid, t, boot)"
    by blast
  obtain x where x: "selection_holds d2 x" "r_body (register_of x) = r_body (register_of u)" "r_claims (register_of u) \<subseteq>\<^sub>m r_claims (register_of x)"
    using admissions_keep [OF later u] by blast
  obtain state' path' w' where admit': "admit_selection os' path' state' (at pf' ''component'') pid' d2 = (Inr w', d3)"
    using authorize_Inr [OF again] by blast
  have wf: "wf_json x" using x(1) by (simp add: selection_holds_def selection_doc_def)
  have "sort_keys (at x ''mode'') = jlit ''candidate''" using mode x(2) at_body [OF wf, of "''mode''"] by simp
  then have "at x ''mode'' = jlit ''candidate''" by (simp only: sort_keys_eq_JStr)
  then have "at w' ''mode'' = jlit ''candidate''"
    using admit_keeps_body [OF admit' x(1), of "''mode''"] by simp
  from admitted_claim [OF admit' x(1) sane(2) this] obtain boot' t' y where inst': "su_boot os' = Inr boot'" "su_ticks os' pid' = Some t'"
    and y: "selection_holds d3 y" "r_claims (register_of y) name = Some (pid', t', boot')"
    using same name by auto
  obtain z where z: "selection_holds d3 z" "r_claims (register_of x) \<subseteq>\<^sub>m r_claims (register_of z)"
    using startup_step_admission [OF admit' x(1) sane(2)] by blast
  have "register_of z = register_of y" using selection_holds_unique [OF z(1) y(1)] .
  moreover have "r_claims (register_of z) name = Some (pid, t, boot)"
    using claim x(3) z(2) by (metis domI map_le_def)
  ultimately show ?thesis using y(2) inst inst' by simp
qed

section \<open>A release selects the deployment that starts\<close>

lemma gate_hex_JStr: "gate_hex p = Inr u \<Longrightarrow> \<exists>x. p = JStr x"
  by (cases p) (auto simp: gate_hex_def raise_if_def)

lemma release_confirms:
  assumes doc: "gate_doc node v" and opened: "at v ''state'' = jlit ''OPEN''" and hex: "gate_hex p = Inr ()"
    and same: "jeq (at v ''last_transition'') (obj [(''kind'', jlit ''release''), (''owner'', owner), (''decision_id'', dn), (''deployment_digest'', p)])"
  shows "at v ''deployment_digest'' = p"
proof -
  let ?t = "at v ''last_transition''"
  have entry: "map_option norm (fld ?t k) = map_option norm (map_of [(lit ''kind'', jlit ''release''), (lit ''owner'', owner), (lit ''decision_id'', dn), (lit ''deployment_digest'', p)] (lit k))" for k
    using same by (intro jeq_dget) (simp_all add: obj_def)
  obtain x where x: "p = JStr x" using gate_hex_JStr [OF hex] by blast
  have "fld ?t ''kind'' = Some (jlit ''release'')" "fld ?t ''deployment_digest'' = Some p"
    using entry [of "''kind''"] entry [of "''deployment_digest''"] by (auto simp: x elim!: norm.elims)
  then have kind: "at ?t ''kind'' = jlit ''release''" and dep: "at ?t ''deployment_digest'' = p"
    by (simp_all add: at_def get_or_def)
  have "?t \<noteq> JNull" "is_dict ?t" using kind by (cases ?t; auto simp: at_def get_or_def dget_def)+
  moreover have "validate_transition v = Inr ()" using doc by (simp add: gate_doc_def validate_gate_iff)
  ultimately have "jeq p (at v ''deployment_digest'')"
    using kind dep by (auto simp: validate_transition_def Let_def res_simps split: if_splits)
  then show ?thesis using jeq_JStr_right jeq_sym x by blast
qed

lemma release_state:
  assumes holds: "gate_holds node g v" and ok: "op_ok (Release owner dn p expect) v"
    and rel: "release_gate node os owner dn p expect g = (Inr m, g')"
  shows "\<exists>w. gate_holds node g' w \<and> at w ''state'' = jlit ''OPEN'' \<and> at w ''deployment_digest'' = p"
proof -
  have doc: "gate_doc node v" using holds by (simp add: gate_holds_def)
  have hex: "gate_hex p = Inr ()" and run: "under_lock node os (release_change owner dn p expect) g = (Inr m, g')"
    using rel by (auto simp: release_gate_def thenE_Inr_iff split: sum.splits)
  have calm: "\<not> lock_fails os" "\<not> record_unprotected os"
    using run holds by (auto simp: under_lock_def locked_def gate_holds_def gate_read_def as_invalid_record_def raise_if_def thenE_def
        gate_unknown_def as_unknown_state_def split: if_splits)
  let ?v = "sort_keys v"
  have app: "gate_apply node os (release_change owner dn p expect ?v) g = (Inr m, g')"
    using run calm gate_read_holds [OF holds calm(2)]
    by (auto simp: under_lock_def locked_def as_unknown_state_def split: prod.splits sum.splits exn.splits if_splits)
  show ?thesis
  proof (cases "release_change owner dn p expect ?v")
    case (Refuse e)
    with app show ?thesis by (simp add: gate_apply_def)
  next
    case (Confirm r)
    then have "at ?v ''state'' = jlit ''OPEN''"
      "jeq (at ?v ''last_transition'') (obj [(''kind'', jlit ''release''), (''owner'', owner), (''decision_id'', dn), (''deployment_digest'', p)])"
      by (auto simp: release_change_def Let_def when_expected_def conflict_def split: if_splits)
    then have opened: "at v ''state'' = jlit ''OPEN''" and "at v ''deployment_digest'' = p"
      using release_confirms [OF doc _ hex, of owner dn] doc by (simp_all add: at_sort_keys gate_doc_def)
    then show ?thesis using app Confirm holds by (auto simp: gate_apply_def)
  next
    case (Store v' r)
    have wf: "wf_json v" using doc by (simp add: gate_doc_def)
    have good: "good_change ?v v'"
      using ok wf by (intro releasing.good [OF gate_doc_sort_keys [OF doc] _ Store]) simp
    have v': "at v' ''state'' = jlit ''OPEN''" "at v' ''deployment_digest'' = p"
      using Store gate_doc_shape [OF gate_doc_sort_keys [OF doc]]
      by (auto simp: release_change_def Let_def when_expected_Store conflict_def retire_simps gate_shape_def split: if_splits)
    have "validate_gate node v' = Inr ()" "length (canonical_bytes v') < MAX_STATE_BYTES" "g' = Some (canonical_bytes v' @ [10])"
      using app Store by (auto simp: gate_apply_def gate_write_def Let_def bindE_Inr_iff split: sum.splits if_splits write_outcome.splits prod.splits)
    then show ?thesis using good v' by (auto simp: gate_holds_def gate_doc_def good_change_def)
  qed
qed

text \<open>@CLAIM@
  After a release returned, only the released deployment starts.  While the record of the gate is the one that
  the release left, an admission that succeeds is one under the stable selection of that deployment, by a listener
  that loaded that deployment, and it leaves the descriptor as it was.
\<close>

theorem release_selects_deployment:
  assumes gate: "gate_holds node g v" "op_ok (Release owner dn p expect) v" "release_gate node os owner dn p expect g = (Inr m, g')"
    and start: "authorize_startup node gos g' sos cfg pf pid d = (Inr r, d')" "r \<noteq> JNull" and holds: "selection_holds d s"
  shows "at r ''mode'' = jlit ''stable'' \<and> at r ''deployment_digest'' = p \<and> at pf ''deployment_digest'' = p \<and> at s ''deployment_digest'' = p \<and> d' = d"
proof -
  obtain w where w: "gate_holds node g' w" "at w ''state'' = jlit ''OPEN''" "at w ''deployment_digest'' = p"
    using release_state [OF gate] by blast
  obtain state path u where read: "gate_read node gos g' = Inr state"
    and admit: "admit_selection sos path state (at pf ''component'') pid d = (Inr u, d')" and checks: "authorize_checks sos state pf u = Inr r"
    using authorize_Inr [OF start] by blast
  have state: "state = sort_keys w"
    using gate_read_holds [OF w(1), of gos] read w(1)
    by (cases "record_unprotected gos") (auto simp: gate_holds_def gate_read_def as_invalid_record_def raise_if_def thenE_def gate_unknown_def)
  have wfw: "wf_json w" using w(1) by (simp add: gate_holds_def gate_doc_def)
  have docs: "selection_doc s" "wf_json s" using holds by (simp_all add: selection_holds_def selection_doc_def)
  have opened: "at state ''state'' = jlit ''OPEN''" using w(2) by (simp add: state at_sort_keys wfw)
  have "gate_hex p = Inr ()" using gate(3) by (auto simp: release_gate_def thenE_Inr_iff split: sum.splits)
  then obtain x where p: "p = JStr x" using gate_hex_JStr by blast
  have dep: "at state ''deployment_digest'' = p" using w(3) by (simp add: state at_sort_keys wfw p)
  obtain name y where y: "read_selection sos path d = Inr y" "may_start state name y" "u = y" "d' = d"
    using admit_selection_Inr [OF admit] opened by (auto simp: may_claim_def)
  have ys: "y = sort_keys s" using read_selection_Inr [OF holds y(1)] .
  have "at y ''deployment_digest'' = p"
    using y(2) opened dep p by (auto simp: may_start_def intro: jeq_JStr_right [THEN iffD1] jeq_sym)
  moreover have "at y ''mode'' = jlit ''stable''"
    using y(2) docs selection_doc_sort_keys [OF docs(1)] by (auto simp: may_start_def ys selection_doc_def validate_selection_iff)
  ultimately show ?thesis
    using authorize_checks_mode [OF checks] y(3,4) p docs(2) by (auto simp: ys at_sort_keys intro: jeq_JStr_right [THEN iffD1] jeq_sym)
qed

section \<open>Compare and swap\<close>

text \<open>@CLAIM@
  A publication is a compare-and-swap.  A call that changes the descriptor found the digest that the caller
  expected and leaves exactly the published selection; a call that returns, returns the digest of the published
  selection, and the descriptor then holds it.
\<close>

theorem publish_compare_and_swap:
  assumes holds: "selection_holds d v" and doc: "selection_doc w" and run: "publish node gos g os path w expect mo d = (r, d')"
  shows "(d' = d \<or> selection_holds d' w \<and> expect = JStr (gate_digest v)) \<and>
     (\<forall>x. r = Inr x \<longrightarrow> x = JStr (gate_digest w) \<and> (\<exists>u. selection_holds d' u \<and> jeq u w))"
proof -
  have lock: "admission_lock node gos g (publish_body os path w expect mo) d = (r, d')"
    using run doc by (auto simp: publish_def selection_doc_def split: sum.splits)
  show ?thesis
  proof (cases "(\<exists>e. r = Inl e) \<and> d' = d")
    case False
    then obtain state r0 where body: "publish_body os path w expect mo state d = (r0, d')" and r0: "\<forall>x. r = Inr x \<longleftrightarrow> r0 = Inr x"
      using admission_lock_cases [OF lock] by blast
    have written: "d' = Some (canonical_bytes w @ [10]) \<Longrightarrow> selection_holds d' w" using doc by (simp add: selection_holds_def)
    have swap: "d' = d \<or> selection_holds d' w \<and> expect = JStr (gate_digest v)"
      using publish_body_cases(1) [OF body]
    proof (elim disjE exE conjE)
      fix current
      assume current: "current_selection os path d = Inr current" and expect: "expect = digest_or_none current"
        and d': "d' = Some (canonical_bytes w @ [10])"
      have "current = Some (sort_keys v)"
        using current_selection_Inr [OF current] holds read_selection_Inr [OF holds]
        by (cases current) (auto simp: selection_holds_def)
      then show ?thesis using expect written [OF d'] by (simp add: digest_or_none_def)
    qed simp
    have "x = JStr (gate_digest w) \<and> (\<exists>u. selection_holds d' u \<and> jeq u w)" if "r = Inr x" for x
    proof -
      have r0x: "r0 = Inr x" using r0 that by blast
      from publish_body_cases(2) [OF body r0x] show ?thesis
      proof (elim conjE disjE exE)
        fix c
        assume "x = JStr (gate_digest w)" "d' = d" "read_selection os path d = Inr c" "jeq c w"
        moreover from this have "jeq v w" using read_selection_Inr [OF holds] jeq_sorted(1) by blast
        ultimately show ?thesis using holds by blast
      qed (use written in auto)
    qed
    with swap show ?thesis by blast
  qed auto
qed

section \<open>Examples\<close>

definition startup_gate :: "string \<Rightarrow> json \<Rightarrow> json \<Rightarrow> json" where
  "startup_gate gate_state owner transition = obj
     [(''schema'', jlit GATE_SCHEMA), (''node_id'', gate_example_node), (''state'', jlit gate_state), (''sequence'', JInt 3), (''owner'', owner),
      (''decision_id'', first_decision), (''deployment_digest'', gate_deployment), (''responsibilities'', JObj []),
      (''compatibility'', JObj []), (''last_transition'', transition), (''retired_owners'', JList [jlit ''deploy-1''])]"

abbreviation "released_gate \<equiv> startup_gate ''OPEN'' JNull (obj [(''kind'', jlit ''release''), (''owner'', jlit ''deploy-1''),
   (''decision_id'', first_decision), (''deployment_digest'', gate_deployment)])"
abbreviation "closed_gate \<equiv> startup_gate ''CLOSED'' (jlit ''deploy-2'') (obj [(''kind'', jlit ''close''), (''owner'', jlit ''deploy-2'')])"

definition startup_example :: "string \<Rightarrow> json \<Rightarrow> json \<Rightarrow> json \<Rightarrow> json" where
  "startup_example mode owner decision permit = obj
     [(''schema'', jlit STARTUP_SCHEMA), (''node_id'', gate_example_node), (''deployment_digest'', gate_deployment), (''decision_id'', decision),
      (''mode'', jlit mode), (''owner'', owner), (''members'', JList [obj [(''path'', jlit ''/etc/mcp''), (''sha256'', JStr (sha256_hex []))]]),
      (''components'', obj [(''mcp'', obj [(''configuration_digest'', gate_deployment), (''payload_digest'', gate_deployment),
         (''entry'', jlit ''local''), (''running'', JBool True)])]), (''permit'', permit)]"

abbreviation "stable_selection \<equiv> startup_example ''stable'' JNull first_decision JNull"
abbreviation "candidate_selection \<equiv> startup_example ''candidate'' (jlit ''deploy-2'') JNull
   (obj [(''boot_id'', jlit ''boot-1''), (''attempt_id'', jlit ''a''), (''claims'', obj [(''mcp'', instance_doc 7 5 (lit ''boot-1''))])])"

definition startup_quiet :: startup_os where
  "startup_quiet = \<lparr>su_unreadable = False, su_lstat_fails = False, su_parent_lstat_fails = False, su_parent_exposed = False, su_directory = None,
     su_write = Written, su_sync_fails = False, su_member = (\<lambda>path uid. Some []), su_boot = Inr (lit ''boot-1''), su_ticks = (\<lambda>pid. Some 5)\<rparr>"

definition startup_config :: json where
  "startup_config = obj [(''maintenance'', obj [(''startup_descriptor'', jlit ''/etc/startup'')])]"

definition startup_proof :: json where
  "startup_proof = obj [(''component'', jlit ''mcp''), (''node_id'', gate_example_node), (''deployment_digest'', gate_deployment),
     (''configuration_digest'', gate_deployment), (''payload_digest'', gate_deployment)]"

lemma startup_gate_at:
  "at (startup_gate st owner t) k = (case map_of [(''schema'', jlit GATE_SCHEMA), (''node_id'', gate_example_node), (''state'', jlit st),
      (''sequence'', JInt 3), (''owner'', owner), (''decision_id'', first_decision), (''deployment_digest'', gate_deployment), (''responsibilities'', JObj []),
      (''compatibility'', JObj []), (''last_transition'', t), (''retired_owners'', JList [jlit ''deploy-1''])] k of None \<Rightarrow> JNull | Some x \<Rightarrow> x)"
  unfolding startup_gate_def by (rule at_obj_lookup)

lemma startup_gate_doc:
  assumes "wf_json t" "tree 1 t = Inr ()" "gate_text owner \<or> owner = JNull"
    and "gate_owner_ok (startup_gate st owner t)" "validate_transition (startup_gate st owner t) = Inr ()" "st \<in> {''OPEN'', ''CLOSED''}"
  shows "gate_doc gate_example_node (startup_gate st owner t)"
proof -
  let ?v = "startup_gate st owner t"
  note texts = example_deployment_text(1) [THEN gate_text_ok]
  have owner: "wf_json owner \<and> (\<forall>d. tree d owner = Inr ())" using assms(3) gate_text_ok by auto
  have seq: "fld ?v ''sequence'' = Some (JInt 3)" by (simp add: startup_gate_def)
  have "wf_json ?v \<and> tree 0 ?v = Inr ()"
    using texts owner assms(1,2)
    by (simp add: startup_gate_def wf_json_obj tree_obj MAX_DEPTH_def tree_jlit MAX_SAFE_INTEGER_def raise_if_def thenE_def del: tree.simps(1) map_replicate replicate_Suc)
  moreover have "has_keys ?v GATE_KEYS" by (auto simp: startup_gate_def GATE_KEYS_def)
  moreover have "gate_names_ok ?v"
    using example_deployment_text(2) by (simp add: gate_names_ok_def startup_gate_at elements_def gate_identifier_def raise_if_def thenE_def del: map_replicate replicate_Suc)
      (simp add: lit_def)
  ultimately show ?thesis
    using assms(4-6) seq by (auto simp: gate_doc_def validate_gate_iff gate_shape_def startup_gate_at duties_ok_def compatible_ok_def items_def startup_gate_def [of _ _ t] simp del: map_replicate replicate_Suc)
qed

lemma deployment_ok [simp]: "code_points (replicate 64 48)" "tree d gate_deployment = Inr ()"
  using gate_text_ok [OF example_deployment_text(1)] by (simp_all del: map_replicate replicate_Suc tree.simps)

lemma startup_gate_length: "length (canonical_bytes (startup_gate st owner t)) \<le> 40000 + size_bound owner + size_bound t + 12 * length st"
  by (rule order_trans [OF length_canonical_bytes]) (simp add: startup_gate_def obj_def GATE_SCHEMA_def)

lemma released_gate_holds: "gate_holds gate_example_node (Some (canonical_bytes released_gate @ [10])) released_gate"
proof -
  have "length (canonical_bytes released_gate) < MAX_STATE_BYTES"
    by (rule le_less_trans [OF startup_gate_length]) (simp add: obj_def MAX_STATE_BYTES_def)
  moreover have "gate_doc gate_example_node released_gate"
  proof (rule startup_gate_doc)
    show "validate_transition released_gate = Inr ()"
      by (simp add: validate_transition_def Let_def startup_gate_at value_unless_def raise_if_def elements_def del: map_replicate replicate_Suc)
  qed (simp_all add: gate_owner_ok_def startup_gate_at wf_json_obj tree_obj MAX_DEPTH_def tree_jlit example_deployment_text(1) [THEN gate_text_ok] value_unless_def raise_if_def
      del: map_replicate replicate_Suc tree.simps(1))
  ultimately show ?thesis by (simp add: gate_holds_def)
qed

lemma closed_gate_holds: "gate_holds gate_example_node (Some (canonical_bytes closed_gate @ [10])) closed_gate"
proof -
  have "length (canonical_bytes closed_gate) < MAX_STATE_BYTES"
    by (rule le_less_trans [OF startup_gate_length]) (simp add: obj_def MAX_STATE_BYTES_def)
  moreover have "gate_doc gate_example_node closed_gate"
  proof (rule startup_gate_doc)
    show "validate_transition closed_gate = Inr ()"
      by (simp add: validate_transition_def Let_def startup_gate_at value_unless_def raise_if_def elements_def del: map_replicate replicate_Suc)
    show "gate_owner_ok closed_gate"
      by (simp add: gate_owner_ok_def startup_gate_at elements_def gate_identifier_def raise_if_def) (simp add: lit_def)
  qed (simp_all add: wf_json_obj tree_obj MAX_DEPTH_def tree_jlit del: tree.simps(1))
  ultimately show ?thesis by (simp add: gate_holds_def)
qed

lemma startup_example_at:
  "at (startup_example mode owner decision permit) k = (case map_of [(''schema'', jlit STARTUP_SCHEMA), (''node_id'', gate_example_node),
      (''deployment_digest'', gate_deployment), (''decision_id'', decision),
      (''mode'', jlit mode), (''owner'', owner), (''members'', JList [obj [(''path'', jlit ''/etc/mcp''), (''sha256'', JStr (sha256_hex []))]]),
      (''components'', obj [(''mcp'', obj [(''configuration_digest'', gate_deployment), (''payload_digest'', gate_deployment),
         (''entry'', jlit ''local''), (''running'', JBool True)])]), (''permit'', permit)] k of None \<Rightarrow> JNull | Some x \<Rightarrow> x)"
  unfolding startup_example_def by (rule at_obj_lookup)

lemma items_obj_list: "items (obj kvs) = map (\<lambda>(k, v). (lit k, v)) kvs"
  by (simp add: items_def obj_def)

lemma example_paths: "prefix [47] (lit ''/etc/mcp'')" "lit ''..'' \<notin> set (posix_parts (lit ''/etc/mcp''))"
  "parent_ok (lit ''/etc/mcp'') = Inr ()" "parent_ok (lit ''/etc/startup'') = Inr ()" "component_name (lit ''mcp'')"
  by code_simp+

lemma startup_example_doc:
  assumes scalars: "gate_text owner \<or> owner = JNull" "gate_text decision \<or> decision = JNull" and permit: "wf_json permit" "tree 1 permit = Inr ()"
    and ok: "validate_permit (startup_example mode owner decision permit)" and mode: "mode \<in> {''blocked'', ''candidate'', ''stable''}"
  shows "selection_doc (startup_example mode owner decision permit)"
proof -
  let ?v = "startup_example mode owner decision permit"
  note texts = example_deployment_text(1) [THEN gate_text_ok]
  have sc: "wf_json owner \<and> (\<forall>d. tree d owner = Inr ())" "wf_json decision \<and> (\<forall>d. tree d decision = Inr ())" using scalars gate_text_ok by auto
  have hex: "hex_text gate_deployment" "hex_text (JStr (sha256_hex []))"
    using sha256_hex_digits by (auto simp: hex_text_def) (simp add: is_hex_digit_def is_digit_def)
  have member: "tree (Suc (Suc 0)) (obj [(''path'', jlit ''/etc/mcp''), (''sha256'', JStr (sha256_hex []))]) = Inr ()"
    by (simp add: tree_obj MAX_DEPTH_def tree_jlit tree_sha256 del: tree.simps(1))
  have "wf_json ?v \<and> tree 0 ?v = Inr ()"
    using texts sc permit
    by (simp add: member startup_example_def wf_json_obj tree_obj MAX_DEPTH_def tree_jlit tree_sha256 code_points_sha256 thenE_def raise_if_def del: tree.simps(1) map_replicate replicate_Suc)
  moreover have "has_keys ?v SELECTION_KEYS" by (auto simp: startup_example_def SELECTION_KEYS_def)
  moreover have "\<exists>paths. validate_member [] (obj [(''path'', jlit ''/etc/mcp''), (''sha256'', JStr (sha256_hex []))]) = Inr paths"
    using hex example_paths by (simp add: validate_member_def value_unless_def raise_if_def thenE_def)
  moreover have "validate_component (lit ''mcp'', obj [(''configuration_digest'', gate_deployment), (''payload_digest'', gate_deployment),
         (''entry'', jlit ''local''), (''running'', JBool True)]) = Inr ()"
    using hex example_paths(5) by (auto simp: validate_component_def in_names_def value_unless_def raise_if_def thenE_def simp del: map_replicate replicate_Suc)
  moreover have "is_dict ?v" by (simp add: startup_example_def obj_def)
  ultimately show ?thesis
    using ok mode hex unfolding selection_doc_def validate_selection_iff startup_example_at
    by (auto simp: some_text_def items_obj_list elements_def)
qed

lemma stable_doc: "selection_doc stable_selection"
  by (rule startup_example_doc) (simp_all add: validate_permit_def startup_example_at some_text_def)

lemma candidate_doc: "selection_doc candidate_selection"
proof (rule startup_example_doc)
  have inst: "wf_json (instance_doc 7 5 (lit ''boot-1''))" "tree 3 (instance_doc 7 5 (lit ''boot-1'')) = Inr ()"
    by (simp_all add: instance_doc_def wf_json_obj tree_obj MAX_DEPTH_def tree_jlit MAX_SAFE_INTEGER_def raise_if_def del: tree.simps(1))
  let ?p = "obj [(''boot_id'', jlit ''boot-1''), (''attempt_id'', jlit ''a''), (''claims'', obj [(''mcp'', instance_doc 7 5 (lit ''boot-1''))])]"
  show "wf_json ?p" using inst by (simp add: wf_json_obj)
  show "tree 1 ?p = Inr ()" using inst by (simp add: tree_obj MAX_DEPTH_def tree_jlit eval_nat_numeral del: tree.simps(1))
  have "claim_ok ?p (instance_doc 7 5 (lit ''boot-1''))"
    by (simp add: claim_ok_def instance_doc_def positive_int_def)
  moreover have "is_dict ?p" "is_dict (obj [(''mcp'', instance_doc 7 5 (lit ''boot-1''))])" by (simp_all add: obj_def)
  ultimately show "validate_permit candidate_selection"
    by (simp add: validate_permit_def startup_example_at some_text_def jvalues_def items_obj_list jkeys_obj)
qed simp_all

definition member_example :: json where
  "member_example = obj [(''path'', jlit ''/etc/mcp''), (''sha256'', JStr (sha256_hex []))]"

lemma verify_example:
  assumes "selection_doc (startup_example mode owner decision permit)"
  shows "verify_members startup_quiet (sort_keys (startup_example mode owner decision permit)) = Inr ()"
proof -
  have wf: "wf_json (startup_example mode owner decision permit)" and ok: "validate_selection (sort_keys (startup_example mode owner decision permit)) = Inr ()"
    using assms selection_doc_sort_keys [OF assms] by (simp_all add: selection_doc_def)
  have m: "wf_json member_example" by (simp add: member_example_def wf_json_obj code_points_sha256)
  have "elements (at (sort_keys (startup_example mode owner decision permit)) ''members'') = [sort_keys member_example]"
    by (simp add: sorted_simps wf startup_example_at member_example_def elements_def)
  moreover have "read_member startup_quiet (sort_keys member_example) = Inr []"
    using m example_paths by (simp add: read_member_def startup_quiet_def dget_sort_keys) (simp add: member_example_def str_of_def)
  moreover have "at (sort_keys member_example) ''sha256'' = JStr (sha256_hex [])"
    using m by (simp add: at_sort_keys) (simp add: member_example_def)
  ultimately show ?thesis using ok by (simp add: verify_members_def member_step_def raise_if_def thenE_def)
qed

lemma example_running:
  assumes "selection_doc (startup_example mode owner decision permit)"
  shows "running (sort_keys (startup_example mode owner decision permit)) (lit ''mcp'')"
    and "dat (at (sort_keys (startup_example mode owner decision permit)) ''components'') (lit ''mcp'') =
      sort_keys (obj [(''configuration_digest'', gate_deployment), (''payload_digest'', gate_deployment), (''entry'', jlit ''local''), (''running'', JBool True)])"
proof -
  have wf: "wf_json (startup_example mode owner decision permit)" using assms by (simp add: selection_doc_def)
  let ?c = "obj [(''configuration_digest'', gate_deployment), (''payload_digest'', gate_deployment), (''entry'', jlit ''local''), (''running'', JBool True)]"
  have wfc: "wf_json ?c" by (simp add: wf_json_obj del: map_replicate replicate_Suc)
  have c: "dget (at (sort_keys (startup_example mode owner decision permit)) ''components'') (lit ''mcp'') = Some (sort_keys ?c)"
    by (simp add: at_sort_keys wf startup_example_at) (simp add: obj_def)
  show "dat (at (sort_keys (startup_example mode owner decision permit)) ''components'') (lit ''mcp'') = sort_keys ?c"
    by (simp add: dat_def c)
  show "running (sort_keys (startup_example mode owner decision permit)) (lit ''mcp'')"
    by (simp add: running_def c at_sort_keys wfc del: map_replicate replicate_Suc)
qed

abbreviation "gate_bytes v \<equiv> Some (canonical_bytes v @ [10])"

lemma release_example:
  "release_gate gate_example_node quiet_os (jlit ''deploy-1'') first_decision gate_deployment JNull (gate_bytes released_gate) =
     (Inr (sort_keys released_gate), gate_bytes released_gate)"
proof -
  have wf: "wf_json released_gate" using released_gate_holds by (simp add: gate_holds_def gate_doc_def)
  have "gate_read gate_example_node quiet_os (gate_bytes released_gate) = Inr (sort_keys released_gate)"
    using gate_read_holds [OF released_gate_holds, of quiet_os] by (simp add: quiet_os_def)
  moreover have "release_change (jlit ''deploy-1'') first_decision gate_deployment JNull (sort_keys released_gate) = Confirm (sort_keys released_gate)"
    by (simp add: release_change_def Let_def at_sort_keys wf startup_gate_at del: map_replicate replicate_Suc)
  moreover have "gate_identifier (jlit ''deploy-1'') = Inr ()" "gate_identifier first_decision = Inr ()"
    by (simp_all add: gate_identifier_def raise_if_def) (simp_all add: lit_def)
  ultimately show ?thesis
    using example_deployment_text(2)
    by (simp add: release_gate_def under_lock_def locked_def gate_apply_def gate_confirm_def raise_if_def as_unknown_state_def quiet_os_def del: map_replicate replicate_Suc)
qed

lemma release_example_ok: "op_ok (Release (jlit ''deploy-1'') first_decision gate_deployment JNull) released_gate"
  using example_deployment_text(1) by (simp add: gate_small_def startup_gate_def MAX_SAFE_INTEGER_def)

definition startup_answer :: "json \<Rightarrow> json" where
  "startup_answer v = obj [(''descriptor_digest'', JStr (gate_digest v)), (''mode'', at v ''mode''), (''decision_id'', at v ''decision_id''),
     (''deployment_digest'', gate_deployment)]"

lemma proof_example:
  assumes "selection_doc (startup_example mode owner decision permit)" and "mode \<noteq> ''blocked''" and "jeq (at state ''node_id'') gate_example_node"
  shows "proof_matches state (sort_keys (startup_example mode owner decision permit))
     (dat (at (sort_keys (startup_example mode owner decision permit)) ''components'') (str_of (fld startup_proof ''component''))) startup_proof = Inr ()"
proof -
  have wf: "wf_json (startup_example mode owner decision permit)" using assms by (simp add: selection_doc_def)
  have wfc: "wf_json (obj [(''configuration_digest'', gate_deployment), (''payload_digest'', gate_deployment), (''entry'', jlit ''local''), (''running'', JBool True)])"
    by (simp add: wf_json_obj del: map_replicate replicate_Suc)
  have "str_of (fld startup_proof ''component'') = lit ''mcp''" by (simp add: startup_proof_def str_of_def)
  moreover have "proof_matches state (sort_keys (startup_example mode owner decision permit)) (sort_keys
      (obj [(''configuration_digest'', gate_deployment), (''payload_digest'', gate_deployment), (''entry'', jlit ''local''), (''running'', JBool True)])) startup_proof = Inr ()"
    using assms(2,3) jeq_sym [OF assms(3)]
    by (simp add: proof_matches_def at_sort_keys wf wfc startup_example_at raise_if_def startup_proof_def del: map_replicate replicate_Suc)
  ultimately show ?thesis by (simp only: example_running(2) [OF assms(1)])
qed

lemma read_example: "selection_doc v \<Longrightarrow> read_selection startup_quiet (lit ''/etc/startup'') (gate_bytes v) = Inr (sort_keys v)"
  using read_selection_holds [of "gate_bytes v" v] example_paths(4) by (simp add: selection_holds_def startup_quiet_def)

lemma config_path: "str_of (fld (at startup_config ''maintenance'') ''startup_descriptor'') = lit ''/etc/startup''" "at startup_config ''maintenance'' \<noteq> JNull"
  by (simp_all add: startup_config_def str_of_def)

lemma start_stable:
  "authorize_startup gate_example_node quiet_os (gate_bytes released_gate) startup_quiet startup_config startup_proof 7 (gate_bytes stable_selection) =
     (Inr (startup_answer (sort_keys stable_selection)), gate_bytes stable_selection)"
proof -
  let ?g = "sort_keys released_gate" and ?s = "sort_keys stable_selection"
  have wfg: "wf_json released_gate" using released_gate_holds by (simp add: gate_holds_def gate_doc_def)
  have wfs: "wf_json stable_selection" using stable_doc by (simp add: selection_doc_def)
  have node: "jeq (at ?g ''node_id'') gate_example_node" by (simp add: at_sort_keys wfg startup_gate_at)
  have read: "gate_read gate_example_node quiet_os (gate_bytes released_gate) = Inr ?g"
    using gate_read_holds [OF released_gate_holds, of quiet_os] by (simp add: quiet_os_def)
  have "admit_selection startup_quiet (lit ''/etc/startup'') ?g (at startup_proof ''component'') 7 (gate_bytes stable_selection) = (Inr ?s, gate_bytes stable_selection)"
    using read_example [OF stable_doc] verify_example [OF stable_doc] example_running(1) [OF stable_doc]
    by (simp add: admit_selection_def startup_proof_def raise_if_def thenE_def Let_def at_sort_keys wfg wfs startup_gate_at startup_example_at del: map_replicate replicate_Suc)
  moreover have "authorize_checks startup_quiet ?g startup_proof ?s = Inr (startup_answer ?s)"
    using proof_example [OF stable_doc _ node]
    by (simp add: authorize_checks_def startup_answer_def thenE_def Let_def raise_if_def at_sort_keys wfg wfs startup_gate_at startup_example_at del: map_replicate replicate_Suc)
      (simp add: startup_proof_def get_or_def)
  ultimately show ?thesis
    using read by (simp add: authorize_startup_def admission_lock_def config_path quiet_os_def as_unknown_state_def)
qed

theorem release_selects_deployment_witness:
  "at (startup_answer (sort_keys stable_selection)) ''deployment_digest'' = gate_deployment \<and> at (startup_answer (sort_keys stable_selection)) ''mode'' = jlit ''stable''"
  using release_selects_deployment [OF released_gate_holds release_example_ok release_example start_stable, of stable_selection] stable_doc
  by (simp add: startup_answer_def selection_holds_def)

lemma claim_at_example: "claim_at (sort_keys candidate_selection) (lit ''mcp'') = Some (sort_keys (instance_doc 7 5 (lit ''boot-1'')))"
proof -
  have wf: "wf_json candidate_selection" using candidate_doc by (simp add: selection_doc_def)
  show ?thesis
    by (simp add: claim_at_sort_keys wf) (simp add: claim_at_def startup_example_at)
qed

lemma start_candidate:
  "authorize_startup gate_example_node quiet_os (gate_bytes closed_gate) startup_quiet startup_config startup_proof 7 (gate_bytes candidate_selection) =
     (Inr (startup_answer (sort_keys candidate_selection)), gate_bytes candidate_selection)"
proof -
  let ?g = "sort_keys closed_gate" and ?s = "sort_keys candidate_selection"
  have wfg: "wf_json closed_gate" using closed_gate_holds by (simp add: gate_holds_def gate_doc_def)
  have wfs: "wf_json candidate_selection" using candidate_doc by (simp add: selection_doc_def)
  have node: "jeq (at ?g ''node_id'') gate_example_node" by (simp add: at_sort_keys wfg startup_gate_at)
  have read: "gate_read gate_example_node quiet_os (gate_bytes closed_gate) = Inr ?g"
    using gate_read_holds [OF closed_gate_holds, of quiet_os] by (simp add: quiet_os_def)
  have boot: "at (at ?s ''permit'') ''boot_id'' = jlit ''boot-1''"
    using wf_json_at [OF wfs, of "''permit''"] by (simp add: at_sort_keys wfs) (simp add: startup_example_at)
  have inst: "process_instance startup_quiet 7 = Inr (instance_doc 7 5 (lit ''boot-1''))"
    by (simp add: process_instance_Inr startup_quiet_def)
  have sboot: "su_boot startup_quiet = Inr (lit ''boot-1'')" by (simp add: startup_quiet_def)
  have confirm: "confirm_selection startup_quiet (lit ''/etc/startup'') = Inr ()"
    using example_paths(4) by (simp add: confirm_selection_def open_directory_def startup_quiet_def raise_if_def thenE_def)
  have ats: "at ?s ''mode'' = jlit ''candidate''" "at ?s ''owner'' = jlit ''deploy-2''" "at ?s ''node_id'' = gate_example_node"
    "at ?s ''deployment_digest'' = gate_deployment" "at ?g ''state'' = jlit ''CLOSED''" "at ?g ''owner'' = jlit ''deploy-2''"
    by (simp_all add: at_sort_keys wfs wfg startup_example_at startup_gate_at)
  have component: "at startup_proof ''component'' = jlit ''mcp''" by (simp add: startup_proof_def)
  have "admit_selection startup_quiet (lit ''/etc/startup'') ?g (at startup_proof ''component'') 7 (gate_bytes candidate_selection) = (Inr ?s, gate_bytes candidate_selection)"
    unfolding admit_selection_def read_example [OF candidate_doc] component
    using verify_example [OF candidate_doc] example_running(1) [OF candidate_doc] node jeq_sym [OF node] claim_at_example boot inst sboot confirm ats
    by (simp add: raise_if_def thenE_def Let_def claim_at_def del: sort_keys.simps)
  moreover have "authorize_checks startup_quiet ?g startup_proof ?s = Inr (startup_answer ?s)"
    using proof_example [OF candidate_doc _ node] ats boot sboot
    by (simp add: authorize_checks_def startup_answer_def thenE_def Let_def raise_if_def del: map_replicate replicate_Suc)
      (simp add: startup_proof_def get_or_def)
  ultimately show ?thesis
    using read by (simp add: authorize_startup_def admission_lock_def config_path quiet_os_def as_unknown_state_def)
qed

lemma example_sane: "startup_sane startup_quiet (Authorize startup_config startup_proof 7)"
  by (simp add: startup_sane_def startup_quiet_def MAX_SAFE_INTEGER_def)

lemma candidate_holds: "selection_holds (gate_bytes candidate_selection) candidate_selection"
  using candidate_doc by (simp add: selection_holds_def)


theorem candidate_claim_exclusive_witness:
  "(7::int) = 7 \<and> su_ticks startup_quiet 7 = Some 5 \<and> su_boot startup_quiet = Inr (lit ''boot-1'')"
proof -
  have mode: "at (startup_answer (sort_keys candidate_selection)) ''mode'' = jlit ''candidate''" and answer: "startup_answer (sort_keys candidate_selection) \<noteq> JNull"
    using candidate_doc by (simp_all add: startup_answer_def at_sort_keys selection_doc_def startup_example_at)
  show ?thesis
    using candidate_claim_exclusive [OF candidate_holds start_candidate answer mode example_sane example_sane rtranclp.rtrancl_refl start_candidate answer]
    by (simp add: startup_quiet_def)
qed

lemma publish_example:
  "publish gate_example_node quiet_os (gate_bytes closed_gate) startup_quiet (lit ''/etc/startup'') candidate_selection JNull JNull (gate_bytes candidate_selection) =
     (Inr (JStr (gate_digest candidate_selection)), gate_bytes candidate_selection)"
proof -
  let ?g = "sort_keys closed_gate"
  have wfg: "wf_json closed_gate" using closed_gate_holds by (simp add: gate_holds_def gate_doc_def)
  have read: "gate_read gate_example_node quiet_os (gate_bytes closed_gate) = Inr ?g"
    using gate_read_holds [OF closed_gate_holds, of quiet_os] by (simp add: quiet_os_def)
  have confirm: "confirm_selection startup_quiet (lit ''/etc/startup'') = Inr ()"
    using example_paths(4) by (simp add: confirm_selection_def open_directory_def startup_quiet_def raise_if_def thenE_def)
  have "publish_checks startup_quiet (lit ''/etc/startup'') candidate_selection JNull JNull ?g (gate_bytes candidate_selection) = Inr (Some (sort_keys candidate_selection))"
    by (simp add: publish_checks_def current_selection_def read_example [OF candidate_doc] at_sort_keys wfg startup_gate_at startup_example_at
        publication_allowed_def raise_if_def thenE_def)
  then have "publish_body startup_quiet (lit ''/etc/startup'') candidate_selection JNull JNull ?g (gate_bytes candidate_selection) =
      (Inr (JStr (gate_digest candidate_selection)), gate_bytes candidate_selection)"
    using confirm by (simp add: publish_body_def thenE_def)
  then show ?thesis
    using candidate_doc read by (simp add: publish_def selection_doc_def admission_lock_def quiet_os_def as_unknown_state_def)
qed

theorem publish_compare_and_swap_witness:
  "\<exists>u. selection_holds (gate_bytes candidate_selection) u \<and> jeq u candidate_selection"
  using publish_compare_and_swap [OF candidate_holds candidate_doc publish_example] by auto

end
