(* ===== verification/DeployStore.thy ===== *)
theory DeployStore
  imports Deploy
begin

text \<open>
  The durable records of a deployment, \<open>tools/admin/local_hand_deploy/store.py\<close>: the operations and the
  events of its SQLite database and the operations of \<open>Store\<close> on them.  What becomes of a transaction is an
  argument: committed, rolled back with an error, or committed with an error.  The lock file, the settings
  and the checks of the database file are system calls; \<open>ds_open\<close> says whether the store is locked and open.
\<close>

section \<open>State\<close>

record deploy_row =
  d_id :: pystr
  d_request :: pystr
  d_digest :: pystr
  d_document :: bytes

record deploy_event =
  v_operation :: pystr
  v_kind :: string
  v_recorded_ns :: int
  v_document :: bytes

record deploy_db =
  d_operations :: "deploy_row list"
  d_events :: "deploy_event list"

record deploy_store =
  ds_limits :: limits
  ds_node :: pystr
  ds_open :: bool
  ds_db :: deploy_db

type_synonym 'a dact = "deploy_store \<Rightarrow> 'a res \<times> deploy_store"

definition state_limit :: "string \<Rightarrow> exn" where "state_limit m = DeployError ''STATE_LIMIT'' m"
definition lock_required :: exn where
  "lock_required = DeployError ''LOCK_REQUIRED'' ''Mutation requires the node deployment lock''"

text \<open>\<open>sqlite3.IntegrityError\<close>\<close>

definition integrity_error :: exn where "integrity_error = SqliteError 19"

text \<open>
  \<open>with connection: ...\<close> inside \<open>try ... except sqlite3.Error\<close>: an exception of the block rolls back and, when it
  is one of SQLite, becomes the error \<open>failure\<close>; a failing commit is reported as \<open>failure\<close> too.
\<close>

definition committing :: "write_outcome \<Rightarrow> string \<Rightarrow> (deploy_db \<Rightarrow> deploy_db res) \<Rightarrow> unit dact" where
  "committing out m body s =
     (let failure = DeployError ''STATE_UNAVAILABLE'' m in
      case body (ds_db s) of
        Inl e \<Rightarrow> (Inl (if sqlite_code e = None then e else failure), s)
      | Inr d \<Rightarrow> (case out of
          Written \<Rightarrow> (Inr (), s\<lparr>ds_db := d\<rparr>)
        | Not_written \<Rightarrow> (Inl failure, s)
        | Unsynced \<Rightarrow> (Inl failure, s\<lparr>ds_db := d\<rparr>)))"

section \<open>Reading\<close>

definition find_operation :: "deploy_db \<Rightarrow> pystr \<Rightarrow> deploy_row option" where
  "find_operation d ident = find (\<lambda>r. d_id r = ident) (d_operations d)"

definition deploy_get :: "json \<Rightarrow> deploy_store \<Rightarrow> json res" where
  "deploy_get ident s =
     bindE (deploy_identity ident ''identity'') (\<lambda>i.
       case find_operation (ds_db s) i of
         None \<Rightarrow> Inl (DeployError ''NOT_FOUND'' ''Deployment operation is not recorded'')
       | Some r \<Rightarrow> deploy_decode (d_document r))"

text \<open>\<open>list\<close>: an operation counts as unfinished while it is neither released nor handed off.\<close>

definition unfinished_operation :: "json \<Rightarrow> bool res" where
  "unfinished_operation op = bindE (sub op ''released'') (\<lambda>released.
     if truthy released then Inr False else bindE (sub op ''handoff_complete'') (\<lambda>h. Inr (\<not> truthy h)))"

definition deploy_list :: "bool \<Rightarrow> deploy_store \<Rightarrow> json list res" where
  "deploy_list unfinished s =
     bindE (mapE (\<lambda>r. deploy_decode (d_document r)) (take (nat (max_operations (ds_limits s) + 1)) (d_operations (ds_db s)))) (\<lambda>ops.
     thenE (raise_if (int (length ops) > max_operations (ds_limits s)) (state_limit ''Operation count exceeds its limit''))
       (if \<not> unfinished then Inr ops
        else bindE (mapE unfinished_operation ops) (\<lambda>open_ops. Inr (map fst (filter snd (zip ops open_ops))))))"

definition store_plan :: "json \<Rightarrow> deploy_store \<Rightarrow> json res" where
  "store_plan p s =
     bindE (validate_plan (ds_limits s) p) (\<lambda>_.
     thenE (raise_if (at p ''node_id'' \<noteq> JStr (ds_node s)) (DeployError ''NODE_CONFLICT'' ''Plan belongs to a different node'')) (Inr p))"

section \<open>Events and rows inside a transaction\<close>

definition put_event :: "limits \<Rightarrow> int \<Rightarrow> json \<Rightarrow> string \<Rightarrow> json \<Rightarrow> bool \<Rightarrow> deploy_db \<Rightarrow> deploy_db res" where
  "put_event l now op kind detail recovery d =
     thenE (raise_if (int (length (d_events d)) \<ge> (if recovery then max_events l else max_events l - recovery_events l))
         (state_limit ''Event budget exhausted; recovery reserve is retained''))
     (bindE (deploy_canonical detail) (\<lambda>body.
      thenE (raise_if (int (length body) > max_record_bytes l) (state_limit ''Event exceeds its byte budget''))
     (bindE (sub op ''id'') (\<lambda>ident.
      case ident of
        JStr i \<Rightarrow> if find_operation d i = None then Inl integrity_error
          else Inr (d\<lparr>d_events := d_events d @ [\<lparr>v_operation = i, v_kind = kind, v_recorded_ns = now, v_document = body\<rparr>]\<rparr>)
      | _ \<Rightarrow> Inl integrity_error))))"

definition put_operation :: "deploy_row \<Rightarrow> deploy_db \<Rightarrow> deploy_db res" where
  "put_operation r d =
     (if \<exists>old \<in> set (d_operations d). d_id old = d_id r \<or> d_request old = d_request r then Inl integrity_error
      else Inr (d\<lparr>d_operations := d_operations d @ [r]\<rparr>))"

definition put_document :: "pystr \<Rightarrow> bytes \<Rightarrow> deploy_db \<Rightarrow> deploy_db" where
  "put_document ident raw d = d\<lparr>d_operations := map (\<lambda>r. if d_id r = ident then r\<lparr>d_document := raw\<rparr> else r) (d_operations d)\<rparr>"

definition operation_row :: "json \<Rightarrow> json \<Rightarrow> bytes \<Rightarrow> deploy_row" where
  "operation_row op p raw = \<lparr>d_id = str_of (fld op ''id''), d_request = str_of (fld p ''request_id''), d_digest = str_of (fld p ''digest''), d_document = raw\<rparr>"

section \<open>Operations\<close>

text \<open>\<open>clock k\<close> is the reading of \<open>time.time_ns()\<close> that is number \<open>k\<close> in the call.\<close>

definition create_record :: "(nat \<Rightarrow> int) \<Rightarrow> json \<Rightarrow> json \<Rightarrow> deploy_store \<Rightarrow> (json \<times> bytes) res" where
  "create_record clock p predecessor s =
     thenE (raise_if (int (length (d_operations (ds_db s))) \<ge> max_operations (ds_limits s)) (state_limit ''Operation count budget is exhausted''))
     (bindE (new_operation (clock 0) p predecessor) (\<lambda>op.
      bindE (deploy_canonical op) (\<lambda>raw.
      thenE (raise_if (int (length raw) > max_record_bytes (ds_limits s)) (state_limit ''Initial operation exceeds its byte budget''))
        (Inr (op, raw)))))"

definition deploy_create :: "write_outcome \<Rightarrow> (nat \<Rightarrow> int) \<Rightarrow> json \<Rightarrow> json \<Rightarrow> json dact" where
  "deploy_create out clock p predecessor s =
     (case bindE (store_plan p s) (\<lambda>_. raise_if (\<not> ds_open s) lock_required) of
        Inl e \<Rightarrow> (Inl e, s)
      | Inr _ \<Rightarrow> (case find (\<lambda>r. JStr (d_request r) = at p ''request_id'') (d_operations (ds_db s)) of
          Some r \<Rightarrow> (if JStr (d_digest r) \<noteq> at p ''digest''
             then Inl (DeployError ''REQUEST_CONFLICT'' ''Request ID already identifies a different plan'')
             else deploy_decode (d_document r), s)
        | None \<Rightarrow> (case create_record clock p predecessor s of
            Inl e \<Rightarrow> (Inl e, s)
          | Inr (op, raw) \<Rightarrow> (case committing out ''Cannot persist deployment request''
                (\<lambda>d. bindE (put_operation (operation_row op p raw) d) (put_event (ds_limits s) (clock 1) op ''CREATED'' (JObj []) False)) s of
              (r, s') \<Rightarrow> (thenE r (Inr op), s')))))"

text \<open>\<open>save\<close> writes the time into the operation of its caller, whatever happens next.\<close>

definition deploy_save :: "write_outcome \<Rightarrow> (nat \<Rightarrow> int) \<Rightarrow> json \<Rightarrow> string \<Rightarrow> json \<Rightarrow> bool \<Rightarrow> deploy_store \<Rightarrow> unit res \<times> json \<times> deploy_store" where
  "deploy_save out clock op kind detail recovery s =
     (if \<not> ds_open s then (Inl lock_required, op, s)
      else let op' = dset op (lit ''updated_ns'') (JInt (clock 0)) in
        case bindE (deploy_canonical op') (\<lambda>raw.
            thenE (raise_if (int (length raw) > max_record_bytes (ds_limits s)) (state_limit ''Operation record exceeds its byte budget''))
              (bindE (sub op' ''id'') (\<lambda>ident. Inr (raw, ident)))) of
          Inl e \<Rightarrow> (Inl e, op', s)
        | Inr (raw, ident) \<Rightarrow> (case committing out ''Cannot persist operation and event atomically''
              (\<lambda>d. if find_operation d (str_of (Some ident)) = None then Inl (DeployError ''NOT_FOUND'' ''Cannot rewrite an unrecorded operation'')
                 else put_event (ds_limits s) (clock 1) op' kind detail recovery (put_document (str_of (Some ident)) raw d)) s of
            (r, s') \<Rightarrow> (r, op', s')))"

text \<open>The page counters are those \<open>PRAGMA\<close> reports.\<close>

record page_counts =
  page_size :: int
  page_count :: int
  freelist_count :: int

definition check_attempt_budget :: "page_counts \<Rightarrow> json \<Rightarrow> bool \<Rightarrow> deploy_store \<Rightarrow> json res" where
  "check_attempt_budget pages op restore s =
     thenE (raise_if (\<not> ds_open s) lock_required)
     (let l = ds_limits s;
          remaining = (if restore
            then int (length (filter (\<lambda>entry. at (at entry ''record'') ''state'' \<noteq> jlit ''RESTORED'') (elements (get_or op ''compensation'' (JList [])))))
            else min (max_steps l) (int (length (elements (at op ''steps''))) * 3 + 4));
          events = 12 * remaining + 64 in
      thenE (raise_if (int (length (d_events (ds_db s))) + events > max_events l)
          (state_limit ''No event budget for completion, compensation and release''))
     (bindE (deploy_canonical op) (\<lambda>raw.
        let growth = max 262144 (int (length raw)) + 8192 * (remaining + 2);
            required = 2 * max_record_bytes l + events * (page_size pages * 2) in
        thenE (raise_if (int (length raw) + growth > max_record_bytes l) (state_limit ''No operation byte budget for the bounded recovery path''))
       (thenE (raise_if ((page_count pages - freelist_count pages) * page_size pages + required > max_database_bytes l)
            (state_limit ''No database byte budget for linked recovery and release''))
         (Inr (obj [(''events'', JInt events), (''operation_bytes'', JInt growth), (''database_bytes'', JInt required)]))))))"

text \<open>
  \<open>link\<close> writes the successor, the link and both events in one transaction; the operation of the caller then
  holds the linked record.
\<close>

definition link_body :: "limits \<Rightarrow> (nat \<Rightarrow> int) \<Rightarrow> json \<Rightarrow> json \<Rightarrow> json \<Rightarrow> bytes \<Rightarrow> bytes \<Rightarrow> bool \<Rightarrow> deploy_db \<Rightarrow> deploy_db res" where
  "link_body l clock original successor p original_raw successor_raw rollback d =
     bindE (put_operation (operation_row successor p successor_raw) d) (\<lambda>d.
     bindE (put_event l (clock 1) original (if rollback then ''ROLLBACK_LINK'' else ''HANDOFF_LINK'') (obj [(''successor'', at successor ''id'')]) True
         (put_document (str_of (fld original ''id'')) original_raw d))
       (put_event l (clock 2) successor ''CREATED'' (obj [(''predecessor'', at original ''id'')]) True))"

definition link_key :: "bool \<Rightarrow> string" where
  "link_key rollback = (if rollback then ''rollback_successor'' else ''successor'')"

definition link_original :: "json \<Rightarrow> json \<Rightarrow> bool \<Rightarrow> deploy_store \<Rightarrow> (json \<times> json) res" where
  "link_original op p rollback s =
     thenE (raise_if (\<not> ds_open s) lock_required)
     (bindE (store_plan p s) (\<lambda>_.
      bindE (sub op ''id'') (\<lambda>ident.
      bindE (deploy_get ident s) (\<lambda>original.
      bindE (sub original (link_key rollback)) (\<lambda>linked. Inr (original, linked))))))"

definition link_records :: "(nat \<Rightarrow> int) \<Rightarrow> json \<Rightarrow> json \<Rightarrow> bool \<Rightarrow> deploy_store \<Rightarrow> (json \<times> json \<times> bytes \<times> bytes) res" where
  "link_records clock original p rollback s =
     bindE (new_operation (clock 0) p (at original ''id'')) (\<lambda>successor.
     thenE (raise_if (int (length (d_operations (ds_db s))) \<ge> max_operations (ds_limits s)) (state_limit ''No space for linked recovery operation''))
    (let original = dset original (lit (link_key rollback)) (at successor ''id'') in
     bindE (deploy_canonical original) (\<lambda>original_raw.
     bindE (deploy_canonical successor) (\<lambda>successor_raw.
     thenE (raise_if (int (max (length original_raw) (length successor_raw)) > max_record_bytes (ds_limits s))
         (state_limit ''Recovery link exceeds its record byte budget''))
       (Inr (original, successor, original_raw, successor_raw))))))"

definition deploy_link :: "write_outcome \<Rightarrow> (nat \<Rightarrow> int) \<Rightarrow> json \<Rightarrow> json \<Rightarrow> bool \<Rightarrow> deploy_store \<Rightarrow> json res \<times> json \<times> deploy_store" where
  "deploy_link out clock op p rollback s =
     (case link_original op p rollback s of
        Inl e \<Rightarrow> (Inl e, op, s)
      | Inr (original, linked) \<Rightarrow>
          if truthy linked then (deploy_get linked s, op, s)
          else (case link_records clock original p rollback s of
            Inl e \<Rightarrow> (Inl e, op, s)
          | Inr (original, successor, original_raw, successor_raw) \<Rightarrow>
              (case committing out ''Cannot persist recovery successor atomically''
                  (link_body (ds_limits s) clock original successor p original_raw successor_raw rollback) s of
                (Inl e, s') \<Rightarrow> (Inl e, op, s')
              | (Inr _, s') \<Rightarrow> (Inr successor, dupdate op (items original), s'))))"

end
