(* ===== verification/StoreProps.thy ===== *)
theory StoreProps
  imports DeployStore ContractProps LedgerProps "HOL-Library.Sublist"
begin

text \<open>
  What the deployment records promise over every history of calls, whatever becomes of their transactions:
  a request stays bound to its first plan, a link is all or nothing, and the recovery reserve of the event
  budget is there when recovery needs it.
\<close>

section \<open>One rule for every history\<close>

text \<open>Histories of calls; \<open>k\<close> counts the recovery events they may have written.\<close>

inductive store_run :: "deploy_store \<Rightarrow> nat \<Rightarrow> deploy_store \<Rightarrow> bool" for s0 where
  start: "store_run s0 0 s0"
| lock: "store_run s0 k s \<Longrightarrow> store_run s0 k (s\<lparr>ds_open := b\<rparr>)"
| save: "store_run s0 k s \<Longrightarrow> store_run s0 (k + (if recovery then 1 else 0)) (snd (snd (deploy_save out clock op kind detail recovery s)))"
| create: "store_run s0 k s \<Longrightarrow> store_run s0 k (snd (deploy_create out clock p predecessor s))"
| link: "store_run s0 k s \<Longrightarrow> store_run s0 (k + 2) (snd (snd (deploy_link out clock op p rollback s)))"

lemma committing_cases:
  "snd (committing out m body s) = s \<or> (\<exists>d. body (ds_db s) = Inr d \<and> snd (committing out m body s) = s\<lparr>ds_db := d\<rparr>)"
  by (auto simp: committing_def Let_def split: sum.splits write_outcome.splits)

lemma store_limits [simp]:
  "ds_limits (snd (committing out m body s)) = ds_limits s"
  "ds_limits (snd (snd (deploy_save out clock op kind detail recovery s))) = ds_limits s"
  "ds_limits (snd (deploy_create out clock p predecessor s)) = ds_limits s"
  "ds_limits (snd (snd (deploy_link out clock op p rollback s))) = ds_limits s"
proof -
  show limits: "ds_limits (snd (committing out m body s)) = ds_limits s" for out m body
    using committing_cases [of out m body s] by auto
  show "ds_limits (snd (snd (deploy_save out clock op kind detail recovery s))) = ds_limits s"
    "ds_limits (snd (deploy_create out clock p predecessor s)) = ds_limits s"
    by (auto simp: deploy_save_def deploy_create_def Let_def limits split_beta split: sum.split option.split)
  show "ds_limits (snd (snd (deploy_link out clock op p rollback s))) = ds_limits s"
    by (auto simp: deploy_link_def limits split: sum.splits prod.splits) (metis limits snd_conv)+
qed

locale store_invariant =
  fixes I :: "limits \<Rightarrow> nat \<Rightarrow> deploy_db \<Rightarrow> bool"
  assumes event: "I l k d \<Longrightarrow> put_event l now op kind detail recovery d = Inr d' \<Longrightarrow> I l (k + (if recovery then 1 else 0)) d'"
    and document: "I l k d \<Longrightarrow> I l k (put_document i raw d)"
    and operation: "I l k d \<Longrightarrow> put_operation r d = Inr d' \<Longrightarrow> I l k d'"
    and slack: "I l k d \<Longrightarrow> k \<le> k' \<Longrightarrow> I l k' d"
begin

lemma committing_keeps:
  assumes "I (ds_limits s) k (ds_db s)" and "\<And>d. body (ds_db s) = Inr d \<Longrightarrow> I (ds_limits s) k d"
  shows "I (ds_limits s) k (ds_db (snd (committing out m body s)))"
  using committing_cases [of out m body s] assms by auto

lemma save_keeps:
  assumes "I (ds_limits s) k (ds_db s)"
  shows "I (ds_limits s) (k + (if recovery then 1 else 0)) (ds_db (snd (snd (deploy_save out clock op kind detail recovery s))))"
proof -
  define k' where "k' = k + (if recovery then 1 else 0)"
  have same: "I (ds_limits s) k' (ds_db s)" using slack [OF assms] by (simp add: k'_def)
  have "I (ds_limits s) k' (ds_db (snd (committing out m
      (\<lambda>d. if find_operation d i = None then Inl e else put_event (ds_limits s) now op' kind detail recovery (put_document i raw d)) s)))" for m i e now op' raw
  proof (rule committing_keeps [OF same])
    fix d
    assume "(if find_operation (ds_db s) i = None then Inl e else put_event (ds_limits s) now op' kind detail recovery (put_document i raw (ds_db s))) = Inr d"
    then have "put_event (ds_limits s) now op' kind detail recovery (put_document i raw (ds_db s)) = Inr d" by (simp split: if_splits)
    then show "I (ds_limits s) k' d" unfolding k'_def by (rule event [OF document [OF assms]])
  qed
  then have "I (ds_limits s) k' (ds_db (snd (snd (deploy_save out clock op kind detail recovery s))))" using same
    by (auto simp: deploy_save_def Let_def split_beta split: sum.split)
  then show ?thesis by (simp only: k'_def)
qed

lemma create_keeps:
  assumes "I (ds_limits s) k (ds_db s)"
  shows "I (ds_limits s) k (ds_db (snd (deploy_create out clock p predecessor s)))"
proof -
  have "I (ds_limits s) k (ds_db (snd (committing out m (\<lambda>d. bindE (put_operation r d) (put_event (ds_limits s) now op kind detail False)) s)))" for m r now op kind detail
    by (rule committing_keeps [OF assms]) (auto simp: bindE_Inr_iff dest: operation [OF assms] event [where recovery = False, simplified])
  then show ?thesis
    using assms by (auto simp: deploy_create_def split: sum.splits option.splits prod.splits) (metis snd_conv)+
qed

lemma link_body_keeps:
  assumes "I l k d" and "link_body l clock original successor p original_raw successor_raw rollback d = Inr d'"
  shows "I l (k + 2) d'"
proof -
  obtain d1 d2 where d1: "put_operation (operation_row successor p successor_raw) d = Inr d1"
    and d2: "put_event l (clock 1) original (if rollback then ''ROLLBACK_LINK'' else ''HANDOFF_LINK'') (obj [(''successor'', at successor ''id'')]) True
         (put_document (str_of (fld original ''id'')) original_raw d1) = Inr d2"
    and d': "put_event l (clock 2) successor ''CREATED'' (obj [(''predecessor'', at original ''id'')]) True d2 = Inr d'"
    using assms(2) by (auto simp: link_body_def bindE_Inr_iff)
  from event [OF document [OF operation [OF assms(1) d1]] d2] have "I l (k + 1) d2" by simp
  from event [OF this d'] show ?thesis by simp
qed

lemma link_keeps:
  assumes "I (ds_limits s) k (ds_db s)"
  shows "I (ds_limits s) (k + 2) (ds_db (snd (snd (deploy_link out clock op p rollback s))))"
proof -
  have same: "I (ds_limits s) (k + 2) (ds_db s)" using slack [OF assms] by simp
  have "I (ds_limits s) (k + 2) (ds_db (snd (committing out m (link_body (ds_limits s) clock original successor p original_raw successor_raw rollback) s)))"
    for m original successor original_raw successor_raw
    by (rule committing_keeps [OF same]) (rule link_body_keeps [OF assms])
  then show ?thesis
    using same by (auto simp: deploy_link_def split: sum.splits prod.splits) (metis snd_conv)+
qed

lemma run_keeps: "store_run s0 k s \<Longrightarrow> I (ds_limits s0) 0 (ds_db s0) \<Longrightarrow> ds_limits s = ds_limits s0 \<and> I (ds_limits s0) k (ds_db s)"
proof (induction rule: store_run.induct)
  case (save k s recovery out clock op kind detail)
  then show ?case using save_keeps [of s k recovery out clock op kind detail] by (simp add: store_limits)
next
  case (create k s out clock p predecessor)
  then show ?case using create_keeps [of s k out clock p predecessor] by (simp add: store_limits)
next
  case (link k s out clock op p rollback)
  then show ?case using link_keeps [of s k out clock op p rollback] by (simp add: store_limits)
qed simp_all

end

section \<open>The event budget\<close>

lemma put_event_Inr:
  assumes "put_event l now op kind detail recovery d = Inr d'"
  shows "int (length (d_events d)) < (if recovery then max_events l else max_events l - recovery_events l)"
    "d_operations d' = d_operations d" "length (d_events d') = Suc (length (d_events d))" "prefix (d_events d) (d_events d')"
proof -
  obtain body ident where budget: "\<not> int (length (d_events d)) \<ge> (if recovery then max_events l else max_events l - recovery_events l)"
    and ev: "(case ident of JStr i \<Rightarrow> if find_operation d i = None then Inl integrity_error
          else Inr (d\<lparr>d_events := d_events d @ [\<lparr>v_operation = i, v_kind = kind, v_recorded_ns = now, v_document = body\<rparr>]\<rparr>)
      | _ \<Rightarrow> Inl integrity_error) = Inr d'"
    using assms unfolding put_event_def bindE_Inr_iff thenE_Inr_iff raise_if_Inr_iff by blast
  show "int (length (d_events d)) < (if recovery then max_events l else max_events l - recovery_events l)" using budget by (simp add: not_le)
  show "d_operations d' = d_operations d" "length (d_events d') = Suc (length (d_events d))" "prefix (d_events d) (d_events d')"
    using ev by (cases ident; auto split: if_splits)+
qed

lemma put_event_kind:
  assumes "put_event l now op kind detail recovery d = Inr d'"
  shows "\<exists>e. d' = d\<lparr>d_events := d_events d @ [e]\<rparr> \<and> v_kind e = kind"
proof -
  obtain body ident where "(case ident of JStr i \<Rightarrow> if find_operation d i = None then Inl integrity_error
          else Inr (d\<lparr>d_events := d_events d @ [\<lparr>v_operation = i, v_kind = kind, v_recorded_ns = now, v_document = body\<rparr>]\<rparr>)
      | _ \<Rightarrow> Inl integrity_error) = Inr d'"
    using assms unfolding put_event_def bindE_Inr_iff thenE_Inr_iff raise_if_Inr_iff by blast
  then show ?thesis by (cases ident) (auto split: if_splits)
qed

lemma put_operation_Inr:
  "put_operation r d = Inr d' \<Longrightarrow> d' = d\<lparr>d_operations := d_operations d @ [r]\<rparr> \<and>
     (\<forall>old \<in> set (d_operations d). d_id old \<noteq> d_id r \<and> d_request old \<noteq> d_request r)"
  by (auto simp: put_operation_def split: if_splits)

lemma link_body_rows:
  assumes "link_body l clock original successor p original_raw successor_raw rollback d = Inr d'"
  shows "\<exists>e1 e2. d' = (put_document (str_of (fld original ''id'')) original_raw
        (d\<lparr>d_operations := d_operations d @ [operation_row successor p successor_raw]\<rparr>))\<lparr>d_events := d_events d @ [e1, e2]\<rparr> \<and>
     v_kind e1 = (if rollback then ''ROLLBACK_LINK'' else ''HANDOFF_LINK'') \<and> v_kind e2 = ''CREATED''"
proof -
  obtain d1 d2 where d1: "put_operation (operation_row successor p successor_raw) d = Inr d1"
    and d2: "put_event l (clock 1) original (if rollback then ''ROLLBACK_LINK'' else ''HANDOFF_LINK'') (obj [(''successor'', at successor ''id'')]) True
         (put_document (str_of (fld original ''id'')) original_raw d1) = Inr d2"
    and d': "put_event l (clock 2) successor ''CREATED'' (obj [(''predecessor'', at original ''id'')]) True d2 = Inr d'"
    using assms unfolding link_body_def bindE_Inr_iff by blast
  obtain e1 where e1: "d2 = (put_document (str_of (fld original ''id'')) original_raw d1)\<lparr>d_events := d_events d1 @ [e1]\<rparr>"
    "v_kind e1 = (if rollback then ''ROLLBACK_LINK'' else ''HANDOFF_LINK'')"
    using put_event_kind [OF d2] by (auto simp: put_document_def)
  obtain e2 where e2: "d' = d2\<lparr>d_events := d_events d2 @ [e2]\<rparr>" "v_kind e2 = ''CREATED''"
    using put_event_kind [OF d'] by blast
  have "d' = (put_document (str_of (fld original ''id'')) original_raw d1)\<lparr>d_events := d_events d1 @ [e1, e2]\<rparr>"
    unfolding e1(1) e2(1) by simp
  moreover have "d1 = d\<lparr>d_operations := d_operations d @ [operation_row successor p successor_raw]\<rparr>"
    using put_operation_Inr [OF d1] by blast
  ultimately show ?thesis using e1(2) e2(2) by (intro exI [of _ e1] exI [of _ e2]) simp
qed

text \<open>Ordinary events stop at the reserve, so only recovery events are in it.\<close>

definition within_budget :: "limits \<Rightarrow> nat \<Rightarrow> deploy_db \<Rightarrow> bool" where
  "within_budget l k d \<longleftrightarrow> 0 \<le> recovery_events l \<and> int (length (d_events d)) \<le> max_events l \<and> int (length (d_events d)) \<le> max_events l - recovery_events l + int k"

interpretation budgeted: store_invariant within_budget
proof
  fix l k d now op kind detail recovery d'
  assume "within_budget l k d" and put: "put_event l now op kind detail recovery d = Inr d'"
  with put_event_Inr(1,3) [OF put] show "within_budget l (k + (if recovery then 1 else 0)) d'"
    by (auto simp: within_budget_def split: if_splits)
qed (auto simp: within_budget_def put_document_def dest: put_operation_Inr)

section \<open>Requests\<close>

definition row_key :: "deploy_row \<Rightarrow> pystr \<times> pystr \<times> pystr" where
  "row_key r = (d_id r, d_request r, d_digest r)"

definition keyed :: "(pystr \<times> pystr \<times> pystr) list \<Rightarrow> limits \<Rightarrow> nat \<Rightarrow> deploy_db \<Rightarrow> bool" where
  "keyed ks l k d \<longleftrightarrow> prefix ks (map row_key (d_operations d)) \<and> distinct (map d_id (d_operations d)) \<and> distinct (map d_request (d_operations d))"

interpretation keys: store_invariant "keyed ks" for ks
proof
  fix l k d now op kind detail recovery d'
  assume "keyed ks l k d" and "put_event l now op kind detail recovery d = Inr d'"
  then show "keyed ks l (k + (if recovery then 1 else 0)) d'" by (simp add: keyed_def put_event_Inr(2))
next
  fix l k d i raw
  have "map f (map (\<lambda>r. if d_id r = i then r\<lparr>d_document := raw\<rparr> else r) rs) = map f rs" if "\<And>r. f (r\<lparr>d_document := raw\<rparr>) = f r" for f and rs :: "deploy_row list"
    using that by (induction rs) auto
  then have "map row_key (d_operations (put_document i raw d)) = map row_key (d_operations d)"
    "map d_id (d_operations (put_document i raw d)) = map d_id (d_operations d)"
    "map d_request (d_operations (put_document i raw d)) = map d_request (d_operations d)"
    by (simp_all add: put_document_def row_key_def)
  then show "keyed ks l k d \<Longrightarrow> keyed ks l k (put_document i raw d)" by (simp only: keyed_def)
next
  fix l k d r d'
  assume "keyed ks l k d" and "put_operation r d = Inr d'"
  then show "keyed ks l k d'" by (force simp: keyed_def dest!: put_operation_Inr)
qed (simp add: keyed_def)

section \<open>The properties\<close>

lemma find_distinct: "distinct (map f xs) \<Longrightarrow> x \<in> set xs \<Longrightarrow> find (\<lambda>y. f y = f x) xs = Some x"
  by (induction xs) auto

lemma find_operation_put: "find_operation (put_document i raw d) i = map_option (\<lambda>r. r\<lparr>d_document := raw\<rparr>) (find_operation d i)"
proof -
  have "find (\<lambda>r. d_id r = i) (map (\<lambda>r. if d_id r = i then r\<lparr>d_document := raw\<rparr> else r) rs) = map_option (\<lambda>r. r\<lparr>d_document := raw\<rparr>) (find (\<lambda>r. d_id r = i) rs)" for rs
    by (induction rs) auto
  then show ?thesis by (simp add: find_operation_def put_document_def)
qed

text \<open>@CLAIM@
  Recovery is never starved by ordinary work.  From a store whose events leave the reserve free, along any history
  of calls in which at most \<open>k\<close> recovery events were written, fewer than the reserve, a recovery save of a
  recorded operation whose document and detail fit succeeds as soon as SQLite commits, and the row holds
  the document.
\<close>

theorem recovery_reserve:
  assumes "0 \<le> recovery_events (ds_limits s0)" and "int (length (d_events (ds_db s0))) \<le> max_events (ds_limits s0) - recovery_events (ds_limits s0)"
    and run: "store_run s0 k s" and spare: "int k < recovery_events (ds_limits s0)"
    and locked: "ds_open s" and row: "is_dict op" "sub op ''id'' = Inr (JStr i)" "find_operation (ds_db s) i \<noteq> None"
    and doc: "deploy_canonical (dset op (lit ''updated_ns'') (JInt (clock 0))) = Inr raw" "int (length raw) \<le> max_record_bytes (ds_limits s)"
    and detail: "deploy_canonical detail = Inr body" "int (length body) \<le> max_record_bytes (ds_limits s)"
  shows "\<exists>r s'. deploy_save Written clock op kind detail True s = (Inr (), dset op (lit ''updated_ns'') (JInt (clock 0)), s') \<and>
     find_operation (ds_db s') i = Some r \<and> d_document r = raw"
proof -
  let ?op = "dset op (lit ''updated_ns'') (JInt (clock 0))"
  have l: "ds_limits s = ds_limits s0" and inv: "within_budget (ds_limits s0) k (ds_db s)"
    using budgeted.run_keeps [OF run] assms(1,2) by (auto simp: within_budget_def)
  have ident: "sub ?op ''id'' = Inr (JStr i)"
    using row(1,2) by (cases op) (auto simp: sub_def dset_def)
  obtain r where r: "find_operation (ds_db s) i = Some r" using row(3) by blast
  let ?d = "put_document i raw (ds_db s)"
  have "put_event (ds_limits s) (clock 1) ?op kind detail True ?d =
      Inr (?d\<lparr>d_events := d_events ?d @ [\<lparr>v_operation = i, v_kind = kind, v_recorded_ns = clock 1, v_document = body\<rparr>]\<rparr>)"
    using inv spare detail ident r
    by (simp add: put_event_def raise_if_def thenE_def l within_budget_def find_operation_put) (simp add: put_document_def)
  then have "deploy_save Written clock op kind detail True s = (Inr (), ?op, s\<lparr>ds_db := ?d\<lparr>d_events := d_events ?d @
      [\<lparr>v_operation = i, v_kind = kind, v_recorded_ns = clock 1, v_document = body\<rparr>]\<rparr>\<rparr>)"
    using locked doc ident r by (simp add: deploy_save_def committing_def raise_if_def thenE_def str_of_def)
  moreover have "find_operation (?d\<lparr>d_events := es\<rparr>) i = Some (r\<lparr>d_document := raw\<rparr>)" for es
    using r find_operation_put [of i raw "ds_db s"] by (simp add: find_operation_def)
  ultimately show ?thesis by simp
qed

lemma plan_names:
  assumes "store_plan p s = Inr q"
  shows "\<exists>r d. at p ''request_id'' = JStr r \<and> at p ''digest'' = JStr d \<and> fld p ''request_id'' = Some (JStr r) \<and> fld p ''digest'' = Some (JStr d)"
proof -
  obtain q' where "validate_plan (ds_limits s) p = Inr q'" using assms unfolding store_plan_def bindE_Inr_iff by blast
  then obtain x c ok where x: "deploy_identity (at p ''request_id'') ''request ID'' = Inr x" and ok: "invalid_plan (\<not> ok) ''Plan digest or size is invalid'' = Inr ()"
    and c: "(if at p ''digest'' \<noteq> JStr c then Inr False else bindE (deploy_canonical p) (\<lambda>raw. Inr (int (length raw) \<le> max_record_bytes (ds_limits s) div 2))) = Inr ok"
    unfolding validate_plan_def bindE_Inr_iff thenE_Inr_iff by blast
  have r: "at p ''request_id'' = JStr x" using x by (auto simp: deploy_identity_def split: json.splits if_splits)
  have d: "at p ''digest'' = JStr c" using c ok by (auto simp: invalid_plan_def split: if_splits)
  show ?thesis using r d by (auto simp: at_def get_or_def split: option.splits)
qed

lemma created_row:
  assumes create: "deploy_create out clock p predecessor s = (Inr op, s')"
    and keys: "keyed [] (ds_limits s) 0 (ds_db s)"
  shows "\<exists>r \<in> set (d_operations (ds_db s')). JStr (d_request r) = at p ''request_id'' \<and> JStr (d_digest r) = at p ''digest''"
proof (cases "find (\<lambda>r. JStr (d_request r) = at p ''request_id'') (d_operations (ds_db s))")
  case (Some r)
  then have "JStr (d_digest r) = at p ''digest''" "s' = s"
    using create by (auto simp: deploy_create_def split: sum.splits if_splits)
  moreover have "r \<in> set (d_operations (ds_db s))" "JStr (d_request r) = at p ''request_id''"
    using Some by (auto simp: find_Some_iff)
  ultimately show ?thesis by blast
next
  case None
  then obtain raw q where ok: "store_plan p s = Inr q" and commit: "committing out ''Cannot persist deployment request''
      (\<lambda>d. bindE (put_operation (operation_row op p raw) d) (put_event (ds_limits s) (clock 1) op ''CREATED'' (JObj []) False)) s = (Inr (), s')"
    using create by (auto simp: deploy_create_def thenE_Inr_iff bindE_Inr_iff split: sum.splits prod.splits)
  then obtain d1 d2 where d1: "put_operation (operation_row op p raw) (ds_db s) = Inr d1"
    and d2: "put_event (ds_limits s) (clock 1) op ''CREATED'' (JObj []) False d1 = Inr d2" and s': "ds_db s' = d2"
    by (auto simp: committing_def Let_def bindE_Inr_iff split: sum.splits write_outcome.splits)
  have "operation_row op p raw \<in> set (d_operations (ds_db s'))"
    using put_event_Inr(2) [OF d2] put_operation_Inr [OF d1] s' by simp
  then show ?thesis using plan_names [OF ok] by (intro bexI) (auto simp: operation_row_def str_of_def)
qed

text \<open>@CLAIM@
  A request is bound to its first plan for ever.  After \<open>create\<close> returned an operation for a plan, and whatever
  calls follow with whatever outcome of their transactions, a later \<open>create\<close> for the same request returns the
  recorded operation when the plan has the same digest, is refused as a conflict when it has another, and
  changes nothing.
\<close>

theorem request_bound:
  assumes fresh: "distinct (map d_id (d_operations (ds_db s)))" "distinct (map d_request (d_operations (ds_db s)))"
    and created: "deploy_create out clock p predecessor s = (Inr op, s1)"
    and run: "store_run s1 k t" and locked: "ds_open t" and later: "store_plan p' t = Inr q'"
    and same: "at p' ''request_id'' = at p ''request_id''"
  shows "\<exists>r \<in> set (d_operations (ds_db t)). JStr (d_request r) = at p ''request_id'' \<and> JStr (d_digest r) = at p ''digest'' \<and>
     deploy_create out' clock' p' predecessor' t =
       (if at p' ''digest'' = at p ''digest'' then deploy_decode (d_document r)
        else Inl (DeployError ''REQUEST_CONFLICT'' ''Request ID already identifies a different plan''), t)"
proof -
  have keys: "keyed [] (ds_limits s) 0 (ds_db s)" using fresh by (simp add: keyed_def)
  obtain r where r: "r \<in> set (d_operations (ds_db s1))" "JStr (d_request r) = at p ''request_id''" "JStr (d_digest r) = at p ''digest''"
    using created_row [OF created keys] by blast
  have "keyed [] (ds_limits s1) 0 (ds_db s1)"
    using keys.create_keeps [OF keys, of out clock p predecessor] created store_limits(3) [of out clock p predecessor s] by simp
  then have "keyed (map row_key (d_operations (ds_db s1))) (ds_limits s1) 0 (ds_db s1)" by (simp add: keyed_def)
  from keys.run_keeps [OF run this] have t: "prefix (map row_key (d_operations (ds_db s1))) (map row_key (d_operations (ds_db t)))"
    "distinct (map d_request (d_operations (ds_db t)))" by (simp_all add: keyed_def)
  have "row_key r \<in> set (map row_key (d_operations (ds_db t)))" using set_mono_prefix [OF t(1)] r(1) by auto
  then obtain x where x: "x \<in> set (d_operations (ds_db t))" "d_request x = d_request r" "d_digest x = d_digest r"
    by (auto simp: row_key_def)
  have "find (\<lambda>y. JStr (d_request y) = at p' ''request_id'') (d_operations (ds_db t)) = find (\<lambda>y. d_request y = d_request x) (d_operations (ds_db t))"
    unfolding same x(2) r(2) [symmetric] by simp
  also have "\<dots> = Some x" by (rule find_distinct [OF t(2) x(1)])
  finally have "deploy_create out' clock' p' predecessor' t = (if JStr (d_digest x) \<noteq> at p' ''digest''
       then Inl (DeployError ''REQUEST_CONFLICT'' ''Request ID already identifies a different plan'') else deploy_decode (d_document x), t)"
    using later locked by (simp add: deploy_create_def)
  then have again: "deploy_create out' clock' p' predecessor' t = (if at p' ''digest'' = at p ''digest'' then deploy_decode (d_document x)
        else Inl (DeployError ''REQUEST_CONFLICT'' ''Request ID already identifies a different plan''), t)"
    unfolding x(3) r(3) by (simp only: not_not if_not_P eq_commute [of "at p ''digest''"] split: if_split) blast
  have "JStr (d_request x) = at p ''request_id''" "JStr (d_digest x) = at p ''digest''" unfolding x(2,3) by (rule r)+
  then show ?thesis using again x(1) by blast
qed

lemma fld_link: "fld (dset original (lit (link_key rollback)) v) ''id'' = fld original ''id''"
proof (cases "is_dict original")
  case True
  then show ?thesis by (simp add: link_key_def)
next
  case False
  then show ?thesis by (cases original) (simp_all add: dset_def)
qed

text \<open>@CLAIM@
  A link is all or nothing.  After \<open>link\<close> of an operation that has no successor the database is unchanged, or it
  gained one row, the successor, and two events, and the row of the linked operation holds the document that
  names the successor; when the call succeeded the second is the case, it returned that successor, and the
  operation of the caller names it too.
\<close>

theorem link_atomic:
  assumes unlinked: "link_original op p rollback s = Inr (original, linked)" "\<not> truthy linked"
    and run: "deploy_link out clock op p rollback s = (res, op', s')"
  shows "(s' = s \<and> (\<exists>e. res = Inl e)) \<or>
    (\<exists>successor raw e1 e2.
      ds_db s' = (put_document (str_of (fld original ''id'')) (dumps (dset original (lit (link_key rollback)) (at successor ''id'')))
          (ds_db s\<lparr>d_operations := d_operations (ds_db s) @ [operation_row successor p raw]\<rparr>))\<lparr>d_events := d_events (ds_db s) @ [e1, e2]\<rparr> \<and>
      v_kind e1 = (if rollback then ''ROLLBACK_LINK'' else ''HANDOFF_LINK'') \<and> v_kind e2 = ''CREATED'' \<and>
      (\<forall>x. res = Inr x \<longrightarrow> x = successor \<and> op' = dupdate op (items (dset original (lit (link_key rollback)) (at successor ''id'')))))"
  (is "?unchanged \<or> ?linked")
proof (cases "link_records clock original p rollback s")
  case (Inl e)
  then have "s' = s \<and> res = Inl e" using run unlinked by (auto simp: deploy_link_def)
  then show ?thesis by blast
next
  case (Inr records)
  obtain named successor raw' raw where records: "records = (named, successor, raw', raw)"
    by (cases records)
  have l: "named = dset original (lit (link_key rollback)) (at successor ''id'')" "raw' = dumps named"
    using Inr unfolding records by (auto simp: link_records_def Let_def bindE_Inr_iff thenE_Inr_iff deploy_canonical_def split: if_splits)
  have ident: "fld named ''id'' = fld original ''id''" unfolding l(1) by (rule fld_link)
  let ?body = "link_body (ds_limits s) clock named successor p raw' raw rollback"
  obtain r where commit: "committing out ''Cannot persist recovery successor atomically'' ?body s = (r, s')"
    and failed: "\<And>e. r = Inl e \<Longrightarrow> res = Inl e" and linked_both: "r = Inr () \<Longrightarrow> res = Inr successor \<and> op' = dupdate op (items named)"
    using run unlinked Inr by (auto simp: deploy_link_def records split: prod.splits sum.splits)
  show ?thesis
  proof (cases "?body (ds_db s)")
    case (Inl e)
    then have "s' = s \<and> (\<exists>e. r = Inl e)" using commit by (auto simp: committing_def)
    then show ?thesis using failed by blast
  next
    case (Inr d)
    have "s' = s \<and> (\<exists>e. r = Inl e) \<or> ds_db s' = d"
      using commit Inr by (cases out) (auto simp: committing_def Let_def)
    then show ?thesis
    proof
      assume db: "ds_db s' = d"
      from link_body_rows [OF Inr] obtain e1 e2 where d: "ds_db s' = (put_document (str_of (fld original ''id'')) (dumps named)
          (ds_db s\<lparr>d_operations := d_operations (ds_db s) @ [operation_row successor p raw]\<rparr>))\<lparr>d_events := d_events (ds_db s) @ [e1, e2]\<rparr>"
        and kinds: "v_kind e1 = (if rollback then ''ROLLBACK_LINK'' else ''HANDOFF_LINK'')" "v_kind e2 = ''CREATED''"
        unfolding ident l(2) db by blast
      have "\<forall>x. res = Inr x \<longrightarrow> x = successor \<and> op' = dupdate op (items named)"
        using failed linked_both by (cases r) auto
      with d kinds have ?linked unfolding l(1) by blast
      then show ?thesis ..
    qed (use failed in blast)
  qed
qed

section \<open>Reading back\<close>

lemma accepts_deploy: "accepts ledger_hooks v \<Longrightarrow> accepts deploy_hooks v"
  by (induction v rule: nonfinite.induct) (auto simp: ledger_hooks_def deploy_hooks_def deploy_pairs_def unique_pairs_iff lit_def comp_def)

lemma deploy_decode_dumps: "storable v \<Longrightarrow> deploy_decode (dumps v) = Inr (sort_keys v)"
  by (simp add: deploy_decode_def storable_def loads_dumps accepts_deploy)

lemma storable_obj: "distinct (map fst kvs) \<Longrightarrow> (\<forall>(k, v) \<in> set kvs. storable v) \<Longrightarrow> storable (obj kvs)"
  by (auto simp: obj_def storable_JObj distinct_map comp_def case_prod_beta inj_on_def)

section \<open>At concrete inputs\<close>

definition digest_a :: "string" where "digest_a = replicate 64 (CHR ''a'')"

definition store_plan_body :: "string \<Rightarrow> json" where
  "store_plan_body r = obj [(''schema'', jlit PLAN_SCHEMA), (''request_id'', jlit r), (''node_id'', jlit ''node''),
     (''source'', obj [(''deployment_digest'', jlit digest_a)]), (''target'', obj [(''deployment_digest'', jlit digest_a)]),
     (''steps'', JList []), (''profile'', JObj [])]"

definition store_example_plan :: "string \<Rightarrow> json" where
  "store_example_plan r = dset (store_plan_body r) (lit ''digest'') (JStr (sha256_hex (dumps (store_plan_body r))))"

definition store_example_operation :: "string \<Rightarrow> json \<Rightarrow> int \<Rightarrow> int \<Rightarrow> json" where
  "store_example_operation r predecessor now updated = obj
     [(''schema'', jlit DEPLOY_SCHEMA), (''id'', JStr (lit ''deploy-'' @ take 32 (sha256_hex (lit r)))), (''plan'', store_example_plan r), (''created_ns'', JInt now), (''updated_ns'', JInt updated),
        (''phase'', jlit ''PLANNED''), (''direction'', jlit ''APPLY''), (''decision'', JNull), (''decision_id'', JNull), (''released'', JBool False),
        (''waiting'', JNull), (''gate_sequence'', JNull), (''gate_owned'', JBool False), (''predecessor'', predecessor), (''successor'', JNull),
        (''handoff_complete'', JBool False), (''rollback_successor'', JNull), (''steps'', JList []),
        (''errors'', obj [(''primary'', JList []), (''recovery'', JList []), (''diagnostics'', JList [])]), (''checks'', JObj []),
        (''startup'', obj [(''blocked'', JBool False), (''current'', JNull)])]"

definition empty_store :: deploy_store where
  "empty_store = \<lparr>ds_limits = default_limits, ds_node = lit ''node'', ds_open = True, ds_db = \<lparr>d_operations = [], d_events = []\<rparr>\<rparr>"

definition created_store :: deploy_store where
  "created_store = snd (deploy_create Written (\<lambda>_. 7) (store_example_plan ''r-1'') JNull empty_store)"

lemma store_example_plan_obj: "store_example_plan r = obj [(''schema'', jlit PLAN_SCHEMA), (''request_id'', jlit r), (''node_id'', jlit ''node''),
     (''source'', obj [(''deployment_digest'', jlit digest_a)]), (''target'', obj [(''deployment_digest'', jlit digest_a)]),
     (''steps'', JList []), (''profile'', JObj []), (''digest'', JStr (sha256_hex (dumps (store_plan_body r))))]"
  "dpop (store_example_plan r) (lit ''digest'') = store_plan_body r"
  by (simp_all add: store_example_plan_def store_plan_body_def dset_def dpop_def obj_def)

lemma store_example_finite: "\<not> nonfinite (store_plan_body r)" "\<not> nonfinite (store_example_plan r)"
  "nonfinite (store_example_operation r predecessor now updated) = nonfinite predecessor"
  by (simp_all add: store_plan_body_def store_example_plan_obj store_example_operation_def obj_def)

lemma store_example_size: "length (dumps (store_example_plan r)) < 10000 + 12 * length r"
  "length (dumps (store_example_operation r predecessor now updated)) < 20000 + 12 * length r + size_bound predecessor + size_bound (JInt now) + size_bound (JInt updated)"
proof -
  have plan: "size_bound (store_example_plan r) < 10000 + 12 * length r"
    by (simp add: store_example_plan_obj obj_def PLAN_SCHEMA_def digest_a_def)
  then show "length (dumps (store_example_plan r)) < 10000 + 12 * length r"
    using length_canonical_bytes [of "store_example_plan r"] by (simp add: canonical_bytes_def)
  have "size_bound (store_example_operation r predecessor now updated) < 20000 + 12 * length r + size_bound predecessor + size_bound (JInt now) + size_bound (JInt updated)"
    using plan by (simp add: store_example_operation_def obj_def DEPLOY_SCHEMA_def del: size_bound.simps(1))
  then show "length (dumps (store_example_operation r predecessor now updated)) < 20000 + 12 * length r + size_bound predecessor + size_bound (JInt now) + size_bound (JInt updated)"
    using length_canonical_bytes [of "store_example_operation r predecessor now updated"] by (simp add: canonical_bytes_def)
qed

lemma store_example_plan_names: "deploy_id (lit ''r-1'')" "deploy_id (lit ''r-2'')" "deploy_id (lit ''node'')" "deploy_hex (lit digest_a)"
  by code_simp+

lemma store_example_plan_at: "at (store_example_plan r) ''schema'' = jlit PLAN_SCHEMA" "at (store_example_plan r) ''request_id'' = jlit r" "at (store_example_plan r) ''node_id'' = jlit ''node''"
  "at (store_example_plan r) ''source'' = obj [(''deployment_digest'', jlit digest_a)]" "at (store_example_plan r) ''target'' = obj [(''deployment_digest'', jlit digest_a)]"
  "at (store_example_plan r) ''steps'' = JList []" "at (store_example_plan r) ''profile'' = JObj []" "at (store_example_plan r) ''digest'' = JStr (sha256_hex (dumps (store_plan_body r)))"
  by (simp_all add: store_example_plan_obj(1) at_def get_or_def)

lemma store_example_plan_valid:
  assumes "deploy_id (lit r)"
  shows "validate_plan default_limits (store_example_plan r) = Inr (store_example_plan r)"
proof -
  have "length r \<le> 128" using assms by (simp add: deploy_id_def lit_def)
  then have size: "length (dumps (store_example_plan r)) < 20000" using store_example_size(1) [of r] by simp
  have d: "deploy_digest (dpop (store_example_plan r) (lit ''digest'')) = Inr (sha256_hex (dumps (store_plan_body r)))"
    by (simp add: store_example_plan_obj(2) deploy_digest_def deploy_canonical_def store_example_finite)
  have raw: "deploy_canonical (store_example_plan r) = Inr (dumps (store_example_plan r))"
    by (simp add: deploy_canonical_def store_example_finite)
  have keys: "has_keys (store_example_plan r) PLAN_KEYS" "is_dict (store_example_plan r)" by (auto simp: store_example_plan_obj(1) PLAN_KEYS_def)
  have hex: "digest_text (get_or (obj [(''deployment_digest'', jlit digest_a)]) ''deployment_digest'' x) = lit digest_a" for x
    by (simp add: get_or_def digest_text_def)
  show ?thesis
    unfolding validate_plan_def
    using size assms by (simp add: store_example_plan_at keys hex d raw deploy_identity_def store_example_plan_names invalid_plan_def elements_def default_limits_def)
qed

lemma store_example_new: "deploy_id (lit r) \<Longrightarrow> new_operation now (store_example_plan r) predecessor = Inr (store_example_operation r predecessor now now)"
  by (simp add: new_operation_def store_example_plan_valid store_example_plan_at deploy_operation_id_def deploy_identity_def store_example_operation_def elements_def)

abbreviation store_operation_id :: "pystr" where "store_operation_id \<equiv> lit ''deploy-'' @ take 32 (sha256_hex (lit ''r-1''))"
abbreviation store_operation :: json where "store_operation \<equiv> store_example_operation ''r-1'' JNull 7 7"

lemma store_operation_fields: "fld (store_example_operation r predecessor now updated) ''id'' = Some (JStr (lit ''deploy-'' @ take 32 (sha256_hex (lit r))))"
  "fld (store_example_operation r predecessor now updated) ''successor'' = Some JNull" "is_dict (store_example_operation r predecessor now updated)"
  by (simp_all add: store_example_operation_def)

lemma store_example_later: "dset (store_example_operation r predecessor now updated) (lit ''updated_ns'') (JInt later) = store_example_operation r predecessor now later"
  by (simp add: store_example_operation_def dset_def obj_def)

lemma store_example_raw: "length r \<le> 128 \<Longrightarrow> k < 10 \<Longrightarrow> 0 \<le> k \<Longrightarrow> \<not> 2 * 1024 * 1024 < int (length (dumps (store_example_operation r JNull 7 k)))"
  using store_example_size(2) [of r JNull 7 k] by simp

lemma default_limit_values: "max_record_bytes default_limits = 2 * 1024 * 1024" "max_operations default_limits = 128"
  "max_events default_limits = 8192" "recovery_events default_limits = 2048"
  by (simp_all add: default_limits_def)

lemma dumps_empty: "dumps (JObj []) = [123, 125]"
  by code_simp

lemma sub_operation: "sub (store_example_operation r predecessor now updated) ''id'' = Inr (JStr (lit ''deploy-'' @ take 32 (sha256_hex (lit r))))"
  by (simp add: sub_Inr_iff store_operation_fields)

lemmas store_example_simps = store_plan_def store_example_plan_valid store_example_plan_names store_example_plan_at create_record_def
  store_example_new deploy_canonical_def store_example_finite committing_def put_operation_def put_event_def find_operation_def
  operation_row_def store_operation_fields default_limit_values dumps_empty sub_operation store_example_later

lemma created_store: "deploy_create Written (\<lambda>_. 7) (store_example_plan ''r-1'') JNull empty_store = (Inr store_operation, created_store)"
  "created_store = empty_store\<lparr>ds_db := \<lparr>d_operations = [operation_row store_operation (store_example_plan ''r-1'') (dumps store_operation)],
     d_events = [\<lparr>v_operation = store_operation_id, v_kind = ''CREATED'', v_recorded_ns = 7, v_document = dumps (JObj [])\<rparr>]\<rparr>\<rparr>"
proof -
  have "deploy_create Written (\<lambda>_. 7) (store_example_plan ''r-1'') JNull empty_store = (Inr store_operation,
     empty_store\<lparr>ds_db := \<lparr>d_operations = [operation_row store_operation (store_example_plan ''r-1'') (dumps store_operation)],
     d_events = [\<lparr>v_operation = store_operation_id, v_kind = ''CREATED'', v_recorded_ns = 7, v_document = dumps (JObj [])\<rparr>]\<rparr>\<rparr>)"
    using store_example_raw [of "''r-1''" 7]
    by (simp add: deploy_create_def empty_store_def store_example_simps)
  then show "deploy_create Written (\<lambda>_. 7) (store_example_plan ''r-1'') JNull empty_store = (Inr store_operation, created_store)"
    "created_store = empty_store\<lparr>ds_db := \<lparr>d_operations = [operation_row store_operation (store_example_plan ''r-1'') (dumps store_operation)],
     d_events = [\<lparr>v_operation = store_operation_id, v_kind = ''CREATED'', v_recorded_ns = 7, v_document = dumps (JObj [])\<rparr>]\<rparr>\<rparr>"
    by (simp_all add: created_store_def)
qed

theorem recovery_reserve_witness:
  "\<exists>r s'. deploy_save Written (\<lambda>_. 8) store_operation ''WAITING'' (JObj []) True created_store =
       (Inr (), store_example_operation ''r-1'' JNull 7 8, s') \<and>
     find_operation (ds_db s') store_operation_id = Some r \<and> d_document r = dumps (store_example_operation ''r-1'' JNull 7 8)"
  using recovery_reserve [where ?s0.0 = created_store and s = created_store and k = 0 and clock = "\<lambda>_. 8" and op = store_operation
      and i = store_operation_id and raw = "dumps (store_example_operation ''r-1'' JNull 7 8)" and detail = "JObj []" and body = "dumps (JObj [])" and kind = "''WAITING''"]
    store_example_raw [of "''r-1''" 8]
  by (simp add: created_store(2) empty_store_def store_example_simps store_run.start)

theorem request_bound_witness:
  "\<exists>r \<in> set (d_operations (ds_db created_store)). JStr (d_request r) = jlit ''r-1'' \<and>
     deploy_create Not_written (\<lambda>_. 9) (store_example_plan ''r-1'') JNull created_store = (deploy_decode (d_document r), created_store)"
proof -
  have "store_plan (store_example_plan ''r-1'') created_store = Inr (store_example_plan ''r-1'')"
    by (simp add: created_store(2) empty_store_def store_example_simps)
  from request_bound [OF _ _ created_store(1) store_run.start _ this refl, of Not_written "\<lambda>_. 9" JNull]
  show ?thesis by (simp add: created_store(2) empty_store_def store_example_plan_at)
qed

lemma store_operation_storable: "storable store_operation"
proof -
  have "scalars (sha256_hex m)" for m by (auto simp: scalars_def scalar_def is_hex_digit_def is_digit_def dest!: sha256_hex_digits)
  then have "scalars (sha256_hex m)" "scalars (lit t @ take n (sha256_hex m))" for m n t
    using scalars_lit [of t] by (auto simp: scalars_def dest: in_set_takeD)
  then show ?thesis
    by (auto simp: storable_JObj store_example_operation_def store_example_plan_obj(1) intro!: storable_obj) 
qed

lemma store_operation_get: "deploy_get (JStr store_operation_id) created_store = Inr (sort_keys store_operation)"
proof -
  have "deploy_id store_operation_id"
    by (auto simp: deploy_id_def lit_def is_hex_digit_def is_digit_def dest!: in_set_takeD sha256_hex_digits)
  then show ?thesis
    by (simp add: deploy_get_def deploy_identity_def created_store(2) empty_store_def store_example_simps deploy_decode_dumps [OF store_operation_storable])
qed

lemma store_operation_link:
  "link_original store_operation (store_example_plan ''r-2'') False created_store = Inr (sort_keys store_operation, JNull)"
proof -
  have "wf_json store_operation" by (rule storable_wf [OF store_operation_storable])
  then have "sub (sort_keys store_operation) ''successor'' = Inr JNull"
    by (simp add: sub_Inr_iff dget_sort_keys store_operation_fields)
  then show ?thesis using store_operation_get
    by (simp add: link_original_def link_key_def) (simp add: created_store(2) empty_store_def store_example_simps)
qed

theorem link_atomic_witness:
  "\<exists>original res op' s'. deploy_link Written (\<lambda>_. 9) store_operation (store_example_plan ''r-2'') False created_store = (res, op', s') \<and>
     ((s' = created_store \<and> (\<exists>e. res = Inl e)) \<or> (\<exists>successor raw e1 e2.
      ds_db s' = (put_document store_operation_id (dumps (dset original (lit ''successor'') (at successor ''id'')))
          (ds_db created_store\<lparr>d_operations := d_operations (ds_db created_store) @ [operation_row successor (store_example_plan ''r-2'') raw]\<rparr>))
            \<lparr>d_events := d_events (ds_db created_store) @ [e1, e2]\<rparr> \<and>
      v_kind e1 = ''HANDOFF_LINK'' \<and> v_kind e2 = ''CREATED'' \<and>
      (\<forall>x. res = Inr x \<longrightarrow> x = successor \<and> op' = dupdate store_operation (items (dset original (lit ''successor'') (at successor ''id''))))))"
proof -
  let ?run = "deploy_link Written (\<lambda>_. 9) store_operation (store_example_plan ''r-2'') False created_store"
  have fields: "fld (sort_keys store_operation) ''id'' = Some (JStr store_operation_id)"
    by (simp add: dget_sort_keys storable_wf store_operation_storable store_operation_fields)
  have "?run = (fst ?run, fst (snd ?run), snd (snd ?run))" by simp
  from link_atomic [OF store_operation_link _ this] show ?thesis
    unfolding fields by (intro exI [of _ "sort_keys store_operation"] exI [of _ "fst ?run"] exI [of _ "fst (snd ?run)"] exI [of _ "snd (snd ?run)"])
      (simp add: link_key_def)
qed

end
