(* ===== verification/Coordinator.thy ===== *)
theory Coordinator
  imports DeployStore Maintenance
begin

text \<open>
  The resume protocol of a deployment, \<open>tools/admin/local_hand_deploy/coordinator.py\<close>.  The environment the
  coordinator is constructed with is the record \<open>adapters\<close> of the methods it calls, and so a parameter here as
  it is there; an optional method (\<open>hasattr\<close>) is an option.  The methods read the store and the operation and may
  change the gate and whatever else they act on, the type \<open>'w\<close>.  The operation of a call is the document \<open>co_op\<close>,
  which the methods of the coordinator mutate in place.
\<close>

section \<open>The environment\<close>

record 'w outside =
  out_gate :: gate_file
  out_world :: 'w

type_synonym ('w, 'a) query = "deploy_store \<Rightarrow> 'w outside \<Rightarrow> 'a res \<times> 'w outside"

text \<open>\<open>execute\<close> calls \<open>persist_intent\<close> as often as it wants, and sees whether it raised.\<close>

datatype 'w supervised = Returned "json res" "'w outside" | Persist json "unit res \<Rightarrow> 'w supervised"

record 'w adapters =
  env_for_operation :: "(json \<Rightarrow> ('w, unit) query) option"
  env_preflight :: "json \<Rightarrow> ('w, json) query"
  env_prepare :: "json \<Rightarrow> json \<Rightarrow> json \<Rightarrow> ('w, json) query"
  env_observe :: "json \<Rightarrow> json \<Rightarrow> json \<Rightarrow> ('w, json) query"
  env_execute :: "json \<Rightarrow> json \<Rightarrow> json \<Rightarrow> json \<Rightarrow> json \<Rightarrow> deploy_store \<Rightarrow> 'w outside \<Rightarrow> 'w supervised"
  env_effect_key :: "json \<Rightarrow> pystr res"
  env_effect_identity :: "(json \<Rightarrow> json \<Rightarrow> json \<Rightarrow> json \<Rightarrow> ('w, json) query) option"
  env_completion_identity :: "(json \<Rightarrow> json \<Rightarrow> json \<Rightarrow> json \<Rightarrow> ('w, json) query) option"
  env_drain :: "json \<Rightarrow> ('w, json) query"
  env_block_startup :: "json \<Rightarrow> ('w, json) query"
  env_candidate_startup :: "json \<Rightarrow> json \<Rightarrow> json \<Rightarrow> ('w, json) query"
  env_check_local :: "json \<Rightarrow> bool \<Rightarrow> ('w, json) query"
  env_prepare_compensation :: "json \<Rightarrow> ('w, json list) query"
  env_quiesced_retention :: "(json \<Rightarrow> ('w, json) query) option"
  env_selected_deployment :: "json \<Rightarrow> ('w, json) query"
  env_release_valid :: "json \<Rightarrow> ('w, json) query"
  env_retention :: "((json \<Rightarrow> json \<Rightarrow> ('w, json) query) \<times> (json \<Rightarrow> json \<Rightarrow> ('w, unit) query)) option"
    \<comment> \<open>\<open>retention_decisions\<close> and \<open>activate_retention\<close>\<close>
  env_publish_stable :: "json \<Rightarrow> ('w, json) query"
  env_restored_plan :: "json \<Rightarrow> json \<Rightarrow> ('w, json) query"
  env_validate_successor :: "(json \<Rightarrow> json \<Rightarrow> ('w, unit) query) option"

text \<open>
  A coordinator, and what the system does in its calls: the outcome of transaction \<open>n\<close>, the clock, the pages of
  the database and the operating system below the gate at event \<open>n\<close>, and whether the node lock and the
  database open.
\<close>

record 'w coordinator =
  environment :: "'w adapters"
  gate_node :: json
  implementation :: json
  commit_of :: "nat \<Rightarrow> write_outcome"
  clock_of :: "nat \<Rightarrow> nat \<Rightarrow> int"
  pages_of :: "nat \<Rightarrow> page_counts"
  os_of :: "nat \<Rightarrow> gate_os"
  lock_of :: "unit res"

record 'w coordination =
  co_op :: json
  co_store :: deploy_store
  co_out :: "'w outside"
  co_count :: nat

type_synonym ('w, 'a) cact = "'w coordination \<Rightarrow> 'a res \<times> 'w coordination"

definition lower_hex :: "json \<Rightarrow> nat \<Rightarrow> bool" where
  "lower_hex v n = (case v of JStr s \<Rightarrow> length s = n \<and> (\<forall>c \<in> set s. is_hex_digit c) | _ \<Rightarrow> False)"

definition check_implementation :: "json \<Rightarrow> unit res" where
  "check_implementation v =
     (if v = JNull then Inr ()
      else raise_if (\<not> has_keys v [''source_commit'', ''source_tree'', ''adapter_digest''] \<or>
             \<not> (lower_hex (at v ''source_commit'') 40 \<and> lower_hex (at v ''source_tree'') 40 \<and> lower_hex (at v ''adapter_digest'') 64))
           (DeployError ''INVALID_IMPLEMENTATION'' ''Actual implementation requires verified source identities''))"

section \<open>Statements\<close>

definition retC :: "'a \<Rightarrow> ('w, 'a) cact" where "retC x s = (Inr x, s)"

definition liftC :: "'a res \<Rightarrow> ('w, 'a) cact" where "liftC r s = (r, s)"

definition bindC :: "('w, 'a) cact \<Rightarrow> ('a \<Rightarrow> ('w, 'b) cact) \<Rightarrow> ('w, 'b) cact" where
  "bindC m f s = (case m s of (Inl e, s') \<Rightarrow> (Inl e, s') | (Inr x, s') \<Rightarrow> f x s')"

definition thenC :: "('w, unit) cact \<Rightarrow> ('w, 'b) cact \<Rightarrow> ('w, 'b) cact" where "thenC m r = bindC m (\<lambda>_. r)"

definition opC :: "(json \<Rightarrow> ('w, 'a) cact) \<Rightarrow> ('w, 'a) cact" where "opC f s = f (co_op s) s"

definition editC :: "(json \<Rightarrow> json) \<Rightarrow> ('w, unit) cact" where "editC f s = (Inr (), s\<lparr>co_op := f (co_op s)\<rparr>)"

abbreviation setC :: "string \<Rightarrow> json \<Rightarrow> ('w, unit) cact" where "setC k v \<equiv> editC (\<lambda>op. dset op (lit k) v)"

fun eachC :: "('a \<Rightarrow> ('w, bool) cact) \<Rightarrow> 'a list \<Rightarrow> ('w, bool) cact" where
  "eachC f [] = retC True"
| "eachC f (x # xs) = bindC (f x) (\<lambda>ok. if ok then eachC f xs else retC False)"

fun forC :: "('a \<Rightarrow> ('w, unit) cact) \<Rightarrow> 'a list \<Rightarrow> ('w, unit) cact" where
  "forC f [] = retC ()"
| "forC f (x # xs) = thenC (f x) (forC f xs)"

fun foldC :: "('s \<Rightarrow> 'a \<Rightarrow> ('w, 's) cact) \<Rightarrow> 's \<Rightarrow> 'a list \<Rightarrow> ('w, 's) cact" where
  "foldC f c [] = retC c"
| "foldC f c (x # xs) = bindC (f c x) (\<lambda>c'. foldC f c' xs)"

definition storeC :: "(deploy_store \<Rightarrow> 'a res) \<Rightarrow> ('w, 'a) cact" where "storeC f s = (f (co_store s), s)"

definition nowC :: "'w coordinator \<Rightarrow> ('w, int) cact" where
  "nowC E s = (Inr (clock_of E (co_count s) 0), s\<lparr>co_count := co_count s + 1\<rparr>)"

definition callC :: "('w, 'a) query \<Rightarrow> ('w, 'a) cact" where
  "callC q s = (case q (co_store s) (co_out s) of (r, out) \<Rightarrow> (r, s\<lparr>co_out := out\<rparr>))"

definition gateC :: "'w coordinator \<Rightarrow> (json \<Rightarrow> gate_os \<Rightarrow> gate_file \<Rightarrow> 'a res \<times> gate_file) \<Rightarrow> ('w, 'a) cact" where
  "gateC E f s = (case f (gate_node E) (os_of E (co_count s)) (out_gate (co_out s)) of
     (r, g) \<Rightarrow> (r, s\<lparr>co_out := co_out s\<lparr>out_gate := g\<rparr>, co_count := co_count s + 1\<rparr>))"

definition gate_active :: "json \<Rightarrow> gate_os \<Rightarrow> gate_file \<Rightarrow> json list res \<times> gate_file" where
  "gate_active node os g = (active_duties node os g, g)"

text \<open>\<open>self.store.save(op, kind, detail, recovery=recovery)\<close>, of the operation of the call and of another one.\<close>

definition saveC :: "'w coordinator \<Rightarrow> string \<Rightarrow> json \<Rightarrow> bool \<Rightarrow> ('w, unit) cact" where
  "saveC E kind detail recovery s =
     (case deploy_save (commit_of E (co_count s)) (clock_of E (co_count s)) (co_op s) kind detail recovery (co_store s) of
        (r, op, st) \<Rightarrow> (r, s\<lparr>co_op := op, co_store := st, co_count := co_count s + 1\<rparr>))"

definition save_other :: "'w coordinator \<Rightarrow> json \<Rightarrow> string \<Rightarrow> json \<Rightarrow> bool \<Rightarrow> ('w, json) cact" where
  "save_other E v kind detail recovery s =
     (case deploy_save (commit_of E (co_count s)) (clock_of E (co_count s)) v kind detail recovery (co_store s) of
        (r, v', st) \<Rightarrow> (bindE r (\<lambda>_. Inr v'), s\<lparr>co_store := st, co_count := co_count s + 1\<rparr>))"

definition linkC :: "'w coordinator \<Rightarrow> json \<Rightarrow> bool \<Rightarrow> ('w, json) cact" where
  "linkC E p rollback s =
     (case deploy_link (commit_of E (co_count s)) (clock_of E (co_count s)) (co_op s) p rollback (co_store s) of
        (r, op, st) \<Rightarrow> (r, s\<lparr>co_op := op, co_store := st, co_count := co_count s + 1\<rparr>))"

definition createC :: "'w coordinator \<Rightarrow> json \<Rightarrow> ('w, json) cact" where
  "createC E p s =
     (case deploy_create (commit_of E (co_count s)) (clock_of E (co_count s)) p JNull (co_store s) of
        (r, st) \<Rightarrow> (r, s\<lparr>co_store := st, co_count := co_count s + 1\<rparr>))"

text \<open>\<open>op["record_budget"] = self.store.check_attempt_budget(op, restore=restore)\<close>\<close>

definition budgetC :: "'w coordinator \<Rightarrow> bool \<Rightarrow> ('w, unit) cact" where
  "budgetC E restore = (\<lambda>s. bindC (opC (\<lambda>op. storeC (check_attempt_budget (pages_of E (co_count s)) op restore))) (setC ''record_budget'') s)"

text \<open>\<open>x or {}\<close>, and \<open>xs[-1] if xs else None\<close>\<close>

definition or_empty :: "json \<Rightarrow> json" where "or_empty v = (if truthy v then v else JObj [])"
definition last_or_none :: "json list \<Rightarrow> json" where "last_or_none xs = (if xs = [] then JNull else last xs)"

section \<open>The records of an operation\<close>

definition plan_steps :: "json \<Rightarrow> json list" where "plan_steps op = elements (at (at op ''plan'') ''steps'')"
definition step_records :: "json \<Rightarrow> json list" where "step_records op = elements (at op ''steps'')"
definition compensation :: "json \<Rightarrow> json list" where "compensation op = elements (at op ''compensation'')"
definition has_compensation :: "json \<Rightarrow> bool" where "has_compensation op = (fld op ''compensation'' \<noteq> None)"

text \<open>\<open>enumerate(zip(op["plan"]["steps"], op["steps"]))\<close>, without the records, which change on the way\<close>

definition numbered_steps :: "json \<Rightarrow> (nat \<times> json) list" where
  "numbered_steps op = zip [0..<min (length (plan_steps op)) (length (step_records op))] (plan_steps op)"

datatype place = Forward nat | Restore nat

definition restoring :: "place \<Rightarrow> bool" where "restoring p = (case p of Forward _ \<Rightarrow> False | Restore _ \<Rightarrow> True)"
definition prepared_key :: "place \<Rightarrow> string" where "prepared_key p = (if restoring p then ''restore'' else ''prepared'')"
definition attempts_key :: "place \<Rightarrow> string" where "attempts_key p = (if restoring p then ''restore_attempts'' else ''attempts'')"
definition observation_key :: "place \<Rightarrow> string" where "observation_key p = (if restoring p then ''restore_observation'' else ''observation'')"

definition nth_or_none :: "json list \<Rightarrow> nat \<Rightarrow> json" where "nth_or_none xs i = (if i < length xs then xs ! i else JNull)"

definition record_at :: "place \<Rightarrow> json \<Rightarrow> json" where
  "record_at p op = (case p of Forward i \<Rightarrow> nth_or_none (step_records op) i | Restore i \<Rightarrow> at (nth_or_none (compensation op) i) ''record'')"

definition put_record :: "place \<Rightarrow> (json \<Rightarrow> json) \<Rightarrow> json \<Rightarrow> json" where
  "put_record p f op = (case p of
     Forward i \<Rightarrow> dset op (lit ''steps'') (JList ((step_records op)[i := f (record_at p op)]))
   | Restore i \<Rightarrow> dset op (lit ''compensation'') (JList ((compensation op)[i := dset (nth_or_none (compensation op) i) (lit ''record'') (f (record_at p op))])))"

definition attempts_at :: "place \<Rightarrow> json \<Rightarrow> json list" where "attempts_at p op = elements (at (record_at p op) (attempts_key p))"

definition set_record :: "place \<Rightarrow> string \<Rightarrow> json \<Rightarrow> json \<Rightarrow> json" where
  "set_record p k v = put_record p (\<lambda>r. dset r (lit k) v)"

definition set_attempts :: "place \<Rightarrow> json list \<Rightarrow> json \<Rightarrow> json" where
  "set_attempts p xs = set_record p (attempts_key p) (JList xs)"

text \<open>\<open>attempts[-1].update(...)\<close>\<close>

definition set_attempt :: "place \<Rightarrow> (pystr \<times> json) list \<Rightarrow> json \<Rightarrow> json" where
  "set_attempt p changes op = (if attempts_at p op = [] then op
     else set_attempts p (butlast (attempts_at p op) @ [dupdate (last (attempts_at p op)) changes]) op)"

definition mark_effective :: "place \<Rightarrow> json \<Rightarrow> json \<Rightarrow> json" where
  "mark_effective p observed op =
     (if truthy (at (record_at p op) ''effective'') then op
      else set_record p ''effective'' (get_or observed ''effective'' (JBool False)) op)"

definition at_target :: "json \<Rightarrow> bool" where
  "at_target observed = (get_or observed ''state'' JNull = jlit ''target'' \<and> get_or observed ''closed'' JNull = JBool True)"

definition has_effects :: "json \<Rightarrow> bool" where
  "has_effects op = (truthy (get_or op ''inherited'' JNull) \<or> (\<exists>r \<in> set (step_records op). truthy (at r ''effective'')) \<or>
     truthy (at op ''gate_owned'') \<and> truthy (get_or (at (at op ''plan'') ''profile'') ''security_repair'' JNull))"

definition unresolved_record :: "string \<Rightarrow> json \<Rightarrow> bool" where
  "unresolved_record key r = (truthy (get_or r key JNull) \<and> \<not> truthy (get_or r ''covered_by'' JNull) \<and>
     (get_or (at r key) ''state'' JNull \<in> {jlit ''running'', jlit ''unknown''} \<or> get_or (at r key) ''closed'' JNull \<noteq> JBool True))"

definition unresolved :: "json \<Rightarrow> bool" where
  "unresolved op = (if has_compensation op then \<exists>entry \<in> set (compensation op). unresolved_record ''restore_observation'' (at entry ''record'')
     else \<exists>r \<in> set (step_records op). unresolved_record ''observation'' r)"

definition requires_sync :: "json \<Rightarrow> bool" where
  "requires_sync step = (at step ''kind'' = jlit ''file'' \<or>
     (at step ''kind'' = jlit ''service'' \<and> get_or (at step ''action'') ''kind'' JNull = jlit ''service_policy_link''))"

definition step_complete :: "json \<Rightarrow> json \<Rightarrow> bool" where
  "step_complete step observed = (at_target observed \<and> (\<not> requires_sync step \<or> get_or observed ''synced'' JNull = JBool True))"

text \<open>\<open>dict.fromkeys\<close> keeps the first of equal names.\<close>

definition inheritance :: "json \<Rightarrow> json list res" where
  "inheritance op =
     (if truthy (at op ''released'') then Inr []
      else let inherited = (if has_effects op then rev (remdups (rev (elements (get_or op ''inherited'' (JList [])) @ [at op ''id'']))) else []) in
        thenE (raise_if (length inherited > 16) (DeployError ''STATE_LIMIT'' ''Recovery chain exceeds its fixed limit'')) (Inr inherited))"

section \<open>Waiting and errors\<close>

definition waitC :: "'w coordinator \<Rightarrow> string \<Rightarrow> json \<Rightarrow> ('w, unit) cact" where
  "waitC E reason detail =
     bindC (nowC E) (\<lambda>now.
     thenC (editC (\<lambda>op. dset op (lit ''waiting'') (obj [(''reason'', jlit reason), (''detail'', or_empty detail), (''observed_ns'', JInt now), (''resume'', at op ''id'')])))
       (opC (\<lambda>op. saveC E ''WAITING'' (at op ''waiting'') False)))"

text \<open>\<open>except (OSError, RuntimeError, ValueError, JobError)\<close>, by the names of the subclasses\<close>

definition caught :: "exn \<Rightarrow> bool" where
  "caught e = (case e of
     SqliteError _ \<Rightarrow> False
   | PyError c \<Rightarrow> c \<in> set [''OSError'', ''BlockingIOError'', ''ConnectionError'', ''FileExistsError'', ''FileNotFoundError'', ''InterruptedError'',
       ''NotADirectoryError'', ''PermissionError'', ''ProcessLookupError'', ''TimeoutError'', ''RuntimeError'', ''NotImplementedError'',
       ''RecursionError'', ''ValueError'', ''UnicodeError'', ''UnicodeDecodeError'', ''UnicodeEncodeError'']
   | _ \<Rightarrow> True)"

text \<open>\<open>str(getattr(error, "code", type(error).__name__))\<close> of the errors that are caught\<close>

definition error_code :: "exn \<Rightarrow> string" where
  "error_code e = (case e of
     JobError c _ \<Rightarrow> c | DeployError c _ \<Rightarrow> c | LocalHandError c \<Rightarrow> c | BudgetExhausted _ \<Rightarrow> ''LIMIT_EXCEEDED''
   | LedgerBusy c _ \<Rightarrow> c | QuotaError c \<Rightarrow> c | SqliteError _ \<Rightarrow> ''Error'' | PyError c \<Rightarrow> c)"

definition errorC :: "'w coordinator \<Rightarrow> exn \<Rightarrow> ('w, unit) cact" where
  "errorC E e = opC (\<lambda>op.
     let category = (if at op ''direction'' = jlit ''ROLLBACK'' then ''recovery'' else ''primary'') in
     bindC (nowC E) (\<lambda>now.
       let entry = obj [(''code'', jlit (take 128 (error_code e))), (''phase'', at op ''phase''), (''time_ns'', JInt now)];
           past = elements (at (at op ''errors'') category) in
       thenC (if length past < 64 then setC ''errors'' (dset (at op ''errors'') (lit category) (JList (past @ [entry]))) else retC ())
         (waitC E ''ACTION_FAILED'' entry)))"

definition tryC :: "('w, unit) cact \<Rightarrow> (exn \<Rightarrow> ('w, unit) cact) \<Rightarrow> ('w, unit) cact" where
  "tryC m h s = (case m s of
     (Inl e, s') \<Rightarrow> if caught e then h e s' else (Inl e, s')
   | (Inr u, s') \<Rightarrow> (Inr u, s'))"

definition record_implementation :: "'w coordinator \<Rightarrow> ('w, unit) cact" where
  "record_implementation E = opC (\<lambda>op.
     if implementation E \<noteq> JNull \<and> \<not> truthy (at op ''released'') \<and> \<not> truthy (at op ''handoff_complete'') \<and>
        \<not> jeq (get_or op ''implementation'' JNull) (implementation E)
     then thenC (setC ''implementation'' (implementation E)) (saveC E ''IMPLEMENTATION_OBSERVED'' (implementation E) True)
     else retC ())"

section \<open>One step\<close>

definition identity_conflict :: "string \<Rightarrow> string \<Rightarrow> exn" where
  "identity_conflict key m = DeployError (if key = ''completion_identity'' then ''COMPLETION_IDENTITY_CONFLICT'' else ''EFFECT_IDENTITY_CONFLICT'') m"

text \<open>The identity of an effect, once it is known, is written into the attempt and never replaced.\<close>

definition bind_identity :: "place \<Rightarrow> string \<Rightarrow> string \<Rightarrow> json \<Rightarrow> ('w, unit) cact" where
  "bind_identity p key m v = opC (\<lambda>op.
     if \<not> jeq (get_or (last_or_none (attempts_at p op)) key v) v then liftC (Inl (identity_conflict key m))
     else editC (set_attempt p [(lit key, v)]))"

definition identity_of :: "(json \<Rightarrow> json \<Rightarrow> json \<Rightarrow> json \<Rightarrow> ('w, json) query) option \<Rightarrow> string \<Rightarrow> place \<Rightarrow> json \<Rightarrow> ('w, json) cact" where
  "identity_of method key p step = opC (\<lambda>op.
     let observed = or_empty (get_or (record_at p op) (observation_key p) JNull) in
     case method of
       Some f \<Rightarrow> callC (f step (at (record_at p op) (prepared_key p)) (last_or_none (attempts_at p op)) observed)
     | None \<Rightarrow> retC (get_or observed key JNull))"

definition retain_effect_identity :: "'w coordinator \<Rightarrow> place \<Rightarrow> json \<Rightarrow> ('w, bool) cact" where
  "retain_effect_identity E p step = opC (\<lambda>op.
     let attempt = last_or_none (attempts_at p op); kind = get_or (at step ''action'') ''kind'' JNull in
     if at step ''kind'' \<noteq> jlit ''gateway'' \<or> attempts_at p op = [] \<or> \<not> truthy (get_or attempt ''binding'' JNull) then retC False
     else bindC (liftC (deploy_digest attempt)) (\<lambda>before.
       let changed = opC (\<lambda>op. bindC (liftC (deploy_digest (last_or_none (attempts_at p op)))) (\<lambda>after. retC (after \<noteq> before))) in
       if kind = jlit ''gateway_start'' \<or> kind = jlit ''gateway_stop''
       then bindC (identity_of (env_completion_identity (environment E)) ''completion_identity'' p step) (\<lambda>identity.
         thenC (if identity \<noteq> JNull then bind_identity p ''completion_identity'' ''Original completion cannot be rebound'' identity else retC ()) changed)
       else if kind \<noteq> jlit ''gateway_create'' then retC False
       else bindC (identity_of (env_effect_identity (environment E)) ''effect_identity'' p step) (\<lambda>identity.
         thenC (if identity \<noteq> JNull then bind_identity p ''effect_identity'' ''Original effect identity cannot be rebound'' identity
                else opC (\<lambda>op. if at (record_at p op) ''state'' \<in> {jlit ''VERIFIED'', jlit ''RESTORED''}
                  then editC (set_attempt p [(lit ''effect_identity_required'', JBool True)]) else retC ())) changed)))"

primrec superviseC :: "(json \<Rightarrow> ('w, unit) cact) \<Rightarrow> 'w supervised \<Rightarrow> ('w, json) cact" where
  "superviseC persist (Returned r out) = (\<lambda>s. (r, s\<lparr>co_out := out\<rparr>))"
| "superviseC persist (Persist binding k) = (\<lambda>s. case persist binding s of (r, s') \<Rightarrow> superviseC persist (k r) s')"

definition executeC :: "'w coordinator \<Rightarrow> place \<Rightarrow> json \<Rightarrow> json \<Rightarrow> json \<Rightarrow> (json \<Rightarrow> ('w, unit) cact) \<Rightarrow> ('w, json) cact" where
  "executeC E p step attempt_id previous persist s =
     superviseC persist (env_execute (environment E) step (at (record_at p (co_op s)) (prepared_key p)) (co_op s) attempt_id previous (co_store s) (co_out s)) s"

definition step_detail :: "json \<Rightarrow> (string \<times> json) list \<Rightarrow> json" where
  "step_detail step extra = obj ((''step'', at step ''id'') # extra)"

text \<open>The step is verified, or restored.\<close>

definition step_done :: "'w coordinator \<Rightarrow> place \<Rightarrow> json \<Rightarrow> ('w, bool) cact" where
  "step_done E p step =
     thenC (editC (set_record p ''state'' (jlit (if restoring p then ''RESTORED'' else ''VERIFIED''))))
    (thenC (saveC E (if restoring p then ''RESTORED_STEP'' else ''VERIFIED_STEP'') (step_detail step []) (restoring p)) (retC True))"

definition wait_step :: "'w coordinator \<Rightarrow> string \<Rightarrow> json \<Rightarrow> ('w, bool) cact" where
  "wait_step E reason detail = thenC (waitC E reason detail) (retC False)"

definition settle_step :: "'w coordinator \<Rightarrow> place \<Rightarrow> json \<Rightarrow> json \<Rightarrow> ('w, bool) cact" where
  "settle_step E p step observed =
     (if requires_sync step \<and> get_or observed ''synced'' JNull \<noteq> JBool True
      then thenC (budgetC E (restoring p))
          (thenC (saveC E ''SYNC_INTENT'' (step_detail step [(''restore'', JBool (restoring p))]) (restoring p))
          (bindC (opC (\<lambda>op. executeC E p step JNull (last_or_none (attempts_at p op)) (\<lambda>_. retC ()))) (\<lambda>observed.
           thenC (editC (set_record p (observation_key p) observed))
            (if \<not> step_complete step observed then wait_step E ''SYNC_PENDING'' (step_detail step []) else step_done E p step))))
      else step_done E p step)"

definition dispatched_attempt :: "json \<Rightarrow> bool" where
  "dispatched_attempt a = (get_or a ''dispatched'' JNull \<noteq> JBool False \<and>
     (get_or a ''binding'' JNull \<noteq> JNull \<or> get_or a ''command'' JNull \<noteq> jlit ''not_attempted''))"

definition new_attempt :: "json \<Rightarrow> json" where
  "new_attempt attempt_id = obj [(''attempt_id'', attempt_id), (''binding'', JNull), (''command'', jlit ''not_attempted''), (''dispatched'', JBool False)]"

definition attempt_name :: "place \<Rightarrow> json \<Rightarrow> json \<Rightarrow> json res" where
  "attempt_name p step op = bindE (deploy_digest (obj [(''operation'', at op ''id''), (''step'', at step ''id''), (''restore'', JBool (restoring p)),
       (''number'', JInt (int (length (attempts_at p op))))])) (\<lambda>d. Inr (JStr (lit ''a_'' @ take 48 d)))"

definition persist_binding :: "'w coordinator \<Rightarrow> place \<Rightarrow> json \<Rightarrow> json \<Rightarrow> json \<Rightarrow> ('w, unit) cact" where
  "persist_binding E p step attempt_id binding =
     thenC (editC (set_attempt p [(lit ''binding'', binding), (lit ''command'', jlit ''unknown''), (lit ''dispatched'', JNull)]))
       (saveC E ''SUPERVISOR_BOUND'' (step_detail step [(''attempt_id'', attempt_id)]) (restoring p))"

definition attempt_intent :: "'w coordinator \<Rightarrow> place \<Rightarrow> json \<Rightarrow> json \<Rightarrow> ('w, unit) cact" where
  "attempt_intent E p step attempt_id =
     thenC (budgetC E (restoring p))
    (thenC (editC (\<lambda>op. set_record p ''state'' (jlit ''INTENT_RECORDED'') (set_attempts p (attempts_at p op @ [new_attempt attempt_id]) op)))
    (thenC (saveC E (if restoring p then ''RESTORE_INTENT'' else ''ACTION_INTENT'') (step_detail step [(''attempt_id'', attempt_id)]) (restoring p))
    (thenC (saveC E ''CANDIDATE_STARTUP_INTENT'' (step_detail step [(''attempt_id'', attempt_id)]) (restoring p))
           (opC (\<lambda>op. bindC (callC (env_candidate_startup (environment E) op step attempt_id)) (\<lambda>_. retC ()))))))"

definition attempt_step :: "'w coordinator \<Rightarrow> place \<Rightarrow> json \<Rightarrow> ('w, bool) cact" where
  "attempt_step E p step = opC (\<lambda>op.
     bindC (storeC (\<lambda>st. Inr (max_attempts (ds_limits st)))) (\<lambda>budget.
     if int (length (filter dispatched_attempt (attempts_at p op))) \<ge> budget then wait_step E ''ATTEMPT_BUDGET'' (step_detail step [])
     else bindC (liftC (attempt_name p step op)) (\<lambda>attempt_id.
       thenC (attempt_intent E p step attempt_id)
      (bindC (executeC E p step attempt_id (last_or_none (attempts_at p op)) (persist_binding E p step attempt_id)) (\<lambda>observed.
       thenC (editC (set_attempt p [(lit ''command'', jlit ''returned''), (lit ''dispatched'', get_or observed ''dispatched'' (JBool True))]))
      (thenC (editC (set_record p (observation_key p) observed))
      (bindC (retain_effect_identity E p step) (\<lambda>_.
       thenC (if restoring p then retC () else editC (mark_effective p observed))
      (thenC (saveC E ''ACTION_RETURNED'' (step_detail step [(''attempt_id'', attempt_id)]) (restoring p))
        (if step_complete step observed then step_done E p step
         else wait_step E ''POSTCONDITION_PENDING'' (step_detail step [(''state'', get_or observed ''state'' JNull)])))))))))))"

definition run_step :: "'w coordinator \<Rightarrow> place \<Rightarrow> json \<Rightarrow> ('w, bool) cact" where
  "run_step E p step = opC (\<lambda>op.
     if \<not> is_dict (record_at p op) then liftC (Inl (PyError ''TypeError''))
     else if \<not> restoring p \<and> truthy (get_or (record_at p op) ''covered_by'' JNull) then retC True
     else bindC (callC (env_observe (environment E) step (at (record_at p op) (prepared_key p)) (last_or_none (attempts_at p op)))) (\<lambda>observed.
       thenC (if fld observed ''dispatched'' \<noteq> None then editC (set_attempt p [(lit ''dispatched'', at observed ''dispatched'')]) else retC ())
      (thenC (editC (set_record p (observation_key p) observed))
      (bindC (retain_effect_identity E p step) (\<lambda>_.
       thenC (if restoring p then retC () else editC (mark_effective p observed))
      (thenC (saveC E ''OBSERVATION'' (step_detail step [(''restore'', JBool (restoring p))]) (restoring p \<and> get_or observed ''closed'' JNull = JBool True))
        (if at_target observed then settle_step E p step observed
         else if get_or observed ''state'' JNull \<in> {jlit ''unknown'', jlit ''running'', jlit ''conflict''} \<or> get_or observed ''closed'' JNull \<noteq> JBool True
         then wait_step E ''RECONCILE_REQUIRED'' (step_detail step [(''state'', get_or observed ''state'' JNull)])
         else attempt_step E p step)))))))"

section \<open>Looking again at earlier effects\<close>

type_synonym covered = "(pystr \<times> json) list"

definition identity_retained :: "'w coordinator \<Rightarrow> place \<Rightarrow> json \<Rightarrow> ('w, unit) cact" where
  "identity_retained E p step = bindC (retain_effect_identity E p step) (\<lambda>changed.
     if changed then saveC E ''EFFECT_IDENTITY_RETAINED'' (step_detail step (if restoring p then [(''restore'', JBool True)] else [])) True else retC ())"

definition observe_again :: "'w coordinator \<Rightarrow> place \<Rightarrow> json \<Rightarrow> ('w, json) cact" where
  "observe_again E p step = opC (\<lambda>op.
     bindC (callC (env_observe (environment E) step (at (record_at p op) (prepared_key p)) (last_or_none (attempts_at p op)))) (\<lambda>observed.
     thenC (editC (set_record p (observation_key p) observed))
    (bindC (retain_effect_identity E p step) (\<lambda>_. retC observed))))"

definition covering :: "covered \<Rightarrow> pystr \<Rightarrow> json \<Rightarrow> json \<Rightarrow> covered" where
  "covering covered key step observed = (if at_target observed then AList.update key (at step ''id'') covered else covered)"

definition refresh_forward :: "'w coordinator \<Rightarrow> covered \<Rightarrow> nat \<times> json \<Rightarrow> ('w, covered) cact" where
  "refresh_forward E covered entry = (case entry of (i, step) \<Rightarrow> opC (\<lambda>op.
     let r = record_at (Forward i) op in
     if at r ''prepared'' = JNull \<or> \<not> (truthy (at r ''attempts'') \<or> truthy (at r ''effective'') \<or> at r ''state'' \<in> {jlit ''VERIFIED'', jlit ''RESTORED''})
     then retC covered
     else thenC (identity_retained E (Forward i) step)
      (bindC (liftC (env_effect_key (environment E) step)) (\<lambda>key. case map_of covered key of
         Some ident \<Rightarrow> thenC (editC (set_record (Forward i) ''covered_by'' ident)) (retC covered)
       | None \<Rightarrow> thenC (editC (put_record (Forward i) (\<lambda>r. dpop r (lit ''covered_by''))))
           (bindC (observe_again E (Forward i) step) (\<lambda>observed.
            thenC (editC (mark_effective (Forward i) observed)) (retC (covering covered key step observed))))))))"

definition refresh_restored :: "'w coordinator \<Rightarrow> covered \<Rightarrow> nat \<times> json \<Rightarrow> ('w, covered) cact" where
  "refresh_restored E covered entry = (case entry of (i, step) \<Rightarrow>
     bindC (liftC (env_effect_key (environment E) step)) (\<lambda>key. case map_of covered key of
       Some ident \<Rightarrow> thenC (editC (set_record (Restore i) ''covered_by'' ident)) (retC covered)
     | None \<Rightarrow> thenC (editC (put_record (Restore i) (\<lambda>r. dpop r (lit ''covered_by''))))
         (opC (\<lambda>op. if attempts_at (Restore i) op = [] \<and> at (record_at (Restore i) op) ''state'' \<noteq> jlit ''RESTORED'' then retC covered
           else thenC (identity_retained E (Restore i) step)
             (bindC (observe_again E (Restore i) step) (\<lambda>observed. retC (covering covered key step observed)))))))"

text \<open>\<open>[(entry["step"], entry["record"]) for entry in op["compensation"]]\<close>, by number\<close>

definition numbered_entries :: "json \<Rightarrow> (nat \<times> json) list" where
  "numbered_entries op = zip [0..<length (compensation op)] (map (\<lambda>entry. at entry ''step'') (compensation op))"

definition refreshC :: "'w coordinator \<Rightarrow> ('w, unit) cact" where
  "refreshC E = opC (\<lambda>op.
     let key = (if has_compensation op then ''compensation'' else ''steps'') in
     bindC (liftC (deploy_digest (at op key))) (\<lambda>original.
     bindC (if has_compensation op then foldC (refresh_restored E) [] (rev (numbered_entries op))
            else foldC (refresh_forward E) [] (rev (numbered_steps op))) (\<lambda>_.
     opC (\<lambda>op. bindC (liftC (deploy_digest (at op key))) (\<lambda>now.
       if now \<noteq> original then saveC E (if key = ''steps'' then ''RECONCILED'' else ''RESTORATION_RECONCILED'') (JObj []) (\<not> unresolved op) else retC ())))))"

section \<open>Phases\<close>

definition prepare_step :: "'w coordinator \<Rightarrow> nat \<times> json \<Rightarrow> ('w, unit) cact" where
  "prepare_step E entry = (case entry of (i, step) \<Rightarrow> opC (\<lambda>op.
     if at (record_at (Forward i) op) ''prepared'' \<noteq> JNull then retC ()
     else thenC (saveC E ''PREPARATION_INTENT'' (step_detail step []) False)
      (bindC (opC (\<lambda>op. callC (env_prepare (environment E) step op (record_at (Forward i) op)))) (\<lambda>prepared.
       thenC (editC (set_record (Forward i) ''prepared'' prepared)) (saveC E ''PREPARED_STEP'' (step_detail step []) False)))))"

definition prepareC :: "'w coordinator \<Rightarrow> ('w, unit) cact" where
  "prepareC E = opC (\<lambda>op. thenC (forC (prepare_step E) (numbered_steps op))
     (thenC (setC ''phase'' (jlit ''PREPARED'')) (saveC E ''PREPARED'' (JObj []) False)))"

definition closed_by :: "json \<Rightarrow> json \<Rightarrow> bool" where
  "closed_by state owner = (at state ''state'' = jlit ''CLOSED'' \<and> at state ''owner'' = owner)"

definition closeC :: "'w coordinator \<Rightarrow> ('w, unit) cact" where
  "closeC E = opC (\<lambda>op.
     thenC (if truthy (at op ''gate_owned'') then retC () else budgetC E False)
    (bindC (gateC E snapshot) (\<lambda>state.
     bindC (if closed_by state (at op ''id'') then retC state
            else thenC (saveC E ''CLOSE_INTENT'' (obj [(''expected'', at state ''sequence'')]) False)
              (gateC E (\<lambda>node os. close_gate node os (at op ''id'') state))) (\<lambda>state.
     thenC (setC ''gate_owned'' (JBool True))
    (thenC (setC ''gate_sequence'' (at state ''sequence'')) (saveC E ''CLOSED'' (JObj []) False))))))"

definition is_rollback :: "json \<Rightarrow> bool" where "is_rollback op = (at op ''direction'' = jlit ''ROLLBACK'')"

text \<open>\<open>op["startup"][k] = v\<close> and \<open>op["checks"][k] = v\<close>\<close>

definition set_inside :: "string \<Rightarrow> string \<Rightarrow> json \<Rightarrow> ('w, unit) cact" where
  "set_inside key k v = opC (\<lambda>op.
     if is_dict (at op key) then setC key (dset (at op key) (lit k) v) else liftC (Inl (PyError ''TypeError'')))"

abbreviation set_startup :: "string \<Rightarrow> json \<Rightarrow> ('w, unit) cact" where "set_startup \<equiv> set_inside ''startup''"
abbreviation set_check :: "string \<Rightarrow> json \<Rightarrow> ('w, unit) cact" where "set_check \<equiv> set_inside ''checks''"

definition blockC :: "'w coordinator \<Rightarrow> ('w, unit) cact" where
  "blockC E = opC (\<lambda>op.
     thenC (saveC E ''STARTUP_BLOCK_INTENT'' (JObj []) (is_rollback op))
    (bindC (opC (\<lambda>op. callC (env_block_startup (environment E) op))) (\<lambda>current.
     thenC (set_startup ''current'' current)
    (thenC (set_startup ''blocked'' (JBool True)) (saveC E ''STARTUP_BLOCKED'' (JObj []) (is_rollback op))))))"

text \<open>The release, once for all: an open gate with this decision is a release whose reply was lost.\<close>

definition releaseC :: "'w coordinator \<Rightarrow> ('w, unit) cact" where
  "releaseC E = opC (\<lambda>op.
     if \<not> truthy (at op ''gate_owned'') then thenC (setC ''released'' (JBool True)) (saveC E ''NO_OWNED_GATE'' (JObj []) True)
     else bindC (gateC E snapshot) (\<lambda>state.
          bindC (callC (env_selected_deployment (environment E) op)) (\<lambda>selected.
          if at state ''state'' = jlit ''OPEN'' \<and> at state ''decision_id'' = at op ''decision_id'' \<and>
             at state ''deployment_digest'' = at selected ''deployment_digest''
          then thenC (setC ''released'' (JBool True)) (saveC E ''RELEASE_OBSERVED'' (JObj []) True)
          else bindC (callC (env_release_valid (environment E) op)) (\<lambda>pf.
            if get_or pf ''passed'' JNull \<noteq> JBool True then waitC E ''DECISION_REQUIRES_LINKED_REPAIR'' pf
            else thenC (case env_retention (environment E) of
                 None \<Rightarrow> retC ()
               | Some (decisions, activate) \<Rightarrow> bindC (callC (decisions op selected)) (\<lambda>choices.
                   thenC (set_check ''released_compatibility'' choices)
                  (thenC (saveC E ''COMPATIBILITY_DECISIONS'' (JObj []) True) (opC (\<lambda>op. callC (activate op selected))))))
              (thenC (saveC E ''STABLE_SELECTION_INTENT'' (JObj []) True)
              (bindC (opC (\<lambda>op. callC (env_publish_stable (environment E) op))) (\<lambda>current.
               thenC (set_startup ''current'' current)
              (thenC (saveC E ''STABLE_SELECTION'' (JObj []) True)
              (thenC (saveC E ''RELEASE_INTENT'' (JObj []) True)
              (bindC (gateC E (\<lambda>node os. release_gate node os (at op ''id'') (at op ''decision_id'') (at selected ''deployment_digest'') state)) (\<lambda>_.
               thenC (setC ''released'' (JBool True))
              (thenC (setC ''waiting'' JNull) (saveC E ''RELEASED'' (JObj []) True)))))))))))))"

definition decideC :: "'w coordinator \<Rightarrow> string \<Rightarrow> ('w, unit) cact" where
  "decideC E decision =
     thenC (setC ''decision'' (jlit decision))
    (bindC (opC (\<lambda>op. liftC (deploy_digest (obj [(''operation'', at op ''id''), (''decision'', jlit decision)])))) (\<lambda>d.
     thenC (setC ''decision_id'' (JStr (lit ''decision-'' @ take 48 d)))
    (thenC (setC ''phase'' (jlit decision))
    (thenC (setC ''waiting'' JNull)
    (thenC (saveC E ''DECISION'' (obj [(''decision'', jlit decision)]) True) (releaseC E))))))"

text \<open>\<open>self.environment.drain\<close> and \<open>self.gate.active\<close>, then the rest when the business has stopped\<close>

definition drainedC :: "'w coordinator \<Rightarrow> ('w, unit) cact \<Rightarrow> ('w, unit) cact" where
  "drainedC E rest =
     bindC (opC (\<lambda>op. callC (env_drain (environment E) op))) (\<lambda>drain.
     bindC (gateC E gate_active) (\<lambda>active.
     if active \<noteq> [] \<or> get_or drain ''quiescent'' JNull \<noteq> JBool True
     then waitC E ''DRAIN'' (obj [(''accepted_responsibilities'', JInt (int (length active))), (''observation'', drain)]) else rest))"

text \<open>\<open>check_local\<close>, then a decision or a wait\<close>

definition checkedC :: "'w coordinator \<Rightarrow> bool \<Rightarrow> string \<Rightarrow> string \<Rightarrow> bool \<Rightarrow> string \<Rightarrow> ('w, unit) cact \<Rightarrow> ('w, unit) cact" where
  "checkedC E rollback key kind recovery failed rest =
     bindC (opC (\<lambda>op. callC (env_check_local (environment E) op rollback))) (\<lambda>checks.
     thenC (set_check key checks)
    (thenC (saveC E kind (JObj []) recovery)
      (if get_or checks ''passed'' JNull \<noteq> JBool True then waitC E failed (JObj []) else rest)))"

definition unblocked :: "'w coordinator \<Rightarrow> ('w, unit) cact" where
  "unblocked E = opC (\<lambda>op. if truthy (at (at op ''startup'') ''blocked'') then retC () else blockC E)"

definition run_steps :: "'w coordinator \<Rightarrow> (nat \<times> json) list \<Rightarrow> ('w, unit) cact \<Rightarrow> ('w, unit) cact" where
  "run_steps E steps rest = bindC (eachC (\<lambda>(i, step). run_step E (Forward i) step) steps) (\<lambda>ok. if ok then rest else retC ())"

definition isolation_steps :: "json \<Rightarrow> (nat \<times> json) list" where
  "isolation_steps op = filter (\<lambda>(i, step). get_or (at step ''action'') ''phase'' JNull = jlit ''isolate'') (numbered_steps op)"

definition no_change :: "json \<Rightarrow> bool" where
  "no_change op = (plan_steps op = [] \<and>
     at (at (at op ''plan'') ''source'') ''deployment_digest'' = at (at (at op ''plan'') ''target'') ''deployment_digest'')"

definition applying :: "'w coordinator \<Rightarrow> ('w, unit) cact" where
  "applying E =
     thenC (case env_quiesced_retention (environment E) of
         None \<Rightarrow> retC ()
       | Some f \<Rightarrow> bindC (opC (\<lambda>op. callC (f op))) (\<lambda>retained. thenC (set_check ''retained'' retained) (saveC E ''RETAINED_BINDINGS'' (JObj []) False)))
    (thenC (setC ''phase'' (jlit ''QUIESCED''))
    (thenC (saveC E ''QUIESCED'' (JObj []) False)
    (thenC (unblocked E)
    (thenC (setC ''phase'' (jlit ''APPLYING''))
    (thenC (saveC E ''APPLYING'' (JObj []) False)
      (opC (\<lambda>op. run_steps E (numbered_steps op)
        (checkedC E False ''local'' ''LOCAL_CHECK'' False ''LOCAL_CHECK_FAILED''
          (thenC (setC ''phase'' (jlit ''LOCAL_VERIFIED''))
          (thenC (saveC E ''LOCAL_VERIFIED'' (JObj []) False) (decideC E ''COMMITTED'')))))))))))"

definition isolated :: "'w coordinator \<Rightarrow> ('w, unit) cact" where
  "isolated E = opC (\<lambda>op.
     thenC (if truthy (at op ''gate_owned'') then retC () else closeC E)
    (thenC (refreshC E) (opC (\<lambda>op.
      if unresolved op then waitC E ''CALLER_NOT_CLOSED'' (JObj [])
      else if isolation_steps op \<noteq> [] \<or> truthy (get_or (at (at op ''plan'') ''profile'') ''security_repair'' JNull)
      then thenC (unblocked E) (run_steps E (isolation_steps op) (drainedC E (applying E)))
      else drainedC E (applying E)))))"

definition applyC :: "'w coordinator \<Rightarrow> ('w, unit) cact" where
  "applyC E = opC (\<lambda>op.
     thenC (if at op ''phase'' \<noteq> jlit ''PLANNED'' then retC ()
            else bindC (callC (env_preflight (environment E) op)) (\<lambda>checks.
              thenC (set_check ''preflight'' checks)
             (thenC (setC ''phase'' (jlit ''PREPARING'')) (saveC E ''PREFLIGHT'' (JObj []) False))))
      (opC (\<lambda>op. if at op ''phase'' \<noteq> jlit ''PREPARING'' then isolated E
        else thenC (prepareC E)
          (if no_change op then checkedC E False ''local'' ''NO_CHANGE_CHECK'' False ''LOCAL_CHECK_FAILED'' (decideC E ''COMMITTED'')
           else isolated E))))"

definition compensation_entry :: "json \<Rightarrow> json" where
  "compensation_entry action = obj [(''step'', at action ''step''), (''record'', obj
     [(''id'', at (at action ''step'') ''id''), (''state'', jlit ''PLANNED''), (''prepared'', JNull), (''restore'', at action ''prepared''),
      (''attempts'', JList []), (''restore_attempts'', JList []), (''observation'', JNull), (''restore_observation'', JNull), (''effective'', JBool False)])]"

definition prepare_restoration :: "'w coordinator \<Rightarrow> ('w, unit) cact" where
  "prepare_restoration E =
     thenC (blockC E)
    (thenC (saveC E ''RESTORE_PREPARATION_INTENT'' (JObj []) True)
    (bindC (opC (\<lambda>op. callC (env_prepare_compensation (environment E) op))) (\<lambda>actions.
     bindC (storeC (\<lambda>st. raise_if (int (length actions) > max_steps (ds_limits st)) (DeployError ''STATE_LIMIT'' ''Compensation exceeds the fixed action count''))) (\<lambda>_.
     thenC (setC ''compensation'' (JList (map compensation_entry actions))) (saveC E ''RESTORE_PREPARED'' (JObj []) True)))))"

definition restore_step :: "'w coordinator \<Rightarrow> nat \<times> json \<Rightarrow> ('w, bool) cact" where
  "restore_step E entry = (case entry of (i, step) \<Rightarrow> opC (\<lambda>op.
     if truthy (get_or (record_at (Restore i) op) ''covered_by'' JNull) then retC True else run_step E (Restore i) step))"

definition restoreC :: "'w coordinator \<Rightarrow> ('w, unit) cact" where
  "restoreC E =
     thenC (opC (\<lambda>op. if has_compensation op then retC () else prepare_restoration E))
    (thenC (refreshC E)
      (opC (\<lambda>op. bindC (eachC (restore_step E) (numbered_entries op)) (\<lambda>ok.
        if ok then checkedC E True ''restored'' ''RESTORATION_CHECK'' True ''RESTORATION_CHECK_FAILED'' (decideC E ''ROLLED_BACK'') else retC ()))))"

definition rollbackC :: "'w coordinator \<Rightarrow> ('w, unit) cact" where
  "rollbackC E =
     thenC (refreshC E) (opC (\<lambda>op.
       if unresolved op then waitC E ''CALLER_NOT_CLOSED'' (JObj [])
       else if \<not> has_effects op then decideC E ''ABORTED_NO_CHANGE''
       else thenC (if truthy (at op ''gate_owned'') then retC () else closeC E) (drainedC E (restoreC E))))"

section \<open>Handoff\<close>

definition receive_gate :: "'w coordinator \<Rightarrow> json \<Rightarrow> ('w, unit) cact" where
  "receive_gate E successor = opC (\<lambda>op.
     bindC (gateC E snapshot) (\<lambda>state.
     bindC (if closed_by state (at op ''id'')
            then thenC (saveC E ''HANDOFF_INTENT'' (obj [(''successor'', at successor ''id'')]) True)
              (gateC E (\<lambda>node os. handoff node os (at op ''id'') (at successor ''id'') state))
            else retC state) (\<lambda>state.
     if \<not> closed_by state (at successor ''id'')
     then liftC (Inl (DeployError ''HANDOFF_CONFLICT'' ''Maintenance ownership does not match the linked handoff''))
     else bindC (save_other E (dupdate successor [(lit ''gate_owned'', JBool True), (lit ''gate_sequence'', at state ''sequence'')]) ''HANDOFF_RECEIVED'' (JObj []) True)
       (\<lambda>_. retC ()))))"

definition handoffC :: "'w coordinator \<Rightarrow> ('w, unit) cact" where
  "handoffC E = opC (\<lambda>op.
     if truthy (at op ''handoff_complete'') then retC ()
     else thenC (record_implementation E)
      (bindC (opC (\<lambda>op. storeC (deploy_get (at op ''successor'')))) (\<lambda>successor.
       bindC (opC (\<lambda>op. liftC (inheritance op))) (\<lambda>inherited.
       bindC (if inherited \<noteq> [] \<and> \<not> jeq (get_or successor ''inherited'' JNull) (JList inherited)
              then save_other E (dset successor (lit ''inherited'') (JList inherited)) ''INHERITED_EFFECTS'' (JObj []) True else retC successor) (\<lambda>successor.
       thenC (opC (\<lambda>op. if truthy (at op ''gate_owned'') \<and> \<not> truthy (at op ''released'') then receive_gate E successor else retC ()))
      (thenC (setC ''handoff_complete'' (JBool True))
      (thenC (setC ''waiting'' JNull) (saveC E ''HANDED_OFF'' (JObj []) True))))))))"

section \<open>The calls\<close>

definition adopt :: "'w coordinator \<Rightarrow> ('w, unit) cact" where
  "adopt E = (case env_for_operation (environment E) of None \<Rightarrow> retC () | Some f \<Rightarrow> opC (\<lambda>op. callC (f op)))"

definition runC :: "'w coordinator \<Rightarrow> ('w, unit) cact" where
  "runC E = thenC (adopt E) (opC (\<lambda>op.
     if truthy (at op ''successor'') then handoffC E
     else if truthy (at op ''released'') then retC ()
     else thenC (record_implementation E)
       (tryC (opC (\<lambda>op. if truthy (at op ''decision'') then releaseC E else if is_rollback op then rollbackC E else applyC E)) (errorC E))))"

text \<open>
  \<open>with self.store.locked(): ...\<close>; the operation of the call is its result.  A \<open>BlockingIOError\<close> of the body
  is reported as a busy node, as one of the lock itself is.
\<close>

definition busy_error :: "exn \<Rightarrow> exn" where
  "busy_error e = (if e = PyError ''BlockingIOError''
     then DeployError ''DEPLOYMENT_BUSY'' ''Another deployment or supervised caller owns the node'' else e)"

definition with_lock :: "'w coordinator \<Rightarrow> ('w, unit) cact \<Rightarrow> ('w, json) cact" where
  "with_lock E body s =
     (if ds_open (co_store s) then (Inl (DeployError ''LOCK_ORDER'' ''Deployment lock is not reentrant''), s)
      else case lock_of E of
        Inl e \<Rightarrow> (Inl (busy_error e), s)
      | Inr _ \<Rightarrow> (case body (s\<lparr>co_store := co_store s\<lparr>ds_open := True\<rparr>\<rparr>) of
          (r, s') \<Rightarrow> (case r of Inl e \<Rightarrow> Inl (busy_error e) | Inr _ \<Rightarrow> Inr (co_op s'), s'\<lparr>co_store := co_store s'\<lparr>ds_open := False\<rparr>\<rparr>)))"

definition recovery_required :: "string \<Rightarrow> exn" where "recovery_required m = DeployError ''RECOVERY_REQUIRED'' m"

definition becomeC :: "json \<Rightarrow> ('w, unit) cact" where "becomeC op = editC (\<lambda>_. op)"

definition coordinate_apply :: "'w coordinator \<Rightarrow> json \<Rightarrow> ('w, json) cact" where
  "coordinate_apply E p =
     bindC (storeC (store_plan p)) (\<lambda>_.
     with_lock E
      (bindC (storeC (deploy_list False)) (\<lambda>ops.
       let existing = find (\<lambda>op. jeq (at (at op ''plan'') ''request_id'') (at p ''request_id'')) ops in
       bindC (if existing = None then storeC (deploy_list True) else retC []) (\<lambda>open_ops.
       thenC (liftC (raise_if (existing = None \<and> open_ops \<noteq> []) (recovery_required ''Resume or explicitly hand off the existing operation before creating another'')))
      (thenC (liftC (raise_if (existing = None \<and> truthy (get_or (at p ''profile'') ''recovery_from'' JNull))
          (recovery_required ''A corrective plan must be linked with supersede, not applied independently'')))
      (bindC (createC E p) (\<lambda>operation.
       bindC (storeC (deploy_list True)) (\<lambda>open_ops.
       let others = filter (\<lambda>op. \<not> jeq (at op ''id'') (at operation ''id'') \<and> \<not> jeq (at op ''successor'') (at operation ''id'')) open_ops in
       thenC (liftC (raise_if (others \<noteq> [] \<and> \<not> truthy (at operation ''released'') \<and> \<not> truthy (at operation ''successor''))
           (recovery_required ''Another recorded operation requires resume or explicit handoff'')))
      (thenC (becomeC operation) (runC E))))))))))"

definition coordinate_resume :: "'w coordinator \<Rightarrow> json \<Rightarrow> ('w, json) cact" where
  "coordinate_resume E ident = with_lock E (bindC (storeC (deploy_get ident)) (\<lambda>op. thenC (becomeC op) (runC E)))"

definition rollback_successor_of :: "'w coordinator \<Rightarrow> ('w, unit) cact" where
  "rollback_successor_of E = opC (\<lambda>op.
     bindC (liftC (deploy_digest (obj [(''operation'', at op ''id''), (''decision'', at op ''decision_id'')]))) (\<lambda>d.
     bindC (callC (env_restored_plan (environment E) op (JStr (lit ''rollback-'' @ take 48 d)))) (\<lambda>p.
     bindC (linkC E p True) (\<lambda>successor. thenC (becomeC successor) (runC E)))))"

definition coordinate_rollback :: "'w coordinator \<Rightarrow> json \<Rightarrow> ('w, json) cact" where
  "coordinate_rollback E ident = with_lock E (bindC (storeC (deploy_get ident)) (\<lambda>op.
     thenC (becomeC op) (thenC (adopt E)
      (if truthy (at op ''successor'') then handoffC E
       else if truthy (at op ''rollback_successor'')
       then bindC (storeC (deploy_get (at op ''rollback_successor''))) (\<lambda>successor. thenC (becomeC successor) (runC E))
       else if at op ''decision'' = jlit ''COMMITTED'' then rollback_successor_of E
       else if truthy (at op ''decision'') then runC E
       else thenC (if is_rollback op then retC ()
              else thenC (setC ''direction'' (jlit ''ROLLBACK'')) (saveC E ''ROLLBACK_SELECTED'' (JObj []) True)) (runC E)))))"

definition coordinate_supersede :: "'w coordinator \<Rightarrow> json \<Rightarrow> json \<Rightarrow> ('w, json) cact" where
  "coordinate_supersede E ident p =
     bindC (storeC (store_plan p)) (\<lambda>_.
     with_lock E (bindC (storeC (deploy_get ident)) (\<lambda>op.
     thenC (becomeC op) (thenC (adopt E)
      (if truthy (at op ''successor'')
       then bindC (storeC (deploy_get (at op ''successor''))) (\<lambda>successor.
         thenC (liftC (raise_if (\<not> jeq (at (at successor ''plan'') ''digest'') (at p ''digest'')) (DeployError ''REQUEST_CONFLICT'' ''A different handoff is already recorded'')))
           (handoffC E))
       else thenC (case env_validate_successor (environment E) of None \<Rightarrow> retC () | Some f \<Rightarrow> callC (f op p))
        (if truthy (at op ''released'') then bindC (linkC E p False) (\<lambda>_. handoffC E)
         else thenC (record_implementation E) (thenC (refreshC E) (opC (\<lambda>op.
           if unresolved op then waitC E ''CALLER_NOT_CLOSED'' (JObj [])
           else bindC (liftC (inheritance op)) (\<lambda>inherited.
             bindC (linkC E p False) (\<lambda>successor.
             bindC (if inherited \<noteq> [] then save_other E (dset successor (lit ''inherited'') (JList inherited)) ''INHERITED_EFFECTS''
                      (obj [(''predecessor'', at op ''id'')]) True else retC successor) (\<lambda>_.
             handoffC E))))))))))))"

end
