(* ===== verification/CoordinatorProps.thy ===== *)
theory CoordinatorProps
  imports Coordinator StoreProps MaintenanceProps
begin

text \<open>
  What the resume protocol promises, whatever its environment does: an effect is only dispatched when the
  operation with its intent is what the store holds, decided and handed-off operations dispatch nothing, and
  every call is a history of calls of the store.
\<close>

section \<open>Statements and what they leave\<close>

text \<open>
  Changes of the operation on the way through a step: fields other than those that say who holds the gate, and
  changes of one record that leave it a dictionary.
\<close>

abbreviation special :: "string set" where "special \<equiv> {''gate_owned'', ''startup'', ''steps'', ''compensation''}"

definition edited :: "json \<Rightarrow> json \<Rightarrow> bool" where
  "edited = (\<lambda>op op'. (\<exists>k v. k \<notin> special \<and> op' = dset op (lit k) v) \<or>
     (\<exists>p f. (\<forall>r. is_dict r \<longrightarrow> is_dict (f r)) \<and> op' = put_record p f op))\<^sup>*\<^sup>*"

lemma edited_refl: "edited op op"
  by (simp add: edited_def)

lemma edited_trans: "edited op op' \<Longrightarrow> edited op' op'' \<Longrightarrow> edited op op''"
  unfolding edited_def by (rule rtranclp_trans)

lemma edited_dset: "k \<notin> special \<Longrightarrow> edited op (dset op (lit k) v)"
  unfolding edited_def by (rule r_into_rtranclp) blast

lemma edited_put: "(\<And>r. is_dict r \<Longrightarrow> is_dict (f r)) \<Longrightarrow> edited op (put_record p f op)"
  unfolding edited_def by (rule r_into_rtranclp) blast

lemma edited_set: "edited op (set_record p k v op)" "edited op (set_attempts p xs op)"
  by (simp_all add: set_attempts_def set_record_def edited_put)

lemma edited_attempt: "edited op (set_attempt p changes op)"
  by (simp add: set_attempt_def edited_refl edited_set)

lemma edited_effective: "edited op (mark_effective p observed op)"
  by (simp add: mark_effective_def edited_refl edited_set)

lemmas edits = edited_refl edited_dset edited_put edited_set edited_attempt edited_effective edited_trans [OF edited_set(2) edited_set(1)]

text \<open>\<open>R\<close> relates the state before a statement to the state after it, whether or not it raised.\<close>

definition relC :: "('w coordination \<Rightarrow> 'w coordination \<Rightarrow> bool) \<Rightarrow> ('w, 'a) cact \<Rightarrow> bool" where
  "relC R m \<longleftrightarrow> (\<forall>s. R s (snd (m s)))"

locale stepping =
  fixes R :: "'w coordination \<Rightarrow> 'w coordination \<Rightarrow> bool"
  assumes same: "R s s" and step: "R s t \<Longrightarrow> R t u \<Longrightarrow> R s u"
    and out: "R s (s\<lparr>co_out := w\<rparr>)" and count: "R s (s\<lparr>co_count := n\<rparr>)"
    and field: "k \<notin> special \<Longrightarrow> R s (s\<lparr>co_op := dset (co_op s) (lit k) v\<rparr>)"
    and put: "(\<And>r. is_dict r \<Longrightarrow> is_dict (f r)) \<Longrightarrow> R s (s\<lparr>co_op := put_record p f (co_op s)\<rparr>)"
    and save: "R s (s\<lparr>co_op := fst (snd (deploy_save c clock (co_op s) kind detail recovery (co_store s))),
      co_store := snd (snd (deploy_save c clock (co_op s) kind detail recovery (co_store s)))\<rparr>)"
begin

lemma rel_ret: "relC R (retC x)" "relC R (liftC r)" "relC R (storeC f)"
  by (simp_all add: relC_def retC_def liftC_def storeC_def same)

lemma rel_bind: "relC R m \<Longrightarrow> (\<And>x. relC R (f x)) \<Longrightarrow> relC R (bindC m f)"
  unfolding relC_def bindC_def by (auto split: prod.splits sum.splits) (metis snd_conv step)+

lemma rel_then: "relC R m \<Longrightarrow> relC R n \<Longrightarrow> relC R (thenC m n)"
  unfolding thenC_def by (rule rel_bind)

lemma rel_op: "(\<And>op. relC R (f op)) \<Longrightarrow> relC R (opC f)"
  by (simp add: relC_def opC_def)

lemma rel_if: "(c \<Longrightarrow> relC R m) \<Longrightarrow> (\<not> c \<Longrightarrow> relC R n) \<Longrightarrow> relC R (if c then m else n)"
  by simp

lemma rel_option: "(x = None \<Longrightarrow> relC R m) \<Longrightarrow> (\<And>y. x = Some y \<Longrightarrow> relC R (f y)) \<Longrightarrow> relC R (case x of None \<Rightarrow> m | Some y \<Rightarrow> f y)"
  by (simp split: option.split)

lemma rel_each: "(\<And>x. relC R (f x)) \<Longrightarrow> relC R (eachC f xs)"
  by (induction xs) (auto intro!: rel_bind rel_ret)

lemma rel_for: "(\<And>x. relC R (f x)) \<Longrightarrow> relC R (forC f xs)"
  by (induction xs) (auto intro!: rel_then rel_ret)

lemma rel_fold: "(\<And>c x. relC R (f c x)) \<Longrightarrow> relC R (foldC f c xs)"
  by (induction xs arbitrary: c) (auto intro!: rel_bind rel_ret)

lemma rel_now: "relC R (nowC E)"
  by (simp add: relC_def nowC_def count)

lemma rel_call: "relC R (callC q)"
  by (auto simp: relC_def callC_def out split: prod.split)

lemma rel_gate: "relC R (gateC E f)"
proof -
  have "R s (s\<lparr>co_out := w, co_count := n\<rparr>)" for s w n
    using step [OF out [of s w] count [of "s\<lparr>co_out := w\<rparr>" n]] by simp
  then show ?thesis by (auto simp: relC_def gateC_def split: prod.split)
qed

lemma rel_edit: "(\<And>op. edited op (f op)) \<Longrightarrow> relC R (editC f)"
proof -
  have "R s (s\<lparr>co_op := op'\<rparr>)" if "edited (co_op s) op'" for s op'
    using that unfolding edited_def
  proof (induction rule: rtranclp_induct)
    case base
    then show ?case by (simp add: same)
  next
    case (step y z)
    then have "R (s\<lparr>co_op := y\<rparr>) (s\<lparr>co_op := z\<rparr>)" using field [of _ "s\<lparr>co_op := y\<rparr>"] put [of _ "s\<lparr>co_op := y\<rparr>"] by auto
    from stepping.step [OF stepping_axioms step.IH this] show ?case .
  qed
  then show "(\<And>op. edited op (f op)) \<Longrightarrow> relC R (editC f)" by (simp add: relC_def editC_def)
qed

lemma rel_set: "k \<notin> special \<Longrightarrow> relC R (setC k v)"
  by (simp add: relC_def editC_def field)

lemma rel_save: "relC R (saveC E kind detail recovery)"
  unfolding relC_def saveC_def
  by (simp add: split_beta step [OF save count])

lemma rel_check: "relC R (set_check k v)"
  unfolding set_inside_def by (intro rel_op rel_if rel_set rel_ret) simp

lemma rel_budget: "relC R (budgetC E restore)"
proof -
  have "relC R (\<lambda>s. bindC (opC (\<lambda>op. storeC (check_attempt_budget (pages_of E n) op restore))) (setC ''record_budget'') s)" for n
    by (rule rel_bind) (simp_all add: rel_op rel_ret rel_set)
  then show ?thesis unfolding relC_def budgetC_def by blast
qed

lemma rel_supervise: "(\<And>b. relC R (persist b)) \<Longrightarrow> relC R (superviseC persist x)"
proof (induction x)
  case (Returned r w)
  then show ?case by (simp add: relC_def out)
next
  case (Persist b k)
  have "R s (snd (superviseC persist (Persist b k) s))" for s
  proof -
    obtain r s' where p: "persist b s = (r, s')" by fastforce
    then have "R s s'" using Persist(2) [of b] unfolding relC_def by (metis snd_conv)
    moreover have "R s' (snd (superviseC persist (k r) s'))" using Persist(1) [of "k r"] Persist(2) by (simp add: relC_def)
    ultimately show ?thesis using p by (auto intro: step)
  qed
  then show ?case by (simp add: relC_def)
qed

lemma rel_execute: "(\<And>b. relC R (persist b)) \<Longrightarrow> relC R (executeC E p step aid previous persist)"
  using rel_supervise unfolding relC_def executeC_def by blast

lemma rel_try: "relC R m \<Longrightarrow> (\<And>e. relC R (h e)) \<Longrightarrow> relC R (tryC m h)"
  unfolding relC_def tryC_def by (auto split: prod.splits sum.splits) (metis snd_conv step)+

lemmas rel_rules = rel_ret rel_op rel_if rel_option rel_each rel_for rel_fold rel_now rel_call rel_gate rel_set rel_save rel_check rel_budget rel_execute rel_try rel_then rel_bind rel_edit edits

lemma rel_wait: "relC R (waitC E reason detail)" "relC R (wait_step E reason detail)"
  by (auto simp: waitC_def wait_step_def intro!: rel_rules)

lemma rel_error: "relC R (errorC E e)"
  by (auto simp: errorC_def Let_def intro!: rel_rules rel_wait)

lemma rel_identity: "relC R (retain_effect_identity E p step)" "relC R (identity_retained E p step)"
  by (auto simp: retain_effect_identity_def identity_retained_def identity_of_def bind_identity_def Let_def intro!: rel_rules)

lemma rel_done: "relC R (step_done E p step)" "relC R (settle_step E p step observed)"
  by (auto simp: step_done_def settle_step_def intro!: rel_rules rel_wait)

lemma rel_intent: "relC R (persist_binding E p step aid b)" "relC R (attempt_intent E p step aid)"
  by (auto simp: persist_binding_def attempt_intent_def intro!: rel_rules)

lemma rel_attempt: "relC R (attempt_step E p step)"
  by (auto simp: attempt_step_def intro!: rel_rules rel_wait rel_done rel_intent rel_identity)

lemma rel_step: "relC R (run_step E p step)"
  by (auto simp: run_step_def intro!: rel_rules rel_wait rel_done rel_attempt rel_identity)

lemma rel_observe: "relC R (observe_again E p step)"
  by (auto simp: observe_again_def intro!: rel_rules rel_identity)

lemma rel_refresh: "relC R (refreshC E)"
proof -
  have "relC R (refresh_forward E c entry)" "relC R (refresh_restored E c entry)" for c entry
    by (auto simp: refresh_forward_def refresh_restored_def Let_def split: prod.split intro!: rel_rules rel_identity rel_observe)
  then show ?thesis by (auto simp: refreshC_def Let_def intro!: rel_rules)
qed

end

text \<open>The rest of the protocol also takes the gate, blocks the startup and chooses the compensation.\<close>

locale coordinated = stepping +
  assumes other: "R s (s\<lparr>co_store := snd (snd (deploy_save c clock v kind detail recovery (co_store s)))\<rparr>)"
    and owned: "R s (s\<lparr>co_op := dset (co_op s) (lit ''gate_owned'') (JBool True)\<rparr>)"
    and startup: "k = ''current'' \<or> v = JBool True \<Longrightarrow>
      R s (s\<lparr>co_op := dset (co_op s) (lit ''startup'') (dset (at (co_op s) ''startup'') (lit k) v)\<rparr>)"
    and chosen: "R s (s\<lparr>co_op := dset (co_op s) (lit ''compensation'') v\<rparr>)"
begin

lemma rel_other: "relC R (save_other E v kind detail recovery)"
  unfolding relC_def save_other_def
  by (simp add: split_beta step [OF other count])

lemma rel_owned: "relC R (setC ''gate_owned'' (JBool True))"
  by (simp add: relC_def editC_def owned)

lemma rel_startup: "k = ''current'' \<or> v = JBool True \<Longrightarrow> relC R (set_startup k v)"
  by (simp add: relC_def editC_def opC_def liftC_def set_inside_def startup same)

lemma rel_chosen: "relC R (setC ''compensation'' v)"
  by (simp add: relC_def editC_def chosen)

lemmas all_rules = rel_rules rel_other rel_owned rel_startup rel_chosen

lemma rel_implementation: "relC R (record_implementation E)"
  by (auto simp: record_implementation_def intro!: rel_rules)

lemma rel_phases: "relC R (prepareC E)" "relC R (closeC E)" "relC R (blockC E)" "relC R (unblocked E)"
  by (auto simp: prepareC_def prepare_step_def closeC_def blockC_def unblocked_def split: prod.split intro!: all_rules)

lemma rel_release: "relC R (releaseC E)"
  by (auto simp: releaseC_def split: prod.split intro!: all_rules rel_wait)

lemma rel_decide: "relC R (decideC E decision)"
  by (auto simp: decideC_def intro!: all_rules rel_release)

lemma rel_guarded: "relC R rest \<Longrightarrow> relC R (drainedC E rest)" "relC R rest \<Longrightarrow> relC R (checkedC E rollback key kind recovery failed rest)"
  "relC R rest \<Longrightarrow> relC R (run_steps E steps rest)"
  by (auto simp: drainedC_def checkedC_def run_steps_def split: prod.split intro!: all_rules rel_wait rel_step)

lemma rel_apply: "relC R (applying E)" "relC R (isolated E)" "relC R (applyC E)"
proof -
  show a: "relC R (applying E)"
    by (auto simp: applying_def intro!: all_rules rel_phases rel_guarded rel_decide)
  show i: "relC R (isolated E)"
    by (auto simp: isolated_def intro!: all_rules rel_phases rel_guarded rel_refresh rel_wait a)
  show "relC R (applyC E)"
    by (auto simp: applyC_def intro!: all_rules rel_phases rel_guarded rel_decide i)
qed

lemma rel_restore: "relC R (prepare_restoration E)" "relC R (restoreC E)" "relC R (rollbackC E)"
proof -
  show p: "relC R (prepare_restoration E)"
    by (auto simp: prepare_restoration_def intro!: all_rules rel_phases)
  show r: "relC R (restoreC E)"
    by (auto simp: restoreC_def restore_step_def split: prod.split intro!: all_rules p rel_refresh rel_step rel_guarded rel_decide)
  show "relC R (rollbackC E)"
    by (auto simp: rollbackC_def intro!: all_rules rel_refresh rel_wait rel_decide rel_phases rel_guarded r)
qed

lemma rel_handoff: "relC R (handoffC E)"
  by (auto simp: handoffC_def receive_gate_def intro!: all_rules rel_implementation)

lemma rel_run: "relC R (adopt E)" "relC R (runC E)"
proof -
  show a: "relC R (adopt E)" by (auto simp: adopt_def intro!: all_rules)
  show "relC R (runC E)"
    by (auto simp: runC_def intro!: all_rules a rel_handoff rel_implementation rel_error rel_release rel_restore(3) rel_apply(3))
qed

end

section \<open>Every call is a history of the store\<close>

lemma store_run_trans: "store_run t j u \<Longrightarrow> store_run s k t \<Longrightarrow> store_run s (k + j) u"
proof (induction rule: store_run.induct)
  case (save i v recovery out clock op kind detail)
  then have "store_run s (k + i + (if recovery then 1 else 0)) (snd (snd (deploy_save out clock op kind detail recovery v)))"
    by (intro store_run.save) simp
  then show ?case by (simp only: add.assoc)
next
  case (link i v out clock op p rollback)
  then have "store_run s (k + i + 2) (snd (snd (deploy_link out clock op p rollback v)))" by (intro store_run.link) simp
  then show ?case by (simp only: add.assoc)
qed (simp_all add: store_run.lock store_run.create)

definition evolves :: "'w coordination \<Rightarrow> 'w coordination \<Rightarrow> bool" where
  "evolves s s' \<longleftrightarrow> (\<exists>k. store_run (co_store s) k (co_store s'))"

interpretation stored: coordinated evolves
proof
  show "evolves s s" for s :: "'w coordination" unfolding evolves_def using store_run.start by blast
  show "evolves s t \<Longrightarrow> evolves t u \<Longrightarrow> evolves s u" for s t u :: "'w coordination" unfolding evolves_def using store_run_trans by blast
qed (auto simp: evolves_def intro: store_run.start store_run.save [OF store_run.start])

lemma evolves_link: "relC evolves (linkC E p rollback)"
  by (auto simp: relC_def linkC_def evolves_def split_beta intro: store_run.link [OF store_run.start])

lemma evolves_create: "relC evolves (createC E p)"
  by (auto simp: relC_def createC_def evolves_def split_beta intro: store_run.create [OF store_run.start])

lemma evolves_become: "relC evolves (becomeC op)"
  by (auto simp: relC_def becomeC_def editC_def evolves_def intro: store_run.start)

lemma evolves_lock: "relC evolves body \<Longrightarrow> relC evolves (with_lock E body)"
proof -
  assume body: "relC evolves body"
  have "evolves s (snd (with_lock E body s))" for s
  proof -
    define t where "t = s\<lparr>co_store := co_store s\<lparr>ds_open := True\<rparr>\<rparr>"
    obtain k where "store_run (co_store t) k (co_store (snd (body t)))" using body by (auto simp: relC_def evolves_def)
    moreover have "store_run (co_store s) 0 (co_store t)" by (simp add: t_def store_run.lock store_run.start)
    ultimately have "store_run (co_store s) k (co_store (snd (body t)))" using store_run_trans by fastforce
    then have "store_run (co_store s) k (co_store (snd (body t))\<lparr>ds_open := False\<rparr>)" by (rule store_run.lock)
    then have "evolves s (snd (body t)\<lparr>co_store := co_store (snd (body t))\<lparr>ds_open := False\<rparr>\<rparr>)" by (auto simp: evolves_def)
    then show ?thesis using stored.same [of s] by (simp add: with_lock_def split_beta t_def split: sum.split)
  qed
  then show ?thesis by (simp add: relC_def)
qed

lemmas evolves_rules = evolves_lock evolves_link evolves_create evolves_become stored.rel_run stored.all_rules stored.rel_handoff stored.rel_implementation
  stored.rel_refresh stored.rel_wait

text \<open>No row is lost or given another request or plan, and no event is lost or changed.\<close>

definition grows :: "deploy_db \<Rightarrow> deploy_db \<Rightarrow> bool" where
  "grows d d' \<longleftrightarrow> prefix (map row_key (d_operations d)) (map row_key (d_operations d')) \<and> prefix (d_events d) (d_events d')"

lemma row_keys_put: "map row_key (d_operations (put_document i raw d)) = map row_key (d_operations d)"
  by (auto simp: put_document_def row_key_def)

interpretation growing: store_invariant "\<lambda>l k. grows d0" for d0
proof
  fix l k d now op kind detail recovery d'
  assume "grows d0 d" and put: "put_event l now op kind detail recovery d = Inr d'"
  then show "grows d0 d'" using put_event_Inr(2,4) [OF put] by (auto simp: grows_def)
next
  fix k d i raw
  show "grows d0 d \<Longrightarrow> grows d0 (put_document i raw d)" by (simp only: grows_def row_keys_put) (simp add: put_document_def)
qed (auto simp: grows_def dest!: put_operation_Inr)

lemma store_run_grows: "store_run s k t \<Longrightarrow> grows (ds_db s) (ds_db t)"
  using growing.run_keeps [of s k t "ds_db s"] by (simp add: grows_def)


section \<open>Effects are dispatched on record\<close>

text \<open>The operation holds the closed gate and, on the way forward, has blocked the startup.\<close>

definition armed :: "bool \<Rightarrow> json \<Rightarrow> bool" where
  "armed restore op \<longleftrightarrow> truthy (at op ''gate_owned'') \<and> (restore \<or> truthy (at (at op ''startup'') ''blocked''))"

lemma deploy_save_op: "fst (snd (deploy_save out clock op kind detail recovery st)) = op \<or>
    fst (snd (deploy_save out clock op kind detail recovery st)) = dset op (lit ''updated_ns'') (JInt (clock 0))"
  by (auto simp: deploy_save_def Let_def split: sum.split prod.split)

lemma at_not_dict: "\<not> is_dict v \<Longrightarrow> at v k = JNull"
  by (simp add: at_def get_or_def dget_not_dict)

lemma dset_not_dict: "\<not> is_dict v \<Longrightarrow> dset v k x = v"
  by (cases v) (simp_all add: dset_def)

lemma at_other: "k' \<noteq> k \<Longrightarrow> at (dset v (lit k) x) k' = at v k'"
  by (cases "is_dict v") (simp_all add: dset_not_dict)

lemma armed_dict: "armed restore op \<Longrightarrow> is_dict op"
  using at_not_dict [of op "''gate_owned''"] by (cases "is_dict op") (simp_all add: armed_def)

lemma armed_field: "k \<notin> {''gate_owned'', ''startup''} \<Longrightarrow> armed restore op \<Longrightarrow> armed restore (dset op (lit k) v)"
  by (auto simp: armed_def at_other)

lemma armed_save: "armed restore op \<Longrightarrow> armed restore (fst (snd (deploy_save out clock op kind detail recovery st)))"
  using deploy_save_op [of out clock op kind detail recovery st] by (auto intro: armed_field)

definition stays_armed :: "bool \<Rightarrow> 'w coordination \<Rightarrow> 'w coordination \<Rightarrow> bool" where
  "stays_armed restore s s' \<longleftrightarrow> (armed restore (co_op s) \<longrightarrow> armed restore (co_op s'))"

lemma armed_startup: "k = ''current'' \<or> v = JBool True \<Longrightarrow> armed restore op \<Longrightarrow> armed restore (dset op (lit ''startup'') (dset (at op ''startup'') (lit k) v))"
proof -
  assume k: "k = ''current'' \<or> v = JBool True" and a: "armed restore op"
  show ?thesis
  proof (cases "is_dict (at op ''startup'')")
    case True
    then show ?thesis using a k armed_dict [OF a] by (auto simp: armed_def)
  next
    case False
    then show ?thesis using a armed_dict [OF a] by (auto simp: armed_def dset_not_dict)
  qed
qed

interpretation arming: coordinated "stays_armed restore" for restore
proof
  fix k v and s :: "'w coordination"
  assume "k = ''current'' \<or> v = JBool True"
  then show "stays_armed restore s (s\<lparr>co_op := dset (co_op s) (lit ''startup'') (dset (at (co_op s) ''startup'') (lit k) v)\<rparr>)"
    by (simp add: stays_armed_def armed_startup)
next
  fix f p and s :: "'w coordination"
  show "stays_armed restore s (s\<lparr>co_op := put_record p f (co_op s)\<rparr>)"
    by (cases p) (simp_all add: stays_armed_def put_record_def armed_field)
next
  fix s :: "'w coordination"
  show "stays_armed restore s (s\<lparr>co_op := dset (co_op s) (lit ''gate_owned'') (JBool True)\<rparr>)"
    using armed_dict [of restore "co_op s"] by (auto simp: stays_armed_def armed_def)
qed (auto simp: stays_armed_def armed_field armed_save)

text \<open>The record a step works on stays a dictionary.\<close>

definition stays_record :: "place \<Rightarrow> 'w coordination \<Rightarrow> 'w coordination \<Rightarrow> bool" where
  "stays_record p s s' \<longleftrightarrow> (is_dict (record_at p (co_op s)) \<longrightarrow> is_dict (record_at p (co_op s')))"

lemma record_field: "k \<noteq> ''steps'' \<Longrightarrow> k \<noteq> ''compensation'' \<Longrightarrow> record_at p (dset op (lit k) v) = record_at p op"
  by (cases p) (simp_all add: record_at_def step_records_def compensation_def at_other)

lemma record_put:
  assumes "is_dict (record_at p op)"
  shows "record_at p (put_record p f op) = f (record_at p op)"
proof -
  have none: "\<not> is_dict JNull" by simp
  have op: "is_dict op" using assms none
    by (cases "is_dict op"; cases p) (auto simp: record_at_def step_records_def compensation_def nth_or_none_def elements_def at_not_dict split: if_splits)
  show ?thesis
  proof (cases p)
    case (Forward i)
    then have "i < length (step_records op)" using assms none by (auto simp: record_at_def nth_or_none_def split: if_splits)
    then show ?thesis using op Forward by (simp add: record_at_def put_record_def step_records_def elements_def nth_or_none_def)
  next
    case (Restore i)
    then have entry: "i < length (compensation op)" "is_dict (compensation op ! i)"
      using assms none at_not_dict [of "compensation op ! i" "''record''"] at_not_dict [of JNull "''record''"]
      by (cases "i < length (compensation op)"; cases "is_dict (compensation op ! i)"; force simp: record_at_def nth_or_none_def)+
    then show ?thesis using op Restore by (simp add: record_at_def put_record_def compensation_def elements_def nth_or_none_def)
  qed
qed

lemma record_put_other: "q \<noteq> p \<Longrightarrow> record_at p (put_record q f op) = record_at p op"
proof (cases "is_dict op")
  case False
  then show ?thesis by (simp add: put_record_def dset_not_dict split: place.split)
next
  case True
  assume "q \<noteq> p"
  with True show ?thesis
    by (cases p; cases q) (simp_all add: put_record_def record_at_def step_records_def compensation_def elements_def nth_or_none_def)
qed

lemma record_put_dict: "is_dict (record_at p op) \<Longrightarrow> (\<And>r. is_dict r \<Longrightarrow> is_dict (f r)) \<Longrightarrow> is_dict (record_at p (put_record q f op))"
  by (cases "q = p") (simp_all add: record_put record_put_other)

lemma record_save: "record_at p (fst (snd (deploy_save out clock op kind detail recovery st))) = record_at p op"
  using deploy_save_op [of out clock op kind detail recovery st] by (auto simp: record_field)

interpretation recorded: stepping "stays_record p" for p
proof
  fix f q and s :: "'w coordination"
  assume "\<And>r. is_dict r \<Longrightarrow> is_dict (f r)"
  then show "stays_record p s (s\<lparr>co_op := put_record q f (co_op s)\<rparr>)"
    using record_put_dict [of p "co_op s" f q] by (simp add: stays_record_def)
qed (auto simp: stays_record_def record_field record_save)

subsection \<open>What a successful save leaves\<close>

definition saved :: "deploy_store \<Rightarrow> json \<Rightarrow> bool" where
  "saved st op \<longleftrightarrow> (\<exists>r. find_operation (ds_db st) (str_of (fld op ''id'')) = Some r \<and> d_document r = dumps op)"

lemma bindC_Inr: "bindC m f s = (Inr y, u) \<longleftrightarrow> (\<exists>x t. m s = (Inr x, t) \<and> f x t = (Inr y, u))"
  by (auto simp: bindC_def split: prod.splits sum.splits)

lemma thenC_Inr: "thenC m n s = (Inr y, u) \<longleftrightarrow> (\<exists>t. m s = (Inr (), t) \<and> n t = (Inr y, u))"
  by (simp add: thenC_def bindC_Inr)

lemma committing_Inr: "committing out m body s = (Inr (), s') \<Longrightarrow> \<exists>d. body (ds_db s) = Inr d \<and> s' = s\<lparr>ds_db := d\<rparr>"
  by (auto simp: committing_def Let_def split: sum.splits write_outcome.splits)

lemma put_event_document:
  assumes "put_event l now op kind detail recovery d = Inr d'"
  shows "\<exists>e. d' = d\<lparr>d_events := d_events d @ [e]\<rparr> \<and> v_kind e = kind \<and> v_document e = dumps detail"
proof -
  obtain body ident where body: "deploy_canonical detail = Inr body" and d': "(case ident of JStr i \<Rightarrow> if find_operation d i = None then Inl integrity_error
          else Inr (d\<lparr>d_events := d_events d @ [\<lparr>v_operation = i, v_kind = kind, v_recorded_ns = now, v_document = body\<rparr>]\<rparr>)
      | _ \<Rightarrow> Inl integrity_error) = Inr d'"
    using assms unfolding put_event_def bindE_Inr_iff thenE_Inr_iff raise_if_Inr_iff by blast
  have "body = dumps detail" using body by (simp add: deploy_canonical_def split: if_splits)
  then show ?thesis using d' by (cases ident) (auto split: if_splits)
qed

lemma deploy_save_Inr:
  assumes "deploy_save out clock op kind detail recovery st = (Inr (), op', st')"
  shows "op' = dset op (lit ''updated_ns'') (JInt (clock 0)) \<and> is_dict op' \<and> saved st' op' \<and> ds_limits st' = ds_limits st \<and>
    (\<exists>e. d_events (ds_db st') = d_events (ds_db st) @ [e] \<and> v_kind e = kind \<and> v_document e = dumps detail)"
proof -
  define op2 where "op2 = dset op (lit ''updated_ns'') (JInt (clock 0))"
  obtain raw ident where raw: "deploy_canonical op2 = Inr raw" and ident: "sub op2 ''id'' = Inr ident" and op': "op' = op2"
    and c: "committing out ''Cannot persist operation and event atomically''
         (\<lambda>d. if find_operation d (str_of (Some ident)) = None then Inl (DeployError ''NOT_FOUND'' ''Cannot rewrite an unrecorded operation'')
            else put_event (ds_limits st) (clock 1) op2 kind detail recovery (put_document (str_of (Some ident)) raw d)) st = (Inr (), st')"
    using assms unfolding deploy_save_def Let_def op2_def [symmetric]
    by (auto simp: bindE_Inr_iff thenE_Inr_iff split: if_splits sum.splits prod.splits)
  have raw': "raw = dumps op2" using raw by (simp add: deploy_canonical_def split: if_splits)
  from committing_Inr [OF c] obtain d r where r: "find_operation (ds_db st) (str_of (Some ident)) = Some r"
    and e: "put_event (ds_limits st) (clock 1) op2 kind detail recovery (put_document (str_of (Some ident)) raw (ds_db st)) = Inr d" and st': "st' = st\<lparr>ds_db := d\<rparr>"
    by (auto split: if_splits)
  from put_event_document [OF e] obtain ev where d: "d = (put_document (str_of (Some ident)) raw (ds_db st))\<lparr>d_events := d_events (ds_db st) @ [ev]\<rparr>"
    and ev: "v_kind ev = kind" "v_document ev = dumps detail" by (auto simp: put_document_def)
  have "find_operation d (str_of (Some ident)) = Some (r\<lparr>d_document := raw\<rparr>)"
    using find_operation_put [of "str_of (Some ident)" raw "ds_db st"] r by (simp add: d find_operation_def)
  then have "saved st' op2" using ident by (simp add: saved_def st' raw' sub_Inr_iff)
  moreover have "is_dict op2" using ident dget_not_dict [of op2] by (fastforce simp: sub_Inr_iff)
  ultimately show ?thesis using op' ev by (simp add: op2_def st' d)
qed

lemma saveC_Inr:
  assumes "saveC E kind detail recovery s = (Inr (), t)"
  shows "(\<exists>now. co_op t = dset (co_op s) (lit ''updated_ns'') (JInt now)) \<and> is_dict (co_op t) \<and> saved (co_store t) (co_op t) \<and> ds_limits (co_store t) = ds_limits (co_store s) \<and>
    (\<exists>e. d_events (ds_db (co_store t)) = d_events (ds_db (co_store s)) @ [e] \<and> v_kind e = kind \<and> v_document e = dumps detail)"
proof -
  obtain op st where "deploy_save (commit_of E (co_count s)) (clock_of E (co_count s)) (co_op s) kind detail recovery (co_store s) = (Inr (), op, st)"
    and t: "t = s\<lparr>co_op := op, co_store := st, co_count := co_count s + 1\<rparr>"
    using assms by (auto simp: saveC_def split: prod.splits)
  from deploy_save_Inr [OF this(1)] show ?thesis by (auto simp: t)
qed

lemma editC_Inr [simp]: "editC f s = (Inr (), t) \<longleftrightarrow> t = s\<lparr>co_op := f (co_op s)\<rparr>"
  by (auto simp: editC_def)

lemma callC_Inr: "callC q s = (Inr x, t) \<Longrightarrow> co_op t = co_op s \<and> co_store t = co_store s"
  by (auto simp: callC_def split: prod.splits)

lemma budgetC_Inr: "budgetC E restore s = (Inr (), t) \<Longrightarrow> (\<exists>v. co_op t = dset (co_op s) (lit ''record_budget'') v) \<and> co_store t = co_store s"
  by (auto simp: budgetC_def bindC_Inr opC_def storeC_def)

lemma attempts_field: "k \<noteq> ''steps'' \<Longrightarrow> k \<noteq> ''compensation'' \<Longrightarrow> attempts_at p (dset op (lit k) v) = attempts_at p op"
  by (simp add: attempts_at_def record_field)

lemma attempt_edit:
  fixes xs
  assumes "is_dict (record_at p op)"
  defines "op' \<equiv> set_record p ''state'' (jlit ''INTENT_RECORDED'') (set_attempts p xs op)"
  shows "attempts_at p op' = xs" "at (record_at p op') ''state'' = jlit ''INTENT_RECORDED''"
proof -
  have r: "record_at p (set_attempts p xs op) = dset (record_at p op) (lit (attempts_key p)) (JList xs)"
    using record_put [OF assms(1)] by (simp add: set_attempts_def set_record_def)
  have "record_at p op' = dset (dset (record_at p op) (lit (attempts_key p)) (JList xs)) (lit ''state'') (jlit ''INTENT_RECORDED'')"
    unfolding op'_def set_record_def using r assms(1) by (subst record_put) simp_all
  then show "attempts_at p op' = xs" "at (record_at p op') ''state'' = jlit ''INTENT_RECORDED''"
    using assms(1) by (auto simp: attempts_at_def attempts_key_def elements_def)
qed

lemma attempt_intent_Inr:
  assumes run: "attempt_intent E p step aid s = (Inr (), t)" and r: "is_dict (record_at p (co_op s))"
  shows "saved (co_store t) (co_op t)" "ds_limits (co_store t) = ds_limits (co_store s)"
    "\<exists>e1 e2. d_events (ds_db (co_store t)) = d_events (ds_db (co_store s)) @ [e1, e2] \<and> v_kind e1 = (if restoring p then ''RESTORE_INTENT'' else ''ACTION_INTENT'') \<and>
       v_document e1 = dumps (step_detail step [(''attempt_id'', aid)]) \<and> v_kind e2 = ''CANDIDATE_STARTUP_INTENT''"
    "attempts_at p (co_op t) = attempts_at p (co_op s) @ [new_attempt aid]" "at (record_at p (co_op t)) ''state'' = jlit ''INTENT_RECORDED''"
proof -
  obtain s1 s3 s4 where s1: "budgetC E (restoring p) s = (Inr (), s1)"
    and s3: "saveC E (if restoring p then ''RESTORE_INTENT'' else ''ACTION_INTENT'') (step_detail step [(''attempt_id'', aid)]) (restoring p)
       (s1\<lparr>co_op := set_record p ''state'' (jlit ''INTENT_RECORDED'') (set_attempts p (attempts_at p (co_op s1) @ [new_attempt aid]) (co_op s1))\<rparr>) = (Inr (), s3)"
    and s4: "saveC E ''CANDIDATE_STARTUP_INTENT'' (step_detail step [(''attempt_id'', aid)]) (restoring p) s3 = (Inr (), s4)"
    and t: "co_op t = co_op s4" "co_store t = co_store s4"
    using run by (auto simp: attempt_intent_def thenC_Inr bindC_Inr opC_def retC_def dest!: callC_Inr)
  note b = budgetC_Inr [OF s1] and i = saveC_Inr [OF s3] and c = saveC_Inr [OF s4]
  from b have op1: "is_dict (record_at p (co_op s1))" "attempts_at p (co_op s1) = attempts_at p (co_op s)"
    using r by (auto simp: record_field attempts_field)
  from i c t attempt_edit [OF op1(1), of "attempts_at p (co_op s1) @ [new_attempt aid]"] op1(2)
  show "attempts_at p (co_op t) = attempts_at p (co_op s) @ [new_attempt aid]" "at (record_at p (co_op t)) ''state'' = jlit ''INTENT_RECORDED''"
    by (auto simp: attempts_field record_field)
  show "saved (co_store t) (co_op t)" "ds_limits (co_store t) = ds_limits (co_store s)" using c i b t by auto
  show "\<exists>e1 e2. d_events (ds_db (co_store t)) = d_events (ds_db (co_store s)) @ [e1, e2] \<and> v_kind e1 = (if restoring p then ''RESTORE_INTENT'' else ''ACTION_INTENT'') \<and>
       v_document e1 = dumps (step_detail step [(''attempt_id'', aid)]) \<and> v_kind e2 = ''CANDIDATE_STARTUP_INTENT''"
    using c i b t by auto
qed

subsection \<open>The monitor\<close>

text \<open>
  What the durable records say when an effect is dispatched: the stored operation is the one the adapter is given,
  it holds the gate, and its last events and, for an attempt, its record name this step and this attempt, with
  fewer dispatched attempts before it than the limit.
\<close>

definition intended :: "deploy_store \<Rightarrow> json \<Rightarrow> json \<Rightarrow> json \<Rightarrow> bool" where
  "intended st step op aid \<longleftrightarrow> saved st op \<and> (\<exists>p. armed (restoring p) op \<and>
     (if aid = JNull
      then \<exists>past e. d_events (ds_db st) = past @ [e] \<and> v_kind e = ''SYNC_INTENT'' \<and> v_document e = dumps (step_detail step [(''restore'', JBool (restoring p))])
      else (\<exists>past e1 e2. d_events (ds_db st) = past @ [e1, e2] \<and> v_kind e1 = (if restoring p then ''RESTORE_INTENT'' else ''ACTION_INTENT'') \<and>
             v_document e1 = dumps (step_detail step [(''attempt_id'', aid)]) \<and> v_kind e2 = ''CANDIDATE_STARTUP_INTENT'') \<and>
           at (record_at p op) ''state'' = jlit ''INTENT_RECORDED'' \<and>
           (\<exists>earlier. attempts_at p op = earlier @ [new_attempt aid] \<and> int (length (filter dispatched_attempt earlier)) < max_attempts (ds_limits st))))"

text \<open>The same coordinator with an adapter that does nothing but fail where an effect is not intended.\<close>

definition monitored :: "'w coordinator \<Rightarrow> 'w coordinator" where
  "monitored E = E\<lparr>environment := (environment E)\<lparr>env_execute := \<lambda>step prepared op aid previous st w.
     if intended st step op aid then env_execute (environment E) step prepared op aid previous st w
     else Returned (Inl (PyError ''AssertionError'')) w\<rparr>\<rparr>"

lemma execute_monitored: "intended (co_store s) step (co_op s) aid \<Longrightarrow> executeC (monitored E) p step aid previous persist s = executeC E p step aid previous persist s"
  by (simp add: executeC_def monitored_def)

text \<open>What does not execute is the same for both.\<close>

definition with_execute :: "'w coordinator \<Rightarrow> (json \<Rightarrow> json \<Rightarrow> json \<Rightarrow> json \<Rightarrow> json \<Rightarrow> deploy_store \<Rightarrow> 'w outside \<Rightarrow> 'w supervised) \<Rightarrow> 'w coordinator" where
  "with_execute E x = E\<lparr>environment := (environment E)\<lparr>env_execute := x\<rparr>\<rparr>"

named_theorems quiet

lemma quiet_fields [quiet]: "gate_node (with_execute E x) = gate_node E" "implementation (with_execute E x) = implementation E" "commit_of (with_execute E x) = commit_of E"
  "clock_of (with_execute E x) = clock_of E" "pages_of (with_execute E x) = pages_of E" "os_of (with_execute E x) = os_of E" "lock_of (with_execute E x) = lock_of E"
  "env_for_operation (environment (with_execute E x)) = env_for_operation (environment E)"
  "env_preflight (environment (with_execute E x)) = env_preflight (environment E)"
  "env_prepare (environment (with_execute E x)) = env_prepare (environment E)"
  "env_observe (environment (with_execute E x)) = env_observe (environment E)"
  "env_effect_key (environment (with_execute E x)) = env_effect_key (environment E)"
  "env_effect_identity (environment (with_execute E x)) = env_effect_identity (environment E)"
  "env_completion_identity (environment (with_execute E x)) = env_completion_identity (environment E)"
  "env_drain (environment (with_execute E x)) = env_drain (environment E)"
  "env_block_startup (environment (with_execute E x)) = env_block_startup (environment E)"
  "env_candidate_startup (environment (with_execute E x)) = env_candidate_startup (environment E)"
  "env_check_local (environment (with_execute E x)) = env_check_local (environment E)"
  "env_prepare_compensation (environment (with_execute E x)) = env_prepare_compensation (environment E)"
  "env_quiesced_retention (environment (with_execute E x)) = env_quiesced_retention (environment E)"
  "env_selected_deployment (environment (with_execute E x)) = env_selected_deployment (environment E)"
  "env_release_valid (environment (with_execute E x)) = env_release_valid (environment E)"
  "env_retention (environment (with_execute E x)) = env_retention (environment E)"
  "env_publish_stable (environment (with_execute E x)) = env_publish_stable (environment E)"
  "env_restored_plan (environment (with_execute E x)) = env_restored_plan (environment E)"
  "env_validate_successor (environment (with_execute E x)) = env_validate_successor (environment E)"
  by (simp_all add: with_execute_def)

lemma quiet_store [quiet]: "nowC (with_execute E x) = nowC E" "gateC (with_execute E x) = gateC E" "saveC (with_execute E x) = saveC E" "save_other (with_execute E x) = save_other E"
  "linkC (with_execute E x) = linkC E" "createC (with_execute E x) = createC E" "budgetC (with_execute E x) = budgetC E"
  unfolding nowC_def gateC_def saveC_def save_other_def linkC_def createC_def budgetC_def quiet by (rule refl)+

lemma quiet_wait [quiet]: "waitC (with_execute E x) = waitC E" "wait_step (with_execute E x) = wait_step E" "errorC (with_execute E x) = errorC E"
  "record_implementation (with_execute E x) = record_implementation E"
proof -
  show w: "waitC (with_execute E x) = waitC E" unfolding waitC_def quiet by (rule refl)
  show "wait_step (with_execute E x) = wait_step E" unfolding wait_step_def w by (rule refl)
  show "errorC (with_execute E x) = errorC E" unfolding errorC_def w quiet by (rule refl)
  show "record_implementation (with_execute E x) = record_implementation E" unfolding record_implementation_def quiet by (rule refl)
qed

lemma quiet_identity [quiet]: "retain_effect_identity (with_execute E x) = retain_effect_identity E"
  unfolding retain_effect_identity_def quiet by (rule refl)

lemma quiet_step [quiet]: "identity_retained (with_execute E x) = identity_retained E" "observe_again (with_execute E x) = observe_again E"
  "step_done (with_execute E x) = step_done E" "persist_binding (with_execute E x) = persist_binding E" "attempt_intent (with_execute E x) = attempt_intent E"
  unfolding identity_retained_def observe_again_def step_done_def persist_binding_def attempt_intent_def quiet by (rule refl)+

lemma quiet_refresh [quiet]: "refreshC (with_execute E x) = refreshC E"
proof -
  have h: "refresh_forward (with_execute E x) = refresh_forward E" "refresh_restored (with_execute E x) = refresh_restored E"
    unfolding refresh_forward_def refresh_restored_def quiet by (rule refl)+
  show ?thesis unfolding refreshC_def quiet h by (rule refl)
qed

lemma quiet_phases [quiet]: "prepareC (with_execute E x) = prepareC E" "closeC (with_execute E x) = closeC E" "blockC (with_execute E x) = blockC E"
  "drainedC (with_execute E x) = drainedC E" "checkedC (with_execute E x) = checkedC E" "releaseC (with_execute E x) = releaseC E" "adopt (with_execute E x) = adopt E"
proof -
  have h: "prepare_step (with_execute E x) = prepare_step E" unfolding prepare_step_def quiet by (rule refl)
  show "prepareC (with_execute E x) = prepareC E" unfolding prepareC_def quiet h by (rule refl)
  show "closeC (with_execute E x) = closeC E" "blockC (with_execute E x) = blockC E"
    "drainedC (with_execute E x) = drainedC E" "checkedC (with_execute E x) = checkedC E" "releaseC (with_execute E x) = releaseC E" "adopt (with_execute E x) = adopt E"
    unfolding closeC_def blockC_def drainedC_def checkedC_def releaseC_def adopt_def quiet by (rule refl)+
qed

lemma quiet_decide [quiet]: "decideC (with_execute E x) = decideC E" "unblocked (with_execute E x) = unblocked E"
  "prepare_restoration (with_execute E x) = prepare_restoration E" "handoffC (with_execute E x) = handoffC E"
proof -
  show "decideC (with_execute E x) = decideC E" unfolding decideC_def quiet by (rule refl)
  show "unblocked (with_execute E x) = unblocked E" "prepare_restoration (with_execute E x) = prepare_restoration E"
    unfolding unblocked_def prepare_restoration_def quiet by (rule refl)+
  have h: "receive_gate (with_execute E x) = receive_gate E" unfolding receive_gate_def quiet by (rule refl)
  show "handoffC (with_execute E x) = handoffC E" unfolding handoffC_def quiet h by (rule refl)
qed

lemma bindC_cong: "m s = m' s \<Longrightarrow> (\<And>x t. m' s = (Inr x, t) \<Longrightarrow> f x t = f' x t) \<Longrightarrow> bindC m f s = bindC m' f' s"
  by (auto simp: bindC_def split: prod.split sum.split)

lemma thenC_cong: "m s = m' s \<Longrightarrow> (\<And>t. m' s = (Inr (), t) \<Longrightarrow> n t = n' t) \<Longrightarrow> thenC m n s = thenC m' n' s"
  unfolding thenC_def by (rule bindC_cong) simp_all

lemma opC_cong: "f (co_op s) s = f' (co_op s) s \<Longrightarrow> opC f s = opC f' s"
  by (simp add: opC_def)

lemma monitored_quiet: "monitored E = with_execute E (\<lambda>step prepared op aid previous st w.
     if intended st step op aid then env_execute (environment E) step prepared op aid previous st w else Returned (Inl (PyError ''AssertionError'')) w)"
  by (simp add: monitored_def with_execute_def)

lemma stays: "relC (stays_armed restore) m \<Longrightarrow> armed restore (co_op s) \<Longrightarrow> m s = (r, t) \<Longrightarrow> armed restore (co_op t)"
  unfolding relC_def stays_armed_def by (metis snd_conv)

lemma settle_monitored:
  assumes "armed (restoring p) (co_op s)"
  shows "settle_step (monitored E) p step observed s = settle_step E p step observed s"
proof -
  have "executeC (monitored E) p step JNull previous persist t = executeC E p step JNull previous persist t"
    if b: "budgetC E (restoring p) s = (Inr (), u)" and i: "saveC E ''SYNC_INTENT'' (step_detail step [(''restore'', JBool (restoring p))]) (restoring p) u = (Inr (), t)" for u t previous persist
  proof (rule execute_monitored)
    have "armed (restoring p) (co_op t)"
      by (rule stays [OF arming.rel_save stays [OF arming.rel_budget assms b] i])
    then show "intended (co_store t) step (co_op t) JNull"
      using saveC_Inr [OF i] unfolding intended_def by auto
  qed
  then show ?thesis
    unfolding settle_step_def monitored_quiet quiet
    by (auto intro!: thenC_cong bindC_cong opC_cong simp: monitored_quiet opC_def)
qed

lemma attempt_name_JStr: "attempt_name p step op = Inr aid \<Longrightarrow> aid \<noteq> JNull"
  by (auto simp: attempt_name_def bindE_Inr_iff)

lemma attempt_intended:
  assumes armed: "armed (restoring p) (co_op s)" and r: "is_dict (record_at p (co_op s))"
    and budget: "int (length (filter dispatched_attempt (attempts_at p (co_op s)))) < max_attempts (ds_limits (co_store s))"
    and aid: "attempt_name p step (co_op s) = Inr aid" and run: "attempt_intent E p step aid s = (Inr (), t)"
  shows "intended (co_store t) step (co_op t) aid"
proof -
  note i = attempt_intent_Inr [OF run r]
  have "armed (restoring p) (co_op t)" by (rule stays [OF arming.rel_intent(2) armed run])
  moreover have "aid \<noteq> JNull" using aid by (rule attempt_name_JStr)
  moreover have "\<exists>past e1 e2. d_events (ds_db (co_store t)) = past @ [e1, e2] \<and> v_kind e1 = (if restoring p then ''RESTORE_INTENT'' else ''ACTION_INTENT'') \<and>
      v_document e1 = dumps (step_detail step [(''attempt_id'', aid)]) \<and> v_kind e2 = ''CANDIDATE_STARTUP_INTENT''"
    using i(3) by blast
  moreover have "\<exists>earlier. attempts_at p (co_op t) = earlier @ [new_attempt aid] \<and> int (length (filter dispatched_attempt earlier)) < max_attempts (ds_limits (co_store t))"
    using i(4) budget unfolding i(2) by blast
  ultimately show ?thesis using i(1,5) unfolding intended_def by (intro conjI exI [of _ p]) (simp_all only: if_False)
qed

lemma attempt_monitored:
  assumes "armed (restoring p) (co_op s)" and "is_dict (record_at p (co_op s))"
  shows "attempt_step (monitored E) p step s = attempt_step E p step s"
proof -
  have "executeC (monitored E) p step aid previous persist t = executeC E p step aid previous persist t"
    if "int (length (filter dispatched_attempt (attempts_at p (co_op s)))) < max_attempts (ds_limits (co_store s))"
      "attempt_name p step (co_op s) = Inr aid" "attempt_intent E p step aid s = (Inr (), t)" for aid t previous persist
    by (rule execute_monitored [OF attempt_intended [OF assms that]])
  then show ?thesis
    unfolding attempt_step_def monitored_quiet quiet
    by (auto intro!: thenC_cong bindC_cong opC_cong simp: monitored_quiet opC_def storeC_def liftC_def)
qed

lemma stays_dict: "relC (stays_record p) m \<Longrightarrow> is_dict (record_at p (co_op s)) \<Longrightarrow> m s = (r, t) \<Longrightarrow> is_dict (record_at p (co_op t))"
  unfolding relC_def stays_record_def by (metis snd_conv)

definition at_work :: "place \<Rightarrow> 'w coordination \<Rightarrow> bool" where
  "at_work p s \<longleftrightarrow> armed (restoring p) (co_op s) \<and> is_dict (record_at p (co_op s))"

lemma at_work_bind:
  assumes "at_work p s" "relC (stays_armed (restoring p)) m" "relC (stays_record p) m" "\<And>x t. at_work p t \<Longrightarrow> f x t = f' x t"
  shows "bindC m f s = bindC m f' s"
  by (rule bindC_cong [OF refl], rule assms(4)) (use assms(1-3) stays stays_dict in \<open>unfold at_work_def, blast\<close>)

lemma at_work_then:
  assumes "at_work p s" "relC (stays_armed (restoring p)) m" "relC (stays_record p) m" "\<And>t. at_work p t \<Longrightarrow> n t = n' t"
  shows "thenC m n s = thenC m n' s"
  unfolding thenC_def by (rule at_work_bind [OF assms])

lemma run_step_monitored:
  assumes armed: "armed (restoring p) (co_op s)"
  shows "run_step (monitored E) p step s = run_step E p step s"
proof (cases "is_dict (record_at p (co_op s)) \<and> \<not> (\<not> restoring p \<and> truthy (get_or (record_at p (co_op s)) ''covered_by'' JNull))")
  case True
  then have work: "at_work p s" using armed by (simp add: at_work_def)
  have rest: "settle_step (monitored E) p step observed t = settle_step E p step observed t" "attempt_step (monitored E) p step t = attempt_step E p step t"
    if "at_work p t" for observed t
    using that by (simp_all add: at_work_def settle_monitored attempt_monitored)
  show ?thesis using True
    apply (simp only: run_step_def opC_def if_False not_True_eq_False)
    apply (unfold monitored_quiet quiet)
    apply (unfold monitored_quiet [symmetric])
    apply (intro at_work_bind [where p = p] at_work_then [where p = p] work)
    by (auto simp: rest intro!: arming.rel_rules arming.rel_identity recorded.rel_rules recorded.rel_identity)
next
  case False
  then show ?thesis by (auto simp: run_step_def opC_def)
qed

lemma armed_bind:
  "armed b (co_op s) \<Longrightarrow> relC (stays_armed b) m \<Longrightarrow> (\<And>x t. armed b (co_op t) \<Longrightarrow> f x t = f' x t) \<Longrightarrow> bindC m f s = bindC m f' s"
  by (rule bindC_cong [OF refl]) (blast dest: stays)

lemma armed_then:
  "armed b (co_op s) \<Longrightarrow> relC (stays_armed b) m \<Longrightarrow> (\<And>t. armed b (co_op t) \<Longrightarrow> n t = n' t) \<Longrightarrow> thenC m n s = thenC m n' s"
  unfolding thenC_def by (rule armed_bind)

lemma armed_each:
  assumes "\<And>x t. armed b (co_op t) \<Longrightarrow> f x t = f' x t" and "\<And>x. relC (stays_armed b) (f' x)"
  shows "armed b (co_op s) \<Longrightarrow> eachC f xs s = eachC f' xs s"
proof (induction xs arbitrary: s)
  case (Cons x xs)
  have "armed b (co_op t)" if "f' x s = (Inr ok, t)" for ok t using stays [OF assms(2) Cons.prems that] .
  then show ?case unfolding eachC.simps by (intro bindC_cong assms(1) Cons.prems) (simp add: Cons.IH)
qed simp

lemma armed_weaken: "armed False op \<Longrightarrow> armed True op"
  by (simp add: armed_def)

lemma set_inside_Inr: "set_inside key k v s = (Inr (), t) \<longleftrightarrow>
    is_dict (at (co_op s) key) \<and> t = s\<lparr>co_op := dset (co_op s) (lit key) (dset (at (co_op s) key) (lit k) v)\<rparr>"
  by (auto simp: set_inside_def opC_def liftC_def)

lemma block_armed:
  assumes a: "armed True (co_op s)" and run: "blockC E s = (Inr (), t)"
  shows "armed False (co_op t)"
proof -
  obtain s1 s2 s3 s4 current where s1: "saveC E ''STARTUP_BLOCK_INTENT'' (JObj []) (is_rollback (co_op s)) s = (Inr (), s1)"
    and s2: "callC (env_block_startup (environment E) (co_op s1)) s1 = (Inr current, s2)"
    and s3: "set_startup ''current'' current s2 = (Inr (), s3)" and s4: "set_startup ''blocked'' (JBool True) s3 = (Inr (), s4)"
    and t: "saveC E ''STARTUP_BLOCKED'' (JObj []) (is_rollback (co_op s)) s4 = (Inr (), t)"
    using run by (auto simp: blockC_def opC_def thenC_Inr bindC_Inr)
  have "armed True (co_op s1)" by (rule stays [OF arming.rel_save a s1])
  then have "armed True (co_op s2)" using callC_Inr [OF s2] by simp
  then have u: "armed True (co_op s3)" by (rule stays [OF arming.rel_startup [OF disjI1 [OF refl]] _ s3])
  have "armed False (co_op s4)" using s4 u armed_dict [OF u] by (auto simp: set_inside_Inr armed_def)
  then show ?thesis by (rule stays [OF arming.rel_save _ t])
qed

lemma unblocked_armed: "armed True (co_op s) \<Longrightarrow> unblocked E s = (Inr (), t) \<Longrightarrow> armed False (co_op t)"
  using block_armed [of s E t] by (auto simp: unblocked_def opC_def retC_def armed_def split: if_splits)

lemma close_armed: "closeC E s = (Inr (), t) \<Longrightarrow> armed True (co_op t)"
proof -
  assume "closeC E s = (Inr (), t)"
  then obtain u v state where u: "u = v\<lparr>co_op := dset (dset (co_op v) (lit ''gate_owned'') (JBool True)) (lit ''gate_sequence'') (at state ''sequence'')\<rparr>"
    and save: "saveC E ''CLOSED'' (JObj []) False u = (Inr (), t)"
    by (auto simp: closeC_def opC_def thenC_Inr bindC_Inr)
  have "is_dict (co_op v)" using saveC_Inr [OF save] by (auto simp: u)
  then have "armed True (co_op u)" by (simp add: u armed_def)
  then show ?thesis by (rule stays [OF arming.rel_save _ save])
qed

subsection \<open>The protocol under the monitor\<close>

lemma run_steps_monitored:
  assumes "armed False (co_op s)" and "\<And>t. armed False (co_op t) \<Longrightarrow> rest t = rest' t"
  shows "run_steps (monitored E) steps rest s = run_steps E steps rest' s"
proof -
  have "eachC (\<lambda>(i, step). run_step (monitored E) (Forward i) step) steps s = eachC (\<lambda>(i, step). run_step E (Forward i) step) steps s"
    by (rule armed_each [OF _ _ assms(1)]) (auto simp: run_step_monitored restoring_def intro: arming.rel_step)
  moreover have "armed False (co_op t)" if "eachC (\<lambda>(i, step). run_step E (Forward i) step) steps s = (Inr ok, t)" for ok t
    by (rule stays [OF arming.rel_each assms(1) that]) (auto intro: arming.rel_step)
  ultimately show ?thesis unfolding run_steps_def by (intro bindC_cong) (auto simp: assms(2))
qed

lemma applying_monitored: "armed True (co_op s) \<Longrightarrow> applying (monitored E) s = applying E s"
proof -
  assume a: "armed True (co_op s)"
  have inner: "opC (\<lambda>op. run_steps (monitored E) (numbered_steps op) rest) t = opC (\<lambda>op. run_steps E (numbered_steps op) rest) t" if "armed False (co_op t)" for t and rest :: "('a, unit) cact"
    using that by (simp add: opC_def run_steps_monitored)
  show ?thesis
    unfolding applying_def
    apply (unfold monitored_quiet quiet)
    apply (unfold monitored_quiet [symmetric])
    apply (rule armed_then [OF a], (auto intro!: arming.all_rules)[1])
    apply (rule armed_then, assumption, (auto intro!: arming.all_rules)[1])+
    apply (rule thenC_cong [OF refl])
    apply (drule unblocked_armed, assumption)
    apply (rule armed_then, assumption, (auto intro!: arming.all_rules)[1])+
    apply (erule inner)
    done
qed

lemma drained_monitored: "armed b (co_op s) \<Longrightarrow> (\<And>t. armed b (co_op t) \<Longrightarrow> rest t = rest' t) \<Longrightarrow> drainedC E rest s = drainedC E rest' s"
  unfolding drainedC_def
  by (rule armed_bind, assumption, (auto intro!: arming.all_rules)[1], rule armed_bind, assumption, (auto intro!: arming.all_rules)[1]) simp

lemma take_gate_armed: "(if truthy (at (co_op s) ''gate_owned'') then retC () else closeC E) s = (Inr (), t) \<Longrightarrow> armed True (co_op t)"
  by (auto simp: retC_def armed_def split: if_splits dest: close_armed [unfolded armed_def])

lemma owned_armed: "retC () s = (Inr (), t) \<Longrightarrow> truthy (at (co_op s) ''gate_owned'') \<Longrightarrow> armed True (co_op t)"
  by (simp add: retC_def armed_def)

lemma isolated_monitored: "isolated (monitored E) = isolated E"
proof
  fix s
  have steps: "run_steps (monitored E) steps (drainedC E (applying (monitored E))) t = run_steps E steps (drainedC E (applying E)) t"
    if "armed False (co_op t)" for steps t
    using that by (rule run_steps_monitored) (rule drained_monitored, assumption, rule applying_monitored, erule armed_weaken)
  have chosen: "(opC (\<lambda>op. if unresolved op then waitC E ''CALLER_NOT_CLOSED'' (JObj [])
      else if isolation_steps op \<noteq> [] \<or> truthy (get_or (at (at op ''plan'') ''profile'') ''security_repair'' JNull)
      then thenC (unblocked E) (run_steps (monitored E) (isolation_steps op) (drainedC E (applying (monitored E))))
      else drainedC E (applying (monitored E)))) t =
    (opC (\<lambda>op. if unresolved op then waitC E ''CALLER_NOT_CLOSED'' (JObj [])
      else if isolation_steps op \<noteq> [] \<or> truthy (get_or (at (at op ''plan'') ''profile'') ''security_repair'' JNull)
      then thenC (unblocked E) (run_steps E (isolation_steps op) (drainedC E (applying E)))
      else drainedC E (applying E))) t" if a: "armed True (co_op t)" for t
    by (auto simp: opC_def intro!: thenC_cong [OF refl] steps unblocked_armed [OF a] drained_monitored [OF a] applying_monitored)
  show "isolated (monitored E) s = isolated E s"
    unfolding isolated_def
    apply (unfold monitored_quiet quiet)
    apply (unfold monitored_quiet [symmetric])
    apply (rule opC_cong, rule thenC_cong [OF refl], drule take_gate_armed)
    apply (rule armed_then, assumption, rule arming.rel_refresh)
    by (erule chosen)
qed

lemma apply_monitored: "applyC (monitored E) = applyC E"
  unfolding applyC_def isolated_monitored by (unfold monitored_quiet quiet) (rule refl)

lemma restore_monitored: "armed True (co_op s) \<Longrightarrow> restoreC (monitored E) s = restoreC E s"
proof -
  assume a: "armed True (co_op s)"
  have each: "eachC (restore_step (monitored E)) entries t = eachC (restore_step E) entries t" if "armed True (co_op t)" for entries t
    by (rule armed_each [OF _ _ that])
      (auto simp: restore_step_def opC_def run_step_monitored restoring_def split: prod.split intro!: arming.all_rules arming.rel_step)
  show ?thesis
    unfolding restoreC_def
    apply (unfold monitored_quiet quiet)
    apply (unfold monitored_quiet [symmetric])
    apply (rule armed_then [OF a], (auto intro!: arming.all_rules arming.rel_restore)[1])
    apply (rule armed_then, assumption, rule arming.rel_refresh)
    apply (rule opC_cong, rule bindC_cong)
     apply (erule each)
    by (rule refl)
qed

lemma rollback_monitored: "rollbackC (monitored E) = rollbackC E"
proof
  fix s
  show "rollbackC (monitored E) s = rollbackC E s"
    unfolding rollbackC_def
    apply (unfold monitored_quiet quiet)
    apply (unfold monitored_quiet [symmetric])
    apply (rule thenC_cong [OF refl], rule opC_cong)
    by (auto intro!: thenC_cong [OF refl] drained_monitored restore_monitored intro: owned_armed close_armed)
qed

lemma run_monitored: "runC (monitored E) = runC E"
  unfolding runC_def apply_monitored rollback_monitored by (unfold monitored_quiet quiet) (rule refl)

text \<open>@CLAIM@
  No effect without its durable intent.  Whatever the environment, the gate, the clock and SQLite do, a coordinator
  behaves exactly as under a monitor that lets \<open>execute\<close> act only when the stored operation is the one the adapter
  acts for, holds the closed gate, has blocked the startup before a forward effect, its last events record the
  intent, and the attempt is the newest of its step, with fewer dispatched attempts before it than the limit.
\<close>

theorem effects_intended:
  "coordinate_apply (monitored E) p s = coordinate_apply E p s \<and>
   coordinate_resume (monitored E) ident s = coordinate_resume E ident s \<and>
   coordinate_rollback (monitored E) ident s = coordinate_rollback E ident s \<and>
   coordinate_supersede (monitored E) ident p s = coordinate_supersede E ident p s"
proof -
  have lock: "with_lock (monitored E) body = with_lock E body" for body by (intro ext) (simp add: with_lock_def monitored_def)
  have fields: "createC (monitored E) = createC E" "adopt (monitored E) = adopt E" "handoffC (monitored E) = handoffC E" "linkC (monitored E) = linkC E" "saveC (monitored E) = saveC E"
    "refreshC (monitored E) = refreshC E" "record_implementation (monitored E) = record_implementation E" "save_other (monitored E) = save_other E" "waitC (monitored E) = waitC E"
    "env_restored_plan (environment (monitored E)) = env_restored_plan (environment E)" "env_validate_successor (environment (monitored E)) = env_validate_successor (environment E)"
    unfolding monitored_quiet quiet by (rule refl)+
  have "rollback_successor_of (monitored E) = rollback_successor_of E" unfolding rollback_successor_of_def fields run_monitored by (rule refl)
  note same = lock fields run_monitored this
  show ?thesis
    unfolding coordinate_apply_def coordinate_resume_def coordinate_rollback_def coordinate_supersede_def same by (intro conjI refl)
qed

section \<open>What is decided stays quiet\<close>

definition decided :: "json \<Rightarrow> bool" where
  "decided op \<longleftrightarrow> truthy (at op ''decision'') \<or> truthy (at op ''released'') \<or> truthy (at op ''successor'')"

lemma adopt_op: "adopt E s = (Inr (), t) \<Longrightarrow> co_op t = co_op s"
  by (auto simp: adopt_def retC_def opC_def split: option.splits dest: callC_Inr)

lemma implementation_decision: "record_implementation E s = (Inr (), t) \<Longrightarrow> at (co_op t) ''decision'' = at (co_op s) ''decision''"
  by (auto simp: record_implementation_def opC_def retC_def thenC_Inr at_other split: if_splits dest!: saveC_Inr)

lemma run_decided: "decided (co_op s) \<Longrightarrow> runC (with_execute E x) s = runC E s"
proof -
  assume d: "decided (co_op s)"
  have last: "opC (\<lambda>op. if truthy (at op ''decision'') then releaseC E else m op) t = opC (\<lambda>op. if truthy (at op ''decision'') then releaseC E else m' op) t"
    if "truthy (at (co_op t) ''decision'')" for t m m'
    using that by (simp add: opC_def)
  show ?thesis
    unfolding runC_def
    apply (unfold quiet)
    apply (rule thenC_cong [OF refl], drule adopt_op, rule opC_cong)
    using d apply (auto simp: decided_def intro!: thenC_cong [OF refl] dest!: implementation_decision)
    apply (simp add: tryC_def opC_def)
    done
qed

text \<open>@CLAIM@
  What is decided is not done again.  Resuming an operation that has a decision, has been released or has a
  successor dispatches no effect: the call is the same whatever \<open>execute\<close> would do.
\<close>

theorem decided_dispatches_nothing:
  assumes "deploy_get ident (co_store s) = Inr op" and "decided op"
  shows "coordinate_resume (with_execute E x) ident s = coordinate_resume E ident s"
proof -
  have lock: "with_lock (with_execute E x) = with_lock E" by (intro ext) (simp add: with_lock_def quiet)
  show ?thesis
    using assms by (simp add: coordinate_resume_def lock with_lock_def bindC_def storeC_def thenC_def becomeC_def editC_def run_decided deploy_get_def find_operation_def split: sum.split)
qed

section \<open>At concrete inputs\<close>

definition decided_store :: deploy_store where
  "decided_store = empty_store\<lparr>ds_db := \<lparr>d_operations = [\<lparr>d_id = lit ''op-1'', d_request = lit ''r-1'', d_digest = lit digest_a,
     d_document = dumps (obj [(''decision'', jlit ''COMMITTED''), (''id'', jlit ''op-1'')])\<rparr>], d_events = []\<rparr>\<rparr>"

definition decided_state :: "unit coordination" where
  "decided_state = \<lparr>co_op = JNull, co_store = decided_store, co_out = \<lparr>out_gate = None, out_world = ()\<rparr>, co_count = 0\<rparr>"

lemma decided_get: "deploy_get (jlit ''op-1'') decided_store = Inr (sort_keys (obj [(''decision'', jlit ''COMMITTED''), (''id'', jlit ''op-1'')]))"
proof -
  have "deploy_id (lit ''op-1'')" by code_simp
  moreover have "storable (obj [(''decision'', jlit ''COMMITTED''), (''id'', jlit ''op-1'')])" by (rule storable_obj) simp_all
  ultimately show ?thesis
    by (simp add: deploy_get_def deploy_identity_def decided_store_def find_operation_def deploy_decode_dumps)
qed

theorem decided_dispatches_nothing_witness:
  "\<forall>E x. coordinate_resume (with_execute E x) (jlit ''op-1'') decided_state = coordinate_resume E (jlit ''op-1'') decided_state"
proof (intro allI)
  fix E :: "unit coordinator" and x
  have "at (obj [(''decision'', jlit ''COMMITTED''), (''id'', jlit ''op-1'')]) ''decision'' = jlit ''COMMITTED''" by (simp add: at_def get_or_def)
  then have "decided (sort_keys (obj [(''decision'', jlit ''COMMITTED''), (''id'', jlit ''op-1'')]))"
    by (simp add: decided_def at_sort_keys wf_json_obj)
  then show "coordinate_resume (with_execute E x) (jlit ''op-1'') decided_state = coordinate_resume E (jlit ''op-1'') decided_state"
    using decided_get by (intro decided_dispatches_nothing) (simp_all add: decided_state_def)
qed


end
