(* ===== verification/DeployPlan.thy ===== *)
theory DeployPlan
  imports Deploy Startup
begin

text \<open>
  The construction of a deployment plan, \<open>validate_profile\<close> and \<open>build_plan\<close> of
  \<open>tools/admin/local_hand_deploy/planner.py\<close> with the scope check of the gateway observations in
  \<open>tools/local_hand_mcp/http_observation.py\<close>.  What the planner observes of the host, the files, units and
  containers, is the record \<open>planning\<close>.
\<close>

section \<open>Gateway checks\<close>

definition PURPOSES :: "string list" where
  "PURPOSES = [''reachability'', ''anonymous_protected'', ''management_hidden'', ''issuer_metadata'', ''resource_metadata'']"

definition keys_within :: "json \<Rightarrow> string list \<Rightarrow> bool" where
  \<comment> \<open>\<open>not set(v) - {names}\<close>\<close>
  "keys_within v names = (set (jkeys v) \<subseteq> set (map lit names))"

definition present :: "json \<Rightarrow> string \<Rightarrow> bool" where "present v k = (fld v k \<noteq> None)"

definition text_within :: "json \<Rightarrow> nat \<Rightarrow> bool" where
  "text_within v n = (case v of JStr s \<Rightarrow> 1 \<le> length s \<and> length s \<le> n | _ \<Rightarrow> False)"

definition status_code :: "json \<Rightarrow> bool" where
  "status_code v = (case v of JInt n \<Rightarrow> 100 \<le> n \<and> n \<le> 599 | _ \<Rightarrow> False)"

text \<open>
  \<open>urlsplit\<close> of a text that starts with one slash and has no space or control character: there is no scheme and no
  host; the fragment is what follows the first \<open>#\<close>, the query what follows the first \<open>?\<close> before it.
\<close>

definition after :: "nat \<Rightarrow> pystr \<Rightarrow> pystr" where "after c s = drop 1 (dropWhile (\<lambda>x. x \<noteq> c) s)"

definition literal_route :: "pystr \<Rightarrow> bool" where
  "literal_route s = (prefix [47] s \<and> \<not> prefix [47, 47] s \<and> after 35 s = [] \<and> after 63 (takeWhile (\<lambda>x. x \<noteq> 35) s) = [])"

definition check_shape :: "json \<Rightarrow> bool" where
  "check_shape spec = (is_dict spec \<and> keys_within spec [''path'', ''statuses'', ''json_equals'', ''www_authenticate'', ''purpose''] \<and>
     text_within (at spec ''path'') 8192 \<and> (\<forall>c \<in> set (str_of (fld spec ''path'')). 32 < c \<and> c < 127) \<and>
     is_list (at spec ''statuses'') \<and> 1 \<le> length (elements (at spec ''statuses'')) \<and> length (elements (at spec ''statuses'')) \<le> 16 \<and>
     (\<forall>code \<in> set (elements (at spec ''statuses'')). status_code code) \<and>
     (present spec ''json_equals'' \<longrightarrow> is_dict (at spec ''json_equals'')) \<and>
     (present spec ''www_authenticate'' \<longrightarrow> text_within (at spec ''www_authenticate'') 8192) \<and>
     get_or spec ''purpose'' (jlit ''reachability'') \<in> set (map jlit PURPOSES))"

definition resource_expected :: "json \<Rightarrow> bool" where
  "resource_expected e = (is_str (at e ''resource'') \<and> is_list (at e ''authorization_servers'') \<and>
     length (elements (at e ''authorization_servers'')) = 1 \<and> is_str (hd (elements (at e ''authorization_servers''))))"

definition validate_check :: "json \<Rightarrow> unit res" where
  "validate_check spec =
     thenE (value_unless (check_shape spec))
    (thenE (value_unless (literal_route (str_of (fld spec ''path''))))
    (let purpose = get_or spec ''purpose'' (jlit ''reachability''); statuses = elements (at spec ''statuses''); e = get_or spec ''json_equals'' (JObj []) in
     thenE (value_unless (\<not> (purpose = jlit ''anonymous_protected'' \<and> statuses \<noteq> [JInt 401] \<or>
         purpose = jlit ''management_hidden'' \<and> \<not> set statuses \<subseteq> {JInt 403, JInt 404} \<or>
         purpose \<in> {jlit ''issuer_metadata'', jlit ''resource_metadata''} \<and> statuses \<noteq> [JInt 200])))
    (thenE (value_unless (purpose = jlit ''issuer_metadata'' \<longrightarrow> is_str (at e ''issuer'')))
       (value_unless (purpose = jlit ''resource_metadata'' \<longrightarrow> resource_expected e)))))"

text \<open>\<open>[A-Za-z0-9][A-Za-z0-9.-]*(?::[0-9]{1,5})?\<close>\<close>

definition alnum :: "nat \<Rightarrow> bool" where "alnum c = (48 \<le> c \<and> c \<le> 57 \<or> 65 \<le> c \<and> c \<le> 90 \<or> 97 \<le> c \<and> c \<le> 122)"

definition authority_text :: "pystr \<Rightarrow> bool" where
  "authority_text s = (let host = takeWhile (\<lambda>c. c \<noteq> 58) s; port = drop (length host) s in
     host \<noteq> [] \<and> alnum (hd host) \<and> (\<forall>c \<in> set host. alnum c \<or> c = 46 \<or> c = 45) \<and>
     (port = [] \<or> 2 \<le> length port \<and> length port \<le> 6 \<and> (\<forall>c \<in> set (tl port). 48 \<le> c \<and> c \<le> 57)))"

definition validate_local :: "json \<Rightarrow> unit res" where
  "validate_local v =
     thenE (value_unless (is_dict v \<and> has_keys v [''authority'', ''checks''] \<and> is_str (at v ''authority'') \<and>
         authority_text (str_of (fld v ''authority'')) \<and> is_list (at v ''checks'') \<and> 1 \<le> length (elements (at v ''checks'')) \<and>
         length (elements (at v ''checks'')) \<le> 8 \<and> \<not> nonfinite v \<and> length (dumps v) \<le> 16384))
    (thenE (forE (elements (at v ''checks'')) validate_check)
       (value_unless (\<forall>p \<in> set PURPOSES - {''reachability''}. \<exists>spec \<in> set (elements (at v ''checks'')). at spec ''purpose'' = jlit p)))"

section \<open>Profiles\<close>

definition unsupported :: "string \<Rightarrow> exn" where "unsupported m = DeployError ''UNSUPPORTED_PROFILE'' m"
definition unguarded :: "string \<Rightarrow> exn" where "unguarded m = DeployError ''UNGUARDED_ENTRY'' m"

definition deploy_path :: "json \<Rightarrow> unit res" where
  "deploy_path v = raise_if (\<not> (is_str v \<and> normal_path (str_of (Some v)))) (DeployError ''INVALID_PLAN'' ''Expected a normalized absolute path'')"

definition int_within :: "json \<Rightarrow> int \<Rightarrow> int \<Rightarrow> bool" where
  "int_within v lo hi = (case v of JInt n \<Rightarrow> lo \<le> n \<and> n \<le> hi | _ \<Rightarrow> False)"

definition natural :: "json \<Rightarrow> bool" where "natural v = (case v of JInt n \<Rightarrow> 0 \<le> n | _ \<Rightarrow> False)"

definition PROFILE_KEYS :: "string list" where
  "PROFILE_KEYS = [''schema'', ''owner_uid'', ''startup_descriptor'', ''maintenance_directory'', ''guarded_components'', ''probes'', ''systemd'', ''gateway'',
     ''file_limits'', ''timeout_seconds'', ''output_limit'', ''filesystem_support'', ''security_repair'', ''gateway_checks'', ''recovery_from'',
     ''retained_preparations'']"

definition selected_components :: "json \<Rightarrow> pystr list" where
  "selected_components deployment = jkeys (at (at deployment ''selection'') ''components'')"

definition validate_guard :: "json \<Rightarrow> unit res" where
  "validate_guard guard =
     thenE (raise_if (\<not> (is_dict guard \<and> has_keys guard [''configuration'', ''entrypoints''])) (unguarded ''Guard binding is incomplete''))
    (thenE (deploy_path (at guard ''configuration''))
    (let points = elements (at guard ''entrypoints''); unknown = unguarded ''Unknown guarded entrypoint'' in
     thenE (raise_if (\<not> (is_list (at guard ''entrypoints'') \<and> 1 \<le> length points \<and> length points \<le> 8)) unknown)
    (thenE (hashable points)
    (thenE (raise_if (\<not> set points \<subseteq> set (map jlit [''prepare'', ''execute'', ''listener'', ''cli''])) unknown)
       (raise_if (jlit ''prepare'' \<in> set points \<and> \<not> {jlit ''execute'', jlit ''cli''} \<subseteq> set points)
         (unguarded ''Preparation, first execution and local CLI share one barrier''))))))"

definition validate_probe :: "json \<Rightarrow> pystr \<Rightarrow> json \<Rightarrow> unit res" where
  "validate_probe pr name probe =
     (let bad_probe = DeployError ''UNSUPPORTED_PROBE'' ''Only the protected deployment-status protocol is supported'';
          fixed = DeployError ''UNSUPPORTED_PROBE'' ''Gateway status requires its fixed root container supervisor'';
          peer = get_or probe ''peer_uid'' (JInt 0) in
      thenE (raise_if (\<not> (is_dict probe \<and> keys_within probe [''kind'', ''socket'', ''principal_id'', ''peer_uid''])) bad_probe)
     (bindE (in_names (at probe ''kind'') [''resident'', ''prepared'', ''mcp'', ''gateway'']) (\<lambda>known.
      thenE (raise_if (\<not> known) bad_probe)
     (thenE (deploy_path (at probe ''socket''))
     (thenE (raise_if (\<not> natural peer) (DeployError ''UNSUPPORTED_PROBE'' ''Invalid status peer''))
       (if at probe ''kind'' \<noteq> jlit ''gateway'' then Inr ()
        else thenE (raise_if (name \<noteq> lit ''gateway'' \<or> peer \<noteq> JInt 0) fixed)
          (bindE (get_attr (get_or pr ''gateway'' (JObj [])) ''component'' JNull) (\<lambda>component.
             raise_if (component \<noteq> JStr name \<or> present probe ''principal_id'') fixed))))))))"

definition hex_field :: "json \<Rightarrow> string \<Rightarrow> bool" where "hex_field v k = (case fld v k of Some (JStr s) \<Rightarrow> deploy_hex s | _ \<Rightarrow> False)"

definition validate_recovery :: "json \<Rightarrow> unit res" where
  "validate_recovery r =
     thenE (raise_if (\<not> (is_dict r \<and> has_keys r [''operation'', ''plan_digest'', ''selection_digest'', ''reload_tree''] \<and>
         hex_field r ''plan_digest'' \<and> hex_field r ''selection_digest'' \<and> is_dict (at r ''reload_tree'')))
       (DeployError ''INVALID_RECOVERY'' ''Recovery must bind the original operation and observed startup and reload state''))
     (bindE (deploy_identity (at r ''operation'') ''identity'') (\<lambda>_. Inr ()))"

definition validate_repair :: "json \<Rightarrow> json \<Rightarrow> json \<Rightarrow> unit res" where
  "validate_repair pr source tgt =
     (let r = at pr ''security_repair'';
          invalid = DeployError ''INVALID_SECURITY_REPAIR'' ''Security repair needs a new target, exact evidence and guarded route checks'' in
      thenE (raise_if (\<not> (is_dict r \<and> has_keys r [''unsafe_deployment_digest'', ''reason'', ''evidence_digest''])) invalid)
     (bindE (in_names (at r ''reason'') [''anonymous_protected'', ''management_hidden'', ''issuer_metadata'', ''resource_metadata'']) (\<lambda>known.
        raise_if (\<not> known \<or> at r ''unsafe_deployment_digest'' \<noteq> at source ''deployment_digest'' \<or>
          \<not> hex_field r ''unsafe_deployment_digest'' \<or> \<not> hex_field r ''evidence_digest'' \<or>
          \<not> truthy (at pr ''gateway'') \<or> \<not> present pr ''gateway_checks'' \<or>
          at tgt ''deployment_digest'' = at source ''deployment_digest'') invalid)))"

definition validate_bounds :: "json \<Rightarrow> unit res" where
  "validate_bounds pr =
     thenE (forE [''startup_descriptor'', ''maintenance_directory''] (\<lambda>key. deploy_path (at pr key)))
    (thenE (raise_if (\<not> natural (get_or pr ''owner_uid'' (JInt 0))) (unsupported ''Invalid trusted local owner''))
       (raise_if (\<not> (int_within (get_or pr ''timeout_seconds'' (JInt 30)) 1 120 \<and> int_within (get_or pr ''output_limit'' (JInt 65536)) 4096 1048576))
         (unsupported ''Invalid fixed observation bounds'')))"

definition validate_entries :: "json \<Rightarrow> json \<Rightarrow> json \<Rightarrow> unit res" where
  "validate_entries pr source tgt =
     (let guards = at pr ''guarded_components''; probes = at pr ''probes''; components = set (selected_components source) \<union> set (selected_components tgt) in
      thenE (raise_if (\<not> (is_dict guards \<and> set (jkeys guards) = components \<and> is_dict probes \<and> set (jkeys probes) = components))
        (unguarded ''Every selected component needs its actual startup/admission guard and probe''))
       (forE (items guards) (\<lambda>(name, guard). thenE (validate_guard guard)
          (validate_probe pr name (case dget probes name of Some x \<Rightarrow> x | None \<Rightarrow> JNull)))))"

definition validate_support :: "json \<Rightarrow> unit res" where
  "validate_support pr =
     (let support = at pr ''filesystem_support'' in
      raise_if (\<not> (is_dict support \<and> has_keys support [''ordinary_handles'', ''fsid'', ''reboot_verified''] \<and> (\<forall>v \<in> set (jvalues support). v = JBool True)))
        (DeployError ''MIGRATION_NOT_READY'' ''The selected filesystem needs verified persistent ordinary handles and filesystem binding''))"

definition validate_gateway_checks :: "json \<Rightarrow> unit res" where
  "validate_gateway_checks pr =
     (case validate_local (at pr ''gateway_checks'') of
        Inl e \<Rightarrow> Inl (if e = PyError ''ValueError'' then DeployError ''INVALID_CHECK'' ''Gateway safety checks are incomplete'' else e)
      | Inr _ \<Rightarrow> raise_if (\<not> truthy (at pr ''gateway'')) (unsupported ''Route checks need the fixed guarded gateway''))"

definition validate_profile :: "json \<Rightarrow> json \<Rightarrow> json \<Rightarrow> unit res" where
  "validate_profile pr source tgt =
     thenE (raise_if (\<not> (is_dict pr \<and> keys_within pr PROFILE_KEYS \<and> at pr ''schema'' = jlit ''local-hand-deployment-profile/v1''))
         (unsupported ''Unknown deployment support profile''))
    (bindE (service_order pr) (\<lambda>_.
     thenE (validate_bounds pr)
    (thenE (validate_entries pr source tgt)
    (thenE (validate_support pr)
    (thenE (if present pr ''gateway_checks'' then validate_gateway_checks pr else Inr ())
    (thenE (if present pr ''recovery_from'' then validate_recovery (at pr ''recovery_from'') else Inr ())
    (bindE (get_attr (get_or tgt ''gateway'' (JObj [])) ''running'' JNull) (\<lambda>running.
     thenE (raise_if (truthy running \<and> \<not> present pr ''gateway_checks'')
         (DeployError ''INVALID_CHECK'' ''Opening a gateway requires its bound local safety checks''))
       (if present pr ''security_repair'' then validate_repair pr source tgt else Inr ())))))))))"

section \<open>Plans\<close>

definition check_selection :: "json \<Rightarrow> json \<Rightarrow> unit res" where
  "check_selection deployment node_id =
     thenE (raise_if (\<not> (is_dict deployment \<and> keys_within deployment [''deployment_digest'', ''selection'', ''services'', ''gateway'']))
         (DeployError ''INVALID_PLAN'' ''Unknown deployment selection''))
    (let selection = at deployment ''selection'' in
     thenE (case validate_selection selection of
         Inl (PyError c) \<Rightarrow> Inl (if c \<in> {''ValueError'', ''TypeError'', ''KeyError''}
           then DeployError ''INVALID_PLAN'' ''Invalid complete startup selection'' else PyError c)
       | r \<Rightarrow> r)
       (raise_if (at selection ''node_id'' \<noteq> node_id \<or> at selection ''deployment_digest'' \<noteq> at deployment ''deployment_digest'' \<or>
          at selection ''mode'' \<noteq> jlit ''stable'') (DeployError ''INVALID_PLAN'' ''Deployment must identify a complete stable selection'')))"

text \<open>What the planner observes: the plan of the files, whether the baseline holds, the retained preparations,
  and the actions of the service and the gateway adapter.\<close>

record planning =
  pl_files :: "json \<Rightarrow> json \<Rightarrow> json \<Rightarrow> json list res"
  pl_baseline :: "json \<Rightarrow> json \<Rightarrow> json \<Rightarrow> json list \<Rightarrow> unit res"
  pl_inventory :: "json res option"
  pl_services :: "json \<Rightarrow> json \<Rightarrow> json list \<Rightarrow> json list res"
  pl_gateway :: "json \<Rightarrow> json \<Rightarrow> json list res"

definition managed_components :: "json \<Rightarrow> json list res" where
  "managed_components pr =
     bindE (get_attr (get_or pr ''systemd'' (JObj [])) ''units'' (JObj [])) (\<lambda>units.
     bindE (if is_dict units then mapE (\<lambda>spec. get_attr spec ''component'' JNull) (jvalues units) else Inl (PyError ''AttributeError'')) (\<lambda>named.
     bindE (if truthy (at pr ''gateway'') then bindE (get_attr (at pr ''gateway'') ''component'' JNull) (\<lambda>c. Inr [c]) else Inr []) (\<lambda>gateway.
     thenE (hashable (named @ gateway)) (Inr (named @ gateway)))))"

definition running_components :: "json \<Rightarrow> pystr list" where
  "running_components deployment = map fst (filter (\<lambda>(name, spec). truthy (at spec ''running'')) (items (at (at deployment ''selection'') ''components'')))"

definition check_change :: "json \<Rightarrow> json \<Rightarrow> json \<Rightarrow> unit res" where
  "check_change pr source tgt =
     (let a = at source ''selection''; b = at tgt ''selection'' in
      thenE (raise_if (set (selected_components source) \<noteq> set (selected_components tgt)) (unsupported ''The fixed guarded component set cannot change''))
     (thenE (raise_if (at source ''deployment_digest'' = at tgt ''deployment_digest'' \<and>
          \<not> (jeq (at a ''members'') (at b ''members'') \<and> jeq (at a ''components'') (at b ''components'')))
          (DeployError ''INVALID_PLAN'' ''One deployment identity cannot describe two configuration sets''))
     (bindE (managed_components pr) (\<lambda>managed.
        raise_if (\<not> jeq a b \<and> \<not> JStr ` (set (running_components source) \<union> set (running_components tgt)) \<subseteq> set managed)
          (unguarded ''Changed complete configuration set has an uncontrolled running component'')))))"

text \<open>The limits of \<open>files.py\<close>, whose \<open>FileError\<close> is kept as its class; the defaults of the keys left out are positive.\<close>

definition FILE_LIMITS :: "string list" where
  "FILE_LIMITS = [''max_files'', ''max_file_bytes'', ''max_total_bytes'', ''max_preparation_files'', ''max_directory_entries'']"

definition check_file_limits :: "json \<Rightarrow> unit res" where
  "check_file_limits l =
     thenE (raise_if (\<not> (is_dict l \<and> keys_within l FILE_LIMITS)) (PyError ''TypeError''))
       (raise_if (\<exists>v \<in> set (jvalues l). \<not> positive_int v) (PyError ''FileError''))"

definition item_of :: "string \<Rightarrow> json \<Rightarrow> json" where "item_of kind action = obj [(''kind'', jlit kind), (''action'', action)]"

text \<open>A file that already is what it should be needs no action.\<close>

definition file_candidate :: "json \<Rightarrow> json" where
  "file_candidate entry = (if at entry ''source'' = JNull then obj [(''exists'', JBool False)]
     else dupdate (dpop (at (at entry ''source'') ''snapshot'') (lit ''binding'')) (items (at entry ''attributes'')))"

definition file_actions :: "json list \<Rightarrow> json list" where
  "file_actions entries = map (\<lambda>entry. item_of ''file'' (dset entry (lit ''phase'') (jlit ''files'')))
     (filter (\<lambda>entry. \<not> jeq (dpop (at entry ''original'') (lit ''binding'')) (file_candidate entry)) entries)"

definition service_actions :: "planning \<Rightarrow> json \<Rightarrow> json \<Rightarrow> json list \<Rightarrow> json list res" where
  "service_actions P source tgt files =
     (if \<not> truthy (at source ''services'') \<and> \<not> truthy (at tgt ''services'') then Inr []
      else bindE (set_of (get_or source ''services'' (JObj []))) (\<lambda>a.
           bindE (set_of (get_or tgt ''services'' (JObj []))) (\<lambda>b.
           thenE (raise_if (norm ` set a \<noteq> norm ` set b) (unsupported ''The fixed service set cannot change in this deployment''))
             (bindE (pl_services P source tgt files) (\<lambda>actions. Inr (map (item_of ''service'') actions))))))"

definition gateway_action :: "json \<Rightarrow> json \<Rightarrow> json res" where
  "gateway_action pr action =
     (if \<not> truthy (at pr ''security_repair'') then Inr (item_of ''gateway'' action)
      else bindE (sub action ''kind'') (\<lambda>kind.
        Inr (item_of ''gateway'' (if kind = jlit ''gateway_stop'' then dset action (lit ''phase'') (jlit ''isolate'') else action))))"

definition gateway_actions :: "planning \<Rightarrow> json \<Rightarrow> json \<Rightarrow> json \<Rightarrow> json list res" where
  "gateway_actions P pr source tgt =
     (if at source ''gateway'' = JNull \<and> at tgt ''gateway'' = JNull then Inr []
      else thenE (raise_if (at source ''gateway'' = JNull \<or> at tgt ''gateway'' = JNull) (unsupported ''Gateway absence must be an explicit target''))
        (bindE (pl_gateway P source tgt) (mapE (gateway_action pr))))"

definition check_phase :: "json \<Rightarrow> unit res" where
  "check_phase item = bindE (get_attr (at item ''action'') ''phase'' JNull) (\<lambda>phase.
     bindE (in_names phase (map fst PHASES)) (\<lambda>known. invalid_plan (\<not> known) ''Adapter returned an unknown deployment phase''))"

definition sort_actions :: "json \<Rightarrow> json list \<Rightarrow> json list res" where
  "sort_actions pr actions = bindE (keyed_steps pr actions) (\<lambda>keyed. Inr (map snd (sort_key fst keyed)))"

text \<open>\<open>f"step-{number:03d}"\<close>\<close>

definition step_name :: "nat \<Rightarrow> json" where
  "step_name n = JStr (lit ''step-'' @ replicate (3 - length (print_int (int n))) 48 @ print_int (int n))"

definition number_steps :: "json list \<Rightarrow> json list" where
  "number_steps actions = map (\<lambda>(n, item). JObj ((lit ''id'', step_name n) # items item)) (zip [0..<length actions] actions)"

definition MANIFEST_KEYS :: "string list" where
  "MANIFEST_KEYS = [''schema'', ''request_id'', ''node_id'', ''source'', ''target'', ''files'', ''profile'']"

definition check_manifest :: "json \<Rightarrow> unit res" where
  "check_manifest m =
     (let unknown = DeployError ''INVALID_PLAN'' ''Unknown or oversized deployment manifest'' in
      thenE (raise_if (\<not> (is_dict m \<and> has_keys m MANIFEST_KEYS \<and> at m ''schema'' = jlit ''local-hand-deployment-manifest/v1'')) unknown)
     (bindE (deploy_canonical m) (\<lambda>raw.
      thenE (raise_if (length raw > 1024 * 1024) unknown)
     (bindE (deploy_identity (at m ''request_id'') ''request ID'') (\<lambda>_.
      bindE (deploy_identity (at m ''node_id'') ''node ID'') (\<lambda>_.
      thenE (check_selection (at m ''source'') (at m ''node_id''))
     (thenE (check_selection (at m ''target'') (at m ''node_id''))
     (thenE (validate_profile (at m ''profile'') (at m ''source'') (at m ''target''))
            (check_change (at m ''profile'') (at m ''source'') (at m ''target''))))))))))"

text \<open>The plan before it is sealed.\<close>

definition plan_draft :: "planning \<Rightarrow> json \<Rightarrow> json res" where
  "plan_draft P m =
     thenE (check_manifest m)
    (let source = at m ''source''; tgt = at m ''target''; pr = at m ''profile''; limits = get_or pr ''file_limits'' (JObj []) in
     thenE (check_file_limits limits)
    (bindE (pl_files P (at m ''files'') limits (get_or pr ''owner_uid'' (JInt 0))) (\<lambda>files.
     thenE (pl_baseline P (at m ''node_id'') source tgt files)
    (bindE (case pl_inventory P of None \<Rightarrow> Inr pr | Some r \<Rightarrow> bindE r (\<lambda>inventory. Inr (dset pr (lit ''retained_preparations'') inventory))) (\<lambda>pr.
     bindE (service_actions P source tgt files) (\<lambda>services.
     bindE (gateway_actions P pr source tgt) (\<lambda>gateway.
     let actions = file_actions files @ services @ gateway in
     thenE (forE actions check_phase)
    (bindE (sort_actions pr actions) (\<lambda>actions.
     Inr (obj [(''schema'', jlit PLAN_SCHEMA), (''request_id'', at m ''request_id''), (''node_id'', at m ''node_id''), (''source'', source), (''target'', tgt),
       (''steps'', JList (number_steps actions)), (''profile'', pr)]))))))))))"

definition build_deploy_plan :: "planning \<Rightarrow> json \<Rightarrow> json res" where
  "build_deploy_plan P m = bindE (plan_draft P m) seal_plan"

end
