(* ===== verification/PlanProps.thy ===== *)
theory PlanProps
  imports DeployPlan DeployProps StoreProps StartupHistory "HOL-Library.Multiset"
begin

text \<open>
  The plan that \<open>build_plan\<close> seals stands in the fixed order of its services and actions: sealing sorts the
  keys of the record, on which neither order depends.
\<close>

section \<open>The order of the services does not depend on the order of a dictionary\<close>

definition same_graph :: "service_graph \<Rightarrow> service_graph \<Rightarrow> bool" where
  "same_graph a b \<longleftrightarrow> image_mset (apsnd set) (mset a) = image_mset (apsnd set) (mset b)"

lemma filter_image: "filter_mset P (image_mset f M) = image_mset f (filter_mset (\<lambda>x. P (f x)) M)"
  by (induction M) auto

lemma ready_mset: "mset (map fst (filter (\<lambda>(name, required). required = []) deps)) =
    image_mset fst (filter_mset (\<lambda>(name, R). R = {}) (image_mset (apsnd set) (mset deps)))"
  by (simp add: filter_image image_mset.compositionality comp_def case_prod_beta mset_filter)

lemma ready_same: "same_graph a b \<Longrightarrow> ready_names a = ready_names b"
  unfolding ready_names_def by (rule properties_for_sort) (simp_all add: ready_mset same_graph_def flip: mset_filter mset_map)

lemma drop_mset: "image_mset (apsnd set) (mset (drop_ready ready deps)) =
    image_mset (apsnd (\<lambda>R. R - set ready)) (filter_mset (\<lambda>e. fst e \<notin> set ready) (image_mset (apsnd set) (mset deps)))"
  by (auto simp: drop_ready_def filter_image image_mset.compositionality comp_def case_prod_beta mset_filter set_diff_eq intro!: image_mset_cong)

lemma drop_same: "same_graph a b \<Longrightarrow> same_graph (drop_ready ready a) (drop_ready ready b)"
  by (simp add: same_graph_def drop_mset)

lemma empty_same: "same_graph a b \<Longrightarrow> a = [] \<longleftrightarrow> b = []"
  unfolding same_graph_def by (metis image_mset_is_empty_iff mset_zero_iff)

lemma order_loop_same: "same_graph a b \<Longrightarrow> order_loop a ordered = order_loop b ordered"
proof (induction a ordered arbitrary: b rule: order_loop.induct)
  case (1 a ordered)
  note same = empty_same [OF 1(2)] ready_same [OF 1(2)] drop_same [OF 1(2)]
  show ?case
    using 1(1) [OF _ _ same(3)] same(1,2) by (subst (1 2) order_loop.simps) simp
qed

section \<open>The graph of a sorted profile\<close>

lemma mapE_projr: "mapE f xs = Inr ys \<longleftrightarrow> (\<forall>x \<in> set xs. \<not> isl (f x)) \<and> ys = map (projr \<circ> f) xs"
proof (induction xs arbitrary: ys)
  case (Cons x xs)
  show ?case
  proof (cases "mapE f xs")
    case (Inl e)
    then have "\<exists>y \<in> set xs. isl (f y)" using Cons.IH by fastforce
    then show ?thesis using Inl by (auto split: sum.splits)
  next
    case (Inr zs)
    then have "(\<forall>y \<in> set xs. \<not> isl (f y)) \<and> zs = map (projr \<circ> f) xs" using Cons.IH by blast
    then show ?thesis using Inr by (cases "f x") auto
  qed
qed auto

lemma not_isl_iff: "\<not> isl x \<longleftrightarrow> (\<exists>y. x = Inr y)" by (cases x) auto

lemma mapE_zip: "mapE f xs = Inr ys \<Longrightarrow> mapE g (zip xs ys) = mapE (\<lambda>x. bindE (f x) (\<lambda>y. g (x, y))) xs"
  by (induction xs arbitrary: ys) (auto split: sum.splits)

definition graph_entry :: "json \<Rightarrow> json \<Rightarrow> pystr list \<Rightarrow> pystr \<times> json \<Rightarrow> (pystr \<times> pystr list) res" where
  "graph_entry pr units managers e = bindE (declared_needs units e) (\<lambda>n. add_managers pr managers (e, n))"

lemma service_needs_Inr:
  "service_needs pr = Inr deps \<longleftrightarrow> (\<exists>systemd units managers. get_attr pr ''systemd'' (JObj []) = Inr systemd \<and>
     get_attr systemd ''units'' (JObj []) = Inr units \<and> is_dict units \<and> manager_names pr (items units) = Inr managers \<and>
     mapE (graph_entry pr units managers) (items units) = Inr deps)"
proof -
  have zip: "bindE (mapE (declared_needs units) xs) (\<lambda>n. mapE (add_managers pr managers) (zip xs n)) = Inr deps \<longleftrightarrow>
      mapE (graph_entry pr units managers) xs = Inr deps" for units managers xs
  proof (cases "mapE (declared_needs units) xs")
    case (Inl e)
    then have "\<nexists>n. mapE (declared_needs units) xs = Inr n" by simp
    then obtain x e' where x: "x \<in> set xs" "declared_needs units x = Inl e'" unfolding mapE_projr isl_def by blast
    then have "isl (graph_entry pr units managers x)" by (simp add: graph_entry_def)
    with x(1) have "mapE (graph_entry pr units managers) xs \<noteq> Inr deps" by (auto simp: mapE_projr)
    with Inl show ?thesis by simp
  qed (simp add: mapE_zip graph_entry_def [abs_def])
  show ?thesis
    unfolding service_needs_def zip [symmetric] by (auto simp: bindE_Inr_iff split: if_splits)
qed

lemma get_attr_sort_keys: "wf_json v \<Longrightarrow> get_attr v k d = Inr x \<Longrightarrow> get_attr (sort_keys v) k (sort_keys d) = Inr (sort_keys x) \<and> (wf_json d \<longrightarrow> wf_json x)"
  by (auto simp: get_attr_def get_or_def dget_sort_keys split: if_splits option.splits dest: wf_json_dget)

lemma probe_kind_sort_keys:
  assumes "wf_json pr" "wf_json spec" and "probe_kind pr spec = Inr k"
  shows "probe_kind (sort_keys pr) (sort_keys spec) = Inr (sort_keys k)"
proof -
  from assms(3) obtain probes component where a: "get_attr pr ''probes'' (JObj []) = Inr probes" "get_attr spec ''component'' JNull = Inr component"
    "is_dict probes" "\<not> is_list component" "\<not> is_dict component"
    "get_attr (case component of JStr c \<Rightarrow> (case dget probes c of Some x \<Rightarrow> x | None \<Rightarrow> JObj []) | _ \<Rightarrow> JObj []) ''kind'' JNull = Inr k"
    by (auto simp: probe_kind_def bindE_Inr_iff split: if_splits)
  note sorted = get_attr_sort_keys [OF assms(1) a(1)] get_attr_sort_keys [OF assms(2) a(2)]
  have probes: "wf_json probes" using sorted(1) by simp
  have entry: "wf_json (case dget probes c of Some x \<Rightarrow> x | None \<Rightarrow> JObj [])" for c
    using wf_json_dget [OF probes] by (simp split: option.splits)
  show ?thesis
  proof (cases component)
    case (JStr c)
    then have "get_attr (case dget probes c of Some x \<Rightarrow> x | None \<Rightarrow> JObj []) ''kind'' JNull = Inr k" using a(6) by simp
    from get_attr_sort_keys [OF entry this] show ?thesis
      using sorted a(3) JStr by (cases "dget probes c") (simp_all add: probe_kind_def dget_sort_keys probes)
  qed (use sorted a in \<open>auto simp: probe_kind_def get_attr_def get_or_def\<close>)
qed

lemma set_of_sort_keys: "wf_json v \<Longrightarrow> set_of v = Inr xs \<Longrightarrow> \<exists>ys. set_of (sort_keys v) = Inr ys \<and> (\<forall>u. JStr u \<in> set ys \<longleftrightarrow> JStr u \<in> set xs)"
  by (cases v) (force simp: set_of_def thenE_Inr_iff hashable_def raise_if_def image_iff eq_commute [of "JStr _"] split: if_splits)+

lemma declared_needs_sort_keys:
  assumes "wf_json spec" and "declared_needs units (name, spec) = Inr (n, r)"
  shows "\<exists>r'. declared_needs (sort_keys units) (name, sort_keys spec) = Inr (n, r') \<and> set r' = set r"
proof -
  from assms(2) obtain d xs where d: "get_attr spec ''read_only_dependencies'' (JList []) = Inr d" "set_of d = Inr xs"
    "n = name" "r = filter (\<lambda>u. JStr u \<in> set xs) (jkeys units)"
    by (auto simp: declared_needs_def bindE_Inr_iff)
  from get_attr_sort_keys [OF assms(1) d(1)] have sorted: "get_attr (sort_keys spec) ''read_only_dependencies'' (JList []) = Inr (sort_keys d)" "wf_json d" by simp_all
  from set_of_sort_keys [OF sorted(2) d(2)] obtain ys where "set_of (sort_keys d) = Inr ys" "\<forall>u. JStr u \<in> set ys \<longleftrightarrow> JStr u \<in> set xs" by blast
  with sorted(1) d(3,4) show ?thesis by (auto simp: declared_needs_def)
qed

lemma items_mset: "mset (items (sort_keys v)) = image_mset (apsnd sort_keys) (mset (items v))"
  by (cases v) (simp_all add: items_def apsnd_def map_prod_def comp_def case_prod_beta)

lemma items_distinct: "wf_json v \<Longrightarrow> distinct (map fst (items v))"
  by (cases v) (simp_all add: items_def)

lemma mapE_items_sort_keys:
  assumes ok: "mapE f (items v) = Inr ys"
    and each: "\<And>k x y. (k, x) \<in> set (items v) \<Longrightarrow> f (k, x) = Inr y \<Longrightarrow> \<exists>y'. g (k, sort_keys x) = Inr y' \<and> R y' = R y"
  shows "\<exists>ys'. mapE g (items (sort_keys v)) = Inr ys' \<and> image_mset R (mset ys') = image_mset R (mset ys)"
proof -
  from ok have f: "\<forall>e \<in> set (items v). \<not> isl (f e)" and ys: "ys = map (projr \<circ> f) (items v)" by (simp_all add: mapE_projr)
  have g: "\<not> isl (g (apsnd sort_keys e)) \<and> R (projr (g (apsnd sort_keys e))) = R (projr (f e))" if e: "e \<in> set (items v)" for e
  proof -
    obtain k x where kx: "e = (k, x)" by (cases e)
    from f e obtain y where y: "f e = Inr y" by (auto simp: not_isl_iff)
    from each [of k x y] e y show ?thesis by (auto simp: kx)
  qed
  have "set (items (sort_keys v)) = apsnd sort_keys ` set (items v)" by (auto simp: items_sort_keys apsnd_def map_prod_def)
  then have "mapE g (items (sort_keys v)) = Inr (map (projr \<circ> g) (items (sort_keys v)))" using g by (simp add: mapE_projr)
  moreover have "image_mset R (mset (map (projr \<circ> g) (items (sort_keys v)))) = image_mset R (mset ys)"
    using g by (auto simp: ys items_mset image_mset.compositionality comp_def intro!: image_mset_cong)
  ultimately show ?thesis by blast
qed

definition manager_entry :: "json \<Rightarrow> pystr \<times> json \<Rightarrow> (pystr \<times> bool) res" where
  "manager_entry pr e = (case e of (name, spec) \<Rightarrow> bindE (probe_kind pr spec) (\<lambda>k. bindE (in_names k [''resident'', ''prepared'']) (\<lambda>m. Inr (name, m))))"

lemma manager_names_Inr: "manager_names pr us = Inr ms \<longleftrightarrow> (\<exists>marked. mapE (manager_entry pr) us = Inr marked \<and> ms = map fst (filter snd marked))"
  by (auto simp: manager_names_def manager_entry_def [abs_def] bindE_Inr_iff)

lemma manager_names_sort_keys:
  assumes "wf_json pr" "wf_json units" and "manager_names pr (items units) = Inr ms"
  shows "\<exists>ms'. manager_names (sort_keys pr) (items (sort_keys units)) = Inr ms' \<and> set ms' = set ms"
proof -
  from assms(3) obtain marked where marked: "mapE (manager_entry pr) (items units) = Inr marked" and ms: "ms = map fst (filter snd marked)"
    unfolding manager_names_Inr by blast
  have "\<exists>y'. manager_entry (sort_keys pr) (name, sort_keys spec) = Inr y' \<and> id y' = id y"
    if "(name, spec) \<in> set (items units)" "manager_entry pr (name, spec) = Inr y" for name spec y
    using that probe_kind_sort_keys [OF assms(1) items_wf [OF assms(2) that(1)]] by (auto simp: manager_entry_def bindE_Inr_iff in_names_sort_keys)
  from mapE_items_sort_keys [where R = id and g = "manager_entry (sort_keys pr)", OF marked this] obtain marked' where m: "mapE (manager_entry (sort_keys pr)) (items (sort_keys units)) = Inr marked'"
    "mset marked' = mset marked" by auto
  from mset_eq_setD [OF m(2)] m(1) show ?thesis unfolding manager_names_Inr ms by auto
qed

lemma graph_entry_sort_keys:
  assumes "wf_json pr" "wf_json spec" and "graph_entry pr units ms (name, spec) = Inr y" and "set ms' = set ms"
  shows "\<exists>y'. graph_entry (sort_keys pr) (sort_keys units) ms' (name, sort_keys spec) = Inr y' \<and> apsnd set y' = apsnd set y"
proof -
  from assms(3) obtain n r k where n: "declared_needs units (name, spec) = Inr (n, r)" and k: "probe_kind pr spec = Inr k"
    and y: "y = (n, if k = jlit ''mcp'' then r @ filter (\<lambda>m. m \<notin> set r) ms else r)"
    by (auto simp: graph_entry_def add_managers_def bindE_Inr_iff)
  from declared_needs_sort_keys [OF assms(2) n] obtain r' where "declared_needs (sort_keys units) (name, sort_keys spec) = Inr (n, r')" "set r' = set r" by blast
  with probe_kind_sort_keys [OF assms(1,2) k] y assms(4) show ?thesis
    by (auto simp: graph_entry_def add_managers_def)
qed

lemma service_needs_sort_keys:
  assumes wf: "wf_json pr" and ok: "service_needs pr = Inr deps"
  shows "\<exists>deps'. service_needs (sort_keys pr) = Inr deps' \<and> same_graph deps' deps"
proof -
  from ok obtain systemd units ms where a: "get_attr pr ''systemd'' (JObj []) = Inr systemd" "get_attr systemd ''units'' (JObj []) = Inr units"
    "is_dict units" "manager_names pr (items units) = Inr ms" "mapE (graph_entry pr units ms) (items units) = Inr deps"
    unfolding service_needs_Inr by blast
  have systemd: "get_attr (sort_keys pr) ''systemd'' (JObj []) = Inr (sort_keys systemd)" "wf_json systemd"
    using get_attr_sort_keys [OF wf a(1)] by simp_all
  have units: "get_attr (sort_keys systemd) ''units'' (JObj []) = Inr (sort_keys units)" "wf_json units"
    using get_attr_sort_keys [OF systemd(2) a(2)] by simp_all
  from manager_names_sort_keys [OF wf units(2) a(4)] obtain ms' where ms': "manager_names (sort_keys pr) (items (sort_keys units)) = Inr ms'" "set ms' = set ms" by blast
  from mapE_items_sort_keys [where R = "apsnd set" and g = "graph_entry (sort_keys pr) (sort_keys units) ms'", OF a(5) graph_entry_sort_keys [OF wf _ _ ms'(2)]] items_wf [OF units(2)]
  obtain deps' where "mapE (graph_entry (sort_keys pr) (sort_keys units) ms') (items (sort_keys units)) = Inr deps'"
    "image_mset (apsnd set) (mset deps') = image_mset (apsnd set) (mset deps)" by blast
  then show ?thesis unfolding service_needs_Inr same_graph_def using systemd(1) units(1) ms'(1) a(3) by auto
qed

lemma service_order_sort_keys: "wf_json pr \<Longrightarrow> service_order pr = Inr ranks \<Longrightarrow> service_order (sort_keys pr) = Inr ranks"
proof -
  assume wf: "wf_json pr" and "service_order pr = Inr ranks"
  then obtain deps ordered where d: "service_needs pr = Inr deps" "order_loop deps [] = Inr ordered" "ranks = ranks_of ordered"
    by (auto simp: service_order_def bindE_Inr_iff)
  from service_needs_sort_keys [OF wf d(1)] obtain deps' where d': "service_needs (sort_keys pr) = Inr deps'" "same_graph deps' deps" by blast
  then show ?thesis using d(2,3) order_loop_same [OF d'(2), of "[]"] by (simp add: service_order_def)
qed

lemma action_order_sort_keys:
  assumes wf: "wf_json item" "wf_json pr" and "action_order item pr = Inr k"
  shows "action_order (sort_keys item) (sort_keys pr) = Inr k"
proof -
  from assms(3) obtain action ranks phase n where a: "fld item ''action'' = Some action" "is_dict action" "service_order pr = Inr ranks"
    "\<not> is_list (at action ''target'')" "\<not> is_dict (at action ''target'')" "fld action ''phase'' = Some phase" "phase_number phase = Inr n"
    "k = (n, action_rank ranks action)" unfolding action_order_Inr by blast
  have action: "wf_json action" using wf(1) a(1) by (rule wf_json_dget)
  have "phase_number (sort_keys phase) = Inr n" using a(7) by (cases phase) (auto simp: phase_number_def)
  moreover have "action_rank ranks (sort_keys action) = action_rank ranks action"
    by (cases "at action ''target''") (simp_all add: action_rank_def at_sort_keys action Let_def)
  moreover have "fld (sort_keys item) ''action'' = Some (sort_keys action)" "fld (sort_keys action) ''phase'' = Some (sort_keys phase)"
    using a(1,6) by (simp_all add: dget_sort_keys wf action)
  moreover have "at (sort_keys action) ''target'' = sort_keys (at action ''target'')" by (rule at_sort_keys [OF action])
  ultimately show ?thesis unfolding action_order_Inr using a(2,4,5,8) service_order_sort_keys [OF wf(2) a(3)]
    by (intro exI conjI) (assumption | simp)+
qed

section \<open>Built plans\<close>

lemma get_attr_dset: "k' \<noteq> k \<Longrightarrow> get_attr (dset v (lit k') x) k d = get_attr v k d"
  by (cases v) (simp_all add: get_attr_def get_or_def dset_def dget_def)

lemma probe_kind_dset: "k \<notin> {''systemd'', ''probes''} \<Longrightarrow> probe_kind (dset pr (lit k) x) = probe_kind pr"
  by (simp add: probe_kind_def [abs_def] get_attr_dset)

lemma service_order_dset: "k \<notin> {''systemd'', ''probes''} \<Longrightarrow> service_order (dset pr (lit k) x) = service_order pr"
  using probe_kind_dset [of k pr x]
  by (simp add: service_order_def service_needs_def manager_names_def add_managers_def [abs_def] get_attr_dset cong: if_cong)

lemma check_manifest_order: "check_manifest m = Inr () \<Longrightarrow> \<exists>ranks. service_order (at m ''profile'') = Inr ranks"
  by (auto simp: check_manifest_def Let_def bindE_Inr_iff thenE_Inr_iff validate_profile_def)

lemma plan_draft_Inr:
  assumes "plan_draft P m = Inr p"
  obtains actions pr marks ranks where "keyed_steps pr actions = Inr marks" and "service_order pr = Inr ranks"
    and "p = obj [(''schema'', jlit PLAN_SCHEMA), (''request_id'', at m ''request_id''), (''node_id'', at m ''node_id''), (''source'', at m ''source''),
      (''target'', at m ''target''), (''steps'', JList (number_steps (map snd (sort_key fst marks)))), (''profile'', pr)]"
proof -
  from assms obtain actions pr marks where a: "keyed_steps pr actions = Inr marks" "check_manifest m = Inr ()"
    "pr = at m ''profile'' \<or> (\<exists>v. pr = dset (at m ''profile'') (lit ''retained_preparations'') v)"
    "p = obj [(''schema'', jlit PLAN_SCHEMA), (''request_id'', at m ''request_id''), (''node_id'', at m ''node_id''), (''source'', at m ''source''),
      (''target'', at m ''target''), (''steps'', JList (number_steps (map snd (sort_key fst marks)))), (''profile'', pr)]"
    by (auto simp: plan_draft_def Let_def bindE_Inr_iff thenE_Inr_iff sort_actions_def split: option.splits)
  from check_manifest_order [OF a(2)] obtain ranks where "service_order (at m ''profile'') = Inr ranks" by blast
  then have "service_order pr = Inr ranks" using a(3) by (auto simp: service_order_dset)
  with a(1,4) that show thesis by blast
qed

lemma keyed_sorted: "keyed_steps pr actions = Inr marks \<Longrightarrow> (k, s) \<in> set (sort_key fst marks) \<Longrightarrow> action_order s pr = Inr k"
  by (auto simp: keyed_steps_def bindE_Inr_iff dest!: mapE_member)

lemma seal_plan_Inr:
  assumes "storable p" and "seal_plan p = Inr q"
  shows "\<exists>d. q = dset (sort_keys p) (lit ''digest'') d"
  using assms by (auto simp: seal_plan_def bindE_Inr_iff thenE_Inr_iff deploy_canonical_def deploy_decode_dumps validate_plan_def split: if_splits)

lemma numbered_order:
  assumes "action_order s pr = Inr k"
  shows "action_order (JObj ((lit ''id'', i) # items s)) pr = Inr k"
proof -
  from assms obtain action where "fld s ''action'' = Some action" unfolding action_order_Inr by blast
  then have "fld (JObj ((lit ''id'', i) # items s)) ''action'' = fld s ''action''" by (cases s) (simp_all add: items_def dget_def)
  with assms show ?thesis unfolding action_order_Inr by simp
qed

lemma sorted_keys:
  assumes k: "keyed_steps pr actions = Inr marks" and wf_pr: "wf_json pr"
    and wf: "\<forall>s \<in> set (number_steps (map snd (sort_key fst marks))). wf_json s"
  shows "keyed_steps (sort_keys pr) (map sort_keys (number_steps (map snd (sort_key fst marks)))) =
    Inr (zip (map fst (sort_key fst marks)) (map sort_keys (number_steps (map snd (sort_key fst marks)))))"
proof -
  let ?steps = "number_steps (map snd (sort_key fst marks))"
  have step: "action_order (sort_keys (?steps ! i)) (sort_keys pr) = Inr (fst (sort_key fst marks ! i))" if i: "i < length marks" for i
  proof (rule action_order_sort_keys [OF _ wf_pr])
    have "?steps ! i \<in> set ?steps" using i by (intro nth_mem) (simp add: number_steps_def)
    then show "wf_json (?steps ! i)" using wf by blast
    have "(fst (sort_key fst marks ! i), snd (sort_key fst marks ! i)) \<in> set (sort_key fst marks)" using i nth_mem [of i "sort_key fst marks"] by simp
    from numbered_order [OF keyed_sorted [OF k this]]
    show "action_order (?steps ! i) pr = Inr (fst (sort_key fst marks ! i))" using i by (simp add: number_steps_def)
  qed
  have len: "length ?steps = length marks" by (simp add: number_steps_def)
  show ?thesis
    unfolding keyed_steps_def mapE_Inr_iff bindE_Inr_iff using step len by auto
qed

text \<open>C25. A plan that \<open>build_plan\<close> returns has its steps in the fixed order and named by their places, so the check
  of its schedule comes down to the checks of its single steps: the order of a built plan is never refused, whatever
  order the adapters gave their actions in.\<close>

theorem built_plan_ordered:
  assumes draft: "plan_draft P m = Inr p" "storable p" and built: "build_deploy_plan P m = Inr q"
  shows "validate_schedule q = forE (elements (at q ''steps'')) (check_schedule_step (at q ''profile'')) \<and>
    (\<forall>i < length (elements (at q ''steps'')). at (elements (at q ''steps'') ! i) ''id'' = step_name i)"
proof -
  obtain actions pr marks ranks where k: "keyed_steps pr actions = Inr marks" "service_order pr = Inr ranks"
    and p: "p = obj [(''schema'', jlit PLAN_SCHEMA), (''request_id'', at m ''request_id''), (''node_id'', at m ''node_id''), (''source'', at m ''source''),
      (''target'', at m ''target''), (''steps'', JList (number_steps (map snd (sort_key fst marks)))), (''profile'', pr)]"
    by (rule plan_draft_Inr [OF draft(1)])
  define steps where "steps = number_steps (map snd (sort_key fst marks))"
  have wf: "wf_json p" using draft(2) by (rule storable_wf)
  have p_at: "at p ''steps'' = JList steps" "at p ''profile'' = pr" "is_dict p" by (simp_all add: p steps_def)
  have wf_pr: "wf_json pr" and wf_steps: "\<forall>s \<in> set steps. wf_json s"
    using wf_json_at [OF wf, of "''profile''"] wf_json_at [OF wf, of "''steps''"] by (simp_all add: p_at)
  from seal_plan_Inr [OF draft(2)] built draft(1) obtain d where q: "q = dset (sort_keys p) (lit ''digest'') d"
    by (auto simp: build_deploy_plan_def)
  have q_at: "elements (at q ''steps'') = map sort_keys steps" "at q ''profile'' = sort_keys pr"
    by (simp_all add: q p_at at_sort_keys wf elements_def)
  note keys = sorted_keys [OF k(1) wf_pr wf_steps [unfolded steps_def], folded steps_def]
  have len: "length steps = length marks" by (simp add: steps_def number_steps_def)
  have "sort_key fst (zip (map fst (sort_key fst marks)) (map sort_keys steps)) = zip (map fst (sort_key fst marks)) (map sort_keys steps)"
    by (rule sort_key_id_if_sorted) (simp add: len)
  then have "validate_schedule q = forE (elements (at q ''steps'')) (check_schedule_step (at q ''profile''))"
    using service_order_sort_keys [OF wf_pr k(2)] keys len
    by (cases "forE (map sort_keys steps) (check_schedule_step (sort_keys pr))") (simp_all add: validate_schedule_def q_at raise_if_def)
  moreover have "at (elements (at q ''steps'') ! i) ''id'' = step_name i" if "i < length (elements (at q ''steps''))" for i
  proof -
    have i: "i < length steps" using that by (simp add: q_at)
    then have nth: "steps ! i = JObj ((lit ''id'', step_name i) # items (snd (sort_key fst marks ! i)))" by (simp add: steps_def number_steps_def len)
    have "at (sort_keys (steps ! i)) ''id'' = sort_keys (at (steps ! i) ''id'')" using wf_steps i by (simp add: at_sort_keys)
    also have "at (steps ! i) ''id'' = step_name i" unfolding nth by (simp add: at_def get_or_def dget_def)
    finally show ?thesis using i by (simp add: q_at step_name_def)
  qed
  ultimately show ?thesis by blast
qed

section \<open>A concrete plan\<close>

definition plan_profile :: json where
  "plan_profile = obj
     [(''schema'', jlit ''local-hand-deployment-profile/v1''), (''startup_descriptor'', jlit ''/etc/startup''), (''maintenance_directory'', jlit ''/etc/gate''),
      (''guarded_components'', obj [(''mcp'', obj [(''configuration'', jlit ''/etc/mcp''), (''entrypoints'', JList [jlit ''listener''])])]),
      (''probes'', obj [(''mcp'', obj [(''kind'', jlit ''mcp''), (''socket'', jlit ''/run/mcp'')])]),
      (''systemd'', obj [(''units'', obj [(''mcp'', obj [(''component'', jlit ''mcp'')])])]),
      (''filesystem_support'', obj [(''ordinary_handles'', JBool True), (''fsid'', JBool True), (''reboot_verified'', JBool True)])]"

definition plan_side :: json where
  "plan_side = obj [(''deployment_digest'', gate_deployment), (''selection'', stable_selection), (''services'', obj [(''mcp'', obj [])])]"

definition plan_manifest :: json where
  "plan_manifest = obj [(''schema'', jlit ''local-hand-deployment-manifest/v1''), (''request_id'', jlit ''r-1''), (''node_id'', gate_example_node),
     (''source'', plan_side), (''target'', plan_side), (''files'', JList []), (''profile'', plan_profile)]"

definition unit_action :: "string \<Rightarrow> string \<Rightarrow> json" where
  "unit_action kind phase = obj [(''kind'', jlit kind), (''phase'', jlit phase), (''target'', jlit ''mcp'')]"

text \<open>The service adapter names the start before the stop.\<close>

definition plan_host :: planning where
  "plan_host = \<lparr>pl_files = (\<lambda>files limits owner. Inr []), pl_baseline = (\<lambda>node source tgt files. Inr ()), pl_inventory = None,
     pl_services = (\<lambda>source tgt files. Inr [unit_action ''service_start'' ''after_reload'', unit_action ''service_stop'' ''quiesced_before_files'']),
     pl_gateway = (\<lambda>source tgt. Inr [])\<rparr>"

definition drafted_steps :: "json list" where
  "drafted_steps = number_steps [item_of ''service'' (unit_action ''service_stop'' ''quiesced_before_files''),
     item_of ''service'' (unit_action ''service_start'' ''after_reload'')]"

definition plan_body :: json where
  "plan_body = obj [(''schema'', jlit PLAN_SCHEMA), (''request_id'', jlit ''r-1''), (''node_id'', gate_example_node), (''source'', plan_side),
     (''target'', plan_side), (''steps'', JList drafted_steps), (''profile'', plan_profile)]"

lemma plan_profile_order: "service_order plan_profile = Inr [(lit ''mcp'', 0)]"
  by code_simp

lemma plan_actions_sorted: "sort_actions plan_profile (map (item_of ''service'') [unit_action ''service_start'' ''after_reload'', unit_action ''service_stop'' ''quiesced_before_files'']) =
     Inr [item_of ''service'' (unit_action ''service_stop'' ''quiesced_before_files''), item_of ''service'' (unit_action ''service_start'' ''after_reload'')]"
  by code_simp

lemma plan_actions_phases: "forE (map (item_of ''service'') [unit_action ''service_start'' ''after_reload'', unit_action ''service_stop'' ''quiesced_before_files'']) check_phase = Inr ()"
  by code_simp

lemma plan_profile_entries: "forE (items (at plan_profile ''guarded_components'')) (\<lambda>(name, guard). thenE (validate_guard guard)
     (validate_probe plan_profile name (case dget (at plan_profile ''probes'') name of Some x \<Rightarrow> x | None \<Rightarrow> JNull))) = Inr ()"
  by code_simp

lemma plan_profile_bounds: "validate_bounds plan_profile = Inr ()"
  by code_simp

lemma plan_profile_support: "validate_support plan_profile = Inr ()"
  "check_file_limits (get_or plan_profile ''file_limits'' (JObj [])) = Inr ()"
  by code_simp+

lemma plan_profile_managed: "managed_components plan_profile = Inr [jlit ''mcp'']"
  "keys_within plan_profile PROFILE_KEYS"
  by code_simp+

lemma plan_profile_keys: "at plan_profile ''schema'' = jlit ''local-hand-deployment-profile/v1''"
  "jkeys (at plan_profile ''guarded_components'') = [lit ''mcp'']"
  "jkeys (at plan_profile ''probes'') = [lit ''mcp'']"
  "is_dict (at plan_profile ''guarded_components'')"
  "is_dict (at plan_profile ''probes'')"
  "is_dict plan_profile"
  by code_simp+

lemma plan_request_names: "deploy_id (lit ''r-1'')"
  "deploy_id (lit ''node-1'')"
  by code_simp+

lemmas plan_profile_parts = plan_profile_order plan_profile_entries plan_profile_bounds plan_profile_support plan_profile_managed plan_profile_keys plan_request_names

lemma plan_profile_absent: "present plan_profile k \<longleftrightarrow> k \<in> {''schema'', ''startup_descriptor'', ''maintenance_directory'', ''guarded_components'', ''probes'', ''systemd'', ''filesystem_support''}"
  by (simp add: plan_profile_def present_def)

lemma plan_side_selected: "selected_components plan_side = [lit ''mcp'']"
  by (simp add: selected_components_def plan_side_def startup_example_def jkeys_def) (simp add: obj_def)

lemma plan_manifest_size: "length (dumps plan_manifest) \<le> 100000"
proof -
  have "size_bound plan_manifest \<le> 100000" by (simp add: plan_manifest_def plan_side_def plan_profile_def startup_example_def obj_def STARTUP_SCHEMA_def)
  then show ?thesis using length_canonical_bytes [of plan_manifest] by (simp add: canonical_bytes_def)
qed

lemma plan_selection: "check_selection plan_side gate_example_node = Inr ()"
  using stable_doc by (simp add: check_selection_def plan_side_def keys_within_def selection_doc_def startup_example_at raise_if_def thenE_def jkeys_obj del: map_replicate replicate_Suc)

lemma plan_checked: "check_manifest plan_manifest = Inr ()"
proof -
  have finite: "deploy_canonical plan_manifest = Inr (dumps plan_manifest)"
    by (simp add: deploy_canonical_def plan_manifest_def plan_side_def plan_profile_def startup_example_def nonfinite_obj)
  have entries: "validate_entries plan_profile plan_side plan_side = Inr ()"
    by (simp add: validate_entries_def Let_def plan_profile_parts plan_side_selected raise_if_def)
  have closed: "at plan_side ''gateway'' = JNull" "get_or plan_side ''gateway'' (JObj []) = JObj []"
    "get_or (JObj []) ''running'' JNull = JNull" by (simp_all add: plan_side_def get_or_def)
  have "validate_profile plan_profile plan_side plan_side = Inr ()"
    by (simp add: validate_profile_def plan_profile_parts entries plan_profile_absent closed get_attr_def raise_if_def)
  moreover have "check_change plan_profile plan_side plan_side = Inr ()"
    by (simp add: check_change_def Let_def plan_profile_parts raise_if_def thenE_def)
  moreover have "at plan_manifest k = (case map_of [(''schema'', jlit ''local-hand-deployment-manifest/v1''), (''request_id'', jlit ''r-1''), (''node_id'', gate_example_node),
     (''source'', plan_side), (''target'', plan_side), (''files'', JList []), (''profile'', plan_profile)] k of None \<Rightarrow> JNull | Some x \<Rightarrow> x)" for k
    unfolding plan_manifest_def by (rule at_obj_lookup)
  moreover have "has_keys plan_manifest MANIFEST_KEYS" "is_dict plan_manifest" by (auto simp: plan_manifest_def MANIFEST_KEYS_def)
  ultimately show ?thesis
    using plan_manifest_size by (simp add: check_manifest_def Let_def finite plan_selection deploy_identity_def plan_profile_parts raise_if_def thenE_def)
qed

lemma plan_drafted: "plan_draft plan_host plan_manifest = Inr plan_body"
proof -
  have at: "at plan_manifest k = (case map_of [(''schema'', jlit ''local-hand-deployment-manifest/v1''), (''request_id'', jlit ''r-1''), (''node_id'', gate_example_node),
     (''source'', plan_side), (''target'', plan_side), (''files'', JList []), (''profile'', plan_profile)] k of None \<Rightarrow> JNull | Some x \<Rightarrow> x)" for k
    unfolding plan_manifest_def by (rule at_obj_lookup)
  have "service_actions plan_host plan_side plan_side [] =
      Inr (map (item_of ''service'') [unit_action ''service_start'' ''after_reload'', unit_action ''service_stop'' ''quiesced_before_files''])"
    by (simp add: service_actions_def plan_host_def plan_side_def get_or_def set_of_def raise_if_def) (simp add: obj_def raise_if_def set_of_def)
  moreover have "gateway_actions plan_host plan_profile plan_side plan_side = Inr []"
    by (simp add: gateway_actions_def plan_side_def)
  ultimately show ?thesis
    using plan_actions_sorted plan_actions_phases
    by (simp add: plan_draft_def Let_def plan_checked at plan_profile_support(2) plan_host_def file_actions_def plan_body_def drafted_steps_def)
qed

lemma storable_JList: "storable (JList xs) = (\<forall>x \<in> set xs. storable x)"
  by (simp add: storable_def)

lemma scalars_plan: "scalars (replicate n 48)" "scalars (lit ''step-'' @ replicate n 48 @ print_int 0)" "scalars (lit ''step-'' @ replicate n 48 @ print_int 1)"
proof -
  have "print_int 0 = lit ''0''" "print_int 1 = lit ''1''" by code_simp+
  then show "scalars (replicate n 48)" "scalars (lit ''step-'' @ replicate n 48 @ print_int 0)" "scalars (lit ''step-'' @ replicate n 48 @ print_int 1)"
    using scalars_lit [of "''step-''"] scalars_lit [of "''0''"] scalars_lit [of "''1''"] by (auto simp: scalars_def scalar_def)
qed

lemma scalars_sha256: "scalars (sha256_hex m)"
  by (auto simp: scalars_def scalar_def is_hex_digit_def is_digit_def dest!: sha256_hex_digits)

lemma plan_storable: "storable plan_body"
  by (auto simp: plan_body_def drafted_steps_def plan_side_def plan_profile_def unit_action_def item_of_def number_steps_def step_name_def startup_example_def
      storable_JObj storable_JList scalars_plan scalars_sha256 items_obj_list simp del: map_replicate replicate_Suc intro!: storable_obj)

lemma nonfinite_dpop: "\<not> nonfinite v \<Longrightarrow> \<not> nonfinite (dpop v k)"
  by (cases v) (auto simp: dpop_def AList.delete_eq)

lemma seal_plan_valid:
  assumes "storable p" and "is_dict p" and "\<not> nonfinite p"
    and "validate_plan default_limits (dset (sort_keys p) (lit ''digest'') (JStr (sha256_hex (dumps (dpop (sort_keys p) (lit ''digest'')))))) = Inr q"
  shows "seal_plan p = Inr q"
  using assms by (simp add: seal_plan_def deploy_canonical_def deploy_decode_dumps deploy_digest_def nonfinite_sort_keys nonfinite_dpop)

lemma plan_sealed: "\<exists>q. seal_plan plan_body = Inr q"
proof -
  define content where "content = sha256_hex (dumps (dpop (sort_keys plan_body) (lit ''digest'')))"
  define q where "q = dset (sort_keys plan_body) (lit ''digest'') (JStr content)"
  have wf: "wf_json plan_body" using plan_storable by (rule storable_wf)
  have dict: "is_dict plan_body" by (simp add: plan_body_def)
  have fin: "\<not> nonfinite plan_body"
    by (simp add: plan_body_def drafted_steps_def plan_side_def plan_profile_def unit_action_def item_of_def number_steps_def step_name_def startup_example_def nonfinite_obj items_obj_list)
  have q_at: "at q k = (if k = ''digest'' then JStr content else sort_keys (at plan_body k))" for k
    by (simp add: q_def dict at_sort_keys wf)
  have body_at: "at plan_body k = (case map_of [(''schema'', jlit PLAN_SCHEMA), (''request_id'', jlit ''r-1''), (''node_id'', gate_example_node), (''source'', plan_side),
     (''target'', plan_side), (''steps'', JList drafted_steps), (''profile'', plan_profile)] k of None \<Rightarrow> JNull | Some x \<Rightarrow> x)" for k
    unfolding plan_body_def by (rule at_obj_lookup)
  have body_keys: "set (jkeys plan_body) = set (map lit [''schema'', ''request_id'', ''node_id'', ''source'', ''target'', ''steps'', ''profile''])"
    by (simp add: plan_body_def jkeys_obj)
  have keys: "has_keys q PLAN_KEYS" "is_dict q"
    using dict body_keys by (auto simp: q_def has_keys_def jkeys_dset PLAN_KEYS_def)
  have steps_size: "sum_list (map (\<lambda>x. Suc (size_bound x)) drafted_steps) \<le> 5000" by code_simp
  have profile_size: "size_bound plan_profile \<le> 20000" by code_simp
  have side_size: "size_bound plan_side \<le> 50000" by (simp add: plan_side_def startup_example_def obj_def STARTUP_SCHEMA_def)
  have body_size: "size_bound plan_body \<le> 150000"
    using steps_size profile_size side_size by (simp add: plan_body_def obj_def PLAN_SCHEMA_def)
  have "size_bound q \<le> size_bound plan_body + 1000"
    unfolding q_def by (rule order_trans [OF size_bound_dset]) (simp add: size_bound_sort_keys content_def)
  then have "size_bound q \<le> 200000" using body_size by simp
  then have size: "length (dumps q) \<le> 200000" using length_canonical_bytes [of q] by (simp add: canonical_bytes_def)
  have side: "wf_json plan_side" "is_dict plan_side" using wf_json_at [OF wf, of "''source''"] by (simp_all add: body_at plan_side_def)
  have digest: "get_or (sort_keys plan_side) ''deployment_digest'' x = gate_deployment" for x
    using side(1) by (simp add: get_or_def dget_sort_keys) (simp add: plan_side_def)
  have steps: "foldE plan_step [] (map sort_keys drafted_steps) = Inr [lit ''step-001'', lit ''step-000'']"
    by code_simp
  have hex: "deploy_hex (digest_text gate_deployment)" by code_simp
  have fin_q: "\<not> nonfinite q" using fin unfolding q_def by (intro nonfinite_dset) (simp_all add: nonfinite_sort_keys)
  have content: "deploy_digest (dpop q (lit ''digest'')) = Inr content"
    using fin by (simp add: q_def content_def deploy_digest_def deploy_canonical_def nonfinite_dpop nonfinite_sort_keys)
  have "validate_plan default_limits q = Inr q"
    unfolding validate_plan_def
    using size fin_q steps by (simp add: keys q_at body_at digest hex content deploy_identity_def plan_profile_parts invalid_plan_def elements_def raise_if_def
      default_limits_def deploy_canonical_def side drafted_steps_def number_steps_def plan_profile_def)
  then have "seal_plan plan_body = Inr q"
    using seal_plan_valid [OF plan_storable dict fin] by (simp add: q_def content_def)
  then show ?thesis by blast
qed

theorem built_plan_ordered_witness:
  "\<exists>q. build_deploy_plan plan_host plan_manifest = Inr q \<and>
     validate_schedule q = forE (elements (at q ''steps'')) (check_schedule_step (at q ''profile'')) \<and>
     (\<forall>i < length (elements (at q ''steps'')). at (elements (at q ''steps'') ! i) ''id'' = step_name i)"
proof -
  from plan_sealed obtain q where "build_deploy_plan plan_host plan_manifest = Inr q" by (auto simp: build_deploy_plan_def plan_drafted)
  with built_plan_ordered [OF plan_drafted plan_storable this] show ?thesis by blast
qed

end
