(* ===== verification/Spec2Isabelle.thy ===== *)
theory Spec2Isabelle
  imports ContractProps LedgerHistory Bounds BudgetProps QuotaProps BootstrapProps PolicyProps Admission Retention CancelProps QuotaBinding Barrier DeployProps GrantProps PipeProps StartupHistory StoreProps CoordinatorProps PlanProps
begin

text \<open>
  The core of the restricted job system of \<open>infra-local-hand\<close> and of the maintenance and deployment protocol
  around it, modelled from the Python sources under \<open>src/tools\<close>.

  \<^bold>\<open>The program.\<close>  A caller submits a request as JSON.  \<open>local_hand_jobs/contract.py\<close> decodes and validates it; the
  broker (\<open>broker.py\<close>) authorizes the principal against the private policy (\<open>policy.py\<close>), resolves the request
  through the fixed registry (\<open>registry.py\<close>) into an execution plan, and records it in the SQLite ledger
  (\<open>state.py\<close>) in one transaction with its lease and budget facts (\<open>resources.py\<close>, \<open>budget.py\<close>,
  \<open>bootstrap_roots.py\<close>, \<open>quota_grant.py\<close>).  Observations of kernel quotas come back as bounded wire frames
  (\<open>quota_contract.py\<close>, \<open>quota_binding.py\<close>).  A node is taken out of service and back by the maintenance gate
  (\<open>maintenance.py\<close>), which admits responsibilities; the startup selection (\<open>startup.py\<close>) says which
  configuration may listen under the gate; a deployment (\<open>admin/local_hand_deploy\<close>) plans ordered actions and
  drives both through durable operation records.

  \<^bold>\<open>Theories.\<close>  In the order of the imports:
  \<^item> \<open>Prelude\<close>: exceptions as values of \<open>exn\<close>, results \<open>exn + 'a\<close>, Python strings as lists of code points.
  \<^item> \<open>Json\<close>, \<open>JsonText\<close>, \<open>JsonRoundtrip\<close>: Python objects of the json module, the canonical printer and the
    decoder with its hooks; the round trip, and that the fuel of the decoder (twice the length of the text plus
    one) is always enough.  \<open>Sha256\<close>: \<open>hashlib.sha256\<close> on 32-bit words.
  \<^item> \<open>Paths\<close> (\<open>local_hand/paths.py\<close>), \<open>Contract\<close> and \<open>ContractProps\<close> (\<open>contract.py\<close>): the strict decoder, the
    schemas and validators; what an accepted submission is, that its digest binds its content, idempotence.
  \<^item> \<open>Bounds\<close> (\<open>forwarded_bounds.py\<close>): a forwarded request is narrowed to the bounds of its principal.
  \<^item> \<open>Ledger\<close>, \<open>LedgerProps\<close>, \<open>LedgerHistory\<close> (\<open>state.py\<close>): tables, operations over an explicit store,
    transactions with every SQLite failure as input; durability of updates, atomicity, append-only history.
  \<^item> \<open>Resources\<close> (\<open>resources.py\<close>): aliases and leases; the locale \<open>lease_table\<close> is interpreted for the table.
  \<^item> \<open>Budget\<close>, \<open>BudgetProps\<close> (\<open>budget.py\<close>): shares, grants, reservation; shares add up to at most the budget.
  \<^item> \<open>QuotaContract\<close>, \<open>QuotaProps\<close> (\<open>quota_contract.py\<close>); \<open>QuotaGrant\<close>, \<open>GrantProps\<close> (\<open>quota_grant.py\<close>);
    \<open>QuotaBinding\<close>, \<open>PipeProps\<close> (\<open>quota_binding.py\<close>): wire facts, permanent accounting, the receipt pipe.
  \<^item> \<open>Bootstrap\<close>, \<open>BootstrapProps\<close> (\<open>bootstrap_roots.py\<close>): one-use directories and their consumption.
  \<^item> \<open>ManagerBinding\<close> (\<open>manager_binding.py\<close>); \<open>Policy\<close>, \<open>PolicyProps\<close> (\<open>policy.py\<close>); \<open>LedgerPlan\<close>
    (\<open>ledger_jobs.py\<close>, \<open>workspace_jobs.py\<close>, \<open>local_a2_jobs.py\<close>); \<open>Registry\<close> (\<open>registry.py\<close>).
  \<^item> \<open>Broker\<close> (the admission side of \<open>broker.py\<close>), \<open>BrokerProps\<close> (triples for every operation), \<open>Admission\<close>
    (refinement of an abstract register, revocation, replay, visibility), \<open>Retention\<close> (the retained-bytes
    bound), \<open>CancelProps\<close> (cancellation takes effect).
  \<^item> \<open>Maintenance\<close>, \<open>MaintenanceProps\<close>, \<open>Barrier\<close> (\<open>maintenance.py\<close>): the gate over the content of \<open>gate.json\<close>; the
    abstract barrier, its refinement by every call (locale \<open>gate_operation\<close>, interpreted for each change) and
    what holds along every history.
  \<^item> \<open>Startup\<close>, \<open>StartupProps\<close>, \<open>StartupHistory\<close> (\<open>startup.py\<close>): the descriptor, its publication and the admission of
    components under the lock of the gate; the abstract register of claims and the composition with the gate.
  \<^item> \<open>Deploy\<close>, \<open>DeployProps\<close> (\<open>model.py\<close>, \<open>planner.py\<close> of the deployment): sealed plans, the order of services and
    actions.  \<open>DeployPlan\<close>, \<open>PlanProps\<close> (the rest of \<open>planner.py\<close>, with the validation of gateway checks in
    \<open>http_observation.py\<close>): profiles and the construction of a plan over the record \<open>planning\<close> of what is observed;
    built plans stand in the fixed order, which sealing keeps.
  \<^item> \<open>DeployStore\<close>, \<open>StoreProps\<close> (\<open>store.py\<close> of the deployment): operations and events as rows of an open database,
    with the outcome of every transaction as input; the recovery reserve, the binding of requests, atomic links.
    Invariants of the rows are instances of the locale \<open>store_invariant\<close>.
  \<^item> \<open>Coordinator\<close>, \<open>CoordinatorProps\<close> (\<open>coordinator.py\<close>): the resume protocol, over the environment it is constructed
    with as a record of functions; the locales \<open>stepping\<close> and \<open>coordinated\<close> carry a relation through every statement of
    it, and a monitor on \<open>execute\<close> states that no effect is dispatched without its durable intent.

  \<^bold>\<open>Correspondence.\<close>  A definition has the name of the Python function it models, or that name with a short
  prefix where it would clash.  Documents are values of the type \<open>json\<close> and dictionaries keep their insertion
  order; \<open>jeq\<close> is Python's equality on them.  A \<open>raise\<close> is a value of \<open>exn\<close>; for the errors of the standard library
  only the class is kept.  State is passed explicitly: the store of the ledger (\<open>act\<close>), the broker with its policy
  and rates (\<open>bact\<close>), the bytes of a protected file.  What the operating system, SQLite or a clock does in a call
  is an argument, and the theorems quantify over it.  The Unicode tables behind \<open>paths.py\<close> are the record \<open>udb\<close>.

  \<^bold>\<open>Termination.\<close>  Recursion is structural or has a measure (\<open>utf8_decode\<close>, the alias walk \<open>canonical_from\<close>, the
  service loop \<open>order_loop\<close>); the decoder of JSON runs on fuel with a proof that it suffices
  (\<open>loads_fuel_enough\<close>), so no result is lost to it.

  \<^bold>\<open>Not modelled.\<close>  Floats are kept as their text; \<open>int()\<close> has no limit of 4300 digits.  The protected opening of
  files and directories, mount tables, sockets and the checks of the SQLite file are system calls: their outcome is
  an input.  Left out are the runner and the helpers it supervises, evidence and archives, the quota helpers and
  the privileged observer, the system manager, the deployment adapters for files, units and containers, the
  mailbox worker, the MCP servers, the command lines and the acceptance tools: they are processes, file
  descriptors, sockets, D-Bus and HTTP, where a model of this kind would be a model of the system calls and
  not of the code.  Of the modelled files: the paged capability listing and the file loading of \<open>policy.py\<close>, the
  dispatcher and evidence handling of \<open>broker.py\<close>, \<open>process_proof\<close> of \<open>maintenance.py\<close>, the handshakes of
  \<open>startup.py\<close> and the requests of \<open>http_observation.py\<close>.
\<close>

end
